(* ===== verification/Go_Strings.thy ===== *)
theory Go_Strings
  imports Kf_Prelude
begin

text \<open>
  The string operations of Go's standard library that the modelled code calls. A Go string is
  a sequence of bytes, here a \<open>string\<close> of \<open>char\<close>s (bytes); text outside ASCII is its
  UTF-8 encoding, written with \<open>utf8\<close> from code points.

  \<open>trim_space\<close> and \<open>fields\<close> follow Unicode's white space exactly as
  \<^verbatim>\<open>strings.TrimSpace\<close> and \<^verbatim>\<open>strings.Fields\<close> do: no encoding of a white
  space character occurs inside the encoding of another character, so matching encodings
  byte-wise is matching decoded runes. \<open>runes\<close> follows Go's decoder: a byte that starts no
  valid encoding is one rune, U+FFFD. \<open>to_lower\<close> maps the ASCII letters, as
  \<^verbatim>\<open>strings.ToLower\<close> does on ASCII text and on text whose other characters have no
  case (the Chinese text of this program); cased letters outside ASCII stay as they are, which
  is the one bound of the model.
\<close>

section \<open>UTF-8\<close>

abbreviation byte_val :: "char \<Rightarrow> nat" where
  "byte_val \<equiv> of_char"

definition utf8_1 :: "nat \<Rightarrow> string" where
  "utf8_1 c =
    (if c < 0x80 then [char_of c]
     else if c < 0x800 then [char_of (0xC0 + c div 64), char_of (0x80 + c mod 64)]
     else if c < 0x10000 then
       [char_of (0xE0 + c div 4096), char_of (0x80 + c div 64 mod 64), char_of (0x80 + c mod 64)]
     else [char_of (0xF0 + c div 262144), char_of (0x80 + c div 4096 mod 64),
           char_of (0x80 + c div 64 mod 64), char_of (0x80 + c mod 64)])"

definition utf8 :: "nat list \<Rightarrow> string" where
  "utf8 cs = concat (map utf8_1 cs)"

definition in_range :: "nat \<Rightarrow> nat \<Rightarrow> char \<Rightarrow> bool" where
  "in_range lo hi c \<longleftrightarrow> lo \<le> byte_val c \<and> byte_val c \<le> hi"

abbreviation is_cont :: "char \<Rightarrow> bool" where
  "is_cont \<equiv> in_range 0x80 0xBF"

text \<open>The length of the valid encoding at the head of a string, 0 where there is none.\<close>

fun enc_len :: "string \<Rightarrow> nat" where
  "enc_len [] = 0"
| "enc_len (a # s) =
    (if byte_val a < 0x80 then 1
     else case s of
       [] \<Rightarrow> 0
     | b # s2 \<Rightarrow>
         if in_range 0xC2 0xDF a then (if is_cont b then 2 else 0)
         else (case s2 of
           [] \<Rightarrow> 0
         | c # s3 \<Rightarrow>
             if in_range 0xE0 0xEF a then
               (if is_cont c \<and>
                   (if byte_val a = 0xE0 then in_range 0xA0 0xBF b
                    else if byte_val a = 0xED then in_range 0x80 0x9F b
                    else is_cont b)
                then 3 else 0)
             else (case s3 of
               [] \<Rightarrow> 0
             | d # _ \<Rightarrow>
                 if in_range 0xF0 0xF4 a \<and> is_cont c \<and> is_cont d \<and>
                    (if byte_val a = 0xF0 then in_range 0x90 0xBF b
                     else if byte_val a = 0xF4 then in_range 0x80 0x8F b
                     else is_cont b)
                 then 4 else 0)))"

definition rune_error :: string where
  "rune_error = [CHR 0xEF, CHR 0xBF, CHR 0xBD]"

text \<open>\<^verbatim>\<open>[]rune(s)\<close>, each rune given by the bytes it is written back with.\<close>

function runes :: "string \<Rightarrow> string list" where
  "runes s =
    (if s = [] then []
     else if enc_len s = 0 then rune_error # runes (tl s)
     else take (enc_len s) s # runes (drop (enc_len s) s))"
  by pat_completeness auto
termination
  by (relation "measure length") auto

declare runes.simps [simp del]

lemma runes_Nil [simp, go_str]: "runes [] = []"
  by (simp add: runes.simps)

lemma runes_ascii_Cons: "byte_val c < 0x80 \<Longrightarrow> runes (c # s) = [c] # runes s"
  by (simp add: runes.simps [of "c # s"])

lemma length_runes_le: "length (runes s) \<le> length s"
proof (induction s rule: runes.induct)
  case (1 s)
  show ?case
  proof (cases "s = []")
    case False
    then have pos: "0 < length s" by simp
    show ?thesis
    proof (cases "enc_len s = 0")
      case True
      with False 1(1) have "length (runes (tl s)) \<le> length s - 1" by simp
      with True False pos have "Suc (length (runes (tl s))) \<le> length s" by linarith
      with True False show ?thesis by (simp add: runes.simps [of s])
    next
      case f: False
      with \<open>s \<noteq> []\<close> 1(2) have "length (runes (drop (enc_len s) s)) \<le> length s - enc_len s"
        by simp
      with f pos have "Suc (length (runes (drop (enc_len s) s))) \<le> length s" by linarith
      with f \<open>s \<noteq> []\<close> show ?thesis by (simp add: runes.simps [of s])
    qed
  qed simp
qed

definition ellipsis :: string where
  "ellipsis = [CHR 0xE2, CHR 0x80, CHR 0xA6]"

text \<open>
  \<^verbatim>\<open>truncate\<close> of the agent's core package: at most \<open>n\<close> runes, with an ellipsis
  where something was cut.
\<close>

definition truncate_runes :: "string \<Rightarrow> nat \<Rightarrow> string" where
  "truncate_runes s n = (if length (runes s) \<le> n then s else concat (take n (runes s)) @ ellipsis)"

section \<open>White space\<close>

definition ws_units :: "string list" where
  "ws_units =
    [[CHR 0x20], [CHR 0x09], [CHR 0x0A], [CHR 0x0B], [CHR 0x0C], [CHR 0x0D],
     [CHR 0xC2, CHR 0x85], [CHR 0xC2, CHR 0xA0], [CHR 0xE1, CHR 0x9A, CHR 0x80]]
    @ map (\<lambda>b. [CHR 0xE2, CHR 0x80, b])
        [CHR 0x80, CHR 0x81, CHR 0x82, CHR 0x83, CHR 0x84, CHR 0x85, CHR 0x86, CHR 0x87,
         CHR 0x88, CHR 0x89, CHR 0x8A, CHR 0xA8, CHR 0xA9, CHR 0xAF]
    @ [[CHR 0xE2, CHR 0x81, CHR 0x9F], [CHR 0xE3, CHR 0x80, CHR 0x80]]"

definition ws_head :: "string \<Rightarrow> nat" where
  "ws_head s = (case find (\<lambda>u. prefix u s) ws_units of None \<Rightarrow> 0 | Some u \<Rightarrow> length u)"

definition ws_tail :: "string \<Rightarrow> nat" where
  "ws_tail s = (case find (\<lambda>u. suffix u s) ws_units of None \<Rightarrow> 0 | Some u \<Rightarrow> length u)"

lemma ws_units_nonempty: "u \<in> set ws_units \<Longrightarrow> 0 < length u"
  by (auto simp: ws_units_def)

lemma ws_head_0: "ws_head s = 0 \<longleftrightarrow> (\<forall>u \<in> set ws_units. \<not> prefix u s)"
proof (cases "find (\<lambda>u. prefix u s) ws_units")
  case None
  then have "\<forall>u \<in> set ws_units. \<not> prefix u s" by (metis find_None_iff)
  with None show ?thesis by (simp add: ws_head_def)
next
  case (Some u)
  then have "u \<in> set ws_units" "prefix u s"
    by (auto simp: find_Some_iff)
  with Some show ?thesis
    using ws_units_nonempty [of u] by (auto simp: ws_head_def)
qed

lemma ws_tail_0: "ws_tail s = 0 \<longleftrightarrow> (\<forall>u \<in> set ws_units. \<not> suffix u s)"
proof (cases "find (\<lambda>u. suffix u s) ws_units")
  case None
  then have "\<forall>u \<in> set ws_units. \<not> suffix u s" by (metis find_None_iff)
  with None show ?thesis by (simp add: ws_tail_def)
next
  case (Some u)
  then have "u \<in> set ws_units" "suffix u s"
    by (auto simp: find_Some_iff)
  with Some show ?thesis
    using ws_units_nonempty [of u] by (auto simp: ws_tail_def)
qed

lemma ws_head_Nil [simp, go_str]: "ws_head [] = 0"
  using ws_units_nonempty by (auto simp: ws_head_0)

lemma ws_tail_Nil [simp, go_str]: "ws_tail [] = 0"
  using ws_units_nonempty by (auto simp: ws_tail_0)

function trim_left :: "string \<Rightarrow> string" where
  "trim_left s = (if ws_head s = 0 then s else trim_left (drop (ws_head s) s))"
  by pat_completeness auto
termination
  by (relation "measure length") (auto, (case_tac s; simp)+)

function trim_right :: "string \<Rightarrow> string" where
  "trim_right s = (if ws_tail s = 0 then s else trim_right (take (length s - ws_tail s) s))"
  by pat_completeness auto
termination
  by (relation "measure length") (auto, (case_tac s; simp)+)

declare trim_left.simps [simp del] trim_right.simps [simp del]

definition trim_space :: "string \<Rightarrow> string" where
  "trim_space s = trim_right (trim_left s)"

lemma ws_head_trim_left [simp]: "ws_head (trim_left s) = 0"
  by (induction s rule: trim_left.induct) (metis trim_left.simps)

lemma ws_tail_trim_right [simp]: "ws_tail (trim_right s) = 0"
  by (induction s rule: trim_right.induct) (metis trim_right.simps)

lemma trim_left_id: "ws_head s = 0 \<Longrightarrow> trim_left s = s"
  by (simp add: trim_left.simps [of s])

lemma trim_right_id: "ws_tail s = 0 \<Longrightarrow> trim_right s = s"
  by (simp add: trim_right.simps [of s])

lemma prefix_trim_right: "prefix (trim_right s) s"
proof (induction s rule: trim_right.induct)
  case (1 s)
  show ?case
  proof (cases "ws_tail s = 0")
    case False
    with 1 have "prefix (trim_right (take (length s - ws_tail s) s)) (take (length s - ws_tail s) s)"
      by simp
    also have "prefix (take (length s - ws_tail s) s) s" by (rule take_is_prefix)
    finally show ?thesis using False by (simp add: trim_right.simps [of s])
  qed (simp add: trim_right_id)
qed

lemma suffix_trim_left: "suffix (trim_left s) s"
proof (induction s rule: trim_left.induct)
  case (1 s)
  show ?case
  proof (cases "ws_head s = 0")
    case False
    with 1 have "suffix (trim_left (drop (ws_head s) s)) (drop (ws_head s) s)" by simp
    also have "suffix (drop (ws_head s) s) s" by (rule suffix_drop)
    finally show ?thesis using False by (simp add: trim_left.simps [of s])
  qed (simp add: trim_left_id)
qed

lemma ws_head_prefix: "prefix p s \<Longrightarrow> ws_head s = 0 \<Longrightarrow> ws_head p = 0"
  by (auto simp: ws_head_0 dest: prefix_order.trans)

text \<open>Trimming leaves no white space at either end, so a second trim changes nothing.\<close>

lemma ws_head_trim_space [simp]: "ws_head (trim_space s) = 0"
  unfolding trim_space_def by (rule ws_head_prefix [OF prefix_trim_right]) simp

lemma ws_tail_trim_space [simp]: "ws_tail (trim_space s) = 0"
  by (simp add: trim_space_def)

lemma trim_space_id: "ws_head s = 0 \<Longrightarrow> ws_tail s = 0 \<Longrightarrow> trim_space s = s"
  by (simp add: trim_space_def trim_left_id trim_right_id)

lemma trim_space_idem [simp, go_str]: "trim_space (trim_space s) = trim_space s"
  by (simp add: trim_space_id)

lemma trim_space_Nil [simp, go_str]: "trim_space [] = []"
  by (simp add: trim_space_id)

lemma trim_right_Nil: "trim_right s = [] \<Longrightarrow> s \<noteq> [] \<Longrightarrow> ws_head s \<noteq> 0"
proof (induction s rule: trim_right.induct)
  case (1 s)
  show ?case
  proof (cases "ws_tail s = 0")
    case True
    with 1(2,3) show ?thesis by (simp add: trim_right.simps)
  next
    case False
    let ?p = "take (length s - ws_tail s) s"
    have nil: "trim_right ?p = []" using 1(2) False by (metis trim_right.simps)
    show ?thesis
    proof (cases "?p = []")
      case True
      from False obtain u where "u \<in> set ws_units" "suffix u s" "ws_tail s = length u"
        by (auto simp: ws_tail_def find_Some_iff in_set_conv_nth split: option.splits)
      moreover from this True 1(3) have "u = s"
        by (auto simp: suffix_def)
      ultimately show ?thesis by (auto simp: ws_head_0)
    next
      case pre: False
      have "ws_head ?p \<noteq> 0" using 1(1) [OF False nil pre] .
      then show ?thesis using ws_head_prefix [of ?p s] by (metis take_is_prefix)
    qed
  qed
qed

lemma trim_space_not_Nil: "ws_head s = 0 \<Longrightarrow> s \<noteq> [] \<Longrightarrow> trim_space s \<noteq> []"
  using trim_right_Nil by (metis trim_left_id trim_space_def)

lemma trim_space_fixed: "trim_space s = s \<longleftrightarrow> ws_head s = 0 \<and> ws_tail s = 0"
  by (metis trim_space_id ws_head_trim_space ws_tail_trim_space)

lemma length_trim_space_le: "length (trim_space s) \<le> length s"
  using prefix_length_le [OF prefix_trim_right [of "trim_left s"]]
    suffix_length_le [OF suffix_trim_left [of s]]
  by (simp add: trim_space_def)

text \<open>A byte that no white space contains protects everything before it from being trimmed.\<close>

lemma trim_right_keeps:
  assumes "\<forall>u \<in> set ws_units. c \<notin> set u"
  shows "prefix (p @ [c]) s \<Longrightarrow> prefix (p @ [c]) (trim_right s)"
proof (induction s rule: trim_right.induct)
  case (1 s)
  show ?case
  proof (cases "ws_tail s = 0")
    case False
    then obtain u where u: "u \<in> set ws_units" "suffix u s" "ws_tail s = length u"
      by (auto simp: ws_tail_def find_Some_iff in_set_conv_nth split: option.splits)
    then obtain t where t: "s = t @ u" by (auto simp: suffix_def)
    have "prefix (p @ [c]) t"
    proof (rule ccontr)
      assume "\<not> prefix (p @ [c]) t"
      with 1(2) t obtain v where "p @ [c] = t @ v" "v \<noteq> []" "prefix v u"
        by (auto simp: prefix_append)
      then have "c \<in> set u" by (metis in_set_conv_decomp last_appendR last_in_set last_snoc prefix_def Un_iff set_append)
      with assms u(1) show False by blast
    qed
    moreover have "trim_right s = trim_right t" using t u(3) False by (subst trim_right.simps) simp
    ultimately show ?thesis using 1(1) [OF False] t u(3) by simp
  qed (use 1 in \<open>simp add: trim_right_id\<close>)
qed

lemma trim_space_keeps:
  "\<forall>u \<in> set ws_units. c \<notin> set u \<Longrightarrow> ws_head s = 0 \<Longrightarrow> prefix (p @ [c]) s \<Longrightarrow> prefix (p @ [c]) (trim_space s)"
  by (simp add: trim_space_def trim_left_id trim_right_keeps)

text \<open>\<^verbatim>\<open>strings.Fields\<close>: the maximal runs without white space.\<close>

function fields_acc :: "string \<Rightarrow> string \<Rightarrow> string list" where
  "fields_acc acc s =
    (if s = [] then (if acc = [] then [] else [rev acc])
     else if ws_head s = 0 then fields_acc (hd s # acc) (tl s)
     else (if acc = [] then [] else [rev acc]) @ fields_acc [] (drop (ws_head s) s))"
  by pat_completeness auto
termination
  by (relation "measure (\<lambda>(acc, s). length s)") auto

declare fields_acc.simps [simp del]

definition fields :: "string \<Rightarrow> string list" where
  "fields s = fields_acc [] s"

lemma fields_acc_nonempty: "f \<in> set (fields_acc acc s) \<Longrightarrow> f \<noteq> []"
proof (induction acc s rule: fields_acc.induct)
  case (1 acc s)
  then show ?case
    by (subst (asm) (3) fields_acc.simps) (auto split: if_splits)
qed

lemma fields_nonempty: "f \<in> set (fields s) \<Longrightarrow> f \<noteq> []"
  by (simp add: fields_def fields_acc_nonempty)

section \<open>Splitting, joining, searching\<close>

fun join :: "string \<Rightarrow> string list \<Rightarrow> string" where
  "join sep [] = []"
| "join sep [x] = x"
| "join sep (x # y # ys) = x @ sep @ join sep (y # ys)"

text \<open>\<^verbatim>\<open>strings.Split\<close> at a separator of one byte.\<close>

fun split_on :: "char \<Rightarrow> string \<Rightarrow> string list" where
  "split_on c [] = [[]]"
| "split_on c (x # xs) =
    (if x = c then [] # split_on c xs
     else case split_on c xs of [] \<Rightarrow> [[x]] | y # ys \<Rightarrow> (x # y) # ys)"

fun contains :: "string \<Rightarrow> string \<Rightarrow> bool" where
  "contains [] sub = (sub = [])"
| "contains (c # s) sub = (prefix sub (c # s) \<or> contains s sub)"

fun index_byte :: "char \<Rightarrow> string \<Rightarrow> nat option" where
  "index_byte c [] = None"
| "index_byte c (x # xs) = (if x = c then Some 0 else map_option Suc (index_byte c xs))"

definition replace_byte :: "char \<Rightarrow> char \<Rightarrow> string \<Rightarrow> string" where
  "replace_byte a b s = map (\<lambda>c. if c = a then b else c) s"

definition trim_prefix :: "string \<Rightarrow> string \<Rightarrow> string" where
  "trim_prefix p s = (if prefix p s then drop (length p) s else s)"

definition lower_char :: "char \<Rightarrow> char" where
  "lower_char c = (if 65 \<le> byte_val c \<and> byte_val c \<le> 90 then char_of (byte_val c + 32) else c)"

definition to_lower :: "string \<Rightarrow> string" where
  "to_lower s = map lower_char s"

lemma split_on_nonempty [simp]: "split_on c s \<noteq> []"
  by (induction s) (auto split: list.splits)

lemma split_on_no_sep: "c \<notin> set s \<Longrightarrow> split_on c s = [s]"
  by (induction s) auto

lemma split_on_append_sep: "c \<notin> set s \<Longrightarrow> split_on c (s @ c # t) = s # split_on c t"
  by (induction s) (auto split: list.splits)

lemma split_on_no_sep_elem: "x \<in> set (split_on c s) \<Longrightarrow> c \<notin> set x"
  by (induction s arbitrary: x) (fastforce split: list.splits if_splits)+

lemma join_split_on: "join [c] (split_on c s) = s"
proof (induction s)
  case (Cons x xs)
  show ?case
  proof (cases "split_on c xs")
    case (Cons y ys)
    with Cons.IH show ?thesis by (cases ys) auto
  qed simp
qed simp

lemma contains_iff_sublist: "contains s sub \<longleftrightarrow> sublist sub s"
  by (induction s) (auto simp: sublist_Cons_right)

lemma index_byte_Some: "index_byte c s = Some i \<Longrightarrow> i < length s \<and> s ! i = c \<and> c \<notin> set (take i s)"
  by (induction s arbitrary: i) (auto split: if_splits)

lemma index_byte_None: "index_byte c s = None \<longleftrightarrow> c \<notin> set s"
  by (induction s) auto

lemma replace_byte_idem: "a \<noteq> b \<Longrightarrow> a \<notin> set (replace_byte a b s)"
  by (auto simp: replace_byte_def)

lemma replace_byte_inverse: "b \<notin> set s \<Longrightarrow> replace_byte b a (replace_byte a b s) = s"
  by (induction s) (auto simp: replace_byte_def)

lemma prefix_replace_byte:
  "a \<notin> set u \<Longrightarrow> b \<notin> set u \<Longrightarrow> prefix u (replace_byte a b s) \<longleftrightarrow> prefix u s"
proof (induction u arbitrary: s)
  case (Cons x u)
  then show ?case by (cases s) (auto simp: replace_byte_def)
qed simp

lemma rev_replace_byte: "rev (replace_byte a b s) = replace_byte a b (rev s)"
  by (simp add: replace_byte_def rev_map)

lemma suffix_replace_byte:
  "a \<notin> set u \<Longrightarrow> b \<notin> set u \<Longrightarrow> suffix u (replace_byte a b s) \<longleftrightarrow> suffix u s"
  by (simp add: suffix_to_prefix rev_replace_byte prefix_replace_byte)

lemma trim_space_replace_byte:
  assumes "\<forall>u \<in> set ws_units. a \<notin> set u \<and> b \<notin> set u"
  shows "trim_space (replace_byte a b s) = replace_byte a b s \<longleftrightarrow> trim_space s = s"
  using assms
  by (simp add: trim_space_fixed ws_head_0 ws_tail_0 prefix_replace_byte suffix_replace_byte)

lemma replace_byte_Nil_iff [simp]: "replace_byte a b s = [] \<longleftrightarrow> s = []"
  by (simp add: replace_byte_def)

lemma lower_char_idem: "lower_char (lower_char c) = lower_char c"
  by (auto simp: lower_char_def)

lemma to_lower_idem [simp, go_str]: "to_lower (to_lower s) = to_lower s"
  by (simp add: to_lower_def lower_char_idem)

lemma to_lower_Nil [simp, go_str]: "to_lower [] = []"
  by (simp add: to_lower_def)

section \<open>Decimal numerals\<close>

fun digit :: "nat \<Rightarrow> char" where
  "digit n = char_of (48 + n)"

fun nat_to_string :: "nat \<Rightarrow> string" where
  "nat_to_string n = (if n < 10 then [digit n] else nat_to_string (n div 10) @ [digit (n mod 10)])"

declare nat_to_string.simps [simp del]

text \<open>\<^verbatim>\<open>strconv.Itoa\<close> and \<^verbatim>\<open>strconv.FormatInt(_, 10)\<close>.\<close>

definition itoa :: "int \<Rightarrow> string" where
  "itoa i = (if i < 0 then CHR ''-'' # nat_to_string (nat (- i)) else nat_to_string (nat i))"

end
