(* ===== verification/Go_Errors.thy ===== *)
theory Go_Errors
  imports Go_Strings
begin

text \<open>
  Go errors and \<^verbatim>\<open>internal/shared/errors\<close>: the error values the program creates or
  inspects, the chain that \<^verbatim>\<open>errors.Is\<close> and \<^verbatim>\<open>errors.As\<close> walk,
  \<^verbatim>\<open>AppError\<close>, and the two functions that turn an error into the response the
  client sees (\<^verbatim>\<open>From\<close>, \<^verbatim>\<open>MapRepository\<close>).
  A nil error is \<open>None\<close>.
\<close>

section \<open>Error values\<close>

text \<open>
  \<open>ErrMsg\<close> is \<^verbatim>\<open>errors.New\<close>, \<open>ErrWrap\<close> is \<^verbatim>\<open>fmt.Errorf\<close> with
  \<^verbatim>\<open>%w\<close> at the end, \<open>ErrApp\<close> is \<^verbatim>\<open>*AppError\<close> (code, message, status, cause)
  and \<open>ErrProvider\<close> is \<^verbatim>\<open>*llm.ProviderError\<close> (provider, status, message, cause).
  The others are the sentinels and library error types the code compares with.
\<close>

datatype go_error =
    ErrMsg string
  | ErrWrap string go_error
  | ErrCanceled
  | ErrDeadlineExceeded
  | ErrEOF
  | ErrRecordNotFound
  | ErrDuplicatedKey
  | ErrUnauthorized
  | ErrValidation string
  | ErrJsonSyntax string
  | ErrJsonType string
  | ErrApp int string int "go_error option"
  | ErrProvider string int string "go_error option"

text \<open>A function that returns \<^verbatim>\<open>(T, error)\<close>.\<close>

type_synonym 'a go_result = "go_error + 'a"

fun unwrap :: "go_error \<Rightarrow> go_error option" where
  "unwrap (ErrWrap _ e) = Some e"
| "unwrap (ErrApp _ _ _ e) = e"
| "unwrap (ErrProvider _ _ _ e) = e"
| "unwrap _ = None"

fun err_chain :: "go_error \<Rightarrow> go_error list" where
  "err_chain (ErrWrap p e) = ErrWrap p e # err_chain e"
| "err_chain (ErrApp c m s (Some e)) = ErrApp c m s (Some e) # err_chain e"
| "err_chain (ErrProvider p s m (Some e)) = ErrProvider p s m (Some e) # err_chain e"
| "err_chain e = [e]"

lemma err_chain_unwrap:
  "err_chain e = e # (case unwrap e of None \<Rightarrow> [] | Some e' \<Rightarrow> err_chain e')"
  by (cases e rule: err_chain.cases) auto

definition err_is :: "go_error \<Rightarrow> go_error \<Rightarrow> bool" where
  "err_is e target \<longleftrightarrow> target \<in> set (err_chain e)"

lemma err_is_refl [simp]: "err_is e e"
  by (simp add: err_is_def err_chain_unwrap [of e])

lemma err_is_wrap [simp]: "err_is (ErrWrap p e) t \<longleftrightarrow> t = ErrWrap p e \<or> err_is e t"
  by (auto simp: err_is_def)

section \<open>AppError\<close>

record app_error =
  app_code :: int
  app_message :: string
  app_status :: int
  app_cause :: "go_error option"

definition app_to_error :: "app_error \<Rightarrow> go_error" where
  "app_to_error a = ErrApp (app_code a) (app_message a) (app_status a) (app_cause a)"

abbreviation "CodeSuccess \<equiv> (20000::int)"
abbreviation "CodeInternal \<equiv> (30000::int)"
abbreviation "CodeBadRequest \<equiv> (30001::int)"
abbreviation "CodeValidation \<equiv> (30001::int)"
abbreviation "CodeUnauthorized \<equiv> (30002::int)"
abbreviation "CodeForbidden \<equiv> (30003::int)"
abbreviation "CodeNotFound \<equiv> (30004::int)"
abbreviation "CodeConflict \<equiv> (30005::int)"
abbreviation "CodeTimeout \<equiv> (30006::int)"
abbreviation "CodeTooManyRequests \<equiv> (30007::int)"
abbreviation "CodeUserNotFound \<equiv> (40101::int)"
abbreviation "CodeUserAlreadyExists \<equiv> (40102::int)"

text \<open>\<^verbatim>\<open>Error()\<close> of each error value.\<close>

fun error_text :: "go_error \<Rightarrow> string" where
  "error_text (ErrMsg s) = s"
| "error_text (ErrWrap p e) = p @ error_text e"
| "error_text ErrCanceled = ''context canceled''"
| "error_text ErrDeadlineExceeded = ''context deadline exceeded''"
| "error_text ErrEOF = ''EOF''"
| "error_text ErrRecordNotFound = ''record not found''"
| "error_text ErrDuplicatedKey = ''duplicated key not allowed''"
| "error_text ErrUnauthorized = ''unauthorized''"
| "error_text (ErrValidation s) = s"
| "error_text (ErrJsonSyntax s) = s"
| "error_text (ErrJsonType s) = s"
| "error_text (ErrApp c m s None) = (if m \<noteq> [] then m else itoa c)"
| "error_text (ErrApp c m s (Some e)) = (if m \<noteq> [] then m else error_text e)"
| "error_text (ErrProvider p s m _) =
     (if 0 < s then p @ '': '' @ m @ '' ('' @ itoa s @ '')'' else p @ '': '' @ m)"

section \<open>From\<close>

fun as_app :: "go_error \<Rightarrow> app_error option" where
  "as_app (ErrApp c m s e) =
     Some \<lparr>app_code = c, app_message = m, app_status = s, app_cause = e\<rparr>"
| "as_app _ = None"

fun as_validation :: "go_error \<Rightarrow> string option" where
  "as_validation (ErrValidation s) = Some s"
| "as_validation _ = None"

fun is_json_error :: "go_error \<Rightarrow> bool" where
  "is_json_error (ErrJsonSyntax _) = True"
| "is_json_error (ErrJsonType _) = True"
| "is_json_error _ = False"

definition error_from :: "go_error option \<Rightarrow> app_error option" where
  "error_from err = (case err of None \<Rightarrow> None | Some e \<Rightarrow>
     (case first_some as_app (err_chain e) of Some a \<Rightarrow> Some a
      | None \<Rightarrow>
     (case first_some as_validation (err_chain e) of
        Some s \<Rightarrow> Some \<lparr>app_code = CodeValidation, app_message = s, app_status = 400,
                        app_cause = Some e\<rparr>
      | None \<Rightarrow>
     if \<exists>x \<in> set (err_chain e). is_json_error x then
       Some \<lparr>app_code = CodeBadRequest, app_message = ''invalid request body'',
             app_status = 400, app_cause = Some e\<rparr>
     else if err_is e ErrEOF then
       Some \<lparr>app_code = CodeBadRequest, app_message = ''request body is required'',
             app_status = 400, app_cause = Some e\<rparr>
     else if err_is e ErrDeadlineExceeded then
       Some \<lparr>app_code = CodeTimeout, app_message = ''request timed out'',
             app_status = 504, app_cause = Some e\<rparr>
     else if err_is e ErrRecordNotFound then
       Some \<lparr>app_code = CodeNotFound, app_message = ''resource not found'',
             app_status = 404, app_cause = Some e\<rparr>
     else if err_is e ErrDuplicatedKey then
       Some \<lparr>app_code = CodeConflict, app_message = ''resource already exists'',
             app_status = 409, app_cause = Some e\<rparr>
     else
       Some \<lparr>app_code = CodeInternal, app_message = ''internal server error'',
             app_status = 500, app_cause = Some e\<rparr>)))"

section \<open>MapRepository\<close>

record repository_error_options =
  not_found_code :: int
  not_found_message :: string
  conflict_code :: int
  conflict_message :: string

definition mentions_not_found :: "go_error \<Rightarrow> bool" where
  "mentions_not_found e \<longleftrightarrow>
     err_is e ErrRecordNotFound \<or> contains (to_lower (error_text e)) ''not found''"

definition map_repository ::
  "go_error option \<Rightarrow> repository_error_options \<Rightarrow> go_error option" where
  "map_repository err opts = (case err of None \<Rightarrow> None | Some e \<Rightarrow>
     if mentions_not_found e then
       Some (ErrApp (if not_found_code opts = 0 then CodeNotFound else not_found_code opts)
                    (not_found_message opts) 404 (Some e))
     else if conflict_message opts \<noteq> [] \<and> err_is e ErrDuplicatedKey then
       Some (ErrApp (if conflict_code opts = 0 then CodeConflict else conflict_code opts)
                    (conflict_message opts) 409 (Some e))
     else Some e)"

section \<open>Facts\<close>

lemma error_from_app [simp]: "error_from (Some (app_to_error a)) = Some a"
  by (simp add: error_from_def app_to_error_def err_chain_unwrap [of "ErrApp _ _ _ _"])

lemma error_from_total: "error_from (Some e) \<noteq> None"
  by (auto simp: error_from_def split: option.splits)

text \<open>The first application error of the chain decides, however deeply it is wrapped.\<close>

lemma error_from_wrap_app: "error_from (Some (ErrWrap p (app_to_error a))) = Some a"
  by (simp add: error_from_def app_to_error_def err_chain_unwrap [of "ErrApp _ _ _ _"])

lemma error_from_idem:
  "error_from (Some e) = Some a \<Longrightarrow> error_from (Some (app_to_error a)) = error_from (Some e)"
  by simp

lemma map_repository_nil [simp]: "map_repository err opts = None \<longleftrightarrow> err = None"
  by (auto simp: map_repository_def split: option.splits)

end
