(* ===== verification/Tools.thy ===== *)
theory Tools
  imports Go_Errors "HOL-Library.Multiset"
begin

text \<open>
  Tool definitions, their overrides and the registry: \<^verbatim>\<open>agent/domain/tool.go\<close> and
  \<^verbatim>\<open>agent/application/internal/tool\<close> (\<^verbatim>\<open>registry.go\<close>, \<^verbatim>\<open>executor.go\<close>,
  \<^verbatim>\<open>providers.go\<close>). The registry's read-write lock makes each method one step. A
  provider is given by the answer it returns when it is asked. The table of built-in tools
  (\<^verbatim>\<open>defaultTools\<close>, data) is an argument.
\<close>

section \<open>Definitions and overrides\<close>

record tool_definition =
  td_id :: string
  td_name :: string
  td_category :: string
  td_description :: string
  td_read_only :: bool
  td_agent_types :: "string list"
  td_timeout_ms :: int
  td_max_bytes :: int
  td_observe_max_chars :: int
  td_source :: string
  td_origin :: string
  td_enabled :: bool
  td_overridden :: bool
  td_parameters :: string

record tool_override =
  ov_enabled :: "bool option"
  ov_description :: "string option"
  ov_timeout_ms :: "int option"
  ov_observe_max_chars :: "int option"
  ov_read_only :: "bool option"

abbreviation "TOOL_SOURCE_CLUSTER \<equiv> ''cluster''"
abbreviation "TOOL_SOURCE_MONITORING \<equiv> ''monitoring''"
abbreviation "TOOL_SOURCE_MCP \<equiv> ''mcp''"
abbreviation "TOOL_SOURCE_MCP_PREFIX \<equiv> ''mcp:''"
abbreviation "TOOL_ORIGIN_MCP \<equiv> ''mcp''"

definition apply_to :: "tool_override \<Rightarrow> tool_definition \<Rightarrow> tool_definition" where
  "apply_to ov t0 =
    (let t1 = (case ov_enabled ov of Some b \<Rightarrow> t0\<lparr>td_enabled := b\<rparr> | None \<Rightarrow> t0);
         t2 = (case ov_description ov of
                 Some d \<Rightarrow> (if trim_space d \<noteq> [] then t1\<lparr>td_description := trim_space d\<rparr> else t1)
               | None \<Rightarrow> t1);
         t3 = (case ov_timeout_ms ov of
                 Some n \<Rightarrow> (if n > 0 then t2\<lparr>td_timeout_ms := n\<rparr> else t2) | None \<Rightarrow> t2);
         t4 = (case ov_observe_max_chars ov of
                 Some n \<Rightarrow> (if n > 0 then t3\<lparr>td_observe_max_chars := n\<rparr> else t3) | None \<Rightarrow> t3)
     in case ov_read_only ov of Some b \<Rightarrow> t4\<lparr>td_read_only := b\<rparr> | None \<Rightarrow> t4)"

lemma apply_to_frame [simp]:
  "td_id (apply_to ov t) = td_id t" "td_agent_types (apply_to ov t) = td_agent_types t"
  "td_source (apply_to ov t) = td_source t" "td_parameters (apply_to ov t) = td_parameters t"
  by (simp_all add: apply_to_def Let_def split: option.splits)

lemma apply_to_enabled [simp]:
  "td_enabled (apply_to ov t) = (case ov_enabled ov of Some b \<Rightarrow> b | None \<Rightarrow> td_enabled t)"
  by (simp add: apply_to_def Let_def split: option.splits)

lemma apply_to_read_only [simp]:
  "td_read_only (apply_to ov t) = (case ov_read_only ov of Some b \<Rightarrow> b | None \<Rightarrow> td_read_only t)"
  by (simp add: apply_to_def Let_def split: option.splits)

section \<open>The registry\<close>

type_synonym tool_table = "(string, tool_definition) gmap"

record tool_registry =
  tr_base :: tool_table
  tr_overrides :: "(string, tool_override) gmap"
  tr_tools :: tool_table
  tr_last_good :: "(string, tool_definition list) gmap"

definition override_tool :: "(string, tool_override) gmap \<Rightarrow> string \<Rightarrow> tool_definition \<Rightarrow> tool_definition" where
  "override_tool ovs i t =
    (case gm_get ovs i of Some ov \<Rightarrow> (apply_to ov t)\<lparr>td_overridden := True\<rparr> | None \<Rightarrow> t)"

definition rebuild_locked :: "tool_registry \<Rightarrow> tool_registry" where
  "rebuild_locked r =
    r\<lparr>tr_tools := map (\<lambda>(i, t). (i, override_tool (tr_overrides r) i t)) (tr_base r)\<rparr>"

text \<open>One tool of a loading loop: the ID is trimmed, a blank one is skipped.\<close>

definition put_tool :: "tool_table \<Rightarrow> tool_definition \<Rightarrow> tool_table" where
  "put_tool next t =
    (let i = trim_space (td_id t) in
     if i = [] then next else gm_put i (t\<lparr>td_id := i\<rparr>) next)"

definition put_tools :: "tool_table \<Rightarrow> tool_definition list \<Rightarrow> tool_table" where
  "put_tools = foldl put_tool"

definition tr_register :: "tool_definition \<Rightarrow> tool_registry \<Rightarrow> tool_registry" where
  "tr_register t r =
    (if trim_space (td_id t) = [] then r
     else rebuild_locked (r\<lparr>tr_base := put_tool (tr_base r) t\<rparr>))"

definition put_override ::
  "(string, tool_override) gmap \<Rightarrow> string \<times> tool_override \<Rightarrow> (string, tool_override) gmap" where
  "put_override next p =
    (let i = trim_space (fst p) in if i = [] then next else gm_put i (snd p) next)"

definition set_overrides :: "(string \<times> tool_override) list \<Rightarrow> tool_registry \<Rightarrow> tool_registry" where
  "set_overrides ovs r = rebuild_locked (r\<lparr>tr_overrides := foldl put_override [] ovs\<rparr>)"

text \<open>A provider's answer; \<open>None\<close> in a list of providers is a nil one.\<close>

type_synonym tool_answer = "tool_definition list go_result"

fun collect_tools :: "tool_table \<Rightarrow> tool_answer option list \<Rightarrow> tool_table go_result" where
  "collect_tools next [] = Inr next"
| "collect_tools next (None # ps) = collect_tools next ps"
| "collect_tools next (Some (Inl e) # ps) = Inl e"
| "collect_tools next (Some (Inr ts) # ps) = collect_tools (put_tools next ts) ps"

definition load_providers ::
  "tool_answer option list \<Rightarrow> tool_registry \<Rightarrow> go_error option \<times> tool_registry" where
  "load_providers ps r = (case collect_tools [] ps of
     Inl e \<Rightarrow> (Some e, r)
   | Inr next \<Rightarrow> (None, rebuild_locked (r\<lparr>tr_base := next\<rparr>)))"

definition empty_tool_registry :: tool_registry where
  "empty_tool_registry = \<lparr>tr_base = [], tr_overrides = [], tr_tools = [], tr_last_good = []\<rparr>"

definition new_tool_registry :: "tool_definition list \<Rightarrow> tool_registry" where
  "new_tool_registry defaults = snd (load_providers [Some (Inr defaults)] empty_tool_registry)"

record named_provider =
  np_name :: string
  np_provider :: "tool_answer option"
  np_critical :: bool

text \<open>The loop's state: the new table, the fresh answers by source name, the degraded sources.\<close>

type_synonym graceful_acc =
  "tool_table \<times> (string, tool_definition list) gmap \<times> string list"

fun graceful_loop ::
  "(string, tool_definition list) gmap \<Rightarrow> graceful_acc \<Rightarrow> named_provider list \<Rightarrow> graceful_acc go_result"
where
  "graceful_loop good acc [] = Inr acc"
| "graceful_loop good (next, fresh, degraded) (sp # sps) =
    (case np_provider sp of
       None \<Rightarrow> graceful_loop good (next, fresh, degraded) sps
     | Some (Inl e) \<Rightarrow>
         if np_critical sp then Inl e
         else
           (let cached = (case gm_get good (np_name sp) of Some ts \<Rightarrow> ts | None \<Rightarrow> [])
            in graceful_loop good (put_tools next cached, fresh, degraded @ [np_name sp]) sps)
     | Some (Inr ts) \<Rightarrow>
         graceful_loop good
           (put_tools next ts,
            if np_name sp \<noteq> [] then gm_put (np_name sp) ts fresh else fresh, degraded) sps)"

definition load_providers_graceful ::
  "named_provider list \<Rightarrow> tool_registry \<Rightarrow> string list go_result \<times> tool_registry" where
  "load_providers_graceful sps r = (case graceful_loop (tr_last_good r) ([], [], []) sps of
     Inl e \<Rightarrow> (Inl e, r)
   | Inr (next, fresh, degraded) \<Rightarrow>
       (Inr degraded,
        rebuild_locked (r\<lparr>tr_base := next,
          tr_last_good := foldl (\<lambda>m (n, ts). gm_put n ts m) (tr_last_good r) fresh\<rparr>)))"

definition tr_get :: "tool_registry \<Rightarrow> string \<Rightarrow> tool_definition option" where
  "tr_get r i = gm_get (tr_tools r) (trim_space i)"

definition tr_list :: "tool_registry \<Rightarrow> tool_definition list" where
  "tr_list r = sort_key td_id (map snd (tr_tools r))"

definition tr_overrides_snapshot :: "tool_registry \<Rightarrow> (string, tool_override) gmap" where
  "tr_overrides_snapshot r = tr_overrides r"

definition allowed_for_agent :: "tool_definition \<Rightarrow> string \<Rightarrow> bool" where
  "allowed_for_agent t agentType \<longleftrightarrow> (\<exists>item \<in> set (td_agent_types t). item = agentType)"

definition tools_for_agent :: "tool_registry \<Rightarrow> string \<Rightarrow> tool_definition list" where
  "tools_for_agent r agentType =
    filter (\<lambda>t. td_enabled t \<and> td_read_only t \<and> allowed_for_agent t agentType) (tr_list r)"

section \<open>Providers\<close>

record provider_set =
  ps_builtin :: "tool_answer option"
  ps_mcp :: "tool_answer option"

definition set_mcp :: "tool_answer option \<Rightarrow> provider_set \<Rightarrow> provider_set" where
  "set_mcp mcp s = s\<lparr>ps_mcp := mcp\<rparr>"

definition provider_specs :: "tool_definition list \<Rightarrow> provider_set \<Rightarrow> named_provider list" where
  "provider_specs defaults s =
    \<lparr>np_name = ''builtin'',
     np_provider = (case ps_builtin s of None \<Rightarrow> Some (Inr defaults) | Some b \<Rightarrow> Some b),
     np_critical = True\<rparr>
    # (case ps_mcp s of None \<Rightarrow> []
       | Some m \<Rightarrow> [\<lparr>np_name = ''mcp'', np_provider = Some m, np_critical = False\<rparr>])"

section \<open>Dispatch to a data source\<close>

datatype dispatch_error = NoDataSource string | SourceUnavailable string

record 'e tool_dispatcher =
  dp_registry :: "tool_registry option"
  dp_executors :: "(string, 'e) gmap"

text \<open>An executor is given by its \<^verbatim>\<open>Source()\<close> and itself; nil ones are \<open>None\<close>.\<close>

definition new_tool_dispatcher ::
  "tool_registry option \<Rightarrow> (string \<times> 'e) option list \<Rightarrow> 'e tool_dispatcher" where
  "new_tool_dispatcher reg execs =
    \<lparr>dp_registry = reg,
     dp_executors = foldl (\<lambda>m x. case x of None \<Rightarrow> m | Some (src, e) \<Rightarrow>
        (if trim_space src = [] then m else gm_put (trim_space src) e m)) [] execs\<rparr>"

definition executor_for_source :: "'e tool_dispatcher \<Rightarrow> string \<Rightarrow> 'e option" where
  "executor_for_source d src =
    (if prefix TOOL_SOURCE_MCP_PREFIX src then gm_get (dp_executors d) TOOL_SOURCE_MCP
     else gm_get (dp_executors d) src)"

definition source_for_tool :: "'e tool_dispatcher \<Rightarrow> string \<Rightarrow> string" where
  "source_for_tool d toolID =
    (let src = (case dp_registry d of None \<Rightarrow> []
                | Some r \<Rightarrow> (case tr_get r toolID of None \<Rightarrow> [] | Some t \<Rightarrow> trim_space (td_source t)))
     in if src \<noteq> [] then src
        else (case index_byte CHR ''.'' toolID of
                Some i \<Rightarrow> (if i > 0 then take i toolID else []) | None \<Rightarrow> []))"

definition dispatch :: "'e tool_dispatcher \<Rightarrow> string \<Rightarrow> dispatch_error + 'e" where
  "dispatch d toolID =
    (let src = source_for_tool d toolID in
     if src = [] then Inl (NoDataSource toolID)
     else case executor_for_source d src of
            None \<Rightarrow> Inl (SourceUnavailable src) | Some e \<Rightarrow> Inr e)"

section \<open>The registry's invariant\<close>

definition table_ok :: "tool_table \<Rightarrow> bool" where
  "table_ok m \<longleftrightarrow> gm_ok m \<and>
     (\<forall>i t. gm_get m i = Some t \<longrightarrow> td_id t = i \<and> i \<noteq> [] \<and> trim_space i = i)"

definition tr_inv :: "tool_registry \<Rightarrow> bool" where
  "tr_inv r \<longleftrightarrow> table_ok (tr_base r) \<and> tr_tools r = tr_tools (rebuild_locked r)"

lemma table_ok_Nil [simp]: "table_ok []"
  by (simp add: table_ok_def)

lemma table_ok_put_tool [intro]: "table_ok m \<Longrightarrow> table_ok (put_tool m t)"
  by (auto simp: table_ok_def put_tool_def Let_def)

lemma table_ok_put_tools [intro]: "table_ok m \<Longrightarrow> table_ok (put_tools m ts)"
  by (induction ts arbitrary: m) (auto simp: put_tools_def)

lemma override_tool_id [simp]: "td_id (override_tool ovs i t) = td_id t"
  by (simp add: override_tool_def split: option.splits)

lemma tr_get_rebuild:
  "gm_get (tr_tools (rebuild_locked r)) i = map_option (override_tool (tr_overrides r) i) (gm_get (tr_base r) i)"
  by (simp add: rebuild_locked_def gm_get_map_snd)

lemma rebuild_frame [simp]:
  "tr_base (rebuild_locked r) = tr_base r" "tr_overrides (rebuild_locked r) = tr_overrides r"
  "tr_last_good (rebuild_locked r) = tr_last_good r"
  "tr_tools (rebuild_locked (rebuild_locked r)) = tr_tools (rebuild_locked r)"
  by (simp_all add: rebuild_locked_def)

lemma tr_inv_rebuild [intro]: "table_ok (tr_base r) \<Longrightarrow> tr_inv (rebuild_locked r)"
  by (simp add: tr_inv_def)

lemma collect_tools_ok: "collect_tools m ps = Inr m' \<Longrightarrow> table_ok m \<Longrightarrow> table_ok m'"
  by (induction m ps rule: collect_tools.induct) auto

lemma graceful_loop_ok:
  "graceful_loop good acc sps = Inr acc' \<Longrightarrow> table_ok (fst acc) \<Longrightarrow> table_ok (fst acc')"
proof (induction good acc sps rule: graceful_loop.induct)
  case (2 good nxt fresh degraded sp sps)
  then show ?case
    by (auto simp: Let_def split: option.splits sum.splits if_splits)
qed simp

lemma tr_inv_empty [simp]: "tr_inv empty_tool_registry"
  by (simp add: tr_inv_def empty_tool_registry_def rebuild_locked_def)

lemma tr_inv_register [inv_intros]: "tr_inv r \<Longrightarrow> tr_inv (tr_register t r)"
  by (auto simp: tr_register_def tr_inv_def)

lemma tr_inv_set_overrides [inv_intros]: "tr_inv r \<Longrightarrow> tr_inv (set_overrides ovs r)"
  by (auto simp: set_overrides_def tr_inv_def)

lemma tr_inv_load [inv_intros]: "tr_inv r \<Longrightarrow> tr_inv (snd (load_providers ps r))"
  by (auto simp: load_providers_def split: sum.splits
      dest!: collect_tools_ok [OF _ table_ok_Nil])

lemma tr_inv_load_graceful [inv_intros]: "tr_inv r \<Longrightarrow> tr_inv (snd (load_providers_graceful sps r))"
  using graceful_loop_ok [of "tr_last_good r" "([], [], [])" sps]
  by (force simp: load_providers_graceful_def split: sum.splits)

lemma tr_inv_new [simp, inv_intros]: "tr_inv (new_tool_registry ts)"
  by (simp add: new_tool_registry_def tr_inv_load)

lemma tr_inv_get: "tr_inv r \<Longrightarrow>
    gm_get (tr_tools r) i = map_option (override_tool (tr_overrides r) i) (gm_get (tr_base r) i)"
  by (metis tr_inv_def tr_get_rebuild)

lemma tr_inv_tools_ok: "tr_inv r \<Longrightarrow> table_ok (tr_tools r)"
  unfolding table_ok_def
  by (auto simp: tr_inv_get tr_inv_def table_ok_def) (auto simp: rebuild_locked_def)

lemma tr_get_id: "tr_inv r \<Longrightarrow> tr_get r i = Some t \<Longrightarrow> td_id t = trim_space i"
  using tr_inv_tools_ok [of r] by (simp add: tr_get_def table_ok_def)

lemma tr_list_set: "tr_inv r \<Longrightarrow> set (tr_list r) = {t. tr_get r (td_id t) = Some t}"
proof -
  assume r: "tr_inv r"
  note ok = tr_inv_tools_ok [OF r]
  have "t \<in> snd ` set (tr_tools r) \<longleftrightarrow> tr_get r (td_id t) = Some t" for t
  proof
    assume "t \<in> snd ` set (tr_tools r)"
    then obtain i where "(i, t) \<in> set (tr_tools r)" by auto
    with ok have "gm_get (tr_tools r) i = Some t" by (simp add: table_ok_def gm_mem_get)
    with ok show "tr_get r (td_id t) = Some t" by (auto simp: table_ok_def tr_get_def)
  next
    assume "tr_get r (td_id t) = Some t"
    then show "t \<in> snd ` set (tr_tools r)"
      by (force simp: tr_get_def dest: map_of_SomeD)
  qed
  then show ?thesis by (auto simp: tr_list_def)
qed

lemma tr_list_ids: "tr_inv r \<Longrightarrow> sorted (map td_id (tr_list r)) \<and> distinct (map td_id (tr_list r))"
proof -
  assume r: "tr_inv r"
  note ok = tr_inv_tools_ok [OF r]
  have "td_id (snd p) = fst p" if "p \<in> set (tr_tools r)" for p
    using ok that gm_mem_get [of "tr_tools r" "fst p" "snd p"] by (auto simp: table_ok_def)
  then have "map td_id (map snd (tr_tools r)) = map fst (tr_tools r)"
    by simp
  then have "distinct (map td_id (map snd (tr_tools r)))"
    using ok by (simp only: table_ok_def gm_ok_def)
  moreover have "mset (map td_id (tr_list r)) = mset (map td_id (map snd (tr_tools r)))"
    by (simp add: tr_list_def mset_map del: map_map)
  ultimately have "distinct (map td_id (tr_list r))"
    using mset_eq_imp_distinct_iff by blast
  then show ?thesis by (simp add: tr_list_def)
qed

section \<open>What a reload leaves behind\<close>

text \<open>The last tool with a given (trimmed) ID wins.\<close>

lemma put_tools_append: "put_tools m (xs @ ys) = put_tools (put_tools m xs) ys"
  by (simp add: put_tools_def)

lemma gm_get_put_tools:
  "gm_get (put_tools m ts) i =
    (if i = [] then gm_get m i
     else case find (\<lambda>t. trim_space (td_id t) = i) (rev ts) of
       Some t \<Rightarrow> Some (t\<lparr>td_id := i\<rparr>) | None \<Rightarrow> gm_get m i)"
proof (induction ts rule: rev_induct)
  case (snoc t ts)
  then show ?case
    by (auto simp: put_tools_append) (auto simp: put_tools_def put_tool_def Let_def)
qed (simp add: put_tools_def)

fun answered :: "tool_answer option \<Rightarrow> tool_definition list" where
  "answered (Some (Inr ts)) = ts"
| "answered _ = []"

fun refusal :: "tool_answer option \<Rightarrow> go_error option" where
  "refusal (Some (Inl e)) = Some e"
| "refusal _ = None"

lemma collect_tools_eq:
  "collect_tools m ps = (case first_some refusal ps of
     Some e \<Rightarrow> Inl e | None \<Rightarrow> Inr (put_tools m (concat (map answered ps))))"
  by (induction m ps rule: collect_tools.induct)
    (auto simp: put_tools_append put_tools_def split: option.splits)

lemma load_providers_error:
  "fst (load_providers ps r) = first_some refusal ps"
  by (simp add: load_providers_def collect_tools_eq split: option.splits)

lemma load_providers_get:
  assumes "first_some refusal ps = None"
  shows "tr_get (snd (load_providers ps r)) i =
    map_option (override_tool (tr_overrides r) (trim_space i))
      (gm_get (put_tools [] (concat (map answered ps))) (trim_space i))"
  using assms by (simp add: load_providers_def collect_tools_eq tr_get_def tr_get_rebuild)

text \<open>
  What a tolerant reload uses of a source: its answer, or for a failing source that is not
  critical the tools of its last good answer.
\<close>

definition settle :: "(string, tool_definition list) gmap \<Rightarrow> named_provider \<Rightarrow> tool_answer option" where
  "settle good sp = (case np_provider sp of
     Some (Inl e) \<Rightarrow> if np_critical sp then Some (Inl e)
       else Some (Inr (case gm_get good (np_name sp) of Some ts \<Rightarrow> ts | None \<Rightarrow> []))
   | p \<Rightarrow> p)"

definition failed :: "named_provider \<Rightarrow> bool" where
  "failed sp \<longleftrightarrow> refusal (np_provider sp) \<noteq> None"

definition put_fresh ::
  "(string, tool_definition list) gmap \<Rightarrow> named_provider \<Rightarrow> (string, tool_definition list) gmap" where
  "put_fresh m sp = (case np_provider sp of
     Some (Inr ts) \<Rightarrow> if np_name sp \<noteq> [] then gm_put (np_name sp) ts m else m | _ \<Rightarrow> m)"

lemma graceful_loop_eq:
  "graceful_loop good (nxt, fresh, degraded) sps =
    (case first_some refusal (map (settle good) sps) of
       Some e \<Rightarrow> Inl e
     | None \<Rightarrow> Inr (put_tools nxt (concat (map answered (map (settle good) sps))),
                   foldl put_fresh fresh sps, degraded @ map np_name (filter failed sps)))"
proof (induction sps arbitrary: nxt fresh degraded)
  case Nil
  show ?case by (simp add: put_tools_def)
next
  case (Cons sp sps)
  show ?case
  proof (cases "np_provider sp")
    case None
    then show ?thesis by (simp add: Cons settle_def [of _ sp] failed_def [of sp] put_fresh_def [of _ sp] split: option.splits)
  next
    case (Some a)
    then show ?thesis
      by (cases a) (auto simp: Cons settle_def [of _ sp] failed_def [of sp] put_fresh_def [of _ sp] put_tools_append split: option.splits)
  qed
qed

lemma graceful_as_load:
  assumes "load_providers_graceful sps r = (res, r')"
  shows "tr_base r' = tr_base (snd (load_providers (map (settle (tr_last_good r)) sps) r)) \<and>
    tr_tools r' = tr_tools (snd (load_providers (map (settle (tr_last_good r)) sps) r)) \<and>
    tr_overrides r' = tr_overrides r"
  using assms
  by (auto simp: load_providers_graceful_def graceful_loop_eq load_providers_def collect_tools_eq
      rebuild_locked_def split: option.splits)

lemma gm_get_put_fresh_other:
  "k \<notin> np_name ` set sps \<Longrightarrow> gm_get (foldl put_fresh m sps) k = gm_get m k"
  by (induction sps arbitrary: m) (auto simp: put_fresh_def split: option.splits sum.splits)

lemma gm_get_put_fresh:
  assumes "distinct (map np_name sps)" "sp \<in> set sps" "np_provider sp = Some (Inr ts)" "np_name sp \<noteq> []"
  shows "gm_get (foldl put_fresh m sps) (np_name sp) = Some ts"
  using assms
proof (induction sps arbitrary: m)
  case (Cons x sps)
  show ?case
  proof (cases "sp = x")
    case True
    with Cons.prems show ?thesis by (simp add: gm_get_put_fresh_other put_fresh_def [of _ x])
  next
    case False
    with Cons show ?thesis by simp
  qed
qed simp

lemma gm_ok_put_fresh: "gm_ok m \<Longrightarrow> gm_ok (foldl put_fresh m sps)"
  by (induction sps arbitrary: m) (auto simp: put_fresh_def split: option.splits sum.splits)

lemma gm_get_foldl_put:
  "gm_ok fresh \<Longrightarrow> gm_get (foldl (\<lambda>m (n, ts). gm_put n ts m) m fresh) k =
    (case gm_get fresh k of Some ts \<Rightarrow> Some ts | None \<Rightarrow> gm_get m k)"
proof (induction fresh arbitrary: m)
  case (Cons p fresh)
  then have "gm_ok fresh" "gm_get fresh (fst p) = None"
    by (auto simp: gm_ok_def map_of_eq_None_iff)
  with Cons.IH [of "gm_put (fst p) (snd p) m"] show ?case
    by (auto simp: case_prod_unfold split: option.splits)
qed simp

lemma last_good_of_answer:
  assumes "load_providers_graceful sps r = (Inr d, r1)" "distinct (map np_name sps)"
    and "sp \<in> set sps" "np_provider sp = Some (Inr ts)" "np_name sp \<noteq> []"
  shows "gm_get (tr_last_good r1) (np_name sp) = Some ts"
  using assms(1) gm_get_put_fresh [OF assms(2-5), of "[]"]
    gm_get_foldl_put [OF gm_ok_put_fresh [OF gm_ok_Nil], of "tr_last_good r" sps]
  by (auto simp: load_providers_graceful_def graceful_loop_eq split: option.splits)

section \<open>Properties\<close>

text \<open>The last definition the answers give for an ID, as it enters the table.\<close>

definition last_tool :: "tool_definition list \<Rightarrow> string \<Rightarrow> tool_definition option" where
  "last_tool ts i =
    (if i = [] then None
     else map_option (\<lambda>t. t\<lparr>td_id := i\<rparr>) (find (\<lambda>t. trim_space (td_id t) = i) (rev ts)))"

lemma last_tool_from:
  "last_tool ts i = Some t0 \<Longrightarrow>
    \<exists>x \<in> set ts. i = trim_space (td_id x) \<and> t0 = x\<lparr>td_id := i\<rparr>"
  by (auto simp: last_tool_def split: if_splits dest!: find_SomeD)

lemma gm_get_put_tools_Nil: "gm_get (put_tools [] ts) i = last_tool ts i"
  by (simp add: gm_get_put_tools last_tool_def split: option.splits)

text \<open>
  Loading from providers is all or nothing. When one provider fails the registry is returned
  as it was, with the first failure; otherwise the view of every ID is the last definition any
  provider gave for it, with the override in force, and nothing of the previous table survives.
\<close>

theorem load_providers_all_or_nothing:
  "case first_some refusal ps of
     Some e \<Rightarrow> load_providers ps r = (Some e, r)
   | None \<Rightarrow> (\<exists>r'. load_providers ps r = (None, r') \<and> tr_overrides r' = tr_overrides r \<and>
       (\<forall>i. tr_get r' i = map_option (override_tool (tr_overrides r) (trim_space i))
                (last_tool (concat (map answered ps)) (trim_space i))))"
  by (auto simp: load_providers_def collect_tools_eq tr_get_def tr_get_rebuild
      gm_get_put_tools_Nil split: option.splits)

definition outage :: "named_provider \<Rightarrow> named_provider \<Rightarrow> bool" where
  "outage sp sp' \<longleftrightarrow> np_name sp' = np_name sp \<and> np_critical sp' = np_critical sp \<and>
    (np_provider sp' = np_provider sp \<or>
     \<not> np_critical sp \<and> np_provider sp \<noteq> None \<and> failed sp')"

lemma settle_outage:
  assumes "load_providers_graceful sps r = (Inr [], r1)" "distinct (map np_name sps)"
    and "[] \<notin> np_name ` set sps" "sp \<in> set sps" "outage sp sp'"
  shows "settle (tr_last_good r1) sp' = np_provider sp"
proof -
  have "\<not> failed sp"
    using assms(1,4)
    by (auto simp: load_providers_graceful_def graceful_loop_eq filter_empty_conv split: option.splits)
  then have "np_provider sp = None \<or> (\<exists>ts. np_provider sp = Some (Inr ts))"
    by (cases "np_provider sp") (auto simp: failed_def elim: refusal.elims)
  moreover have "np_name sp \<noteq> []"
    using assms(3,4) by force
  ultimately show ?thesis
    using assms(5) last_good_of_answer [OF assms(1,2,4)]
    by (auto simp: outage_def settle_def failed_def elim!: refusal.elims split: option.splits)
qed

lemma graceful_done:
  assumes "load_providers_graceful sps r = (Inr d, r1)"
  shows "first_some refusal (map (settle (tr_last_good r)) sps) = None"
    and "d = map np_name (filter failed sps)"
    and "tr_base r1 = put_tools [] (concat (map answered (map (settle (tr_last_good r)) sps)))"
    and "tr_overrides r1 = tr_overrides r" and "tr_tools r1 = tr_tools (rebuild_locked r1)"
  using assms by (auto simp: load_providers_graceful_def graceful_loop_eq split: option.splits)

lemma graceful_refused_iff:
  "fst (load_providers_graceful sps r) = (case first_some refusal (map (settle (tr_last_good r)) sps) of
     Some e \<Rightarrow> Inl e | None \<Rightarrow> Inr (map np_name (filter failed sps)))"
  by (simp add: load_providers_graceful_def graceful_loop_eq split: option.splits)

lemma rebuild_tools_cong:
  "tr_base r = tr_base s \<Longrightarrow> tr_overrides r = tr_overrides s \<Longrightarrow>
    tr_tools (rebuild_locked r) = tr_tools (rebuild_locked s)"
  by (simp add: rebuild_locked_def)

text \<open>
  An outage of tolerated sources changes no tool. After a reload in which every source
  answered, a later reload in which any of the sources that are not critical fail (the others
  answering as before) names exactly the failing ones as degraded and leaves the table and the
  view the agents see as they were.
\<close>

theorem outage_keeps_tools:
  assumes "load_providers_graceful sps r = (Inr [], r1)" "distinct (map np_name sps)"
    and "[] \<notin> np_name ` set sps" "list_all2 outage sps sps'"
    and "load_providers_graceful sps' r1 = (res, r2)"
  shows "res = Inr (map np_name (filter failed sps')) \<and> tr_base r2 = tr_base r1 \<and>
    tr_tools r2 = tr_tools r1"
proof -
  have settled: "map (settle (tr_last_good r1)) sps' = map np_provider sps"
  proof (rule nth_equalityI)
    fix j assume "j < length (map (settle (tr_last_good r1)) sps')"
    then show "map (settle (tr_last_good r1)) sps' ! j = map np_provider sps ! j"
      using assms(4) settle_outage [OF assms(1-3), of "sps ! j" "sps' ! j"]
      by (simp add: list_all2_conv_all_nth)
  qed (use assms(4) in \<open>simp add: list_all2_lengthD\<close>)
  note first = graceful_done [OF assms(1)]
  have "filter failed sps = []"
    using first(2) by simp
  then have same: "map (settle (tr_last_good r)) sps = map np_provider sps"
    by (auto simp: filter_empty_conv settle_def failed_def split: option.splits sum.splits)
  have res: "res = Inr (map np_name (filter failed sps'))"
    using graceful_refused_iff [of sps' r1] assms(5) first(1) settled same by simp
  note second = graceful_done [OF assms(5) [unfolded res]]
  have "tr_base r2 = tr_base r1"
    using first(3) second(3) settled same by simp
  then show ?thesis
    using res first(4,5) second(4,5) rebuild_tools_cong [of r2 r1] by simp
qed

definition mcp_tool :: tool_definition where
  "mcp_tool =
    \<lparr>td_id = ''mcp.files.read'', td_name = ''read'', td_category = ''mcp'', td_description = [],
     td_read_only = True, td_agent_types = [''diagnostic''], td_timeout_ms = 8000,
     td_max_bytes = 262144, td_observe_max_chars = 0, td_source = ''mcp:files'',
     td_origin = TOOL_ORIGIN_MCP, td_enabled = True, td_overridden = False, td_parameters = []\<rparr>"

definition sample_specs :: "tool_answer \<Rightarrow> named_provider list" where
  "sample_specs answer =
    provider_specs [] \<lparr>ps_builtin = None, ps_mcp = Some answer\<rparr>"

definition sample_registry :: tool_registry where
  "sample_registry = snd (load_providers_graceful (sample_specs (Inr [mcp_tool])) (new_tool_registry []))"

theorem outage_keeps_tools_witness:
  "fst (load_providers_graceful (sample_specs (Inl ErrDeadlineExceeded)) sample_registry) = Inr [''mcp''] \<and>
   tr_tools (snd (load_providers_graceful (sample_specs (Inl ErrDeadlineExceeded)) sample_registry))
     = [(''mcp.files.read'', mcp_tool)]"
proof -
  have "fst (load_providers_graceful (sample_specs (Inr [mcp_tool])) (new_tool_registry [])) = Inr []"
    and "tr_tools sample_registry = [(''mcp.files.read'', mcp_tool)]"
    and "map np_name (sample_specs (Inr [mcp_tool])) = [''builtin'', ''mcp'']"
    by code_simp+
  moreover have "list_all2 outage (sample_specs (Inr [mcp_tool])) (sample_specs (Inl ErrDeadlineExceeded))"
    and "map np_name (filter failed (sample_specs (Inl ErrDeadlineExceeded))) = [''mcp'']"
    by (simp_all add: sample_specs_def provider_specs_def outage_def failed_def)
  ultimately show ?thesis
    using outage_keeps_tools [of "sample_specs (Inr [mcp_tool])" "new_tool_registry []" sample_registry
        "sample_specs (Inl ErrDeadlineExceeded)", OF _ _ _ _ surjective_pairing]
    by (simp add: sample_registry_def prod_eq_iff flip: list.set_map)
qed

subsection \<open>Governance over a history\<close>

text \<open>Everything that happens to a registry after it was made.\<close>

datatype tr_op =
    OpRegister tool_definition
  | OpOverrides "(string \<times> tool_override) list"
  | OpLoad "tool_answer option list"
  | OpGraceful "named_provider list"

fun tr_apply :: "tool_registry \<Rightarrow> tr_op \<Rightarrow> tool_registry" where
  "tr_apply r (OpRegister t) = tr_register t r"
| "tr_apply r (OpOverrides ovs) = set_overrides ovs r"
| "tr_apply r (OpLoad ps) = snd (load_providers ps r)"
| "tr_apply r (OpGraceful sps) = snd (load_providers_graceful sps r)"

fun no_overrides :: "tr_op \<Rightarrow> bool" where
  "no_overrides (OpOverrides _) = False"
| "no_overrides _ = True"

lemma tr_inv_run: "tr_inv r \<Longrightarrow> tr_inv (foldl tr_apply r ops)"
proof (induction ops arbitrary: r)
  case (Cons op ops)
  then show ?case by (cases op) (auto intro: inv_intros)
qed simp

lemma tr_overrides_run:
  "list_all no_overrides ops \<Longrightarrow> tr_overrides (foldl tr_apply r ops) = tr_overrides r"
proof (induction ops arbitrary: r)
  case (Cons op ops)
  then show ?case
    by (cases op)
      (auto simp: tr_register_def load_providers_def load_providers_graceful_def
        split: sum.splits option.splits)
qed simp

lemma tools_for_agent_set:
  "tr_inv r \<Longrightarrow> set (tools_for_agent r a) =
    {t. tr_get r (td_id t) = Some t \<and> td_enabled t \<and> td_read_only t \<and> a \<in> set (td_agent_types t)}"
  by (auto simp: tools_for_agent_def tr_list_set allowed_for_agent_def)

text \<open>
  C14: What an agent may call. After any history of registrations, reloads and override changes,
  the list built for an agent holds exactly the tools of the current view that are enabled,
  read-only and meant for this agent type, each once and in the order of their IDs.
\<close>

theorem tools_for_agent_exact:
  fixes defaults ops
  defines "r \<equiv> foldl tr_apply (new_tool_registry defaults) ops"
  shows "set (tools_for_agent r a) =
      {t. tr_get r (td_id t) = Some t \<and> td_enabled t \<and> td_read_only t \<and> a \<in> set (td_agent_types t)} \<and>
    sorted (map td_id (tools_for_agent r a)) \<and> distinct (map td_id (tools_for_agent r a))"
proof -
  have r: "tr_inv r" by (simp add: r_def tr_inv_run)
  with tr_list_ids [OF r] show ?thesis
    by (auto simp: tools_for_agent_set) (auto simp: tools_for_agent_def sorted_filter distinct_map_filter)
qed

text \<open>
  A tool switched off by an override stays off. From the moment the overrides say so, no later
  registration and no reload from any source, whatever it declares about the tool, puts it back
  into any agent's list; nor does a source that calls its tool read-only against an override.
\<close>

theorem disabled_stays_off:
  assumes "gm_get (tr_overrides r) i = Some ov" "ov_enabled ov = Some False \<or> ov_read_only ov = Some False"
    and "tr_inv r" "list_all no_overrides ops"
  shows "i \<notin> td_id ` set (tools_for_agent (foldl tr_apply r ops) a)"
proof
  let ?r = "foldl tr_apply r ops"
  assume "i \<in> td_id ` set (tools_for_agent ?r a)"
  then obtain t where t: "td_id t = i" "tr_get ?r i = Some t" "td_enabled t" "td_read_only t"
    by (auto simp: tools_for_agent_set tr_inv_run assms(3))
  have "trim_space i = i"
    using t(2) tr_get_id [OF tr_inv_run [OF assms(3)] t(2)] t(1) by simp
  with t(2) obtain t0 where "t = override_tool (tr_overrides ?r) i t0"
    by (auto simp: tr_get_def tr_inv_get [OF tr_inv_run [OF assms(3)]])
  then show False
    using assms(1,2) t(3,4) by (auto simp: tr_overrides_run [OF assms(4)] override_tool_def)
qed

theorem disabled_stays_off_witness:
  "let off = \<lparr>ov_enabled = Some False, ov_description = None, ov_timeout_ms = None,
              ov_observe_max_chars = None, ov_read_only = None\<rparr>;
       r = set_overrides [(''mcp.files.read'', off)] sample_registry
   in ''mcp.files.read''
        \<notin> td_id ` set (tools_for_agent (foldl tr_apply r [OpGraceful (sample_specs (Inr [mcp_tool]))]) ''diagnostic'')"
proof -
  define off where "off = \<lparr>ov_enabled = Some False, ov_description = None, ov_timeout_ms = None,
      ov_observe_max_chars = None, ov_read_only = None\<rparr>"
  have "tr_inv (set_overrides [(''mcp.files.read'', off)] sample_registry)"
    by (auto simp: sample_registry_def intro!: inv_intros)
  moreover have "gm_get (tr_overrides (set_overrides [(''mcp.files.read'', off)] sample_registry))
      ''mcp.files.read'' = Some off"
    unfolding off_def by code_simp
  ultimately show ?thesis
    using disabled_stays_off [of "set_overrides [(''mcp.files.read'', off)] sample_registry"
        "''mcp.files.read''" off "[OpGraceful (sample_specs (Inr [mcp_tool]))]" "''diagnostic''"]
    by (simp add: off_def Let_def del: foldl.simps)
qed

lemma clearing_restores: "tr_inv r \<Longrightarrow> tr_tools (set_overrides [] r) = tr_base r"
  by (simp add: set_overrides_def rebuild_locked_def override_tool_def case_prod_unfold)

subsection \<open>Dispatch\<close>

lemma dp_executors_get:
  "gm_get (dp_executors (new_tool_dispatcher reg execs)) s =
    (if s = [] then None
     else map_option snd (find (\<lambda>p. trim_space (fst p) = s) (rev (somes execs))))"
  unfolding new_tool_dispatcher_def tool_dispatcher.select_convs
  by (induction execs rule: rev_induct) (auto split: option.splits)

text \<open>
  A registered tool is executed by the executor of its source, and by no other: by the last
  one registered for exactly that source, every \<^verbatim>\<open>mcp:<server>\<close> source going to the one
  MCP executor; without one the call fails and names the source.
\<close>

theorem dispatch_by_source:
  assumes "tr_get r i = Some t" "trim_space (td_source t) = src" "src \<noteq> []"
  shows "dispatch (new_tool_dispatcher (Some r) execs) i =
    (case find (\<lambda>p. trim_space (fst p) = (if prefix ''mcp:'' src then ''mcp'' else src))
            (rev (somes execs)) of
       None \<Rightarrow> Inl (SourceUnavailable src) | Some (_, e) \<Rightarrow> Inr e)"
proof -
  have "source_for_tool (new_tool_dispatcher (Some r) execs) i = src"
    using assms by (simp add: source_for_tool_def new_tool_dispatcher_def)
  then show ?thesis
    using assms(3) by (auto simp: dispatch_def executor_for_source_def dp_executors_get split: option.splits)
qed

theorem dispatch_by_source_witness:
  "dispatch (new_tool_dispatcher (Some sample_registry) [Some (''cluster'', 1::nat), Some (''mcp'', 2)])
     ''mcp.files.read'' = Inr 2"
proof -
  have "tr_get sample_registry ''mcp.files.read'' = Some mcp_tool"
    and "trim_space (td_source mcp_tool) = ''mcp:files''"
    by code_simp+
  moreover have "trim_space ''mcp'' = ''mcp''" by code_simp
  ultimately show ?thesis
    using dispatch_by_source [of sample_registry "''mcp.files.read''" mcp_tool "''mcp:files''"
        "[Some (''cluster'', 1::nat), Some (''mcp'', 2)]"]
    by simp
qed

end
