(* ===== verification/Skills.thy ===== *)
theory Skills
  imports Tools
begin

text \<open>
  Passive skills: \<^verbatim>\<open>agent/domain/skill.go\<close>, the registry of
  \<^verbatim>\<open>application/internal/skill/registry.go\<close>, and how a skill narrows the tools of a run
  (\<^verbatim>\<open>core/loop.go\<close>: \<^verbatim>\<open>resolveRunSkill\<close>, \<^verbatim>\<open>filterToolsByAllowed\<close>,
  \<^verbatim>\<open>toolIDSet\<close>). Values are immutable here, so the deep copies of the source are not
  visible.
\<close>

section \<open>Skill definitions\<close>

record skill_definition =
  sk_id :: string
  sk_name :: string
  sk_description :: string
  sk_enabled :: bool
  sk_agent_types :: "string list"
  sk_triggers :: "string list"
  sk_system_prompt :: string
  sk_allowed_tools :: "string list"
  sk_hints :: "string list"

definition applies_to_agent :: "skill_definition \<Rightarrow> string \<Rightarrow> bool" where
  "applies_to_agent s agentType \<longleftrightarrow>
    sk_agent_types s = [] \<or> (\<exists>item \<in> set (sk_agent_types s). trim_space item = trim_space agentType)"

definition match_score :: "skill_definition \<Rightarrow> string \<Rightarrow> nat" where
  "match_score s lowerMessage =
    length (filter (\<lambda>t. to_lower (trim_space t) \<noteq> [] \<and> contains lowerMessage (to_lower (trim_space t)))
      (sk_triggers s))"

section \<open>The registry\<close>

record skill_registry =
  sr_skills :: "(string, skill_definition) gmap"
  sr_order :: "string list"

definition new_skill_registry :: skill_registry where
  "new_skill_registry = \<lparr>sr_skills = [], sr_order = []\<rparr>"

definition sr_register :: "skill_definition \<Rightarrow> skill_registry \<Rightarrow> skill_registry" where
  "sr_register skill r =
    (let i = trim_space (sk_id skill) in
     if i = [] then r
     else \<lparr>sr_skills = gm_put i (skill\<lparr>sk_id := i\<rparr>) (sr_skills r),
           sr_order = (if gm_get (sr_skills r) i = None then sr_order r @ [i] else sr_order r)\<rparr>)"

definition set_skills :: "skill_definition list \<Rightarrow> skill_registry \<Rightarrow> skill_registry" where
  "set_skills skills r = foldl (\<lambda>acc s. sr_register s acc) new_skill_registry skills"

definition sr_list :: "skill_registry \<Rightarrow> skill_definition list" where
  "sr_list r = sort_key sk_id (map snd (sr_skills r))"

definition sr_get :: "skill_registry \<Rightarrow> string \<Rightarrow> skill_definition option" where
  "sr_get r i = gm_get (sr_skills r) (trim_space i)"

text \<open>The loop of \<^verbatim>\<open>MatchForAgent\<close>: the best score so far and its skill.\<close>

fun match_loop ::
  "(string, skill_definition) gmap \<Rightarrow> string \<Rightarrow> string \<Rightarrow> string list
    \<Rightarrow> nat \<times> skill_definition option \<Rightarrow> nat \<times> skill_definition option" where
  "match_loop m agentType msg [] best = best"
| "match_loop m agentType msg (i # is) best =
    (case gm_get m i of
       None \<Rightarrow> match_loop m agentType msg is best
     | Some s \<Rightarrow>
         if \<not> sk_enabled s \<or> \<not> applies_to_agent s agentType then match_loop m agentType msg is best
         else if match_score s msg > fst best
           then match_loop m agentType msg is (match_score s msg, Some s)
           else match_loop m agentType msg is best)"

definition match_for_agent :: "skill_registry \<Rightarrow> string \<Rightarrow> string \<Rightarrow> skill_definition option" where
  "match_for_agent r agentType message =
    (let lower = to_lower (trim_space message) in
     if lower = [] then None
     else snd (match_loop (sr_skills r) agentType lower (sr_order r) (0, None)))"

section \<open>A run's skill\<close>

text \<open>\<open>routed\<close> is the skill the router suggested, trusted only if it exists and applies.\<close>

definition resolve_run_skill :: "skill_registry \<Rightarrow> string \<Rightarrow> string \<Rightarrow> string \<Rightarrow> skill_definition option" where
  "resolve_run_skill r agentType routed message =
    (let i = trim_space routed in
     case (if i \<noteq> [] then sr_get r i else None) of
       Some s \<Rightarrow> if sk_enabled s \<and> applies_to_agent s agentType then Some s
                 else match_for_agent r agentType message
     | None \<Rightarrow> match_for_agent r agentType message)"

definition filter_tools_by_allowed :: "tool_definition list \<Rightarrow> string list \<Rightarrow> tool_definition list" where
  "filter_tools_by_allowed tools allowed =
    (if allowed = [] then tools
     else filter (\<lambda>t. td_id t \<in> set (filter (\<lambda>i. i \<noteq> []) (map trim_space allowed))) tools)"

definition tool_id_set :: "tool_definition list \<Rightarrow> string list" where
  "tool_id_set tools = map td_id tools"

section \<open>Facts\<close>

definition sr_inv :: "skill_registry \<Rightarrow> bool" where
  "sr_inv r \<longleftrightarrow> gm_ok (sr_skills r) \<and> distinct (sr_order r) \<and>
    set (sr_order r) = fst ` set (sr_skills r) \<and>
    (\<forall>i s. gm_get (sr_skills r) i = Some s \<longrightarrow> sk_id s = i \<and> i \<noteq> [])"

lemma sr_inv_new [simp, inv_intros]: "sr_inv new_skill_registry"
  by (simp add: sr_inv_def new_skill_registry_def)

lemma sr_inv_register [inv_intros]: "sr_inv r \<Longrightarrow> sr_inv (sr_register s r)"
  by (auto simp: sr_inv_def sr_register_def Let_def gm_keys_get [symmetric] map_of_eq_None_iff)

lemma sr_inv_set_skills [inv_intros]: "sr_inv (set_skills skills r)"
proof -
  have "sr_inv acc \<Longrightarrow> sr_inv (foldl (\<lambda>acc s. sr_register s acc) acc skills)" for acc
    by (induction skills arbitrary: acc) (auto intro: inv_intros)
  then show ?thesis by (simp add: set_skills_def)
qed

definition eligible :: "skill_registry \<Rightarrow> string \<Rightarrow> string \<Rightarrow> skill_definition option" where
  "eligible r agentType i = (case gm_get (sr_skills r) i of
     Some s \<Rightarrow> if sk_enabled s \<and> applies_to_agent s agentType then Some s else None
   | None \<Rightarrow> None)"

lemma match_loop_Cons_eligible:
  "match_loop (sr_skills r) a msg (i # is) best = match_loop (sr_skills r) a msg is
    (case eligible r a i of
       Some s \<Rightarrow> if match_score s msg > fst best then (match_score s msg, Some s) else best
     | None \<Rightarrow> best)"
  by (auto simp: eligible_def split: option.splits)

text \<open>What the loop has found: the first of the best ones.\<close>

definition best_at :: "('i \<Rightarrow> 's option) \<Rightarrow> ('s \<Rightarrow> nat) \<Rightarrow> 'i list \<Rightarrow> 's \<Rightarrow> bool" where
  "best_at el score is s \<longleftrightarrow> (\<exists>xs i ys. is = xs @ i # ys \<and> el i = Some s \<and>
     (\<forall>x \<in> set xs. \<forall>s'. el x = Some s' \<longrightarrow> score s' < score s) \<and>
     (\<forall>y \<in> set ys. \<forall>s'. el y = Some s' \<longrightarrow> score s' \<le> score s))"

definition first_best :: "('i \<Rightarrow> 's option) \<Rightarrow> ('s \<Rightarrow> nat) \<Rightarrow> 'i list \<Rightarrow> nat \<times> 's option \<Rightarrow> bool" where
  "first_best el score is best \<longleftrightarrow> (case best of
     (n, None) \<Rightarrow> n = 0 \<and> (\<forall>i \<in> set is. \<forall>s. el i = Some s \<longrightarrow> score s = 0)
   | (n, Some s) \<Rightarrow> 0 < n \<and> n = score s \<and> best_at el score is s)"

lemma best_at_last:
  "el i = Some s \<Longrightarrow> (\<And>x s'. x \<in> set is \<Longrightarrow> el x = Some s' \<Longrightarrow> score s' < score s) \<Longrightarrow>
    best_at el score (is @ [i]) s"
  unfolding best_at_def by (intro exI [of _ "is"] exI [of _ i] exI [of _ "[]"]) auto

lemma best_at_snoc:
  assumes "best_at el score is s" "\<And>s'. el i = Some s' \<Longrightarrow> score s' \<le> score s"
  shows "best_at el score (is @ [i]) s"
proof -
  from assms(1) obtain xs j ys where "is = xs @ j # ys" "el j = Some s"
    "\<forall>x \<in> set xs. \<forall>s'. el x = Some s' \<longrightarrow> score s' < score s"
    "\<forall>y \<in> set ys. \<forall>s'. el y = Some s' \<longrightarrow> score s' \<le> score s"
    unfolding best_at_def by blast
  with assms(2) show ?thesis
    unfolding best_at_def by (intro exI [of _ xs] exI [of _ j] exI [of _ "ys @ [i]"]) auto
qed

lemma best_at_le: "best_at el score is s \<Longrightarrow> x \<in> set is \<Longrightarrow> el x = Some s' \<Longrightarrow> score s' \<le> score s"
  unfolding best_at_def by fastforce

lemma first_best_snoc:
  assumes "first_best el score is best"
  shows "first_best el score (is @ [i]) (case el i of
     Some s \<Rightarrow> if score s > fst best then (score s, Some s) else best | None \<Rightarrow> best)"
proof -
  obtain n b where best: "best = (n, b)" by fastforce
  show ?thesis
  proof (cases "\<exists>s. el i = Some s \<and> n < score s")
    case True
    then obtain s where s: "el i = Some s" "n < score s" by blast
    have "score s' < score s" if "x \<in> set is" "el x = Some s'" for x s'
      using assms that best s best_at_le [of el score "is" _ x s']
      by (cases b) (force simp: first_best_def)+
    then show ?thesis
      using best s by (simp add: first_best_def best_at_last)
  next
    case False
    then have keep: "(case el i of
       Some s \<Rightarrow> if score s > fst best then (score s, Some s) else best | None \<Rightarrow> best) = best"
      using best by (auto split: option.splits)
    have le: "\<And>s. el i = Some s \<Longrightarrow> score s \<le> n"
      using False by force
    show ?thesis
      unfolding keep using assms best le
      by (cases b) (auto simp: first_best_def intro: best_at_snoc)
  qed
qed

lemma match_loop_first_best:
  "first_best (eligible r a) (\<lambda>s. match_score s msg) done best \<Longrightarrow>
    first_best (eligible r a) (\<lambda>s. match_score s msg) (done @ is)
      (match_loop (sr_skills r) a msg is best)"
proof (induction "is" arbitrary: "done" best)
  case (Cons i "is")
  have "first_best (eligible r a) (\<lambda>s. match_score s msg) ((done @ [i]) @ is)
      (match_loop (sr_skills r) a msg is (case eligible r a i of
       Some s \<Rightarrow> if match_score s msg > fst best then (match_score s msg, Some s) else best
     | None \<Rightarrow> best))"
    by (rule Cons.IH) (rule first_best_snoc [OF Cons.prems])
  then show ?case by (simp only: match_loop_Cons_eligible append_assoc append.simps)
qed simp

lemma filter_tools_subset: "set (filter_tools_by_allowed tools allowed) \<subseteq> set tools"
  by (auto simp: filter_tools_by_allowed_def)

section \<open>Properties\<close>

text \<open>
  The matched skill is the best one. For a message that is not blank the registry returns
  nothing exactly when no enabled skill for the agent has a trigger in it; otherwise it returns
  the enabled skill with most triggers in the message, the first declared among equals.
\<close>

theorem match_for_agent_best:
  assumes "to_lower (trim_space message) \<noteq> []"
  shows "first_best (eligible r a) (\<lambda>s. match_score s (to_lower (trim_space message))) (sr_order r)
    (case match_for_agent r a message of
       None \<Rightarrow> (0, None) | Some s \<Rightarrow> (match_score s (to_lower (trim_space message)), Some s))"
proof -
  let ?msg = "to_lower (trim_space message)"
  let ?res = "match_loop (sr_skills r) a ?msg (sr_order r) (0, None)"
  have best: "first_best (eligible r a) (\<lambda>s. match_score s ?msg) (sr_order r) ?res"
    using match_loop_first_best [of r a ?msg "[]" "(0, None)" "sr_order r"]
    by (simp add: first_best_def)
  moreover have "match_for_agent r a message = snd ?res"
    using assms by (simp add: match_for_agent_def Let_def)
  ultimately show ?thesis
    by (cases ?res) (auto simp: first_best_def split: option.splits)
qed

definition sample_skill :: "string \<Rightarrow> string list \<Rightarrow> skill_definition" where
  "sample_skill i triggers =
    \<lparr>sk_id = i, sk_name = i, sk_description = [], sk_enabled = True, sk_agent_types = [],
     sk_triggers = triggers, sk_system_prompt = [], sk_allowed_tools = [], sk_hints = []\<rparr>"

theorem match_for_agent_best_witness:
  "\<exists>s. match_for_agent (set_skills [sample_skill ''a'' [''pod''], sample_skill ''b'' [''OOM'', ''pod''],
          sample_skill ''c'' [''pod'', ''oom'']] new_skill_registry) ''diagnostic'' ''pod oom'' = Some s
     \<and> sk_id s = ''b'' \<and> match_score s ''pod oom'' = 2"
proof -
  let ?r = "set_skills [sample_skill ''a'' [''pod''], sample_skill ''b'' [''OOM'', ''pod''],
    sample_skill ''c'' [''pod'', ''oom'']] new_skill_registry"
  have msg: "to_lower (trim_space ''pod oom'') = ''pod oom''" by code_simp
  have "match_for_agent ?r ''diagnostic'' ''pod oom'' = Some (sample_skill ''b'' [''OOM'', ''pod''])"
    and "match_score (sample_skill ''b'' [''OOM'', ''pod'']) ''pod oom'' = 2"
    by code_simp+
  then show ?thesis
    using match_for_agent_best [of "''pod oom''" ?r "''diagnostic''"]
    by (simp add: msg first_best_def sample_skill_def)
qed

end
