(* ===== verification/Mcp_Breaker.thy ===== *)
theory Mcp_Breaker
  imports Go_Errors
begin

text \<open>
  The per-server circuit breaker of \<^verbatim>\<open>agent/infrastructure/mcp/breaker.go\<close>, its
  backoff for reconnecting and the rule by which the executor reports a call's outcome to it
  (\<^verbatim>\<open>mcp/executor.go\<close>, \<^verbatim>\<open>isClientCanceled\<close>). The mutex makes each method one
  step; the injected clock is an argument.
\<close>

datatype breaker_state = BreakerClosed | BreakerOpen | BreakerHalfOpen

record circuit_breaker =
  br_threshold :: int
  br_cooldown :: duration
  br_state :: breaker_state
  br_consecutive_err :: int
  br_opened_at :: instant
  br_half_open_in_flight :: bool

abbreviation default_breaker_threshold :: int where "default_breaker_threshold \<equiv> 5"
abbreviation default_breaker_cooldown :: duration where "default_breaker_cooldown \<equiv> 30 * second"

definition new_circuit_breaker :: "int \<Rightarrow> duration \<Rightarrow> circuit_breaker" where
  "new_circuit_breaker threshold cooldown =
     \<lparr>br_threshold = (if threshold \<le> 0 then default_breaker_threshold else threshold),
      br_cooldown = (if cooldown \<le> 0 then default_breaker_cooldown else cooldown),
      br_state = BreakerClosed, br_consecutive_err = 0, br_opened_at = 0,
      br_half_open_in_flight = False\<rparr>"

definition breaker_allow :: "instant \<Rightarrow> circuit_breaker \<Rightarrow> bool \<times> circuit_breaker" where
  "breaker_allow now b = (case br_state b of
     BreakerClosed \<Rightarrow> (True, b)
   | BreakerOpen \<Rightarrow>
       if now - br_opened_at b < br_cooldown b then (False, b)
       else (True, b\<lparr>br_state := BreakerHalfOpen, br_half_open_in_flight := True\<rparr>)
   | BreakerHalfOpen \<Rightarrow>
       if br_half_open_in_flight b then (False, b)
       else (True, b\<lparr>br_half_open_in_flight := True\<rparr>))"

definition breaker_record :: "instant \<Rightarrow> bool \<Rightarrow> circuit_breaker \<Rightarrow> circuit_breaker" where
  "breaker_record now success b = (case br_state b of
     BreakerHalfOpen \<Rightarrow>
       (let b1 = b\<lparr>br_half_open_in_flight := False\<rparr> in
        if success then b1\<lparr>br_state := BreakerClosed, br_consecutive_err := 0\<rparr>
        else b1\<lparr>br_state := BreakerOpen, br_opened_at := now\<rparr>)
   | BreakerClosed \<Rightarrow>
       if success then b\<lparr>br_consecutive_err := 0\<rparr>
       else
         (let b1 = b\<lparr>br_consecutive_err := br_consecutive_err b + 1\<rparr> in
          if br_consecutive_err b1 \<ge> br_threshold b1
          then b1\<lparr>br_state := BreakerOpen, br_opened_at := now\<rparr> else b1)
   | BreakerOpen \<Rightarrow> b)"

definition breaker_is_open :: "instant \<Rightarrow> circuit_breaker \<Rightarrow> bool" where
  "breaker_is_open now b \<longleftrightarrow>
     br_state b = BreakerOpen \<and> now - br_opened_at b < br_cooldown b"

section \<open>The executor's report\<close>

definition is_client_canceled :: "go_error \<Rightarrow> bool" where
  "is_client_canceled e \<longleftrightarrow> err_is e ErrCanceled \<or> err_is e ErrDeadlineExceeded"

text \<open>
  \<^verbatim>\<open>Executor.Execute\<close> reports \<^verbatim>\<open>done(err == nil || isClientCanceled(err))\<close>.
\<close>

definition call_success :: "go_error option \<Rightarrow> bool" where
  "call_success err = (case err of None \<Rightarrow> True | Some e \<Rightarrow> is_client_canceled e)"

section \<open>Reconnection backoff\<close>

abbreviation reconnect_base_backoff :: duration where "reconnect_base_backoff \<equiv> second"
abbreviation reconnect_max_backoff :: duration where "reconnect_max_backoff \<equiv> 30 * second"

definition next_backoff :: "duration \<Rightarrow> duration" where
  "next_backoff current =
     (let n = wrap64 (current * 2)
      in if n > reconnect_max_backoff then reconnect_max_backoff else n)"

section \<open>Runs\<close>

text \<open>
  Calls of the two methods in the order the mutex serialises them. \<open>Record\<close> may come from
  any call that was let through earlier, the one the breaker is waiting for or a slow one from
  before it opened.
\<close>

datatype breaker_event = Allow instant | Record instant bool

fun breaker_step :: "circuit_breaker \<Rightarrow> breaker_event \<Rightarrow> circuit_breaker" where
  "breaker_step b (Allow now) = snd (breaker_allow now b)"
| "breaker_step b (Record now ok) = breaker_record now ok b"

definition breaker_run :: "circuit_breaker \<Rightarrow> breaker_event list \<Rightarrow> circuit_breaker" where
  "breaker_run = foldl breaker_step"

text \<open>The answers of the \<open>Allow\<close> events of a run, in order.\<close>

fun breaker_grants :: "circuit_breaker \<Rightarrow> breaker_event list \<Rightarrow> nat" where
  "breaker_grants b [] = 0"
| "breaker_grants b (Allow now # es) =
     (if fst (breaker_allow now b) then 1 else 0) + breaker_grants (snd (breaker_allow now b)) es"
| "breaker_grants b (Record now ok # es) = breaker_grants (breaker_record now ok b) es"

definition breaker_inv :: "circuit_breaker \<Rightarrow> bool" where
  "breaker_inv b \<longleftrightarrow>
     0 < br_threshold b \<and> 0 < br_cooldown b \<and> 0 \<le> br_consecutive_err b \<and>
     (br_state b = BreakerClosed \<longrightarrow> br_consecutive_err b < br_threshold b) \<and>
     (br_half_open_in_flight b \<longleftrightarrow> br_state b = BreakerHalfOpen)"

lemma breaker_inv_new [simp, inv_intros]: "breaker_inv (new_circuit_breaker t c)"
  by (simp add: breaker_inv_def new_circuit_breaker_def)

lemma breaker_inv_allow [inv_intros]: "breaker_inv b \<Longrightarrow> breaker_inv (snd (breaker_allow now b))"
  by (auto simp: breaker_inv_def breaker_allow_def split: breaker_state.splits)

lemma breaker_inv_record [inv_intros]: "breaker_inv b \<Longrightarrow> breaker_inv (breaker_record now ok b)"
  by (auto simp: breaker_inv_def breaker_record_def Let_def split: breaker_state.splits)

lemma breaker_inv_step [inv_intros]: "breaker_inv b \<Longrightarrow> breaker_inv (breaker_step b e)"
  by (cases e) (auto intro: inv_intros)

lemma breaker_inv_run [inv_intros]: "breaker_inv b \<Longrightarrow> breaker_inv (breaker_run b es)"
  by (induction es arbitrary: b) (auto simp: breaker_run_def intro: inv_intros)

lemma breaker_run_Cons [simp]: "breaker_run b (e # es) = breaker_run (breaker_step b e) es"
  by (simp add: breaker_run_def)

lemma breaker_run_Nil [simp]: "breaker_run b [] = b"
  by (simp add: breaker_run_def)

lemma breaker_run_append: "breaker_run b (xs @ ys) = breaker_run (breaker_run b xs) ys"
  by (simp add: breaker_run_def)

lemma breaker_step_config [simp]:
  "br_threshold (breaker_step b e) = br_threshold b" "br_cooldown (breaker_step b e) = br_cooldown b"
  by (cases e; auto simp: breaker_allow_def breaker_record_def Let_def split: breaker_state.splits)+



text \<open>While the breaker is open and the cooldown runs, no event moves it.\<close>

definition event_time :: "breaker_event \<Rightarrow> instant" where
  "event_time e = (case e of Allow t \<Rightarrow> t | Record t _ \<Rightarrow> t)"

lemma open_stable:
  assumes "br_state b = BreakerOpen"
    and "\<forall>e \<in> set es. event_time e < br_opened_at b + br_cooldown b"
  shows "breaker_run b es = b \<and> breaker_grants b es = 0"
  using assms
proof (induction es)
  case (Cons e es)
  then show ?case
    by (cases e) (auto simp: event_time_def breaker_allow_def breaker_record_def)
qed simp

lemma closed_failures:
  assumes "br_state b = BreakerClosed" "br_consecutive_err b + int (length ts) < br_threshold b"
  shows "breaker_run b (map (\<lambda>t. Record t False) ts) =
    b\<lparr>br_consecutive_err := br_consecutive_err b + int (length ts)\<rparr>"
  using assms
proof (induction ts arbitrary: b)
  case (Cons t ts)
  let ?b = "b\<lparr>br_consecutive_err := br_consecutive_err b + 1\<rparr>"
  from Cons.prems have step: "breaker_step b (Record t False) = ?b"
    by (simp add: breaker_record_def)
  from Cons.prems have "breaker_run ?b (map (\<lambda>t. Record t False) ts) =
      ?b\<lparr>br_consecutive_err := br_consecutive_err ?b + int (length ts)\<rparr>"
    by (intro Cons.IH) auto
  with step show ?case by simp
qed simp

lemma closed_failure_trips:
  assumes "br_state b = BreakerClosed" "br_consecutive_err b + 1 \<ge> br_threshold b"
  shows "br_state (breaker_record t False b) = BreakerOpen"
    and "br_opened_at (breaker_record t False b) = t"
  using assms by (simp_all add: breaker_record_def)

section \<open>Properties\<close>

text \<open>
  The breaker trips exactly at its threshold. Of a run of failures recorded on a fresh
  breaker it is the threshold-th that opens it, neither an earlier nor a later one, and that
  failure's time starts the cooldown.
\<close>

theorem breaker_trips_at_threshold:
  fixes t c ts
  defines "b0 \<equiv> new_circuit_breaker t c"
  defines "b \<equiv> breaker_run b0 (map (\<lambda>x. Record x False) ts)"
  defines "n \<equiv> nat (br_threshold b0)"
  shows "br_state b = (if length ts < n then BreakerClosed else BreakerOpen) \<and>
    br_opened_at b = (if length ts < n then 0 else ts ! (n - 1))"
proof -
  have pos: "0 < br_threshold b0" and b0: "br_state b0 = BreakerClosed" "br_consecutive_err b0 = 0"
      "br_opened_at b0 = 0"
    by (simp_all add: b0_def new_circuit_breaker_def)
  show ?thesis
  proof (cases "length ts < n")
    case True
    then show ?thesis
      using closed_failures [of b0 ts] b0 by (simp add: b_def n_def)
  next
    case False
    define k where "k = n - 1"
    have k: "k < length ts" "n = Suc k"
      using False pos by (auto simp: k_def n_def)
    define us x vs where "us = take k ts" and "x = ts ! k" and "vs = drop (Suc k) ts"
    have ts: "ts = us @ x # vs" "Suc (length us) = n"
      using k by (simp_all add: us_def x_def vs_def id_take_nth_drop [symmetric])
    let ?b1 = "breaker_run b0 (map (\<lambda>x. Record x False) us)"
    have b1: "?b1 = b0\<lparr>br_consecutive_err := int (length us)\<rparr>"
      using closed_failures [of b0 us] b0 ts(2) pos by (simp add: n_def)
    then have "br_state (breaker_record x False ?b1) = BreakerOpen"
      "br_opened_at (breaker_record x False ?b1) = x"
      using closed_failure_trips [of ?b1 x] b0 ts(2) pos by (auto simp: n_def)
    moreover have "br_state d = BreakerOpen \<Longrightarrow> breaker_run d (map (\<lambda>x. Record x False) vs) = d" for d
      by (induction vs) (simp_all add: breaker_record_def)
    ultimately have "br_state b = BreakerOpen \<and> br_opened_at b = x"
      using ts(1) by (simp add: b_def breaker_run_append)
    moreover have "ts ! (n - 1) = x"
      using k by (simp add: x_def)
    ultimately show ?thesis
      using False by simp
  qed
qed



definition timed_out :: "breaker_event \<Rightarrow> bool" where
  "timed_out e = (case e of
     Allow _ \<Rightarrow> True
   | Record _ ok \<Rightarrow> \<exists>err. err_is err ErrDeadlineExceeded \<and> ok = call_success (Some err))"

text \<open>
  A server that only ever times out is never cut off. Whatever the order of admissions and
  outcomes, when every failed call failed with the deadline of its context the breaker stays
  closed and lets every call through: the per-call timeout of the executor counts as a success.
\<close>

theorem timeouts_never_trip:
  assumes "br_state b = BreakerClosed" "\<forall>e \<in> set es. timed_out e"
  shows "br_state (breaker_run b es) = BreakerClosed \<and>
    breaker_grants b es = length (filter (\<lambda>e. case e of Allow _ \<Rightarrow> True | _ \<Rightarrow> False) es)"
  using assms
proof (induction es arbitrary: b)
  case (Cons e es)
  show ?case
  proof (cases e)
    case (Allow t)
    with Cons show ?thesis by (simp add: breaker_allow_def)
  next
    case (Record t ok)
    with Cons.prems have ok
      by (auto simp: timed_out_def call_success_def is_client_canceled_def)
    with Record Cons.prems Cons.IH [of "b\<lparr>br_consecutive_err := 0\<rparr>"] show ?thesis
      by (simp add: breaker_record_def)
  qed
qed simp

theorem timeouts_never_trip_witness:
  "br_state (breaker_run (new_circuit_breaker 1 5)
     (concat (replicate 3 [Allow 0, Record 30 (call_success (Some (ErrWrap ''call: '' ErrDeadlineExceeded)))])))
     = BreakerClosed"
proof -
  have "timed_out (Record 30 (call_success (Some (ErrWrap ''call: '' ErrDeadlineExceeded))))"
    unfolding timed_out_def
    by (auto intro: exI [of _ "ErrWrap ''call: '' ErrDeadlineExceeded"])
  then show ?thesis
    using timeouts_never_trip [of "new_circuit_breaker 1 5"
        "concat (replicate 3 [Allow 0, Record 30 (call_success (Some (ErrWrap ''call: '' ErrDeadlineExceeded)))])"]
    by (simp add: numeral_3_eq_3 new_circuit_breaker_def timed_out_def del: breaker_run_Cons)
qed

text \<open>
  A late success counts for the probe: a call admitted before the breaker opened closes it while
  the probe is still out, and the next call passes.
\<close>

lemma stale_success_closes:
  "let b = breaker_run (new_circuit_breaker 1 5)
         [Allow 0, Allow 1, Record 2 False, Allow 7]
   in br_state b = BreakerHalfOpen \<and> breaker_allow 8 b = (False, b) \<and>
      fst (breaker_allow 9 (breaker_record 8 True b))"
  by code_simp

end
