(* ===== verification/Limiter.thy ===== *)
theory Limiter
  imports Kf_Prelude
begin

text \<open>
  The in-process concurrency limits: \<^verbatim>\<open>internal/shared/limiter\<close> (\<^verbatim>\<open>KeyedSemaphore\<close>,
  \<^verbatim>\<open>Counter\<close>) and \<^verbatim>\<open>agent/application/internal/runlimit\<close> (\<^verbatim>\<open>Limiter\<close>), with
  their contract as the locale \<open>admission\<close>, interpreted for all three.

  A release closure is a value: what it gives back, and the flag of its \<^verbatim>\<open>sync.Once\<close>.
  Calling it is \<open>ks_fire\<close>, \<open>ct_fire\<close> or \<open>rl_fire\<close>, which return the closure with the
  flag set. \<^verbatim>\<open>Counter\<close> has no lock; the last section models its atomic operations
  one by one, as steps of concurrent callers.
\<close>

section \<open>The contract of a limiter\<close>

text \<open>
  \<open>slots h\<close> are the dimensions a release closure still has to give back, \<open>used s d\<close> is the
  number of slots taken in dimension \<open>d\<close>.
\<close>

datatype 'k adm_op = Acquire 'k | Release nat

fun adm_step ::
  "('k \<Rightarrow> 's \<Rightarrow> 'h option \<times> 's) \<Rightarrow> ('h \<Rightarrow> 's \<Rightarrow> 'h \<times> 's) \<Rightarrow> 's \<times> 'h list \<Rightarrow> 'k adm_op \<Rightarrow> 's \<times> 'h list"
where
  "adm_step acq fire (s, hs) (Acquire k) =
     (case acq k s of (None, s') \<Rightarrow> (s', hs) | (Some h, s') \<Rightarrow> (s', hs @ [h]))"
| "adm_step acq fire (s, hs) (Release i) =
     (if i < length hs then (case fire (hs ! i) s of (h, s') \<Rightarrow> (s', hs[i := h])) else (s, hs))"

definition adm_run ::
  "('k \<Rightarrow> 's \<Rightarrow> 'h option \<times> 's) \<Rightarrow> ('h \<Rightarrow> 's \<Rightarrow> 'h \<times> 's) \<Rightarrow> 's \<Rightarrow> 'k adm_op list \<Rightarrow> 's \<times> 'h list"
where
  "adm_run acq fire s ops = foldl (adm_step acq fire) (s, []) ops"

definition held :: "('h \<Rightarrow> 'd list) \<Rightarrow> 'h list \<Rightarrow> 'd \<Rightarrow> int" where
  "held slots hs d = int (sum_list (map (\<lambda>h. count_list (slots h) d) hs))"

lemma held_Nil [simp]: "held slots [] d = 0"
  by (simp add: held_def)

lemma held_snoc [simp]: "held slots (hs @ [h]) d = held slots hs d + int (count_list (slots h) d)"
  by (simp add: held_def)

lemma held_ge: "i < length hs \<Longrightarrow> int (count_list (slots (hs ! i)) d) \<le> held slots hs d"
  using member_le_sum_list [of "count_list (slots (hs ! i)) d" "map (\<lambda>h. count_list (slots h) d) hs"]
  by (simp add: held_def)

lemma held_update:
  "i < length hs \<Longrightarrow> held slots (hs[i := h]) d =
     held slots hs d - int (count_list (slots (hs ! i)) d) + int (count_list (slots h) d)"
proof (induction hs arbitrary: i)
  case (Cons x hs)
  then show ?case by (cases i) (auto simp: held_def)
qed simp

locale admission =
  fixes acq :: "'k \<Rightarrow> 's \<Rightarrow> 'h option \<times> 's"
    and fire :: "'h \<Rightarrow> 's \<Rightarrow> 'h \<times> 's"
    and slots :: "'h \<Rightarrow> 'd list"
    and used :: "'s \<Rightarrow> 'd \<Rightarrow> int"
    and inv :: "'s \<Rightarrow> bool"
  assumes acq_refused: "inv s \<Longrightarrow> acq k s = (None, s') \<Longrightarrow> s' = s"
    and acq_granted: "inv s \<Longrightarrow> acq k s = (Some h, s') \<Longrightarrow>
      inv s' \<and> (\<forall>d. used s' d = used s d + int (count_list (slots h) d))"
    and fire_ok: "inv s \<Longrightarrow> (\<And>d. int (count_list (slots h) d) \<le> used s d) \<Longrightarrow> fire h s = (h', s') \<Longrightarrow>
      inv s' \<and> slots h' = [] \<and> (\<forall>d. used s' d = used s d - int (count_list (slots h) d))"
    and fire_spent: "slots h = [] \<Longrightarrow> slots (fst (fire h s)) = []"
begin

text \<open>The counters are exactly the slots of the closures not called yet.\<close>

definition accounted :: "'s \<times> 'h list \<Rightarrow> bool" where
  "accounted st \<longleftrightarrow> inv (fst st) \<and> (\<forall>d. used (fst st) d = held slots (snd st) d)"

lemma step_accounted: "accounted st \<Longrightarrow> accounted (adm_step acq fire st op)"
proof (cases st; cases op)
  fix s hs k assume st: "accounted st" "st = (s, hs)" "op = Acquire k"
  obtain r s' where a: "acq k s = (r, s')" by fastforce
  with st show "accounted (adm_step acq fire st op)"
    using acq_refused [of s k s'] acq_granted [of s k _ s']
    by (cases r) (auto simp: accounted_def)
next
  fix s hs i assume st: "accounted st" "st = (s, hs)" "op = Release i"
  obtain h' s' where f: "fire (hs ! i) s = (h', s')" by fastforce
  show "accounted (adm_step acq fire st op)"
  proof (cases "i < length hs")
    case True
    with st have le: "int (count_list (slots (hs ! i)) d) \<le> used s d" for d
      using held_ge [of i hs slots d] by (simp add: accounted_def)
    from st have "inv s" by (simp add: accounted_def)
    from fire_ok [OF this le f] have "inv s'" "slots h' = []"
      "\<And>d. used s' d = used s d - int (count_list (slots (hs ! i)) d)" by auto
    with True st f show ?thesis by (auto simp: accounted_def held_update)
  qed (use st in simp)
qed

lemma run_accounted: "inv s \<Longrightarrow> (\<And>d. used s d = 0) \<Longrightarrow> accounted (adm_run acq fire s ops)"
proof -
  assume s: "inv s" "\<And>d. used s d = 0"
  have "accounted st \<Longrightarrow> accounted (foldl (adm_step acq fire) st ops)" for st
    by (induction ops arbitrary: st) (simp_all add: step_accounted del: split_paired_All)
  with s show ?thesis by (simp add: adm_run_def accounted_def)
qed

lemma run_used: "inv s \<Longrightarrow> (\<And>d. used s d = 0) \<Longrightarrow> adm_run acq fire s ops = (s', hs) \<Longrightarrow>
    inv s' \<and> (\<forall>d. used s' d = held slots hs d)"
  using run_accounted [of s ops] by (simp add: accounted_def)

end

section \<open>KeyedSemaphore\<close>

record keyed_semaphore =
  ks_max :: int
  ks_counts :: "(string, int) gmap"

datatype ks_closure = KsNoop | KsRelease string

type_synonym ks_handle = "ks_closure \<times> bool"

definition count_of :: "('k, int) gmap \<Rightarrow> 'k \<Rightarrow> int" where
  "count_of m k = (case gm_get m k of None \<Rightarrow> 0 | Some n \<Rightarrow> n)"

definition new_keyed_semaphore :: "int \<Rightarrow> keyed_semaphore" where
  "new_keyed_semaphore m = \<lparr>ks_max = (if m < 0 then 0 else m), ks_counts = []\<rparr>"

definition ks_acquire :: "string \<Rightarrow> keyed_semaphore \<Rightarrow> ks_handle option \<times> keyed_semaphore" where
  "ks_acquire key s =
    (if ks_max s \<le> 0 \<or> key = [] then (Some (KsNoop, False), s)
     else if count_of (ks_counts s) key \<ge> ks_max s then (None, s)
     else (Some (KsRelease key, False),
           s\<lparr>ks_counts := gm_put key (count_of (ks_counts s) key + 1) (ks_counts s)\<rparr>))"

definition ks_release :: "string \<Rightarrow> keyed_semaphore \<Rightarrow> keyed_semaphore" where
  "ks_release key s =
    (let n = count_of (ks_counts s) key in
     if n \<le> 1 then s\<lparr>ks_counts := gm_del key (ks_counts s)\<rparr>
     else s\<lparr>ks_counts := gm_put key (n - 1) (ks_counts s)\<rparr>)"

definition ks_fire :: "ks_handle \<Rightarrow> keyed_semaphore \<Rightarrow> ks_handle \<times> keyed_semaphore" where
  "ks_fire h s = (case h of
     (KsNoop, done) \<Rightarrow> ((KsNoop, done), s)
   | (KsRelease key, done) \<Rightarrow> ((KsRelease key, True), if done then s else ks_release key s))"

fun ks_slots :: "ks_handle \<Rightarrow> string list" where
  "ks_slots (KsRelease key, False) = [key]"
| "ks_slots _ = []"

abbreviation ks_used :: "keyed_semaphore \<Rightarrow> string \<Rightarrow> int" where
  "ks_used s \<equiv> count_of (ks_counts s)"

definition ks_inv :: "keyed_semaphore \<Rightarrow> bool" where
  "ks_inv s \<longleftrightarrow> gm_ok (ks_counts s) \<and>
     (\<forall>k n. gm_get (ks_counts s) k = Some n \<longrightarrow> 1 \<le> n \<and> n \<le> ks_max s \<and> k \<noteq> [])"

lemma count_of_put [simp]: "count_of (gm_put k n m) k' = (if k' = k then n else count_of m k')"
  by (simp add: count_of_def)

lemma count_of_del [simp]: "count_of (gm_del k m) k' = (if k' = k then 0 else count_of m k')"
  by (simp add: count_of_def)

lemma count_of_Nil [simp]: "count_of [] k = 0"
  by (simp add: count_of_def)

lemma ks_inv_new [simp, inv_intros]: "ks_inv (new_keyed_semaphore m)"
  by (simp add: ks_inv_def new_keyed_semaphore_def)

lemma ks_invD: "ks_inv s \<Longrightarrow> gm_get (ks_counts s) k = Some n \<Longrightarrow> 1 \<le> n \<and> n \<le> ks_max s \<and> k \<noteq> []"
  by (simp add: ks_inv_def)

lemma ks_invI: "gm_ok (ks_counts s) \<Longrightarrow>
    (\<And>k n. gm_get (ks_counts s) k = Some n \<Longrightarrow> 1 \<le> n \<and> n \<le> ks_max s \<and> k \<noteq> []) \<Longrightarrow> ks_inv s"
  by (simp add: ks_inv_def)

lemma ks_inv_ok: "ks_inv s \<Longrightarrow> gm_ok (ks_counts s)"
  by (simp add: ks_inv_def)

lemma ks_count_bounds: "ks_inv s \<Longrightarrow> 0 \<le> ks_used s k \<and> (0 < ks_max s \<longrightarrow> ks_used s k \<le> ks_max s)"
  by (auto simp: count_of_def split: option.splits dest: ks_invD)

lemma ks_used_iff_key: "ks_inv s \<Longrightarrow> k \<in> fst ` set (ks_counts s) \<longleftrightarrow> 0 < ks_used s k"
  unfolding gm_keys_get by (auto simp: count_of_def split: option.splits dest: ks_invD)

lemma ks_inv_put: "ks_inv s \<Longrightarrow> 1 \<le> n \<Longrightarrow> n \<le> ks_max s \<Longrightarrow> k \<noteq> [] \<Longrightarrow>
    ks_inv (s\<lparr>ks_counts := gm_put k n (ks_counts s)\<rparr>)"
  by (simp add: ks_inv_def)

lemma ks_inv_del: "ks_inv s \<Longrightarrow> ks_inv (s\<lparr>ks_counts := gm_del k (ks_counts s)\<rparr>)"
  by (simp add: ks_inv_def)

lemma ks_inv_acquire [inv_intros]: "ks_inv s \<Longrightarrow> ks_inv (snd (ks_acquire k s))"
  using ks_count_bounds [of s k] by (auto simp: ks_acquire_def intro: ks_inv_put)

lemma ks_inv_release [inv_intros]:
  assumes "ks_inv s"
  shows "ks_inv (ks_release k s)"
proof (cases "ks_used s k \<le> 1")
  case True
  with assms show ?thesis by (simp add: ks_release_def ks_inv_del)
next
  case False
  then obtain n where n: "gm_get (ks_counts s) k = Some n" "ks_used s k = n" "1 < n"
    by (auto simp: count_of_def split: option.splits)
  from ks_invD [OF assms n(1)] n show ?thesis
    by (auto simp: ks_release_def Let_def intro!: ks_inv_put assms)
qed

lemma ks_used_release: "ks_inv s \<Longrightarrow> 0 < ks_used s k \<Longrightarrow>
    ks_used (ks_release k s) k' = ks_used s k' - (if k' = k then 1 else 0)"
  by (auto simp: ks_release_def Let_def)

lemma ks_max_acquire [simp]: "ks_max (snd (ks_acquire k s)) = ks_max s"
  by (simp add: ks_acquire_def)

lemma ks_max_fire [simp]: "ks_max (snd (ks_fire h s)) = ks_max s"
  by (auto simp: ks_fire_def ks_release_def Let_def split: prod.splits ks_closure.splits)

lemma ks_fire_spent [simp]: "ks_slots (fst (ks_fire h s)) = []"
  by (cases h; cases "fst h"; cases "snd h") (auto simp: ks_fire_def)

lemma gm_put_same: "gm_get m k = Some v \<Longrightarrow> gm_put k v (gm_put k w m) = m"
  unfolding gm_put_def by (induction m) auto

lemma gm_del_put_new: "gm_get m k = None \<Longrightarrow> gm_del k (gm_put k w m) = m"
  unfolding gm_put_def gm_del_def by (induction m) (auto simp: filter_id_conv split: if_splits)

text \<open>Giving a slot back at once leaves no trace of it.\<close>

lemma ks_acquire_rollback:
  assumes "ks_inv s" "ks_acquire k s = (Some h, s')"
  shows "snd (ks_fire h s') = s"
proof (cases "ks_max s \<le> 0 \<or> k = []")
  case False
  show ?thesis
  proof (cases "gm_get (ks_counts s) k")
    case None
    with False assms show ?thesis
      by (auto simp: ks_acquire_def ks_fire_def ks_release_def count_of_def gm_del_put_new split: if_splits)
  next
    case (Some n)
    with ks_invD [OF assms(1) Some] False assms(2) show ?thesis
      by (auto simp: ks_acquire_def ks_fire_def ks_release_def count_of_def gm_put_same split: if_splits)
  qed
qed (use assms in \<open>auto simp: ks_acquire_def ks_fire_def\<close>)

interpretation ks: admission ks_acquire ks_fire ks_slots ks_used ks_inv
proof
  fix s k s' assume "ks_inv s" "ks_acquire k s = (None, s')"
  then show "s' = s" by (auto simp: ks_acquire_def split: if_splits)
next
  fix s k h s' assume a: "ks_inv s" "ks_acquire k s = (Some h, s')"
  then have "ks_inv s'" using ks_inv_acquire [of s k] by simp
  with a show "ks_inv s' \<and> (\<forall>d. ks_used s' d = ks_used s d + int (count_list (ks_slots h) d))"
    by (auto simp: ks_acquire_def split: if_splits)
next
  fix s h h' s' assume a: "ks_inv s" "ks_fire h s = (h', s')"
    and le: "\<And>d. int (count_list (ks_slots h) d) \<le> ks_used s d"
  show "ks_inv s' \<and> ks_slots h' = [] \<and> (\<forall>d. ks_used s' d = ks_used s d - int (count_list (ks_slots h) d))"
  proof (cases "\<exists>key. h = (KsRelease key, False)")
    case True
    then obtain key where h: "h = (KsRelease key, False)" by blast
    with le [of key] have "0 < ks_used s key" by simp
    with h a ks_inv_release [of s key] ks_used_release [of s key] show ?thesis
      by (auto simp: ks_fire_def)
  next
    case False
    then have "ks_slots h = [] \<and> ks_slots h' = [] \<and> s' = s"
      using a(2) by (cases h; cases "fst h"; cases "snd h") (auto simp: ks_fire_def)
    with a(1) show ?thesis by simp
  qed
qed simp

section \<open>Counter\<close>

record counter =
  ct_max :: int
  ct_used :: int

datatype ct_closure = CtNoop | CtRelease

type_synonym ct_handle = "ct_closure \<times> bool"

definition new_counter :: "int \<Rightarrow> counter" where
  "new_counter m = \<lparr>ct_max = (if m < 0 then 0 else m), ct_used = 0\<rparr>"

definition ct_acquire :: "counter \<Rightarrow> ct_handle option \<times> counter" where
  "ct_acquire c =
    (if ct_max c \<le> 0 then (Some (CtNoop, False), c)
     else
       (let c1 = c\<lparr>ct_used := ct_used c + 1\<rparr> in
        if ct_used c1 > ct_max c1 then (None, c1\<lparr>ct_used := ct_used c1 - 1\<rparr>)
        else (Some (CtRelease, False), c1)))"

definition ct_fire :: "ct_handle \<Rightarrow> counter \<Rightarrow> ct_handle \<times> counter" where
  "ct_fire h c = (case h of
     (CtNoop, done) \<Rightarrow> ((CtNoop, done), c)
   | (CtRelease, done) \<Rightarrow> ((CtRelease, True), if done then c else c\<lparr>ct_used := ct_used c - 1\<rparr>))"

fun ct_slots :: "ct_handle \<Rightarrow> unit list" where
  "ct_slots (CtRelease, False) = [()]"
| "ct_slots _ = []"

definition ct_inv :: "counter \<Rightarrow> bool" where
  "ct_inv c \<longleftrightarrow> 0 \<le> ct_used c \<and> (if ct_max c \<le> 0 then ct_used c = 0 else ct_used c \<le> ct_max c)"

lemma ct_inv_new [simp, inv_intros]: "ct_inv (new_counter m)"
  by (simp add: ct_inv_def new_counter_def)

lemma ct_fire_spent [simp]: "ct_slots (fst (ct_fire h c)) = []"
  by (cases h; cases "fst h"; cases "snd h") (auto simp: ct_fire_def)

interpretation ct: admission "\<lambda>_::unit. ct_acquire" ct_fire ct_slots "\<lambda>c _. ct_used c" ct_inv
proof
  fix s s' assume "ct_inv s" "ct_acquire s = (None, s')"
  then show "s' = s" by (auto simp: ct_acquire_def Let_def split: if_splits)
next
  fix s h s' assume "ct_inv s" "ct_acquire s = (Some h, s')"
  then show "ct_inv s' \<and> (\<forall>d. ct_used s' = ct_used s + int (count_list (ct_slots h) d))"
    by (auto simp: ct_acquire_def ct_inv_def Let_def split: if_splits)
next
  fix s h h' s' assume a: "ct_inv s" "ct_fire h s = (h', s')"
    and le: "\<And>d. int (count_list (ct_slots h) d) \<le> ct_used s"
  obtain r dn where h: "h = (r, dn)" by fastforce
  show "ct_inv s' \<and> ct_slots h' = [] \<and> (\<forall>d. ct_used s' = ct_used s - int (count_list (ct_slots h) d))"
    using a h le [of "()"]
    by (cases r; cases dn) (auto simp: ct_fire_def ct_inv_def)
qed simp

section \<open>The run limiter\<close>

record run_limiter =
  rl_per_user :: keyed_semaphore
  rl_global :: counter

type_synonym rl_handle = "ks_handle \<times> ct_handle"

definition new_run_limiter :: "int \<Rightarrow> int \<Rightarrow> run_limiter" where
  "new_run_limiter perUser glob =
     \<lparr>rl_per_user = new_keyed_semaphore perUser, rl_global = new_counter glob\<rparr>"

definition rl_acquire :: "string \<Rightarrow> run_limiter \<Rightarrow> rl_handle option \<times> run_limiter" where
  "rl_acquire subject l =
    (case ct_acquire (rl_global l) of
       (None, g) \<Rightarrow> (None, l\<lparr>rl_global := g\<rparr>)
     | (Some gh, g) \<Rightarrow>
        (case ks_acquire subject (rl_per_user l) of
           (None, u) \<Rightarrow> (None, l\<lparr>rl_global := snd (ct_fire gh g), rl_per_user := u\<rparr>)
         | (Some uh, u) \<Rightarrow> (Some (uh, gh), l\<lparr>rl_global := g, rl_per_user := u\<rparr>)))"

definition rl_fire :: "rl_handle \<Rightarrow> run_limiter \<Rightarrow> rl_handle \<times> run_limiter" where
  "rl_fire h l =
    (let (uh, u) = ks_fire (fst h) (rl_per_user l); (gh, g) = ct_fire (snd h) (rl_global l)
     in ((uh, gh), l\<lparr>rl_per_user := u, rl_global := g\<rparr>))"

datatype rl_dim = UserDim string | GlobalDim

definition rl_slots :: "rl_handle \<Rightarrow> rl_dim list" where
  "rl_slots h = map UserDim (ks_slots (fst h)) @ map (\<lambda>_. GlobalDim) (ct_slots (snd h))"

fun rl_used :: "run_limiter \<Rightarrow> rl_dim \<Rightarrow> int" where
  "rl_used l (UserDim u) = ks_used (rl_per_user l) u"
| "rl_used l GlobalDim = ct_used (rl_global l)"

definition rl_inv :: "run_limiter \<Rightarrow> bool" where
  "rl_inv l \<longleftrightarrow> ks_inv (rl_per_user l) \<and> ct_inv (rl_global l)"

lemma rl_inv_new [simp, inv_intros]: "rl_inv (new_run_limiter p g)"
  by (simp add: rl_inv_def new_run_limiter_def)

lemma count_UserDim [simp]: "count_list (map UserDim us) (UserDim u) = count_list us u"
  by (induction us) auto

lemma count_UserDim_Global [simp]: "count_list (map UserDim us) GlobalDim = 0"
  by (induction us) auto

lemma count_Global_User [simp]: "count_list (map (\<lambda>_. GlobalDim) gs) (UserDim u) = 0"
  by (induction gs) auto

lemma count_Global [simp]: "count_list (map (\<lambda>_. GlobalDim) gs) GlobalDim = count_list gs ()"
  by (induction gs) auto

lemma rl_slots_counts [simp]:
  "count_list (rl_slots h) (UserDim u) = count_list (ks_slots (fst h)) u"
  "count_list (rl_slots h) GlobalDim = count_list (ct_slots (snd h)) ()"
  by (simp_all add: rl_slots_def)

text \<open>A refused run gives back the global slot it took first: nothing stays occupied.\<close>

lemma ct_acquire_rollback: "ct_inv c \<Longrightarrow> ct_acquire c = (Some h, c') \<Longrightarrow> snd (ct_fire h c') = c"
  by (auto simp: ct_acquire_def ct_fire_def Let_def split: if_splits)

lemma rl_acquire_refused: "rl_inv l \<Longrightarrow> rl_acquire s l = (None, l') \<Longrightarrow> l' = l"
proof -
  assume a: "rl_inv l" "rl_acquire s l = (None, l')"
  obtain r g where g: "ct_acquire (rl_global l) = (r, g)" by fastforce
  from a have i: "ct_inv (rl_global l)" "ks_inv (rl_per_user l)" by (auto simp: rl_inv_def)
  show "l' = l"
  proof (cases r)
    case None
    with ct.acq_refused [OF i(1)] g have "g = rl_global l" by simp
    with a g None show ?thesis by (simp add: rl_acquire_def)
  next
    case (Some gh)
    with a g obtain u where u: "ks_acquire s (rl_per_user l) = (None, u)"
      by (auto simp: rl_acquire_def split: prod.splits option.splits)
    with a g Some ks.acq_refused [OF i(2) u] ct_acquire_rollback [OF i(1), of gh g]
    show ?thesis by (simp add: rl_acquire_def)
  qed
qed

interpretation rl: admission rl_acquire rl_fire rl_slots rl_used rl_inv
proof
  show "rl_inv l \<Longrightarrow> rl_acquire s l = (None, l') \<Longrightarrow> l' = l" for l s l'
    by (rule rl_acquire_refused)
next
  fix l s h l' assume a: "rl_inv l" "rl_acquire s l = (Some h, l')"
  then obtain gh g uh u where
    g: "ct_acquire (rl_global l) = (Some gh, g)" and
    u: "ks_acquire s (rl_per_user l) = (Some uh, u)" and
    h: "h = (uh, gh)" "l' = l\<lparr>rl_global := g, rl_per_user := u\<rparr>"
    by (auto simp: rl_acquire_def split: prod.splits option.splits)
  from a have i: "ct_inv (rl_global l)" "ks_inv (rl_per_user l)" by (auto simp: rl_inv_def)
  from ct.acq_granted [OF i(1) g] ks.acq_granted [OF i(2) u] h
  show "rl_inv l' \<and> (\<forall>d. rl_used l' d = rl_used l d + int (count_list (rl_slots h) d))"
    by (auto simp: rl_inv_def intro!: allI, case_tac d, auto)
next
  fix l h h' l' assume a: "rl_inv l" "rl_fire h l = (h', l')"
    and le: "\<And>d. int (count_list (rl_slots h) d) \<le> rl_used l d"
  obtain uh u gh g where f: "ks_fire (fst h) (rl_per_user l) = (uh, u)"
    "ct_fire (snd h) (rl_global l) = (gh, g)" by fastforce
  with a have h': "h' = (uh, gh)" "l' = l\<lparr>rl_per_user := u, rl_global := g\<rparr>"
    by (auto simp: rl_fire_def)
  from a have i: "ct_inv (rl_global l)" "ks_inv (rl_per_user l)" by (auto simp: rl_inv_def)
  have leu: "int (count_list (ks_slots (fst h)) d) \<le> ks_used (rl_per_user l) d" for d
    using le [of "UserDim d"] by simp
  have leg: "int (count_list (ct_slots (snd h)) d) \<le> ct_used (rl_global l)" for d
    using le [of GlobalDim] by simp
  from ks.fire_ok [OF i(2) leu f(1)] ct.fire_ok [OF i(1) leg f(2)] h'
  show "rl_inv l' \<and> rl_slots h' = [] \<and> (\<forall>d. rl_used l' d = rl_used l d - int (count_list (rl_slots h) d))"
    by (auto simp: rl_inv_def rl_slots_def intro!: allI, case_tac d, auto)
next
  show "rl_slots (fst (rl_fire h l)) = []" for h l
    by (auto simp: rl_fire_def rl_slots_def split: prod.splits)
      (metis ks_fire_spent fst_conv, metis ct_fire_spent fst_conv)
qed

section \<open>Concurrent callers of Counter\<close>

text \<open>
  \<^verbatim>\<open>Counter.Acquire\<close> adds one, compares the value it got, and takes the one back where
  it was over the limit; \<^verbatim>\<open>release\<close> takes one back. Each addition is atomic, and any number
  of callers interleave between them.
\<close>

datatype ct_pc = CtIdle | CtOver | CtHolding

record ct_sys =
  cs_used :: int
  cs_pc :: "nat \<Rightarrow> ct_pc"

definition ct_init :: ct_sys where
  "ct_init = \<lparr>cs_used = 0, cs_pc = (\<lambda>_. CtIdle)\<rparr>"

inductive ct_step :: "int \<Rightarrow> ct_sys \<Rightarrow> ct_sys \<Rightarrow> bool" for m :: int where
  add_granted: "cs_pc s i = CtIdle \<Longrightarrow> cs_used s + 1 \<le> m \<Longrightarrow>
    ct_step m s (s\<lparr>cs_used := cs_used s + 1, cs_pc := (cs_pc s)(i := CtHolding)\<rparr>)"
| add_over: "cs_pc s i = CtIdle \<Longrightarrow> cs_used s + 1 > m \<Longrightarrow>
    ct_step m s (s\<lparr>cs_used := cs_used s + 1, cs_pc := (cs_pc s)(i := CtOver)\<rparr>)"
| take_back: "cs_pc s i = CtOver \<Longrightarrow>
    ct_step m s (s\<lparr>cs_used := cs_used s - 1, cs_pc := (cs_pc s)(i := CtIdle)\<rparr>)"
| release: "cs_pc s i = CtHolding \<Longrightarrow>
    ct_step m s (s\<lparr>cs_used := cs_used s - 1, cs_pc := (cs_pc s)(i := CtIdle)\<rparr>)"

inductive_simps ct_step_iff: "ct_step m s t"

inductive ct_reachable :: "int \<Rightarrow> ct_sys \<Rightarrow> bool" for m :: int where
  start: "ct_reachable m ct_init"
| step: "ct_reachable m s \<Longrightarrow> ct_step m s t \<Longrightarrow> ct_reachable m t"

definition at_pc :: "ct_sys \<Rightarrow> ct_pc \<Rightarrow> nat set" where
  "at_pc s p = {i. cs_pc s i = p}"

definition ct_sys_inv :: "int \<Rightarrow> ct_sys \<Rightarrow> bool" where
  "ct_sys_inv m s \<longleftrightarrow>
     finite (at_pc s CtHolding) \<and> finite (at_pc s CtOver) \<and>
     cs_used s = int (card (at_pc s CtHolding)) + int (card (at_pc s CtOver)) \<and>
     int (card (at_pc s CtHolding)) \<le> max 0 m"

lemma at_pc_upd:
  "at_pc (s\<lparr>cs_used := u, cs_pc := (cs_pc s)(i := p)\<rparr>) q =
     (if p = q then insert i (at_pc s q) else at_pc s q - {i})"
  by (auto simp: at_pc_def)

lemma at_pc_notin: "cs_pc s i = p \<Longrightarrow> i \<in> at_pc s q \<longleftrightarrow> p = q"
  by (simp add: at_pc_def)

lemma ct_step_inv: "ct_step m s t \<Longrightarrow> ct_sys_inv m s \<Longrightarrow> ct_sys_inv m t"
proof (induction rule: ct_step.induct)
  case (add_granted s i)
  then show ?case by (auto simp: ct_sys_inv_def at_pc_upd at_pc_notin card_insert_if)
next
  case (add_over s i)
  then show ?case by (auto simp: ct_sys_inv_def at_pc_upd at_pc_notin card_insert_if)
next
  case (take_back s i)
  then have "i \<in> at_pc s CtOver" by (simp add: at_pc_notin)
  with take_back have "0 < card (at_pc s CtOver)"
    by (auto simp: ct_sys_inv_def card_gt_0_iff)
  with take_back show ?case by (auto simp: ct_sys_inv_def at_pc_upd at_pc_notin)
next
  case (release s i)
  then have "i \<in> at_pc s CtHolding" by (simp add: at_pc_notin)
  with release have "0 < card (at_pc s CtHolding)"
    by (auto simp: ct_sys_inv_def card_gt_0_iff)
  with release show ?case by (auto simp: ct_sys_inv_def at_pc_upd at_pc_notin)
qed

lemma ct_reachable_inv: "ct_reachable m s \<Longrightarrow> ct_sys_inv m s"
proof (induction rule: ct_reachable.induct)
  case start
  show ?case by (simp add: ct_sys_inv_def ct_init_def at_pc_def)
next
  case (step s t)
  then show ?case by (blast intro: ct_step_inv)
qed

section \<open>Properties\<close>

lemma adm_run_preserves:
  assumes "\<And>k s. P s \<Longrightarrow> P (snd (acq k s))" "\<And>h s. P s \<Longrightarrow> P (snd (fire h s))" "P s"
  shows "P (fst (adm_run acq fire s ops))"
proof -
  have step': "P (fst (adm_step acq fire (s, hs) op))" if "P s" for s hs op
  proof (cases op)
    case (Acquire k)
    obtain r s' where "acq k s = (r, s')" by fastforce
    with assms(1) [OF that, of k] Acquire show ?thesis by (cases r) auto
  next
    case (Release i)
    obtain h s' where "fire (hs ! i) s = (h, s')" by fastforce
    with assms(2) [OF that, of "hs ! i"] Release that show ?thesis by auto
  qed
  have step: "P (fst st) \<Longrightarrow> P (fst (adm_step acq fire st op))" for st op
    using step' [of "fst st" "snd st"] by simp
  have "P (fst st) \<Longrightarrow> P (fst (foldl (adm_step acq fire) st ops))" for st
    by (induction ops arbitrary: st) (simp_all add: step del: split_paired_All)
  with assms(3) show ?thesis by (simp add: adm_run_def)
qed

lemma ct_max_acquire [simp]: "ct_max (snd (ct_acquire c)) = ct_max c"
  by (simp add: ct_acquire_def Let_def)

lemma ct_max_fire [simp]: "ct_max (snd (ct_fire h c)) = ct_max c"
  by (auto simp: ct_fire_def split: prod.splits ct_closure.splits)

lemma rl_max_acquire [simp]:
  "ks_max (rl_per_user (snd (rl_acquire s l))) = ks_max (rl_per_user l)"
  "ct_max (rl_global (snd (rl_acquire s l))) = ct_max (rl_global l)"
  using ks_max_acquire [of s "rl_per_user l"] ct_max_acquire [of "rl_global l"]
    ct_max_fire [of _ "snd (ct_acquire (rl_global l))"]
  by (auto simp: rl_acquire_def split: prod.splits option.splits simp del: ks_max_acquire ct_max_acquire)

lemma rl_max_fire [simp]:
  "ks_max (rl_per_user (snd (rl_fire h l))) = ks_max (rl_per_user l)"
  "ct_max (rl_global (snd (rl_fire h l))) = ct_max (rl_global l)"
  using ks_max_fire [of "fst h" "rl_per_user l"] ct_max_fire [of "snd h" "rl_global l"]
  by (auto simp: rl_fire_def split: prod.splits simp del: ks_max_fire ct_max_fire)

lemma rl_run_state:
  assumes "adm_run rl_acquire rl_fire (new_run_limiter p g) ops = (l, hs)"
  shows "rl_inv l \<and> (\<forall>d. rl_used l d = held rl_slots hs d) \<and>
    ks_max (rl_per_user l) = max 0 p \<and> ct_max (rl_global l) = max 0 g"
proof -
  have "rl_used (new_run_limiter p g) d = 0" for d
    by (cases d) (auto simp: new_run_limiter_def new_keyed_semaphore_def new_counter_def)
  from rl.run_used [OF rl_inv_new this assms]
  have 1: "rl_inv l \<and> (\<forall>d. rl_used l d = held rl_slots hs d)" .
  have "ks_max (rl_per_user (fst (adm_run rl_acquire rl_fire (new_run_limiter p g) ops))) = max 0 p"
    by (rule adm_run_preserves) (auto simp: new_run_limiter_def new_keyed_semaphore_def)
  moreover have "ct_max (rl_global (fst (adm_run rl_acquire rl_fire (new_run_limiter p g) ops))) = max 0 g"
    by (rule adm_run_preserves) (auto simp: new_run_limiter_def new_counter_def)
  ultimately show ?thesis using 1 assms by simp
qed

text \<open>
  C18: After any sequence of acquisitions and releases (repeated and out-of-order releases
  included), the run limiter built with limits \<open>p\<close> and \<open>g\<close> has handed out at most \<open>p\<close>
  unreleased slots per user and at most \<open>g\<close> in all, where the limit is positive.
\<close>

theorem run_limiter_bounded:
  assumes "adm_run rl_acquire rl_fire (new_run_limiter p g) ops = (l, hs)"
  shows "(0 < p \<longrightarrow> held rl_slots hs (UserDim u) \<le> p) \<and> (0 < g \<longrightarrow> held rl_slots hs GlobalDim \<le> g)"
proof -
  note st = rl_run_state [OF assms]
  then have "held rl_slots hs (UserDim u) = ks_used (rl_per_user l) u"
    "held rl_slots hs GlobalDim = ct_used (rl_global l)"
    by (metis rl_used.simps(1), metis rl_used.simps(2))
  with st ks_count_bounds [of "rl_per_user l" u] show ?thesis
    by (auto simp: rl_inv_def ct_inv_def split: if_splits)
qed

theorem run_limiter_bounded_witness:
  "\<exists>l hs. adm_run rl_acquire rl_fire (new_run_limiter 1 2) [Acquire ''a'', Acquire ''a'', Acquire ''b''] = (l, hs)
     \<and> length hs = 2 \<and> held rl_slots hs (UserDim ''a'') \<le> 1"
proof -
  let ?ops = "[Acquire ''a'', Acquire ''a'', Acquire ''b'']"
  obtain l hs where r: "adm_run rl_acquire rl_fire (new_run_limiter 1 2) ?ops = (l, hs)" by fastforce
  have "length (snd (adm_run rl_acquire rl_fire (new_run_limiter 1 2) ?ops)) = 2" by code_simp
  with r run_limiter_bounded [OF r, of "''a''"] show ?thesis by auto
qed

text \<open>
  The limiter never leaks a user: the keys its map holds are exactly the users with an
  unreleased slot, so once every closure has been called the map is empty and the global
  counter is zero.
\<close>

theorem run_limiter_no_leak:
  assumes "adm_run rl_acquire rl_fire (new_run_limiter p g) ops = (l, hs)"
  shows "fst ` set (ks_counts (rl_per_user l)) = {u. 0 < held rl_slots hs (UserDim u)} \<and>
    ((\<forall>h \<in> set hs. rl_slots h = []) \<longrightarrow> ks_counts (rl_per_user l) = [] \<and> ct_used (rl_global l) = 0)"
proof -
  note st = rl_run_state [OF assms]
  then have u: "ks_used (rl_per_user l) u = held rl_slots hs (UserDim u)" for u
    by (metis rl_used.simps(1))
  from st have g: "ct_used (rl_global l) = held rl_slots hs GlobalDim"
    by (metis rl_used.simps(2))
  have keys: "fst ` set (ks_counts (rl_per_user l)) = {u. 0 < held rl_slots hs (UserDim u)}"
    using ks_used_iff_key [of "rl_per_user l"] st u by (auto simp: rl_inv_def)
  have "\<forall>h \<in> set hs. rl_slots h = [] \<Longrightarrow> held rl_slots hs d = 0" for d
    by (simp add: held_def)
  with keys g show ?thesis by auto
qed

theorem run_limiter_no_leak_witness:
  "\<exists>l hs. adm_run rl_acquire rl_fire (new_run_limiter 2 2) [Acquire ''a'', Release 0, Release 0] = (l, hs)
     \<and> length hs = 1 \<and> ks_counts (rl_per_user l) = [] \<and> ct_used (rl_global l) = 0"
proof -
  let ?ops = "[Acquire ''a'', Release 0, Release 0]"
  obtain l hs where r: "adm_run rl_acquire rl_fire (new_run_limiter 2 2) ?ops = (l, hs)" by fastforce
  have "(\<forall>h \<in> set (snd (adm_run rl_acquire rl_fire (new_run_limiter 2 2) ?ops)). rl_slots h = [])
      \<and> length (snd (adm_run rl_acquire rl_fire (new_run_limiter 2 2) ?ops)) = 1" by code_simp
  with r run_limiter_no_leak [OF r] show ?thesis by auto
qed

text \<open>
  However the atomic additions of concurrent callers interleave, the lock-free global
  counter never has more than its limit of holders.
\<close>

theorem counter_holders_bounded:
  assumes "ct_reachable m s" and "0 < m"
  shows "finite (at_pc s CtHolding) \<and> int (card (at_pc s CtHolding)) \<le> m"
  using ct_reachable_inv [OF assms(1)] assms(2) by (simp add: ct_sys_inv_def)

theorem counter_holders_bounded_witness:
  "\<exists>s. ct_reachable 1 s \<and> cs_used s = 2 \<and> int (card (at_pc s CtHolding)) \<le> 1"
proof -
  let ?s1 = "ct_init\<lparr>cs_used := cs_used ct_init + 1, cs_pc := (cs_pc ct_init)(0 := CtHolding)\<rparr>"
  let ?s2 = "?s1\<lparr>cs_used := cs_used ?s1 + 1, cs_pc := (cs_pc ?s1)(1 := CtOver)\<rparr>"
  have "ct_step 1 ct_init ?s1" by (rule ct_step.add_granted) (simp_all add: ct_init_def)
  then have r1: "ct_reachable 1 ?s1" by (rule ct_reachable.step [OF ct_reachable.start])
  have "ct_step 1 ?s1 ?s2" by (rule ct_step.add_over) (simp_all add: ct_init_def)
  with r1 have r2: "ct_reachable 1 ?s2" by (rule ct_reachable.step)
  have "cs_used ?s2 = 2" by (simp add: ct_init_def)
  with r2 counter_holders_bounded [OF r2] show ?thesis by fastforce
qed

end
