(* ===== verification/Go_Json.thy ===== *)
theory Go_Json
  imports Go_Strings
begin

text \<open>
  The part of \<^verbatim>\<open>encoding/json\<close> the modelled code relies on: the syntax check and the
  value a text stands for, and \<^verbatim>\<open>internal/jsonx\<close> (\<^verbatim>\<open>jsonx.go\<close>). A number
  keeps its text, an object its members in the order of the text, later ones of the same name
  included (a decoder that fills a map keeps the last). \<^verbatim>\<open>json.RawMessage\<close> is the
  value it holds. The recursion is bounded by the length of the text; every step of the parser
  consumes a byte, so the bound is never what makes a text fail.
  A text is well-formed UTF-8 (Go replaces malformed bytes inside strings).
\<close>

datatype json =
    JNull
  | JBool bool
  | JNum string
  | JStr string
  | JArr "json list"
  | JObj "(string \<times> json) list"

section \<open>Tokens\<close>

definition json_ws :: "char \<Rightarrow> bool" where
  "json_ws c \<longleftrightarrow> c \<in> {CHR 0x20, CHR 0x09, CHR 0x0A, CHR 0x0D}"

definition skip_ws :: "string \<Rightarrow> string" where
  "skip_ws = dropWhile json_ws"

definition is_digit :: "char \<Rightarrow> bool" where
  "is_digit c \<longleftrightarrow> in_range 0x30 0x39 c"

definition hex_val :: "char \<Rightarrow> nat option" where
  "hex_val c =
    (if is_digit c then Some (byte_val c - 0x30)
     else if in_range 0x41 0x46 c then Some (byte_val c - 0x37)
     else if in_range 0x61 0x66 c then Some (byte_val c - 0x57)
     else None)"

fun hex4 :: "string \<Rightarrow> (nat \<times> string) option" where
  "hex4 (a # b # c # d # s) =
    (case (hex_val a, hex_val b, hex_val c, hex_val d) of
       (Some w, Some x, Some y, Some z) \<Rightarrow> Some (((w * 16 + x) * 16 + y) * 16 + z, s)
     | _ \<Rightarrow> None)"
| "hex4 _ = None"

definition escape_char :: "char \<Rightarrow> char option" where
  "escape_char e = map_of
    [(CHR 0x22, CHR 0x22), (CHR 0x5C, CHR 0x5C), (CHR ''/'', CHR ''/''), (CHR ''b'', CHR 0x08),
     (CHR ''f'', CHR 0x0C), (CHR ''n'', CHR 0x0A), (CHR ''r'', CHR 0x0D), (CHR ''t'', CHR 0x09)] e"

text \<open>After \<^verbatim>\<open>\u\<close>: one code unit, or a surrogate pair written as two escapes.\<close>

definition unicode_escape :: "string \<Rightarrow> (string \<times> string) option" where
  "unicode_escape s = (case hex4 s of
     None \<Rightarrow> None
   | Some (u, s1) \<Rightarrow>
       if u < 0xD800 \<or> 0xDFFF < u then Some (utf8_1 u, s1)
       else (case (if prefix [CHR 0x5C, CHR ''u''] s1 then hex4 (drop 2 s1) else None) of
               Some (v, s3) \<Rightarrow>
                 if u < 0xDC00 \<and> 0xDC00 \<le> v \<and> v \<le> 0xDFFF
                 then Some (utf8_1 ((u - 0xD800) * 0x400 + (v - 0xDC00) + 0x10000), s3)
                 else Some (rune_error, s1)
             | None \<Rightarrow> Some (rune_error, s1)))"

lemma hex4_length: "hex4 s = Some (u, s1) \<Longrightarrow> length s1 < length s"
  by (induction s rule: hex4.induct) (auto split: option.splits)

lemma unicode_escape_length: "unicode_escape s = Some (b, s1) \<Longrightarrow> length s1 < length s"
  by (force simp: unicode_escape_def dest: hex4_length split: option.splits if_splits)

text \<open>The body of a string after its opening quote.\<close>

function parse_string :: "string \<Rightarrow> (string \<times> string) option" where
  "parse_string s = (case s of
     [] \<Rightarrow> None
   | c # cs \<Rightarrow>
       if c = CHR 0x22 then Some ([], cs)
       else if byte_val c < (0x20 :: nat) then None
       else if c = CHR 0x5C then
         (case cs of
            [] \<Rightarrow> None
          | e # cs1 \<Rightarrow>
              (case (if e = CHR ''u'' then unicode_escape cs1
                     else map_option (\<lambda>b. ([b], cs1)) (escape_char e)) of
                 None \<Rightarrow> None
               | Some (b, cs2) \<Rightarrow> map_option (map_prod ((@) b) id) (parse_string cs2)))
       else map_option (map_prod (Cons c) id) (parse_string cs))"
  by pat_completeness auto
termination
  by (relation "measure length")
    (auto split: if_splits option.splits dest!: unicode_escape_length)

declare parse_string.simps [simp del]

lemmas parse_string_Nil = parse_string.simps [of "[]", simplified]
lemmas parse_string_Cons = parse_string.simps [of "c # cs" for c cs, simplified]

lemma parse_string_length: "parse_string s = Some (b, r) \<Longrightarrow> length r < length s"
proof (induction "length s" arbitrary: s b r rule: less_induct)
  case less
  show ?case
  proof (cases s)
    case Nil
    with less.prems show ?thesis by (simp add: parse_string_Nil)
  next
    case (Cons c cs)
    consider "c = CHR 0x22" | "c = CHR 0x5C" | "c \<noteq> CHR 0x22" "c \<noteq> CHR 0x5C"
      by blast
    then show ?thesis
    proof cases
      case 1
      with less.prems Cons show ?thesis by (simp add: parse_string_Cons)
    next
      case 2
      with less.prems Cons obtain e cs1 b1 cs2 b2 where cs: "cs = e # cs1"
        and esc: "(if e = CHR ''u'' then unicode_escape cs1
          else map_option (\<lambda>b. ([b], cs1)) (escape_char e)) = Some (b1, cs2)"
        and rec: "parse_string cs2 = Some (b2, r)"
        by (auto simp: parse_string_Cons split: list.splits option.splits if_splits)
      from esc have "length cs2 \<le> length cs1"
        by (auto split: if_splits dest!: unicode_escape_length)
      with less.hyps [OF _ rec] cs Cons show ?thesis by simp
    next
      case 3
      with less.prems Cons obtain b2 where "parse_string cs = Some (b2, r)"
        by (auto simp: parse_string_Cons split: if_splits)
      with less.hyps [of cs] Cons show ?thesis by fastforce
    qed
  qed
qed

definition digits1 :: "string \<Rightarrow> (string \<times> string) option" where
  "digits1 s = (let d = takeWhile is_digit s in if d = [] then None else Some (d, dropWhile is_digit s))"

definition number_int :: "string \<Rightarrow> (string \<times> string) option" where
  "number_int s = (if prefix ''0'' s then Some (''0'', tl s) else digits1 s)"

definition number_frac :: "string \<Rightarrow> (string \<times> string) option" where
  "number_frac s = 
    (if prefix ''.'' s then map_option (map_prod (Cons (CHR ''.'')) id) (digits1 (tl s))
     else Some ([], s))"

definition number_exp :: "string \<Rightarrow> (string \<times> string) option" where
  "number_exp s = (case s of
     c # r \<Rightarrow>
       if c = CHR ''e'' \<or> c = CHR ''E'' then
         (let sg = (case r of x # _ \<Rightarrow> if x = CHR ''+'' \<or> x = CHR ''-'' then [x] else [] | [] \<Rightarrow> [])
          in map_option (map_prod ((@) (c # sg)) id) (digits1 (drop (length sg) r)))
       else Some ([], s)
   | [] \<Rightarrow> Some ([], s))"

definition parse_number :: "string \<Rightarrow> (string \<times> string) option" where
  "parse_number s =
    (let (sg, s0) = (if prefix ''-'' s then (''-'', tl s) else ([], s)) in
     case number_int s0 of None \<Rightarrow> None | Some (i, s1) \<Rightarrow>
     case number_frac s1 of None \<Rightarrow> None | Some (f, s2) \<Rightarrow>
     case number_exp s2 of None \<Rightarrow> None | Some (e, s3) \<Rightarrow>
       Some (sg @ i @ f @ e, s3))"

section \<open>Values\<close>

fun parse_value :: "nat \<Rightarrow> string \<Rightarrow> (json \<times> string) option"
and parse_elems :: "nat \<Rightarrow> string \<Rightarrow> (json list \<times> string) option"
and parse_members :: "nat \<Rightarrow> string \<Rightarrow> ((string \<times> json) list \<times> string) option"
where
  "parse_value 0 s = None"
| "parse_value (Suc n) s = (case skip_ws s of
     [] \<Rightarrow> None
   | c # cs \<Rightarrow>
       if c = CHR 0x22 then map_option (map_prod JStr id) (parse_string cs)
       else if c = CHR 0x7B then
         (case skip_ws cs of
            [] \<Rightarrow> None
          | d # ds \<Rightarrow> if d = CHR 0x7D then Some (JObj [], ds)
                     else map_option (map_prod JObj id) (parse_members n (d # ds)))
       else if c = CHR 0x5B then
         (case skip_ws cs of
            [] \<Rightarrow> None
          | d # ds \<Rightarrow> if d = CHR 0x5D then Some (JArr [], ds)
                     else map_option (map_prod JArr id) (parse_elems n (d # ds)))
       else if prefix ''true'' (c # cs) then Some (JBool True, drop 4 (c # cs))
       else if prefix ''false'' (c # cs) then Some (JBool False, drop 5 (c # cs))
       else if prefix ''null'' (c # cs) then Some (JNull, drop 4 (c # cs))
       else map_option (map_prod JNum id) (parse_number (c # cs)))"
| "parse_elems 0 s = None"
| "parse_elems (Suc n) s = (case parse_value n s of
     None \<Rightarrow> None
   | Some (v, r) \<Rightarrow> (case skip_ws r of
       [] \<Rightarrow> None
     | d # ds \<Rightarrow> if d = CHR 0x5D then Some ([v], ds)
                else if d = CHR 0x2C then map_option (map_prod (Cons v) id) (parse_elems n ds)
                else None))"
| "parse_members 0 s = None"
| "parse_members (Suc n) s = 
    (if \<not> prefix [CHR 0x22] (skip_ws s) then None
     else case parse_string (tl (skip_ws s)) of
       None \<Rightarrow> None
     | Some (k, s2) \<Rightarrow>
         if \<not> prefix [CHR 0x3A] (skip_ws s2) then None
         else case parse_value n (tl (skip_ws s2)) of
           None \<Rightarrow> None
         | Some (v, r) \<Rightarrow> (case skip_ws r of
             [] \<Rightarrow> None
           | d # ds \<Rightarrow>
               if d = CHR 0x7D then Some ([(k, v)], ds)
               else if d = CHR 0x2C then
                 map_option (map_prod (Cons (k, v)) id) (parse_members n ds)
               else None))"

text \<open>A complete text: one value, then nothing but white space.\<close>

definition json_parse :: "string \<Rightarrow> json option" where
  "json_parse s = (case parse_value (2 * length s + 2) s of
     Some (v, r) \<Rightarrow> if skip_ws r = [] then Some v else None
   | None \<Rightarrow> None)"

section \<open>jsonx\<close>

definition last_index_byte :: "char \<Rightarrow> string \<Rightarrow> nat option" where
  "last_index_byte c s = map_option (\<lambda>i. length s - 1 - i) (index_byte c (rev s))"

definition extract_json_object :: "string \<Rightarrow> string option" where
  "extract_json_object content =
    (let trimmed = trim_space content in
     case (index_byte CHR 0x7B trimmed, last_index_byte CHR 0x7D trimmed) of
       (Some start, Some stop) \<Rightarrow>
         if stop \<le> start then None else Some (drop start (take (stop + 1) trimmed))
     | _ \<Rightarrow> None)"

text \<open>
  The decoder \<open>dec\<close> is \<^verbatim>\<open>json.Unmarshal\<close> into the caller's type. A decoding that
  fails on an object leaves what it had already filled in; the second attempt then reads the
  same object and fails too, so the value is only used when it comes from one attempt.
\<close>

definition decode_loose_json :: "(json \<Rightarrow> 'a option) \<Rightarrow> string \<Rightarrow> 'a option" where
  "decode_loose_json dec content =
    (let trimmed = trim_space content in
     if trimmed = [] then None
     else case Option.bind (json_parse trimmed) dec of
       Some v \<Rightarrow> Some v
     | None \<Rightarrow> (case extract_json_object trimmed of
         None \<Rightarrow> None
       | Some fragment \<Rightarrow> Option.bind (json_parse fragment) dec))"

section \<open>Decoding into Go types\<close>

text \<open>
  \<open>None\<close> is \<^verbatim>\<open>Unmarshal\<close>'s type error. \<^verbatim>\<open>null\<close> leaves a string empty and a
  pointer or slice nil. Field names match case-insensitively.
\<close>

fun decode_string :: "json \<Rightarrow> string option" where
  "decode_string (JStr s) = Some s"
| "decode_string JNull = Some []"
| "decode_string _ = None"

fun decode_strings :: "json \<Rightarrow> string list option" where
  "decode_strings (JArr xs) = those (map decode_string xs)"
| "decode_strings JNull = Some []"
| "decode_strings _ = None"

fun decode_string_ptr :: "json \<Rightarrow> string option option" where
  "decode_string_ptr (JStr s) = Some (Some s)"
| "decode_string_ptr JNull = Some None"
| "decode_string_ptr _ = None"

fun decode_bool_ptr :: "json \<Rightarrow> bool option option" where
  "decode_bool_ptr (JBool b) = Some (Some b)"
| "decode_bool_ptr JNull = Some None"
| "decode_bool_ptr _ = None"

text \<open>
  A struct: every member whose name is a field is stored by \<open>set_field\<close>, in order; any
  failing one makes the whole decoding fail.
\<close>

fun decode_fields :: "(string \<Rightarrow> json \<Rightarrow> 'a \<Rightarrow> 'a option) \<Rightarrow> (string \<times> json) list \<Rightarrow> 'a \<Rightarrow> 'a option" where
  "decode_fields set_field [] a = Some a"
| "decode_fields set_field ((k, v) # ms) a =
     Option.bind (set_field (to_lower k) v a) (decode_fields set_field ms)"

fun decode_struct :: "(string \<Rightarrow> json \<Rightarrow> 'a \<Rightarrow> 'a option) \<Rightarrow> 'a \<Rightarrow> json \<Rightarrow> 'a option" where
  "decode_struct set_field zero (JObj ms) = decode_fields set_field ms zero"
| "decode_struct set_field zero JNull = Some zero"
| "decode_struct set_field zero _ = None"

text \<open>A map keeps the last member of a name.\<close>

fun decode_map :: "json \<Rightarrow> (string, json) gmap option" where
  "decode_map (JObj ms) = Some (foldl (\<lambda>m (k, v). gm_put k v m) [] ms)"
| "decode_map JNull = Some []"
| "decode_map _ = None"

lemma gm_ok_foldl_put: "gm_ok m \<Longrightarrow> gm_ok (foldl (\<lambda>m (k, v). gm_put k v m) m ms)"
  by (induction ms arbitrary: m) auto

lemma decode_map_ok: "decode_map j = Some m \<Longrightarrow> gm_ok m"
  by (cases j) (auto intro: gm_ok_foldl_put)

end
