(* ===== verification/Tool_Schema.thy ===== *)
theory Tool_Schema
  imports Tools Go_Json
begin

text \<open>
  What the model may pass to a tool: the light JSON Schema check of
  \<^verbatim>\<open>tool/schema.go\<close> (\<^verbatim>\<open>ValidateAgainstSchema\<close>), the function names the
  model sees and how they are resolved back to tool IDs (\<^verbatim>\<open>SanitizeName\<close>,
  \<^verbatim>\<open>ResolveID\<close>), and the merge of arguments into the scope of a call
  (\<^verbatim>\<open>domain/tool.go\<close>, \<^verbatim>\<open>ResolveScope\<close>).
\<close>

section \<open>The schema and its decoding\<close>

record schema_prop =
  sp_type :: string
  sp_enum :: "string list"

record schema_shape =
  sh_properties :: "(string, schema_prop) gmap"
  sh_required :: "string list"
  sh_additional :: "bool option"

definition set_prop_field :: "string \<Rightarrow> json \<Rightarrow> schema_prop \<Rightarrow> schema_prop option" where
  "set_prop_field k v p =
    (if k = ''type'' then
       (case v of JNull \<Rightarrow> Some p | _ \<Rightarrow> map_option (\<lambda>t. p\<lparr>sp_type := t\<rparr>) (decode_string v))
     else if k = ''enum'' then map_option (\<lambda>e. p\<lparr>sp_enum := e\<rparr>) (decode_strings v)
     else Some p)"

definition decode_prop :: "json \<Rightarrow> schema_prop option" where
  "decode_prop = decode_struct set_prop_field \<lparr>sp_type = [], sp_enum = []\<rparr>"

fun decode_props ::
  "(string, schema_prop) gmap \<Rightarrow> (string \<times> json) list \<Rightarrow> (string, schema_prop) gmap option" where
  "decode_props m [] = Some m"
| "decode_props m ((k, v) # ms) =
     Option.bind (decode_prop v) (\<lambda>p. decode_props (gm_put k p m) ms)"

definition set_shape_field :: "string \<Rightarrow> json \<Rightarrow> schema_shape \<Rightarrow> schema_shape option" where
  "set_shape_field k v s =
    (if k = ''properties'' then
       (case v of
          JObj ms \<Rightarrow> map_option (\<lambda>ps. s\<lparr>sh_properties := ps\<rparr>) (decode_props (sh_properties s) ms)
        | JNull \<Rightarrow> Some (s\<lparr>sh_properties := []\<rparr>)
        | _ \<Rightarrow> None)
     else if k = ''required'' then map_option (\<lambda>r. s\<lparr>sh_required := r\<rparr>) (decode_strings v)
     else if k = ''additionalproperties'' then
       map_option (\<lambda>b. s\<lparr>sh_additional := b\<rparr>) (decode_bool_ptr v)
     else Some s)"

definition decode_shape :: "json \<Rightarrow> schema_shape option" where
  "decode_shape =
    decode_struct set_shape_field \<lparr>sh_properties = [], sh_required = [], sh_additional = None\<rparr>"

section \<open>ValidateAgainstSchema\<close>

datatype schema_error =
    BadArguments
  | MissingParam string
  | UnknownParam string
  | NotAString string
  | NotInEnum string string

definition contains_string :: "string list \<Rightarrow> string \<Rightarrow> bool" where
  "contains_string values target \<longleftrightarrow> (\<exists>v \<in> set values. v = target)"

definition check_required :: "(string, json) gmap \<Rightarrow> string \<Rightarrow> schema_error option" where
  "check_required values n = (case gm_get values n of
     None \<Rightarrow> Some (MissingParam n)
   | Some v \<Rightarrow> if v = JStr [] \<or> v = JNull then Some (MissingParam n) else None)"

definition check_known :: "schema_shape \<Rightarrow> string \<times> json \<Rightarrow> schema_error option" where
  "check_known sh p =
    (if gm_get (sh_properties sh) (fst p) = None then Some (UnknownParam (fst p)) else None)"

definition check_typed :: "schema_shape \<Rightarrow> string \<times> json \<Rightarrow> schema_error option" where
  "check_typed sh p = (case gm_get (sh_properties sh) (fst p) of
     None \<Rightarrow> None
   | Some prop \<Rightarrow>
       if sp_type prop \<noteq> ''string'' then None
       else (case snd p of
               JNull \<Rightarrow> None
             | JStr s \<Rightarrow>
                 if sp_enum prop \<noteq> [] \<and> \<not> contains_string (sp_enum prop) s
                 then Some (NotInEnum (fst p) s) else None
             | _ \<Rightarrow> Some (NotAString (fst p))))"

text \<open>The three loops, over the arguments in the order \<open>range\<close> visits them.\<close>

definition validate_values :: "schema_shape \<Rightarrow> (string, json) gmap \<Rightarrow> schema_error option" where
  "validate_values sh values =
    (case first_some (check_required values) (sh_required sh) of
       Some e \<Rightarrow> Some e
     | None \<Rightarrow>
       (case (if sh_additional sh = Some False then first_some (check_known sh) values else None) of
          Some e \<Rightarrow> Some e
        | None \<Rightarrow> first_some (check_typed sh) values))"

definition decode_arguments :: "string \<Rightarrow> (string, json) gmap option" where
  "decode_arguments args =
    (let trimmed = trim_space args in
     if trimmed = [] \<or> trimmed = ''{}'' then Some []
     else Option.bind (json_parse trimmed) decode_map)"

definition validate_against_schema :: "string \<Rightarrow> string \<Rightarrow> schema_error option" where
  "validate_against_schema schema args =
    (if schema = [] then None
     else case Option.bind (json_parse schema) decode_shape of
       None \<Rightarrow> None
     | Some sh \<Rightarrow> (case decode_arguments args of
         None \<Rightarrow> Some BadArguments
       | Some values \<Rightarrow> validate_values sh values))"

section \<open>Function names and tool IDs\<close>

definition sanitize_name :: "string \<Rightarrow> string" where
  "sanitize_name toolID = replace_byte CHR ''.'' CHR ''_'' (trim_space toolID)"

definition resolve_id ::
  "string \<Rightarrow> (string, string) gmap \<Rightarrow> tool_registry option \<Rightarrow> string option" where
  "resolve_id name nameToID reg =
    (let trimmed = trim_space name in
     if trimmed = [] then None
     else case gm_get nameToID trimmed of
       Some toolID \<Rightarrow> Some toolID
     | None \<Rightarrow> (case reg of
         None \<Rightarrow> None
       | Some r \<Rightarrow>
           let candidate = replace_byte CHR ''_'' CHR ''.'' trimmed in
           if tr_get r candidate \<noteq> None then Some candidate else None))"

section \<open>ResolveScope\<close>

record agent_scope =
  sc_namespace :: string
  sc_kind :: string
  sc_name :: string
  sc_container :: string

record scope_args =
  sa_namespace :: "string option"
  sa_kind :: "string option"
  sa_name :: "string option"
  sa_container :: "string option"

definition set_scope_field :: "string \<Rightarrow> json \<Rightarrow> scope_args \<Rightarrow> scope_args option" where
  "set_scope_field k v a =
    (if k = ''namespace'' then map_option (\<lambda>s. a\<lparr>sa_namespace := s\<rparr>) (decode_string_ptr v)
     else if k = ''resource_kind'' then map_option (\<lambda>s. a\<lparr>sa_kind := s\<rparr>) (decode_string_ptr v)
     else if k = ''resource_name'' then map_option (\<lambda>s. a\<lparr>sa_name := s\<rparr>) (decode_string_ptr v)
     else if k = ''container'' then map_option (\<lambda>s. a\<lparr>sa_container := s\<rparr>) (decode_string_ptr v)
     else Some a)"

definition decode_scope_args :: "json \<Rightarrow> scope_args option" where
  "decode_scope_args = decode_struct set_scope_field
    \<lparr>sa_namespace = None, sa_kind = None, sa_name = None, sa_container = None\<rparr>"

definition resolve_scope :: "agent_scope \<Rightarrow> string \<Rightarrow> agent_scope \<times> bool" where
  "resolve_scope base arguments =
    (let trimmed = trim_space arguments in
     if trimmed = [] \<or> trimmed = ''{}'' then (base, True)
     else case Option.bind (json_parse trimmed) decode_scope_args of
       None \<Rightarrow> (base, False)
     | Some a \<Rightarrow>
         (\<lparr>sc_namespace = (case sa_namespace a of Some s \<Rightarrow> trim_space s | None \<Rightarrow> sc_namespace base),
           sc_kind = (case sa_kind a of Some s \<Rightarrow> trim_space s | None \<Rightarrow> sc_kind base),
           sc_name = (case sa_name a of Some s \<Rightarrow> trim_space s | None \<Rightarrow> sc_name base),
           sc_container =
             (case sa_container a of Some s \<Rightarrow> trim_space s | None \<Rightarrow> sc_container base)\<rparr>,
          True))"

section \<open>Facts\<close>

text \<open>What the check promises, as a predicate on the finite map of arguments.\<close>

definition schema_accepts :: "schema_shape \<Rightarrow> (string \<Rightarrow> json option) \<Rightarrow> bool" where
  "schema_accepts sh values \<longleftrightarrow>
    (\<forall>n \<in> set (sh_required sh). values n \<notin> {None, Some JNull, Some (JStr [])}) \<and>
    (sh_additional sh = Some False \<longrightarrow> dom values \<subseteq> dom (gm_get (sh_properties sh))) \<and>
    (\<forall>n v prop. values n = Some v \<longrightarrow> gm_get (sh_properties sh) n = Some prop \<longrightarrow>
       sp_type prop = ''string'' \<longrightarrow> v \<noteq> JNull \<longrightarrow>
       (\<exists>s. v = JStr s \<and> (sp_enum prop = [] \<or> s \<in> set (sp_enum prop))))"

lemma check_required_None:
  "check_required values n = None \<longleftrightarrow> gm_get values n \<notin> {None, Some JNull, Some (JStr [])}"
  by (auto simp: check_required_def split: option.splits)

lemma check_typed_None:
  "check_typed sh (n, v) = None \<longleftrightarrow>
    (\<forall>prop. gm_get (sh_properties sh) n = Some prop \<longrightarrow> sp_type prop = ''string'' \<longrightarrow> v \<noteq> JNull \<longrightarrow>
       (\<exists>s. v = JStr s \<and> (sp_enum prop = [] \<or> s \<in> set (sp_enum prop))))"
  by (auto simp: check_typed_def contains_string_def split: option.splits json.splits)

lemma ball_gmap: "gm_ok m \<Longrightarrow> (\<forall>p \<in> set m. P p) \<longleftrightarrow> (\<forall>k v. gm_get m k = Some v \<longrightarrow> P (k, v))"
  by (auto simp: gm_mem_get)

lemma decode_arguments_ok: "decode_arguments args = Some m \<Longrightarrow> gm_ok m"
  by (auto simp: decode_arguments_def Let_def Option.bind_eq_Some_conv
      split: if_splits dest: decode_map_ok)

lemma validate_values_None:
  assumes "gm_ok values"
  shows "validate_values sh values = None \<longleftrightarrow> schema_accepts sh (gm_get values)"
proof -
  have known: "(\<forall>p \<in> set values. check_known sh p = None) \<longleftrightarrow>
      dom (gm_get values) \<subseteq> dom (gm_get (sh_properties sh))"
    unfolding ball_gmap [OF assms] by (auto simp: check_known_def)
  have typed: "(\<forall>p \<in> set values. check_typed sh p = None) \<longleftrightarrow>
      (\<forall>n v prop. gm_get values n = Some v \<longrightarrow> gm_get (sh_properties sh) n = Some prop \<longrightarrow>
         sp_type prop = ''string'' \<longrightarrow> v \<noteq> JNull \<longrightarrow>
         (\<exists>s. v = JStr s \<and> (sp_enum prop = [] \<or> s \<in> set (sp_enum prop))))"
    unfolding ball_gmap [OF assms] check_typed_None by blast
  show ?thesis
    unfolding schema_accepts_def typed [symmetric] known [symmetric]
    by (auto simp: validate_values_def first_some_None check_required_None)
qed

lemma trim_space_dots [simp]:
  "trim_space (replace_byte CHR ''.'' CHR ''_'' s) = replace_byte CHR ''.'' CHR ''_'' s
    \<longleftrightarrow> trim_space s = s"
  by (rule trim_space_replace_byte) (simp add: ws_units_def)

lemma resolve_scope_empty: "trim_space a = [] \<or> trim_space a = ''{}'' \<Longrightarrow> resolve_scope base a = (base, True)"
  by (auto simp: resolve_scope_def Let_def)

lemma resolve_scope_idem:
  "resolve_scope (fst (resolve_scope base a)) a = resolve_scope base a"
  by (auto simp: resolve_scope_def Let_def split: option.splits)

lemma resolve_scope_bad_json: "snd (resolve_scope base a) = False \<Longrightarrow> fst (resolve_scope base a) = base"
  by (auto simp: resolve_scope_def Let_def split: option.splits)

definition quoted :: "string \<Rightarrow> string" where
  "quoted s = [CHR 0x22] @ s @ [CHR 0x22]"

section \<open>Properties\<close>

text \<open>
  C15: The schema check accepts a call exactly when the declarative reading of the schema does,
  whatever order the loops over the Go maps run in: every required parameter is present and
  neither null nor the empty string, a closed schema has no unknown parameter, and a parameter
  declared a string is one (or null) and lies in its enumeration.
\<close>

theorem validate_against_schema_iff:
  assumes schema: "schema \<noteq> []" "Option.bind (json_parse schema) decode_shape = Some sh"
    and args: "decode_arguments args = Some values"
    and order: "mset values' = mset values"
  shows "validate_against_schema schema args = validate_values sh values \<and>
    (validate_values sh values' = None \<longleftrightarrow> schema_accepts sh (gm_get values))"
proof -
  note ok = decode_arguments_ok [OF args]
  have ok': "gm_ok values'"
    using order ok by (metis gm_ok_def mset_eq_imp_distinct_iff mset_map)
  have "gm_get values' k = gm_get values k" for k
    using order ok ok' by (metis (full_types) gm_mem_get not_None_eq set_mset_mset)
  then have "gm_get values' = gm_get values" ..
  then show ?thesis
    using schema args by (simp add: validate_against_schema_def validate_values_None [OF ok'])
qed

definition sample_schema :: string where
  "sample_schema = ''{'' @ quoted ''type'' @ '':'' @ quoted ''object'' @ '','' @ quoted ''properties''
     @ '':{'' @ quoted ''kind'' @ '':{'' @ quoted ''type'' @ '':'' @ quoted ''string'' @ '',''
     @ quoted ''enum'' @ '':['' @ quoted ''pod'' @ '',''  @ quoted ''node'' @ '']}},''
     @ quoted ''required'' @ '':['' @ quoted ''kind'' @ ''],''
     @ quoted ''additionalProperties'' @ '':false}''"

definition sample_shape :: schema_shape where
  "sample_shape =
    \<lparr>sh_properties = [(''kind'', \<lparr>sp_type = ''string'', sp_enum = [''pod'', ''node'']\<rparr>)],
     sh_required = [''kind''], sh_additional = Some False\<rparr>"

definition sample_args :: string where
  "sample_args = ''{'' @ quoted ''kind'' @ '':'' @ quoted ''pod'' @ ''}''"

theorem validate_against_schema_iff_witness:
  "validate_against_schema sample_schema sample_args = validate_values sample_shape [(''kind'', JStr ''pod'')] \<and>
   (validate_values sample_shape [(''kind'', JStr ''pod'')] = None \<longleftrightarrow>
     schema_accepts sample_shape (gm_get [(''kind'', JStr ''pod'')])) \<and>
   validate_values sample_shape [(''kind'', JStr ''pod'')] = None"
proof -
  have "sample_schema \<noteq> [] \<and> Option.bind (json_parse sample_schema) decode_shape = Some sample_shape"
    by code_simp
  moreover have "decode_arguments sample_args = Some [(''kind'', JStr ''pod'')]"
    by code_simp
  moreover have "validate_values sample_shape [(''kind'', JStr ''pod'')] = None"
    by code_simp
  ultimately show ?thesis
    using validate_against_schema_iff [of sample_schema sample_shape sample_args
        "[(''kind'', JStr ''pod'')]" "[(''kind'', JStr ''pod'')]"] by simp
qed

text \<open>
  The function name the model sees for a registered tool leads back to that tool: when its ID
  has no underscore, the sanitized name resolves to the ID, whether the name table of the run
  knows the name or only the registry does. No name resolves to a tool that neither of them has.
\<close>

theorem resolve_id_sanitize:
  assumes "tr_inv r" "tr_get r i = Some t" "trim_space i = i" "CHR ''_'' \<notin> set i"
    and "gm_get names (sanitize_name i) \<in> {None, Some i}"
  shows "resolve_id (sanitize_name i) names (Some r) = Some i \<and>
    (\<forall>name j. resolve_id name names (Some r) = Some j \<longrightarrow>
       j \<in> ran (gm_get names) \<or> tr_get r j \<noteq> None)"
proof -
  have "i \<noteq> []"
    using assms(1-3) tr_inv_tools_ok [of r] by (auto simp: tr_get_def table_ok_def)
  then have "resolve_id (sanitize_name i) names (Some r) = Some i"
    using assms
    by (auto simp: resolve_id_def sanitize_name_def Let_def replace_byte_inverse
        trim_space_dots [THEN iffD2])
  moreover have "\<forall>name j. resolve_id name names (Some r) = Some j \<longrightarrow>
      j \<in> ran (gm_get names) \<or> tr_get r j \<noteq> None"
    by (auto simp: resolve_id_def Let_def ran_def split: if_splits option.splits)
  ultimately show ?thesis ..
qed

definition pod_list_tool :: tool_definition where
  "pod_list_tool =
    \<lparr>td_id = ''cluster.pod.list'', td_name = ''Pods'', td_category = ''pod'', td_description = [],
     td_read_only = True, td_agent_types = [''diagnostic''], td_timeout_ms = 8000,
     td_max_bytes = 262144, td_observe_max_chars = 0, td_source = TOOL_SOURCE_CLUSTER,
     td_origin = ''builtin'', td_enabled = True, td_overridden = False, td_parameters = []\<rparr>"

theorem resolve_id_sanitize_witness:
  "resolve_id (sanitize_name ''cluster.pod.list'') [] (Some (new_tool_registry [pod_list_tool]))
     = Some ''cluster.pod.list''"
proof -
  have "tr_get (new_tool_registry [pod_list_tool]) ''cluster.pod.list'' = Some pod_list_tool"
    and "trim_space ''cluster.pod.list'' = ''cluster.pod.list''"
    by code_simp+
  then show ?thesis
    using resolve_id_sanitize [of "new_tool_registry [pod_list_tool]" "''cluster.pod.list''"
        pod_list_tool "[]"] by simp
qed

end
