(* ===== verification/Mcp_Manager.thy ===== *)
theory Mcp_Manager
  imports Mcp_Breaker Limiter Tool_Schema
begin

text \<open>
  The MCP integration above the wire: the managed servers and their calls
  (\<^verbatim>\<open>mcp/manager.go\<close>), the executor (\<^verbatim>\<open>mcp/executor.go\<close>), the provider that
  turns remote tools into definitions (\<^verbatim>\<open>mcp/provider.go\<close>), tool discovery with its paging
  (\<^verbatim>\<open>mcp/client.go\<close>, \<^verbatim>\<open>ListTools\<close>) and the server configuration
  (\<^verbatim>\<open>mcp/config.go\<close>). What a server answers is an argument: the answer to a dial, to
  each page of \<^verbatim>\<open>tools/list\<close> and to a call. Metrics and logs are left out.
\<close>

section \<open>Server configuration\<close>

record server_config =
  sv_name :: string
  sv_transport :: string
  sv_command :: "string list"
  sv_url :: string
  sv_agent_types :: "string list"
  sv_trusted_tools :: "string list"
  sv_connect_timeout :: duration
  sv_list_timeout :: duration
  sv_call_timeout :: duration
  sv_health_interval :: duration
  sv_max_concurrency :: int

definition positive_or :: "int \<Rightarrow> int \<Rightarrow> int" where
  "positive_or d n = (if n \<le> 0 then d else n)"

definition with_defaults :: "server_config \<Rightarrow> server_config" where
  "with_defaults c = c\<lparr>
     sv_name := trim_space (sv_name c),
     sv_transport := trim_space (sv_transport c),
     sv_connect_timeout := positive_or (10 * second) (sv_connect_timeout c),
     sv_list_timeout := positive_or (15 * second) (sv_list_timeout c),
     sv_call_timeout := positive_or (30 * second) (sv_call_timeout c),
     sv_health_interval := positive_or (30 * second) (sv_health_interval c),
     sv_max_concurrency := positive_or 4 (sv_max_concurrency c)\<rparr>"

lemma with_defaults_idem: "with_defaults (with_defaults c) = with_defaults c"
  by (simp add: with_defaults_def positive_or_def)

lemma with_defaults_sel [simp]:
  "sv_name (with_defaults c) = trim_space (sv_name c)"
  "sv_trusted_tools (with_defaults c) = sv_trusted_tools c"
  by (simp_all add: with_defaults_def)

text \<open>\<open>build_connect\<close> is whether \<^verbatim>\<open>buildConnect\<close> gives a connect function.\<close>

definition build_connect :: "server_config \<Rightarrow> bool" where
  "build_connect c \<longleftrightarrow>
    (if sv_transport c = ''stdio'' then sv_command c \<noteq> [] \<and> hd (sv_command c) \<noteq> []
     else if sv_transport c = ''http'' then trim_space (sv_url c) \<noteq> []
     else False)"

section \<open>Remote tools\<close>

record remote_tool =
  rt_name :: string
  rt_title :: string
  rt_description :: string
  rt_input_schema :: string

definition tool_id_prefix :: "string \<Rightarrow> string" where
  "tool_id_prefix server = TOOL_ORIGIN_MCP @ ''.'' @ server @ ''.''"

definition tool_source :: "string \<Rightarrow> string" where
  "tool_source server = TOOL_SOURCE_MCP_PREFIX @ server"

fun first_non_empty :: "string list \<Rightarrow> string" where
  "first_non_empty [] = []"
| "first_non_empty (v # vs) = (if trim_space v \<noteq> [] then trim_space v else first_non_empty vs)"

definition normalize_schema :: "string \<Rightarrow> string" where
  "normalize_schema schema =
    (if trim_space schema = []
     then ''{'' @ quoted ''type'' @ '':'' @ quoted ''object'' @ ''}'' else schema)"

definition to_tool_definition :: "server_config \<Rightarrow> remote_tool \<Rightarrow> tool_definition" where
  "to_tool_definition cfg rt =
    (let nm = trim_space (rt_name rt) in
     \<lparr>td_id = tool_id_prefix (sv_name cfg) @ nm,
      td_name = first_non_empty [rt_title rt, nm],
      td_category = [],
      td_description = trim_space (rt_description rt),
      td_read_only = nm \<in> set (sv_trusted_tools cfg),
      td_agent_types = (if sv_agent_types cfg = [] then [''diagnostic''] else sv_agent_types cfg),
      td_timeout_ms = sv_call_timeout cfg div millisecond,
      td_max_bytes = 0, td_observe_max_chars = 0,
      td_source = tool_source (sv_name cfg),
      td_origin = TOOL_ORIGIN_MCP,
      td_enabled = True, td_overridden = False,
      td_parameters = normalize_schema (rt_input_schema rt)\<rparr>)"

definition to_tool_definitions :: "server_config \<Rightarrow> remote_tool list \<Rightarrow> tool_definition list" where
  "to_tool_definitions cfg remote =
    map (to_tool_definition cfg) (filter (\<lambda>rt. trim_space (rt_name rt) \<noteq> []) remote)"

definition parse_tool_id :: "string \<Rightarrow> (string \<times> string) option" where
  "parse_tool_id toolID =
    (let p = TOOL_ORIGIN_MCP @ ''.'' in
     if \<not> prefix p toolID then None
     else
       (let rest = drop (length p) toolID in
        case index_byte CHR ''.'' rest of
          None \<Rightarrow> None
        | Some i \<Rightarrow>
            if i = 0 \<or> length rest - 1 \<le> i then None
            else Some (take i rest, drop (i + 1) rest)))"

section \<open>Discovery\<close>

abbreviation max_tools_list_pages :: nat where "max_tools_list_pages \<equiv> 50"
abbreviation max_tools_per_server :: nat where "max_tools_per_server \<equiv> 256"

record list_tools_result =
  lr_tools :: "remote_tool list"
  lr_next_cursor :: string

text \<open>
  \<open>fetch\<close> is the answer to one page request. The first argument of the loop is the number of
  pages still allowed.
\<close>

fun add_tools :: "remote_tool list \<Rightarrow> remote_tool list \<Rightarrow> remote_tool list \<times> bool" where
  "add_tools acc [] = (acc, False)"
| "add_tools acc (t # ts) =
    (let acc' = acc @ [t] in
     if length acc' \<ge> max_tools_per_server then (acc', True) else add_tools acc' ts)"

fun list_pages ::
  "(string \<Rightarrow> list_tools_result go_result) \<Rightarrow> nat \<Rightarrow> string \<Rightarrow> remote_tool list
    \<Rightarrow> (remote_tool list \<times> bool) go_result" where
  "list_pages fetch 0 cursor acc = Inr (acc, True)"
| "list_pages fetch (Suc n) cursor acc =
    (case fetch cursor of
       Inl e \<Rightarrow> Inl (ErrWrap ''mcp tools/list: '' e)
     | Inr res \<Rightarrow>
         (let (acc', full) = add_tools acc (lr_tools res) in
          if full then Inr (acc', True)
          else if lr_next_cursor res = [] then Inr (acc', False)
          else list_pages fetch n (lr_next_cursor res) acc'))"

definition list_tools ::
  "(string \<Rightarrow> list_tools_result go_result) \<Rightarrow> (remote_tool list \<times> bool) go_result" where
  "list_tools fetch = list_pages fetch max_tools_list_pages [] []"

section \<open>Managed servers\<close>

datatype conn_state = ConnDisconnected | ConnConnecting | ConnReady | ConnFailed

record 'c managed_server =
  ms_config :: server_config
  ms_breaker :: circuit_breaker
  ms_limiter :: keyed_semaphore
  ms_state :: conn_state
  ms_client :: "'c option"
  ms_last_tools :: "tool_definition list"
  ms_has_tools :: bool

record 'c mcp_manager =
  mg_servers :: "(string, 'c managed_server) gmap"
  mg_closed :: bool

definition new_managed_server :: "server_config \<Rightarrow> 'c managed_server" where
  "new_managed_server cfg =
    \<lparr>ms_config = cfg,
     ms_breaker = new_circuit_breaker default_breaker_threshold default_breaker_cooldown,
     ms_limiter = new_keyed_semaphore (sv_max_concurrency cfg),
     ms_state = ConnDisconnected, ms_client = None, ms_last_tools = [], ms_has_tools = False\<rparr>"

definition add_server ::
  "(string, 'c managed_server) gmap \<Rightarrow> server_config \<Rightarrow> (string, 'c managed_server) gmap" where
  "add_server m raw =
    (let cfg = with_defaults raw in
     if build_connect cfg then gm_put (sv_name cfg) (new_managed_server cfg) m else m)"

definition new_manager :: "server_config list \<Rightarrow> 'c mcp_manager" where
  "new_manager servers = \<lparr>mg_servers = foldl add_server [] servers, mg_closed = False\<rparr>"

definition snapshot_tools :: "'c managed_server \<Rightarrow> tool_definition list option" where
  "snapshot_tools s = (if ms_has_tools s then Some (ms_last_tools s) else None)"

definition store_tools :: "tool_definition list \<Rightarrow> 'c managed_server \<Rightarrow> 'c managed_server" where
  "store_tools ts s = s\<lparr>ms_last_tools := ts, ms_has_tools := True\<rparr>"

definition manager_tools :: "'c mcp_manager \<Rightarrow> string \<Rightarrow> tool_definition list option" where
  "manager_tools m server = Option.bind (gm_get (mg_servers m) server) snapshot_tools"

definition all_tools :: "'c mcp_manager \<Rightarrow> tool_definition list" where
  "all_tools m = concat (map (\<lambda>(_, s). case snapshot_tools s of Some ts \<Rightarrow> ts | None \<Rightarrow> [])
     (mg_servers m))"

text \<open>\<^verbatim>\<open>Provider.Tools\<close>: never an error.\<close>

definition provider_tools :: "'c mcp_manager option \<Rightarrow> tool_answer" where
  "provider_tools m = Inr (case m of None \<Rightarrow> [] | Some m' \<Rightarrow> all_tools m')"

record server_status =
  ss_name :: string
  ss_transport :: string
  ss_state :: string
  ss_ready :: bool
  ss_tool_count :: nat
  ss_trusted_count :: nat
  ss_max_concurrency :: int

fun conn_state_name :: "conn_state \<Rightarrow> string" where
  "conn_state_name ConnConnecting = ''connecting''"
| "conn_state_name ConnReady = ''ready''"
| "conn_state_name ConnFailed = ''failed''"
| "conn_state_name ConnDisconnected = ''disconnected''"

definition server_status_of :: "'c managed_server \<Rightarrow> server_status" where
  "server_status_of s =
    (let tools = (case snapshot_tools s of Some ts \<Rightarrow> ts | None \<Rightarrow> []) in
     \<lparr>ss_name = sv_name (ms_config s), ss_transport = sv_transport (ms_config s),
      ss_state = conn_state_name (ms_state s), ss_ready = (ms_state s = ConnReady),
      ss_tool_count = length tools, ss_trusted_count = length (filter td_read_only tools),
      ss_max_concurrency = sv_max_concurrency (ms_config s)\<rparr>)"

definition statuses :: "'c mcp_manager \<Rightarrow> server_status list" where
  "statuses m = sort_key ss_name (map (server_status_of \<circ> snd) (mg_servers m))"

definition health_check :: "'c mcp_manager \<Rightarrow> string \<Rightarrow> go_error option" where
  "health_check m server = (case gm_get (mg_servers m) server of
     None \<Rightarrow> Some (ErrMsg ''unknown mcp server'')
   | Some s \<Rightarrow> if ms_state s \<noteq> ConnReady then Some (ErrMsg ''mcp server not ready'') else None)"

section \<open>Admission of calls\<close>

text \<open>
  \<^verbatim>\<open>Manager.acquire\<close>: a slot of the server first, then the breaker. The handle is the
  \<^verbatim>\<open>done\<close> closure: the limiter's closure and the flag of its \<^verbatim>\<open>sync.Once\<close>.
\<close>

datatype mcp_refusal = NoSuchServer | ServerBusy | BreakerTripped

fun refusal_reason :: "mcp_refusal \<Rightarrow> string" where
  "refusal_reason NoSuchServer = ''MCP server '' @ utf8 [0x4E0D, 0x5B58, 0x5728]"
| "refusal_reason ServerBusy =
     utf8 [0x5916, 0x90E8, 0x5DE5, 0x5177, 0x7E41, 0x5FD9] @ ''('' @ utf8 [0x5E76, 0x53D1, 0x5DF2, 0x8FBE, 0x4E0A, 0x9650] @ '','' @ utf8 [0x7A0D, 0x540E, 0x91CD, 0x8BD5] @ '')''"
| "refusal_reason BreakerTripped =
     utf8 [0x5916, 0x90E8, 0x5DE5, 0x5177, 0x6682, 0x4E0D, 0x53EF, 0x7528] @ ''('' @ utf8 [0x7194, 0x65AD, 0x4FDD, 0x62A4, 0x4E2D] @ '','' @ utf8 [0x7A0D, 0x540E, 0x91CD, 0x8BD5] @ '')''"

type_synonym done_handle = "ks_handle \<times> bool"

definition server_acquire ::
  "instant \<Rightarrow> 'c managed_server \<Rightarrow> (mcp_refusal + done_handle) \<times> 'c managed_server" where
  "server_acquire now s =
    (case ks_acquire (sv_name (ms_config s)) (ms_limiter s) of
       (None, l) \<Rightarrow> (Inl ServerBusy, s\<lparr>ms_limiter := l\<rparr>)
     | (Some rel, l) \<Rightarrow>
         (case breaker_allow now (ms_breaker s) of
            (False, b) \<Rightarrow>
              (Inl BreakerTripped, s\<lparr>ms_limiter := snd (ks_fire rel l), ms_breaker := b\<rparr>)
          | (True, b) \<Rightarrow> (Inr (rel, False), s\<lparr>ms_limiter := l, ms_breaker := b\<rparr>)))"

definition server_done ::
  "instant \<Rightarrow> bool \<Rightarrow> done_handle \<Rightarrow> 'c managed_server \<Rightarrow> done_handle \<times> 'c managed_server" where
  "server_done now success h s =
    (if snd h then (h, s)
     else (case ks_fire (fst h) (ms_limiter s) of (rel, l) \<Rightarrow>
       ((rel, True), s\<lparr>ms_breaker := breaker_record now success (ms_breaker s), ms_limiter := l\<rparr>)))"

definition put_server :: "string \<Rightarrow> 'c managed_server \<Rightarrow> 'c mcp_manager \<Rightarrow> 'c mcp_manager" where
  "put_server n s m = m\<lparr>mg_servers := gm_put n s (mg_servers m)\<rparr>"

definition manager_acquire ::
  "instant \<Rightarrow> string \<Rightarrow> 'c mcp_manager
    \<Rightarrow> (mcp_refusal + 'c managed_server \<times> done_handle) \<times> 'c mcp_manager" where
  "manager_acquire now server m = (case gm_get (mg_servers m) server of
     None \<Rightarrow> (Inl NoSuchServer, m)
   | Some s \<Rightarrow> (case server_acquire now s of
       (Inl why, s') \<Rightarrow> (Inl why, put_server server s' m)
     | (Inr h, s') \<Rightarrow> (Inr (s', h), put_server server s' m)))"

definition manager_done ::
  "instant \<Rightarrow> bool \<Rightarrow> string \<Rightarrow> done_handle \<Rightarrow> 'c mcp_manager \<Rightarrow> 'c mcp_manager" where
  "manager_done now success server h m = (case gm_get (mg_servers m) server of
     None \<Rightarrow> m | Some s \<Rightarrow> put_server server (snd (server_done now success h s)) m)"

section \<open>The executor\<close>

record content_block =
  cb_type :: string
  cb_text :: string

record tool_result =
  res_content :: "content_block list"
  res_is_error :: bool

text \<open>The fields the model uses; an empty ID and a zero time are the fields the run fills in.\<close>

record evidence =
  ev_id :: string
  ev_run_id :: string
  ev_tool_call_id :: string
  ev_source_kind :: string
  ev_api_group :: string
  ev_summary :: string
  ev_collected_at :: instant

record tool_call_result =
  tc_summary :: string
  tc_observation :: string
  tc_evidence :: "evidence list"

definition mcp_truncate :: "string \<Rightarrow> nat \<Rightarrow> string" where
  "mcp_truncate text n =
    (if n = 0 \<or> length (runes text) \<le> n then text
     else concat (take n (runes text)) @ (utf8 [0x2026] @ ''('' @ utf8 [0x5DF2, 0x622A, 0x65AD] @ '')''))"

abbreviation max_observation_chars :: nat where "max_observation_chars \<equiv> 4000"

definition render_block :: "content_block \<Rightarrow> string list" where
  "render_block b =
    (if trim_space (cb_type b) = ''text'' \<or> trim_space (cb_type b) = [] then
       (if trim_space (cb_text b) \<noteq> [] then [trim_space (cb_text b)] else [])
     else [''['' @ cb_type b @ '' '' @ utf8 [0x5185, 0x5BB9, 0x5DF2, 0x7701, 0x7565] @ '']''])"

definition render_content :: "content_block list \<Rightarrow> string" where
  "render_content blocks = join [CHR 0x0A] (concat (map render_block blocks))"

definition raw_arguments :: "string \<Rightarrow> string" where
  "raw_arguments args = (if trim_space args = [] then ''{}'' else trim_space args)"

definition mcp_result :: "string \<Rightarrow> string \<Rightarrow> string \<Rightarrow> tool_call_result" where
  "mcp_result server summary body =
    (let text = mcp_truncate (trim_space body) max_observation_chars in
     \<lparr>tc_summary = summary, tc_observation = text,
      tc_evidence = [\<lparr>ev_id = [], ev_run_id = [], ev_tool_call_id = [], ev_source_kind = TOOL_ORIGIN_MCP,
                      ev_api_group = server, ev_summary = text, ev_collected_at = 0\<rparr>]\<rparr>)"

text \<open>\<open>call_tool\<close> is the answer to \<^verbatim>\<open>Client.CallTool\<close> under the call's context.\<close>

definition executor_call ::
  "('c \<Rightarrow> string \<Rightarrow> string \<Rightarrow> tool_result go_result) \<Rightarrow> 'c managed_server \<Rightarrow> string \<Rightarrow> string
    \<Rightarrow> tool_call_result go_result" where
  "executor_call call_tool s toolName args = (case ms_client s of
     None \<Rightarrow> Inl (ErrMsg (utf8 [0x5916, 0x90E8, 0x5DE5, 0x5177, 0x6682, 0x4E0D, 0x53EF, 0x7528] @ ''('' @ utf8 [0x8FDE, 0x63A5, 0x672A, 0x5C31, 0x7EEA] @ '')''))
   | Some c \<Rightarrow> (case call_tool c toolName (raw_arguments args) of
       Inl e \<Rightarrow> Inl (ErrWrap (utf8 [0x5916, 0x90E8, 0x5DE5, 0x5177, 0x8C03, 0x7528, 0x5931, 0x8D25] @ '': '') e)
     | Inr tr \<Rightarrow>
         (let text = render_content (res_content tr) in
          if res_is_error tr then
            (let summary = (if trim_space text = [] then utf8 [0x5916, 0x90E8, 0x5DE5, 0x5177, 0x8FD4, 0x56DE, 0x9519, 0x8BEF]
                            else trim_space text)
             in Inr (mcp_result (sv_name (ms_config s))
                   (utf8 [0x5DE5, 0x5177, 0x8FD4, 0x56DE, 0x9519, 0x8BEF] @ '': '' @ summary) text))
          else Inr (mcp_result (sv_name (ms_config s))
                   (''MCP '' @ utf8 [0x5DE5, 0x5177] @ '' '' @ toolName @ '' '' @ utf8 [0x6267, 0x884C, 0x6210, 0x529F]) text))))"

text \<open>
  \<^verbatim>\<open>Executor.Execute\<close> run to its end with no other call in between: admitted at
  \<open>t0\<close>, finished at \<open>t1\<close>. Interleaved calls are the sequences of \<open>server_acquire\<close> and
  \<open>server_done\<close> below.
\<close>

definition executor_execute ::
  "('c \<Rightarrow> string \<Rightarrow> string \<Rightarrow> tool_result go_result) \<Rightarrow> instant \<Rightarrow> instant \<Rightarrow> string \<Rightarrow> string
    \<Rightarrow> 'c mcp_manager \<Rightarrow> tool_call_result go_result \<times> 'c mcp_manager" where
  "executor_execute call_tool t0 t1 toolID args m = (case parse_tool_id toolID of
     None \<Rightarrow> (Inl (ErrMsg (''invalid mcp tool id '' @ quoted toolID)), m)
   | Some (server, toolName) \<Rightarrow>
       (case manager_acquire t0 server m of
          (Inl why, m1) \<Rightarrow> (Inl (ErrMsg (refusal_reason why)), m1)
        | (Inr (s, h), m1) \<Rightarrow>
            (let r = executor_call call_tool s toolName args;
                 err = (case r of Inl e \<Rightarrow> Some e | Inr _ \<Rightarrow> None)
             in (r, manager_done t1 (call_success err) server h m1))))"

section \<open>Connections\<close>

definition set_server_state :: "conn_state \<Rightarrow> 'c managed_server \<Rightarrow> 'c managed_server" where
  "set_server_state st s = s\<lparr>ms_state := st\<rparr>"

definition discover_tools ::
  "(string \<Rightarrow> list_tools_result go_result) \<Rightarrow> 'c managed_server \<Rightarrow> go_error option \<times> 'c managed_server" where
  "discover_tools fetch s = (case list_tools fetch of
     Inl e \<Rightarrow> (Some e, s)
   | Inr (remote, _) \<Rightarrow> (None, store_tools (to_tool_definitions (ms_config s) remote) s))"

definition connect_once ::
  "'c go_result \<Rightarrow> (string \<Rightarrow> list_tools_result go_result) \<Rightarrow> 'c managed_server
    \<Rightarrow> 'c go_result \<times> 'c managed_server" where
  "connect_once dialed fetch s =
    (let s1 = set_server_state ConnConnecting s in
     case dialed of
       Inl e \<Rightarrow> (Inl e, s1)
     | Inr client \<Rightarrow> (case discover_tools fetch s1 of
         (Some e, s2) \<Rightarrow> (Inl e, s2)
       | (None, s2) \<Rightarrow> (Inr client, set_server_state ConnReady (s2\<lparr>ms_client := Some client\<rparr>))))"

definition drop_client :: "bool \<Rightarrow> 'c \<Rightarrow> 'c managed_server \<Rightarrow> 'c managed_server" where
  "drop_client closed client s =
    (let s1 = (if ms_client s = Some client then s\<lparr>ms_client := None\<rparr> else s)
     in if closed then s1 else set_server_state ConnDisconnected s1)"

text \<open>
  One round of \<^verbatim>\<open>supervise\<close> while its context is alive: the answer to the dial, the pages
  of the discovery, and how long the connection then lived. The result has the wait the round
  ends with, if any. Cancelling the context ends the sequence of rounds.
\<close>

abbreviation min_server_uptime :: duration where "min_server_uptime \<equiv> 10 * second"

record 'c sup_round =
  rd_dial :: "'c go_result"
  rd_fetch :: "string \<Rightarrow> list_tools_result go_result"
  rd_uptime :: duration

definition supervise_round ::
  "'c sup_round \<Rightarrow> duration \<times> 'c managed_server \<Rightarrow> duration option \<times> duration \<times> 'c managed_server" where
  "supervise_round rd st =
    (case st of (backoff, s) \<Rightarrow>
     (case connect_once (rd_dial rd) (rd_fetch rd) s of
       (Inl e, s1) \<Rightarrow> (Some backoff, next_backoff backoff, set_server_state ConnFailed s1)
     | (Inr client, s1) \<Rightarrow>
         (let s2 = drop_client False client s1 in
          if rd_uptime rd \<ge> min_server_uptime then (None, reconnect_base_backoff, s2)
          else (Some backoff, next_backoff backoff, s2))))"

fun supervise_rounds ::
  "'c sup_round list \<Rightarrow> duration \<times> 'c managed_server \<Rightarrow> duration option list \<times> duration \<times> 'c managed_server"
where
  "supervise_rounds [] st = ([], st)"
| "supervise_rounds (rd # rds) st =
    (case supervise_round rd st of (w, st1) \<Rightarrow>
      (case supervise_rounds rds st1 of (ws, st2) \<Rightarrow> (w # ws, st2)))"

definition supervise ::
  "'c sup_round list \<Rightarrow> 'c managed_server \<Rightarrow> duration option list \<times> duration \<times> 'c managed_server" where
  "supervise rds s = supervise_rounds rds (reconnect_base_backoff, s)"

definition manager_close :: "'c mcp_manager \<Rightarrow> 'c mcp_manager" where
  "manager_close m =
    (if mg_closed m then m
     else \<lparr>mg_servers = map (\<lambda>(n, s). (n, set_server_state ConnDisconnected s)) (mg_servers m),
           mg_closed = True\<rparr>)"

section \<open>Facts on names and discovery\<close>

lemma index_byte_append: "c \<notin> set xs \<Longrightarrow> index_byte c (xs @ c # ys) = Some (length xs)"
  by (induction xs) auto

lemma parse_tool_id_prefix:
  assumes "server \<noteq> []" "CHR ''.'' \<notin> set server" "nm \<noteq> []"
  shows "parse_tool_id (tool_id_prefix server @ nm) = Some (server, nm)"
proof -
  have "index_byte CHR ''.'' (server @ CHR ''.'' # nm) = Some (length server)"
    by (rule index_byte_append) (rule assms(2))
  with assms(1,3) show ?thesis
    by (cases nm) (auto simp: parse_tool_id_def tool_id_prefix_def Let_def)
qed

lemma to_tool_definition_fields [simp]:
  "td_id (to_tool_definition cfg rt) = tool_id_prefix (sv_name cfg) @ trim_space (rt_name rt)"
  "td_read_only (to_tool_definition cfg rt) \<longleftrightarrow> trim_space (rt_name rt) \<in> set (sv_trusted_tools cfg)"
  "td_source (to_tool_definition cfg rt) = tool_source (sv_name cfg)"
  "td_origin (to_tool_definition cfg rt) = TOOL_ORIGIN_MCP"
  by (simp_all add: to_tool_definition_def Let_def)

lemma add_tools_eq:
  "length acc < max_tools_per_server \<Longrightarrow>
    add_tools acc ts = (take max_tools_per_server (acc @ ts), max_tools_per_server \<le> length (acc @ ts))"
proof (induction ts arbitrary: acc)
  case (Cons t ts)
  show ?case
  proof (cases "length (acc @ [t]) \<ge> max_tools_per_server")
    case True
    with Cons.prems have "length (acc @ [t]) = max_tools_per_server" by simp
    with True show ?thesis by (simp add: take_Cons')
  next
    case False
    with Cons.IH [of "acc @ [t]"] show ?thesis by (simp add: Let_def)
  qed
qed simp

text \<open>The pages a server would show to a client that never stops, as far as \<open>n\<close> pages go.\<close>

fun remote_pages ::
  "(string \<Rightarrow> list_tools_result go_result) \<Rightarrow> nat \<Rightarrow> string \<Rightarrow> remote_tool list \<times> bool" where
  "remote_pages fetch 0 cursor = ([], False)"
| "remote_pages fetch (Suc n) cursor = (case fetch cursor of
     Inl _ \<Rightarrow> ([], False)
   | Inr res \<Rightarrow>
       if lr_next_cursor res = [] then (lr_tools res, True)
       else (case remote_pages fetch n (lr_next_cursor res) of (ts, fin) \<Rightarrow> (lr_tools res @ ts, fin)))"

lemma list_pages_ok:
  assumes "list_pages fetch n cursor acc = Inr (ts, truncated)" "length acc < max_tools_per_server"
  shows "length ts \<le> max_tools_per_server \<and>
    ts = take max_tools_per_server (acc @ fst (remote_pages fetch n cursor)) \<and>
    (\<not> truncated \<longrightarrow> snd (remote_pages fetch n cursor) \<and> ts = acc @ fst (remote_pages fetch n cursor))"
  using assms
proof (induction fetch n cursor acc rule: list_pages.induct)
  case (2 fetch n cursor acc)
  then obtain res where res: "fetch cursor = Inr res" by (auto split: sum.splits)
  let ?acc = "acc @ lr_tools res"
  show ?case
  proof (cases "max_tools_per_server \<le> length ?acc")
    case True
    with 2 res show ?thesis by (auto simp: add_tools_eq take_all split: prod.splits)
  next
    case False
    then have add: "add_tools acc (lr_tools res) = (?acc, False)"
      using 2(3) by (simp add: add_tools_eq)
    show ?thesis
    proof (cases "lr_next_cursor res = []")
      case True
      with 2 res add False show ?thesis by auto
    next
      case more: False
      with 2(2) res add have "list_pages fetch n (lr_next_cursor res) ?acc = Inr (ts, truncated)"
        by simp
      with 2(1) [OF res add [symmetric] refl _ more] False more res show ?thesis
        by (auto simp: case_prod_unfold)
    qed
  qed
qed simp

section \<open>Facts on admission\<close>

text \<open>
  Calls of one server as operations of the \<open>admission\<close> contract: the key of an admission says
  when the call asks, when it ends and with what outcome.
\<close>

type_synonym mcp_call = "instant \<times> instant \<times> bool"
type_synonym mcp_handle = "done_handle \<times> instant \<times> bool"

definition mc_acquire :: "mcp_call \<Rightarrow> 'c managed_server \<Rightarrow> mcp_handle option \<times> 'c managed_server" where
  "mc_acquire call s = (case call of (t0, t1, ok) \<Rightarrow>
     (case server_acquire t0 s of
        (Inl _, s') \<Rightarrow> (None, s') | (Inr h, s') \<Rightarrow> (Some (h, t1, ok), s')))"

definition mc_fire :: "mcp_handle \<Rightarrow> 'c managed_server \<Rightarrow> mcp_handle \<times> 'c managed_server" where
  "mc_fire mh s = (case mh of (h, t1, ok) \<Rightarrow>
     (case server_done t1 ok h s of (h', s') \<Rightarrow> ((h', t1, ok), s')))"

fun mc_slots :: "mcp_handle \<Rightarrow> string list" where
  "mc_slots ((rel, dn), _, _) = (if dn then [] else ks_slots rel)"

definition mc_inv :: "'c managed_server \<Rightarrow> bool" where
  "mc_inv s \<longleftrightarrow> ks_inv (ms_limiter s) \<and> breaker_inv (ms_breaker s)"

abbreviation mc_used :: "'c managed_server \<Rightarrow> string \<Rightarrow> int" where
  "mc_used s \<equiv> ks_used (ms_limiter s)"

lemma breaker_allow_refused: "breaker_allow now b = (False, b') \<Longrightarrow> b' = b"
  by (auto simp: breaker_allow_def split: breaker_state.splits if_splits)

lemma server_acquire_refused:
  "ks_inv (ms_limiter s) \<Longrightarrow> server_acquire now s = (Inl why, s') \<Longrightarrow> s' = s"
  using ks.acq_refused [of "ms_limiter s"] ks_acquire_rollback [of "ms_limiter s"]
  by (auto simp: server_acquire_def split: prod.splits option.splits bool.splits
      dest: breaker_allow_refused)

lemma server_acquire_granted:
  "server_acquire now s = (Inr (rel, dn), s') \<Longrightarrow>
    \<not> dn \<and> (\<exists>l. ks_acquire (sv_name (ms_config s)) (ms_limiter s) = (Some rel, l) \<and>
      breaker_allow now (ms_breaker s) = (True, ms_breaker s') \<and>
      s' = s\<lparr>ms_limiter := l, ms_breaker := ms_breaker s'\<rparr>)"
  by (auto simp: server_acquire_def split: prod.splits option.splits bool.splits)

interpretation mcp: admission mc_acquire mc_fire mc_slots mc_used mc_inv
proof
  fix s :: "'a managed_server" and k s'
  assume "mc_inv s" "mc_acquire k s = (None, s')"
  then show "s' = s"
    using server_acquire_refused [of s "fst k"]
    by (auto simp: mc_acquire_def mc_inv_def split: prod.splits sum.splits)
next
  fix s :: "'a managed_server" and k h s'
  assume a: "mc_inv s" "mc_acquire k s = (Some h, s')"
  then obtain rel t1 ok where h: "h = ((rel, False), t1, ok)"
    and acq: "server_acquire (fst k) s = (Inr (rel, False), s')"
    by (auto simp: mc_acquire_def dest: server_acquire_granted split: prod.splits sum.splits)
  then obtain l where l: "ks_acquire (sv_name (ms_config s)) (ms_limiter s) = (Some rel, l)"
    and b: "breaker_allow (fst k) (ms_breaker s) = (True, ms_breaker s')"
    and s': "ms_limiter s' = l"
    using server_acquire_granted [OF acq] by (metis managed_server.select_convs(3) managed_server.surjective managed_server.update_convs(2,3))
  from a(1) have inv: "ks_inv (ms_limiter s)" "breaker_inv (ms_breaker s)"
    by (simp_all add: mc_inv_def)
  have "breaker_inv (ms_breaker s')"
    using breaker_inv_allow [OF inv(2), of "fst k"] b by simp
  then show "mc_inv s' \<and> (\<forall>d. mc_used s' d = mc_used s d + int (count_list (mc_slots h) d))"
    using ks.acq_granted [OF inv(1) l] s' h by (simp add: mc_inv_def)
next
  fix s :: "'a managed_server" and h h' s'
  assume a: "mc_inv s" "mc_fire h s = (h', s')"
    and le: "\<And>d. int (count_list (mc_slots h) d) \<le> mc_used s d"
  obtain rel dn t1 ok where h: "h = ((rel, dn), t1, ok)" by (metis prod_cases3 prod.collapse)
  show "mc_inv s' \<and> mc_slots h' = [] \<and> (\<forall>d. mc_used s' d = mc_used s d - int (count_list (mc_slots h) d))"
  proof (cases dn)
    case True
    with a h show ?thesis by (auto simp: mc_fire_def server_done_def)
  next
    case False
    obtain rel' l where f: "ks_fire rel (ms_limiter s) = (rel', l)" by fastforce
    from a(1) have inv: "ks_inv (ms_limiter s)" "breaker_inv (ms_breaker s)"
      by (simp_all add: mc_inv_def)
    from ks.fire_ok [OF inv(1) _ f] le h False a f breaker_inv_record [OF inv(2), of t1 ok]
    show ?thesis by (auto simp: mc_fire_def server_done_def mc_inv_def)
  qed
next
  fix h and s :: "'a managed_server"
  assume "mc_slots h = []"
  then show "mc_slots (fst (mc_fire h s)) = []"
    by (cases h rule: mc_slots.cases) (auto simp: mc_fire_def server_done_def ks.fire_spent split: prod.splits if_splits)
qed

lemma mc_inv_new [simp]: "mc_inv (new_managed_server cfg)"
  by (simp add: mc_inv_def new_managed_server_def)

lemma new_managed_limiter:
  "ms_limiter (new_managed_server cfg) =
    \<lparr>ks_max = max 0 (sv_max_concurrency cfg), ks_counts = []\<rparr>"
  by (simp add: new_managed_server_def new_keyed_semaphore_def)

lemma with_defaults_concurrency: "0 < sv_max_concurrency (with_defaults cfg)"
  by (simp add: with_defaults_def positive_or_def)

lemma server_acquire_max [simp]:
  "ks_max (ms_limiter (snd (server_acquire now s))) = ks_max (ms_limiter s)"
proof -
  obtain r l where a: "ks_acquire (sv_name (ms_config s)) (ms_limiter s) = (r, l)" by fastforce
  then have "ks_max l = ks_max (ms_limiter s)"
    using ks_max_acquire by (metis snd_conv)
  with a show ?thesis
    by (auto simp: server_acquire_def split: option.splits prod.splits bool.splits)
qed

lemma server_done_max [simp]:
  "ks_max (ms_limiter (snd (server_done now ok h s))) = ks_max (ms_limiter s)"
  using ks_max_fire [of "fst h" "ms_limiter s"]
  by (auto simp: server_done_def simp del: ks_max_fire split: prod.splits)

lemma mc_step_max:
  "ks_max (ms_limiter (fst (adm_step mc_acquire mc_fire st op))) = ks_max (ms_limiter (fst st))"
proof (cases st; cases op)
  fix s hs k assume "st = (s, hs)" "op = Acquire k"
  then show ?thesis
    using server_acquire_max [of "fst k" s] by (auto simp: mc_acquire_def simp del: server_acquire_max split: prod.splits sum.splits)
next
  fix s hs i assume "st = (s, hs)" "op = Release i"
  then show ?thesis
    using server_done_max [of "fst (snd (hs ! i))" "snd (snd (hs ! i))" "fst (hs ! i)" s]
    by (auto simp: mc_fire_def simp del: server_done_max split: prod.splits)
qed

lemma mc_run_max:
  assumes "adm_run mc_acquire mc_fire s ops = (s', hs)"
  shows "ks_max (ms_limiter s') = ks_max (ms_limiter s)"
proof -
  have "ks_max (ms_limiter (fst (foldl (adm_step mc_acquire mc_fire) st ops))) = ks_max (ms_limiter (fst st))" for st
    by (induction ops arbitrary: st) (simp_all add: mc_step_max)
  from this [of "(s, [])"] assms show ?thesis by (simp add: adm_run_def)
qed

lemma mc_run_used:
  "adm_run mc_acquire mc_fire (new_managed_server cfg) ops = (s, hs) \<Longrightarrow>
    mc_inv s \<and> (\<forall>d. mc_used s d = held mc_slots hs d)"
  by (rule mcp.run_used) (simp_all add: new_managed_limiter)

section \<open>Properties\<close>

text \<open>
  C16: Calls of an MCP server are bounded and refusals leave no trace. In any interleaving of
  admissions and completions of a configured server at most its \<^verbatim>\<open>MaxConcurrency\<close> calls are
  in flight; a call that is refused, for a missing slot or by the breaker, leaves the limiter and
  the breaker exactly as they were, so it cannot use up the probe of a half-open breaker.
\<close>

theorem mcp_calls_bounded:
  assumes "adm_run mc_acquire mc_fire (new_managed_server (with_defaults cfg)) ops = (s, hs)"
  shows "held mc_slots hs (trim_space (sv_name cfg)) \<le> sv_max_concurrency (with_defaults cfg) \<and>
    (\<forall>now why s'. server_acquire now s = (Inl why, s') \<longrightarrow> s' = s)"
proof -
  note used = mc_run_used [OF assms]
  have "ks_max (ms_limiter s) = sv_max_concurrency (with_defaults cfg)" "0 < ks_max (ms_limiter s)"
    using mc_run_max [OF assms] with_defaults_concurrency [of cfg]
    by (simp_all add: new_managed_limiter)
  with used ks_count_bounds [of "ms_limiter s" "trim_space (sv_name cfg)"] show ?thesis
    by (auto simp: mc_inv_def dest: server_acquire_refused)
qed

definition sample_server :: server_config where
  "sample_server =
    \<lparr>sv_name = ''files'', sv_transport = ''http'', sv_command = [], sv_url = ''http://h'',
     sv_agent_types = [], sv_trusted_tools = [''read''], sv_connect_timeout = 0,
     sv_list_timeout = 0, sv_call_timeout = 0, sv_health_interval = 0, sv_max_concurrency = 1\<rparr>"

theorem mcp_calls_bounded_witness:
  "\<exists>(s :: unit managed_server) hs.
     adm_run mc_acquire mc_fire (new_managed_server (with_defaults sample_server))
       [Acquire (0, 3, True), Acquire (1, 2, True), Release 0, Acquire (4, 5, False)] = (s, hs) \<and>
     length hs = 2 \<and> held mc_slots hs ''files'' \<le> 1"
proof -
  let ?run = "adm_run mc_acquire mc_fire (new_managed_server (with_defaults sample_server) :: unit managed_server)
       [Acquire (0, 3, True), Acquire (1, 2, True), Release 0, Acquire (4, 5, False)]"
  have "length (snd ?run) = 2" "sv_max_concurrency (with_defaults sample_server) = 1"
    "trim_space (sv_name sample_server) = ''files''" by code_simp+
  then show ?thesis
    using mcp_calls_bounded [of sample_server _ "fst ?run" "snd ?run", OF prod.collapse [symmetric]]
    by (metis prod.collapse)
qed

text \<open>
  Tool discovery is bounded and complete. Whatever pages a server sends, no more than 256
  tools are kept, always the first ones; when the result is not marked truncated, it is every
  tool of every page up to the end of the cursor chain.
\<close>

theorem list_tools_bounded:
  assumes "list_tools fetch = Inr (ts, truncated)"
  shows "length ts \<le> 256 \<and> prefix ts (fst (remote_pages fetch 50 [])) \<and>
    (\<not> truncated \<longrightarrow> remote_pages fetch 50 [] = (ts, True))"
  using list_pages_ok [OF assms [unfolded list_tools_def]]
  by (auto simp: take_is_prefix prod_eq_iff)

definition sample_pages :: "string \<Rightarrow> list_tools_result go_result" where
  "sample_pages cursor =
    (let t = \<lparr>rt_name = ''read'', rt_title = [], rt_description = [], rt_input_schema = []\<rparr> in
     Inr \<lparr>lr_tools = [t], lr_next_cursor = (if cursor = [] then ''p2'' else [])\<rparr>)"

theorem list_tools_bounded_witness:
  "\<exists>ts. list_tools sample_pages = Inr (ts, False) \<and> length ts = 2 \<and> remote_pages sample_pages 50 [] = (ts, True)"
proof -
  have "case list_tools sample_pages of Inr (ts, tr) \<Rightarrow> length ts = 2 \<and> \<not> tr | Inl _ \<Rightarrow> False"
    by code_simp
  then obtain ts where ts: "list_tools sample_pages = Inr (ts, False)" "length ts = 2"
    by (auto split: sum.splits prod.splits)
  from list_tools_bounded [OF ts(1)] ts show ?thesis by simp
qed

text \<open>
  A discovered tool leads back to its server and is only trusted when configured so. For a
  server whose name has no dot, the ID of each definition parses to this server and the remote
  name, its source belongs to the MCP executor, and the definition is read-only exactly when
  the configuration lists the remote name as trusted.
\<close>

theorem discovered_tools_route:
  assumes "sv_name cfg \<noteq> []" "CHR ''.'' \<notin> set (sv_name cfg)"
    and "t \<in> set (to_tool_definitions cfg remote)"
  shows "\<exists>rt \<in> set remote. parse_tool_id (td_id t) = Some (sv_name cfg, trim_space (rt_name rt)) \<and>
    prefix TOOL_SOURCE_MCP_PREFIX (td_source t) \<and>
    (td_read_only t \<longleftrightarrow> trim_space (rt_name rt) \<in> set (sv_trusted_tools cfg))"
  using assms by (auto simp: to_tool_definitions_def parse_tool_id_prefix tool_source_def)

theorem discovered_tools_route_witness:
  "\<exists>t. to_tool_definitions sample_server [\<lparr>rt_name = '' read '', rt_title = [], rt_description = [], rt_input_schema = []\<rparr>] = [t] \<and>
     parse_tool_id (td_id t) = Some (''files'', ''read'') \<and> td_read_only t"
proof -
  let ?rt = "\<lparr>rt_name = '' read '', rt_title = [], rt_description = [], rt_input_schema = []\<rparr>"
  have trim: "trim_space '' read '' = ''read''" by code_simp
  have one: "to_tool_definitions sample_server [?rt] = [to_tool_definition sample_server ?rt]"
    by (simp add: to_tool_definitions_def trim)
  have "sv_name sample_server = ''files''" "sv_trusted_tools sample_server = [''read'']"
    by (simp_all add: sample_server_def)
  then show ?thesis
    using discovered_tools_route [of sample_server "to_tool_definition sample_server ?rt" "[?rt]"] trim
    by (simp add: one)
qed

subsection \<open>The life of a connection\<close>

text \<open>The tools a round discovers, when the server answers the dial and the listing.\<close>

definition discovered :: "'c sup_round \<Rightarrow> remote_tool list option" where
  "discovered rd = (case (rd_dial rd, list_tools (rd_fetch rd)) of
     (Inr _, Inr (remote, _)) \<Rightarrow> Some remote | _ \<Rightarrow> None)"

definition stable :: "'c sup_round \<Rightarrow> bool" where
  "stable rd \<longleftrightarrow> discovered rd \<noteq> None \<and> min_server_uptime \<le> rd_uptime rd"

lemma next_backoff_eq:
  "0 \<le> b \<Longrightarrow> b \<le> reconnect_max_backoff \<Longrightarrow> next_backoff b = min (b * 2) reconnect_max_backoff"
  by (simp add: next_backoff_def Let_def wrap64_id int64_max_def min_def)

lemma supervise_round_eq:
  "supervise_round rd (b, s) =
    (if stable rd then None else Some b,
     if stable rd then reconnect_base_backoff else next_backoff b,
     (case discovered rd of
        None \<Rightarrow> s\<lparr>ms_state := ConnFailed\<rparr>
      | Some remote \<Rightarrow>
          s\<lparr>ms_state := ConnDisconnected, ms_client := None,
            ms_last_tools := to_tool_definitions (ms_config s) remote, ms_has_tools := True\<rparr>))"
  by (auto simp: supervise_round_def stable_def discovered_def connect_once_def discover_tools_def
      drop_client_def set_server_state_def store_tools_def Let_def split: sum.splits)

fun expected_waits :: "nat \<Rightarrow> 'c sup_round list \<Rightarrow> duration option list" where
  "expected_waits k [] = []"
| "expected_waits k (rd # rds) =
    (if stable rd then None # expected_waits 0 rds
     else Some (min (2 ^ k * second) reconnect_max_backoff) # expected_waits (Suc k) rds)"

lemma supervise_rounds_waits:
  "fst (supervise_rounds rds (min (2 ^ k * second) reconnect_max_backoff, s)) = expected_waits k rds"
proof (induction rds arbitrary: k s)
  case (Cons rd rds)
  have "next_backoff (min (2 ^ k * second) reconnect_max_backoff)
      = min (2 ^ Suc k * second) reconnect_max_backoff"
    by (simp add: next_backoff_eq min_def)
  then show ?case
    using Cons.IH [of 0] Cons.IH [of "Suc k"]
    by (auto simp: supervise_round_eq case_prod_unfold)
qed simp

text \<open>
  Reconnecting backs off exponentially and resets only on a stable connection. The waits of
  any sequence of rounds are these: none after a connection that lived ten seconds, otherwise
  one second doubled for every unstable round since the last stable one, capped at 30 seconds.
\<close>

theorem supervise_backoff:
  "fst (supervise rds s) = expected_waits 0 rds"
  using supervise_rounds_waits [of rds 0 s] by (simp add: supervise_def)

definition last_discovery :: "'c sup_round list \<Rightarrow> remote_tool list option" where
  "last_discovery rds = first_some discovered (rev rds)"

lemma last_discovery_Cons:
  "last_discovery (rd # rds) =
    (case last_discovery rds of Some ts \<Rightarrow> Some ts | None \<Rightarrow> discovered rd)"
  by (auto simp: last_discovery_def first_some_append split: option.splits)

lemma supervise_rounds_state:
  "let s' = snd (snd (supervise_rounds rds (b, s))) in
    ms_config s' = ms_config s \<and> ms_breaker s' = ms_breaker s \<and> ms_limiter s' = ms_limiter s \<and>
    snapshot_tools s' = (case last_discovery rds of
      None \<Rightarrow> snapshot_tools s
    | Some remote \<Rightarrow> Some (to_tool_definitions (ms_config s) remote))"
proof (induction rds arbitrary: b s)
  case (Cons rd rds)
  show ?case
    using Cons.IH
    by (auto simp: supervise_round_eq case_prod_unfold Let_def snapshot_tools_def last_discovery_Cons
        split: option.splits)
qed (simp add: last_discovery_def)

text \<open>
  A lost connection loses no tools. After any sequence of connects, discoveries and drops a
  server exposes the tools of its last complete discovery (nothing only while there has never
  been one), and reconnecting touches neither its breaker nor its call slots.
\<close>

theorem supervise_keeps_tools:
  "let s' = snd (snd (supervise rds s)) in
    ms_breaker s' = ms_breaker s \<and> ms_limiter s' = ms_limiter s \<and>
    snapshot_tools s' = (case last_discovery rds of
      None \<Rightarrow> snapshot_tools s
    | Some remote \<Rightarrow> Some (to_tool_definitions (ms_config s) remote))"
  using supervise_rounds_state [of rds reconnect_base_backoff s] by (simp add: supervise_def Let_def)

subsection \<open>Trust, end to end\<close>

lemmas supervise_keeps_tools_of =
  supervise_rounds_state [of _ reconnect_base_backoff, folded supervise_def, unfolded Let_def]

lemma add_servers_get:
  "gm_get (foldl add_server m servers) n = Some s \<Longrightarrow>
    gm_get m n = Some s \<or> (\<exists>raw \<in> set servers. s = new_managed_server (with_defaults raw))"
  by (induction servers arbitrary: m) (fastforce simp: add_server_def Let_def split: if_splits)+

lemma new_manager_servers:
  "gm_get (mg_servers (new_manager servers)) n = Some s \<Longrightarrow>
    \<exists>raw \<in> set servers. s = new_managed_server (with_defaults raw)"
  using add_servers_get [of "[]"] by (fastforce simp: new_manager_def)

lemma add_servers_ok: "gm_ok m \<Longrightarrow> gm_ok (foldl add_server m servers)"
  by (induction servers arbitrary: m) (auto simp: add_server_def Let_def)

lemma new_manager_ok: "gm_ok (mg_servers (new_manager servers))"
  by (simp add: new_manager_def add_servers_ok)

text \<open>Every server has lived through its own sequence of rounds.\<close>

definition run_servers ::
  "(string \<Rightarrow> 'c sup_round list) \<Rightarrow> 'c mcp_manager \<Rightarrow> 'c mcp_manager" where
  "run_servers lives m =
    m\<lparr>mg_servers := map (\<lambda>(n, s). (n, snd (snd (supervise (lives n) s)))) (mg_servers m)\<rparr>"

definition trusted_of :: "server_config list \<Rightarrow> tool_definition \<Rightarrow> bool" where
  "trusted_of servers t \<longleftrightarrow> (\<exists>raw \<in> set servers. \<exists>nm \<in> set (sv_trusted_tools raw).
     td_id t = tool_id_prefix (trim_space (sv_name raw)) @ nm)"

lemma all_tools_trusted:
  assumes "t \<in> set (all_tools (run_servers lives (new_manager servers)))" "td_read_only t"
  shows "trusted_of servers t"
proof -
  obtain n s where s: "(n, s) \<in> set (mg_servers (new_manager servers))"
    and t: "t \<in> set (case snapshot_tools (snd (snd (supervise (lives n) s))) of Some ts \<Rightarrow> ts | None \<Rightarrow> [])"
    using assms(1) by (auto simp: all_tools_def run_servers_def)
  from s have "gm_get (mg_servers (new_manager servers)) n = Some s"
    by (simp add: gm_mem_get new_manager_ok)
  then obtain raw where raw: "raw \<in> set servers" "s = new_managed_server (with_defaults raw)"
    using new_manager_servers by blast
  with t supervise_keeps_tools_of [of "lives n" s] obtain remote where
    "t \<in> set (to_tool_definitions (with_defaults raw) remote)"
    by (auto simp: new_managed_server_def snapshot_tools_def split: option.splits if_splits)
  with assms(2) raw(1) show ?thesis
    by (fastforce simp: to_tool_definitions_def trusted_of_def)
qed

text \<open>
  C13: No untrusted remote tool reaches an agent. When the registry is refreshed from the built-in
  tools and the MCP servers, after any life of their connections, every tool offered to an agent
  has an ID of the built-in table, an override of its own, or is a trusted tool of a configured
  server.
\<close>

theorem untrusted_never_offered:
  fixes lives servers r builtins
  defines "m \<equiv> run_servers lives (new_manager servers)"
  assumes "load_providers_graceful
      (provider_specs builtins \<lparr>ps_builtin = None, ps_mcp = Some (provider_tools (Some m))\<rparr>) r = (res, r')"
    and "t \<in> set (tools_for_agent r' a)" "tr_inv r"
  shows "td_id t \<in> (\<lambda>b. trim_space (td_id b)) ` set builtins \<or>
    gm_get (tr_overrides r) (td_id t) \<noteq> None \<or>
    (\<exists>t0. trusted_of servers t0 \<and> td_id t = trim_space (td_id t0))"
proof -
  let ?specs = "provider_specs builtins \<lparr>ps_builtin = None, ps_mcp = Some (provider_tools (Some m))\<rparr>"
  have "map (settle (tr_last_good r)) ?specs = [Some (Inr builtins), Some (Inr (all_tools m))]"
    by (simp add: provider_specs_def provider_tools_def settle_def)
  then have "first_some refusal (map (settle (tr_last_good r)) ?specs) = None"
    and all: "concat (map answered (map (settle (tr_last_good r)) ?specs)) = builtins @ all_tools m"
    by simp_all
  then obtain d where res: "res = Inr d"
    using graceful_refused_iff [of ?specs r] assms(2) by simp
  note loaded = graceful_done [OF assms(2) [unfolded res]]
  have base: "tr_base r' = put_tools [] (builtins @ all_tools m)"
    using loaded(3) unfolding all .
  have inv: "tr_inv r'"
    using tr_inv_load_graceful [OF assms(4), of ?specs] assms(2) by simp
  from assms(3) have t: "tr_get r' (td_id t) = Some t" "td_read_only t"
    by (auto simp: tools_for_agent_set [OF inv])
  have id: "trim_space (td_id t) = td_id t"
    using tr_get_id [OF inv t(1)] by simp
  with t(1) obtain t0 where t0: "last_tool (builtins @ all_tools m) (td_id t) = Some t0"
    and over: "t = override_tool (tr_overrides r) (td_id t) t0"
    by (auto simp: tr_get_def tr_inv_get [OF inv] base loaded(4) gm_get_put_tools_Nil)
  show ?thesis
  proof (cases "gm_get (tr_overrides r) (td_id t) = None")
    case True
    with over t(2) have "td_read_only t0" by (simp add: override_tool_def)
    from last_tool_from [OF t0] obtain x where
      x: "x \<in> set builtins \<union> set (all_tools m)" "td_id t = trim_space (td_id x)"
      "td_read_only x = td_read_only t0"
      by fastforce
    with \<open>td_read_only t0\<close> all_tools_trusted [of x lives servers] show ?thesis
      by (auto simp: m_def)
  qed simp
qed

definition sample_life :: "unit sup_round" where
  "sample_life = \<lparr>rd_dial = Inr (), rd_fetch = sample_pages, rd_uptime = 0\<rparr>"

definition sample_refresh :: "string list go_result \<times> tool_registry" where
  "sample_refresh = load_providers_graceful
    (provider_specs [pod_list_tool] \<lparr>ps_builtin = None,
       ps_mcp = Some (provider_tools (Some (run_servers (\<lambda>_. [sample_life]) (new_manager [sample_server]))))\<rparr>)
    empty_tool_registry"

theorem untrusted_never_offered_witness:
  "map td_id (tools_for_agent (snd sample_refresh) ''diagnostic'') = [''cluster.pod.list'', ''mcp.files.read''] \<and>
   (\<exists>t0. trusted_of [sample_server] t0 \<and> ''mcp.files.read'' = trim_space (td_id t0))"
proof
  show ids: "map td_id (tools_for_agent (snd sample_refresh) ''diagnostic'') = [''cluster.pod.list'', ''mcp.files.read'']"
    by code_simp
  have "''mcp.files.read'' \<in> set (map td_id (tools_for_agent (snd sample_refresh) ''diagnostic''))"
    unfolding ids by simp
  then obtain t where t: "t \<in> set (tools_for_agent (snd sample_refresh) ''diagnostic'')"
    "td_id t = ''mcp.files.read''"
    by auto
  have load: "load_providers_graceful
      (provider_specs [pod_list_tool] \<lparr>ps_builtin = None,
         ps_mcp = Some (provider_tools (Some (run_servers (\<lambda>_. [sample_life]) (new_manager [sample_server]))))\<rparr>)
      empty_tool_registry = (fst sample_refresh, snd sample_refresh)"
    by (simp add: sample_refresh_def)
  have "trim_space (td_id pod_list_tool) = ''cluster.pod.list''" by code_simp
  moreover have "tr_overrides empty_tool_registry = []"
    by (simp add: empty_tool_registry_def)
  ultimately show "\<exists>t0. trusted_of [sample_server] t0 \<and> ''mcp.files.read'' = trim_space (td_id t0)"
    using untrusted_never_offered [OF load t(1) tr_inv_empty] t(2) by auto
qed

end
