(* ===== verification/Agent_Text.thy ===== *)
theory Agent_Text
  imports Skills Mcp_Manager
begin

text \<open>
  The text that goes into and comes out of the model during a run
  (\<^verbatim>\<open>agent/application/internal/core\<close>): chat messages and tool turns, how guidance is
  merged into the one system message, how tool results are condensed for the next step, the
  test for a substantive answer and the fallback answer (\<^verbatim>\<open>loop.go\<close>,
  \<^verbatim>\<open>plan.go\<close>, \<^verbatim>\<open>reflection.go\<close>, \<^verbatim>\<open>playbook.go\<close>). Prompts that are
  only data are arguments or constants; every text whose shape is computed is computed here.
\<close>

section \<open>Messages\<close>

record message_context =
  mc_role :: string
  mc_content :: string

record tool_invocation =
  inv_id :: string
  inv_name :: string
  inv_arguments :: string

record tool_result_message =
  trm_call_id :: string
  trm_name :: string
  trm_content :: string

record tool_call_turn =
  tt_content :: string
  tt_calls :: "tool_invocation list"
  tt_results :: "tool_result_message list"

definition newline :: string where
  "newline = [CHR 0x0A]"

definition all_results :: "tool_call_turn list \<Rightarrow> tool_result_message list" where
  "all_results turns = concat (map tt_results turns)"

section \<open>Lines\<close>

text \<open>\<^verbatim>\<open>strings.Join(strings.Fields(value), " ")\<close>.\<close>

definition compact_line :: "string \<Rightarrow> string" where
  "compact_line v = join '' '' (Go_Strings.fields v)"

fun compact_plan_lines_acc :: "nat \<Rightarrow> string list \<Rightarrow> string list \<Rightarrow> string list" where
  "compact_plan_lines_acc m out [] = out"
| "compact_plan_lines_acc m out (v # vs) =
    (if compact_line v = [] then compact_plan_lines_acc m out vs
     else if length (out @ [compact_line v]) \<ge> m then out @ [compact_line v]
     else compact_plan_lines_acc m (out @ [compact_line v]) vs)"

definition compact_plan_lines :: "string list \<Rightarrow> nat \<Rightarrow> string list" where
  "compact_plan_lines values m = compact_plan_lines_acc m [] values"

fun dedup_compact_lines_acc :: "nat \<Rightarrow> string list \<Rightarrow> string list \<Rightarrow> string list" where
  "dedup_compact_lines_acc m out [] = out"
| "dedup_compact_lines_acc m out (v # vs) =
    (if compact_line v = [] \<or> compact_line v \<in> set out then dedup_compact_lines_acc m out vs
     else if length (out @ [compact_line v]) \<ge> m then out @ [compact_line v]
     else dedup_compact_lines_acc m (out @ [compact_line v]) vs)"

definition dedup_compact_lines :: "string list \<Rightarrow> nat \<Rightarrow> string list" where
  "dedup_compact_lines values m = dedup_compact_lines_acc m [] values"

fun first_non_blank :: "string list \<Rightarrow> string" where
  "first_non_blank [] = []"
| "first_non_blank (v # vs) = (if trim_space v \<noteq> [] then v else first_non_blank vs)"

definition bullets :: "string list \<Rightarrow> string" where
  "bullets ls = concat (map (\<lambda>l. newline @ ''- '' @ l) ls)"

fun numbered_from :: "nat \<Rightarrow> string list \<Rightarrow> string" where
  "numbered_from n [] = []"
| "numbered_from n (l # ls) = newline @ nat_to_string n @ ''. '' @ l @ numbered_from (Suc n) ls"

section \<open>The system message\<close>

definition append_skill_prompt :: "message_context list \<Rightarrow> skill_definition \<Rightarrow> message_context list" where
  "append_skill_prompt history skill =
    (let ls = filter (\<lambda>l. l \<noteq> []) (map trim_space (sk_system_prompt skill # sk_hints skill));
         addition = join (newline @ newline) ls
     in if ls = [] then history
        else if history \<noteq> [] \<and> mc_role (last history) = ''system'' then
          butlast history @ [(last history)\<lparr>mc_content :=
            trim_space (mc_content (last history) @ newline @ newline @ addition)\<rparr>]
        else history @ [\<lparr>mc_role = ''system'', mc_content = addition\<rparr>])"

definition merge_leading_system_prompt :: "message_context list \<Rightarrow> string \<Rightarrow> message_context list" where
  "merge_leading_system_prompt history add =
    (let addition = trim_space add in
     if addition = [] then history
     else if history \<noteq> [] \<and> mc_role (hd history) = ''system'' then
       (hd history)\<lparr>mc_content := trim_space (mc_content (hd history) @ newline @ newline @ addition)\<rparr>
         # tl history
     else \<lparr>mc_role = ''system'', mc_content = addition\<rparr> # history)"

section \<open>Tool declarations\<close>

record tool_spec =
  ts_name :: string
  ts_description :: string
  ts_parameters :: string

definition build_tool_specs :: "tool_definition list \<Rightarrow> tool_spec list \<times> (string, string) gmap" where
  "build_tool_specs tools =
    (map (\<lambda>t. \<lparr>ts_name = sanitize_name (td_id t), ts_description = td_description t,
              ts_parameters = td_parameters t\<rparr>) tools,
     foldl (\<lambda>m t. gm_put (sanitize_name (td_id t)) (td_id t) m) [] tools)"

text \<open>\<open>fresh i\<close> is the \<open>i\<close>-th identifier \<^verbatim>\<open>newID("tool")\<close> gives.\<close>

definition ensure_invocation_ids :: "(nat \<Rightarrow> string) \<Rightarrow> tool_invocation list \<Rightarrow> tool_invocation list" where
  "ensure_invocation_ids fresh invs =
    map (\<lambda>(i, ti). if trim_space (inv_id ti) = []
        then ti\<lparr>inv_id := ''call_'' @ nat_to_string i @ ''_'' @ fresh i\<rparr> else ti)
      (enumerate 0 invs)"

section \<open>Observing results\<close>

abbreviation max_observe_chars :: int where "max_observe_chars \<equiv> 2000"
abbreviation max_observe_summary_chars :: nat where "max_observe_summary_chars \<equiv> 512"

definition user_facing_error :: "go_error \<Rightarrow> string" where
  "user_facing_error e = (case first_some as_app (err_chain e) of
     Some a \<Rightarrow> app_message a | None \<Rightarrow> error_text e)"

record exec_outcome =
  eo_tool_id :: string
  eo_summary :: string
  eo_observation :: string
  eo_evidence :: "evidence list"
  eo_err :: "go_error option"
  eo_executed :: bool

definition err_tool_result :: "tool_invocation \<Rightarrow> string \<Rightarrow> tool_result_message" where
  "err_tool_result ti reason =
    \<lparr>trm_call_id = inv_id ti, trm_name = inv_name ti, trm_content = (utf8 [0x8C03, 0x7528, 0x5931, 0x8D25] @ '': '') @ reason\<rparr>"

text \<open>The evidence lines appended while they fit; lengths are bytes.\<close>

fun observe_evidence :: "int \<Rightarrow> string \<Rightarrow> evidence list \<Rightarrow> string" where
  "observe_evidence m out [] = out"
| "observe_evidence m out (e # es) =
    (let line = trim_space (ev_summary e) in
     if line = [] then observe_evidence m out es
     else if int (length out) + int (length line) + 8 > m
       then out @ newline @ (utf8 [0x2026] @ ''('' @ utf8 [0x66F4, 0x591A, 0x8BC1, 0x636E, 0x5DF2, 0x7701, 0x7565]
    @ '',''
    @ utf8 [0x53EF, 0x5728, 0x8BC1, 0x636E, 0x5217, 0x8868, 0x4E2D, 0x67E5, 0x770B]
    @ '')'')
     else observe_evidence m (out @ newline @ ''- '' @ truncate_runes line max_observe_summary_chars) es)"

definition observe_tool_result :: "tool_invocation \<Rightarrow> exec_outcome \<Rightarrow> int \<Rightarrow> tool_result_message" where
  "observe_tool_result ti oc maxChars =
    (let m = (if maxChars \<le> 0 then max_observe_chars else maxChars);
         msg = (\<lambda>c. \<lparr>trm_call_id = inv_id ti, trm_name = inv_name ti, trm_content = c\<rparr>)
     in case eo_err oc of
          Some e \<Rightarrow> msg ((utf8 [0x6267, 0x884C, 0x5931, 0x8D25] @ '': '') @ user_facing_error e)
        | None \<Rightarrow>
            (let body = (if trim_space (eo_observation oc) \<noteq> []
                         then truncate_runes (trim_space (eo_observation oc)) (nat m)
                         else observe_evidence m
                           (if trim_space (eo_summary oc) \<noteq> []
                            then truncate_runes (trim_space (eo_summary oc)) max_observe_summary_chars else [])
                           (eo_evidence oc));
                 content = trim_space body
             in msg (if content = [] then (utf8 [0x5DE5, 0x5177, 0x6267, 0x884C, 0x6210, 0x529F] @ '',''
    @ utf8 [0x4F46, 0x672A, 0x8FD4, 0x56DE, 0x53EF, 0x7528, 0x6458, 0x8981, 0x3002]) else content)))"

abbreviation max_reflect_evidence_chars :: nat where "max_reflect_evidence_chars \<equiv> 4000"

fun evidence_digest_acc :: "string \<Rightarrow> tool_result_message list \<Rightarrow> string" where
  "evidence_digest_acc out [] = (if out = [] then (''('' @ utf8 [0x65E0, 0x5DE5, 0x5177, 0x8BC1, 0x636E] @ '')'') else out)"
| "evidence_digest_acc out (r # rs) =
    (let line = trim_space (trm_content r) in
     if line = [] then evidence_digest_acc out rs
     else
       (let entry = ''- ['' @ trm_name r @ ''] '' @ truncate_runes line 400 in
        if length out + length entry + 1 > max_reflect_evidence_chars
        then out @ newline @ (utf8 [0x2026] @ ''('' @ utf8 [0x66F4, 0x591A, 0x8BC1, 0x636E, 0x5DF2, 0x7701, 0x7565]
    @ '')'')
        else evidence_digest_acc (if out = [] then entry else out @ newline @ entry) rs))"

definition evidence_digest :: "tool_call_turn list \<Rightarrow> string" where
  "evidence_digest turns = evidence_digest_acc [] (all_results turns)"

definition estimate_step_tokens ::
  "message_context list \<Rightarrow> string \<Rightarrow> tool_call_turn list \<Rightarrow> string \<Rightarrow> nat" where
  "estimate_step_tokens history content turns replyContent =
    (let chars = length (runes content) + length (runes replyContent)
           + sum_list (map (\<lambda>m. length (runes (mc_content m))) history)
           + sum_list (map (\<lambda>t. length (runes (tt_content t))
               + sum_list (map (\<lambda>r. length (runes (trm_content r))) (tt_results t))) turns)
     in max 1 (chars div 4))"

fun append_tool_trace :: "string list \<Rightarrow> string \<Rightarrow> string list" where
  "append_tool_trace trace toolID =
    (let i = trim_space toolID in
     if i = [] \<or> length trace \<ge> 12 then trace
     else if i \<in> set trace then trace else trace @ [i])"

declare append_tool_trace.simps [simp del]

section \<open>Answers\<close>

definition has_tool_result_evidence :: "tool_call_turn list \<Rightarrow> bool" where
  "has_tool_result_evidence turns \<longleftrightarrow> (\<exists>r \<in> set (all_results turns). trim_space (trm_content r) \<noteq> [])"

definition generic_completion_phrases :: "string list" where
  "generic_completion_phrases =
    [(utf8 [0x5DF2, 0x7ECF, 0x4E3A, 0x60A8, 0x8F93, 0x51FA, 0x5B8C, 0x6574, 0x7684, 0x8BCA,
      0x65AD, 0x7ED3, 0x8BBA]),
     (utf8 [0x5DF2, 0x4E3A, 0x60A8, 0x8F93, 0x51FA, 0x5B8C, 0x6574, 0x7684, 0x8BCA, 0x65AD,
      0x7ED3, 0x8BBA]),
     (utf8 [0x5DF2, 0x5B8C, 0x6574, 0x8F93, 0x51FA, 0x4E0A, 0x8FF0, 0x8BCA, 0x65AD]),
     (utf8 [0x5B8C, 0x6574, 0x8F93, 0x51FA, 0x4E0A, 0x8FF0, 0x8BCA, 0x65AD]),
     (utf8 [0x4E0A, 0x8FF0, 0x8BCA, 0x65AD, 0x5DF2, 0x5B8C, 0x6574, 0x8F93, 0x51FA]),
     (utf8 [0x60A8, 0x7684, 0x95EE, 0x9898, 0x5DF2, 0x5C31, 0x7EEA]),
     (utf8 [0x95EE, 0x9898, 0x5DF2, 0x5C31, 0x7EEA])]"

definition has_generic_completion_phrase :: "string \<Rightarrow> bool" where
  "has_generic_completion_phrase c \<longleftrightarrow>
    (\<exists>p \<in> set generic_completion_phrases. contains c p) \<or>
    (contains c (utf8 [0x5DF2, 0x5B8C, 0x6574, 0x8F93, 0x51FA]) \<or> contains c (utf8 [0x5B8C, 0x6574, 0x8F93, 0x51FA])) \<and>
      (contains c (utf8 [0x8BCA, 0x65AD]) \<or> contains c (utf8 [0x7ED3, 0x8BBA])) \<or>
    contains c (utf8 [0x5B8C, 0x6574, 0x7684, 0x8BCA, 0x65AD, 0x7ED3, 0x8BBA]) \<and> contains c (utf8 [0x8BC1, 0x636E]) \<and>
      contains c (utf8 [0x5EFA, 0x8BAE]) \<and> contains c (utf8 [0x51C6, 0x786E, 0x6027, 0x63D0, 0x793A])"

definition is_generic_closing :: "string \<Rightarrow> bool" where
  "is_generic_closing answer \<longleftrightarrow>
    (let c = concat (Go_Strings.fields answer) in
     contains c (utf8 [0x4EE5, 0x4E0A, 0x5C31, 0x662F]) \<and> contains c (utf8 [0x5B8C, 0x6574, 0x8BCA, 0x65AD]) \<or>
     \<not> contains answer ''###'' \<and> has_generic_completion_phrase c \<or>
     contains c (utf8 [0x5982, 0x679C, 0x4F60, 0x80FD, 0x63D0, 0x4F9B]) \<and> \<not> contains answer ''###'')"

definition required_sections :: "string list" where
  "required_sections =
    [(''### '' @ utf8 [0x7ED3, 0x8BBA]), (''### '' @ utf8 [0x8BC1, 0x636E]), (''### '' @ utf8 [0x5EFA, 0x8BAE]),
     (''### '' @ utf8 [0x51C6, 0x786E, 0x6027, 0x63D0, 0x793A])]"

definition is_substantive_answer :: "string \<Rightarrow> tool_call_turn list \<Rightarrow> bool" where
  "is_substantive_answer ans turns \<longleftrightarrow>
    (let answer = trim_space ans; n = length (runes answer) in
     answer \<noteq> [] \<and> \<not> is_generic_closing answer \<and>
     (if \<not> has_tool_result_evidence turns then 40 \<le> n
      else 80 \<le> n \<and>
        (3 \<le> length (filter (contains answer) required_sections) \<or>
         contains answer ''[E'' \<and> contains answer (utf8 [0x8BC1, 0x636E]) \<and>
           (contains answer (utf8 [0x5EFA, 0x8BAE]) \<or> contains answer (utf8 [0x5904, 0x7406])))))"

fun evidence_lines :: "nat \<Rightarrow> tool_result_message list \<Rightarrow> string" where
  "evidence_lines n [] = []"
| "evidence_lines n (r # rs) =
    (let c = trim_space (trm_content r) in
     if c = [] then evidence_lines n rs
     else ''- [E'' @ nat_to_string (Suc n) @ ''] '' @ [CHR 0x60] @ trm_name r @ [CHR 0x60] @ '': ''
       @ truncate_runes c 520 @ newline @ evidence_lines (Suc n) rs)"

definition fallback_answer :: "string \<Rightarrow> tool_call_turn list \<Rightarrow> string" where
  "fallback_answer question turns =
    (''### ''
    @ utf8 [0x7ED3, 0x8BBA, 0xA, 0x5DF2, 0x5B8C, 0x6210, 0x53EA, 0x8BFB, 0x8BCA, 0x65AD,
      0x53D6, 0x8BC1, 0x3002])
    @ (if has_tool_result_evidence turns then
         (utf8 [0x57FA, 0x4E8E, 0x5DF2, 0x91C7, 0x96C6, 0x8BC1, 0x636E] @ '',''
    @ utf8 [0x5F53, 0x524D, 0x5E94, 0x4F18, 0x5148, 0x56F4, 0x7ED5, 0x4E0B, 0x65B9, 0x5F02,
      0x5E38, 0x3001, 0x5931, 0x8D25, 0x6216, 0x7A7A, 0x7ED3, 0x679C, 0x7EE7, 0x7EED,
      0x6838, 0x5BF9] @ '' Pod ''
    @ utf8 [0x8FD0, 0x884C, 0x72B6, 0x6001, 0x3001, 0x4E8B, 0x4EF6, 0x3001, 0x65E5, 0x5FD7,
      0x4E0E, 0x5173, 0x8054] @ '' Workload'' @ utf8 [0x3002])
       else (utf8 [0x5F53, 0x524D, 0x6CA1, 0x6709, 0x53EF, 0x7528, 0x5DE5, 0x5177, 0x8BC1, 0x636E,
      0x652F, 0x6491, 0x660E, 0x786E, 0x6839, 0x56E0] @ '',''
    @ utf8 [0x65E0, 0x6CD5, 0x7ED9, 0x51FA, 0x786E, 0x5B9A, 0x6027, 0x5224, 0x65AD, 0x3002]))
    @ (if trim_space question \<noteq> [] then (utf8 [0xA, 0xA, 0x7528, 0x6237, 0x95EE, 0x9898] @ '': '') @ trim_space question else [])
    @ (utf8 [0xA, 0xA] @ ''### '' @ utf8 [0x8BC1, 0x636E, 0xA])
    @ (if evidence_lines 0 (all_results turns) = [] then (''- ''
    @ utf8 [0x6682, 0x672A, 0x91C7, 0x96C6, 0x5230, 0x6709, 0x6548, 0x5DE5, 0x5177, 0x8BC1,
      0x636E, 0x3002, 0xA])
       else evidence_lines 0 (all_results turns))
    @ (utf8 [0xA] @ ''### '' @ utf8 [0x5EFA, 0x8BAE, 0xA] @ ''- ''
    @ utf8 [0x5148, 0x6838, 0x5BF9, 0x4E0A, 0x65B9, 0x8BC1, 0x636E, 0x4E2D, 0x51FA, 0x73B0,
      0x7684, 0x5931, 0x8D25, 0x5DE5, 0x5177, 0x3001, 0x5F02, 0x5E38, 0x5B57, 0x6BB5,
      0x3001, 0x4E8B, 0x4EF6, 0x6570, 0x91CF, 0x548C, 0x65E5, 0x5FD7, 0x6458, 0x8981]
    @ '','' @ utf8 [0x907F, 0x514D, 0x53EA, 0x51ED] @ '' Pod ''
    @ utf8 [0x540D, 0x79F0, 0x4E0B, 0x7ED3, 0x8BBA, 0x3002, 0xA] @ ''- ''
    @ utf8 [0x82E5, 0x4E8B, 0x4EF6, 0x4E3A, 0x7A7A, 0x4F46] @ '' Pod ''
    @ utf8 [0x4ECD, 0x5F02, 0x5E38] @ '',''
    @ utf8 [0x7EE7, 0x7EED, 0x8865, 0x5145, 0x8282, 0x70B9, 0x7CFB, 0x7EDF, 0x65E5, 0x5FD7,
      0x3001] @ ''kubelet ''
    @ utf8 [0x65E5, 0x5FD7, 0x3001, 0x5BB9, 0x5668, 0x9000, 0x51FA, 0x7801, 0x548C, 0x5386,
      0x53F2, 0x8D44, 0x6E90, 0x4F7F, 0x7528, 0x6570, 0x636E, 0x8FDB, 0x884C, 0x4EA4,
      0x53C9, 0x786E, 0x8BA4, 0x3002, 0xA] @ ''- ''
    @ utf8 [0x5982, 0x679C, 0x5173, 0x8054] @ '' Workload '' @ utf8 [0x6216]
    @ '' Node '' @ utf8 [0x8BC1, 0x636E, 0x663E, 0x793A, 0x5F02, 0x5E38] @ '',''
    @ utf8 [0x4F18, 0x5148, 0x6CBF] @ '' owner/workload/node ''
    @ utf8 [0x7EF4, 0x5EA6, 0x7EE7, 0x7EED, 0x53EA, 0x8BFB, 0x6392, 0x67E5, 0x3002, 0xA,
      0xA] @ ''### ''
    @ utf8 [0x51C6, 0x786E, 0x6027, 0x63D0, 0x793A, 0xA, 0x8BE5, 0x8BCA, 0x65AD, 0x57FA,
      0x4E8E, 0x5DF2, 0x91C7, 0x96C6, 0x5DE5, 0x5177, 0x6458, 0x8981, 0x751F, 0x6210]
    @ '';'' @ utf8 [0x6839, 0x56E0, 0x4ECD, 0x9700, 0x7ED3, 0x5408, 0x5B8C, 0x6574]
    @ '' Pod describe''
    @ utf8 [0x3001, 0x65E5, 0x5FD7, 0x3001, 0x4E8B, 0x4EF6, 0x548C, 0x8282, 0x70B9, 0x4FA7,
      0x4FE1, 0x606F, 0x786E, 0x8BA4, 0x3002])"

definition final_diagnostic_answer :: "string \<Rightarrow> tool_call_turn list \<Rightarrow> string \<Rightarrow> string \<Rightarrow> string" where
  "final_diagnostic_answer content turns draft ans =
    (let answer = trim_space ans; dr = trim_space draft in
     if \<not> is_generic_closing answer then answer
     else if is_substantive_answer dr turns then dr
     else fallback_answer content turns)"

definition answer_rewrite_instruction :: "string \<Rightarrow> string" where
  "answer_rewrite_instruction previousAnswer =
    (utf8 [0x4E0A, 0x4E00, 0x8F6E, 0x6700, 0x7EC8, 0x8BCA, 0x65AD, 0x6B63, 0x6587, 0x4E0D,
      0x5408, 0x683C] @ '':''
    @ utf8 [0x5185, 0x5BB9, 0x8FC7, 0x77ED, 0x3001, 0x7F3A, 0x5C11, 0x8BC1, 0x636E, 0x5C55,
      0x5F00, 0x6216, 0x53EA, 0x662F, 0x6CDB, 0x5316, 0x6536, 0x5C3E, 0x3002, 0x8BF7,
      0x57FA, 0x4E8E, 0x5DF2, 0x7ECF, 0x91C7, 0x96C6, 0x5230, 0x7684, 0x5DE5, 0x5177,
      0x7ED3, 0x679C, 0x91CD, 0x65B0, 0x8F93, 0x51FA, 0x5B8C, 0x6574, 0x8BCA, 0x65AD]
    @ '',''
    @ utf8 [0x4E0D, 0x8981, 0x53EA, 0x8BF4, 0x22, 0x4EE5, 0x4E0A, 0x5C31, 0x662F, 0x5B8C,
      0x6574, 0x8BCA, 0x65AD, 0x22, 0x3001, 0x22, 0x5DF2, 0x5B8C, 0x6574, 0x8F93,
      0x51FA, 0x4E0A, 0x8FF0, 0x8BCA, 0x65AD, 0x22, 0x6216, 0x22, 0x60A8, 0x7684,
      0x95EE, 0x9898, 0x5DF2, 0x5C31, 0x7EEA, 0x22, 0x3002, 0x5FC5, 0x987B, 0x4F7F,
      0x7528, 0x4E2D, 0x6587] @ '' Markdown '' @ utf8 [0x56DB, 0x6BB5] @ '':### ''
    @ utf8 [0x7ED3, 0x8BBA, 0x3001] @ ''### '' @ utf8 [0x8BC1, 0x636E, 0x3001]
    @ ''### '' @ utf8 [0x5EFA, 0x8BAE, 0x3001] @ ''### ''
    @ utf8 [0x51C6, 0x786E, 0x6027, 0x63D0, 0x793A, 0x3002, 0x8BC1, 0x636E, 0x6BB5, 0x5FC5,
      0x987B, 0x5217, 0x51FA, 0x5177, 0x4F53, 0x5DE5, 0x5177, 0x8FD4, 0x56DE, 0x7684,
      0x4FE1, 0x606F, 0x5E76, 0x4F7F, 0x7528] @ '' [E1]'' @ utf8 [0x3001] @ ''[E2] ''
    @ utf8 [0x7F16, 0x53F7] @ '';''
    @ utf8 [0x8BC1, 0x636E, 0x4E0D, 0x8DB3, 0x65F6, 0x4E5F, 0x8981, 0x660E, 0x786E, 0x5217,
      0x51FA, 0x5DF2, 0x83B7, 0x5F97, 0x7684, 0x8BC1, 0x636E, 0x548C, 0x4E0D, 0x8DB3,
      0x3002, 0x5EFA, 0x8BAE, 0x6BB5, 0x53EA, 0x80FD, 0x7ED9, 0x53EA, 0x8BFB, 0x89C6,
      0x89D2, 0x7684, 0x6392, 0x67E5, 0x5EFA, 0x8BAE] @ '',''
    @ utf8 [0x4E0D, 0x8981, 0x7ED9, 0x4F1A, 0x4FEE, 0x6539, 0x96C6, 0x7FA4, 0x7684, 0x547D,
      0x4EE4, 0x3002])
    @ (if trim_space previousAnswer \<noteq> []
       then (utf8 [0xA, 0x4E0D, 0x5408, 0x683C, 0x56DE, 0x7B54, 0x6458, 0x5F55] @ '':'' @ utf8 [0xA]) @ truncate_runes (trim_space previousAnswer) max_observe_summary_chars
       else [])"

definition final_answer_instruction :: "string \<Rightarrow> string" where
  "final_answer_instruction draft =
    (utf8 [0x73B0, 0x5728, 0x8FDB, 0x5165, 0x6700, 0x7EC8, 0x56DE, 0x7B54, 0x9636, 0x6BB5]
    @ '':'' @ utf8 [0x7981, 0x6B62, 0x518D, 0x8C03, 0x7528, 0x5DE5, 0x5177] @ '',''
    @ utf8 [0x76F4, 0x63A5, 0x57FA, 0x4E8E, 0x5DF2, 0x91C7, 0x96C6, 0x5DE5, 0x5177, 0x7ED3,
      0x679C, 0x8F93, 0x51FA, 0x5B8C, 0x6574, 0x8BCA, 0x65AD, 0x3002, 0x5FC5, 0x987B,
      0x7528, 0x4E2D, 0x6587] @ '' Markdown '' @ utf8 [0x56DB, 0x6BB5] @ '':### ''
    @ utf8 [0x7ED3, 0x8BBA, 0x3001] @ ''### '' @ utf8 [0x8BC1, 0x636E, 0x3001]
    @ ''### '' @ utf8 [0x5EFA, 0x8BAE, 0x3001] @ ''### ''
    @ utf8 [0x51C6, 0x786E, 0x6027, 0x63D0, 0x793A, 0x3002, 0x8BC1, 0x636E, 0x6BB5, 0x5FC5,
      0x987B, 0x5C55, 0x5F00, 0x5177, 0x4F53, 0x8BC1, 0x636E, 0x5E76, 0x4F7F, 0x7528]
    @ '' [E1]'' @ utf8 [0x3001] @ ''[E2] '' @ utf8 [0x7F16, 0x53F7] @ '';''
    @ utf8 [0x4E0D, 0x8981, 0x53EA, 0x8BF4, 0x22, 0x4EE5, 0x4E0A, 0x5C31, 0x662F, 0x5B8C,
      0x6574, 0x8BCA, 0x65AD, 0x22, 0x3001, 0x22, 0x5DF2, 0x5B8C, 0x6574, 0x8F93,
      0x51FA, 0x4E0A, 0x8FF0, 0x8BCA, 0x65AD, 0x22, 0x3001, 0x22, 0x60A8, 0x7684,
      0x95EE, 0x9898, 0x5DF2, 0x5C31, 0x7EEA, 0x22, 0x6216, 0x8981, 0x6C42, 0x7528,
      0x6237, 0x518D, 0x63D0, 0x4F9B, 0x4FE1, 0x606F, 0x540E, 0x624D, 0x5206, 0x6790,
      0x3002, 0x5EFA, 0x8BAE, 0x6BB5, 0x4FDD, 0x6301, 0x53EA, 0x8BFB, 0x89C6, 0x89D2]
    @ '',''
    @ utf8 [0x4E0D, 0x8981, 0x7ED9, 0x4F1A, 0x4FEE, 0x6539, 0x96C6, 0x7FA4, 0x7684, 0x547D,
      0x4EE4, 0x3002])
    @ (if trim_space draft \<noteq> []
       then (utf8 [0xA, 0x53EF, 0x53C2, 0x8003, 0x4F46, 0x5FC5, 0x987B, 0x8865, 0x5168, 0x683C,
      0x5F0F, 0x548C, 0x8BC1, 0x636E, 0x5C55, 0x5F00, 0x7684, 0x5019, 0x9009, 0x7ED3,
      0x8BBA] @ '':'' @ utf8 [0xA]) @ truncate_runes draft 2000
       else [])"

section \<open>Plans\<close>

record run_plan =
  rp_hypotheses :: "string list"
  rp_steps :: "string list"

abbreviation max_plan_chars :: nat where "max_plan_chars \<equiv> 1200"

definition format_plan :: "run_plan \<Rightarrow> string" where
  "format_plan plan =
    (let hyps = compact_plan_lines (rp_hypotheses plan) 3; steps = compact_plan_lines (rp_steps plan) 5 in
     if hyps = [] \<and> steps = [] then []
     else truncate_runes
       ((utf8 [0x8BCA, 0x65AD, 0x8BA1, 0x5212] @ ''(''
    @ utf8 [0x5F00, 0x59CB, 0x53D6, 0x8BC1, 0x524D, 0x751F, 0x6210] @ '',''
    @ utf8 [0x53EF, 0x968F, 0x8BC1, 0x636E, 0x4FEE, 0x8BA2] @ '',''
    @ utf8 [0x4E0D, 0x5FC5, 0x62D8, 0x6CE5] @ ''):'')
        @ (if hyps \<noteq> [] then (utf8 [0xA, 0x5047, 0x8BBE] @ '':'') @ bullets hyps else [])
        @ (if steps \<noteq> [] then (utf8 [0xA, 0x9A8C, 0x8BC1, 0x6B65, 0x9AA4] @ '':'') @ numbered_from 1 steps else []))
       max_plan_chars)"

definition format_plan_steps :: "run_plan \<Rightarrow> string" where
  "format_plan_steps plan =
    (let steps = compact_plan_lines (rp_steps plan) 5 in
     if steps = [] then []
     else truncate_runes
       ((utf8 [0x9A8C, 0x8BC1, 0x6B65, 0x9AA4] @ ''(''
    @ utf8 [0x5F00, 0x59CB, 0x53D6, 0x8BC1, 0x524D, 0x751F, 0x6210] @ '',''
    @ utf8 [0x53EF, 0x968F, 0x8BC1, 0x636E, 0x4FEE, 0x8BA2] @ '',''
    @ utf8 [0x4E0D, 0x5FC5, 0x62D8, 0x6CE5] @ ''):'') @ numbered_from 1 steps)
       max_plan_chars)"

definition tool_catalog_line :: "tool_definition list \<Rightarrow> string" where
  "tool_catalog_line tools =
    (if tools = [] then (''('' @ utf8 [0x65E0, 0x53EF, 0x7528, 0x5DE5, 0x5177] @ '')'') else join '', '' (map td_id tools))"

record diagnostic_playbook =
  pb_name :: string
  pb_keywords :: "string list"
  pb_hypotheses :: "string list"
  pb_checks :: "string list"

definition contains_any :: "string \<Rightarrow> string list \<Rightarrow> bool" where
  "contains_any value keywords \<longleftrightarrow> (\<exists>k \<in> set keywords. contains value (to_lower k))"

text \<open>\<open>playbooks\<close> is the table \<^verbatim>\<open>builtinPlaybooks\<close>.\<close>

definition match_playbook :: "diagnostic_playbook list \<Rightarrow> string \<Rightarrow> agent_scope \<Rightarrow> diagnostic_playbook option" where
  "match_playbook playbooks message scope =
    (let corpus = to_lower (join '' '' [message, sc_kind scope, sc_name scope]) in
     if trim_space corpus = [] then None
     else find (\<lambda>p. contains_any corpus (pb_keywords p)) playbooks)"

definition playbook_prior_section :: "diagnostic_playbook option \<Rightarrow> string" where
  "playbook_prior_section pb = (case pb of None \<Rightarrow> [] | Some p \<Rightarrow>
     truncate_runes
       ((utf8 [0x8BE5, 0x7C7B, 0x6545, 0x969C, 0x7684, 0x5E38, 0x89C1, 0x6839, 0x56E0, 0x4E0E,
      0x6392, 0x67E5, 0x8DEF, 0x5F84] @ ''('' @ utf8 [0x9886, 0x57DF, 0x5148, 0x9A8C]
    @ '','' @ utf8 [0x4F9B, 0x53C2, 0x8003] @ '';''
    @ utf8 [0x4ECD, 0x987B, 0x4EE5, 0x672C, 0x6B21, 0x91C7, 0x96C6, 0x7684, 0x8BC1, 0x636E,
      0x4E3A, 0x51C6] @ ''):'')
        @ (if pb_hypotheses p \<noteq> [] then (utf8 [0xA, 0x5E38, 0x89C1, 0x6839, 0x56E0] @ '':'') @ bullets (pb_hypotheses p) else [])
        @ (if pb_checks p \<noteq> [] then (utf8 [0xA, 0x5EFA, 0x8BAE, 0x6392, 0x67E5] @ '':'') @ bullets (pb_checks p) else []))
       800)"

end
