(* ===== verification/Ledger.thy ===== *)
theory Ledger
  imports Agent_Text Complex_Main
begin

text \<open>
  The hypothesis ledger of a run (\<^verbatim>\<open>core/hypothesis.go\<close>). A \<^verbatim>\<open>float64\<close> confidence is
  an exact rational: the code adds, compares and clamps confidences, and the model leaves out
  the rounding of those operations. Writing through the pointer \<^verbatim>\<open>&ledger[pos]\<close> is a list
  update at a position that exists.
\<close>

datatype hypothesis_status = HypPending | HypConfirmed | HypRuledOut

record hypothesis_item =
  hy_id :: string
  hy_text :: string
  hy_status :: hypothesis_status
  hy_confidence :: rat
  hy_evidence :: "string list"

type_synonym hypothesis_ledger = "hypothesis_item list"

record ledger_update =
  lu_id :: string
  lu_status :: string
  lu_confidence :: "rat option"
  lu_evidence :: "string list"

abbreviation max_ledger_hypotheses :: nat where "max_ledger_hypotheses \<equiv> 5"
abbreviation max_ledger_evidence_refs :: nat where "max_ledger_evidence_refs \<equiv> 4"

definition resolved_count :: "hypothesis_ledger \<Rightarrow> nat" where
  "resolved_count l = length (filter (\<lambda>h. hy_status h = HypConfirmed \<or> hy_status h = HypRuledOut) l)"

definition new_hypothesis_id :: "nat \<Rightarrow> string" where
  "new_hypothesis_id i = ''H'' @ nat_to_string (Suc i)"

definition normalize_status :: "string \<Rightarrow> hypothesis_status option" where
  "normalize_status v =
    (let s = to_lower (trim_space v) in
     if s = ''pending'' then Some HypPending
     else if s \<in> {''confirmed'', ''confirm'', ''supported''} then Some HypConfirmed
     else if s \<in> {''ruled_out'', ''ruledout'', ''excluded'', ''rejected''} then Some HypRuledOut
     else None)"

definition clamp_confidence :: "rat \<Rightarrow> rat" where
  "clamp_confidence v = (if v < 0 then 0 else if v > 1 then 1 else v)"

text \<open>The closure \<^verbatim>\<open>add\<close>: the ledger and the lower-cased texts seen.\<close>

definition seed_add :: "hypothesis_ledger \<times> string list \<Rightarrow> string \<Rightarrow> hypothesis_ledger \<times> string list" where
  "seed_add st raw =
    (case st of (ledger, seen) \<Rightarrow>
      (let text = compact_line raw; key = to_lower text in
       if text = [] \<or> key \<in> set seen \<or> length ledger \<ge> max_ledger_hypotheses then (ledger, seen)
       else (ledger @ [\<lparr>hy_id = new_hypothesis_id (length ledger), hy_text = text,
                        hy_status = HypPending, hy_confidence = 1 / 2, hy_evidence = []\<rparr>],
             seen @ [key])))"

definition seed_ledger :: "string list \<Rightarrow> string list \<Rightarrow> hypothesis_ledger" where
  "seed_ledger plan playbook = fst (foldl seed_add ([], []) (plan @ playbook))"

text \<open>The second loop of \<^verbatim>\<open>mergeEvidenceRefs\<close>: the references so far, and whether any is new.\<close>

fun merge_refs_acc :: "string list \<Rightarrow> bool \<Rightarrow> string list \<Rightarrow> string list \<times> bool" where
  "merge_refs_acc out added [] = (out, added)"
| "merge_refs_acc out added (r # rs) =
    (let x = trim_space r in
     if x = [] \<or> x \<in> set out then merge_refs_acc out added rs
     else if length out \<ge> max_ledger_evidence_refs then (out, added)
     else merge_refs_acc (out @ [x]) True rs)"

definition merge_evidence_refs :: "string list \<Rightarrow> string list \<Rightarrow> string list option" where
  "merge_evidence_refs existing incoming =
    (if incoming = [] then None
     else case merge_refs_acc (filter (\<lambda>x. x \<noteq> []) existing) False incoming of
       (out, added) \<Rightarrow> if added then Some out else None)"

definition update_status :: "ledger_update \<Rightarrow> hypothesis_item \<Rightarrow> hypothesis_item \<times> bool" where
  "update_status u it = (case normalize_status (lu_status u) of
     Some s \<Rightarrow> if s \<noteq> hy_status it then (it\<lparr>hy_status := s\<rparr>, True) else (it, False)
   | None \<Rightarrow> (it, False))"

definition update_confidence :: "ledger_update \<Rightarrow> hypothesis_item \<Rightarrow> hypothesis_item \<times> bool" where
  "update_confidence u it = (case lu_confidence u of
     Some c \<Rightarrow> if clamp_confidence c \<noteq> hy_confidence it
       then (it\<lparr>hy_confidence := clamp_confidence c\<rparr>, True) else (it, False)
   | None \<Rightarrow> (it, False))"

definition update_evidence :: "ledger_update \<Rightarrow> hypothesis_item \<Rightarrow> hypothesis_item \<times> bool" where
  "update_evidence u it = (case merge_evidence_refs (hy_evidence it) (lu_evidence u) of
     Some refs \<Rightarrow> (it\<lparr>hy_evidence := refs\<rparr>, True) | None \<Rightarrow> (it, False))"

definition update_item :: "ledger_update \<Rightarrow> hypothesis_item \<Rightarrow> hypothesis_item \<times> bool" where
  "update_item u it0 =
    (case update_status u it0 of (it1, c1) \<Rightarrow>
     case update_confidence u it1 of (it2, c2) \<Rightarrow>
     case update_evidence u it2 of (it3, c3) \<Rightarrow> (it3, c1 \<or> c2 \<or> c3))"

text \<open>The map from IDs to positions; a later item of the same ID would win.\<close>

definition ledger_index :: "hypothesis_ledger \<Rightarrow> string \<Rightarrow> nat option" where
  "ledger_index l = map_of (rev (map (\<lambda>(i, h). (hy_id h, i)) (enumerate 0 l)))"

fun apply_updates_loop ::
  "(string \<Rightarrow> nat option) \<Rightarrow> hypothesis_ledger \<Rightarrow> bool \<Rightarrow> ledger_update list \<Rightarrow> hypothesis_ledger \<times> bool"
where
  "apply_updates_loop index l changed [] = (l, changed)"
| "apply_updates_loop index l changed (u # us) =
    (case index (trim_space (lu_id u)) of
       None \<Rightarrow> apply_updates_loop index l changed us
     | Some pos \<Rightarrow>
         (case update_item u (l ! pos) of (it, c) \<Rightarrow>
            apply_updates_loop index (l[pos := it]) (changed \<or> c) us))"

definition apply_ledger_updates :: "hypothesis_ledger \<Rightarrow> ledger_update list \<Rightarrow> hypothesis_ledger \<times> bool" where
  "apply_ledger_updates l us =
    (if l = [] \<or> us = [] then (l, False) else apply_updates_loop (ledger_index l) l False us)"

fun status_label :: "hypothesis_status \<Rightarrow> string" where
  "status_label HypConfirmed = (utf8 [0x5DF2, 0x786E, 0x8BA4])"
| "status_label HypRuledOut = (utf8 [0x5DF2, 0x6392, 0x9664])"
| "status_label HypPending = (utf8 [0x5F85, 0x9A8C, 0x8BC1])"

text \<open>\<open>sort_desc\<close> is the reverse sort of the confidences.\<close>

definition differential_guidance :: "hypothesis_ledger \<Rightarrow> string" where
  "differential_guidance l =
    (let pending = filter (\<lambda>h. hy_status h = HypPending) l;
         cs = rev (sort (map hy_confidence pending))
     in if length cs < 2 then []
        else if cs ! 0 - cs ! 1 > 1 / 5 then []
        else (utf8 [0x5F53, 0x524D, 0x6709, 0x591A, 0x4E2A, 0x52BF, 0x5747, 0x529B, 0x654C, 0x7684,
      0x672A, 0x51B3, 0x5047, 0x8BBE] @ ''('')
          @ join (utf8 [0x3001]) (map hy_id pending)
          @ (''),''
    @ utf8 [0x8BF7, 0x4F18, 0x5148, 0x91C7, 0x96C6, 0x80FD, 0x533A, 0x5206, 0x5B83, 0x4EEC,
      0x7684, 0x5173, 0x952E, 0x8BC1, 0x636E] @ '',''
    @ utf8 [0x800C, 0x975E, 0x7EE7, 0x7EED, 0x6DF1, 0x6316, 0x5355, 0x4E00, 0x65B9, 0x5411,
      0x3002]))"

text \<open>\<^verbatim>\<open>%.0f\<close>: the nearest integer, ties to even.\<close>

definition format_percent :: "rat \<Rightarrow> string" where
  "format_percent c =
    (let x = c * 100; f = \<lfloor>x\<rfloor>; d = x - of_int f;
         n = (if d < 1 / 2 then f else if d > 1 / 2 then f + 1 else if even f then f else f + 1)
     in itoa n @ ''%'')"

definition format_item :: "hypothesis_item \<Rightarrow> string" where
  "format_item h = newline @ ''- '' @ hy_id h @ '' ['' @ status_label (hy_status h)
    @ ('' '' @ utf8 [0x7F6E, 0x4FE1, 0x5EA6]) @ format_percent (hy_confidence h) @ ''] '' @ hy_text h
    @ (if hy_evidence h \<noteq> [] then (''('' @ utf8 [0x8BC1, 0x636E] @ '':'') @ join '','' (hy_evidence h) @ ('')'') else [])"

definition format_ledger :: "hypothesis_ledger \<Rightarrow> string" where
  "format_ledger l =
    (if l = [] then []
     else truncate_runes
       ((utf8 [0x5047, 0x8BBE, 0x53F0, 0x8D26] @ ''(''
    @ utf8 [0x9010, 0x6B65, 0x53D6, 0x8BC1, 0x4EE5, 0x786E, 0x8BA4, 0x6216, 0x6392, 0x9664]
    @ '';''
    @ utf8 [0x8BF7, 0x56F4, 0x7ED5, 0x672A, 0x51B3, 0x5047, 0x8BBE, 0x91C7, 0x96C6, 0x8BC1,
      0x636E] @ '',''
    @ utf8 [0x4E0D, 0x8981, 0x91CD, 0x590D, 0x8FFD, 0x67E5, 0x5DF2, 0x6392, 0x9664, 0x7684,
      0x5047, 0x8BBE] @ ''):'')
        @ concat (map format_item l)
        @ (if differential_guidance l \<noteq> [] then newline @ differential_guidance l else []))
       1200)"

section \<open>The ledger's invariant\<close>

definition item_ok :: "hypothesis_item \<Rightarrow> bool" where
  "item_ok h \<longleftrightarrow> 0 \<le> hy_confidence h \<and> hy_confidence h \<le> 1 \<and> distinct (hy_evidence h) \<and>
    [] \<notin> set (hy_evidence h) \<and> length (hy_evidence h) \<le> max_ledger_evidence_refs"

definition ledger_ok :: "hypothesis_ledger \<Rightarrow> bool" where
  "ledger_ok l \<longleftrightarrow> length l \<le> max_ledger_hypotheses \<and> (\<forall>h \<in> set l. item_ok h) \<and>
    map hy_id l = map new_hypothesis_id [0..<length l] \<and>
    distinct (map (\<lambda>h. to_lower (hy_text h)) l) \<and> (\<forall>h \<in> set l. hy_text h \<noteq> [])"

lemma ledger_ok_Nil [simp]: "ledger_ok []"
  by (simp add: ledger_ok_def)

lemma seed_add_ok:
  assumes "ledger_ok l" "seen = map (\<lambda>h. to_lower (hy_text h)) l" "seed_add (l, seen) raw = (l', seen')"
  shows "ledger_ok l' \<and> seen' = map (\<lambda>h. to_lower (hy_text h)) l'"
proof (cases "l' = l")
  case True
  with assms show ?thesis by (auto simp: seed_add_def Let_def split: if_splits)
next
  case False
  with assms(2,3) have "compact_line raw \<noteq> []" "to_lower (compact_line raw) \<notin> set seen" "length l < 5"
    and l': "l' = l @ [\<lparr>hy_id = new_hypothesis_id (length l), hy_text = compact_line raw,
        hy_status = HypPending, hy_confidence = 1 / 2, hy_evidence = []\<rparr>]"
    "seen' = seen @ [to_lower (compact_line raw)]"
    by (auto simp: seed_add_def Let_def split: if_splits)
  with assms(1,2) show ?thesis
    by (auto simp: ledger_ok_def item_ok_def)
qed

lemma seed_fold_ok:
  "ledger_ok l \<Longrightarrow> seen = map (\<lambda>h. to_lower (hy_text h)) l \<Longrightarrow> ledger_ok (fst (foldl seed_add (l, seen) raws))"
proof (induction raws arbitrary: l seen)
  case (Cons raw raws)
  obtain l' seen' where "seed_add (l, seen) raw = (l', seen')" by fastforce
  with Cons seed_add_ok [OF Cons.prems this] show ?case by simp
qed simp

lemma ledger_ok_seed [inv_intros]: "ledger_ok (seed_ledger plan playbook)"
  using seed_fold_ok [of "[]" "[]" "plan @ playbook"] by (simp add: seed_ledger_def)

lemma clamp_range: "0 \<le> clamp_confidence c \<and> clamp_confidence c \<le> 1"
  by (simp add: clamp_confidence_def)

lemma merge_refs_acc_ok:
  "merge_refs_acc out added rs = (out', added') \<Longrightarrow> distinct out \<Longrightarrow> [] \<notin> set out \<Longrightarrow>
    length out \<le> max_ledger_evidence_refs \<Longrightarrow>
    distinct out' \<and> [] \<notin> set out' \<and> length out' \<le> max_ledger_evidence_refs \<and> prefix out out'"
proof (induction out added rs rule: merge_refs_acc.induct)
  case (2 out added r rs)
  then show ?case
    by (auto simp: Let_def split: if_splits dest: append_prefixD)
qed simp

lemma item_ok_update:
  assumes "item_ok h" "update_item u h = (h', c)"
  shows "item_ok h' \<and> hy_id h' = hy_id h \<and> hy_text h' = hy_text h \<and>
    prefix (hy_evidence h) (hy_evidence h') \<and> (\<not> c \<longrightarrow> h' = h)"
proof -
  obtain h1 c1 where u1: "update_status u h = (h1, c1)" by fastforce
  obtain h2 c2 where u2: "update_confidence u h1 = (h2, c2)" by fastforce
  obtain h3 c3 where u3: "update_evidence u h2 = (h3, c3)" by fastforce
  have h': "h' = h3" "c = (c1 \<or> c2 \<or> c3)"
    using assms(2) u1 u2 u3 by (auto simp: update_item_def)
  have h1: "item_ok h1 \<and> hy_id h1 = hy_id h \<and> hy_text h1 = hy_text h \<and> hy_evidence h1 = hy_evidence h \<and> (\<not> c1 \<longrightarrow> h1 = h)"
    using u1 assms(1) by (auto simp: update_status_def item_ok_def split: option.splits if_splits)
  have h2: "item_ok h2 \<and> hy_id h2 = hy_id h1 \<and> hy_text h2 = hy_text h1 \<and> hy_evidence h2 = hy_evidence h1 \<and> (\<not> c2 \<longrightarrow> h2 = h1)"
    using u2 h1 clamp_range by (auto simp: update_confidence_def item_ok_def split: option.splits if_splits)
  have "filter (\<lambda>x. x \<noteq> []) (hy_evidence h2) = hy_evidence h2"
    using h2 by (auto simp: item_ok_def filter_id_conv)
  then have h3: "item_ok h3 \<and> hy_id h3 = hy_id h2 \<and> hy_text h3 = hy_text h2 \<and>
      prefix (hy_evidence h2) (hy_evidence h3) \<and> (\<not> c3 \<longrightarrow> h3 = h2)"
    using u3 h2 merge_refs_acc_ok [of "hy_evidence h2" False "lu_evidence u"]
    by (auto simp: update_evidence_def merge_evidence_refs_def item_ok_def split: option.splits if_splits prod.splits)
  show ?thesis using h' h1 h2 h3 by auto
qed

lemma ledger_index_Some: "ledger_index l i = Some pos \<Longrightarrow> pos < length l \<and> hy_id (l ! pos) = i"
  by (auto simp: ledger_index_def in_set_enumerate_eq dest!: map_of_SomeD)

definition same_hypotheses :: "hypothesis_ledger \<Rightarrow> hypothesis_ledger \<Rightarrow> bool" where
  "same_hypotheses l l' \<longleftrightarrow> map hy_id l' = map hy_id l \<and> map hy_text l' = map hy_text l \<and>
    list_all2 (\<lambda>h h'. prefix (hy_evidence h) (hy_evidence h')) l l'"

lemma same_hypotheses_refl [simp]: "same_hypotheses l l"
  by (simp add: same_hypotheses_def list_all2_refl)

lemma same_hypotheses_trans:
  assumes "same_hypotheses a b" "same_hypotheses b c"
  shows "same_hypotheses a c"
proof -
  have "list_all2 (\<lambda>h h'. prefix (hy_evidence h) (hy_evidence h')) a c"
    by (rule list_all2_trans [where ?bs = b and ?P1.0 = "\<lambda>h h'. prefix (hy_evidence h) (hy_evidence h')"
          and ?P2.0 = "\<lambda>h h'. prefix (hy_evidence h) (hy_evidence h')"])
      (use assms in \<open>auto simp: same_hypotheses_def\<close>)
  with assms show ?thesis by (simp add: same_hypotheses_def)
qed

lemma apply_updates_loop_mono:
  "apply_updates_loop index l changed us = (l', False) \<Longrightarrow> \<not> changed"
  by (induction us arbitrary: l changed) (fastforce split: option.splits prod.splits)+

lemma apply_updates_loop_ok:
  assumes "apply_updates_loop (ledger_index l0) l changed us = (l', changed')"
    and "\<forall>h \<in> set l. item_ok h" "length l = length l0"
  shows "(\<forall>h \<in> set l'. item_ok h) \<and> same_hypotheses l l' \<and> (\<not> changed' \<longrightarrow> l' = l)"
  using assms
proof (induction "ledger_index l0" l changed us rule: apply_updates_loop.induct)
  case (2 l changed u us)
  show ?case
  proof (cases "ledger_index l0 (trim_space (lu_id u))")
    case None
    with 2 show ?thesis by simp
  next
    case (Some pos)
    then have pos: "pos < length l"
      using ledger_index_Some 2(5) by metis
    obtain it c where it: "update_item u (l ! pos) = (it, c)" by fastforce
    have item: "item_ok it \<and> hy_id it = hy_id (l ! pos) \<and> hy_text it = hy_text (l ! pos) \<and>
        prefix (hy_evidence (l ! pos)) (hy_evidence it) \<and> (\<not> c \<longrightarrow> it = l ! pos)"
      using item_ok_update [OF _ it] 2(4) pos by auto
    have run: "apply_updates_loop (ledger_index l0) (l[pos := it]) (changed \<or> c) us = (l', changed')"
      using 2(3) Some it by simp
    have "same_hypotheses l (l[pos := it])"
      using item pos
      by (auto simp: same_hypotheses_def map_update list_all2_conv_all_nth nth_list_update
          intro!: nth_equalityI)
    moreover have "\<forall>h \<in> set (l[pos := it]). item_ok h"
      using 2(4) item set_update_subset_insert [of l pos it] by auto
    moreover from this have "(\<forall>h \<in> set l'. item_ok h) \<and> same_hypotheses (l[pos := it]) l' \<and>
        (\<not> changed' \<longrightarrow> l' = l[pos := it])"
      using 2(2) [OF Some it [symmetric] run] 2(5) by simp
    moreover have "\<not> changed' \<Longrightarrow> \<not> c"
      using run apply_updates_loop_mono by (metis (full_types))
    ultimately show ?thesis
      using item same_hypotheses_trans by (metis list_update_id)
  qed
qed simp

lemma ledger_ok_updates [inv_intros]:
  assumes "ledger_ok l"
  shows "ledger_ok (fst (apply_ledger_updates l us)) \<and> same_hypotheses l (fst (apply_ledger_updates l us))"
proof (cases "l = [] \<or> us = []")
  case True
  with assms show ?thesis by (auto simp: apply_ledger_updates_def)
next
  case False
  obtain l' ch where run: "apply_updates_loop (ledger_index l) l False us = (l', ch)" by fastforce
  have r: "(\<forall>h \<in> set l'. item_ok h) \<and> same_hypotheses l l'"
    using apply_updates_loop_ok [OF run] assms by (simp add: ledger_ok_def)
  then have len: "length l' = length l"
    by (auto simp: same_hypotheses_def dest: map_eq_imp_length_eq)
  have texts: "map (\<lambda>h. f (hy_text h)) l' = map (\<lambda>h. f (hy_text h)) l" for f :: "string \<Rightarrow> string"
    using r map_map [of f hy_text l'] map_map [of f hy_text l]
    by (simp add: same_hypotheses_def o_def)
  have "hy_text ` set l' = hy_text ` set l"
    using r by (metis same_hypotheses_def list.set_map)
  then have "[] \<notin> hy_text ` set l'"
    using assms by (auto simp: ledger_ok_def)
  then have nonempty: "\<forall>h \<in> set l'. hy_text h \<noteq> []" by force
  have ids: "map hy_id l' = map new_hypothesis_id [0..<length l']"
    using r assms len by (simp add: same_hypotheses_def ledger_ok_def)
  have "distinct (map (\<lambda>h. to_lower (hy_text h)) l')"
    using assms texts [of to_lower] by (simp add: ledger_ok_def)
  with ids nonempty len assms r have "ledger_ok l'"
    by (simp add: ledger_ok_def)
  with r run False show ?thesis by (simp add: apply_ledger_updates_def)
qed

text \<open>The ledger after any number of rounds of updates.\<close>

definition ledger_rounds :: "hypothesis_ledger \<Rightarrow> ledger_update list list \<Rightarrow> hypothesis_ledger" where
  "ledger_rounds l0 rounds = foldl (\<lambda>l us. fst (apply_ledger_updates l us)) l0 rounds"

lemma ledger_rounds_ok:
  "ledger_ok l \<Longrightarrow> ledger_ok (ledger_rounds l rounds) \<and> same_hypotheses l (ledger_rounds l rounds)"
proof (induction rounds arbitrary: l)
  case (Cons us rounds)
  have "ledger_ok (fst (apply_ledger_updates l us)) \<and> same_hypotheses l (fst (apply_ledger_updates l us))"
    by (rule ledger_ok_updates [OF Cons.prems])
  moreover from this have "ledger_ok (ledger_rounds l (us # rounds)) \<and>
      same_hypotheses (fst (apply_ledger_updates l us)) (ledger_rounds l (us # rounds))"
    using Cons.IH by (simp add: ledger_rounds_def)
  ultimately show ?case using same_hypotheses_trans by blast
qed (simp add: ledger_rounds_def)

section \<open>Properties\<close>

text \<open>
  C20: The ledger only ever annotates the hypotheses it was seeded with. Whatever updates the
  model sends, in any number of rounds, at most five hypotheses are tracked, with the IDs H1, H2
  and so on and pairwise different texts; no update adds, drops or renames one, confidences stay
  between 0 and 1, and evidence references are only added, without duplicates, up to four.
\<close>

theorem ledger_annotates_only:
  "ledger_ok (ledger_rounds (seed_ledger plan playbook) rounds) \<and>
   same_hypotheses (seed_ledger plan playbook) (ledger_rounds (seed_ledger plan playbook) rounds)"
  by (rule ledger_rounds_ok [OF ledger_ok_seed])

end
