(* ===== verification/Reflection.thy ===== *)
theory Reflection
  imports Ledger
begin

text \<open>
  The self-check of an answer by a panel of critics (\<^verbatim>\<open>core/reflection.go\<close>): the verdict
  of one juror, their aggregation, the guidance fed back and how many extra steps it may cost.
  What a juror's model call answers is an argument; \<^verbatim>\<open>float64\<close> is an exact rational.
\<close>

datatype verdict_level = Supported | Partially | Unsupported

record reflection_verdict =
  rv_verdict :: string
  rv_confidence :: rat
  rv_supported :: "bool option"
  rv_gaps :: "string list"
  rv_follow_up :: string

definition verdict_level_of :: "reflection_verdict \<Rightarrow> verdict_level" where
  "verdict_level_of v =
    (let s = to_lower (trim_space (rv_verdict v)) in
     if s = ''supported'' then Supported
     else if s \<in> {''partially'', ''partial'', ''partially_supported''} then Partially
     else if s \<in> {''unsupported'', ''not_supported''} then Unsupported
     else if rv_supported v = Some False then Unsupported
     else Supported)"

record panel_verdict =
  pv_level :: verdict_level
  pv_confidence :: rat
  pv_gaps :: "string list"
  pv_follow_up :: string
  pv_jurors :: nat

abbreviation low_confidence_threshold :: rat where "low_confidence_threshold \<equiv> 1 / 2"
abbreviation max_reflect_gaps :: nat where "max_reflect_gaps \<equiv> 3"

definition aggregate_panel :: "reflection_verdict list \<Rightarrow> panel_verdict" where
  "aggregate_panel vs =
    (let supportedVotes = length (filter (\<lambda>v. verdict_level_of v = Supported) vs);
         unsupportedVotes = length (filter (\<lambda>v. verdict_level_of v = Unsupported) vs);
         gaps = concat (map rv_gaps (filter (\<lambda>v. verdict_level_of v \<noteq> Supported) vs));
         confs = map (\<lambda>v. clamp_confidence (rv_confidence v)) (filter (\<lambda>v. rv_confidence v > 0) vs);
         followUps = filter (\<lambda>f. f \<noteq> []) (map (\<lambda>v. compact_line (rv_follow_up v)) vs);
         confidence = (if confs = [] then 0 else sum_list confs / rat_of_nat (length confs));
         level =
           (if supportedVotes \<le> length vs - supportedVotes then
              (if unsupportedVotes > 0 then Unsupported else Partially)
            else if confs \<noteq> [] \<and> confidence < low_confidence_threshold then Partially
            else Supported)
     in \<lparr>pv_level = level, pv_confidence = confidence,
         pv_gaps = dedup_compact_lines gaps max_reflect_gaps,
         pv_follow_up = first_non_blank followUps, pv_jurors = length vs\<rparr>)"

text \<open>
  \<^verbatim>\<open>reflectAnswerPanel\<close>: one answer (or none) and a token count per juror. Without any
  answer the error is the context's when the client is gone.
\<close>

definition reflect_panel ::
  "bool \<Rightarrow> (reflection_verdict option \<times> nat) list \<Rightarrow> go_error + panel_verdict" where
  "reflect_panel gone answers =
    (let valid = somes (map fst answers) in
     if valid = [] then Inl (if gone then ErrCanceled else ErrMsg (''LLM '' @ utf8 [0x8F93, 0x51FA, 0x4E0D, 0x662F, 0x5408, 0x6CD5] @ '' JSON''))
     else Inr (aggregate_panel valid))"

definition panel_tokens :: "(reflection_verdict option \<times> nat) list \<Rightarrow> nat" where
  "panel_tokens answers = sum_list (map snd answers)"

definition reflection_guidance :: "panel_verdict \<Rightarrow> string" where
  "reflection_guidance v =
    (let gaps = compact_plan_lines (pv_gaps v) max_reflect_gaps; followUp = compact_line (pv_follow_up v) in
     if gaps = [] \<and> followUp = [] then []
     else
       (if pv_level v = Partially then
          (utf8 [0x53CD, 0x601D, 0x81EA, 0x68C0, 0x5224, 0x5B9A, 0x5F53, 0x524D, 0x7ED3, 0x8BBA,
      0x4E3B, 0x4F53, 0x6210, 0x7ACB] @ '',''
    @ utf8 [0x4F46, 0x4E2A, 0x522B, 0x65AD, 0x8A00, 0x7F3A, 0x5C11, 0x8BC1, 0x636E, 0x3002,
      0x8BF7, 0x4EC5, 0x9488, 0x5BF9, 0x4E0B, 0x5217, 0x7F3A, 0x53E3, 0x8865, 0x5145,
      0x53D6, 0x8BC1] @ '',''
    @ utf8 [0x4E0D, 0x8981, 0x63A8, 0x7FFB, 0x6216, 0x91CD, 0x505A, 0x5DF2, 0x88AB, 0x8BC1,
      0x636E, 0x652F, 0x6491, 0x7684, 0x90E8, 0x5206, 0x3002])
        else (utf8 [0x53CD, 0x601D, 0x81EA, 0x68C0, 0x53D1, 0x73B0, 0x5F53, 0x524D, 0x7ED3, 0x8BBA,
      0x672A, 0x88AB, 0x8BC1, 0x636E, 0x5145, 0x5206, 0x652F, 0x6301, 0x3002]))
       @ (if gaps \<noteq> [] then (utf8 [0x8BC1, 0x636E, 0x7F3A, 0x53E3] @ '':'') @ bullets gaps @ newline else [])
       @ (if followUp \<noteq> [] then (utf8 [0x8BF7, 0x4F18, 0x5148, 0x8865, 0x5145, 0x53D6, 0x8BC1] @ '':'') @ followUp @ (utf8 [0x3002]) else [])
       @ (utf8 [0x82E5, 0x786E, 0x5B9E, 0x65E0, 0x6CD5, 0x83B7, 0x5F97, 0x66F4, 0x591A, 0x8BC1,
      0x636E] @ '',''
    @ utf8 [0x8BF7, 0x5728, 0x6700, 0x7EC8, 0x7ED3, 0x8BBA, 0x4E2D, 0x660E, 0x786E, 0x8BF4,
      0x660E, 0x4E0D, 0x786E, 0x5B9A, 0x6027, 0x3002]))"

definition supplement_steps :: "rat \<Rightarrow> int \<Rightarrow> int" where
  "supplement_steps confidence m =
    (if m \<le> 1 then m
     else if confidence \<le> 0 then m
     else if confidence \<ge> 1 then 1
     else
       (let steps = 1 + \<lfloor>(1 - confidence) * of_int (m - 1) + 1 / 2\<rfloor> in
        if steps < 1 then 1 else if steps > m then m else steps))"

section \<open>Facts\<close>



lemma supplement_bounds:
  assumes "0 \<le> m"
  shows "supplement_steps c m \<le> m \<and> 0 \<le> supplement_steps c m \<and> (1 \<le> m \<longrightarrow> 1 \<le> supplement_steps c m)"
  using assms by (auto simp: supplement_steps_def Let_def)

lemma clamp_steps_mono:
  fixes x y m :: int
  assumes "x \<le> y" "\<not> (m \<le> 1 \<or> P)"
  shows "(if 1 + x < 1 then 1 else if 1 + x > m then m else 1 + x) \<le>
      (if 1 + y < 1 then 1 else if 1 + y > m then m else 1 + y)"
  using assms by auto

lemma supplement_antimono:
  assumes "0 < c" "c \<le> d"
  shows "supplement_steps d m \<le> supplement_steps c m"
proof (cases "m \<le> 1 \<or> 1 \<le> d")
  case True
  with assms show ?thesis
    by (auto simp: supplement_steps_def Let_def)
next
  case False
  have "(1 - d) * of_int (m - 1) + 1 / 2 \<le> (1 - c) * rat_of_int (m - 1) + 1 / 2"
    using assms False by (intro add_right_mono mult_right_mono) auto
  then have "\<lfloor>(1 - d) * of_int (m - 1) + 1 / 2\<rfloor> \<le> \<lfloor>(1 - c) * rat_of_int (m - 1) + 1 / 2\<rfloor>"
    by (rule floor_mono)
  note fl = this
  have eq: "supplement_steps e m = (let steps = 1 + \<lfloor>(1 - e) * rat_of_int (m - 1) + 1 / 2\<rfloor> in
        if steps < 1 then 1 else if steps > m then m else steps)" if "e = c \<or> e = d" for e
    using that assms False by (auto simp only: supplement_steps_def split: if_splits)
  show ?thesis
    unfolding eq [OF disjI1 [OF refl]] eq [OF disjI2 [OF refl]] Let_def by (rule clamp_steps_mono [OF fl False])
qed


section \<open>Properties\<close>


end
