(* ===== verification/Loop_Config.thy ===== *)
theory Loop_Config
  imports Reflection
begin

text \<open>
  The parameters of a run and their defaults (\<^verbatim>\<open>LoopConfig\<close> of
  \<^verbatim>\<open>core/service.go\<close>), the gates that read them (\<^verbatim>\<open>replan.go\<close>,
  \<^verbatim>\<open>plan.go\<close>, \<^verbatim>\<open>reflection.go\<close>, \<^verbatim>\<open>hypothesis.go\<close>,
  \<^verbatim>\<open>playbook.go\<close>) and the side calls that ask the model for JSON
  (\<^verbatim>\<open>jsonllm.go\<close>). A \<^verbatim>\<open>*bool\<close> is an option. The service of a run has a
  generator: \<^verbatim>\<open>StreamRun\<close> refuses the run otherwise.
\<close>

section \<open>LoopConfig\<close>

record loop_config =
  lc_max_steps :: int
  lc_max_token_budget :: int
  lc_max_tool_errors :: int
  lc_step_timeout :: duration
  lc_tool_choice :: string
  lc_llm_routing :: "bool option"
  lc_stream_think :: "bool option"
  lc_planning :: "bool option"
  lc_reflection :: "bool option"
  lc_max_reflection_steps :: int
  lc_max_reflections :: int
  lc_reflection_jurors :: int
  lc_hypothesis_ledger :: "bool option"
  lc_playbook :: "bool option"
  lc_observe_compression :: bool
  lc_case_library :: "bool option"
  lc_case_few_shot_limit :: int
  lc_case_cache_size :: int
  lc_semantic_retrieval :: "bool option"
  lc_replanning :: "bool option"
  lc_replan_interval :: int
  lc_max_replans :: int
  lc_route_learning :: "bool option"
  lc_route_few_shot_limit :: int
  lc_route_cache_size :: int
  lc_max_runs_per_user :: int
  lc_max_runs :: int

definition default_on :: "bool option \<Rightarrow> bool option" where
  "default_on b = (if b = None then Some True else b)"

definition loop_defaults :: "loop_config \<Rightarrow> loop_config" where
  "loop_defaults c = c\<lparr>
     lc_max_steps := (if lc_max_steps c \<le> 0 then 10 else lc_max_steps c),
     lc_max_token_budget := (if lc_max_token_budget c < 0 then 0 else lc_max_token_budget c),
     lc_max_tool_errors := (if lc_max_tool_errors c \<le> 0 then 3 else lc_max_tool_errors c),
     lc_step_timeout := (if lc_step_timeout c \<le> 0 then 60 * second else lc_step_timeout c),
     lc_tool_choice := (if trim_space (lc_tool_choice c) = [] then ''auto'' else lc_tool_choice c),
     lc_llm_routing := default_on (lc_llm_routing c),
     lc_stream_think := default_on (lc_stream_think c),
     lc_planning := default_on (lc_planning c),
     lc_reflection := default_on (lc_reflection c),
     lc_max_reflection_steps :=
       (if lc_max_reflection_steps c < 0 then 0 else lc_max_reflection_steps c),
     lc_max_reflections := (if lc_max_reflections c \<le> 0 then 1 else lc_max_reflections c),
     lc_reflection_jurors :=
       (let n = (if lc_reflection_jurors c \<le> 0 then 3 else lc_reflection_jurors c) in
        if n > 5 then 5 else n),
     lc_hypothesis_ledger := default_on (lc_hypothesis_ledger c),
     lc_playbook := default_on (lc_playbook c),
     lc_case_library := default_on (lc_case_library c),
     lc_case_few_shot_limit := (if lc_case_few_shot_limit c < 0 then 0 else lc_case_few_shot_limit c),
     lc_case_cache_size := (if lc_case_cache_size c \<le> 0 then 2000 else lc_case_cache_size c),
     lc_semantic_retrieval := default_on (lc_semantic_retrieval c),
     lc_replan_interval := (if lc_replan_interval c \<le> 0 then 3 else lc_replan_interval c),
     lc_max_replans := (if lc_max_replans c \<le> 0 then 2 else lc_max_replans c),
     lc_route_learning := default_on (lc_route_learning c),
     lc_route_few_shot_limit :=
       (if lc_route_few_shot_limit c < 0 then 0 else lc_route_few_shot_limit c),
     lc_route_cache_size := (if lc_route_cache_size c \<le> 0 then 256 else lc_route_cache_size c)\<rparr>"

definition planning_enabled :: "loop_config \<Rightarrow> bool" where
  "planning_enabled o' \<longleftrightarrow> (case lc_planning o' of None \<Rightarrow> True | Some b \<Rightarrow> b)"

definition replanning_enabled :: "loop_config \<Rightarrow> bool" where
  "replanning_enabled o' \<longleftrightarrow>
    planning_enabled o' \<and> (case lc_replanning o' of None \<Rightarrow> False | Some b \<Rightarrow> b)"

definition ledger_enabled :: "loop_config \<Rightarrow> bool" where
  "ledger_enabled o' \<longleftrightarrow> (case lc_hypothesis_ledger o' of None \<Rightarrow> True | Some b \<Rightarrow> b)"

definition reassess_enabled :: "loop_config \<Rightarrow> bool" where
  "reassess_enabled o' \<longleftrightarrow> replanning_enabled o' \<or> ledger_enabled o'"

definition playbook_enabled :: "loop_config \<Rightarrow> bool" where
  "playbook_enabled o' \<longleftrightarrow> (case lc_playbook o' of None \<Rightarrow> True | Some b \<Rightarrow> b)"

definition reflection_enabled :: "loop_config \<Rightarrow> bool" where
  "reflection_enabled o' \<longleftrightarrow> 0 < lc_max_reflection_steps o' \<and>
    (case lc_reflection o' of None \<Rightarrow> True | Some b \<Rightarrow> b)"

definition stream_think_enabled :: "loop_config \<Rightarrow> bool" where
  "stream_think_enabled o' \<longleftrightarrow> (case lc_stream_think o' of None \<Rightarrow> True | Some b \<Rightarrow> b)"

definition case_library_enabled :: "bool \<Rightarrow> loop_config \<Rightarrow> bool" where
  "case_library_enabled hasRepo o' \<longleftrightarrow>
    hasRepo \<and> (case lc_case_library o' of None \<Rightarrow> True | Some b \<Rightarrow> b)"

definition replan_budget_left :: "loop_config \<Rightarrow> int \<Rightarrow> bool" where
  "replan_budget_left o' used \<longleftrightarrow> lc_max_token_budget o' \<le> 0 \<or> used < lc_max_token_budget o'"

definition reflection_budget_left :: "loop_config \<Rightarrow> int \<Rightarrow> bool" where
  "reflection_budget_left o' used \<longleftrightarrow> lc_max_token_budget o' \<le> 0 \<or> used < lc_max_token_budget o'"

definition tool_choice :: "loop_config \<Rightarrow> string" where
  "tool_choice o' = (let c = trim_space (lc_tool_choice o') in if c = [] then ''auto'' else c)"

section \<open>Side calls\<close>

record assistant_reply =
  ar_content :: string
  ar_total_tokens :: int

definition err_invalid_json :: go_error where
  "err_invalid_json = ErrMsg ((''LLM '' @ utf8 [0x8F93, 0x51FA, 0x4E0D, 0x662F, 0x5408, 0x6CD5] @ '' JSON''))"

text \<open>
  \<^verbatim>\<open>generateJSON\<close>: the first answer, whether the client is gone, and the answer to the
  one retry. \<open>dec\<close> decodes into a fresh value; \<open>redec first second\<close> decodes the second
  text into what the failed first attempt left in \<^verbatim>\<open>out\<close>.
\<close>

definition generate_json ::
  "(string \<Rightarrow> 'a option) \<Rightarrow> (string \<Rightarrow> string \<Rightarrow> 'a option) \<Rightarrow> assistant_reply go_result \<Rightarrow> bool
    \<Rightarrow> assistant_reply go_result \<Rightarrow> int \<times> 'a go_result" where
  "generate_json dec redec answer gone retry = (case answer of
     Inl e \<Rightarrow> (0, Inl e)
   | Inr reply \<Rightarrow>
       let tokens = ar_total_tokens reply in
       case dec (ar_content reply) of
         Some v \<Rightarrow> (tokens, Inr v)
       | None \<Rightarrow>
           if gone then (tokens, Inl err_invalid_json)
           else (case retry of
             Inl e \<Rightarrow> (tokens, Inl err_invalid_json)
           | Inr r2 \<Rightarrow> (tokens + ar_total_tokens r2,
               case redec (ar_content reply) (ar_content r2) of
                 Some v \<Rightarrow> Inr v | None \<Rightarrow> Inl err_invalid_json)))"

text \<open>\<^verbatim>\<open>generatePlan\<close> after the side call: a plan without any line is an error.\<close>

definition generate_plan :: "int \<times> run_plan go_result \<Rightarrow> int \<times> (run_plan \<times> string) go_result" where
  "generate_plan answer = (case answer of
     (tokens, Inl e) \<Rightarrow> (tokens, Inl e)
   | (tokens, Inr plan) \<Rightarrow>
       (tokens, if format_plan plan = [] then Inl (ErrMsg ((utf8 [0x8BA1, 0x5212, 0x5185, 0x5BB9, 0x4E3A, 0x7A7A])))
                else Inr (plan, format_plan plan)))"

record reassess_result =
  ra_hypotheses :: "ledger_update list"
  ra_steps :: "string list"

section \<open>Compressing observations\<close>

abbreviation observe_compress_min_chars :: nat where "observe_compress_min_chars \<equiv> 3000"

definition observe_budget :: "tool_definition \<Rightarrow> int" where
  "observe_budget t = (if td_observe_max_chars t \<le> 0 then max_observe_chars else td_observe_max_chars t)"

definition compress_target :: "tool_definition \<Rightarrow> exec_outcome \<Rightarrow> bool" where
  "compress_target t oc \<longleftrightarrow> eo_err oc = None \<and> eo_executed oc \<and>
    int (length (runes (eo_observation oc))) > observe_budget t \<and>
    length (runes (eo_observation oc)) \<ge> observe_compress_min_chars"

text \<open>\<^verbatim>\<open>compressObservation\<close>: the tokens spent, and the text unless the call failed.\<close>

definition compress_observation :: "int \<Rightarrow> assistant_reply go_result \<Rightarrow> string go_result \<times> int" where
  "compress_observation budget answer = (case answer of
     Inl e \<Rightarrow> (Inl e, 0)
   | Inr r \<Rightarrow>
       (let c = trim_space (ar_content r) in
        if c = [] then (Inl (ErrMsg ((utf8 [0x538B, 0x7F29, 0x8F93, 0x51FA, 0x4E3A, 0x7A7A]))), ar_total_tokens r)
        else (Inr (truncate_runes c (nat budget)), ar_total_tokens r)))"

text \<open>The targets are independent; \<open>answers i\<close> is the model's answer for position \<open>i\<close>.\<close>

definition compress_one ::
  "(nat \<Rightarrow> assistant_reply go_result) \<Rightarrow> nat \<Rightarrow> tool_definition \<Rightarrow> exec_outcome \<Rightarrow> exec_outcome \<times> int"
where
  "compress_one answers i t oc =
    (if compress_target t oc then
       (case compress_observation (observe_budget t) (answers i) of
          (Inl e, n) \<Rightarrow> (oc, n)
        | (Inr c, n) \<Rightarrow> (oc\<lparr>eo_observation := c\<rparr>, n))
     else (oc, 0))"

definition compress_observations ::
  "(nat \<Rightarrow> assistant_reply go_result) \<Rightarrow> tool_definition list \<Rightarrow> exec_outcome list
    \<Rightarrow> exec_outcome list \<times> int" where
  "compress_observations answers tools ocs =
    (let rs = map (\<lambda>(i, t, oc). compress_one answers i t oc) (enumerate 0 (zip tools ocs))
     in (map fst rs, sum_list (map snd rs)))"

lemma compress_one_frame:
  "eo_err (fst (compress_one answers i t oc)) = eo_err oc \<and>
   eo_executed (fst (compress_one answers i t oc)) = eo_executed oc \<and>
   eo_tool_id (fst (compress_one answers i t oc)) = eo_tool_id oc"
  by (auto simp: compress_one_def split: prod.splits sum.splits)

lemma compress_observations_length [simp]:
  "length (fst (compress_observations answers tools ocs)) = min (length tools) (length ocs)"
  by (simp add: compress_observations_def Let_def)

lemma compress_observations_nth:
  assumes "i < length tools" "i < length ocs"
  shows "fst (compress_observations answers tools ocs) ! i = fst (compress_one answers i (tools ! i) (ocs ! i))"
  using assms by (simp add: compress_observations_def Let_def nth_enumerate_eq)

end
