(* ===== verification/Dedup_Key.thy ===== *)
theory Dedup_Key
  imports Tool_Schema
begin

text \<open>
  The key by which a run recognises a repeated tool call (\<^verbatim>\<open>dedupKey\<close> and
  \<^verbatim>\<open>normalizeArguments\<close> of \<^verbatim>\<open>core/loop.go\<close>): the arguments are decoded into a
  \<^verbatim>\<open>map[string]any\<close> and encoded again, which sorts the keys and drops the white space.
  \<^verbatim>\<open>json.Marshal\<close> is modelled here; \<open>num\<close> is how a number is printed after its decoding
  into a \<^verbatim>\<open>float64\<close>, and \<open>None\<close> when it is out of range.
\<close>

section \<open>Encoding\<close>

definition hex_digit :: "nat \<Rightarrow> char" where
  "hex_digit n = (if n < 10 then char_of (48 + n) else char_of (87 + n))"

definition escape_u :: "nat \<Rightarrow> string" where
  "escape_u n = [CHR 0x5C, CHR ''u'', hex_digit (n div 4096 mod 16), hex_digit (n div 256 mod 16),
     hex_digit (n div 16 mod 16), hex_digit (n mod 16)]"

definition escape_byte :: "char \<Rightarrow> string" where
  "escape_byte c =
    (if c = CHR 0x22 \<or> c = CHR 0x5C then [CHR 0x5C, c]
     else if c = CHR 0x08 then [CHR 0x5C, CHR ''b'']
     else if c = CHR 0x0C then [CHR 0x5C, CHR ''f'']
     else if c = CHR 0x0A then [CHR 0x5C, CHR ''n'']
     else if c = CHR 0x0D then [CHR 0x5C, CHR ''r'']
     else if c = CHR 0x09 then [CHR 0x5C, CHR ''t'']
     else if of_char c < (32 :: nat) \<or> c = CHR 0x3C \<or> c = CHR 0x3E \<or> c = CHR 0x26
       then escape_u (of_char c)
     else [c])"

text \<open>One rune; the two line separators are escaped too.\<close>

definition escape_rune :: "string \<Rightarrow> string" where
  "escape_rune r =
    (if r = utf8 [0x2028] then escape_u 0x2028
     else if r = utf8 [0x2029] then escape_u 0x2029
     else concat (map escape_byte r))"

definition quote_json :: "string \<Rightarrow> string" where
  "quote_json s = [CHR 0x22] @ concat (map escape_rune (runes s)) @ [CHR 0x22]"

definition put_pairs :: "(string \<times> 'a) list \<Rightarrow> (string, 'a) gmap" where
  "put_pairs ms = foldl (\<lambda>m (k, v). gm_put k v m) [] ms"

text \<open>The members of a map, in the byte order of their keys.\<close>

definition object_text :: "(string, string) gmap \<Rightarrow> string" where
  "object_text m = [CHR 0x7B] @ join '','' (map (\<lambda>(k, t). quote_json k @ '':'' @ t) (sort_key fst m)) @ [CHR 0x7D]"

text \<open>
  A number that does not decode makes the whole text fail, also one whose member is later
  overwritten by another of the same name.
\<close>

function marshal :: "(string \<Rightarrow> string option) \<Rightarrow> json \<Rightarrow> string option" where
  "marshal num JNull = Some ''null''"
| "marshal num (JBool b) = Some (if b then ''true'' else ''false'')"
| "marshal num (JNum s) = num s"
| "marshal num (JStr s) = Some (quote_json s)"
| "marshal num (JArr xs) = (case those (map (marshal num) xs) of
     None \<Rightarrow> None | Some ts \<Rightarrow> Some (''['' @ join '','' ts @ '']''))"
| "marshal num (JObj ms) = (case those (map (\<lambda>p. marshal num (snd p)) ms) of
     None \<Rightarrow> None | Some ts \<Rightarrow> Some (object_text (put_pairs (zip (map fst ms) ts))))"
  by pat_completeness auto

termination
proof (relation "measure (size \<circ> snd)")
  fix num :: "string \<Rightarrow> string option" and ms :: "(string \<times> json) list" and p
  assume "p \<in> set ms"
  then have "size (snd p) \<le> size_list (size_prod (\<lambda>_. 0) size) ms"
    by (rule size_list_estimation') (cases p, simp)
  then show "((num, snd p), num, JObj ms) \<in> measure (size \<circ> snd)"
    by simp
next
  fix num :: "string \<Rightarrow> string option" and xs :: "json list" and x
  assume "x \<in> set xs"
  then have "size x \<le> size_list size xs"
    by (rule size_list_estimation') simp
  then show "((num, x), num, JArr xs) \<in> measure (size \<circ> snd)"
    by simp
qed simp

section \<open>The key\<close>

definition normalize_arguments :: "(string \<Rightarrow> string option) \<Rightarrow> string \<Rightarrow> string" where
  "normalize_arguments num arguments =
    (let trimmed = trim_space arguments in
     if trimmed = [] \<or> trimmed = ''{}'' then []
     else case json_parse trimmed of
       Some (JObj ms) \<Rightarrow> (case marshal num (JObj ms) of Some t \<Rightarrow> t | None \<Rightarrow> trimmed)
     | Some JNull \<Rightarrow> ''null''
     | _ \<Rightarrow> trimmed)"

definition dedup_key :: "(string \<Rightarrow> string option) \<Rightarrow> string \<Rightarrow> agent_scope \<Rightarrow> string \<Rightarrow> string" where
  "dedup_key num toolID scope arguments =
    join ''|'' [toolID, sc_namespace scope, sc_kind scope, sc_name scope, sc_container scope,
                normalize_arguments num arguments]"

section \<open>Facts\<close>

lemma put_pairs_ok [simp]: "gm_ok (put_pairs ms)"
  by (simp add: put_pairs_def gm_ok_foldl_put)

lemma put_pairs_get: "gm_get (put_pairs ms) k = map_of (rev ms) k"
proof -
  have "gm_get (foldl (\<lambda>m (k, v). gm_put k v m) m ms) k = (case map_of (rev ms) k of Some v \<Rightarrow> Some v | None \<Rightarrow> gm_get m k)" for m
    by (induction ms arbitrary: m) (auto simp: map_add_def split: option.splits)
  from this [of "[]"] show ?thesis by (simp add: put_pairs_def split: option.splits)
qed

lemma sorted_gmap_unique:
  assumes "gm_ok m" "gm_ok n" "\<And>k. gm_get m k = gm_get n k"
  shows "sort_key fst m = sort_key (fst :: string \<times> 'a \<Rightarrow> string) n"
proof -
  have "set m = set n"
    using assms gm_mem_get by (metis (no_types, opaque_lifting) subset_antisym subrelI)
  moreover have "distinct m" "distinct n" "inj_on fst (set m)"
    using assms(1,2) by (auto simp: gm_ok_def distinct_map)
  ultimately have "mset m = mset n" "inj_on fst (set m)"
    by (simp_all add: set_eq_iff_mset_eq_distinct)
  then show ?thesis
    by (intro sort_key_inj_key_eq) simp_all
qed

lemma those_map_defined: "those (map f xs) = Some ts \<Longrightarrow> x \<in> set xs \<Longrightarrow> \<exists>t. f x = Some t"
  by (induction xs arbitrary: ts) (auto split: option.splits)

lemma those_map_zip:
  "those (map (\<lambda>p. f (snd p)) ms) = Some ts \<Longrightarrow>
    map_of (rev (zip (map fst ms) ts)) k = Option.bind (map_of (rev ms) k) f"
proof (induction ms arbitrary: ts)
  case (Cons p ms)
  then obtain t ts' where ts: "f (snd p) = Some t" "those (map (\<lambda>p. f (snd p)) ms) = Some ts'" "ts = t # ts'"
    by (auto split: option.splits)
  have "map_of (rev ms) k = Some v \<Longrightarrow> \<exists>t. f v = Some t" for v
    using those_map_defined [OF ts(2), of "(k, v)"] by (auto dest: map_of_SomeD)
  with ts Cons.IH [OF ts(2)] show ?case
    by (cases p) (fastforce simp: map_add_def split: option.splits)
qed simp

lemma marshal_object:
  assumes "marshal num (JObj ms) \<noteq> None"
  shows "\<exists>m. marshal num (JObj ms) = Some (object_text m) \<and> gm_ok m \<and>
    (\<forall>k. gm_get m k = Option.bind (map_of (rev ms) k) (marshal num))"
proof -
  obtain ts where ts: "those (map (\<lambda>p. marshal num (snd p)) ms) = Some ts"
    using assms by (auto split: option.splits)
  then show ?thesis
    by (intro exI [of _ "put_pairs (zip (map fst ms) ts)"]) (simp add: put_pairs_get those_map_zip)
qed

lemma marshal_same_map:
  assumes "marshal num (JObj x) \<noteq> None" "marshal num (JObj y) \<noteq> None"
    and "map_of (rev x) = map_of (rev y)"
  shows "marshal num (JObj x) = marshal num (JObj y)"
proof -
  obtain m n where m: "marshal num (JObj x) = Some (object_text m)" "gm_ok m"
      "\<forall>k. gm_get m k = Option.bind (map_of (rev x) k) (marshal num)"
    and n: "marshal num (JObj y) = Some (object_text n)" "gm_ok n"
      "\<forall>k. gm_get n k = Option.bind (map_of (rev y) k) (marshal num)"
    using marshal_object [OF assms(1)] marshal_object [OF assms(2)] by blast
  then have "sort_key fst m = sort_key fst n"
    using assms(3) by (intro sorted_gmap_unique) simp_all
  with m(1) n(1) show ?thesis by (simp add: object_text_def)
qed

lemma parse_empty_object: "json_parse ''{}'' = Some (JObj [])"
  by code_simp

lemma parse_nothing: "json_parse [] = None"
  by code_simp

lemma normalize_object:
  assumes "json_parse (trim_space a) = Some (JObj x)" "x \<noteq> []" "marshal num (JObj x) \<noteq> None"
  shows "Some (normalize_arguments num a) = marshal num (JObj x)"
proof -
  have "trim_space a \<noteq> []" "trim_space a \<noteq> ''{}''"
    using assms(1,2) parse_empty_object parse_nothing by auto
  with assms show ?thesis
    by (auto simp: normalize_arguments_def simp del: marshal.simps)
qed

section \<open>Property\<close>

text \<open>
  C21: Two calls with the same arguments have the same key however the model wrote them down. When
  both argument texts decode to non-empty objects that hold the same value under every name, the
  order of the members, the white space and overwritten duplicates make no difference to the key.
\<close>

theorem dedup_key_canonical:
  assumes "json_parse (trim_space a) = Some (JObj x)" "json_parse (trim_space b) = Some (JObj y)"
    and "x \<noteq> []" "y \<noteq> []" "map_of (rev x) = map_of (rev y)"
    and "marshal num (JObj x) \<noteq> None" "marshal num (JObj y) \<noteq> None"
  shows "dedup_key num toolID scope a = dedup_key num toolID scope b"
proof -
  have "Some (normalize_arguments num a) = Some (normalize_arguments num b)"
    unfolding normalize_object [OF assms(1,3,6)] normalize_object [OF assms(2,4,7)]
    by (rule marshal_same_map [OF assms(6,7,5)])
  then show ?thesis by (simp add: dedup_key_def)
qed

definition args_one :: string where
  "args_one = [CHR 0x7B, CHR 0x22, CHR ''a'', CHR 0x22, CHR 0x3A, CHR ''1'', CHR 0x2C, CHR 0x22,
     CHR ''b'', CHR 0x22, CHR 0x3A, CHR 0x22, CHR ''x'', CHR 0x22, CHR 0x7D]"

definition args_two :: string where
  "args_two = [CHR 0x20, CHR 0x7B, CHR 0x22, CHR ''b'', CHR 0x22, CHR 0x20, CHR 0x3A, CHR 0x22,
     CHR ''x'', CHR 0x22, CHR 0x2C, CHR 0x20, CHR 0x22, CHR ''a'', CHR 0x22, CHR 0x3A, CHR ''1'', CHR 0x7D]"

theorem dedup_key_canonical_witness:
  "dedup_key Some ''k8s.pod.list'' \<lparr>sc_namespace = [], sc_kind = [], sc_name = [], sc_container = []\<rparr> args_one
   = dedup_key Some ''k8s.pod.list'' \<lparr>sc_namespace = [], sc_kind = [], sc_name = [], sc_container = []\<rparr> args_two"
proof (rule dedup_key_canonical)
  show "json_parse (trim_space args_one) = Some (JObj [(''a'', JNum ''1''), (''b'', JStr ''x'')])"
    by code_simp
  show "json_parse (trim_space args_two) = Some (JObj [(''b'', JStr ''x''), (''a'', JNum ''1'')])"
    by code_simp
qed (auto simp: fun_eq_iff)

end
