(* ===== verification/Agent_Loop.thy ===== *)
theory Agent_Loop
  imports Loop_Config Dedup_Key
begin

text \<open>
  The diagnosis loop (\<^verbatim>\<open>core/loop.go\<close>): \<^verbatim>\<open>runLoop\<close> and everything it calls.
  What the run asks of the outside is an argument, one \<open>step_env\<close> per step: the answers of
  the model, the results of the tools, fresh IDs, the registry's view (it may be reloaded while a
  run is under way) and whether the client is gone when an error is looked at. Channel sends
  succeed or fail as the argument \<open>le_send\<close> says; a failed one means the client is gone.
  Side calls are given by what \<open>generate_json\<close> returned. The rows written to the database are
  written on a best-effort basis and each write returns its argument, so only the events are
  kept. \<open>ls_requests\<close> is the list of requests made to the model by the loop itself and
  \<open>ls_ran\<close> the list of tool calls carried out, with their step and whether they succeeded.
\<close>

section \<open>Data\<close>

record agent_definition =
  ag_type :: string
  ag_name :: string
  ag_description :: string
  ag_version :: string
  ag_available :: bool
  ag_capabilities :: "string list"
  ag_default_tools :: "string list"
  ag_system_prompt :: string

record tool_call_request =
  rq_run_id :: string
  rq_tool_id :: string
  rq_agent_type :: string
  rq_cluster_id :: string
  rq_message :: string
  rq_scope :: agent_scope
  rq_arguments :: string

abbreviation "TOOL_CALL_STATUS_RUNNING \<equiv> ''running''"
abbreviation "TOOL_CALL_STATUS_COMPLETED \<equiv> ''completed''"
abbreviation "TOOL_CALL_STATUS_FAILED \<equiv> ''failed''"

text \<open>The JSON text of the request is represented by the request.\<close>

record agent_tool_call =
  tk_id :: string
  tk_run_id :: string
  tk_agent_type :: string
  tk_tool_id :: string
  tk_input :: tool_call_request
  tk_output_summary :: string
  tk_status :: string
  tk_error_message :: string

datatype run_event =
    EvThinking string
  | EvPlanGenerated string
  | EvToolStarted agent_tool_call
  | EvToolFailed agent_tool_call
  | EvToolCompleted agent_tool_call
  | EvEvidenceCreated evidence
  | EvAnswerDelta string string

record stream_event =
  sv_delta :: string
  sv_done :: bool
  sv_reply :: assistant_reply
  sv_calls :: "tool_invocation list"
  sv_err :: "go_error option"

record llm_request =
  lq_history :: "message_context list"
  lq_content :: string
  lq_turns :: "tool_call_turn list"
  lq_tools :: "tool_spec list"
  lq_choice :: string

record run_request =
  rr_message :: string
  rr_cluster_id :: string
  rr_scope :: agent_scope
  rr_routed_skill :: string

record planned_call =
  pc_tool :: tool_definition
  pc_request :: tool_call_request
  pc_inv :: tool_invocation
  pc_key :: string

record run_stats =
  st_step_count :: nat
  st_tool_calls :: nat
  st_token_used :: int
  st_token_estimated :: bool
  st_extra_tokens :: int
  st_reflections :: int
  st_replans :: int
  st_plan_generated :: bool
  st_jurors :: nat
  st_playbook_matched :: bool
  st_hypothesis_total :: nat
  st_hypothesis_resolved :: nat
  st_case_mode :: string
  st_case_hits :: nat
  st_tool_trace :: "string list"

section \<open>The environment of a run\<close>

text \<open>The places where \<^verbatim>\<open>ctx.Err()\<close> is looked at after an error.\<close>

datatype loop_check = AtReassess | AtThink | AtReflect | AtFinal

record step_env =
  se_registry :: tool_registry
  se_gone :: "loop_check \<Rightarrow> bool"
  se_reassess :: "int \<times> reassess_result go_result"
  se_generate :: "(assistant_reply \<times> tool_invocation list) go_result"
  se_stream :: "stream_event list go_result"
  se_panel :: "(reflection_verdict option \<times> nat) list"
  se_final :: "stream_event list go_result"
  se_fresh :: "nat \<Rightarrow> string"
  se_call_id :: "nat \<Rightarrow> string"
  se_exec :: "nat \<Rightarrow> tool_call_request \<Rightarrow> tool_call_result go_result"
  se_evidence_id :: "nat \<Rightarrow> nat \<Rightarrow> string"
  se_now :: instant
  se_compress :: "nat \<Rightarrow> assistant_reply go_result"

record loop_env =
  le_opts :: loop_config
  le_run_id :: string
  le_agent :: agent_definition
  le_request :: run_request
  le_chat :: "message_context list"
  le_message_id :: string
  le_skills :: skill_registry
  le_registry :: tool_registry
  le_identity :: string
  le_playbooks :: "diagnostic_playbook list"
  le_has_case_repo :: bool
  le_few_shot :: "string \<times> nat \<times> string"
  le_plan :: "int \<times> run_plan go_result"
  le_plan_gone :: bool
  le_num :: "string \<Rightarrow> string option"
  le_reason :: "schema_error \<Rightarrow> string"
  le_send :: "nat \<Rightarrow> bool"
  le_step :: "nat \<Rightarrow> step_env"

section \<open>The state of the loop\<close>

record ran_call =
  rn_step :: nat
  rn_key :: string
  rn_tool :: tool_definition
  rn_ok :: bool

record loop_state =
  ls_history :: "message_context list"
  ls_plan :: string
  ls_ledger :: hypothesis_ledger
  ls_turns :: "tool_call_turn list"
  ls_token_used :: int
  ls_extra :: int
  ls_evidence_seq :: nat
  ls_err_streak :: int
  ls_seen :: "string list"
  ls_step :: nat
  ls_max_steps :: int
  ls_reflections :: int
  ls_rewrites :: nat
  ls_replans :: int
  ls_last_replan :: nat
  ls_new_evidence :: bool
  ls_stats :: run_stats
  ls_events :: "run_event list"
  ls_requests :: "llm_request list"
  ls_ran :: "ran_call list"

datatype loop_outcome =
    Answered string
  | ClientGone
  | RunFailed go_error

text \<open>The rest of the function, the next iteration, or its return.\<close>

datatype flow =
    Go loop_state
  | Again loop_state
  | Stop loop_outcome loop_state

fun and_then :: "flow \<Rightarrow> (loop_state \<Rightarrow> flow) \<Rightarrow> flow" where
  "and_then (Go st) f = f st"
| "and_then (Again st) f = Again st"
| "and_then (Stop r st) f = Stop r st"

section \<open>Events\<close>

fun emit_all :: "(nat \<Rightarrow> bool) \<Rightarrow> run_event list \<Rightarrow> run_event list \<Rightarrow> bool \<times> run_event list" where
  "emit_all send [] evs = (True, evs)"
| "emit_all send (e # es) evs =
    (if send (length evs) then emit_all send es (evs @ [e]) else (False, evs))"

definition send_events :: "loop_env \<Rightarrow> run_event list \<Rightarrow> loop_state \<Rightarrow> flow" where
  "send_events env es st = (case emit_all (le_send env) es (ls_events st) of
     (True, evs) \<Rightarrow> Go (st\<lparr>ls_events := evs\<rparr>)
   | (False, evs) \<Rightarrow> Stop ClientGone (st\<lparr>ls_events := evs\<rparr>))"

section \<open>Before the first step\<close>

definition with_identity :: "string \<Rightarrow> string \<Rightarrow> string" where
  "with_identity identity p =
    (let prompt = trim_space p in
     if prompt = [] then identity
     else if contains prompt identity then prompt
     else identity @ newline @ newline @ prompt)"

definition system_history :: "string \<Rightarrow> agent_definition \<Rightarrow> message_context list" where
  "system_history identity agent =
    (let prompt = trim_space (ag_system_prompt agent) in
     if prompt = [] then [] else [\<lparr>mc_role = ''system'', mc_content = with_identity identity prompt\<rparr>])"

record run_setup =
  ru_tools :: "tool_definition list"
  ru_allowed :: "string list option"
  ru_history :: "message_context list"
  ru_specs :: "tool_spec list"
  ru_names :: "(string, string) gmap"

definition prepare_run :: "loop_env \<Rightarrow> run_setup" where
  "prepare_run env =
    (let agentType = ag_type (le_agent env);
         tools0 = tools_for_agent (le_registry env) agentType;
         history0 = system_history (le_identity env) (le_agent env);
         (tools, history1, allowed) =
           (case resolve_run_skill (le_skills env) agentType (rr_routed_skill (le_request env))
                   (rr_message (le_request env)) of
              None \<Rightarrow> (tools0, history0, None)
            | Some skill \<Rightarrow>
                (let ts = filter_tools_by_allowed tools0 (sk_allowed_tools skill) in
                 (ts, append_skill_prompt history0 skill,
                  if sk_allowed_tools skill \<noteq> [] then Some (tool_id_set ts) else None)));
         history2 = (if le_chat env \<noteq> [] then history1 @ le_chat env else history1);
         history3 =
           (if case_library_enabled (le_has_case_repo env) (le_opts env) \<and> snd (snd (le_few_shot env)) \<noteq> []
            then merge_leading_system_prompt history2 (snd (snd (le_few_shot env))) else history2);
         (specs, names) = build_tool_specs tools
     in \<lparr>ru_tools = tools, ru_allowed = allowed, ru_history = history3, ru_specs = specs, ru_names = names\<rparr>)"

definition initial_stats :: "loop_env \<Rightarrow> run_stats" where
  "initial_stats env =
    (let on = case_library_enabled (le_has_case_repo env) (le_opts env) in
     \<lparr>st_step_count = 0, st_tool_calls = 0, st_token_used = 0, st_token_estimated = False,
      st_extra_tokens = 0, st_reflections = 0, st_replans = 0, st_plan_generated = False,
      st_jurors = 0, st_playbook_matched = False, st_hypothesis_total = 0,
      st_hypothesis_resolved = 0, st_case_mode = (if on then fst (le_few_shot env) else []),
      st_case_hits = (if on then fst (snd (le_few_shot env)) else 0), st_tool_trace = []\<rparr>)"

definition initial_state :: "loop_env \<Rightarrow> run_setup \<Rightarrow> loop_state" where
  "initial_state env ru =
    \<lparr>ls_history = ru_history ru, ls_plan = [], ls_ledger = [], ls_turns = [], ls_token_used = 0,
     ls_extra = 0, ls_evidence_seq = 0, ls_err_streak = 0, ls_seen = [], ls_step = 0,
     ls_max_steps = lc_max_steps (le_opts env), ls_reflections = 0, ls_rewrites = 0, ls_replans = 0,
     ls_last_replan = 0, ls_new_evidence = False, ls_stats = initial_stats env, ls_events = [],
     ls_requests = [], ls_ran = []\<rparr>"

abbreviation set_stats :: "(run_stats \<Rightarrow> run_stats) \<Rightarrow> loop_state \<Rightarrow> loop_state" where
  "set_stats f st \<equiv> st\<lparr>ls_stats := f (ls_stats st)\<rparr>"

definition plan_phase :: "loop_env \<Rightarrow> loop_state \<Rightarrow> flow" where
  "plan_phase env st0 =
    (let opts = le_opts env; req = le_request env in
     if \<not> planning_enabled opts then Go st0
     else
       (let playbook = (if playbook_enabled opts
              then match_playbook (le_playbooks env) (rr_message req) (rr_scope req) else None);
            (tokens, result) = generate_plan (le_plan env);
            st1 = set_stats (\<lambda>s. s\<lparr>st_playbook_matched := playbook \<noteq> None\<rparr>)
                    (st0\<lparr>ls_extra := ls_extra st0 + tokens\<rparr>)
        in case result of
             Inl e \<Rightarrow> if le_plan_gone env then Stop ClientGone st1 else Go st1
           | Inr (plan, text) \<Rightarrow>
               (let st2 = set_stats (\<lambda>s. s\<lparr>st_plan_generated := True\<rparr>) st1;
                    ledger = seed_ledger (rp_hypotheses plan)
                      (case playbook of Some p \<Rightarrow> pb_hypotheses p | None \<Rightarrow> []);
                    (st3, planText) =
                      (if ledger_enabled opts
                       then (set_stats (\<lambda>s. s\<lparr>st_hypothesis_total := length ledger\<rparr>) (st2\<lparr>ls_ledger := ledger\<rparr>),
                             format_plan_steps plan)
                       else (st2, text))
                in if planText = [] then Go st3
                   else send_events env [EvPlanGenerated planText]
                     (if replanning_enabled opts then st3\<lparr>ls_plan := planText\<rparr>
                      else st3\<lparr>ls_history := merge_leading_system_prompt (ls_history st3) planText\<rparr>))))"

section \<open>Thinking\<close>

definition think_history :: "loop_env \<Rightarrow> loop_state \<Rightarrow> message_context list" where
  "think_history env st =
    (let h1 = (if ls_plan st \<noteq> [] then merge_leading_system_prompt (ls_history st) (ls_plan st)
               else ls_history st)
     in if ledger_enabled (le_opts env) \<and> ls_ledger st \<noteq> []
        then merge_leading_system_prompt h1 (format_ledger (ls_ledger st)) else h1)"

datatype thought =
    ThinkFailed go_error
  | ThinkGone
  | Thought assistant_reply "tool_invocation list" bool

abbreviation empty_reply :: assistant_reply where
  "empty_reply \<equiv> \<lparr>ar_content = [], ar_total_tokens = 0\<rparr>"

text \<open>The loop over the stream; the last completion event counts.\<close>

fun read_think ::
  "assistant_reply \<times> tool_invocation list \<Rightarrow> stream_event list
    \<Rightarrow> (assistant_reply \<times> tool_invocation list) go_result" where
  "read_think acc [] = Inr acc"
| "read_think acc (e # es) = (case sv_err e of
     Some x \<Rightarrow> Inl x
   | None \<Rightarrow> read_think (if sv_done e then (sv_reply e, sv_calls e) else acc) es)"

definition stream_think :: "loop_env \<Rightarrow> step_env \<Rightarrow> loop_state \<Rightarrow> thought \<times> loop_state" where
  "stream_think env se st = (case se_stream se of
     Inl e \<Rightarrow> (ThinkFailed e, st)
   | Inr es \<Rightarrow> (case read_think (empty_reply, []) es of
       Inl e \<Rightarrow> (ThinkFailed e, st)
     | Inr (reply, invs) \<Rightarrow>
         if invs \<noteq> [] \<and> trim_space (ar_content reply) \<noteq> [] then
           (case send_events env [EvThinking (ar_content reply)] st of
              Go st' \<Rightarrow> (Thought reply invs True, st')
            | Again st' \<Rightarrow> (ThinkGone, st')
            | Stop r st' \<Rightarrow> (ThinkGone, st'))
         else (Thought reply invs True, st)))"

definition think :: "loop_env \<Rightarrow> run_setup \<Rightarrow> step_env \<Rightarrow> loop_state \<Rightarrow> thought \<times> loop_state" where
  "think env ru se st0 =
    (let st = st0\<lparr>ls_requests := ls_requests st0 @
           [\<lparr>lq_history = think_history env st0, lq_content = rr_message (le_request env),
             lq_turns = ls_turns st0, lq_tools = ru_specs ru, lq_choice = tool_choice (le_opts env)\<rparr>]\<rparr>
     in if stream_think_enabled (le_opts env) then stream_think env se st
        else (case se_generate se of
                Inl e \<Rightarrow> (ThinkFailed e, st)
              | Inr (reply, invs) \<Rightarrow> (Thought reply invs False, st)))"

definition count_tokens :: "loop_env \<Rightarrow> message_context list \<Rightarrow> assistant_reply \<Rightarrow> loop_state \<Rightarrow> loop_state" where
  "count_tokens env history reply st =
    (if ar_total_tokens reply > 0 then
       (if ar_total_tokens reply > ls_token_used st
        then st\<lparr>ls_token_used := ar_total_tokens reply\<rparr> else st)
     else
       (let est = int (estimate_step_tokens history (rr_message (le_request env)) (ls_turns st) (ar_content reply));
            st1 = set_stats (\<lambda>s. s\<lparr>st_token_estimated := True\<rparr>) st
        in if est > ls_token_used st1 then st1\<lparr>ls_token_used := est\<rparr> else st1))"

section \<open>The final answer\<close>

datatype answer_read =
    AnswerErr go_error
  | AnswerGone
  | AnswerDone string assistant_reply
  | AnswerCut

text \<open>The loop over the answer's stream: the text so far and the events sent.\<close>

fun read_answer ::
  "loop_env \<Rightarrow> string \<Rightarrow> run_event list \<Rightarrow> stream_event list \<Rightarrow> answer_read \<times> run_event list" where
  "read_answer env out evs [] = (AnswerCut, evs)"
| "read_answer env out evs (e # es) = (case sv_err e of
     Some x \<Rightarrow> (AnswerErr x, evs)
   | None \<Rightarrow>
       (case (if sv_delta e \<noteq> []
              then emit_all (le_send env) [EvAnswerDelta (sv_delta e) (le_message_id env)] evs
              else (True, evs)) of
          (False, evs') \<Rightarrow> (AnswerGone, evs')
        | (True, evs') \<Rightarrow>
            if sv_done e then (AnswerDone (out @ sv_delta e) (sv_reply e), evs')
            else read_answer env (out @ sv_delta e) evs' es))"

definition err_stream_interrupted :: go_error where
  "err_stream_interrupted = ErrMsg ''AI provider stream interrupted before completion''"

definition err_no_conclusion :: go_error where
  "err_no_conclusion = ErrMsg ((''AI ''
    @ utf8 [0x672A, 0x80FD, 0x57FA, 0x4E8E, 0x5DF2, 0x91C7, 0x96C6, 0x8BC1, 0x636E, 0x5F62,
      0x6210, 0x7ED3, 0x8BBA]))"

definition stream_final_answer :: "loop_env \<Rightarrow> step_env \<Rightarrow> loop_state \<Rightarrow> string \<Rightarrow> flow" where
  "stream_final_answer env se st0 draft =
    (let question = rr_message (le_request env);
         st = st0\<lparr>ls_requests := ls_requests st0 @
           [\<lparr>lq_history = merge_leading_system_prompt (ls_history st0) (final_answer_instruction draft),
             lq_content = question, lq_turns = ls_turns st0, lq_tools = [], lq_choice = ''none''\<rparr>]\<rparr>;
         failed = (\<lambda>e st. if se_gone se AtFinal then Stop ClientGone st else Stop (RunFailed e) st)
     in case se_final se of
          Inl e \<Rightarrow> failed e st
        | Inr es \<Rightarrow>
            (case read_answer env [] (ls_events st) es of
               (AnswerErr e, evs) \<Rightarrow> failed e (st\<lparr>ls_events := evs\<rparr>)
             | (AnswerGone, evs) \<Rightarrow> Stop ClientGone (st\<lparr>ls_events := evs\<rparr>)
             | (AnswerCut, evs) \<Rightarrow> failed err_stream_interrupted (st\<lparr>ls_events := evs\<rparr>)
             | (AnswerDone out reply, evs) \<Rightarrow>
                 (let a0 = trim_space out; answer = (if a0 = [] then trim_space (ar_content reply) else a0) in
                  if answer = [] then Stop (RunFailed err_no_conclusion) (st\<lparr>ls_events := evs\<rparr>)
                  else Stop (Answered (final_diagnostic_answer question (ls_turns st) draft answer))
                         (st\<lparr>ls_events := evs\<rparr>))))"

definition force_conclude :: "loop_env \<Rightarrow> step_env \<Rightarrow> loop_state \<Rightarrow> flow" where
  "force_conclude env se st = stream_final_answer env se st []"

section \<open>Reassessment\<close>

definition reassess_due :: "loop_env \<Rightarrow> loop_state \<Rightarrow> bool" where
  "reassess_due env st \<longleftrightarrow>
    (let opts = le_opts env in
     reassess_enabled opts \<and> (replanning_enabled opts \<or> ls_ledger st \<noteq> []) \<and> ls_new_evidence st \<and>
     int (ls_step st) - int (ls_last_replan st) \<ge> lc_replan_interval opts \<and>
     ls_replans st < lc_max_replans opts \<and>
     replan_budget_left opts (ls_token_used st + ls_extra st))"

definition reassess_phase :: "loop_env \<Rightarrow> step_env \<Rightarrow> loop_state \<Rightarrow> flow" where
  "reassess_phase env se st0 =
    (let opts = le_opts env in
     if \<not> reassess_due env st0 then Go st0
     else
       (let (tokens, result) = se_reassess se; st1 = st0\<lparr>ls_extra := ls_extra st0 + tokens\<rparr>
        in case result of
             Inl e \<Rightarrow> if se_gone se AtReassess then Stop ClientGone st1 else Go st1
           | Inr r \<Rightarrow>
               (let st2 = st1\<lparr>ls_replans := ls_replans st1 + 1, ls_last_replan := ls_step st1,
                              ls_new_evidence := False\<rparr>;
                    st3 = (if ledger_enabled opts \<and> ls_ledger st2 \<noteq> []
                           then st2\<lparr>ls_ledger := fst (apply_ledger_updates (ls_ledger st2) (ra_hypotheses r))\<rparr>
                           else st2);
                    revised = format_plan_steps \<lparr>rp_hypotheses = [], rp_steps = ra_steps r\<rparr>
                in if replanning_enabled opts \<and> revised \<noteq> []
                   then send_events env [EvPlanGenerated revised] (st3\<lparr>ls_plan := revised\<rparr>)
                   else Go st3)))"

section \<open>A candidate answer\<close>

definition conclude_phase :: "loop_env \<Rightarrow> step_env \<Rightarrow> assistant_reply \<Rightarrow> loop_state \<Rightarrow> flow" where
  "conclude_phase env se reply st =
    (let opts = le_opts env; question = rr_message (le_request env); answer = trim_space (ar_content reply) in
     if \<not> is_substantive_answer answer (ls_turns st) then
       (let st1 = st\<lparr>ls_rewrites := ls_rewrites st + 1\<rparr> in
        if ls_rewrites st1 \<le> 1
        then Again (st1\<lparr>ls_history := merge_leading_system_prompt (ls_history st1) (answer_rewrite_instruction answer)\<rparr>)
        else Stop (Answered (fallback_answer question (ls_turns st1))) st1)
     else if ls_reflections st < lc_max_reflections opts \<and> answer \<noteq> [] \<and> reflection_enabled opts \<and>
             reflection_budget_left opts (ls_token_used st + ls_extra st) then
       (let verdict = reflect_panel (se_gone se AtReflect) (se_panel se);
            st1 = st\<lparr>ls_reflections := ls_reflections st + 1,
                     ls_extra := ls_extra st + int (panel_tokens (se_panel se))\<rparr>
        in case verdict of
             Inl e \<Rightarrow>
               (let st2 = set_stats (\<lambda>s. s\<lparr>st_jurors := 0\<rparr>) st1 in
                if se_gone se AtReflect then Stop ClientGone st2
                else stream_final_answer env se st2 answer)
           | Inr v \<Rightarrow>
               (let st2 = set_stats (\<lambda>s. s\<lparr>st_jurors := pv_jurors v\<rparr>) st1; guidance = reflection_guidance v in
                if pv_level v \<noteq> Supported \<and> guidance \<noteq> [] then
                  Again (st2\<lparr>
                    ls_max_steps := min (lc_max_steps opts + lc_max_reflections opts * lc_max_reflection_steps opts)
                      (int (ls_step st2) + 1 + supplement_steps (pv_confidence v) (lc_max_reflection_steps opts)),
                    ls_turns := ls_turns st2 @ [\<lparr>tt_content = answer, tt_calls = [], tt_results = []\<rparr>],
                    ls_history := merge_leading_system_prompt (ls_history st2) guidance\<rparr>)
                else stream_final_answer env se st2 answer))
     else stream_final_answer env se st answer)"

section \<open>Acting\<close>

definition validate_invocation ::
  "loop_env \<Rightarrow> run_setup \<Rightarrow> tool_registry \<Rightarrow> string list \<Rightarrow> tool_invocation \<Rightarrow> string + planned_call"
where
  "validate_invocation env ru reg seen ti =
    (let req = le_request env; agentType = ag_type (le_agent env) in
     case resolve_id (inv_name ti) (ru_names ru) (Some reg) of
       None \<Rightarrow> Inl ((utf8 [0x672A, 0x77E5, 0x5DE5, 0x5177] @ '' '') @ quoted (inv_name ti))
     | Some toolID \<Rightarrow>
         (case tr_get reg toolID of
            None \<Rightarrow> Inl ((utf8 [0x5DE5, 0x5177] @ '' '') @ quoted toolID @ ('' '' @ utf8 [0x4E0D, 0x53EF, 0x7528]))
          | Some tool \<Rightarrow>
              if \<not> td_enabled tool \<or> \<not> td_read_only tool \<or> \<not> allowed_for_agent tool agentType
              then Inl ((utf8 [0x5DE5, 0x5177] @ '' '') @ quoted toolID @ ('' '' @ utf8 [0x4E0D, 0x53EF, 0x7528]))
              else if (case ru_allowed ru of None \<Rightarrow> False | Some ids \<Rightarrow> toolID \<notin> set ids)
              then Inl ((utf8 [0x5DE5, 0x5177] @ '' '') @ quoted toolID @ ('' ''
    @ utf8 [0x4E0D, 0x5728, 0x5F53, 0x524D, 0x6280, 0x80FD, 0x5141, 0x8BB8, 0x8303, 0x56F4,
      0x5185]))
              else (case validate_against_schema (td_parameters tool) (inv_arguments ti) of
                 Some e \<Rightarrow> Inl ((utf8 [0x53C2, 0x6570, 0x975E, 0x6CD5] @ '': '') @ le_reason env e)
               | None \<Rightarrow>
                   (let key = dedup_key (le_num env) toolID (rr_scope req) (inv_arguments ti) in
                    if key \<in> set seen
                    then Inl ((utf8 [0x8BE5, 0x5DE5, 0x5177, 0x4E0E, 0x53C2, 0x6570, 0x5DF2, 0x8C03, 0x7528, 0x8FC7]
    @ '',''
    @ utf8 [0x8BF7, 0x57FA, 0x4E8E, 0x5DF2, 0x6709, 0x8BC1, 0x636E, 0x7EE7, 0x7EED, 0x5206,
      0x6790, 0x6216, 0x7ED9, 0x51FA, 0x7ED3, 0x8BBA]))
                    else Inr \<lparr>pc_tool = tool,
                           pc_request = \<lparr>rq_run_id = le_run_id env, rq_tool_id = toolID,
                             rq_agent_type = agentType, rq_cluster_id = rr_cluster_id req,
                             rq_message = rr_message req, rq_scope = rr_scope req,
                             rq_arguments = inv_arguments ti\<rparr>,
                           pc_inv = ti, pc_key = key\<rparr>))))"

text \<open>The loop over the invocations: the results of the refused ones and the planned calls.\<close>

fun plan_calls ::
  "(tool_invocation \<Rightarrow> string + planned_call) \<Rightarrow> tool_invocation list
    \<Rightarrow> tool_result_message list \<times> planned_call list" where
  "plan_calls check [] = ([], [])"
| "plan_calls check (ti # invs) =
    (case plan_calls check invs of (results, planned) \<Rightarrow>
     (case check ti of
        Inl reason \<Rightarrow> (err_tool_result ti reason # results, planned)
      | Inr p \<Rightarrow> (results, p # planned)))"

definition started_call :: "loop_env \<Rightarrow> step_env \<Rightarrow> nat \<Rightarrow> planned_call \<Rightarrow> agent_tool_call" where
  "started_call env se i p =
    \<lparr>tk_id = se_call_id se i, tk_run_id = le_run_id env, tk_agent_type = ag_type (le_agent env),
     tk_tool_id = td_id (pc_tool p), tk_input = pc_request p, tk_output_summary = [],
     tk_status = TOOL_CALL_STATUS_RUNNING, tk_error_message = []\<rparr>"

definition prepare_evidence :: "loop_env \<Rightarrow> step_env \<Rightarrow> nat \<Rightarrow> agent_tool_call \<Rightarrow> nat \<Rightarrow> evidence \<Rightarrow> evidence" where
  "prepare_evidence env se i call k e =
    e\<lparr>ev_run_id := le_run_id env, ev_tool_call_id := tk_id call,
      ev_id := (if ev_id e = [] then se_evidence_id se i k else ev_id e),
      ev_collected_at := (if ev_collected_at e = 0 then se_now se else ev_collected_at e)\<rparr>"

text \<open>One call of the last phase of a batch: the events it sends and its outcome.\<close>

definition complete_call ::
  "loop_env \<Rightarrow> step_env \<Rightarrow> nat \<Rightarrow> planned_call \<Rightarrow> run_event list \<times> exec_outcome" where
  "complete_call env se i p =
    (let call = started_call env se i p in
     case se_exec se i (pc_request p) of
       Inl e \<Rightarrow>
         ([EvToolFailed (call\<lparr>tk_status := TOOL_CALL_STATUS_FAILED, tk_error_message := user_facing_error e\<rparr>)],
          \<lparr>eo_tool_id = tk_tool_id call, eo_summary = [], eo_observation = [], eo_evidence = [],
           eo_err = Some e, eo_executed = True\<rparr>)
     | Inr r \<Rightarrow>
         (let done_call = call\<lparr>tk_status := TOOL_CALL_STATUS_COMPLETED, tk_output_summary := trim_space (tc_summary r)\<rparr>;
              collected = map (\<lambda>(k, e). prepare_evidence env se i call k e) (enumerate 0 (tc_evidence r))
          in (EvToolCompleted done_call # map EvEvidenceCreated collected,
              \<lparr>eo_tool_id = tk_tool_id call, eo_summary = trim_space (tc_summary r),
               eo_observation = trim_space (tc_observation r), eo_evidence = collected,
               eo_err = None, eo_executed = True\<rparr>)))"

definition execute_tool_batch ::
  "loop_env \<Rightarrow> step_env \<Rightarrow> planned_call list \<Rightarrow> loop_state \<Rightarrow> exec_outcome list \<times> flow" where
  "execute_tool_batch env se calls st =
    (case send_events env (map (\<lambda>(i, p). EvToolStarted (started_call env se i p)) (enumerate 0 calls)) st of
       Go st1 \<Rightarrow>
         (let rs = map (\<lambda>(i, p). complete_call env se i p) (enumerate 0 calls);
              outcomes = map snd rs;
              st2 = st1\<lparr>ls_evidence_seq := ls_evidence_seq st1 + sum_list (map (\<lambda>oc. length (eo_evidence oc)) outcomes),
                ls_ran := ls_ran st1 @ map (\<lambda>(p, oc). \<lparr>rn_step = ls_step st1, rn_key = pc_key p,
                  rn_tool = pc_tool p, rn_ok = (eo_err oc = None)\<rparr>) (zip calls outcomes)\<rparr>
          in (outcomes, send_events env (concat (map fst rs)) st2))
     | f \<Rightarrow> ([], f))"

text \<open>The loop over the outcomes: what each call leaves in the state and in the turn.\<close>

definition observe_call :: "planned_call \<times> exec_outcome \<Rightarrow> loop_state \<times> tool_result_message list
    \<Rightarrow> loop_state \<times> tool_result_message list" where
  "observe_call c acc =
    (case (c, acc) of ((p, oc), (st, results)) \<Rightarrow>
      ((if eo_executed oc \<and> eo_err oc = None then
          set_stats (\<lambda>s. s\<lparr>st_tool_calls := st_tool_calls s + 1,
              st_tool_trace := append_tool_trace (st_tool_trace s) (td_id (pc_tool p))\<rparr>)
            (st\<lparr>ls_seen := ls_seen st @ [pc_key p], ls_new_evidence := True\<rparr>)
        else st),
       results @ [observe_tool_result (pc_inv p) oc (td_observe_max_chars (pc_tool p))]))"

definition act_phase ::
  "loop_env \<Rightarrow> run_setup \<Rightarrow> step_env \<Rightarrow> assistant_reply \<Rightarrow> tool_invocation list \<Rightarrow> loop_state \<Rightarrow> flow"
where
  "act_phase env ru se reply invs0 st =
    (let opts = le_opts env; invs = ensure_invocation_ids (se_fresh se) invs0 in
     if lc_max_token_budget opts > 0 \<and> ls_token_used st + ls_extra st > lc_max_token_budget opts
     then force_conclude env se st
     else
       (let (refused, planned) = plan_calls (validate_invocation env ru (se_registry se) (ls_seen st)) invs;
            turn = (\<lambda>results. \<lparr>tt_content = ar_content reply, tt_calls = invs, tt_results = results\<rparr>)
        in if planned = [] then
             (let st1 = st\<lparr>ls_err_streak := ls_err_streak st + 1, ls_turns := ls_turns st @ [turn refused]\<rparr> in
              if ls_err_streak st1 \<ge> lc_max_tool_errors opts then force_conclude env se st1 else Again st1)
           else
             (case execute_tool_batch env se planned (st\<lparr>ls_err_streak := 0\<rparr>) of (outcomes, f) \<Rightarrow>
                and_then f (\<lambda>st1.
                  (let (observed, tokens) =
                         (if lc_observe_compression opts
                          then compress_observations (se_compress se) (map pc_tool planned) outcomes
                          else (outcomes, 0));
                       st2 = st1\<lparr>ls_extra := ls_extra st1 + tokens\<rparr>;
                       (st3, results) = fold observe_call (zip planned observed) (st2, refused)
                   in Again (st3\<lparr>ls_turns := ls_turns st3 @ [turn results]\<rparr>))))))"

section \<open>The loop\<close>

definition after_thought ::
  "loop_env \<Rightarrow> run_setup \<Rightarrow> step_env \<Rightarrow> message_context list \<Rightarrow> assistant_reply \<Rightarrow> tool_invocation list
    \<Rightarrow> bool \<Rightarrow> loop_state \<Rightarrow> flow" where
  "after_thought env ru se history reply invs streamed st =
    (let st1 = count_tokens env history reply st in
     and_then
       (if \<not> streamed \<and> invs \<noteq> [] \<and> trim_space (ar_content reply) \<noteq> []
        then send_events env [EvThinking (ar_content reply)] st1 else Go st1)
       (\<lambda>st2. if invs = [] then conclude_phase env se reply st2
              else act_phase env ru se reply invs st2))"

definition loop_step :: "loop_env \<Rightarrow> run_setup \<Rightarrow> loop_state \<Rightarrow> flow" where
  "loop_step env ru st0 =
    (let se = le_step env (ls_step st0); st = set_stats (\<lambda>s. s\<lparr>st_step_count := ls_step st0 + 1\<rparr>) st0 in
     and_then (reassess_phase env se st) (\<lambda>st1.
       (case think env ru se st1 of
          (ThinkFailed e, st2) \<Rightarrow>
            if se_gone se AtThink then Stop ClientGone st2 else Stop (RunFailed e) st2
        | (ThinkGone, st2) \<Rightarrow> Stop ClientGone st2
        | (Thought reply invs streamed, st2) \<Rightarrow>
            after_thought env ru se (think_history env st1) reply invs streamed st2)))"

text \<open>\<open>None\<close> is the fuel running out.\<close>

fun run_steps :: "nat \<Rightarrow> loop_env \<Rightarrow> run_setup \<Rightarrow> loop_state \<Rightarrow> (loop_outcome \<times> loop_state) option" where
  "run_steps 0 env ru st = None"
| "run_steps (Suc n) env ru st =
    (case (if int (ls_step st) < ls_max_steps st then loop_step env ru st
           else force_conclude env (le_step env (ls_step st)) st) of
       Stop r st' \<Rightarrow> Some (r, st')
     | Again st' \<Rightarrow> run_steps n env ru (st'\<lparr>ls_step := ls_step st' + 1\<rparr>)
     | Go st' \<Rightarrow> run_steps n env ru (st'\<lparr>ls_step := ls_step st' + 1\<rparr>))"

definition max_total_steps :: "loop_config \<Rightarrow> int" where
  "max_total_steps o' = lc_max_steps o' + lc_max_reflections o' * lc_max_reflection_steps o'"

text \<open>The deferred copy of the counters.\<close>

definition final_stats :: "loop_state \<Rightarrow> loop_state" where
  "final_stats st = set_stats (\<lambda>s. s\<lparr>st_token_used := ls_token_used st, st_extra_tokens := ls_extra st,
     st_reflections := ls_reflections st, st_replans := ls_replans st,
     st_hypothesis_resolved := resolved_count (ls_ledger st)\<rparr>) st"

text \<open>The return before the loop skips the deferred copy, which is registered after the plan.\<close>

definition run_loop :: "loop_env \<Rightarrow> (loop_outcome \<times> loop_state) option" where
  "run_loop env =
    (let ru = prepare_run env in
     case plan_phase env (initial_state env ru) of
       Stop r st \<Rightarrow> Some (r, st)
     | Go st \<Rightarrow> map_option (map_prod id final_stats)
         (run_steps (Suc (nat (max_total_steps (le_opts env)))) env ru st)
     | Again st \<Rightarrow> None)"

end
