(* ===== verification/Loop_Facts.thy ===== *)
theory Loop_Facts
  imports Agent_Loop
begin

text \<open>
  What the loop preserves. The locale \<open>step_invariant\<close> is the contract between one step of
  the loop and an invariant: its laws are the elementary changes a step makes to the state, its
  lemma says that a step built from them keeps the invariant. \<open>loop_invariant\<close> adds the passage
  to the next step and concludes about whole runs. Each invariant is an interpretation.
\<close>

section \<open>Flows\<close>

fun flow_all :: "(loop_state \<Rightarrow> bool) \<Rightarrow> (loop_outcome \<Rightarrow> loop_state \<Rightarrow> bool) \<Rightarrow> flow \<Rightarrow> bool" where
  "flow_all P Q (Go st) = P st"
| "flow_all P Q (Again st) = P st"
| "flow_all P Q (Stop r st) = Q r st"

lemma flow_all_and_then:
  assumes "flow_all P Q f" "\<And>st. P st \<Longrightarrow> flow_all P Q (g st)"
  shows "flow_all P Q (and_then f g)"
  using assms by (cases f) auto

definition quiet :: "run_event \<Rightarrow> bool" where
  "quiet e \<longleftrightarrow> (\<forall>c. e \<noteq> EvToolStarted c)"

lemma quiet_simps [simp]:
  "quiet (EvThinking x)" "quiet (EvPlanGenerated x)" "quiet (EvToolFailed c)" "quiet (EvToolCompleted c)"
  "quiet (EvEvidenceCreated e)" "quiet (EvAnswerDelta d m)" "\<not> quiet (EvToolStarted c)"
  by (auto simp: quiet_def)

text \<open>What a tool call must satisfy to be started.\<close>

definition call_allowed :: "loop_env \<Rightarrow> run_setup \<Rightarrow> tool_registry \<Rightarrow> agent_tool_call \<Rightarrow> bool" where
  "call_allowed env ru reg c \<longleftrightarrow>
    (\<exists>t. tr_get reg (rq_tool_id (tk_input c)) = Some t \<and> td_id t = tk_tool_id c \<and>
       td_enabled t \<and> td_read_only t \<and> allowed_for_agent t (ag_type (le_agent env)) \<and>
       (case ru_allowed ru of None \<Rightarrow> True | Some ids \<Rightarrow> rq_tool_id (tk_input c) \<in> set ids) \<and>
       validate_against_schema (td_parameters t) (rq_arguments (tk_input c)) = None)"

text \<open>Every call of a turn has exactly one result under its ID and name, and no ID is blank.\<close>

definition turn_paired :: "tool_call_turn \<Rightarrow> bool" where
  "turn_paired t \<longleftrightarrow>
    mset (map (\<lambda>r. (trm_call_id r, trm_name r)) (tt_results t)) =
      mset (map (\<lambda>c. (inv_id c, inv_name c)) (tt_calls t)) \<and>
    (\<forall>c \<in> set (tt_calls t). trim_space (inv_id c) \<noteq> [])"

definition answer_ok :: "loop_env \<Rightarrow> loop_state \<Rightarrow> string \<Rightarrow> bool" where
  "answer_ok env st a \<longleftrightarrow> a \<noteq> [] \<and>
    (is_generic_closing a \<longrightarrow> a = fallback_answer (rr_message (le_request env)) (ls_turns st))"

definition merged_from :: "message_context list \<Rightarrow> message_context list \<Rightarrow> bool" where
  "merged_from h h' \<longleftrightarrow> (\<exists>gs. h' = foldl merge_leading_system_prompt h gs)"

lemma merged_from_refl [simp]: "merged_from h h"
  unfolding merged_from_def by (rule exI [of _ "[]"]) simp

lemma merged_from_merge: "merged_from h h' \<Longrightarrow> merged_from h (merge_leading_system_prompt h' g)"
  unfolding merged_from_def by (metis foldl_Cons foldl_Nil foldl_append)

lemma merged_from_think: "merged_from (ls_history st) (think_history env st)"
  by (auto simp: think_history_def Let_def intro!: merged_from_merge)

lemma fallback_not_Nil [simp]: "fallback_answer q turns \<noteq> []"
  by (simp add: fallback_answer_def)

lemma final_answer_ok:
  assumes "trim_space a \<noteq> []"
  shows "final_diagnostic_answer q turns draft a \<noteq> [] \<and>
    (is_generic_closing (final_diagnostic_answer q turns draft a) \<longrightarrow>
      final_diagnostic_answer q turns draft a = fallback_answer q turns)"
  using assms by (auto simp: final_diagnostic_answer_def is_substantive_answer_def Let_def)

abbreviation pair_of_call :: "tool_invocation \<Rightarrow> string \<times> string" where
  "pair_of_call c \<equiv> (inv_id c, inv_name c)"

abbreviation pair_of_result :: "tool_result_message \<Rightarrow> string \<times> string" where
  "pair_of_result r \<equiv> (trm_call_id r, trm_name r)"

lemma plan_calls_paired:
  assumes "plan_calls check invs = (refused, calls)" "\<And>ti p. check ti = Inr p \<Longrightarrow> pc_inv p = ti"
  shows "mset (map pair_of_result refused) + mset (map (pair_of_call \<circ> pc_inv) calls) = mset (map pair_of_call invs)"
  using assms
  by (induction check invs arbitrary: refused calls rule: plan_calls.induct)
     (auto simp: err_tool_result_def split: prod.splits sum.splits)

lemma plan_calls_checked:
  "plan_calls check invs = (refused, calls) \<Longrightarrow> p \<in> set calls \<Longrightarrow> \<exists>ti. check ti = Inr p"
  by (induction check invs arbitrary: refused calls rule: plan_calls.induct)
     (auto split: prod.splits sum.splits)

lemma call_id_not_blank: "trim_space (''call_'' @ x) \<noteq> []"
  by (rule trim_space_not_Nil) (auto simp: ws_head_0 ws_units_def)

lemma ensure_ids_not_blank:
  assumes "c \<in> set (ensure_invocation_ids fresh invs)"
  shows "trim_space (inv_id c) \<noteq> []"
proof -
  from assms obtain i ti where
    "c = (if trim_space (inv_id ti) = [] then ti\<lparr>inv_id := ''call_'' @ nat_to_string i @ ''_'' @ fresh i\<rparr> else ti)"
    by (auto simp: ensure_invocation_ids_def)
  then show ?thesis using call_id_not_blank by (cases "trim_space (inv_id ti) = []") simp_all
qed

lemma validate_ok:
  assumes "validate_invocation env ru reg seen ti = Inr p"
  shows "pc_inv p = ti \<and> pc_key p \<notin> set seen \<and> call_allowed env ru reg (started_call env se i p)"
  using assms
  by (auto simp: validate_invocation_def Let_def call_allowed_def started_call_def
      split: option.splits if_splits)

lemma observe_tool_result_pair [simp]:
  "pair_of_result (observe_tool_result ti oc m) = pair_of_call ti"
  by (simp add: observe_tool_result_def Let_def split: option.splits)

definition succeeded :: "planned_call \<times> exec_outcome \<Rightarrow> bool" where
  "succeeded c \<longleftrightarrow> eo_executed (snd c) \<and> eo_err (snd c) = None"

definition observed_result :: "planned_call \<times> exec_outcome \<Rightarrow> tool_result_message" where
  "observed_result c = observe_tool_result (pc_inv (fst c)) (snd c) (td_observe_max_chars (pc_tool (fst c)))"

lemma observe_call_eq:
  "observe_call c (st, rs) =
    (if succeeded c then st\<lparr>ls_seen := ls_seen st @ [pc_key (fst c)], ls_new_evidence := True,
       ls_stats := (ls_stats st)\<lparr>st_tool_calls := st_tool_calls (ls_stats st) + 1,
         st_tool_trace := append_tool_trace (st_tool_trace (ls_stats st)) (td_id (pc_tool (fst c)))\<rparr>\<rparr> else st,
     rs @ [observed_result c])"
  by (cases c) (simp add: observe_call_def succeeded_def observed_result_def)

text \<open>The loop over the outcomes, up to the evidence flag and the statistics.\<close>

lemma observe_fold:
  "\<exists>b s. fold observe_call cs (st, rs) =
    (st\<lparr>ls_seen := ls_seen st @ map (pc_key \<circ> fst) (filter succeeded cs), ls_new_evidence := b, ls_stats := s\<rparr>,
     rs @ map observed_result cs)"
proof (induction cs arbitrary: st rs)
  case Nil
  show ?case by (intro exI [of _ "ls_new_evidence st"] exI [of _ "ls_stats st"]) simp
next
  case (Cons c cs)
  from Cons [of "fst (observe_call c (st, rs))" "snd (observe_call c (st, rs))"]
  obtain b s where "fold observe_call cs (observe_call c (st, rs)) =
      (fst (observe_call c (st, rs))\<lparr>ls_seen := ls_seen (fst (observe_call c (st, rs))) @ map (pc_key \<circ> fst) (filter succeeded cs),
         ls_new_evidence := b, ls_stats := s\<rparr>,
       snd (observe_call c (st, rs)) @ map observed_result cs)"
    by (auto simp: o_def)
  then show ?case
    by (cases "succeeded c"; intro exI [of _ b] exI [of _ s]; simp add: observe_call_eq)
qed

section \<open>A batch\<close>

lemma complete_call_frame:
  "eo_executed (snd (complete_call env se i p)) \<and> (\<forall>e \<in> set (fst (complete_call env se i p)). quiet e)"
  by (auto simp: complete_call_def Let_def split: sum.splits)

text \<open>The calls a batch carries out, with their outcomes.\<close>

definition batch_outcomes :: "loop_env \<Rightarrow> step_env \<Rightarrow> planned_call list \<Rightarrow> exec_outcome list" where
  "batch_outcomes env se calls = map (\<lambda>(i, p). snd (complete_call env se i p)) (enumerate 0 calls)"

definition batch_ran :: "loop_env \<Rightarrow> step_env \<Rightarrow> planned_call list \<Rightarrow> nat \<Rightarrow> ran_call list" where
  "batch_ran env se calls k = map (\<lambda>(p, oc). \<lparr>rn_step = k, rn_key = pc_key p, rn_tool = pc_tool p,
     rn_ok = (eo_err oc = None)\<rparr>) (zip calls (batch_outcomes env se calls))"

lemma batch_outcomes_length [simp]: "length (batch_outcomes env se calls) = length calls"
  by (simp add: batch_outcomes_def)

lemma batch_outcomes_executed: "oc \<in> set (batch_outcomes env se calls) \<Longrightarrow> eo_executed oc"
  using complete_call_frame by (auto simp: batch_outcomes_def)

lemma filter_zip_same:
  assumes "length xs = length ys" "length ys = length zs" "\<And>i. i < length ys \<Longrightarrow> f (ys ! i) = f (zs ! i)"
  shows "map fst (filter (\<lambda>(p, oc). f oc) (zip xs ys)) = map fst (filter (\<lambda>(p, oc). f oc) (zip xs zs))"
  using assms
proof (induction xs ys arbitrary: zs rule: list_induct2)
  case (Cons x xs y ys)
  then obtain z zs' where zs: "zs = z # zs'" by (cases zs) auto
  have "f y = f z" using Cons.prems(2) [of 0] zs by simp
  moreover have "f (ys ! i) = f (zs' ! i)" if "i < length ys" for i
    using Cons.prems(2) [of "Suc i"] zs that by simp
  ultimately show ?case using Cons zs by auto
qed simp

text \<open>Compression changes neither which calls succeeded nor, therefore, what is remembered.\<close>

lemma observed_keys:
  assumes "observed = (if on then fst (compress_observations answers (map pc_tool calls) (batch_outcomes env se calls))
      else batch_outcomes env se calls)"
  shows "map (pc_key \<circ> fst) (filter succeeded (zip calls observed)) =
    map rn_key (filter rn_ok (batch_ran env se calls k))"
proof -
  let ?ocs = "batch_outcomes env se calls" and ?f = "\<lambda>oc. eo_executed oc \<and> eo_err oc = None"
  have succ: "succeeded = (\<lambda>(p, oc). ?f oc)" by (auto simp: succeeded_def)
  have len: "length observed = length calls" by (simp add: assms)
  have same: "?f (?ocs ! i) = ?f (observed ! i)" if "i < length calls" for i
    using that compress_one_frame by (simp add: assms compress_observations_nth)
  have 1: "map fst (filter succeeded (zip calls observed)) = map fst (filter succeeded (zip calls ?ocs))"
    unfolding succ by (rule filter_zip_same) (simp_all add: len same)
  have 2: "filter succeeded (zip calls ?ocs) = filter (\<lambda>(p, oc). eo_err oc = None) (zip calls ?ocs)"
  proof (rule filter_cong)
    fix x assume "x \<in> set (zip calls ?ocs)"
    then have "eo_executed (snd x)"
      by (metis batch_outcomes_executed prod.collapse set_zip_rightD)
    then show "succeeded x = (case x of (p, oc) \<Rightarrow> eo_err oc = None)"
      by (cases x) (simp add: succeeded_def)
  qed simp
  have 3: "map rn_key (filter rn_ok (batch_ran env se calls k)) =
      map pc_key (map fst (filter (\<lambda>(p, oc). eo_err oc = None) (zip calls ?ocs)))"
    by (simp add: batch_ran_def filter_map o_def case_prod_unfold)
  have "map (pc_key \<circ> fst) (filter succeeded (zip calls observed)) = map pc_key (map fst (filter succeeded (zip calls observed)))"
    by simp
  then show ?thesis unfolding 1 2 3 .
qed

lemma enumerate_map_started:
  "map (\<lambda>(i, p). EvToolStarted (started_call env se i p)) (enumerate 0 calls) =
    map EvToolStarted (map (\<lambda>(i, p). started_call env se i p) (enumerate 0 calls))"
  by (simp add: o_def case_prod_unfold)

section \<open>The contract\<close>

locale step_invariant =
  fixes env :: loop_env and ru :: run_setup
    and P :: "loop_state \<Rightarrow> bool" and Q :: "loop_outcome \<Rightarrow> loop_state \<Rightarrow> bool"
  assumes stats: "P st \<Longrightarrow> P (st\<lparr>ls_stats := s\<rparr>)"
    and extra: "P st \<Longrightarrow> P (st\<lparr>ls_extra := x\<rparr>)"
    and tokens: "P st \<Longrightarrow> P (st\<lparr>ls_token_used := x\<rparr>)"
    and streak: "P st \<Longrightarrow> P (st\<lparr>ls_err_streak := x\<rparr>)"
    and evidence_seq: "P st \<Longrightarrow> P (st\<lparr>ls_evidence_seq := q\<rparr>)"
    and rewritten: "P st \<Longrightarrow> P (st\<lparr>ls_rewrites := q\<rparr>)"
    and new_evidence: "P st \<Longrightarrow> P (st\<lparr>ls_new_evidence := b\<rparr>)"
    and plan_set: "P st \<Longrightarrow> P (st\<lparr>ls_plan := p\<rparr>)"
    and ledger_set: "P st \<Longrightarrow> P (st\<lparr>ls_ledger := l\<rparr>)"
    and event: "P st \<Longrightarrow> quiet ev \<Longrightarrow> P (st\<lparr>ls_events := ls_events st @ [ev]\<rparr>)"
    and started: "P st \<Longrightarrow> call_allowed env ru (se_registry (le_step env (ls_step st))) c \<Longrightarrow>
      P (st\<lparr>ls_events := ls_events st @ [EvToolStarted c]\<rparr>)"
    and replanned: "P st \<Longrightarrow> ls_replans st < lc_max_replans (le_opts env) \<Longrightarrow>
      P (st\<lparr>ls_replans := ls_replans st + 1, ls_last_replan := n\<rparr>)"
    and guided: "P st \<Longrightarrow> P (st\<lparr>ls_history := merge_leading_system_prompt (ls_history st) g\<rparr>)"
    and asked: "P st \<Longrightarrow> merged_from (ls_history st) (lq_history r) \<Longrightarrow>
      P (st\<lparr>ls_requests := ls_requests st @ [r]\<rparr>)"
    and reflected: "P st \<Longrightarrow> ls_reflections st < lc_max_reflections (le_opts env) \<Longrightarrow>
      P (st\<lparr>ls_reflections := ls_reflections st + 1\<rparr>)"
    and extended: "P st \<Longrightarrow> m \<le> max_total_steps (le_opts env) \<Longrightarrow> P (st\<lparr>ls_max_steps := m\<rparr>)"
    and turned: "P st \<Longrightarrow> turn_paired tt \<Longrightarrow> P (st\<lparr>ls_turns := ls_turns st @ [tt]\<rparr>)"
    and batch: "P st \<Longrightarrow> (\<forall>c \<in> set cs. rn_step c = ls_step st \<and> rn_key c \<notin> set (ls_seen st)) \<Longrightarrow>
      P (st\<lparr>ls_ran := ls_ran st @ cs, ls_seen := ls_seen st @ map rn_key (filter rn_ok cs)\<rparr>)"
    and gone: "P st \<Longrightarrow> Q ClientGone st"
    and gone_batch: "P st \<Longrightarrow> (\<forall>c \<in> set cs. rn_step c = ls_step st \<and> rn_key c \<notin> set (ls_seen st)) \<Longrightarrow>
      Q ClientGone (st\<lparr>ls_ran := ls_ran st @ cs\<rparr>)"
    and failed: "P st \<Longrightarrow> Q (RunFailed er) st"
    and answered: "P st \<Longrightarrow> answer_ok env st a \<Longrightarrow> Q (Answered a) st"
begin

lemmas changes = stats extra tokens streak evidence_seq rewritten new_evidence plan_set ledger_set

lemma emit_quiet:
  "P st \<Longrightarrow> (\<forall>e \<in> set es. quiet e) \<Longrightarrow> P (st\<lparr>ls_events := snd (emit_all send es (ls_events st))\<rparr>)"
proof (induction es arbitrary: st)
  case (Cons e es)
  then have "P (st\<lparr>ls_events := ls_events st @ [e]\<rparr>)" by (simp add: event)
  from Cons.IH [OF this] Cons.prems show ?case by simp
qed simp

lemma emit_started:
  "P st \<Longrightarrow> (\<forall>c \<in> set cs. call_allowed env ru (se_registry (le_step env (ls_step st))) c) \<Longrightarrow>
    P (st\<lparr>ls_events := snd (emit_all send (map EvToolStarted cs) (ls_events st))\<rparr>)"
proof (induction cs arbitrary: st)
  case (Cons c cs)
  then have "P (st\<lparr>ls_events := ls_events st @ [EvToolStarted c]\<rparr>)" by (simp add: started)
  from Cons.IH [OF this] Cons.prems show ?case by simp
qed simp

lemma send_quiet:
  assumes "P st" "\<forall>e \<in> set es. quiet e"
  shows "flow_all P Q (send_events env es st)"
  using emit_quiet [OF assms, of "le_send env"]
  by (auto simp: send_events_def gone split: prod.splits bool.splits)

lemma read_answer_events:
  "P st \<Longrightarrow> P (st\<lparr>ls_events := snd (read_answer env out (ls_events st) es)\<rparr>)"
proof (induction es arbitrary: st out)
  case (Cons e es)
  show ?case
  proof (cases "sv_err e")
    case None
    let ?evs = "if sv_delta e \<noteq> [] then [EvAnswerDelta (sv_delta e) (le_message_id env)] else []"
    obtain ok evs where emitted: "emit_all (le_send env) ?evs (ls_events st) = (ok, evs)" by fastforce
    have p: "P (st\<lparr>ls_events := evs\<rparr>)"
      using emit_quiet [OF Cons.prems, of ?evs "le_send env"] emitted by auto
    from Cons.IH [OF p] p emitted None show ?thesis
      by (auto split: bool.splits if_splits)
  qed (use Cons.prems in simp)
qed simp

lemma final_answer:
  assumes "P st"
  shows "flow_all P Q (stream_final_answer env se st draft)"
proof -
  let ?r = "\<lparr>lq_history = merge_leading_system_prompt (ls_history st) (final_answer_instruction draft),
     lq_content = rr_message (le_request env), lq_turns = ls_turns st, lq_tools = [], lq_choice = ''none''\<rparr>"
  let ?st = "st\<lparr>ls_requests := ls_requests st @ [?r]\<rparr>"
  have p: "P ?st"
    using asked [OF assms, of ?r] merged_from_merge [OF merged_from_refl] by simp
  have events: "P (?st\<lparr>ls_events := snd (read_answer env [] (ls_events st) es)\<rparr>)" for es
    using read_answer_events [OF p, of "[]" es] by simp
  have fail: "flow_all P Q (if g then Stop ClientGone s else Stop (RunFailed e) s)" if "P s" for g e s
    using that by (simp add: gone failed)
  show ?thesis
  proof (cases "se_final se")
    case (Inl e)
    then show ?thesis using fail [OF p] by (simp add: stream_final_answer_def Let_def)
  next
    case (Inr es)
    obtain r evs where run: "read_answer env [] (ls_events st) es = (r, evs)" by fastforce
    have pe: "P (?st\<lparr>ls_events := evs\<rparr>)" using events [of es] run by simp
    show ?thesis
      using Inr run fail [OF pe] gone [OF pe] failed [OF pe] answered [OF pe] final_answer_ok [of "trim_space _"]
      by (cases r) (auto simp: stream_final_answer_def Let_def answer_ok_def)
  qed
qed

lemma reassess:
  assumes "P st"
  shows "flow_all P Q (reassess_phase env se st)"
proof (cases "reassess_due env st")
  case due: True
  obtain n res where ans: "se_reassess se = (n, res)" by fastforce
  have p1: "P (st\<lparr>ls_extra := ls_extra st + n\<rparr>)" by (rule extra [OF assms])
  show ?thesis
  proof (cases res)
    case (Inl e)
    with ans due p1 show ?thesis by (simp add: reassess_phase_def Let_def gone)
  next
    case (Inr r)
    have "ls_replans st < lc_max_replans (le_opts env)"
      using due by (simp add: reassess_due_def Let_def)
    then have "P (st\<lparr>ls_extra := ls_extra st + n, ls_replans := ls_replans st + 1, ls_last_replan := ls_step st\<rparr>)"
      using replanned [OF p1, of "ls_step st"] by simp
    then have p2: "P (st\<lparr>ls_extra := ls_extra st + n, ls_replans := ls_replans st + 1,
        ls_last_replan := ls_step st, ls_new_evidence := False\<rparr>)" (is "P ?st2")
      using new_evidence [of "st\<lparr>ls_extra := ls_extra st + n, ls_replans := ls_replans st + 1, ls_last_replan := ls_step st\<rparr>" False]
      by simp
    have p3: "P (?st2\<lparr>ls_ledger := l\<rparr>)" for l
      using ledger_set [OF p2] by simp
    have sends: "flow_all P Q (send_events env [EvPlanGenerated t] (?st2\<lparr>ls_plan := t\<rparr>))"
      "flow_all P Q (send_events env [EvPlanGenerated t] (?st2\<lparr>ls_ledger := l, ls_plan := t\<rparr>))" for t l
      using plan_set [OF p2, of t] plan_set [OF p3, of t l] by (simp_all add: send_quiet)
    from ans Inr due p2 p3 sends show ?thesis
      by (simp add: reassess_phase_def Let_def)
  qed
qed (simp add: reassess_phase_def assms)

lemma conclude:
  assumes "P st"
  shows "flow_all P Q (conclude_phase env se reply st)"
proof -
  let ?a = "trim_space (ar_content reply)"
  consider (poor) "\<not> is_substantive_answer ?a (ls_turns st)"
    | (reflect) "is_substantive_answer ?a (ls_turns st)" "ls_reflections st < lc_max_reflections (le_opts env)"
        "?a \<noteq> [] \<and> reflection_enabled (le_opts env) \<and>
         reflection_budget_left (le_opts env) (ls_token_used st + ls_extra st)"
    | (plain) "is_substantive_answer ?a (ls_turns st)"
        "\<not> (ls_reflections st < lc_max_reflections (le_opts env) \<and> ?a \<noteq> [] \<and> reflection_enabled (le_opts env) \<and>
         reflection_budget_left (le_opts env) (ls_token_used st + ls_extra st))"
    by blast
  then show ?thesis
  proof cases
    case poor
    have "P (st\<lparr>ls_rewrites := ls_rewrites st + 1\<rparr>)" (is "P ?st1") by (rule rewritten [OF assms])
    then show ?thesis
      using poor guided [OF rewritten [OF assms, of "Suc 0"]] answered [of ?st1]
      by (simp add: conclude_phase_def Let_def answer_ok_def fallback_not_Nil)
  next
    case plain
    then show ?thesis using final_answer [OF assms] by (auto simp: conclude_phase_def Let_def)
  next
    case reflect
    let ?st1 = "st\<lparr>ls_reflections := ls_reflections st + 1, ls_extra := ls_extra st + int (panel_tokens (se_panel se))\<rparr>"
    have p1: "P ?st1"
      using extra [OF reflected [OF assms reflect(2)]] by simp
    have p2: "P (?st1\<lparr>ls_stats := s\<rparr>)" for s
      using stats [OF p1] by simp
    have p3: "P (?st1\<lparr>ls_stats := s,
        ls_max_steps := min (max_total_steps (le_opts env)) m,
        ls_turns := ls_turns st @ [\<lparr>tt_content = a, tt_calls = [], tt_results = []\<rparr>],
        ls_history := merge_leading_system_prompt (ls_history st) g\<rparr>)" for s m a g
      using guided [OF turned [OF extended [OF p2, of "min (max_total_steps (le_opts env)) m" s],
            of "\<lparr>tt_content = a, tt_calls = [], tt_results = []\<rparr>"], of g]
      by (simp add: turn_paired_def)
    show ?thesis
    proof (cases "reflect_panel (se_gone se AtReflect) (se_panel se)")
      case (Inl e)
      with reflect p2 final_answer [OF p2] show ?thesis
        by (simp add: conclude_phase_def Let_def gone)
    next
      case (Inr v)
      with reflect p3 final_answer [OF p2] show ?thesis
        by (simp add: conclude_phase_def Let_def max_total_steps_def [symmetric] add.assoc)
    qed
  qed
qed

lemma batch_phase:
  assumes "P st"
    and fresh: "\<forall>p \<in> set calls. pc_key p \<notin> set (ls_seen st)"
    and allowed: "\<And>i p. p \<in> set calls \<Longrightarrow>
      call_allowed env ru (se_registry (le_step env (ls_step st))) (started_call env se i p)"
    and "execute_tool_batch env se calls st = (outcomes, f)"
  shows "case f of
      Go st' \<Rightarrow> outcomes = batch_outcomes env se calls \<and>
        (\<exists>st0. P st0 \<and> st' = st0\<lparr>ls_ran := ls_ran st0 @ batch_ran env se calls (ls_step st0)\<rparr> \<and>
          ls_step st0 = ls_step st \<and> ls_seen st0 = ls_seen st)
    | Again st' \<Rightarrow> False
    | Stop r st' \<Rightarrow> Q r st'"
proof -
  let ?started = "map (\<lambda>(i, p). started_call env se i p) (enumerate 0 calls)"
  let ?rs = "map (\<lambda>(i, p). complete_call env se i p) (enumerate 0 calls)"
  let ?quiet = "concat (map fst ?rs)"
  obtain ok1 evs1 where e1: "emit_all (le_send env) (map EvToolStarted ?started) (ls_events st) = (ok1, evs1)"
    by fastforce
  have started_ok: "\<forall>c \<in> set ?started. call_allowed env ru (se_registry (le_step env (ls_step st))) c"
    using allowed by (auto simp: in_set_enumerate_eq)
  have p1: "P (st\<lparr>ls_events := evs1\<rparr>)"
    using emit_started [OF assms(1) started_ok, of "le_send env"] e1 by simp
  show ?thesis
  proof (cases ok1)
    case False
    then show ?thesis
      using assms(4) e1 gone [OF p1]
      by (auto simp: execute_tool_batch_def send_events_def enumerate_map_started)
  next
    case True
    obtain ok2 evs2 where e2: "emit_all (le_send env) ?quiet evs1 = (ok2, evs2)" by fastforce
    let ?n = "ls_evidence_seq st + sum_list (map (\<lambda>oc. length (eo_evidence oc)) (batch_outcomes env se calls))"
    let ?st0 = "st\<lparr>ls_events := evs2, ls_evidence_seq := ?n\<rparr>"
    have "\<forall>e \<in> set ?quiet. quiet e" using complete_call_frame by fastforce
    from emit_quiet [OF p1 this, of "le_send env"] e2 have "P (st\<lparr>ls_events := evs2\<rparr>)" by simp
    from evidence_seq [OF this, of ?n] have p0: "P ?st0" by simp
    have outs: "map (snd \<circ> (\<lambda>(i, p). complete_call env se i p)) (enumerate 0 calls) = batch_outcomes env se calls"
      "map (g \<circ> (snd \<circ> (\<lambda>(i, p). complete_call env se i p))) (enumerate 0 calls) = map g (batch_outcomes env se calls)"
      for g :: "exec_outcome \<Rightarrow> nat"
      by (simp_all add: batch_outcomes_def o_def case_prod_unfold)
    have ran: "\<forall>c \<in> set (batch_ran env se calls (ls_step st)). rn_step c = ls_step ?st0 \<and> rn_key c \<notin> set (ls_seen ?st0)"
      using fresh by (auto simp: batch_ran_def dest: set_zip_leftD)
    have run: "execute_tool_batch env se calls st = (batch_outcomes env se calls,
        if ok2 then Go (?st0\<lparr>ls_ran := ls_ran st @ batch_ran env se calls (ls_step st)\<rparr>)
        else Stop ClientGone (?st0\<lparr>ls_ran := ls_ran st @ batch_ran env se calls (ls_step st)\<rparr>))"
      using e1 e2 True
      by (cases st) (simp add: execute_tool_batch_def send_events_def enumerate_map_started outs batch_ran_def Let_def)
    show ?thesis
    proof (cases ok2)
      case True
      with run assms(4) p0 show ?thesis by (auto intro!: exI [of _ ?st0])
    next
      case False
      with run assms(4) gone_batch [OF p0 ran] show ?thesis by auto
    qed
  qed
qed

lemma act:
  assumes "P st" "se = le_step env (ls_step st)"
  shows "flow_all P Q (act_phase env ru se reply invs0 st)"
proof -
  define invs where "invs = ensure_invocation_ids (se_fresh se) invs0"
  obtain refused calls where pc: "plan_calls (validate_invocation env ru (se_registry se) (ls_seen st)) invs = (refused, calls)"
    by fastforce
  let ?turn = "\<lambda>rs. \<lparr>tt_content = ar_content reply, tt_calls = invs, tt_results = rs\<rparr>"
  have inv_of: "validate_invocation env ru (se_registry se) (ls_seen st) ti = Inr p \<Longrightarrow> pc_inv p = ti" for ti p
    using validate_ok by blast
  show ?thesis
  proof (cases "lc_max_token_budget (le_opts env) > 0 \<and>
      ls_token_used st + ls_extra st > lc_max_token_budget (le_opts env)")
    case True
    then show ?thesis by (simp add: act_phase_def Let_def force_conclude_def final_answer [OF assms(1)])
  next
    case budget: False
    show ?thesis
    proof (cases "calls = []")
      case True
      have "turn_paired (?turn refused)"
        using plan_calls_paired [OF pc inv_of] True ensure_ids_not_blank
        by (auto simp: turn_paired_def invs_def)
      then have "P (st\<lparr>ls_err_streak := ls_err_streak st + 1, ls_turns := ls_turns st @ [?turn refused]\<rparr>)"
        using turned [OF streak [OF assms(1)]] by simp
      then show ?thesis
        using budget pc True
        by (auto simp: act_phase_def Let_def force_conclude_def invs_def [symmetric] final_answer)
    next
      case False
      obtain outcomes f where ex: "execute_tool_batch env se calls (st\<lparr>ls_err_streak := 0\<rparr>) = (outcomes, f)"
        by fastforce
      have checked: "pc_key p \<notin> set (ls_seen st) \<and> call_allowed env ru (se_registry se) (started_call env se i p)"
        if "p \<in> set calls" for p i
        using plan_calls_checked [OF pc that] validate_ok by blast
      from batch_phase [OF streak [OF assms(1), of 0] _ _ ex] checked
      have step: "case f of
          Go st' \<Rightarrow> outcomes = batch_outcomes env se calls \<and>
            (\<exists>st0. P st0 \<and> st' = st0\<lparr>ls_ran := ls_ran st0 @ batch_ran env se calls (ls_step st0)\<rparr> \<and>
              ls_step st0 = ls_step st \<and> ls_seen st0 = ls_seen st)
        | Again st' \<Rightarrow> False
        | Stop r st' \<Rightarrow> Q r st'"
        using assms(2) by (simp split: flow.splits)
      show ?thesis
      proof (cases f)
        case (Go st1)
        with step obtain st0 where st0: "outcomes = batch_outcomes env se calls" "P st0"
          "st1 = st0\<lparr>ls_ran := ls_ran st0 @ batch_ran env se calls (ls_step st0)\<rparr>"
          "ls_seen st0 = ls_seen st" by auto
        obtain observed n where obs: "(observed, n) =
            (if lc_observe_compression (le_opts env)
             then compress_observations (se_compress se) (map pc_tool calls) outcomes else (outcomes, 0))"
          by (metis surj_pair)
        then have observed: "observed = (if lc_observe_compression (le_opts env)
            then fst (compress_observations (se_compress se) (map pc_tool calls) (batch_outcomes env se calls))
            else batch_outcomes env se calls)"
          using st0(1) by (auto split: if_splits simp: fst_conv dest: arg_cong [where f = fst])
        let ?results = "refused @ map observed_result (zip calls observed)"
        have len: "length observed = length calls" by (simp add: observed)
        have "map (pair_of_result \<circ> observed_result) (zip calls observed)
            = map (pair_of_call \<circ> pc_inv) (map fst (zip calls observed))"
          by (simp add: o_def observed_result_def)
        then have results: "mset (map pair_of_result ?results) = mset (map pair_of_call invs)"
          using plan_calls_paired [OF pc inv_of] len by simp
        then have "turn_paired (?turn ?results)"
          using ensure_ids_not_blank by (auto simp: turn_paired_def invs_def)
        note turned' = turned [OF _ this]
        have fresh: "\<forall>c \<in> set (batch_ran env se calls (ls_step st0)). rn_step c = ls_step st0 \<and> rn_key c \<notin> set (ls_seen st0)"
          using checked st0(4) by (auto simp: batch_ran_def dest: set_zip_leftD)
        note keys = observed_keys [OF observed, of "ls_step st0"]
        let ?ran = "batch_ran env se calls (ls_step st0)"
        have pA: "P (st0\<lparr>ls_ran := ls_ran st0 @ ?ran, ls_extra := x,
            ls_seen := ls_seen st0 @ map rn_key (filter rn_ok ?ran), ls_new_evidence := b, ls_stats := s,
            ls_turns := ls_turns st0 @ [?turn ?results]\<rparr>)" for x b s
          using turned' [OF stats [OF new_evidence [OF extra [OF batch [OF st0(2) fresh], of x], of b], of s]]
          by (cases st0) simp
        obtain b s where fold: "fold observe_call (zip calls observed) (st1\<lparr>ls_extra := ls_extra st1 + n\<rparr>, refused) =
            (st1\<lparr>ls_extra := ls_extra st1 + n, ls_seen := ls_seen st1 @ map (pc_key \<circ> fst) (filter succeeded (zip calls observed)),
               ls_new_evidence := b, ls_stats := s\<rparr>, ?results)"
          using observe_fold [of "zip calls observed" "st1\<lparr>ls_extra := ls_extra st1 + n\<rparr>" refused] by auto
        show ?thesis
          using budget pc False ex Go pA [where x = "ls_extra st0 + n" and b = b and s = s] st0(3) fold keys
          by (auto simp: act_phase_def Let_def invs_def [symmetric] obs [symmetric])
      next
        case (Again st1)
        with step show ?thesis by simp
      next
        case (Stop r st1)
        with step budget pc False ex show ?thesis
          by (auto simp: act_phase_def Let_def invs_def [symmetric])
      qed
    qed
  qed
qed

lemma thinking:
  assumes "P st"
  shows "P (snd (think env ru se st)) \<and>
    (case fst (think env ru se st) of ThinkGone \<Rightarrow> Q ClientGone (snd (think env ru se st)) | _ \<Rightarrow> True)"
proof -
  let ?r = "\<lparr>lq_history = think_history env st, lq_content = rr_message (le_request env),
    lq_turns = ls_turns st, lq_tools = ru_specs ru, lq_choice = tool_choice (le_opts env)\<rparr>"
  let ?st = "st\<lparr>ls_requests := ls_requests st @ [?r]\<rparr>"
  have p: "P ?st" using asked [OF assms, of ?r] merged_from_think by simp
  have "P (?st\<lparr>ls_events := evs\<rparr>)" if "emit_all (le_send env) [EvThinking t] (ls_events st) = (ok, evs)" for t ok evs
    using emit_quiet [OF p, of "[EvThinking t]" "le_send env"] that by simp
  with p gone show ?thesis
    by (auto simp: think_def stream_think_def send_events_def Let_def
        split: sum.splits prod.splits bool.splits if_splits simp del: emit_all.simps)
qed

lemma counted: "P st \<Longrightarrow> P (count_tokens env history reply st)"
  using stats [of st] tokens [of st] tokens [OF stats [of st]] by (simp add: count_tokens_def Let_def)

lemma reassess_at: "P st \<Longrightarrow> flow_all P Q (reassess_phase env se st)"
  by (rule reassess)

end

section \<open>A step stays in its step\<close>

interpretation at_step: step_invariant env ru "\<lambda>st. ls_step st = k" "\<lambda>_ st. ls_step st = k" for env ru k
  by unfold_locales simp_all

lemma flow_all_conj: "flow_all P Q f \<Longrightarrow> flow_all P' Q' f \<Longrightarrow> flow_all (\<lambda>st. P st \<and> P' st) (\<lambda>r st. Q r st \<and> Q' r st) f"
  by (cases f) auto

lemma count_tokens_step [simp]: "ls_step (count_tokens env h r st) = ls_step st"
  by (simp add: count_tokens_def Let_def)

context step_invariant
begin

lemma thought:
  assumes "P st" "se = le_step env (ls_step st)"
  shows "flow_all P Q (after_thought env ru se h reply invs streamed st)"
proof -
  let ?k = "ls_step st"
  let ?first = "if \<not> streamed \<and> invs \<noteq> [] \<and> trim_space (ar_content reply) \<noteq> []
    then send_events env [EvThinking (ar_content reply)] (count_tokens env h reply st)
    else Go (count_tokens env h reply st)"
  have "flow_all P Q ?first"
    using counted [OF assms(1)] by (simp add: send_quiet)
  moreover have "flow_all (\<lambda>s. ls_step s = ?k) (\<lambda>_ s. ls_step s = ?k) ?first"
    by (simp add: at_step.send_quiet)
  ultimately have "flow_all (\<lambda>s. P s \<and> ls_step s = ?k) (\<lambda>r s. Q r s \<and> ls_step s = ?k) ?first"
    by (rule flow_all_conj)
  moreover have "flow_all P Q (if invs = [] then conclude_phase env se reply s else act_phase env ru se reply invs s)"
    if "P s \<and> ls_step s = ?k" for s
    using that conclude [of s se reply] act [of s se reply invs] assms(2) by simp
  ultimately show ?thesis
    unfolding after_thought_def Let_def by (cases ?first) simp_all
qed

lemma step_keeps:
  assumes "P st"
  shows "flow_all P Q (loop_step env ru st)"
proof -
  let ?k = "ls_step st" and ?se = "le_step env (ls_step st)"
  let ?st = "set_stats (\<lambda>s. s\<lparr>st_step_count := ls_step st + 1\<rparr>) st"
  have "flow_all P Q (reassess_phase env ?se ?st)"
    by (rule reassess [OF stats [OF assms]])
  moreover have "flow_all (\<lambda>s. ls_step s = ?k) (\<lambda>_ s. ls_step s = ?k) (reassess_phase env ?se ?st)"
    by (rule at_step.reassess) simp
  ultimately have r: "flow_all (\<lambda>s. P s \<and> ls_step s = ?k) (\<lambda>r s. Q r s \<and> ls_step s = ?k) (reassess_phase env ?se ?st)"
    by (rule flow_all_conj)
  have t: "flow_all P Q (case think env ru ?se st1 of
      (ThinkFailed e, st2) \<Rightarrow> if se_gone ?se AtThink then Stop ClientGone st2 else Stop (RunFailed e) st2
    | (ThinkGone, st2) \<Rightarrow> Stop ClientGone st2
    | (Thought reply invs streamed, st2) \<Rightarrow>
        after_thought env ru ?se (think_history env st1) reply invs streamed st2)"
    if "P st1" "ls_step st1 = ?k" for st1
  proof -
    obtain th st2 where th: "think env ru ?se st1 = (th, st2)" by fastforce
    have "P st2 \<and> ls_step st2 = ?k"
      using thinking [OF that(1), of ?se] at_step.thinking [OF that(2), where env = env and ru = ru and se = ?se] th by simp
    then show ?thesis
      using th gone failed thought [of st2 ?se] by (auto split: thought.splits)
  qed
  from r t show ?thesis
    unfolding loop_step_def Let_def by (cases "reassess_phase env ?se ?st") auto
qed

lemma planning:
  assumes "P st"
  shows "flow_all P Q (plan_phase env st)"
proof -
  obtain n res where plan: "generate_plan (le_plan env) = (n, res)" by fastforce
  have p1: "P (st\<lparr>ls_extra := x, ls_stats := s\<rparr>)" for x s
    using stats [OF extra [OF assms]] by simp
  have p2: "P (st\<lparr>ls_extra := x, ls_stats := s, ls_ledger := l\<rparr>)" for x s l
    using ledger_set [OF p1] by simp
  have p3: "P (st\<lparr>ls_extra := x, ls_ledger := l, ls_stats := s\<rparr>)" for x s l
    using stats [OF ledger_set [OF extra [OF assms]]] by simp
  note states = p1 p2 p3
  have sends: "flow_all P Q (send_events env [EvPlanGenerated t] s)" if "P s" for t s
    using that by (simp add: send_quiet)
  show ?thesis
    using plan states sends [OF plan_set [OF p1]] sends [OF plan_set [OF p2]] sends [OF plan_set [OF p3]]
      sends [OF guided [OF p1]] sends [OF guided [OF p2]] sends [OF guided [OF p3]] gone [OF p1]
    by (cases res) (auto simp: plan_phase_def Let_def assms split: prod.splits)
qed

end

section \<open>Whole runs\<close>

locale loop_invariant = step_invariant +
  assumes next_step: "P st \<Longrightarrow> P (st\<lparr>ls_step := ls_step st + 1\<rparr>)"
    and final: "Q r st \<Longrightarrow> Q r (st\<lparr>ls_stats := s\<rparr>)"
begin

lemma run_keeps: "run_steps n env ru st = Some (r, st') \<Longrightarrow> P st \<Longrightarrow> Q r st'"
proof (induction n arbitrary: st)
  case (Suc n)
  let ?f = "if int (ls_step st) < ls_max_steps st then loop_step env ru st
    else force_conclude env (le_step env (ls_step st)) st"
  have "flow_all P Q ?f"
    using step_keeps [OF Suc.prems(2)] final_answer [OF Suc.prems(2)] by (simp add: force_conclude_def)
  moreover have "P s \<Longrightarrow> P (s\<lparr>ls_step := Suc (ls_step s)\<rparr>)" for s
    using next_step [of s] by simp
  ultimately show ?case
    using Suc.prems(1) Suc.IH by (cases ?f) auto
qed simp

lemma run_loop_keeps:
  assumes "run_loop env = Some (r, st)" "ru = prepare_run env" "P (initial_state env ru)"
  shows "Q r st"
proof (cases "plan_phase env (initial_state env ru)")
  case (Go s)
  with planning [OF assms(3)] have "P s" by simp
  from assms(1,2) Go obtain b where
    b: "run_steps (Suc (nat (max_total_steps (le_opts env)))) env ru s = Some (r, b)" "st = final_stats b"
    by (auto simp: run_loop_def Let_def simp del: run_steps.simps)
  from run_keeps [OF b(1) \<open>P s\<close>] b(2) show ?thesis by (simp add: final_stats_def final)
next
  case (Again s)
  with assms(1,2) show ?thesis by (simp add: run_loop_def)
next
  case (Stop r' s)
  with planning [OF assms(3)] assms(1,2) show ?thesis by (simp add: run_loop_def)
qed

end

section \<open>The invariants\<close>

definition counters_ok :: "loop_env \<Rightarrow> loop_state \<Rightarrow> bool" where
  "counters_ok env st \<longleftrightarrow>
    ls_max_steps st \<le> max_total_steps (le_opts env) \<and>
    ls_reflections st \<le> lc_max_reflections (le_opts env) \<and> ls_replans st \<le> lc_max_replans (le_opts env)"

interpretation counters: loop_invariant env ru "counters_ok env" "\<lambda>_. counters_ok env" for env ru
  by unfold_locales (auto simp: counters_ok_def)

definition starts_ok :: "loop_env \<Rightarrow> run_setup \<Rightarrow> loop_state \<Rightarrow> bool" where
  "starts_ok env ru st \<longleftrightarrow> (\<forall>c. EvToolStarted c \<in> set (ls_events st) \<longrightarrow>
    (\<exists>k. call_allowed env ru (se_registry (le_step env k)) c))"

interpretation starts: loop_invariant env ru "starts_ok env ru" "\<lambda>_. starts_ok env ru" for env ru
  by unfold_locales (auto simp: starts_ok_def)

definition turns_ok :: "loop_state \<Rightarrow> bool" where
  "turns_ok st \<longleftrightarrow> (\<forall>t \<in> set (ls_turns st). turn_paired t)"

interpretation turns: loop_invariant env ru turns_ok "\<lambda>_. turns_ok" for env ru
  by unfold_locales (auto simp: turns_ok_def)

interpretation answers: loop_invariant env ru "\<lambda>_. True"
    "\<lambda>r st. case r of Answered a \<Rightarrow> answer_ok env st a | _ \<Rightarrow> True" for env ru
  by unfold_locales (auto simp: answer_ok_def split: loop_outcome.splits)

text \<open>At most the first message of a history is a system message.\<close>

definition one_system :: "message_context list \<Rightarrow> bool" where
  "one_system h \<longleftrightarrow> (\<forall>m \<in> set (tl h). mc_role m \<noteq> ''system'')"

lemma one_system_merge: "one_system h \<Longrightarrow> one_system (merge_leading_system_prompt h g)"
  by (cases h) (auto simp: one_system_def merge_leading_system_prompt_def Let_def)

lemma one_system_merged: "merged_from h h' \<Longrightarrow> one_system h \<Longrightarrow> one_system h'"
proof -
  have "one_system h \<Longrightarrow> one_system (foldl merge_leading_system_prompt h gs)" for gs
    by (induction gs arbitrary: h) (auto simp: one_system_merge)
  then show "merged_from h h' \<Longrightarrow> one_system h \<Longrightarrow> one_system h'"
    by (auto simp: merged_from_def)
qed

definition requests_ok :: "loop_state \<Rightarrow> bool" where
  "requests_ok st \<longleftrightarrow> one_system (ls_history st) \<and> (\<forall>r \<in> set (ls_requests st). one_system (lq_history r))"

interpretation requests: loop_invariant env ru requests_ok "\<lambda>_. requests_ok" for env ru
  by unfold_locales (auto simp: requests_ok_def one_system_merge dest: one_system_merged)

text \<open>No call is carried out again in a later step once it has succeeded.\<close>

definition no_repeat :: "ran_call list \<Rightarrow> bool" where
  "no_repeat cs \<longleftrightarrow> (\<forall>a \<in> set cs. \<forall>b \<in> set cs. rn_ok a \<and> rn_step a < rn_step b \<longrightarrow> rn_key a \<noteq> rn_key b)"

definition ran_ok :: "loop_state \<Rightarrow> bool" where
  "ran_ok st \<longleftrightarrow> no_repeat (ls_ran st) \<and>
    (\<forall>c \<in> set (ls_ran st). rn_step c \<le> ls_step st \<and> (rn_ok c \<longrightarrow> rn_key c \<in> set (ls_seen st)))"

interpretation ran: loop_invariant env ru ran_ok "\<lambda>_ st. no_repeat (ls_ran st)" for env ru
proof unfold_locales
  fix st and cs :: "ran_call list"
  assume *: "ran_ok st" "\<forall>c \<in> set cs. rn_step c = ls_step st \<and> rn_key c \<notin> set (ls_seen st)"
  show rep: "no_repeat (ls_ran (st\<lparr>ls_ran := ls_ran st @ cs\<rparr>))"
    using * by (fastforce simp: ran_ok_def no_repeat_def)
  show "ran_ok (st\<lparr>ls_ran := ls_ran st @ cs, ls_seen := ls_seen st @ map rn_key (filter rn_ok cs)\<rparr>)"
    using * rep by (auto simp: ran_ok_def)
qed (auto simp: ran_ok_def le_SucI)

end
