(* ===== verification/Sql_Tables.thy ===== *)
theory Sql_Tables
  imports Go_Errors Go_Json
begin

text \<open>
  What the repositories use of PostgreSQL through gorm: tables as maps from the primary key to the
  row, the statements on them, and transactions. A statement that fails changes nothing, and a
  transaction with a failing statement is rolled back.
\<close>

text \<open>What the \<open>n\<close>-th statement of an operation fails with, where nothing fails.\<close>

definition no_fault :: "nat \<Rightarrow> go_error option" where "no_fault n = None"

text \<open>\<^verbatim>\<open>NewJSONB\<close>: what is no JSON is kept as an empty object.\<close>

definition new_jsonb :: "string \<Rightarrow> string" where
  "new_jsonb s = (if s = [] \<or> json_parse s = None then ''{}'' else s)"

section \<open>Tables\<close>

text \<open>
  A table is a map from its primary key to its row. An UPDATE changes the rows that meet its
  condition, an INSERT fails on a key that is there.
\<close>

definition insert_row :: "'k \<Rightarrow> 'r \<Rightarrow> ('k, 'r) gmap \<Rightarrow> go_error + ('k, 'r) gmap" where
  "insert_row k r t = (if gm_get t k \<noteq> None then Inl ErrDuplicatedKey else Inr (gm_put k r t))"

definition insert_ignore :: "'k \<Rightarrow> 'r \<Rightarrow> ('k, 'r) gmap \<Rightarrow> ('k, 'r) gmap" where
  "insert_ignore k r t = (if gm_get t k \<noteq> None then t else gm_put k r t)"

definition update_where :: "('k \<Rightarrow> 'r \<Rightarrow> bool) \<Rightarrow> ('r \<Rightarrow> 'r) \<Rightarrow> ('k, 'r) gmap \<Rightarrow> ('k, 'r) gmap" where
  "update_where P f t = map (\<lambda>(k, r). (k, if P k r then f r else r)) t"

definition delete_where :: "('k \<Rightarrow> 'r \<Rightarrow> bool) \<Rightarrow> ('k, 'r) gmap \<Rightarrow> ('k, 'r) gmap" where
  "delete_where P t = filter (\<lambda>(k, r). \<not> P k r) t"

definition rows_where :: "('k \<Rightarrow> 'r \<Rightarrow> bool) \<Rightarrow> ('k, 'r) gmap \<Rightarrow> nat" where
  "rows_where P t = length (filter (\<lambda>(k, r). P k r) t)"

definition first_row :: "'k \<Rightarrow> ('r \<Rightarrow> bool) \<Rightarrow> ('k, 'r) gmap \<Rightarrow> 'r go_result" where
  "first_row k P t = (case gm_get t k of
     Some r \<Rightarrow> if P r then Inr r else Inl ErrRecordNotFound
   | None \<Rightarrow> Inl ErrRecordNotFound)"

lemma gm_get_insert_ignore [simp, go_map]:
  "gm_get (insert_ignore k r t) k' = (case gm_get t k' of None \<Rightarrow> if k' = k then Some r else None | Some x \<Rightarrow> Some x)"
  by (auto simp: insert_ignore_def split: option.splits)

lemma gm_get_update_where [simp, go_map]:
  "gm_get (update_where P f t) k = map_option (\<lambda>r. if P k r then f r else r) (gm_get t k)"
  by (simp add: update_where_def gm_get_map_snd [where f = "\<lambda>k r. if P k r then f r else r"])

lemma gm_get_delete_where [go_map]:
  "gm_ok t \<Longrightarrow> gm_get (delete_where P t) k
    = (case gm_get t k of None \<Rightarrow> None | Some r \<Rightarrow> if P k r then None else Some r)"
proof (induction t)
  case (Cons a t)
  have "k \<notin> fst ` set t \<Longrightarrow> gm_get (delete_where P t) k = None"
    by (force simp: delete_where_def map_of_eq_None_iff)
  then show ?case using Cons
    by (cases a) (auto simp: delete_where_def gm_ok_def map_of_eq_None_iff split: option.splits)
qed (simp add: delete_where_def)

lemma gm_ok_update_where [simp, intro, inv_intros]: "gm_ok t \<Longrightarrow> gm_ok (update_where P f t)"
  by (simp add: update_where_def)

lemma gm_ok_delete_where [simp, intro, inv_intros]: "gm_ok t \<Longrightarrow> gm_ok (delete_where P t)"
  by (induction t) (auto simp: delete_where_def gm_ok_def)

lemma gm_ok_insert_ignore [simp, intro, inv_intros]: "gm_ok t \<Longrightarrow> gm_ok (insert_ignore k r t)"
  by (simp add: insert_ignore_def)

lemma insert_row_Inr [simp]: "insert_row k r t = Inr t' \<longleftrightarrow> gm_get t k = None \<and> t' = gm_put k r t"
  by (auto simp: insert_row_def)

lemma rows_where_pos: "gm_ok t \<Longrightarrow> 0 < rows_where P t \<longleftrightarrow> (\<exists>k r. gm_get t k = Some r \<and> P k r)"
  by (force simp: rows_where_def filter_empty_conv gm_mem_get)

text \<open>A condition that fixes the key selects one row or none.\<close>

lemma rows_where_key:
  "gm_ok t \<Longrightarrow> rows_where (\<lambda>k r. k = i \<and> P r) t
    = (case gm_get t i of None \<Rightarrow> 0 | Some r \<Rightarrow> if P r then 1 else 0)"
proof (induction t)
  case (Cons a t)
  have "i \<notin> fst ` set t \<Longrightarrow> rows_where (\<lambda>k r. k = i \<and> P r) t = 0"
    by (force simp: rows_where_def filter_empty_conv)
  then show ?case using Cons
    by (cases a) (auto simp: rows_where_def gm_ok_def map_of_eq_None_iff split: option.splits)
qed (simp add: rows_where_def)

section \<open>Statements\<close>

text \<open>\<open>stmt\<close> runs one statement that may fail; \<open>tx\<close> is a transaction over the tables.\<close>

definition stmt :: "go_error option \<Rightarrow> (go_error + 'b) \<Rightarrow> go_error + 'b" where
  "stmt f r = (case f of Some e \<Rightarrow> Inl e | None \<Rightarrow> r)"

definition after_stmt :: "(go_error + 'a) \<Rightarrow> ('a \<Rightarrow> go_error + 'b) \<Rightarrow> go_error + 'b" where
  "after_stmt r k = (case r of Inl e \<Rightarrow> Inl e | Inr x \<Rightarrow> k x)"

definition tx :: "('t \<Rightarrow> go_error + 't) \<Rightarrow> 't \<Rightarrow> go_error option \<times> 't" where
  "tx f t = (case f t of Inl e \<Rightarrow> (Some e, t) | Inr t' \<Rightarrow> (None, t'))"

lemma stmt_Inr [simp]: "stmt f r = Inr x \<longleftrightarrow> f = None \<and> r = Inr x"
  by (auto simp: stmt_def split: option.splits)

lemma stmt_None [simp]: "stmt None r = r"
  by (simp add: stmt_def)

lemma after_stmt_Inr [simp]: "after_stmt r k = Inr y \<longleftrightarrow> (\<exists>x. r = Inr x \<and> k x = Inr y)"
  by (auto simp: after_stmt_def split: sum.splits)

lemma after_stmt_simps [simp]: "after_stmt (Inr x) k = k x" "after_stmt (Inl e) k = Inl e"
  by (simp_all add: after_stmt_def)

lemma tx_result: "tx f t = (None, t') \<longleftrightarrow> f t = Inr t'"
  by (auto simp: tx_def split: sum.splits)

lemma tx_cases: "tx f t = (e, t') \<Longrightarrow> t' = t \<and> e \<noteq> None \<or> f t = Inr t' \<and> e = None"
  by (auto simp: tx_def split: sum.splits)

lemma tx_keeps:
  assumes "I t" and "\<And>t'. f t = Inr t' \<Longrightarrow> I t'"
  shows "I (snd (tx f t))"
  using assms by (auto simp: tx_def split: sum.splits)

end
