(* ===== verification/Auth_Store.thy ===== *)
theory Auth_Store
  imports Sql_Tables
begin

text \<open>
  The session state of the IAM module: the values kept
  (\<^verbatim>\<open>shared/middleware/authn.go\<close>, \<^verbatim>\<open>iam/domain/security.go\<close>), the
  two Go interfaces as records of functions on a state, and the PostgreSQL implementation
  (\<^verbatim>\<open>iam/infrastructure/postgres/auth_state_repository.go\<close>).

  One interface call happens at one instant, the \<open>cx_now\<close> of its context, and a transaction
  happens as a whole. A statement or command may fail: \<open>cx_pg n\<close> is the failure of the
  \<open>n\<close>-th SQL statement of the call, \<open>cx_redis n\<close> that of its \<open>n\<close>-th Redis command. A
  statement that fails changes nothing, and a transaction with a failing statement is rolled back.
\<close>

section \<open>Values\<close>

record token_session =
  ts_id :: string
  ts_subject :: string
  ts_expires_at :: instant
  ts_revoked_at :: "instant option"

record refresh_token_record =
  rf_id :: string
  rf_session_id :: string
  rf_subject :: string
  rf_expires_at :: instant
  rf_revoked_at :: "instant option"

record login_failure =
  lf_key :: string
  lf_count :: int
  lf_locked_until :: instant
  lf_expires_at :: instant

text \<open>\<^verbatim>\<open>time.Time{}\<close>, the first of January of the year 1.\<close>

definition zero_time :: instant where
  "zero_time = - 62135596800 * second"

definition no_failure :: login_failure where
  "no_failure = \<lparr>lf_key = [], lf_count = 0, lf_locked_until = zero_time, lf_expires_at = zero_time\<rparr>"

record call_context =
  cx_now :: instant
  cx_pg :: "nat \<Rightarrow> go_error option"
  cx_redis :: "nat \<Rightarrow> go_error option"

section \<open>The interfaces\<close>

text \<open>
  A Go interface value is the record of its methods. \<open>st_tag\<close> identifies the value a pointer
  comparison would compare; \<open>st_security\<close> is the result of the type assertion to
  \<^verbatim>\<open>SecurityStateStore\<close>. A method returns its result and the state it leaves.
\<close>

record 's security_state_store =
  increment_login_failure ::
    "call_context \<Rightarrow> string \<Rightarrow> instant \<Rightarrow> int \<Rightarrow> duration \<Rightarrow> 's \<Rightarrow> login_failure go_result \<times> 's"
  get_login_failure :: "call_context \<Rightarrow> string \<Rightarrow> 's \<Rightarrow> login_failure go_result"
  clear_login_failure :: "call_context \<Rightarrow> string \<Rightarrow> 's \<Rightarrow> go_error option \<times> 's"
  save_oidc_state :: "call_context \<Rightarrow> string \<Rightarrow> instant \<Rightarrow> 's \<Rightarrow> go_error option \<times> 's"
  has_oidc_state :: "call_context \<Rightarrow> string \<Rightarrow> 's \<Rightarrow> bool go_result"
  consume_oidc_state :: "call_context \<Rightarrow> string \<Rightarrow> 's \<Rightarrow> bool go_result \<times> 's"
  claim_once :: "call_context \<Rightarrow> string \<Rightarrow> instant \<Rightarrow> 's \<Rightarrow> bool go_result \<times> 's"

record 's token_state_store =
  st_tag :: string
  create_session :: "call_context \<Rightarrow> token_session \<Rightarrow> 's \<Rightarrow> go_error option \<times> 's"
  get_session :: "call_context \<Rightarrow> string \<Rightarrow> 's \<Rightarrow> token_session go_result"
  revoke_session :: "call_context \<Rightarrow> string \<Rightarrow> instant \<Rightarrow> 's \<Rightarrow> go_error option \<times> 's"
  is_session_revoked :: "call_context \<Rightarrow> string \<Rightarrow> 's \<Rightarrow> bool go_result"
  revoke_token :: "call_context \<Rightarrow> string \<Rightarrow> instant \<Rightarrow> 's \<Rightarrow> go_error option \<times> 's"
  is_token_revoked :: "call_context \<Rightarrow> string \<Rightarrow> 's \<Rightarrow> bool go_result"
  store_refresh_token :: "call_context \<Rightarrow> refresh_token_record \<Rightarrow> 's \<Rightarrow> go_error option \<times> 's"
  get_refresh_token :: "call_context \<Rightarrow> string \<Rightarrow> 's \<Rightarrow> refresh_token_record go_result"
  consume_refresh_token :: "call_context \<Rightarrow> refresh_token_record \<Rightarrow> 's \<Rightarrow> go_error option \<times> 's"
  rotate_refresh_token ::
    "call_context \<Rightarrow> refresh_token_record \<Rightarrow> refresh_token_record \<Rightarrow> 's \<Rightarrow> go_error option \<times> 's"
  revoke_subject_sessions :: "call_context \<Rightarrow> string \<Rightarrow> instant \<Rightarrow> 's \<Rightarrow> go_error option \<times> 's"
  st_security :: "'s security_state_store option"

end
