(* ===== verification/Auth_Postgres.thy ===== *)
theory Auth_Postgres
  imports Auth_Store
begin

text \<open>
  \<^verbatim>\<open>AuthStateRepository\<close> of
  \<^verbatim>\<open>iam/infrastructure/postgres/auth_state_repository.go\<close>: five tables, one operation per
  method, each with its SQL statements in order. A repository without a database is \<open>None\<close>;
  its methods then answer as the source's nil checks do.
\<close>

section \<open>Tables\<close>

record auth_session_record = token_session +
  ts_created_at :: instant

record revoked_token_record =
  rt_id :: string
  rt_expires_at :: instant
  rt_created_at :: instant

record refresh_row = refresh_token_record +
  rf_created_at :: instant

record login_failure_record = login_failure +
  lf_updated_at :: instant

record oidc_state_record =
  os_state :: string
  os_expires_at :: instant
  os_created_at :: instant

record auth_tables =
  at_session :: "(string, auth_session_record) gmap"
  at_revoked :: "(string, revoked_token_record) gmap"
  at_refresh :: "(string, refresh_row) gmap"
  at_failure :: "(string, login_failure_record) gmap"
  at_oidc :: "(string, oidc_state_record) gmap"

type_synonym auth_state_repository = "auth_tables option"

definition tables_ok :: "auth_tables \<Rightarrow> bool" where
  "tables_ok t \<longleftrightarrow> gm_ok (at_session t) \<and> gm_ok (at_revoked t) \<and> gm_ok (at_refresh t) \<and>
     gm_ok (at_failure t) \<and> gm_ok (at_oidc t)"

definition with_db :: "'r \<Rightarrow> (auth_tables \<Rightarrow> 'r \<times> auth_tables) \<Rightarrow> auth_state_repository \<Rightarrow> 'r \<times> auth_state_repository" where
  "with_db none f r = (case r of None \<Rightarrow> (none, None) | Some t \<Rightarrow> (case f t of (x, t') \<Rightarrow> (x, Some t')))"

definition read_db :: "'r \<Rightarrow> (auth_tables \<Rightarrow> 'r) \<Rightarrow> auth_state_repository \<Rightarrow> 'r" where
  "read_db none f r = (case r of None \<Rightarrow> none | Some t \<Rightarrow> f t)"

section \<open>Sessions\<close>

definition pg_cleanup_expired :: "call_context \<Rightarrow> instant \<Rightarrow> auth_state_repository \<Rightarrow> go_error option \<times> auth_state_repository" where
  "pg_cleanup_expired cx before = with_db None (tx (\<lambda>t.
     stmt (cx_pg cx 0) (stmt (cx_pg cx 1) (stmt (cx_pg cx 2) (stmt (cx_pg cx 3) (stmt (cx_pg cx 4)
       (Inr (t\<lparr>at_revoked := delete_where (\<lambda>_ r. rt_expires_at r \<le> before) (at_revoked t),
               at_refresh := delete_where (\<lambda>_ r. rf_expires_at r \<le> before) (at_refresh t),
               at_session := delete_where (\<lambda>_ r. ts_expires_at r \<le> before) (at_session t),
               at_failure := delete_where (\<lambda>_ r. lf_expires_at r \<le> before) (at_failure t),
               at_oidc := delete_where (\<lambda>_ r. os_expires_at r \<le> before) (at_oidc t)\<rparr>))))))))"

definition pg_create_session :: "call_context \<Rightarrow> token_session \<Rightarrow> auth_state_repository \<Rightarrow> go_error option \<times> auth_state_repository" where
  "pg_create_session cx s = with_db None (tx (\<lambda>t. stmt (cx_pg cx 0)
     (after_stmt (insert_row (ts_id s)
        \<lparr>ts_id = ts_id s, ts_subject = ts_subject s, ts_expires_at = ts_expires_at s,
         ts_revoked_at = ts_revoked_at s, ts_created_at = cx_now cx\<rparr> (at_session t))
      (\<lambda>rows. Inr (t\<lparr>at_session := rows\<rparr>)))))"

definition pg_get_session :: "call_context \<Rightarrow> string \<Rightarrow> auth_state_repository \<Rightarrow> token_session go_result" where
  "pg_get_session cx sid = read_db (Inl (ErrMsg ''session not found'')) (\<lambda>t. stmt (cx_pg cx 0)
     (after_stmt (first_row sid (\<lambda>_. True) (at_session t))
      (\<lambda>r. Inr \<lparr>ts_id = ts_id r, ts_subject = ts_subject r, ts_expires_at = ts_expires_at r,
                ts_revoked_at = ts_revoked_at r\<rparr>)))"

definition pg_revoke_session :: "call_context \<Rightarrow> string \<Rightarrow> instant \<Rightarrow> auth_state_repository \<Rightarrow> go_error option \<times> auth_state_repository" where
  "pg_revoke_session cx sid expiresAt = with_db None (\<lambda>t.
     let now = cx_now cx in
     case cx_pg cx 0 of Some e \<Rightarrow> (Some e, t) | None \<Rightarrow>
       (let t1 = t\<lparr>at_session := update_where (\<lambda>k _. k = sid)
              (\<lambda>r. r\<lparr>ts_revoked_at := Some now, ts_expires_at := max (ts_expires_at r) expiresAt\<rparr>) (at_session t)\<rparr>
        in if rows_where (\<lambda>k _. k = sid) (at_session t) = 0
           then tx (\<lambda>t. stmt (cx_pg cx 1) (after_stmt (insert_row sid
                  \<lparr>ts_id = sid, ts_subject = [], ts_expires_at = expiresAt, ts_revoked_at = Some now,
                   ts_created_at = now\<rparr> (at_session t))
                (\<lambda>rows. Inr (t\<lparr>at_session := rows\<rparr>)))) t1
           else (None, t1)))"

definition pg_revoke_subject_sessions :: "call_context \<Rightarrow> string \<Rightarrow> instant \<Rightarrow> auth_state_repository \<Rightarrow> go_error option \<times> auth_state_repository" where
  "pg_revoke_subject_sessions cx subject expiresAt = with_db None (tx (\<lambda>t.
     let now = cx_now cx in
     stmt (cx_pg cx 0) (stmt (cx_pg cx 1)
       (Inr (t\<lparr>at_session := update_where (\<lambda>_ r. ts_subject r = subject \<and> now < ts_expires_at r)
                  (\<lambda>r. r\<lparr>ts_revoked_at := Some now\<rparr>) (at_session t),
               at_refresh := update_where
                  (\<lambda>_ r. rf_subject r = subject \<and> rf_revoked_at r = None \<and> now < rf_expires_at r)
                  (\<lambda>r. r\<lparr>rf_revoked_at := Some now\<rparr>) (at_refresh t)\<rparr>)))))"

definition pg_is_session_revoked :: "call_context \<Rightarrow> string \<Rightarrow> auth_state_repository \<Rightarrow> bool go_result" where
  "pg_is_session_revoked cx sid = read_db (Inr False) (\<lambda>t.
     case stmt (cx_pg cx 0) (first_row sid (\<lambda>_. True) (at_session t)) of
       Inl e \<Rightarrow> if err_is e ErrRecordNotFound then Inr False else Inl e
     | Inr r \<Rightarrow> Inr (ts_revoked_at r \<noteq> None))"

section \<open>Tokens\<close>

definition pg_revoke_token :: "call_context \<Rightarrow> string \<Rightarrow> instant \<Rightarrow> auth_state_repository \<Rightarrow> go_error option \<times> auth_state_repository" where
  "pg_revoke_token cx tid expiresAt = with_db None (tx (\<lambda>t. stmt (cx_pg cx 0)
     (if gm_get (at_revoked t) tid \<noteq> None then Inr t
      else stmt (cx_pg cx 1) (after_stmt (insert_row tid
             \<lparr>rt_id = tid, rt_expires_at = expiresAt, rt_created_at = cx_now cx\<rparr> (at_revoked t))
           (\<lambda>rows. Inr (t\<lparr>at_revoked := rows\<rparr>))))))"

definition pg_is_token_revoked :: "call_context \<Rightarrow> string \<Rightarrow> auth_state_repository \<Rightarrow> bool go_result" where
  "pg_is_token_revoked cx tid = read_db (Inr False) (\<lambda>t. stmt (cx_pg cx 0)
     (Inr (rows_where (\<lambda>k r. k = tid \<and> cx_now cx < rt_expires_at r) (at_revoked t) > 0)))"

definition refresh_row_of :: "instant \<Rightarrow> refresh_token_record \<Rightarrow> refresh_row" where
  "refresh_row_of now tok =
    \<lparr>rf_id = rf_id tok, rf_session_id = rf_session_id tok, rf_subject = rf_subject tok,
     rf_expires_at = rf_expires_at tok, rf_revoked_at = rf_revoked_at tok, rf_created_at = now\<rparr>"

definition pg_store_refresh_token :: "call_context \<Rightarrow> refresh_token_record \<Rightarrow> auth_state_repository \<Rightarrow> go_error option \<times> auth_state_repository" where
  "pg_store_refresh_token cx tok = with_db None (tx (\<lambda>t. stmt (cx_pg cx 0)
     (after_stmt (insert_row (rf_id tok) (refresh_row_of (cx_now cx) tok) (at_refresh t))
      (\<lambda>rows. Inr (t\<lparr>at_refresh := rows\<rparr>)))))"

definition pg_get_refresh_token :: "call_context \<Rightarrow> string \<Rightarrow> auth_state_repository \<Rightarrow> refresh_token_record go_result" where
  "pg_get_refresh_token cx tid = read_db (Inl (ErrMsg ''refresh token not found'')) (\<lambda>t. stmt (cx_pg cx 0)
     (after_stmt (first_row tid (\<lambda>_. True) (at_refresh t))
      (\<lambda>r. Inr \<lparr>rf_id = rf_id r, rf_session_id = rf_session_id r, rf_subject = rf_subject r,
                rf_expires_at = rf_expires_at r, rf_revoked_at = rf_revoked_at r\<rparr>)))"

text \<open>The UPDATE that both operations on a refresh token start with, and the INSERT that follows it.\<close>

definition refresh_usable :: "instant \<Rightarrow> refresh_token_record \<Rightarrow> ('a refresh_token_record_scheme) \<Rightarrow> bool" where
  "refresh_usable now tok r \<longleftrightarrow> rf_subject r = rf_subject tok \<and> rf_session_id r = rf_session_id tok \<and>
     rf_revoked_at r = None \<and> now < rf_expires_at r"

definition spend_refresh_token :: "call_context \<Rightarrow> refresh_token_record \<Rightarrow> auth_tables \<Rightarrow> go_error + auth_tables" where
  "spend_refresh_token cx tok t =
    (let now = cx_now cx; hit = (\<lambda>k r. k = rf_id tok \<and> refresh_usable now tok r) in
     stmt (cx_pg cx 0)
      (if rows_where hit (at_refresh t) \<noteq> 1 then Inl (ErrMsg ''refresh token not found'')
       else stmt (cx_pg cx 1)
         (Inr (t\<lparr>at_refresh := update_where hit (\<lambda>r. r\<lparr>rf_revoked_at := Some now\<rparr>) (at_refresh t),
                 at_revoked := insert_ignore (rf_id tok)
                   \<lparr>rt_id = rf_id tok, rt_expires_at = rf_expires_at tok, rt_created_at = now\<rparr> (at_revoked t)\<rparr>))))"

definition pg_consume_refresh_token :: "call_context \<Rightarrow> refresh_token_record \<Rightarrow> auth_state_repository \<Rightarrow> go_error option \<times> auth_state_repository" where
  "pg_consume_refresh_token cx tok = with_db None (tx (spend_refresh_token cx tok))"

definition pg_rotate_refresh_token :: "call_context \<Rightarrow> refresh_token_record \<Rightarrow> refresh_token_record \<Rightarrow> auth_state_repository
    \<Rightarrow> go_error option \<times> auth_state_repository" where
  "pg_rotate_refresh_token cx old new = with_db None (tx (\<lambda>t.
     after_stmt (spend_refresh_token cx old t) (\<lambda>t1. stmt (cx_pg cx 2)
       (after_stmt (insert_row (rf_id new) (refresh_row_of (cx_now cx) new) (at_refresh t1))
        (\<lambda>rows. Inr (t1\<lparr>at_refresh := rows\<rparr>))))))"

section \<open>Login failures\<close>

definition to_domain_login_failure :: "login_failure_record \<Rightarrow> login_failure" where
  "to_domain_login_failure r =
    \<lparr>lf_key = lf_key r, lf_count = lf_count r, lf_locked_until = lf_locked_until r, lf_expires_at = lf_expires_at r\<rparr>"

definition upsert_login_failure :: "instant \<Rightarrow> string \<Rightarrow> instant
    \<Rightarrow> (string, login_failure_record) gmap \<Rightarrow> (string, login_failure_record) gmap" where
  "upsert_login_failure now key expiresAt rows = (case gm_get rows key of
     None \<Rightarrow> gm_put key \<lparr>lf_key = key, lf_count = 1, lf_locked_until = now, lf_expires_at = expiresAt,
                         lf_updated_at = now\<rparr> rows
   | Some r \<Rightarrow> gm_put key
       (r\<lparr>lf_count := (if lf_expires_at r \<le> now then 1 else lf_count r + 1),
          lf_locked_until := (if lf_expires_at r \<le> now then now else lf_locked_until r),
          lf_expires_at := expiresAt, lf_updated_at := now\<rparr>) rows)"

definition pg_increment_login_failure ::
  "call_context \<Rightarrow> string \<Rightarrow> instant \<Rightarrow> int \<Rightarrow> duration \<Rightarrow> auth_state_repository
    \<Rightarrow> login_failure go_result \<times> auth_state_repository" where
  "pg_increment_login_failure cx key expiresAt lockAfter lockout = with_db (Inr no_failure) (\<lambda>t.
     let now = cx_now cx in
     case cx_pg cx 0 of Some e \<Rightarrow> (Inl e, t) | None \<Rightarrow>
       (let t1 = t\<lparr>at_failure := upsert_login_failure now key expiresAt (at_failure t)\<rparr> in
        case stmt (cx_pg cx 1) (first_row key (\<lambda>_. True) (at_failure t1)) of
          Inl e \<Rightarrow> (Inl e, t1)
        | Inr r \<Rightarrow>
            if 0 < lockAfter \<and> lockAfter \<le> lf_count r \<and> \<not> now < lf_locked_until r then
              (case cx_pg cx 2 of Some e \<Rightarrow> (Inl e, t1) | None \<Rightarrow>
                 (Inr (to_domain_login_failure (r\<lparr>lf_locked_until := now + lockout\<rparr>)),
                  t1\<lparr>at_failure := update_where (\<lambda>k _. k = key)
                       (\<lambda>r. r\<lparr>lf_locked_until := now + lockout\<rparr>) (at_failure t1)\<rparr>))
            else (Inr (to_domain_login_failure r), t1)))"

definition pg_get_login_failure :: "call_context \<Rightarrow> string \<Rightarrow> auth_state_repository \<Rightarrow> login_failure go_result" where
  "pg_get_login_failure cx key = read_db (Inr no_failure) (\<lambda>t.
     case stmt (cx_pg cx 0) (first_row key (\<lambda>r. cx_now cx < lf_expires_at r) (at_failure t)) of
       Inl e \<Rightarrow> if err_is e ErrRecordNotFound then Inr no_failure else Inl e
     | Inr r \<Rightarrow> Inr (to_domain_login_failure r))"

definition pg_clear_login_failure :: "call_context \<Rightarrow> string \<Rightarrow> auth_state_repository \<Rightarrow> go_error option \<times> auth_state_repository" where
  "pg_clear_login_failure cx key = with_db None (tx (\<lambda>t. stmt (cx_pg cx 0)
     (Inr (t\<lparr>at_failure := delete_where (\<lambda>k _. k = key) (at_failure t)\<rparr>))))"

section \<open>One-time values\<close>

definition pg_save_oidc_state :: "call_context \<Rightarrow> string \<Rightarrow> instant \<Rightarrow> auth_state_repository \<Rightarrow> go_error option \<times> auth_state_repository" where
  "pg_save_oidc_state cx state expiresAt = with_db None (tx (\<lambda>t. stmt (cx_pg cx 0)
     (after_stmt (insert_row state
        \<lparr>os_state = state, os_expires_at = expiresAt, os_created_at = cx_now cx\<rparr> (at_oidc t))
      (\<lambda>rows. Inr (t\<lparr>at_oidc := rows\<rparr>)))))"

definition pg_has_oidc_state :: "call_context \<Rightarrow> string \<Rightarrow> auth_state_repository \<Rightarrow> bool go_result" where
  "pg_has_oidc_state cx state = read_db (Inl (ErrMsg ''oidc state store is unavailable'')) (\<lambda>t.
     stmt (cx_pg cx 0) (Inr (rows_where (\<lambda>k r. k = state \<and> cx_now cx < os_expires_at r) (at_oidc t) > 0)))"

definition pg_consume_oidc_state :: "call_context \<Rightarrow> string \<Rightarrow> auth_state_repository \<Rightarrow> bool go_result \<times> auth_state_repository" where
  "pg_consume_oidc_state cx state = with_db (Inl (ErrMsg ''oidc state store is unavailable'')) (\<lambda>t.
     case cx_pg cx 0 of Some e \<Rightarrow> (Inl e, t) | None \<Rightarrow>
       (let hit = (\<lambda>k r. k = state \<and> cx_now cx < os_expires_at r) in
        (Inr (rows_where hit (at_oidc t) = 1), t\<lparr>at_oidc := delete_where hit (at_oidc t)\<rparr>)))"

definition pg_claim_once :: "call_context \<Rightarrow> string \<Rightarrow> instant \<Rightarrow> auth_state_repository \<Rightarrow> bool go_result \<times> auth_state_repository" where
  "pg_claim_once cx key expiresAt = with_db (Inl (ErrMsg ''security state store is unavailable'')) (\<lambda>t.
     case cx_pg cx 0 of Some e \<Rightarrow> (Inl e, t) | None \<Rightarrow>
       (Inr (gm_get (at_oidc t) (''once:'' @ key) = None),
        t\<lparr>at_oidc := insert_ignore (''once:'' @ key)
             \<lparr>os_state = ''once:'' @ key, os_expires_at = expiresAt, os_created_at = cx_now cx\<rparr> (at_oidc t)\<rparr>))"

end
