(* ===== verification/Auth_Redis.thy ===== *)
theory Auth_Redis
  imports Auth_Store
begin

text \<open>
  \<^verbatim>\<open>AuthStateStore\<close> of \<^verbatim>\<open>iam/infrastructure/redis/auth_state_store.go\<close>,
  on a Redis key space with expiry times. The documented behaviour of the commands it uses is
  the first section; the store's methods follow, with the failures of the single commands.
  A store without a client is \<open>None\<close>.
\<close>

section \<open>The key space\<close>

text \<open>
  A value is a session or refresh token in JSON, a plain text, a counter, an instant in
  RFC 3339, or a set. A key whose expiry has been reached is not there. Times to live are kept
  exact (Redis rounds them to milliseconds).
\<close>

datatype redis_value =
    RSession token_session
  | RRefresh refresh_token_record
  | RText string
  | RCount int
  | RTime instant
  | RSet "string list"

type_synonym redis_db = "(string, redis_value \<times> instant option) gmap"
type_synonym auth_state_store = "redis_db option"

definition err_redis_nil :: go_error where "err_redis_nil = ErrMsg ''redis: nil''"
definition err_wrong_type :: go_error where
  "err_wrong_type = ErrMsg ''WRONGTYPE Operation against a key holding the wrong kind of value''"

definition rd_lookup :: "instant \<Rightarrow> string \<Rightarrow> redis_db \<Rightarrow> redis_value option" where
  "rd_lookup now k db = (case gm_get db k of
     Some (v, None) \<Rightarrow> Some v
   | Some (v, Some e) \<Rightarrow> if now < e then Some v else None
   | None \<Rightarrow> None)"

definition rd_get :: "instant \<Rightarrow> string \<Rightarrow> redis_db \<Rightarrow> redis_value go_result" where
  "rd_get now k db = (case rd_lookup now k db of
     None \<Rightarrow> Inl err_redis_nil
   | Some (RSet _) \<Rightarrow> Inl err_wrong_type
   | Some v \<Rightarrow> Inr v)"

definition rd_members :: "instant \<Rightarrow> string \<Rightarrow> redis_db \<Rightarrow> string list go_result" where
  "rd_members now k db = (case rd_lookup now k db of
     None \<Rightarrow> Inr []
   | Some (RSet xs) \<Rightarrow> Inr xs
   | Some _ \<Rightarrow> Inl err_wrong_type)"

definition rd_set :: "instant \<Rightarrow> string \<Rightarrow> redis_value \<Rightarrow> duration \<Rightarrow> redis_db \<Rightarrow> redis_db" where
  "rd_set now k v ttl db = gm_put k (v, Some (now + ttl)) db"

datatype redis_command =
    CSet string redis_value duration
  | CSAdd string string
  | CExpire string duration

fun rd_command :: "instant \<Rightarrow> redis_command \<Rightarrow> redis_db \<Rightarrow> go_error option \<times> redis_db" where
  "rd_command now (CSet k v ttl) db = (None, rd_set now k v ttl db)"
| "rd_command now (CSAdd k m) db =
     (case rd_lookup now k db of
        None \<Rightarrow> (None, gm_put k (RSet [m], None) db)
      | Some (RSet xs) \<Rightarrow>
          (None, gm_put k (RSet (if m \<in> set xs then xs else xs @ [m]), Option.bind (gm_get db k) snd) db)
      | Some _ \<Rightarrow> (Some err_wrong_type, db))"
| "rd_command now (CExpire k ttl) db =
     (None, case rd_lookup now k db of None \<Rightarrow> db | Some v \<Rightarrow> gm_put k (v, Some (now + ttl)) db)"

text \<open>MULTI/EXEC runs every command, also after one that failed, and reports the first failure.\<close>

fun rd_exec :: "instant \<Rightarrow> redis_command list \<Rightarrow> redis_db \<Rightarrow> go_error option \<times> redis_db" where
  "rd_exec now [] db = (None, db)"
| "rd_exec now (c # cs) db =
     (case rd_command now c db of (e, db1) \<Rightarrow>
      (case rd_exec now cs db1 of (e', db2) \<Rightarrow> (if e \<noteq> None then e else e', db2)))"

section \<open>Keys, payloads and times to live\<close>

definition session_key :: "string \<Rightarrow> string" where "session_key i = ''iam:session:'' @ i"
definition subject_sessions_key :: "string \<Rightarrow> string" where "subject_sessions_key s = ''iam:subject:sessions:'' @ s"
definition subject_refresh_tokens_key :: "string \<Rightarrow> string" where
  "subject_refresh_tokens_key s = ''iam:subject:refresh_tokens:'' @ s"
definition revoked_session_key :: "string \<Rightarrow> string" where "revoked_session_key i = ''iam:session:revoked:'' @ i"
definition revoked_token_key :: "string \<Rightarrow> string" where "revoked_token_key i = ''iam:token:revoked:'' @ i"
definition refresh_token_key :: "string \<Rightarrow> string" where "refresh_token_key i = ''iam:refresh:'' @ i"
definition login_failure_key :: "string \<Rightarrow> string" where "login_failure_key k = ''iam:login_failure:'' @ k"
definition login_lock_key :: "string \<Rightarrow> string" where "login_lock_key k = ''iam:login_lock:'' @ k"
definition oidc_state_key :: "string \<Rightarrow> string" where "oidc_state_key s = ''iam:oidc_state:'' @ s"
definition once_key :: "string \<Rightarrow> string" where "once_key k = ''iam:once:'' @ k"

lemmas key_defs = session_key_def subject_sessions_key_def subject_refresh_tokens_key_def
  revoked_session_key_def revoked_token_key_def refresh_token_key_def login_failure_key_def
  login_lock_key_def oidc_state_key_def once_key_def

definition ttl_until :: "instant \<Rightarrow> instant \<Rightarrow> duration" where
  "ttl_until now expiresAt = (if expiresAt - now \<le> 0 then second else expiresAt - now)"

text \<open>Decoding: the two payloads share field names, so each decodes as the other; a text or number does not decode.\<close>

fun decode_session :: "redis_value \<Rightarrow> token_session go_result" where
  "decode_session (RSession s) = Inr s"
| "decode_session (RRefresh r) = Inr \<lparr>ts_id = rf_id r, ts_subject = rf_subject r,
     ts_expires_at = rf_expires_at r, ts_revoked_at = rf_revoked_at r\<rparr>"
| "decode_session _ = Inl (ErrJsonType ''json: cannot unmarshal into Go value of type middleware.TokenSession'')"

fun decode_refresh :: "redis_value \<Rightarrow> refresh_token_record go_result" where
  "decode_refresh (RRefresh r) = Inr r"
| "decode_refresh (RSession s) = Inr \<lparr>rf_id = ts_id s, rf_session_id = [], rf_subject = ts_subject s,
     rf_expires_at = ts_expires_at s, rf_revoked_at = ts_revoked_at s\<rparr>"
| "decode_refresh _ = Inl (ErrJsonType ''json: cannot unmarshal into Go value of type middleware.RefreshTokenRecord'')"

section \<open>Methods\<close>

definition with_client :: "'r \<Rightarrow> (redis_db \<Rightarrow> 'r \<times> redis_db) \<Rightarrow> auth_state_store \<Rightarrow> 'r \<times> auth_state_store" where
  "with_client none f r = (case r of None \<Rightarrow> (none, None) | Some t \<Rightarrow> (case f t of (x, t') \<Rightarrow> (x, Some t')))"

definition read_client :: "'r \<Rightarrow> (redis_db \<Rightarrow> 'r) \<Rightarrow> auth_state_store \<Rightarrow> 'r" where
  "read_client none f r = (case r of None \<Rightarrow> none | Some t \<Rightarrow> f t)"

text \<open>\<open>rd_run\<close> sends the pipeline \<open>cs\<close> unless the connection fails.\<close>

definition rd_run :: "go_error option \<Rightarrow> instant \<Rightarrow> redis_command list \<Rightarrow> redis_db \<Rightarrow> go_error option \<times> redis_db" where
  "rd_run f now cs db = (case f of Some e \<Rightarrow> (Some e, db) | None \<Rightarrow> rd_exec now cs db)"

definition store_refresh_commands :: "instant \<Rightarrow> refresh_token_record \<Rightarrow> redis_command list" where
  "store_refresh_commands now tok =
    [CSet (refresh_token_key (rf_id tok)) (RRefresh tok) (ttl_until now (rf_expires_at tok)),
     CSAdd (subject_refresh_tokens_key (rf_subject tok)) (rf_id tok),
     CExpire (subject_refresh_tokens_key (rf_subject tok)) (ttl_until now (rf_expires_at tok))]"

definition redis_create_session :: "call_context \<Rightarrow> token_session \<Rightarrow> auth_state_store \<Rightarrow> go_error option \<times> auth_state_store" where
  "redis_create_session cx s = with_client None
    (let ttl = ttl_until (cx_now cx) (ts_expires_at s) in
     rd_run (cx_redis cx 0) (cx_now cx)
       [CSet (session_key (ts_id s)) (RSession s) ttl,
        CSAdd (subject_sessions_key (ts_subject s)) (ts_id s),
        CExpire (subject_sessions_key (ts_subject s)) ttl])"

definition get_session_at :: "go_error option \<Rightarrow> instant \<Rightarrow> string \<Rightarrow> redis_db \<Rightarrow> token_session go_result" where
  "get_session_at f now sid db = stmt f (after_stmt (rd_get now (session_key sid) db) decode_session)"

definition get_refresh_at :: "go_error option \<Rightarrow> instant \<Rightarrow> string \<Rightarrow> redis_db \<Rightarrow> refresh_token_record go_result" where
  "get_refresh_at f now tid db = stmt f (after_stmt (rd_get now (refresh_token_key tid) db) decode_refresh)"

definition redis_get_session :: "call_context \<Rightarrow> string \<Rightarrow> auth_state_store \<Rightarrow> token_session go_result" where
  "redis_get_session cx sid =
    read_client (Inl (ErrMsg ''session not found'')) (get_session_at (cx_redis cx 0) (cx_now cx) sid)"

definition redis_revoke_session :: "call_context \<Rightarrow> string \<Rightarrow> instant \<Rightarrow> auth_state_store \<Rightarrow> go_error option \<times> auth_state_store" where
  "redis_revoke_session cx sid expiresAt = with_client None
    (rd_run (cx_redis cx 0) (cx_now cx)
      [CSet (revoked_session_key sid) (RText ''1'') (ttl_until (cx_now cx) expiresAt)])"

text \<open>The commands \<^verbatim>\<open>RevokeSubjectSessions\<close> queues for its sessions and its refresh tokens.\<close>

definition revoke_session_command :: "call_context \<Rightarrow> instant \<Rightarrow> redis_db \<Rightarrow> nat \<times> string \<Rightarrow> redis_command" where
  "revoke_session_command cx expiresAt db = (\<lambda>(n, sid).
     CSet (revoked_session_key sid) (RText ''1'')
      (ttl_until (cx_now cx)
        (case get_session_at (cx_redis cx n) (cx_now cx) sid db of
           Inr s \<Rightarrow> if cx_now cx < ts_expires_at s then ts_expires_at s else expiresAt
         | Inl _ \<Rightarrow> expiresAt)))"

definition revoke_refresh_commands :: "call_context \<Rightarrow> redis_db \<Rightarrow> nat \<times> string \<Rightarrow> redis_command list" where
  "revoke_refresh_commands cx db = (\<lambda>(n, tid).
     case get_refresh_at (cx_redis cx n) (cx_now cx) tid db of
       Inl _ \<Rightarrow> []
     | Inr tok \<Rightarrow>
         [CSet (revoked_token_key tid) (RText ''1'') (ttl_until (cx_now cx) (rf_expires_at tok)),
          CSet (refresh_token_key tid) (RRefresh (tok\<lparr>rf_revoked_at := Some (cx_now cx)\<rparr>))
            (ttl_until (cx_now cx) (rf_expires_at tok))])"

definition redis_revoke_subject_sessions :: "call_context \<Rightarrow> string \<Rightarrow> instant \<Rightarrow> auth_state_store \<Rightarrow> go_error option \<times> auth_state_store" where
  "redis_revoke_subject_sessions cx subject expiresAt = with_client None (\<lambda>db.
     case stmt (cx_redis cx 0) (rd_members (cx_now cx) (subject_sessions_key subject) db) of
       Inl e \<Rightarrow> (Some e, db)
     | Inr sids \<Rightarrow>
     (case stmt (cx_redis cx 1) (rd_members (cx_now cx) (subject_refresh_tokens_key subject) db) of
       Inl e \<Rightarrow> (Some e, db)
     | Inr tids \<Rightarrow>
         rd_run (cx_redis cx (2 + length sids + length tids)) (cx_now cx)
           (map (revoke_session_command cx expiresAt db) (enumerate 2 sids) @
            concat (map (revoke_refresh_commands cx db) (enumerate (2 + length sids) tids))) db))"

definition rd_exists :: "go_error option \<Rightarrow> instant \<Rightarrow> string \<Rightarrow> redis_db \<Rightarrow> bool go_result" where
  "rd_exists f now k db = stmt f (Inr (rd_lookup now k db \<noteq> None))"

definition redis_is_session_revoked :: "call_context \<Rightarrow> string \<Rightarrow> auth_state_store \<Rightarrow> bool go_result" where
  "redis_is_session_revoked cx sid =
    read_client (Inr False) (rd_exists (cx_redis cx 0) (cx_now cx) (revoked_session_key sid))"

definition redis_revoke_token :: "call_context \<Rightarrow> string \<Rightarrow> instant \<Rightarrow> auth_state_store \<Rightarrow> go_error option \<times> auth_state_store" where
  "redis_revoke_token cx tid expiresAt = with_client None
    (rd_run (cx_redis cx 0) (cx_now cx)
      [CSet (revoked_token_key tid) (RText ''1'') (ttl_until (cx_now cx) expiresAt)])"

definition redis_is_token_revoked :: "call_context \<Rightarrow> string \<Rightarrow> auth_state_store \<Rightarrow> bool go_result" where
  "redis_is_token_revoked cx tid =
    read_client (Inr False) (rd_exists (cx_redis cx 0) (cx_now cx) (revoked_token_key tid))"

definition redis_store_refresh_token :: "call_context \<Rightarrow> refresh_token_record \<Rightarrow> auth_state_store \<Rightarrow> go_error option \<times> auth_state_store" where
  "redis_store_refresh_token cx tok =
    with_client None (rd_run (cx_redis cx 0) (cx_now cx) (store_refresh_commands (cx_now cx) tok))"

definition redis_get_refresh_token :: "call_context \<Rightarrow> string \<Rightarrow> auth_state_store \<Rightarrow> refresh_token_record go_result" where
  "redis_get_refresh_token cx tid =
    read_client (Inl (ErrMsg ''refresh token not found'')) (get_refresh_at (cx_redis cx 0) (cx_now cx) tid)"

text \<open>The check both operations make on the stored record.\<close>

definition record_refused :: "instant \<Rightarrow> refresh_token_record \<Rightarrow> refresh_token_record \<Rightarrow> bool" where
  "record_refused now r tok \<longleftrightarrow> rf_revoked_at r \<noteq> None \<or> rf_subject r \<noteq> rf_subject tok \<or>
     rf_session_id r \<noteq> rf_session_id tok \<or> \<not> now < rf_expires_at r"

definition redis_consume_refresh_token :: "call_context \<Rightarrow> refresh_token_record \<Rightarrow> auth_state_store \<Rightarrow> go_error option \<times> auth_state_store" where
  "redis_consume_refresh_token cx tok = with_client None (\<lambda>db.
     let now = cx_now cx; key = revoked_token_key (rf_id tok) in
     case rd_exists (cx_redis cx 0) now key db of
       Inl e \<Rightarrow> (Some e, db)
     | Inr True \<Rightarrow> (Some (ErrMsg ''refresh token already consumed''), db)
     | Inr False \<Rightarrow>
         (let db1 = rd_set now key (RText ''1'') (ttl_until now (rf_expires_at tok)) db in
          case get_refresh_at (cx_redis cx 1) now (rf_id tok) db1 of
            Inl e \<Rightarrow> (Some e, db1)
          | Inr r \<Rightarrow>
              if record_refused now r tok then (Some (ErrMsg ''refresh token not found''), db1)
              else rd_run (cx_redis cx 2) now (store_refresh_commands now (r\<lparr>rf_revoked_at := Some now\<rparr>)) db1))"

definition redis_rotate_refresh_token :: "call_context \<Rightarrow> refresh_token_record \<Rightarrow> refresh_token_record \<Rightarrow> auth_state_store
    \<Rightarrow> go_error option \<times> auth_state_store" where
  "redis_rotate_refresh_token cx old new = with_client None (\<lambda>db.
     let now = cx_now cx in
     case rd_exists (cx_redis cx 0) now (revoked_token_key (rf_id old)) db of
       Inl e \<Rightarrow> (Some e, db)
     | Inr True \<Rightarrow> (Some (ErrMsg ''refresh token already consumed''), db)
     | Inr False \<Rightarrow>
         (case get_refresh_at (cx_redis cx 1) now (rf_id old) db of
            Inl e \<Rightarrow> (Some e, db)
          | Inr r \<Rightarrow>
              if record_refused now r old then (Some (ErrMsg ''refresh token not found''), db)
              else rd_run (cx_redis cx 2) now
                ([CSet (revoked_token_key (rf_id old)) (RText ''1'') (ttl_until now (rf_expires_at old)),
                  CSet (refresh_token_key (rf_id old)) (RRefresh (r\<lparr>rf_revoked_at := Some now\<rparr>))
                    (ttl_until now (rf_expires_at old))] @ store_refresh_commands now new) db))"

section \<open>Login failures and one-time values\<close>

definition redis_increment_login_failure ::
  "call_context \<Rightarrow> string \<Rightarrow> instant \<Rightarrow> int \<Rightarrow> duration \<Rightarrow> auth_state_store
    \<Rightarrow> login_failure go_result \<times> auth_state_store" where
  "redis_increment_login_failure cx key expiresAt lockAfter lockout = with_client (Inr no_failure) (\<lambda>db.
     let now = cx_now cx; fk = login_failure_key key in
     case stmt (cx_redis cx 0) (case rd_lookup now fk db of
         None \<Rightarrow> Inr (1, gm_put fk (RCount 1, None) db)
       | Some (RCount n) \<Rightarrow> Inr (n + 1, gm_put fk (RCount (n + 1), Option.bind (gm_get db fk) snd) db)
       | Some _ \<Rightarrow> Inl (ErrMsg ''ERR value is not an integer or out of range'')) of
       Inl e \<Rightarrow> (Inl e, db)
     | Inr (count, db1) \<Rightarrow>
         (case (if count = 1 then rd_run (cx_redis cx 1) now [CExpire fk (ttl_until now expiresAt)] db1
                else (None, db1)) of
            (Some e, db2) \<Rightarrow> (Inl e, db2)
          | (None, db2) \<Rightarrow>
              (let failure = \<lparr>lf_key = key, lf_count = count, lf_locked_until = now, lf_expires_at = expiresAt\<rparr> in
               if 0 < lockAfter \<and> lockAfter \<le> count then
                 (case rd_run (cx_redis cx 2) now
                    [CSet (login_lock_key key) (RTime (now + lockout)) (ttl_until now expiresAt)] db2 of
                    (Some e, db3) \<Rightarrow> (Inl e, db3)
                  | (None, db3) \<Rightarrow> (Inr (failure\<lparr>lf_locked_until := now + lockout\<rparr>), db3))
               else (Inr failure, db2))))"

definition redis_get_login_failure :: "call_context \<Rightarrow> string \<Rightarrow> auth_state_store \<Rightarrow> login_failure go_result" where
  "redis_get_login_failure cx key = read_client (Inr no_failure) (\<lambda>db.
     let now = cx_now cx; fk = login_failure_key key in
     case stmt (cx_redis cx 0) (rd_get now fk db) of
       Inl e \<Rightarrow> if err_is e err_redis_nil then Inr no_failure else Inl e
     | Inr (RCount n) \<Rightarrow>
         stmt (cx_redis cx 1)
           (Inr \<lparr>lf_key = key, lf_count = n,
                 lf_locked_until = (case stmt (cx_redis cx 2) (rd_get now (login_lock_key key) db) of
                    Inr (RTime u) \<Rightarrow> u | _ \<Rightarrow> now),
                 lf_expires_at = (case gm_get db fk of Some (_, Some e) \<Rightarrow> e | _ \<Rightarrow> now - 1)\<rparr>)
     | Inr _ \<Rightarrow> Inl (ErrMsg ''strconv.Atoi: invalid syntax''))"

definition redis_clear_login_failure :: "call_context \<Rightarrow> string \<Rightarrow> auth_state_store \<Rightarrow> go_error option \<times> auth_state_store" where
  "redis_clear_login_failure cx key = with_client None (\<lambda>db.
     case cx_redis cx 0 of Some e \<Rightarrow> (Some e, db)
     | None \<Rightarrow> (None, gm_del (login_lock_key key) (gm_del (login_failure_key key) db)))"

definition redis_save_oidc_state :: "call_context \<Rightarrow> string \<Rightarrow> instant \<Rightarrow> auth_state_store \<Rightarrow> go_error option \<times> auth_state_store" where
  "redis_save_oidc_state cx state expiresAt = with_client None
    (rd_run (cx_redis cx 0) (cx_now cx) [CSet (oidc_state_key state) (RText ''1'') (ttl_until (cx_now cx) expiresAt)])"

definition redis_has_oidc_state :: "call_context \<Rightarrow> string \<Rightarrow> auth_state_store \<Rightarrow> bool go_result" where
  "redis_has_oidc_state cx state = read_client (Inl (ErrMsg ''oidc state store is unavailable''))
    (rd_exists (cx_redis cx 0) (cx_now cx) (oidc_state_key state))"

definition redis_consume_oidc_state :: "call_context \<Rightarrow> string \<Rightarrow> auth_state_store \<Rightarrow> bool go_result \<times> auth_state_store" where
  "redis_consume_oidc_state cx state = with_client (Inl (ErrMsg ''oidc state store is unavailable'')) (\<lambda>db.
     case rd_exists (cx_redis cx 0) (cx_now cx) (oidc_state_key state) db of
       Inl e \<Rightarrow> (Inl e, db)
     | Inr b \<Rightarrow> (Inr b, gm_del (oidc_state_key state) db))"

definition redis_claim_once :: "call_context \<Rightarrow> string \<Rightarrow> instant \<Rightarrow> auth_state_store \<Rightarrow> bool go_result \<times> auth_state_store" where
  "redis_claim_once cx key expiresAt = with_client (Inl (ErrMsg ''security state store is unavailable'')) (\<lambda>db.
     case rd_exists (cx_redis cx 0) (cx_now cx) (once_key key) db of
       Inl e \<Rightarrow> (Inl e, db)
     | Inr True \<Rightarrow> (Inr False, db)
     | Inr False \<Rightarrow> (Inr True, rd_set (cx_now cx) (once_key key) (RText ''1'') (ttl_until (cx_now cx) expiresAt) db))"

end
