(* ===== verification/Auth_Failover.thy ===== *)
theory Auth_Failover
  imports Auth_Postgres Auth_Redis
begin

text \<open>
  \<^verbatim>\<open>FailoverStore\<close> of \<^verbatim>\<open>iam/infrastructure/authstate/failover_store.go\<close>,
  which writes sessions and revocations to a primary and a fallback store, reads from the first
  that answers, and lets one of the two, the authority, decide what may happen once. It is
  generic in the two stores; the second half instantiates it with Redis and PostgreSQL.
\<close>

section \<open>The store\<close>

record 's failover_store =
  fo_primary :: "'s token_state_store option"
  fo_fallback :: "'s token_state_store option"

abbreviation fo_stores :: "'s failover_store \<Rightarrow> 's token_state_store option list" where
  "fo_stores s \<equiv> [fo_primary s, fo_fallback s]"

text \<open>A store seen through the assertion to \<^verbatim>\<open>SecurityStateStore\<close>, with its identity.\<close>

definition as_security :: "'s token_state_store option \<Rightarrow> (string \<times> 's security_state_store) option" where
  "as_security st = Option.bind st (\<lambda>t. map_option (\<lambda>v. (st_tag t, v)) (st_security t))"

fun call_all_loop ::
  "('m \<Rightarrow> 's \<Rightarrow> go_error option \<times> 's) \<Rightarrow> 'm option list \<Rightarrow> bool \<Rightarrow> go_error option \<Rightarrow> 's \<Rightarrow> go_error option \<times> 's" where
  "call_all_loop fn [] called lastErr w = (if called then lastErr else None, w)"
| "call_all_loop fn (None # sts) called lastErr w = call_all_loop fn sts called lastErr w"
| "call_all_loop fn (Some m # sts) called lastErr w =
     (case fn m w of
        (Some e, w') \<Rightarrow> call_all_loop fn sts True (Some e) w'
      | (None, w') \<Rightarrow> call_all_loop fn sts True lastErr w')"

definition call_all :: "('s token_state_store \<Rightarrow> 's \<Rightarrow> go_error option \<times> 's) \<Rightarrow> 's failover_store \<Rightarrow> 's \<Rightarrow> go_error option \<times> 's" where
  "call_all fn s = call_all_loop fn (fo_stores s) False None"

definition call_security_all :: "('s security_state_store \<Rightarrow> 's \<Rightarrow> go_error option \<times> 's) \<Rightarrow> 's failover_store \<Rightarrow> 's \<Rightarrow> go_error option \<times> 's" where
  "call_security_all fn s = call_all_loop (\<lambda>m. fn (snd m)) (map as_security (fo_stores s)) False None"

fun read_bool_loop :: "('m \<Rightarrow> bool go_result) \<Rightarrow> 'm option list \<Rightarrow> go_error option \<Rightarrow> bool go_result" where
  "read_bool_loop fn [] lastErr = (case lastErr of None \<Rightarrow> Inr False | Some e \<Rightarrow> Inl e)"
| "read_bool_loop fn (None # sts) lastErr = read_bool_loop fn sts lastErr"
| "read_bool_loop fn (Some m # sts) lastErr =
     (case fn m of
        Inl e \<Rightarrow> read_bool_loop fn sts (Some e)
      | Inr b \<Rightarrow> if b then Inr True else read_bool_loop fn sts lastErr)"

definition read_bool :: "('s token_state_store \<Rightarrow> bool go_result) \<Rightarrow> 's failover_store \<Rightarrow> bool go_result" where
  "read_bool fn s = read_bool_loop fn (fo_stores s) None"

definition authoritative_token_store :: "'s failover_store \<Rightarrow> 's token_state_store option" where
  "authoritative_token_store s = (case fo_fallback s of Some f \<Rightarrow> Some f | None \<Rightarrow> fo_primary s)"

definition authoritative_security_store :: "'s failover_store \<Rightarrow> (string \<times> 's security_state_store) option" where
  "authoritative_security_store s =
    (case as_security (fo_fallback s) of Some f \<Rightarrow> Some f | None \<Rightarrow> as_security (fo_primary s))"

text \<open>Both best-effort loops: every store but the authority, whatever it answers.\<close>

fun best_effort :: "('m \<Rightarrow> string) \<Rightarrow> ('m \<Rightarrow> 's \<Rightarrow> 's) \<Rightarrow> string \<Rightarrow> 'm option list \<Rightarrow> 's \<Rightarrow> 's" where
  "best_effort tag fn authority [] w = w"
| "best_effort tag fn authority (None # sts) w = best_effort tag fn authority sts w"
| "best_effort tag fn authority (Some m # sts) w =
     best_effort tag fn authority sts (if tag m = authority then w else fn m w)"

definition best_effort_token :: "'s failover_store \<Rightarrow> 's token_state_store \<Rightarrow> ('s token_state_store \<Rightarrow> 's \<Rightarrow> 's) \<Rightarrow> 's \<Rightarrow> 's" where
  "best_effort_token s authority fn = best_effort st_tag fn (st_tag authority) (fo_stores s)"

definition best_effort_security ::
  "'s failover_store \<Rightarrow> string \<times> 's security_state_store \<Rightarrow> ('s security_state_store \<Rightarrow> 's \<Rightarrow> 's) \<Rightarrow> 's \<Rightarrow> 's" where
  "best_effort_security s authority fn =
    best_effort fst (\<lambda>m. fn (snd m)) (fst authority) (map as_security (fo_stores s))"

section \<open>Methods\<close>

definition fo_create_session :: "'s failover_store \<Rightarrow> call_context \<Rightarrow> token_session \<Rightarrow> 's \<Rightarrow> go_error option \<times> 's" where
  "fo_create_session s cx session = call_all (\<lambda>st. create_session st cx session) s"

definition fo_get_session :: "'s failover_store \<Rightarrow> call_context \<Rightarrow> string \<Rightarrow> 's \<Rightarrow> token_session go_result" where
  "fo_get_session s cx sid w =
    (case Option.bind (fo_primary s) (\<lambda>p. case get_session p cx sid w of Inr x \<Rightarrow> Some x | Inl _ \<Rightarrow> None) of
       Some x \<Rightarrow> Inr x
     | None \<Rightarrow> (case fo_fallback s of Some f \<Rightarrow> get_session f cx sid w
                | None \<Rightarrow> Inl (ErrMsg ''session not found'')))"

definition fo_revoke_session :: "'s failover_store \<Rightarrow> call_context \<Rightarrow> string \<Rightarrow> instant \<Rightarrow> 's \<Rightarrow> go_error option \<times> 's" where
  "fo_revoke_session s cx sid expiresAt = call_all (\<lambda>st. revoke_session st cx sid expiresAt) s"

definition fo_revoke_subject_sessions :: "'s failover_store \<Rightarrow> call_context \<Rightarrow> string \<Rightarrow> instant \<Rightarrow> 's \<Rightarrow> go_error option \<times> 's" where
  "fo_revoke_subject_sessions s cx subject expiresAt = call_all (\<lambda>st. revoke_subject_sessions st cx subject expiresAt) s"

definition fo_is_session_revoked :: "'s failover_store \<Rightarrow> call_context \<Rightarrow> string \<Rightarrow> 's \<Rightarrow> bool go_result" where
  "fo_is_session_revoked s cx sid w = read_bool (\<lambda>st. is_session_revoked st cx sid w) s"

definition fo_revoke_token :: "'s failover_store \<Rightarrow> call_context \<Rightarrow> string \<Rightarrow> instant \<Rightarrow> 's \<Rightarrow> go_error option \<times> 's" where
  "fo_revoke_token s cx tid expiresAt = call_all (\<lambda>st. revoke_token st cx tid expiresAt) s"

definition fo_is_token_revoked :: "'s failover_store \<Rightarrow> call_context \<Rightarrow> string \<Rightarrow> 's \<Rightarrow> bool go_result" where
  "fo_is_token_revoked s cx tid w = read_bool (\<lambda>st. is_token_revoked st cx tid w) s"

definition fo_store_refresh_token :: "'s failover_store \<Rightarrow> call_context \<Rightarrow> refresh_token_record \<Rightarrow> 's \<Rightarrow> go_error option \<times> 's" where
  "fo_store_refresh_token s cx tok = call_all (\<lambda>st. store_refresh_token st cx tok) s"

definition fo_get_refresh_token :: "'s failover_store \<Rightarrow> call_context \<Rightarrow> string \<Rightarrow> 's \<Rightarrow> refresh_token_record go_result" where
  "fo_get_refresh_token s cx tid w =
    (case Option.bind (fo_primary s) (\<lambda>p. case get_refresh_token p cx tid w of Inr x \<Rightarrow> Some x | Inl _ \<Rightarrow> None) of
       Some x \<Rightarrow> Inr x
     | None \<Rightarrow> (case fo_fallback s of Some f \<Rightarrow> get_refresh_token f cx tid w
                | None \<Rightarrow> Inl (ErrMsg ''refresh token not found'')))"

definition fo_consume_refresh_token :: "'s failover_store \<Rightarrow> call_context \<Rightarrow> refresh_token_record \<Rightarrow> 's \<Rightarrow> go_error option \<times> 's" where
  "fo_consume_refresh_token s cx tok w =
    (case authoritative_token_store s of
       None \<Rightarrow> (None, w)
     | Some st \<Rightarrow>
         (case consume_refresh_token st cx tok w of
            (Some e, w') \<Rightarrow> (Some e, w')
          | (None, w') \<Rightarrow> (None, best_effort_token s st (\<lambda>st w. snd (consume_refresh_token st cx tok w)) w')))"

definition fo_rotate_refresh_token :: "'s failover_store \<Rightarrow> call_context \<Rightarrow> refresh_token_record \<Rightarrow> refresh_token_record
    \<Rightarrow> 's \<Rightarrow> go_error option \<times> 's" where
  "fo_rotate_refresh_token s cx old new w =
    (case authoritative_token_store s of
       None \<Rightarrow> (None, w)
     | Some st \<Rightarrow>
         (case rotate_refresh_token st cx old new w of
            (Some e, w') \<Rightarrow> (Some e, w')
          | (None, w') \<Rightarrow> (None, best_effort_token s st (\<lambda>st w. snd (rotate_refresh_token st cx old new w)) w')))"

definition fo_increment_login_failure ::
  "'s failover_store \<Rightarrow> call_context \<Rightarrow> string \<Rightarrow> instant \<Rightarrow> int \<Rightarrow> duration \<Rightarrow> 's \<Rightarrow> login_failure go_result \<times> 's" where
  "fo_increment_login_failure s cx key expiresAt lockAfter lockout w =
    (case authoritative_security_store s of
       None \<Rightarrow> (Inr no_failure, w)
     | Some st \<Rightarrow>
         (case increment_login_failure (snd st) cx key expiresAt lockAfter lockout w of
            (Inl e, w') \<Rightarrow> (Inl e, w')
          | (Inr f, w') \<Rightarrow> (Inr f, best_effort_security s st
               (\<lambda>st w. snd (increment_login_failure st cx key expiresAt lockAfter lockout w)) w')))"

definition fo_get_login_failure :: "'s failover_store \<Rightarrow> call_context \<Rightarrow> string \<Rightarrow> 's \<Rightarrow> login_failure go_result" where
  "fo_get_login_failure s cx key w =
    (case Option.bind (as_security (fo_primary s)) (\<lambda>p. case get_login_failure (snd p) cx key w of
            Inr f \<Rightarrow> if lf_key f \<noteq> [] then Some f else None | Inl _ \<Rightarrow> None) of
       Some f \<Rightarrow> Inr f
     | None \<Rightarrow> (case as_security (fo_fallback s) of Some f \<Rightarrow> get_login_failure (snd f) cx key w
                | None \<Rightarrow> Inr no_failure))"

definition fo_clear_login_failure :: "'s failover_store \<Rightarrow> call_context \<Rightarrow> string \<Rightarrow> 's \<Rightarrow> go_error option \<times> 's" where
  "fo_clear_login_failure s cx key = call_security_all (\<lambda>st. clear_login_failure st cx key) s"

definition fo_save_oidc_state :: "'s failover_store \<Rightarrow> call_context \<Rightarrow> string \<Rightarrow> instant \<Rightarrow> 's \<Rightarrow> go_error option \<times> 's" where
  "fo_save_oidc_state s cx state expiresAt w =
    (case authoritative_security_store s of
       None \<Rightarrow> (None, w)
     | Some st \<Rightarrow>
         (case save_oidc_state (snd st) cx state expiresAt w of
            (Some e, w') \<Rightarrow> (Some e, w')
          | (None, w') \<Rightarrow> (None, best_effort_security s st (\<lambda>st w. snd (save_oidc_state st cx state expiresAt w)) w')))"

definition fo_has_oidc_state :: "'s failover_store \<Rightarrow> call_context \<Rightarrow> string \<Rightarrow> 's \<Rightarrow> bool go_result" where
  "fo_has_oidc_state s cx state w =
    (case authoritative_security_store s of None \<Rightarrow> Inr False | Some st \<Rightarrow> has_oidc_state (snd st) cx state w)"

definition fo_claim_once :: "'s failover_store \<Rightarrow> call_context \<Rightarrow> string \<Rightarrow> instant \<Rightarrow> 's \<Rightarrow> bool go_result \<times> 's" where
  "fo_claim_once s cx key expiresAt w =
    (case authoritative_security_store s of
       None \<Rightarrow> (Inr False, w)
     | Some st \<Rightarrow>
         (case claim_once (snd st) cx key expiresAt w of
            (Inl e, w') \<Rightarrow> (Inl e, w')
          | (Inr claimed, w') \<Rightarrow> (Inr claimed, if claimed
               then best_effort_security s st (\<lambda>st w. snd (claim_once st cx key expiresAt w)) w' else w')))"

definition fo_consume_oidc_state :: "'s failover_store \<Rightarrow> call_context \<Rightarrow> string \<Rightarrow> 's \<Rightarrow> bool go_result \<times> 's" where
  "fo_consume_oidc_state s cx state w =
    (case authoritative_security_store s of
       None \<Rightarrow> (Inr False, w)
     | Some st \<Rightarrow>
         (case consume_oidc_state (snd st) cx state w of
            (Inl e, w') \<Rightarrow> (Inl e, w')
          | (Inr consumed, w') \<Rightarrow> (Inr consumed, if consumed
               then best_effort_security s st (\<lambda>st w. snd (consume_oidc_state st cx state w)) w' else w')))"

section \<open>The stores of the program\<close>

record auth_world =
  aw_redis :: auth_state_store
  aw_pg :: auth_state_repository

definition in_redis :: "(auth_state_store \<Rightarrow> 'r \<times> auth_state_store) \<Rightarrow> auth_world \<Rightarrow> 'r \<times> auth_world" where
  "in_redis f w = (case f (aw_redis w) of (x, r) \<Rightarrow> (x, w\<lparr>aw_redis := r\<rparr>))"

definition in_pg :: "(auth_state_repository \<Rightarrow> 'r \<times> auth_state_repository) \<Rightarrow> auth_world \<Rightarrow> 'r \<times> auth_world" where
  "in_pg f w = (case f (aw_pg w) of (x, r) \<Rightarrow> (x, w\<lparr>aw_pg := r\<rparr>))"

definition redis_security :: "auth_world security_state_store" where
  "redis_security = \<lparr>
     increment_login_failure = (\<lambda>cx k e n d. in_redis (redis_increment_login_failure cx k e n d)),
     get_login_failure = (\<lambda>cx k w. redis_get_login_failure cx k (aw_redis w)),
     clear_login_failure = (\<lambda>cx k. in_redis (redis_clear_login_failure cx k)),
     save_oidc_state = (\<lambda>cx s e. in_redis (redis_save_oidc_state cx s e)),
     has_oidc_state = (\<lambda>cx s w. redis_has_oidc_state cx s (aw_redis w)),
     consume_oidc_state = (\<lambda>cx s. in_redis (redis_consume_oidc_state cx s)),
     claim_once = (\<lambda>cx k e. in_redis (redis_claim_once cx k e))\<rparr>"

definition redis_store :: "auth_world token_state_store" where
  "redis_store = \<lparr>
     st_tag = ''redis'',
     create_session = (\<lambda>cx s. in_redis (redis_create_session cx s)),
     get_session = (\<lambda>cx i w. redis_get_session cx i (aw_redis w)),
     revoke_session = (\<lambda>cx i e. in_redis (redis_revoke_session cx i e)),
     is_session_revoked = (\<lambda>cx i w. redis_is_session_revoked cx i (aw_redis w)),
     revoke_token = (\<lambda>cx i e. in_redis (redis_revoke_token cx i e)),
     is_token_revoked = (\<lambda>cx i w. redis_is_token_revoked cx i (aw_redis w)),
     store_refresh_token = (\<lambda>cx t. in_redis (redis_store_refresh_token cx t)),
     get_refresh_token = (\<lambda>cx i w. redis_get_refresh_token cx i (aw_redis w)),
     consume_refresh_token = (\<lambda>cx t. in_redis (redis_consume_refresh_token cx t)),
     rotate_refresh_token = (\<lambda>cx old new. in_redis (redis_rotate_refresh_token cx old new)),
     revoke_subject_sessions = (\<lambda>cx s e. in_redis (redis_revoke_subject_sessions cx s e)),
     st_security = Some redis_security\<rparr>"

definition pg_security :: "auth_world security_state_store" where
  "pg_security = \<lparr>
     increment_login_failure = (\<lambda>cx k e n d. in_pg (pg_increment_login_failure cx k e n d)),
     get_login_failure = (\<lambda>cx k w. pg_get_login_failure cx k (aw_pg w)),
     clear_login_failure = (\<lambda>cx k. in_pg (pg_clear_login_failure cx k)),
     save_oidc_state = (\<lambda>cx s e. in_pg (pg_save_oidc_state cx s e)),
     has_oidc_state = (\<lambda>cx s w. pg_has_oidc_state cx s (aw_pg w)),
     consume_oidc_state = (\<lambda>cx s. in_pg (pg_consume_oidc_state cx s)),
     claim_once = (\<lambda>cx k e. in_pg (pg_claim_once cx k e))\<rparr>"

definition pg_store :: "auth_world token_state_store" where
  "pg_store = \<lparr>
     st_tag = ''postgres'',
     create_session = (\<lambda>cx s. in_pg (pg_create_session cx s)),
     get_session = (\<lambda>cx i w. pg_get_session cx i (aw_pg w)),
     revoke_session = (\<lambda>cx i e. in_pg (pg_revoke_session cx i e)),
     is_session_revoked = (\<lambda>cx i w. pg_is_session_revoked cx i (aw_pg w)),
     revoke_token = (\<lambda>cx i e. in_pg (pg_revoke_token cx i e)),
     is_token_revoked = (\<lambda>cx i w. pg_is_token_revoked cx i (aw_pg w)),
     store_refresh_token = (\<lambda>cx t. in_pg (pg_store_refresh_token cx t)),
     get_refresh_token = (\<lambda>cx i w. pg_get_refresh_token cx i (aw_pg w)),
     consume_refresh_token = (\<lambda>cx t. in_pg (pg_consume_refresh_token cx t)),
     rotate_refresh_token = (\<lambda>cx old new. in_pg (pg_rotate_refresh_token cx old new)),
     revoke_subject_sessions = (\<lambda>cx s e. in_pg (pg_revoke_subject_sessions cx s e)),
     st_security = Some pg_security\<rparr>"

definition failover_security :: "'s failover_store \<Rightarrow> 's security_state_store" where
  "failover_security s = \<lparr>
     increment_login_failure = fo_increment_login_failure s,
     get_login_failure = fo_get_login_failure s,
     clear_login_failure = fo_clear_login_failure s,
     save_oidc_state = fo_save_oidc_state s,
     has_oidc_state = fo_has_oidc_state s,
     consume_oidc_state = fo_consume_oidc_state s,
     claim_once = fo_claim_once s\<rparr>"

definition failover_as_store :: "'s failover_store \<Rightarrow> 's token_state_store" where
  "failover_as_store s = \<lparr>
     st_tag = ''failover'',
     create_session = fo_create_session s,
     get_session = fo_get_session s,
     revoke_session = fo_revoke_session s,
     is_session_revoked = fo_is_session_revoked s,
     revoke_token = fo_revoke_token s,
     is_token_revoked = fo_is_token_revoked s,
     store_refresh_token = fo_store_refresh_token s,
     get_refresh_token = fo_get_refresh_token s,
     consume_refresh_token = fo_consume_refresh_token s,
     rotate_refresh_token = fo_rotate_refresh_token s,
     revoke_subject_sessions = fo_revoke_subject_sessions s,
     st_security = Some (failover_security s)\<rparr>"

text \<open>\<^verbatim>\<open>resolveAuthStateStore\<close>: which store the program runs on.\<close>

definition program_failover :: "auth_world failover_store" where
  "program_failover = \<lparr>fo_primary = Some redis_store, fo_fallback = Some pg_store\<rparr>"

definition resolve_auth_state_store :: "string \<Rightarrow> auth_world \<Rightarrow> auth_world token_state_store option go_result" where
  "resolve_auth_state_store environment w =
    (let chosen = (if aw_redis w \<noteq> None \<and> aw_pg w \<noteq> None then Some (failover_as_store program_failover)
                   else if aw_pg w \<noteq> None then Some pg_store
                   else if aw_redis w \<noteq> None then Some redis_store
                   else None) in
     case chosen of
       Some st \<Rightarrow> Inr (Some st)
     | None \<Rightarrow> if environment = ''production''
         then Inl (ErrMsg ''auth state store is required in production (configure database or redis) to enable session revocation'')
         else Inr None)"

end
