(* ===== verification/Auth_Tokens.thy ===== *)
theory Auth_Tokens
  imports Auth_Failover
begin

text \<open>
  \<^verbatim>\<open>shared/middleware/authn.go\<close>: signed tokens, their issue, rotation, revocation and
  verification, and the HTTP guards built on them (authentication, roles, CSRF).

  Signing and coding of the payload are the parameters of \<open>token_codec\<close>
  (\<^verbatim>\<open>crypto/hmac\<close>, \<^verbatim>\<open>encoding/json\<close>,
  \<^verbatim>\<open>encoding/base64\<close>); the identifiers drawn by
  \<^verbatim>\<open>newTokenID\<close> are arguments, in the order in which they are drawn. A call of the
  manager happens at one instant \<open>mx_now\<close>; its \<open>n\<close>-th call of the store has failures of its own.
\<close>

section \<open>Values\<close>

record principal =
  pr_subject :: string
  pr_roles :: "string list"
  pr_expires_at :: instant

record token_pair =
  tp_access_token :: string
  tp_refresh_token :: string
  tp_token_type :: string
  tp_expires_in :: int
  tp_refresh_token_expires_in :: int
  tp_session_id :: string

record token_subject =
  tj_subject :: string
  tj_session_id :: string
  tj_expires_at :: instant

record signed_token_payload =
  sp_kind :: string
  sp_subject :: string
  sp_id :: string
  sp_session_id :: string
  sp_expires_at :: int

record token_codec =
  tc_sign :: "string \<Rightarrow> string \<Rightarrow> string"
  tc_encode :: "signed_token_payload \<Rightarrow> string"
  tc_decode :: "string \<Rightarrow> signed_token_payload go_result"

record 's signed_token_manager =
  tm_secret :: string
  tm_access_ttl :: duration
  tm_refresh_ttl :: duration
  tm_store :: "'s token_state_store option"

record manager_context =
  mx_now :: instant
  mx_pg :: "nat \<Rightarrow> nat \<Rightarrow> go_error option"
  mx_redis :: "nat \<Rightarrow> nat \<Rightarrow> go_error option"

definition store_call :: "manager_context \<Rightarrow> nat \<Rightarrow> call_context" where
  "store_call mx n = \<lparr>cx_now = mx_now mx, cx_pg = mx_pg mx n, cx_redis = mx_redis mx n\<rparr>"

lemma cx_now_store_call [simp]: "cx_now (store_call mx n) = mx_now mx"
  by (simp add: store_call_def)

definition unix_seconds :: "instant \<Rightarrow> int" where "unix_seconds t = t div second"
definition from_unix :: "int \<Rightarrow> instant" where "from_unix s = s * second"

abbreviation "RoleAdmin \<equiv> ''admin''"
abbreviation "AccessTokenCookieName \<equiv> ''kubeflare_access_token''"
abbreviation "CSRFTokenCookieName \<equiv> ''kubeflare_csrf_token''"

section \<open>The manager\<close>

definition new_signed_token_manager ::
  "string \<Rightarrow> duration \<Rightarrow> duration \<Rightarrow> 's token_state_store option \<Rightarrow> 's signed_token_manager" where
  "new_signed_token_manager secret accessTTL refreshTTL store =
    \<lparr>tm_secret = trim_space secret,
     tm_access_ttl = (if accessTTL \<le> 0 then 24 * hour else accessTTL),
     tm_refresh_ttl = (if refreshTTL \<le> 0 then 7 * 24 * hour else refreshTTL),
     tm_store = store\<rparr>"

definition issue_token ::
  "token_codec \<Rightarrow> 's signed_token_manager \<Rightarrow> instant \<Rightarrow> string \<Rightarrow> string \<Rightarrow> string \<Rightarrow> string \<Rightarrow> duration
    \<Rightarrow> (string \<times> signed_token_payload) go_result" where
  "issue_token c m now newID kind subject sessionID ttl0 =
    (if tm_secret m = [] then Inl (ErrMsg ''signing key is empty'') else
     let ttl = (if ttl0 \<le> 0 then tm_access_ttl m else ttl0);
         payload = \<lparr>sp_kind = kind, sp_subject = subject, sp_id = newID, sp_session_id = sessionID,
                    sp_expires_at = unix_seconds (now + ttl)\<rparr>;
         encoded = tc_encode c payload
     in Inr (encoded @ ''.'' @ tc_sign c (tm_secret m) encoded, payload))"

definition refresh_record :: "signed_token_payload \<Rightarrow> refresh_token_record" where
  "refresh_record p = \<lparr>rf_id = sp_id p, rf_session_id = sp_session_id p, rf_subject = sp_subject p,
     rf_expires_at = from_unix (sp_expires_at p), rf_revoked_at = None\<rparr>"

definition make_pair ::
  "instant \<Rightarrow> string \<Rightarrow> string \<times> signed_token_payload \<Rightarrow> string \<times> signed_token_payload \<Rightarrow> token_pair" where
  "make_pair now sid access refresh =
    \<lparr>tp_access_token = fst access, tp_refresh_token = fst refresh, tp_token_type = ''Bearer'',
     tp_expires_in = sp_expires_at (snd access) - unix_seconds now,
     tp_refresh_token_expires_in = sp_expires_at (snd refresh) - unix_seconds now,
     tp_session_id = sid\<rparr>"

text \<open>A call of the store that a manager without a store leaves out.\<close>

definition on_store :: "'s signed_token_manager \<Rightarrow> ('s token_state_store \<Rightarrow> 's \<Rightarrow> go_error option \<times> 's) \<Rightarrow> 's \<Rightarrow> go_error option \<times> 's" where
  "on_store m f w = (case tm_store m of None \<Rightarrow> (None, w) | Some st \<Rightarrow> f st w)"

definition issue_token_pair ::
  "token_codec \<Rightarrow> 's signed_token_manager \<Rightarrow> manager_context \<Rightarrow> string \<times> string \<times> string \<Rightarrow> string \<Rightarrow> 's
    \<Rightarrow> token_pair go_result \<times> 's" where
  "issue_token_pair c m mx ids subject w =
    (case ids of (sessionID, accessID, refreshID) \<Rightarrow>
     let now = mx_now mx in
     (case on_store m (\<lambda>st. create_session st (store_call mx 0)
        \<lparr>ts_id = sessionID, ts_subject = subject, ts_expires_at = now + tm_refresh_ttl m, ts_revoked_at = None\<rparr>) w of
       (Some e, w1) \<Rightarrow> (Inl e, w1)
     | (None, w1) \<Rightarrow>
     (case issue_token c m now accessID ''access'' subject sessionID (tm_access_ttl m) of
        Inl e \<Rightarrow> (Inl e, w1)
      | Inr access \<Rightarrow>
     (case issue_token c m now refreshID ''refresh'' subject sessionID (tm_refresh_ttl m) of
        Inl e \<Rightarrow> (Inl e, w1)
      | Inr refresh \<Rightarrow>
     (case on_store m (\<lambda>st. store_refresh_token st (store_call mx 1) (refresh_record (snd refresh))) w1 of
        (Some e, w2) \<Rightarrow> (Inl e, w2)
      | (None, w2) \<Rightarrow> (Inr (make_pair now sessionID access refresh), w2))))))"

definition issue_access_token ::
  "token_codec \<Rightarrow> 's signed_token_manager \<Rightarrow> manager_context \<Rightarrow> string \<times> string \<times> string \<Rightarrow> string \<Rightarrow> 's
    \<Rightarrow> string go_result \<times> 's" where
  "issue_access_token c m mx ids subject w =
    (case issue_token_pair c m mx ids subject w of
       (Inl e, w') \<Rightarrow> (Inl e, w')
     | (Inr pair, w') \<Rightarrow> (Inr (tp_access_token pair), w'))"

text \<open>
  Verification reads the store twice; \<open>n\<close> is the number of its first call. An empty \<open>kind\<close>
  accepts both kinds of token.
\<close>

definition verify_token ::
  "token_codec \<Rightarrow> 's signed_token_manager \<Rightarrow> manager_context \<Rightarrow> string \<Rightarrow> string \<Rightarrow> 's \<Rightarrow> signed_token_payload go_result" where
  "verify_token c m mx token kind w =
    (if tm_secret m = [] then Inl ErrUnauthorized else
     case split_on CHR ''.'' token of
       [body, signature] \<Rightarrow>
         if signature \<noteq> tc_sign c (tm_secret m) body then Inl ErrUnauthorized else
         (case tc_decode c body of
            Inl e \<Rightarrow> Inl ErrUnauthorized
          | Inr p \<Rightarrow>
              if kind \<noteq> [] \<and> sp_kind p \<noteq> kind then Inl ErrUnauthorized
              else if sp_subject p = [] \<or> sp_id p = [] \<or> sp_session_id p = [] \<or>
                      sp_expires_at p \<le> unix_seconds (mx_now mx) then Inl ErrUnauthorized
              else (case tm_store m of
                 None \<Rightarrow> Inr p
               | Some st \<Rightarrow>
                   if is_token_revoked st (store_call mx 0) (sp_id p) w \<noteq> Inr False then Inl ErrUnauthorized
                   else if is_session_revoked st (store_call mx 1) (sp_session_id p) w \<noteq> Inr False then Inl ErrUnauthorized
                   else Inr p))
     | _ \<Rightarrow> Inl ErrUnauthorized)"

definition refresh_token ::
  "token_codec \<Rightarrow> 's signed_token_manager \<Rightarrow> manager_context \<Rightarrow> string \<times> string \<Rightarrow> string \<Rightarrow> 's \<Rightarrow> token_pair go_result \<times> 's" where
  "refresh_token c m mx ids token w =
    (case verify_token c m mx token ''refresh'' w of
       Inl _ \<Rightarrow> (Inl ErrUnauthorized, w)
     | Inr p \<Rightarrow>
         (let now = mx_now mx in
          case issue_token c m now (fst ids) ''access'' (sp_subject p) (sp_session_id p) (tm_access_ttl m) of
            Inl e \<Rightarrow> (Inl e, w)
          | Inr access \<Rightarrow>
         (case issue_token c m now (snd ids) ''refresh'' (sp_subject p) (sp_session_id p) (tm_refresh_ttl m) of
            Inl e \<Rightarrow> (Inl e, w)
          | Inr refresh \<Rightarrow>
         (case on_store m (\<lambda>st. rotate_refresh_token st (store_call mx 2) (refresh_record p) (refresh_record (snd refresh))) w of
            (Some e, w') \<Rightarrow> (Inl e, w')
          | (None, w') \<Rightarrow> (Inr (make_pair now (sp_session_id p) access refresh), w')))))"

definition refresh_token_subject ::
  "token_codec \<Rightarrow> 's signed_token_manager \<Rightarrow> manager_context \<Rightarrow> string \<Rightarrow> 's \<Rightarrow> token_subject go_result" where
  "refresh_token_subject c m mx token w =
    (case verify_token c m mx token ''refresh'' w of
       Inl _ \<Rightarrow> Inl ErrUnauthorized
     | Inr p \<Rightarrow> Inr \<lparr>tj_subject = sp_subject p, tj_session_id = sp_session_id p,
                    tj_expires_at = from_unix (sp_expires_at p)\<rparr>)"

definition manager_revoke_token ::
  "token_codec \<Rightarrow> 's signed_token_manager \<Rightarrow> manager_context \<Rightarrow> string \<Rightarrow> 's \<Rightarrow> go_error option \<times> 's" where
  "manager_revoke_token c m mx token w =
    (case verify_token c m mx token [] w of
       Inl _ \<Rightarrow> (Some ErrUnauthorized, w)
     | Inr p \<Rightarrow> on_store m (\<lambda>st. revoke_token st (store_call mx 2) (sp_id p) (from_unix (sp_expires_at p))) w)"

text \<open>Until when a revoked session is remembered.\<close>

definition revocation_expiry :: "'s signed_token_manager \<Rightarrow> manager_context \<Rightarrow> string \<Rightarrow> 's \<Rightarrow> 's token_state_store \<Rightarrow> instant" where
  "revocation_expiry m mx sid w st =
    (case get_session st (store_call mx 2) sid w of
       Inr s \<Rightarrow> if mx_now mx < ts_expires_at s then ts_expires_at s else mx_now mx + tm_refresh_ttl m
     | Inl _ \<Rightarrow> mx_now mx + tm_refresh_ttl m)"

definition manager_revoke_session ::
  "token_codec \<Rightarrow> 's signed_token_manager \<Rightarrow> manager_context \<Rightarrow> string \<Rightarrow> 's \<Rightarrow> go_error option \<times> 's" where
  "manager_revoke_session c m mx token w =
    (case verify_token c m mx token [] w of
       Inl _ \<Rightarrow> (Some ErrUnauthorized, w)
     | Inr p \<Rightarrow> on_store m (\<lambda>st. revoke_session st (store_call mx 3) (sp_session_id p)
                    (revocation_expiry m mx (sp_session_id p) w st)) w)"

definition manager_revoke_subject_sessions ::
  "token_codec \<Rightarrow> 's signed_token_manager \<Rightarrow> manager_context \<Rightarrow> string \<Rightarrow> 's \<Rightarrow> go_error option \<times> 's" where
  "manager_revoke_subject_sessions c m mx token w =
    (case verify_token c m mx token [] w of
       Inl _ \<Rightarrow> (Some ErrUnauthorized, w)
     | Inr p \<Rightarrow> on_store m (\<lambda>st. revoke_subject_sessions st (store_call mx 3) (sp_subject p)
                    (revocation_expiry m mx (sp_session_id p) w st)) w)"

section \<open>The authenticator\<close>

text \<open>Without a manager or a resolver (\<open>None\<close>) nobody is authenticated.\<close>

definition authenticate ::
  "token_codec \<Rightarrow> 's signed_token_manager option \<Rightarrow> (string \<Rightarrow> principal go_result) option \<Rightarrow> manager_context
    \<Rightarrow> string \<Rightarrow> 's \<Rightarrow> principal go_result" where
  "authenticate c tm resolver mx token w =
    (case (tm, resolver) of
       (Some m, Some resolve) \<Rightarrow>
         (case verify_token c m mx token ''access'' w of
            Inl _ \<Rightarrow> Inl ErrUnauthorized
          | Inr p \<Rightarrow>
              (case resolve (sp_subject p) of
                 Inl _ \<Rightarrow> Inl ErrUnauthorized
               | Inr pr \<Rightarrow> Inr (pr\<lparr>pr_expires_at := from_unix (sp_expires_at p)\<rparr>)))
     | _ \<Rightarrow> Inl ErrUnauthorized)"

section \<open>HTTP guards\<close>

text \<open>
  What the guards read of a request; \<open>hr_cookie\<close> is the lookup of a cookie, \<open>hr_principal\<close> the
  principal in the request's context. A guard refuses with an error or passes the request on.
\<close>

record http_request =
  hr_method :: string
  hr_authorization :: string
  hr_csrf_header :: string
  hr_cookie :: "string \<Rightarrow> string option"
  hr_principal :: "principal option"

definition bearer_token :: "string \<Rightarrow> string option" where
  "bearer_token header =
    (if \<not> prefix ''Bearer '' header then None else
     let token = trim_space (trim_prefix ''Bearer '' header) in
     if token \<noteq> [] then Some token else None)"

definition token_from_request :: "http_request \<Rightarrow> string option" where
  "token_from_request r =
    (case bearer_token (hr_authorization r) of
       Some token \<Rightarrow> Some token
     | None \<Rightarrow>
         (case hr_cookie r AccessTokenCookieName of
            None \<Rightarrow> None
          | Some value \<Rightarrow> (let token = trim_space value in if token \<noteq> [] then Some token else None)))"

definition unauthorized_error :: "go_error \<Rightarrow> go_error" where
  "unauthorized_error e = ErrApp CodeUnauthorized (error_text e) 401 (Some e)"

definition forbidden_error :: "string \<Rightarrow> go_error" where
  "forbidden_error msg = ErrApp CodeForbidden msg 403 (Some (ErrMsg msg))"

definition authenticate_request :: "(string \<Rightarrow> principal go_result) \<Rightarrow> http_request \<Rightarrow> http_request go_result" where
  "authenticate_request auth r =
    (case token_from_request r of
       None \<Rightarrow> Inl (unauthorized_error ErrUnauthorized)
     | Some token \<Rightarrow>
         (case auth token of
            Inl e \<Rightarrow> Inl (unauthorized_error e)
          | Inr p \<Rightarrow> Inr (r\<lparr>hr_principal := Some p\<rparr>)))"

definition require_subject :: "http_request \<Rightarrow> string go_result" where
  "require_subject r =
    (case hr_principal r of
       Some p \<Rightarrow> if pr_subject p \<noteq> [] then Inr (pr_subject p) else Inl (unauthorized_error ErrUnauthorized)
     | None \<Rightarrow> Inl (unauthorized_error ErrUnauthorized))"

fun has_role_in :: "string list \<Rightarrow> string \<Rightarrow> bool" where
  "has_role_in [] role = False"
| "has_role_in (r # rs) role = (if r = role then True else has_role_in rs role)"

definition has_role :: "principal \<Rightarrow> string \<Rightarrow> bool" where
  "has_role p role = has_role_in (pr_roles p) role"

definition principal_has_any_role :: "principal \<Rightarrow> string list \<Rightarrow> bool" where
  "principal_has_any_role p roles \<longleftrightarrow> roles = [] \<or> list_ex (has_role p) roles"

definition require_roles :: "string list \<Rightarrow> http_request \<Rightarrow> http_request go_result" where
  "require_roles roles r =
    (case hr_principal r of
       None \<Rightarrow> Inl (unauthorized_error ErrUnauthorized)
     | Some p \<Rightarrow> if \<not> principal_has_any_role p roles then Inl (forbidden_error ''forbidden'') else Inr r)"

definition require_csrf :: "http_request \<Rightarrow> http_request go_result" where
  "require_csrf r =
    (if hr_method r \<in> {''GET'', ''HEAD'', ''OPTIONS''} then Inr r
     else if bearer_token (hr_authorization r) \<noteq> None then Inr r
     else (case hr_cookie r AccessTokenCookieName of
       None \<Rightarrow> Inr r
     | Some _ \<Rightarrow>
         (let headerToken = trim_space (hr_csrf_header r) in
          case hr_cookie r CSRFTokenCookieName of
            None \<Rightarrow> Inl (forbidden_error ''invalid csrf token'')
          | Some cookieToken \<Rightarrow>
              if headerToken = [] \<or> headerToken \<noteq> trim_space cookieToken
              then Inl (forbidden_error ''invalid csrf token'') else Inr r)))"

end
