(* ===== verification/One_Time.thy ===== *)
theory One_Time
  imports Kf_Prelude
begin

text \<open>
  Values that may be taken once (refresh tokens, OIDC states, one-time keys, WebSocket tickets,
  captcha answers): runs of a step function, and the contract under which a value is
  taken at most once in any run.
\<close>

text \<open>The calls of a run with their outcomes.\<close>

fun run_trace :: "('c \<Rightarrow> 's \<Rightarrow> 'o \<times> 's) \<Rightarrow> 'c list \<Rightarrow> 's \<Rightarrow> ('c \<times> 'o) list \<times> 's" where
  "run_trace step [] s = ([], s)"
| "run_trace step (c # cs) s =
     (case step c s of (out, s1) \<Rightarrow> (case run_trace step cs s1 of (tr, s2) \<Rightarrow> ((c, out) # tr, s2)))"

text \<open>
  The contract of a one-time value: a call takes it only while it is unspent, taking it spends
  it, and a permitted call does not bring it back.
\<close>

locale one_time =
  fixes step :: "'c \<Rightarrow> 's \<Rightarrow> 'o \<times> 's"
    and taken :: "'c \<Rightarrow> 'o \<Rightarrow> bool"
    and spent :: "'s \<Rightarrow> bool"
    and permitted :: "'c \<Rightarrow> bool"
    and inv :: "'s \<Rightarrow> bool"
  assumes taken_unspent: "inv s \<Longrightarrow> step c s = (out, s') \<Longrightarrow> taken c out \<Longrightarrow> \<not> spent s"
    and taken_spends: "inv s \<Longrightarrow> step c s = (out, s') \<Longrightarrow> taken c out \<Longrightarrow> spent s'"
    and stays_spent: "inv s \<Longrightarrow> step c s = (out, s') \<Longrightarrow> permitted c \<Longrightarrow> spent s \<Longrightarrow> spent s'"
    and keeps_inv: "inv s \<Longrightarrow> step c s = (out, s') \<Longrightarrow> inv s'"
begin

abbreviation takings :: "('c \<times> 'o) list \<Rightarrow> nat" where
  "takings tr \<equiv> length (filter (\<lambda>(c, out). taken c out) tr)"

lemma none_when_spent:
  "inv s \<Longrightarrow> spent s \<Longrightarrow> list_all permitted cs \<Longrightarrow> takings (fst (run_trace step cs s)) = 0"
proof (induction cs arbitrary: s)
  case (Cons c cs)
  obtain out s1 where s1: "step c s = (out, s1)" by fastforce
  with Cons.prems have "\<not> taken c out" "spent s1" "inv s1"
    using taken_unspent stays_spent keeps_inv by (simp, blast)+
  with Cons.IH [of s1] Cons.prems s1 show ?case by (cases "run_trace step cs s1") simp
qed simp

theorem at_most_once:
  "inv s \<Longrightarrow> list_all permitted cs \<Longrightarrow> takings (fst (run_trace step cs s)) \<le> 1"
proof (induction cs arbitrary: s)
  case (Cons c cs)
  obtain out s1 where s1: "step c s = (out, s1)" by fastforce
  with Cons.prems have i: "inv s1" using keeps_inv by blast
  show ?case
  proof (cases "taken c out")
    case True
    then have "spent s1" using taken_spends Cons.prems s1 by blast
    with none_when_spent [OF i, of cs] Cons.prems s1 show ?thesis by (cases "run_trace step cs s1") simp
  next
    case False
    with Cons.IH [OF i] Cons.prems s1 show ?thesis by (cases "run_trace step cs s1") simp
  qed
qed simp

end

end
