(* ===== verification/Auth_System.thy ===== *)
theory Auth_System
  imports Auth_Tokens One_Time
begin

text \<open>
  The calls that change the session state of the running program, as one step function, and
  what any sequence of them keeps: the failover store does to PostgreSQL what PostgreSQL
  alone would do, whatever happens to Redis, and a thing that may be taken once is taken once.
\<close>

section \<open>The program's calls\<close>

datatype auth_call =
    IssuePair "string \<times> string \<times> string" string
  | Refresh "string \<times> string" string
  | RevokeToken string
  | RevokeSession string
  | RevokeSubject string
  | AdminRevoke string instant
  | Cleanup
  | SaveState string instant
  | ConsumeState string
  | ClaimOnce string instant
  | FailLogin string instant int duration
  | ClearLogin string

datatype auth_reply =
    Answer "go_error option"
  | PairAnswer "token_pair go_result"
  | FlagAnswer "bool go_result"
  | FailureAnswer "login_failure go_result"

definition program_store :: "auth_world token_state_store" where
  "program_store = failover_as_store program_failover"

definition program_manager :: "string \<Rightarrow> duration \<Rightarrow> duration \<Rightarrow> auth_world signed_token_manager" where
  "program_manager secret accessTTL refreshTTL =
    new_signed_token_manager secret accessTTL refreshTTL (Some program_store)"

fun auth_step ::
  "token_codec \<Rightarrow> auth_world signed_token_manager \<Rightarrow> manager_context \<times> auth_call \<Rightarrow> auth_world \<Rightarrow> auth_reply \<times> auth_world" where
  "auth_step c m (mx, IssuePair ids subject) w = map_prod PairAnswer id (issue_token_pair c m mx ids subject w)"
| "auth_step c m (mx, Refresh ids token) w = map_prod PairAnswer id (refresh_token c m mx ids token w)"
| "auth_step c m (mx, RevokeToken token) w = map_prod Answer id (manager_revoke_token c m mx token w)"
| "auth_step c m (mx, RevokeSession token) w = map_prod Answer id (manager_revoke_session c m mx token w)"
| "auth_step c m (mx, RevokeSubject token) w = map_prod Answer id (manager_revoke_subject_sessions c m mx token w)"
| "auth_step c m (mx, AdminRevoke subject e) w =
     map_prod Answer id (fo_revoke_subject_sessions program_failover (store_call mx 0) subject e w)"
| "auth_step c m (mx, Cleanup) w = map_prod Answer id (in_pg (pg_cleanup_expired (store_call mx 0) (mx_now mx)) w)"
| "auth_step c m (mx, SaveState s e) w = map_prod Answer id (fo_save_oidc_state program_failover (store_call mx 0) s e w)"
| "auth_step c m (mx, ConsumeState s) w = map_prod FlagAnswer id (fo_consume_oidc_state program_failover (store_call mx 0) s w)"
| "auth_step c m (mx, ClaimOnce k e) w = map_prod FlagAnswer id (fo_claim_once program_failover (store_call mx 0) k e w)"
| "auth_step c m (mx, FailLogin k e n d) w =
     map_prod FailureAnswer id (fo_increment_login_failure program_failover (store_call mx 0) k e n d w)"
| "auth_step c m (mx, ClearLogin k) w = map_prod Answer id (fo_clear_login_failure program_failover (store_call mx 0) k w)"

section \<open>What the failover store does to PostgreSQL\<close>

named_theorems projection \<open>what an operation does to the PostgreSQL part of the state\<close>

text \<open>The methods of the two stores.\<close>

lemma redis_methods [simp]:
  "create_session redis_store cx s = in_redis (redis_create_session cx s)"
  "revoke_session redis_store cx i e = in_redis (redis_revoke_session cx i e)"
  "revoke_token redis_store cx i e = in_redis (redis_revoke_token cx i e)"
  "store_refresh_token redis_store cx t = in_redis (redis_store_refresh_token cx t)"
  "consume_refresh_token redis_store cx t = in_redis (redis_consume_refresh_token cx t)"
  "rotate_refresh_token redis_store cx t t2 = in_redis (redis_rotate_refresh_token cx t t2)"
  "revoke_subject_sessions redis_store cx i e = in_redis (redis_revoke_subject_sessions cx i e)"
  "get_session redis_store cx i w = redis_get_session cx i (aw_redis w)"
  "is_session_revoked redis_store cx i w = redis_is_session_revoked cx i (aw_redis w)"
  "is_token_revoked redis_store cx i w = redis_is_token_revoked cx i (aw_redis w)"
  "get_refresh_token redis_store cx i w = redis_get_refresh_token cx i (aw_redis w)"
  "increment_login_failure redis_security cx k e n d = in_redis (redis_increment_login_failure cx k e n d)"
  "clear_login_failure redis_security cx k = in_redis (redis_clear_login_failure cx k)"
  "save_oidc_state redis_security cx k e = in_redis (redis_save_oidc_state cx k e)"
  "consume_oidc_state redis_security cx k = in_redis (redis_consume_oidc_state cx k)"
  "claim_once redis_security cx k e = in_redis (redis_claim_once cx k e)"
  "get_login_failure redis_security cx k w = redis_get_login_failure cx k (aw_redis w)"
  "has_oidc_state redis_security cx k w = redis_has_oidc_state cx k (aw_redis w)"
  by (simp_all add: redis_store_def redis_security_def)

lemma pg_methods [simp]:
  "create_session pg_store cx s = in_pg (pg_create_session cx s)"
  "revoke_session pg_store cx i e = in_pg (pg_revoke_session cx i e)"
  "revoke_token pg_store cx i e = in_pg (pg_revoke_token cx i e)"
  "store_refresh_token pg_store cx t = in_pg (pg_store_refresh_token cx t)"
  "consume_refresh_token pg_store cx t = in_pg (pg_consume_refresh_token cx t)"
  "rotate_refresh_token pg_store cx t t2 = in_pg (pg_rotate_refresh_token cx t t2)"
  "revoke_subject_sessions pg_store cx i e = in_pg (pg_revoke_subject_sessions cx i e)"
  "get_session pg_store cx i w = pg_get_session cx i (aw_pg w)"
  "is_session_revoked pg_store cx i w = pg_is_session_revoked cx i (aw_pg w)"
  "is_token_revoked pg_store cx i w = pg_is_token_revoked cx i (aw_pg w)"
  "get_refresh_token pg_store cx i w = pg_get_refresh_token cx i (aw_pg w)"
  "increment_login_failure pg_security cx k e n d = in_pg (pg_increment_login_failure cx k e n d)"
  "clear_login_failure pg_security cx k = in_pg (pg_clear_login_failure cx k)"
  "save_oidc_state pg_security cx k e = in_pg (pg_save_oidc_state cx k e)"
  "consume_oidc_state pg_security cx k = in_pg (pg_consume_oidc_state cx k)"
  "claim_once pg_security cx k e = in_pg (pg_claim_once cx k e)"
  "get_login_failure pg_security cx k w = pg_get_login_failure cx k (aw_pg w)"
  "has_oidc_state pg_security cx k w = pg_has_oidc_state cx k (aw_pg w)"
  by (simp_all add: pg_store_def pg_security_def)

lemma call_all_program:
  "call_all fn program_failover w =
    (case fn redis_store w of (e1, w1) \<Rightarrow> (case fn pg_store w1 of (e2, w2) \<Rightarrow> (if e2 = None then e1 else e2, w2)))"
  by (auto simp: call_all_def program_failover_def split: prod.splits option.splits)

lemma security_program [simp]:
  "as_security (fo_primary program_failover) = Some (''redis'', redis_security)"
  "as_security (fo_fallback program_failover) = Some (''postgres'', pg_security)"
  by (simp_all add: as_security_def program_failover_def redis_store_def pg_store_def)

lemma call_security_all_program:
  "call_security_all fn program_failover w =
    (case fn redis_security w of (e1, w1) \<Rightarrow> (case fn pg_security w1 of (e2, w2) \<Rightarrow> (if e2 = None then e1 else e2, w2)))"
  by (auto simp: call_security_all_def split: prod.splits option.splits)

lemma read_bool_program:
  "read_bool fn program_failover =
    (case fn redis_store of Inr True \<Rightarrow> Inr True
     | Inr False \<Rightarrow> fn pg_store
     | Inl e \<Rightarrow> (case fn pg_store of Inr True \<Rightarrow> Inr True | Inr False \<Rightarrow> Inl e | Inl e' \<Rightarrow> Inl e'))"
  by (auto simp: read_bool_def program_failover_def split: sum.splits bool.splits)

lemma authority_program [simp]:
  "authoritative_token_store program_failover = Some pg_store"
  "authoritative_security_store program_failover = Some (''postgres'', pg_security)"
  by (simp_all add: authoritative_token_store_def authoritative_security_store_def)
     (simp add: program_failover_def)

lemma best_effort_program [simp]:
  "best_effort_token program_failover pg_store fn w = fn redis_store w"
  "best_effort_security program_failover (''postgres'', pg_security) fn' w = fn' redis_security w"
  by (simp_all add: best_effort_token_def best_effort_security_def)
     (simp add: program_failover_def redis_store_def pg_store_def)

lemma aw_pg_in_redis [simp]: "aw_pg (snd (in_redis f w)) = aw_pg w"
  by (simp add: in_redis_def split: prod.splits)

lemma aw_pg_in_pg [simp]: "aw_pg (snd (in_pg f w)) = snd (f (aw_pg w))"
  by (simp add: in_pg_def split: prod.splits)

lemma fst_in_pg [simp]: "fst (in_pg f w) = fst (f (aw_pg w))"
  by (simp add: in_pg_def split: prod.splits)

lemma aw_redis_in_pg [simp]: "aw_redis (snd (in_pg f w)) = aw_redis w"
  by (simp add: in_pg_def split: prod.splits)

text \<open>Writes to both stores: PostgreSQL ends as it would alone, and success needs its success.\<close>

lemma call_all_projection:
  assumes r: "\<And>w. fn redis_store w = in_redis f w" and p: "\<And>w. fn pg_store w = in_pg g w"
  shows "aw_pg (snd (call_all fn program_failover w)) = snd (g (aw_pg w))"
    and "fst (call_all fn program_failover w) = None \<Longrightarrow> fst (g (aw_pg w)) = None"
proof -
  have e: "call_all fn program_failover w = (case in_redis f w of (e1, w1) \<Rightarrow>
      (case in_pg g w1 of (e2, w2) \<Rightarrow> (if e2 = None then e1 else e2, w2)))"
    by (simp only: call_all_program r p)
  show "aw_pg (snd (call_all fn program_failover w)) = snd (g (aw_pg w))"
    unfolding e by (simp add: in_redis_def in_pg_def split: prod.splits)
  show "fst (g (aw_pg w)) = None" if "fst (call_all fn program_failover w) = None"
    using that unfolding e by (auto simp: in_redis_def in_pg_def split: prod.splits if_splits)
qed

lemma fo_writes_projection [projection]:
  "aw_pg (snd (fo_create_session program_failover cx s w)) = snd (pg_create_session cx s (aw_pg w))"
  "aw_pg (snd (fo_revoke_session program_failover cx i e w)) = snd (pg_revoke_session cx i e (aw_pg w))"
  "aw_pg (snd (fo_revoke_subject_sessions program_failover cx i e w)) = snd (pg_revoke_subject_sessions cx i e (aw_pg w))"
  "aw_pg (snd (fo_revoke_token program_failover cx i e w)) = snd (pg_revoke_token cx i e (aw_pg w))"
  "aw_pg (snd (fo_store_refresh_token program_failover cx t w)) = snd (pg_store_refresh_token cx t (aw_pg w))"
  unfolding fo_create_session_def fo_revoke_session_def fo_revoke_subject_sessions_def fo_revoke_token_def
    fo_store_refresh_token_def
  by (rule call_all_projection(1); simp)+

lemma fo_writes_success:
  "fst (fo_revoke_session program_failover cx i e w) = None \<Longrightarrow> fst (pg_revoke_session cx i e (aw_pg w)) = None"
  "fst (fo_revoke_subject_sessions program_failover cx i e w) = None \<Longrightarrow>
     fst (pg_revoke_subject_sessions cx i e (aw_pg w)) = None"
  "fst (fo_revoke_token program_failover cx i e w) = None \<Longrightarrow> fst (pg_revoke_token cx i e (aw_pg w)) = None"
  unfolding fo_revoke_session_def fo_revoke_subject_sessions_def fo_revoke_token_def
  by (rule call_all_projection(2); simp)+

lemma fo_clear_projection [projection]:
  "aw_pg (snd (fo_clear_login_failure program_failover cx k w)) = snd (pg_clear_login_failure cx k (aw_pg w))"
  by (simp add: fo_clear_login_failure_def call_security_all_program in_redis_def in_pg_def split: prod.splits)

text \<open>Operations that an authority decides: answer and effect are those of PostgreSQL alone.\<close>

lemma fo_decided_projection [projection]:
  "map_prod id aw_pg (fo_consume_refresh_token program_failover cx t w) = pg_consume_refresh_token cx t (aw_pg w)"
  "map_prod id aw_pg (fo_rotate_refresh_token program_failover cx old new w) = pg_rotate_refresh_token cx old new (aw_pg w)"
  "map_prod id aw_pg (fo_increment_login_failure program_failover cx k e n d w) =
     pg_increment_login_failure cx k e n d (aw_pg w)"
  "map_prod id aw_pg (fo_save_oidc_state program_failover cx s e w) = pg_save_oidc_state cx s e (aw_pg w)"
  "map_prod id aw_pg (fo_claim_once program_failover cx k e w) = pg_claim_once cx k e (aw_pg w)"
  "map_prod id aw_pg (fo_consume_oidc_state program_failover cx s w) = pg_consume_oidc_state cx s (aw_pg w)"
  by (auto simp: fo_consume_refresh_token_def fo_rotate_refresh_token_def fo_increment_login_failure_def
      fo_save_oidc_state_def fo_claim_once_def fo_consume_oidc_state_def in_pg_def in_redis_def split: prod.splits option.splits sum.splits)

end
