(* ===== verification/Iam_Service.thy ===== *)
theory Iam_Service
  imports Auth_System
begin

text \<open>
  \<^verbatim>\<open>iam/application/service.go\<close>: log-in with captcha, lock-out and one-time codes, refresh
  and log-out, and the user operations. The repository, the stores and the token manager are the
  interfaces the service holds; password hashing (bcrypt), one-time codes (TOTP), the encryption
  of secrets, the request validator, the captcha library and the rendering of a date are
  parameters. The \<open>n\<close>-th call an operation makes of a store or of the repository runs in the
  context \<open>store_call mx n\<close>; the numbers follow the order of the source.
\<close>

section \<open>Values and interfaces\<close>

record user =
  u_id :: int
  u_legacy_id :: "string option"
  u_username :: string
  u_nickname :: string
  u_password :: string
  u_email :: string
  u_phone :: string
  u_avatar :: string
  u_remarks :: string
  u_status :: int
  u_mfa_enabled :: bool
  u_mfa_secret :: string
  u_created_at :: instant
  u_updated_at :: instant
  u_deleted_at :: "instant option"

record external_identity =
  ei_id :: int
  ei_user_id :: int
  ei_provider :: string
  ei_subject :: string
  ei_email :: string
  ei_created_at :: instant
  ei_updated_at :: instant

record 's user_repository =
  repo_list :: "call_context \<Rightarrow> 's \<Rightarrow> user list go_result"
  repo_get :: "call_context \<Rightarrow> int \<Rightarrow> 's \<Rightarrow> user go_result"
  repo_get_by_legacy_id :: "call_context \<Rightarrow> string \<Rightarrow> 's \<Rightarrow> user go_result"
  repo_get_by_username :: "call_context \<Rightarrow> string \<Rightarrow> 's \<Rightarrow> user go_result"
  repo_create :: "call_context \<Rightarrow> user \<Rightarrow> 's \<Rightarrow> user go_result \<times> 's"
  repo_update :: "call_context \<Rightarrow> user \<Rightarrow> 's \<Rightarrow> user go_result \<times> 's"
  repo_delete :: "call_context \<Rightarrow> int \<Rightarrow> 's \<Rightarrow> go_error option \<times> 's"
  repo_get_external_identity :: "call_context \<Rightarrow> string \<Rightarrow> string \<Rightarrow> 's \<Rightarrow> external_identity go_result"
  repo_create_external_identity :: "call_context \<Rightarrow> external_identity \<Rightarrow> 's \<Rightarrow> go_error option \<times> 's"
  repo_create_with_external_identity :: "call_context \<Rightarrow> user \<Rightarrow> external_identity \<Rightarrow> 's \<Rightarrow> user go_result \<times> 's"

abbreviation (input) "USER_STATUS_DISABLED \<equiv> (0::int)"
abbreviation (input) "USER_STATUS_ACTIVE \<equiv> (1::int)"

record login_request =
  lr_username :: string
  lr_password :: string
  lr_captcha_id :: string
  lr_captcha_code :: string
  lr_otp_code :: string

record login_response =
  lp_access_token :: string
  lp_refresh_token :: string
  lp_token_type :: string
  lp_expires_in :: int
  lp_refresh_token_expires_in :: int
  lp_requires_captcha :: bool
  lp_requires_mfa :: bool
  lp_session_id :: string
  lp_user :: "user option"

definition no_response :: login_response where
  "no_response = \<lparr>lp_access_token = [], lp_refresh_token = [], lp_token_type = [], lp_expires_in = 0,
     lp_refresh_token_expires_in = 0, lp_requires_captcha = False, lp_requires_mfa = False,
     lp_session_id = [], lp_user = None\<rparr>"

record logout_request =
  lo_refresh_token :: string
  lo_all_sessions :: bool

record user_request =
  uq_username :: string
  uq_nickname :: string
  uq_password :: string
  uq_email :: string
  uq_phone :: string
  uq_avatar :: string
  uq_remarks :: string
  uq_status :: "int option"

record captcha_challenge_response =
  cc_id :: string
  cc_image_url :: string
  cc_expires_in :: int

record auth_policy =
  ap_captcha_ttl :: duration
  ap_captcha_failure_trigger :: int
  ap_max_failed_attempts :: int
  ap_lockout_duration :: duration

text \<open>Functions of libraries; a validator gives the error of a request, if any.\<close>

record iam_environment =
  ev_validate_login :: "login_request \<Rightarrow> go_error option"
  ev_validate_text :: "string list \<Rightarrow> go_error option"
  ev_validate_user :: "user_request \<Rightarrow> go_error option"
  ev_bcrypt_compare :: "string \<Rightarrow> string \<Rightarrow> go_error option"
  ev_bcrypt_hash :: "string \<Rightarrow> string go_result"
  ev_totp_validate :: "instant \<Rightarrow> string \<Rightarrow> string \<Rightarrow> bool"
  ev_totp_generate :: "string \<Rightarrow> (string \<times> string) go_result"
  ev_captcha_verify :: "string \<Rightarrow> string \<Rightarrow> bool"
  ev_rfc3339 :: "instant \<Rightarrow> string"

record encryptor =
  enc_encrypt :: "string \<Rightarrow> string go_result"
  enc_decrypt :: "string \<Rightarrow> string go_result"

definition noop_encryptor :: encryptor where
  "noop_encryptor = \<lparr>enc_encrypt = Inr, enc_decrypt = Inr\<rparr>"

record 's iam_service =
  sv_repo :: "'s user_repository"
  sv_env :: iam_environment
  sv_issuer :: "(token_codec \<times> 's signed_token_manager) option"
  sv_security :: "'s security_state_store option"
  sv_encryptor :: "encryptor option"
  sv_policy :: auth_policy

definition new_service ::
  "'s user_repository \<Rightarrow> iam_environment \<Rightarrow> (token_codec \<times> 's signed_token_manager) option \<Rightarrow> 's iam_service" where
  "new_service repo env issuer =
    \<lparr>sv_repo = repo, sv_env = env, sv_issuer = issuer, sv_security = None, sv_encryptor = Some noop_encryptor,
     sv_policy = \<lparr>ap_captcha_ttl = 5 * minute, ap_captcha_failure_trigger = 3, ap_max_failed_attempts = 5,
                  ap_lockout_duration = 15 * minute\<rparr>\<rparr>"

definition set_auth_policy :: "auth_policy \<Rightarrow> 's iam_service \<Rightarrow> 's iam_service" where
  "set_auth_policy p s = (let q = sv_policy s in s\<lparr>sv_policy := \<lparr>
     ap_captcha_ttl = (if 0 < ap_captcha_ttl p then ap_captcha_ttl p else ap_captcha_ttl q),
     ap_captcha_failure_trigger =
       (if 0 \<le> ap_captcha_failure_trigger p then ap_captcha_failure_trigger p else ap_captcha_failure_trigger q),
     ap_max_failed_attempts = (if 0 \<le> ap_max_failed_attempts p then ap_max_failed_attempts p else ap_max_failed_attempts q),
     ap_lockout_duration = (if 0 < ap_lockout_duration p then ap_lockout_duration p else ap_lockout_duration q)\<rparr>\<rparr>)"

section \<open>Helpers\<close>

abbreviation app_err :: "int \<Rightarrow> string \<Rightarrow> int \<Rightarrow> go_error" where
  "app_err code msg status \<equiv> ErrApp code msg status None"

text \<open>\<^verbatim>\<open>strconv.ParseInt(s, 10, 64)\<close>; the value of a decimal numeral with an optional sign.\<close>

fun digits_value :: "int \<Rightarrow> string \<Rightarrow> int option" where
  "digits_value acc [] = Some acc"
| "digits_value acc (ch # s) =
     (if 48 \<le> byte_val ch \<and> byte_val ch \<le> 57 then digits_value (acc * 10 + (int (byte_val ch) - 48)) s else None)"

definition parse_int64 :: "string \<Rightarrow> int option" where
  "parse_int64 s =
    (let neg = (s \<noteq> [] \<and> hd s = CHR ''-'');
         body = (if s \<noteq> [] \<and> hd s \<in> {CHR ''-'', CHR ''+''} then tl s else s)
     in if body = [] then None else
        case digits_value 0 body of
          None \<Rightarrow> None
        | Some v \<Rightarrow> (let n = (if neg then - v else v) in if - (2 ^ 63) \<le> n \<and> n < 2 ^ 63 then Some n else None))"

definition parse_error :: "string \<Rightarrow> go_error" where
  "parse_error s = ErrMsg (''strconv.ParseInt: parsing '' @ [CHR 0x22] @ s @ [CHR 0x22] @ '': invalid syntax'')"

definition user_repository_error :: "go_error option \<Rightarrow> string \<Rightarrow> go_error option" where
  "user_repository_error err notFoundMessage = map_repository err
     \<lparr>not_found_code = CodeUserNotFound, not_found_message = notFoundMessage,
      conflict_code = CodeUserAlreadyExists, conflict_message = ''username or email already exists''\<rparr>"

definition resolve_user :: "'s user_repository \<Rightarrow> manager_context \<Rightarrow> nat \<Rightarrow> string \<Rightarrow> 's \<Rightarrow> user go_result" where
  "resolve_user repo mx n reference w =
    (let trimmed = trim_space reference;
         by_number = (case parse_int64 trimmed of Some i \<Rightarrow> if 0 < i then Some i else None | None \<Rightarrow> None);
         continue = (case by_number of
            Some i \<Rightarrow> repo_get repo (store_call mx (n + 1)) i w
          | None \<Rightarrow>
              if trimmed = []
              then Inl (ErrApp CodeBadRequest ''invalid user id'' 400
                     (case parse_int64 trimmed of None \<Rightarrow> Some (parse_error trimmed) | Some _ \<Rightarrow> None))
              else repo_get_by_legacy_id repo (store_call mx (n + 1)) trimmed w)
     in if trimmed \<noteq> [] then
          (case repo_get_by_legacy_id repo (store_call mx n) trimmed w of
             Inr u \<Rightarrow> Inr u
           | Inl e \<Rightarrow>
               if e \<noteq> ErrRecordNotFound \<and> \<not> contains (to_lower (error_text e)) ''not found'' then Inl e else continue)
        else continue)"

definition username_char :: "char \<Rightarrow> bool" where
  "username_char ch \<longleftrightarrow> (let b = byte_val ch in (97 \<le> b \<and> b \<le> 122) \<or> (65 \<le> b \<and> b \<le> 90) \<or> (48 \<le> b \<and> b \<le> 57) \<or>
     ch \<in> {CHR ''.'', CHR ''_'', CHR ''-''})"

definition normalize_username :: "string \<Rightarrow> string go_result" where
  "normalize_username value =
    (let username = to_lower (trim_space value) in
     if username = [] \<or> \<not> list_all username_char username
     then Inl (app_err CodeBadRequest ''username contains invalid characters'' 400)
     else Inr username)"

definition normalize_email :: "string \<Rightarrow> string" where
  "normalize_email value = to_lower (trim_space value)"

definition normalize_nickname :: "string \<Rightarrow> string go_result" where
  "normalize_nickname value =
    (let nickname = trim_space value in
     if nickname = [] then Inl (app_err CodeBadRequest ''nickname is required'' 400) else Inr nickname)"

definition normalize_user_status :: "int option \<Rightarrow> int \<Rightarrow> int" where
  "normalize_user_status value fallback = (case value of None \<Rightarrow> fallback | Some v \<Rightarrow> v)"

definition user_subject :: "user \<Rightarrow> string" where
  "user_subject u = (case u_legacy_id u of
     Some l \<Rightarrow> if trim_space l \<noteq> [] then trim_space l else itoa (u_id u)
   | None \<Rightarrow> itoa (u_id u))"

definition login_key :: "string \<Rightarrow> string \<Rightarrow> string" where
  "login_key username clientIP = username @ ''|'' @ trim_space clientIP"

definition username_login_key :: "string \<Rightarrow> string" where
  "username_login_key username = ''user|'' @ username"

definition auth_state_unavailable :: "go_error \<Rightarrow> go_error" where
  "auth_state_unavailable e = ErrApp CodeInternal ''authentication state is unavailable'' 503 (Some e)"

definition encrypt_secret :: "'s iam_service \<Rightarrow> string \<Rightarrow> string go_result" where
  "encrypt_secret s v = (case sv_encryptor s of None \<Rightarrow> Inr v | Some e \<Rightarrow> enc_encrypt e v)"

definition decrypt_secret :: "'s iam_service \<Rightarrow> string \<Rightarrow> string go_result" where
  "decrypt_secret s v = (case sv_encryptor s of None \<Rightarrow> Inr v | Some e \<Rightarrow> enc_decrypt e v)"

section \<open>Login failures\<close>

definition login_failure_by_key :: "'s iam_service \<Rightarrow> call_context \<Rightarrow> string \<Rightarrow> 's \<Rightarrow> login_failure go_result" where
  "login_failure_by_key s cx key w =
    (case sv_security s of None \<Rightarrow> Inr no_failure | Some st \<Rightarrow> get_login_failure st cx key w)"

definition requires_captcha :: "'s iam_service \<Rightarrow> manager_context \<Rightarrow> string \<Rightarrow> string \<Rightarrow> 's \<Rightarrow> bool go_result" where
  "requires_captcha s mx username clientIP w =
    (let trigger = ap_captcha_failure_trigger (sv_policy s) in
     if trigger \<le> 0 then Inr False else
     case login_failure_by_key s (store_call mx 0) (login_key username clientIP) w of
       Inl e \<Rightarrow> Inl e
     | Inr f \<Rightarrow>
         if trigger \<le> lf_count f then Inr True else
         (case login_failure_by_key s (store_call mx 1) (username_login_key username) w of
            Inl e \<Rightarrow> Inl e
          | Inr f' \<Rightarrow> Inr (trigger \<le> lf_count f')))"

text \<open>\<open>Some u\<close>: locked until \<open>u\<close>.\<close>

definition login_lock :: "'s iam_service \<Rightarrow> manager_context \<Rightarrow> string \<Rightarrow> string \<Rightarrow> 's \<Rightarrow> instant option go_result" where
  "login_lock s mx username clientIP w =
    (case login_failure_by_key s (store_call mx 2) (login_key username clientIP) w of
       Inl e \<Rightarrow> Inl e
     | Inr f \<Rightarrow>
         if mx_now mx < lf_locked_until f then Inr (Some (lf_locked_until f)) else
         (case login_failure_by_key s (store_call mx 3) (username_login_key username) w of
            Inl e \<Rightarrow> Inl e
          | Inr f' \<Rightarrow> if mx_now mx < lf_locked_until f' then Inr (Some (lf_locked_until f')) else Inr None))"

definition record_login_failure :: "'s iam_service \<Rightarrow> manager_context \<Rightarrow> nat \<Rightarrow> string \<Rightarrow> string \<Rightarrow> 's \<Rightarrow> go_error option \<times> 's" where
  "record_login_failure s mx n username clientIP w =
    (case sv_security s of
       None \<Rightarrow> (None, w)
     | Some st \<Rightarrow>
         (let p = sv_policy s; lockUntil = mx_now mx + ap_lockout_duration p;
              increment = (\<lambda>cx key. increment_login_failure st cx key lockUntil (ap_max_failed_attempts p) (ap_lockout_duration p))
          in case increment (store_call mx n) (login_key username clientIP) w of
               (Inl e, w1) \<Rightarrow> (Some e, w1)
             | (Inr _, w1) \<Rightarrow>
                 (case increment (store_call mx (n + 1)) (username_login_key username) w1 of
                    (Inl e, w2) \<Rightarrow> (Some e, w2)
                  | (Inr _, w2) \<Rightarrow> (None, w2))))"

definition clear_login_failures :: "'s iam_service \<Rightarrow> manager_context \<Rightarrow> nat \<Rightarrow> string \<Rightarrow> string \<Rightarrow> 's \<Rightarrow> 's" where
  "clear_login_failures s mx n username clientIP w =
    (case sv_security s of
       None \<Rightarrow> w
     | Some st \<Rightarrow>
         snd (clear_login_failure st (store_call mx (n + 1)) (username_login_key username)
           (snd (clear_login_failure st (store_call mx n) (login_key username clientIP) w))))"

section \<open>One-time codes\<close>

definition totp_key :: "string \<Rightarrow> string \<Rightarrow> string" where
  "totp_key subject code = ''totp:'' @ subject @ '':'' @ code"

definition validate_totp :: "'s iam_service \<Rightarrow> manager_context \<Rightarrow> nat \<Rightarrow> string \<Rightarrow> string \<Rightarrow> string \<Rightarrow> 's \<Rightarrow> bool \<times> 's" where
  "validate_totp s mx n subject secret code0 w =
    (let code = trim_space code0 in
     if code = [] \<or> trim_space secret = [] then (False, w)
     else if \<not> ev_totp_validate (sv_env s) (mx_now mx) code secret then (False, w)
     else (case sv_security s of
       None \<Rightarrow> (True, w)
     | Some st \<Rightarrow>
         (case claim_once st (store_call mx n) (totp_key subject code) (mx_now mx + 2 * 30 * second) w of
            (Inl e, w') \<Rightarrow> (True, w')
          | (Inr claimed, w') \<Rightarrow> (claimed, w'))))"

section \<open>Log-in, refresh and log-out\<close>

text \<open>The calls of the token manager are numbered from \<open>k\<close> on.\<close>

definition later :: "nat \<Rightarrow> manager_context \<Rightarrow> manager_context" where
  "later k mx = mx\<lparr>mx_pg := (\<lambda>n. mx_pg mx (k + n)), mx_redis := (\<lambda>n. mx_redis mx (k + n))\<rparr>"

definition pair_response :: "token_pair \<Rightarrow> user \<Rightarrow> login_response" where
  "pair_response p u = \<lparr>lp_access_token = tp_access_token p, lp_refresh_token = tp_refresh_token p,
     lp_token_type = tp_token_type p, lp_expires_in = tp_expires_in p,
     lp_refresh_token_expires_in = tp_refresh_token_expires_in p, lp_requires_captcha = False,
     lp_requires_mfa = False, lp_session_id = tp_session_id p, lp_user = Some u\<rparr>"

definition unauthorized_login :: "string \<Rightarrow> go_error option \<Rightarrow> go_error" where
  "unauthorized_login msg e = ErrApp CodeUnauthorized msg 401 e"

text \<open>A failed attempt is counted before it is answered; \<open>answer\<close> is the error of the answer.\<close>

definition failed_attempt :: "'s iam_service \<Rightarrow> manager_context \<Rightarrow> nat \<Rightarrow> string \<Rightarrow> string \<Rightarrow> go_error \<Rightarrow> 's
    \<Rightarrow> (login_response \<times> go_error option) \<times> 's" where
  "failed_attempt s mx n username clientIP answer w =
    (case record_login_failure s mx n username clientIP w of
       (Some e, w') \<Rightarrow> ((no_response, Some (auth_state_unavailable e)), w')
     | (None, w') \<Rightarrow> ((no_response, Some answer), w'))"

text \<open>What follows the password check: the one-time code of a user with MFA. \<open>None\<close> lets the log-in go on.\<close>

definition login_mfa :: "'s iam_service \<Rightarrow> manager_context \<Rightarrow> login_request \<Rightarrow> string \<Rightarrow> string \<Rightarrow> user \<Rightarrow> 's
    \<Rightarrow> (login_response \<times> go_error option) option \<times> 's" where
  "login_mfa s mx req username clientIP u w =
    (if \<not> u_mfa_enabled u then (None, w)
     else if trim_space (u_mfa_secret u) = []
     then (Some (no_response, Some (app_err CodeForbidden ''mfa is not configured'' 403)), w)
     else if trim_space (lr_otp_code req) = []
     then (Some (no_response\<lparr>lp_requires_mfa := True\<rparr>, Some (unauthorized_login ''mfa code is required'' None)), w)
     else (case decrypt_secret s (u_mfa_secret u) of
        Inl e \<Rightarrow> (Some (no_response, Some e), w)
      | Inr secret \<Rightarrow>
          (case validate_totp s mx 5 (user_subject u) secret (lr_otp_code req) w of
             (True, w') \<Rightarrow> (None, w')
           | (False, w') \<Rightarrow>
               (case failed_attempt s mx 6 username clientIP (unauthorized_login ''invalid mfa code'' None) w' of
                  (r, w'') \<Rightarrow> (Some r, w'')))))"

text \<open>The log-in once captcha and lock have let it pass.\<close>

definition login_credentials :: "'s iam_service \<Rightarrow> token_codec \<Rightarrow> 's signed_token_manager \<Rightarrow> manager_context
    \<Rightarrow> string \<times> string \<times> string \<Rightarrow> login_request \<Rightarrow> string \<Rightarrow> string \<Rightarrow> 's
    \<Rightarrow> (login_response \<times> go_error option) \<times> 's" where
  "login_credentials s c m mx ids req username clientIP w =
    (case repo_get_by_username (sv_repo s) (store_call mx 4) username w of
       Inl e \<Rightarrow> failed_attempt s mx 5 username clientIP (unauthorized_login ''invalid username or password'' (Some e)) w
     | Inr u \<Rightarrow>
         if u_status u \<noteq> USER_STATUS_ACTIVE
         then ((no_response, Some (app_err CodeForbidden ''user is disabled'' 403)), w)
         else if trim_space (u_password u) = []
         then ((no_response, Some (app_err CodeForbidden ''password is not configured'' 403)), w)
         else (case ev_bcrypt_compare (sv_env s) (u_password u) (lr_password req) of
            Some e \<Rightarrow> failed_attempt s mx 5 username clientIP (unauthorized_login ''invalid username or password'' (Some e)) w
          | None \<Rightarrow>
              (case login_mfa s mx req username clientIP u w of
                 (Some r, w1) \<Rightarrow> (r, w1)
               | (None, w1) \<Rightarrow>
                   (case issue_token_pair c m (later 8 mx) ids (user_subject u) w1 of
                      (Inl e, w2) \<Rightarrow> ((no_response, Some e), w2)
                    | (Inr pair, w2) \<Rightarrow>
                        ((pair_response pair u, None), clear_login_failures s mx 10 username clientIP w2)))))"

definition login_with_options :: "'s iam_service \<Rightarrow> manager_context \<Rightarrow> string \<times> string \<times> string
    \<Rightarrow> login_request \<Rightarrow> string \<Rightarrow> 's \<Rightarrow> (login_response \<times> go_error option) \<times> 's" where
  "login_with_options s mx ids req clientIP w =
    (case ev_validate_login (sv_env s) req of Some e \<Rightarrow> ((no_response, Some e), w) | None \<Rightarrow>
     (case sv_issuer s of
        None \<Rightarrow> ((no_response, Some (app_err CodeUnauthorized ''login is unavailable'' 401)), w)
      | Some (c, m) \<Rightarrow>
     (case normalize_username (lr_username req) of Inl e \<Rightarrow> ((no_response, Some e), w) | Inr username \<Rightarrow>
     (case requires_captcha s mx username clientIP w of
        Inl e \<Rightarrow> ((no_response, Some (auth_state_unavailable e)), w)
      | Inr captcha \<Rightarrow>
          if captcha \<and> \<not> ev_captcha_verify (sv_env s) (lr_captcha_id req) (lr_captcha_code req)
          then ((no_response\<lparr>lp_requires_captcha := True\<rparr>, Some (app_err CodeUnauthorized ''captcha is required'' 401)), w)
          else (case login_lock s mx username clientIP w of
             Inl e \<Rightarrow> ((no_response, Some (auth_state_unavailable e)), w)
           | Inr (Some until) \<Rightarrow>
               ((no_response, Some (app_err CodeForbidden
                  (''account is temporarily locked until '' @ ev_rfc3339 (sv_env s) until) 403)), w)
           | Inr None \<Rightarrow> login_credentials s c m mx ids req username clientIP w)))))"

definition service_refresh :: "'s iam_service \<Rightarrow> manager_context \<Rightarrow> string \<times> string \<Rightarrow> string \<Rightarrow> 's
    \<Rightarrow> (login_response \<times> go_error option) \<times> 's" where
  "service_refresh s mx ids refreshToken w =
    (case ev_validate_text (sv_env s) [refreshToken] of Some e \<Rightarrow> ((no_response, Some e), w) | None \<Rightarrow>
     (case sv_issuer s of
        None \<Rightarrow> ((no_response, Some (app_err CodeUnauthorized ''refresh is unavailable'' 401)), w)
      | Some (c, m) \<Rightarrow>
     (let token = trim_space refreshToken in
      case refresh_token_subject c m mx token w of
        Inl e \<Rightarrow> ((no_response, Some (unauthorized_login ''invalid refresh token'' (Some e))), w)
      | Inr ts \<Rightarrow>
     (case resolve_user (sv_repo s) mx 2 (tj_subject ts) w of
        Inl e \<Rightarrow> ((no_response, user_repository_error (Some e) ''user not found''), w)
      | Inr u \<Rightarrow>
          if u_status u \<noteq> USER_STATUS_ACTIVE
          then ((no_response, Some (app_err CodeForbidden ''user is disabled'' 403)), w)
          else (case refresh_token c m (later 4 mx) ids token w of
             (Inl e, w') \<Rightarrow> ((no_response, Some (unauthorized_login ''invalid refresh token'' (Some e))), w')
           | (Inr pair, w') \<Rightarrow> ((pair_response pair u, None), w'))))))"

definition logout :: "'s iam_service \<Rightarrow> manager_context \<Rightarrow> string \<Rightarrow> logout_request \<Rightarrow> 's \<Rightarrow> go_error option \<times> 's" where
  "logout s mx accessToken req w =
    (case sv_issuer s of
       None \<Rightarrow> (None, w)
     | Some (c, m) \<Rightarrow>
         if lo_all_sessions req then
           (let token = (if trim_space accessToken = [] then trim_space (lo_refresh_token req) else trim_space accessToken) in
            if token = [] then (Some (app_err CodeUnauthorized ''logout token is required'' 401), w)
            else manager_revoke_subject_sessions c m mx token w)
         else
           (case (if trim_space accessToken \<noteq> [] then manager_revoke_session c m mx accessToken w else (None, w)) of
              (Some e, w1) \<Rightarrow> (Some e, w1)
            | (None, w1) \<Rightarrow>
                if trim_space (lo_refresh_token req) \<noteq> []
                then manager_revoke_token c m (later 4 mx) (lo_refresh_token req) w1
                else (None, w1)))"

definition new_captcha_challenge :: "'s iam_service \<Rightarrow> string \<Rightarrow> captcha_challenge_response" where
  "new_captcha_challenge s i = \<lparr>cc_id = i, cc_image_url = ''/api/v1/auth/captcha/'' @ i @ ''.png'',
     cc_expires_in = ap_captcha_ttl (sv_policy s) div second\<rparr>"

section \<open>Users\<close>

definition service_list :: "'s iam_service \<Rightarrow> manager_context \<Rightarrow> 's \<Rightarrow> user list go_result" where
  "service_list s mx w = repo_list (sv_repo s) (store_call mx 0) w"

definition service_get :: "'s iam_service \<Rightarrow> manager_context \<Rightarrow> string \<Rightarrow> 's \<Rightarrow> user go_result" where
  "service_get s mx i w = (case resolve_user (sv_repo s) mx 0 i w of
     Inl e \<Rightarrow> Inl (the (user_repository_error (Some e) ''user not found'')) | Inr u \<Rightarrow> Inr u)"

definition service_get_current :: "'s iam_service \<Rightarrow> manager_context \<Rightarrow> string \<Rightarrow> 's \<Rightarrow> user go_result" where
  "service_get_current s mx subject w = (case resolve_user (sv_repo s) mx 0 subject w of
     Inl e \<Rightarrow> Inl (the (user_repository_error (Some e) ''user not found'')) | Inr u \<Rightarrow> Inr u)"

definition service_create :: "'s iam_service \<Rightarrow> manager_context \<Rightarrow> user_request \<Rightarrow> 's \<Rightarrow> user go_result \<times> 's" where
  "service_create s mx req w =
    (case ev_validate_user (sv_env s) req of Some e \<Rightarrow> (Inl e, w) | None \<Rightarrow>
     (case normalize_username (uq_username req) of Inl e \<Rightarrow> (Inl e, w) | Inr username \<Rightarrow>
     (case normalize_nickname (uq_nickname req) of Inl e \<Rightarrow> (Inl e, w) | Inr nickname \<Rightarrow>
     (case ev_bcrypt_hash (sv_env s) (uq_password req) of Inl e \<Rightarrow> (Inl e, w) | Inr password \<Rightarrow>
        repo_create (sv_repo s) (store_call mx 0)
          \<lparr>u_id = 0, u_legacy_id = None, u_username = username, u_nickname = nickname, u_password = password,
           u_email = normalize_email (uq_email req), u_phone = trim_space (uq_phone req),
           u_avatar = trim_space (uq_avatar req), u_remarks = trim_space (uq_remarks req),
           u_status = normalize_user_status (uq_status req) USER_STATUS_ACTIVE, u_mfa_enabled = False, u_mfa_secret = [],
           u_created_at = mx_now mx, u_updated_at = mx_now mx, u_deleted_at = None\<rparr> w))))"

text \<open>Saving a changed user, with the repository's error mapped.\<close>

definition save_user :: "'s iam_service \<Rightarrow> call_context \<Rightarrow> user \<Rightarrow> 's \<Rightarrow> user go_result \<times> 's" where
  "save_user s cx u w = (case repo_update (sv_repo s) cx u w of
     (Inl e, w') \<Rightarrow> (Inl (the (user_repository_error (Some e) ''user not found'')), w')
   | (Inr u', w') \<Rightarrow> (Inr u', w'))"

definition saved :: "user go_result \<times> 's \<Rightarrow> go_error option \<times> 's" where
  "saved r = (case r of (Inl e, w) \<Rightarrow> (Some e, w) | (Inr _, w) \<Rightarrow> (None, w))"

definition service_update :: "'s iam_service \<Rightarrow> manager_context \<Rightarrow> string \<Rightarrow> user_request \<Rightarrow> 's \<Rightarrow> user go_result \<times> 's" where
  "service_update s mx i req w =
    (case ev_validate_user (sv_env s) req of Some e \<Rightarrow> (Inl e, w) | None \<Rightarrow>
     (case resolve_user (sv_repo s) mx 0 i w of
        Inl e \<Rightarrow> (Inl (the (user_repository_error (Some e) ''user not found'')), w)
      | Inr u \<Rightarrow>
     (case normalize_username (uq_username req) of Inl e \<Rightarrow> (Inl e, w) | Inr username \<Rightarrow>
     (case normalize_nickname (uq_nickname req) of Inl e \<Rightarrow> (Inl e, w) | Inr nickname \<Rightarrow>
     (case (if trim_space (uq_password req) \<noteq> [] then ev_bcrypt_hash (sv_env s) (uq_password req) else Inr (u_password u)) of
        Inl e \<Rightarrow> (Inl e, w)
      | Inr password \<Rightarrow>
          save_user s (store_call mx 2)
            (u\<lparr>u_username := username, u_nickname := nickname, u_email := normalize_email (uq_email req),
               u_phone := trim_space (uq_phone req), u_avatar := trim_space (uq_avatar req),
               u_remarks := trim_space (uq_remarks req), u_status := normalize_user_status (uq_status req) (u_status u),
               u_updated_at := mx_now mx, u_password := password\<rparr>) w)))))"

definition service_delete :: "'s iam_service \<Rightarrow> manager_context \<Rightarrow> string \<Rightarrow> 's \<Rightarrow> go_error option \<times> 's" where
  "service_delete s mx i w =
    (case resolve_user (sv_repo s) mx 0 i w of
       Inl e \<Rightarrow> (user_repository_error (Some e) ''user not found'', w)
     | Inr u \<Rightarrow>
         (case repo_delete (sv_repo s) (store_call mx 2) (u_id u) w of
            (e, w') \<Rightarrow> (user_repository_error e ''user not found'', w')))"

text \<open>The user an operation on the own account is about; a disabled one is refused.\<close>

definition current_active_user :: "'s iam_service \<Rightarrow> manager_context \<Rightarrow> string \<Rightarrow> 's \<Rightarrow> user go_result" where
  "current_active_user s mx subject w =
    (case resolve_user (sv_repo s) mx 0 subject w of
       Inl e \<Rightarrow> Inl (the (user_repository_error (Some e) ''user not found''))
     | Inr u \<Rightarrow> if u_status u \<noteq> USER_STATUS_ACTIVE then Inl (app_err CodeForbidden ''user is disabled'' 403) else Inr u)"

definition update_current :: "'s iam_service \<Rightarrow> manager_context \<Rightarrow> string \<Rightarrow> user_request \<Rightarrow> 's \<Rightarrow> user go_result \<times> 's" where
  "update_current s mx subject req w =
    (case ev_validate_user (sv_env s) req of Some e \<Rightarrow> (Inl e, w) | None \<Rightarrow>
     (case current_active_user s mx subject w of Inl e \<Rightarrow> (Inl e, w) | Inr u \<Rightarrow>
     (case normalize_nickname (uq_nickname req) of Inl e \<Rightarrow> (Inl e, w) | Inr nickname \<Rightarrow>
        save_user s (store_call mx 2)
          (u\<lparr>u_nickname := nickname, u_email := normalize_email (uq_email req), u_phone := trim_space (uq_phone req),
             u_avatar := trim_space (uq_avatar req), u_remarks := trim_space (uq_remarks req), u_updated_at := mx_now mx\<rparr>) w)))"

definition update_current_password :: "'s iam_service \<Rightarrow> manager_context \<Rightarrow> string \<Rightarrow> string \<Rightarrow> string \<Rightarrow> 's \<Rightarrow> go_error option \<times> 's" where
  "update_current_password s mx subject old new w =
    (case ev_validate_text (sv_env s) [old, new] of Some e \<Rightarrow> (Some e, w) | None \<Rightarrow>
     if old = new then (Some (app_err CodeBadRequest ''new password must be different from old password'' 400), w) else
     (case current_active_user s mx subject w of Inl e \<Rightarrow> (Some e, w) | Inr u \<Rightarrow>
      if trim_space (u_password u) = [] then (Some (app_err CodeForbidden ''password is not configured'' 403), w) else
      (case ev_bcrypt_compare (sv_env s) (u_password u) old of
         Some e \<Rightarrow> (Some (unauthorized_login ''old password is incorrect'' (Some e)), w)
       | None \<Rightarrow>
           (case ev_bcrypt_hash (sv_env s) new of
              Inl e \<Rightarrow> (Some e, w)
            | Inr password \<Rightarrow>
                saved (save_user s (store_call mx 2) (u\<lparr>u_password := password, u_updated_at := mx_now mx\<rparr>) w)))))"

definition enable_mfa :: "'s iam_service \<Rightarrow> manager_context \<Rightarrow> string \<Rightarrow> 's \<Rightarrow> (string \<times> string) go_result \<times> 's" where
  "enable_mfa s mx subject w =
    (case resolve_user (sv_repo s) mx 0 subject w of
       Inl e \<Rightarrow> (Inl (the (user_repository_error (Some e) ''user not found'')), w)
     | Inr u \<Rightarrow>
     (case ev_totp_generate (sv_env s) (u_username u) of Inl e \<Rightarrow> (Inl e, w) | Inr key \<Rightarrow>
     (case encrypt_secret s (fst key) of Inl e \<Rightarrow> (Inl e, w) | Inr encrypted \<Rightarrow>
     (case save_user s (store_call mx 2)
         (u\<lparr>u_mfa_secret := encrypted, u_mfa_enabled := False, u_updated_at := mx_now mx\<rparr>) w of
        (Inl e, w') \<Rightarrow> (Inl e, w')
      | (Inr _, w') \<Rightarrow> (Inr key, w')))))"

text \<open>A user's stored secret must decrypt, and the code must be valid for it and not used yet.\<close>

definition check_mfa_code :: "'s iam_service \<Rightarrow> manager_context \<Rightarrow> string \<Rightarrow> user \<Rightarrow> string \<Rightarrow> 's \<Rightarrow> go_error option \<times> 's" where
  "check_mfa_code s mx subject u code w =
    (case decrypt_secret s (u_mfa_secret u) of
       Inl e \<Rightarrow> (Some e, w)
     | Inr secret \<Rightarrow>
         if trim_space secret = [] then (Some (unauthorized_login ''invalid mfa code'' None), w) else
         (case validate_totp s mx 2 subject secret code w of
            (False, w') \<Rightarrow> (Some (unauthorized_login ''invalid mfa code'' None), w')
          | (True, w') \<Rightarrow> (None, w')))"

definition confirm_mfa :: "'s iam_service \<Rightarrow> manager_context \<Rightarrow> string \<Rightarrow> string \<Rightarrow> 's \<Rightarrow> go_error option \<times> 's" where
  "confirm_mfa s mx subject code w =
    (case ev_validate_text (sv_env s) [code] of Some e \<Rightarrow> (Some e, w) | None \<Rightarrow>
     (case resolve_user (sv_repo s) mx 0 subject w of
        Inl e \<Rightarrow> (user_repository_error (Some e) ''user not found'', w)
      | Inr u \<Rightarrow>
     (case check_mfa_code s mx subject u code w of
        (Some e, w') \<Rightarrow> (Some e, w')
      | (None, w') \<Rightarrow> saved (save_user s (store_call mx 3) (u\<lparr>u_mfa_enabled := True, u_updated_at := mx_now mx\<rparr>) w'))))"

definition disable_mfa :: "'s iam_service \<Rightarrow> manager_context \<Rightarrow> string \<Rightarrow> string \<Rightarrow> string \<Rightarrow> 's \<Rightarrow> go_error option \<times> 's" where
  "disable_mfa s mx subject password code w =
    (case ev_validate_text (sv_env s) [password, code] of Some e \<Rightarrow> (Some e, w) | None \<Rightarrow>
     (case resolve_user (sv_repo s) mx 0 subject w of
        Inl e \<Rightarrow> (user_repository_error (Some e) ''user not found'', w)
      | Inr u \<Rightarrow>
     (case ev_bcrypt_compare (sv_env s) (u_password u) password of
        Some e \<Rightarrow> (Some (unauthorized_login ''invalid password'' (Some e)), w)
      | None \<Rightarrow>
     (case check_mfa_code s mx subject u code w of
        (Some e, w') \<Rightarrow> (Some e, w')
      | (None, w') \<Rightarrow> saved (save_user s (store_call mx 3)
            (u\<lparr>u_mfa_enabled := False, u_mfa_secret := [], u_updated_at := mx_now mx\<rparr>) w')))))"

end
