(* ===== verification/Iam_Oidc.thy ===== *)
theory Iam_Oidc
  imports Iam_Service
begin

text \<open>
  \<^verbatim>\<open>iam/application/oidc.go\<close> and \<^verbatim>\<open>iam/application/admin_credentials.go\<close>,
  and the resolution of a token's subject to a principal (\<^verbatim>\<open>app/bootstrap.go\<close>). The
  identity provider (code exchange, verification of ID tokens, claims, the authorization URL) and SHA-256 are
  parameters; random values are arguments.
\<close>

section \<open>OIDC\<close>

record oidc_claims =
  oc_subject :: string
  oc_email :: string
  oc_email_verified :: bool
  oc_name :: string
  oc_nonce :: string

record oidc_login_challenge =
  ol_auth_url :: string
  ol_state :: string
  ol_nonce :: string

record oidc_provider =
  op_auth_url :: "string \<Rightarrow> string \<Rightarrow> string"
  op_exchange :: "string \<Rightarrow> string option go_result"
  op_verify :: "string \<Rightarrow> go_error option"
  op_claims :: "string \<Rightarrow> oidc_claims go_result"
  op_sha256_hex :: "string \<Rightarrow> string"
  op_bcrypt_hash :: "string \<Rightarrow> string go_result"

record 's oidc_service =
  od_repo :: "'s user_repository"
  od_issuer :: "token_codec \<times> 's signed_token_manager"
  od_provider :: oidc_provider
  od_issuer_url :: string
  od_state_store :: "'s security_state_store option"

definition oidc_unauthorized :: "string \<Rightarrow> go_error option \<Rightarrow> go_error" where
  "oidc_unauthorized msg e = ErrApp CodeUnauthorized msg 401 e"

definition oidc_login_url :: "'s oidc_service \<Rightarrow> manager_context \<Rightarrow> string \<Rightarrow> string \<Rightarrow> 's \<Rightarrow> oidc_login_challenge go_result \<times> 's" where
  "oidc_login_url s mx state nonce w =
    (case od_state_store s of
       None \<Rightarrow> (Inl (oidc_unauthorized ''oidc state store is unavailable'' None), w)
     | Some st \<Rightarrow>
         (case save_oidc_state st (store_call mx 0) state (mx_now mx + 10 * minute) w of
            (Some e, w') \<Rightarrow> (Inl e, w')
          | (None, w') \<Rightarrow> (Inr \<lparr>ol_auth_url = op_auth_url (od_provider s) state nonce, ol_state = state, ol_nonce = nonce\<rparr>, w')))"

definition oidc_consume_state :: "'s oidc_service \<Rightarrow> call_context \<Rightarrow> string \<Rightarrow> 's \<Rightarrow> bool go_result \<times> 's" where
  "oidc_consume_state s cx state w = (case od_state_store s of
     None \<Rightarrow> (Inr False, w) | Some st \<Rightarrow> consume_oidc_state st cx (trim_space state) w)"

definition oidc_has_state :: "'s oidc_service \<Rightarrow> call_context \<Rightarrow> string \<Rightarrow> 's \<Rightarrow> bool go_result" where
  "oidc_has_state s cx state w = (case od_state_store s of
     None \<Rightarrow> Inr False | Some st \<Rightarrow> has_oidc_state st cx (trim_space state) w)"

definition active_user :: "user \<Rightarrow> user go_result" where
  "active_user u = (if u_status u \<noteq> USER_STATUS_ACTIVE then Inl (app_err CodeForbidden ''user is disabled'' 403) else Inr u)"

definition is_not_found_error :: "go_error \<Rightarrow> bool" where
  "is_not_found_error e \<longleftrightarrow> e = ErrRecordNotFound \<or> contains (to_lower (error_text e)) ''not found''"

definition oidc_username :: "oidc_provider \<Rightarrow> string \<Rightarrow> string \<Rightarrow> string" where
  "oidc_username p issuerURL subject =
    ''oidc_'' @ take 24 (op_sha256_hex p (trim_space issuerURL @ ''|'' @ trim_space subject))"

text \<open>The active user an external identity belongs to; \<open>n\<close> numbers the first of its two reads.\<close>

definition identity_user :: "'s oidc_service \<Rightarrow> manager_context \<Rightarrow> nat \<Rightarrow> external_identity \<Rightarrow> 's \<Rightarrow> user go_result" where
  "identity_user s mx n i w = (case repo_get (od_repo s) (store_call mx n) (ei_user_id i) w of
     Inl e \<Rightarrow> Inl e | Inr u \<Rightarrow> active_user u)"

definition resolve_after_conflict :: "'s oidc_service \<Rightarrow> manager_context \<Rightarrow> go_error \<Rightarrow> oidc_claims \<Rightarrow> 's \<Rightarrow> user go_result" where
  "resolve_after_conflict s mx createErr claims w =
    (case repo_get_external_identity (od_repo s) (store_call mx 5) (od_issuer_url s) (oc_subject claims) w of
       Inr i \<Rightarrow> identity_user s mx 6 i w
     | Inl e \<Rightarrow> if is_not_found_error e then Inl (the (user_repository_error (Some createErr) ''user not found'')) else Inl e)"

definition resolve_or_create_user :: "'s oidc_service \<Rightarrow> manager_context \<Rightarrow> string \<Rightarrow> oidc_claims \<Rightarrow> 's \<Rightarrow> user go_result \<times> 's" where
  "resolve_or_create_user s mx randomPassword claims w =
    (if trim_space (oc_subject claims) = [] then (Inl (oidc_unauthorized ''oidc subject missing'' None), w) else
     case repo_get_external_identity (od_repo s) (store_call mx 2) (od_issuer_url s) (oc_subject claims) w of
       Inr i \<Rightarrow> (identity_user s mx 3 i w, w)
     | Inl e \<Rightarrow>
         if \<not> is_not_found_error e then (Inl e, w)
         else if trim_space (oc_email claims) = [] then (Inl (oidc_unauthorized ''oidc email is required'' None), w)
         else if \<not> oc_email_verified claims then (Inl (oidc_unauthorized ''oidc email is not verified'' None), w)
         else (let username = oidc_username (od_provider s) (od_issuer_url s) (oc_subject claims);
                   nickname = (if trim_space (oc_name claims) = [] then username else trim_space (oc_name claims));
                   now = mx_now mx
               in case op_bcrypt_hash (od_provider s) randomPassword of
                    Inl e \<Rightarrow> (Inl e, w)
                  | Inr password \<Rightarrow>
                      (case repo_create_with_external_identity (od_repo s) (store_call mx 4)
                          \<lparr>u_id = 0, u_legacy_id = None, u_username = username, u_nickname = nickname,
                           u_password = password, u_email = normalize_email (oc_email claims), u_phone = [],
                           u_avatar = [], u_remarks = [], u_status = USER_STATUS_ACTIVE, u_mfa_enabled = False,
                           u_mfa_secret = [], u_created_at = now, u_updated_at = now, u_deleted_at = None\<rparr>
                          \<lparr>ei_id = 0, ei_user_id = 0, ei_provider = od_issuer_url s, ei_subject = oc_subject claims,
                           ei_email = normalize_email (oc_email claims), ei_created_at = now, ei_updated_at = now\<rparr> w of
                         (Inr u, w') \<Rightarrow> (Inr u, w')
                       | (Inl e, w') \<Rightarrow> (resolve_after_conflict s mx e claims w', w'))))"

text \<open>The identity behind a code: exchange, the ID token, its verification, its claims.\<close>

definition oidc_identity :: "'s oidc_service \<Rightarrow> string \<Rightarrow> oidc_claims go_result" where
  "oidc_identity s code =
    (case op_exchange (od_provider s) (trim_space code) of
       Inl e \<Rightarrow> Inl (oidc_unauthorized ''oidc token exchange failed'' (Some e))
     | Inr None \<Rightarrow> Inl (oidc_unauthorized ''oidc id token missing'' None)
     | Inr (Some raw) \<Rightarrow>
         if trim_space raw = [] then Inl (oidc_unauthorized ''oidc id token missing'' None)
         else (case op_verify (od_provider s) raw of
            Some e \<Rightarrow> Inl (oidc_unauthorized ''oidc id token is invalid'' (Some e))
          | None \<Rightarrow> op_claims (od_provider s) raw))"

definition oidc_callback :: "'s oidc_service \<Rightarrow> manager_context \<Rightarrow> string \<Rightarrow> string \<times> string \<times> string
    \<Rightarrow> string \<Rightarrow> string \<Rightarrow> string \<Rightarrow> string \<Rightarrow> 's \<Rightarrow> login_response go_result \<times> 's" where
  "oidc_callback s mx randomPassword ids state0 code expectedState expectedNonce w =
    (let state = trim_space state0; invalid = oidc_unauthorized ''invalid oidc state'' None in
     if expectedState = [] \<or> state \<noteq> trim_space expectedState then (Inl invalid, w) else
     (case oidc_has_state s (store_call mx 0) state w of
        Inl e \<Rightarrow> (Inl e, w)
      | Inr False \<Rightarrow> (Inl invalid, w)
      | Inr True \<Rightarrow>
     (case oidc_identity s code of
        Inl e \<Rightarrow> (Inl e, w)
      | Inr claims \<Rightarrow>
          if trim_space expectedNonce = [] \<or> trim_space (oc_nonce claims) \<noteq> trim_space expectedNonce
          then (Inl (oidc_unauthorized ''invalid oidc nonce'' None), w)
          else (case oidc_consume_state s (store_call mx 1) state w of
             (Inl e, w1) \<Rightarrow> (Inl e, w1)
           | (Inr False, w1) \<Rightarrow> (Inl invalid, w1)
           | (Inr True, w1) \<Rightarrow>
               (case resolve_or_create_user s mx randomPassword claims w1 of
                  (Inl e, w2) \<Rightarrow> (Inl e, w2)
                | (Inr u, w2) \<Rightarrow>
                    (case issue_token_pair (fst (od_issuer s)) (snd (od_issuer s)) (later 7 mx) ids (user_subject u) w2 of
                       (Inl e, w3) \<Rightarrow> (Inl e, w3)
                     | (Inr pair, w3) \<Rightarrow> (Inr (pair_response pair u), w3)))))))"

section \<open>Administrator credentials\<close>

record 's admin_credential_service =
  ad_repo :: "'s user_repository option"
  ad_sessions :: "(call_context \<Rightarrow> string \<Rightarrow> instant \<Rightarrow> 's \<Rightarrow> go_error option \<times> 's) option"
  ad_security :: "'s security_state_store option"
  ad_revocation_ttl :: duration
  ad_bcrypt_hash :: "string \<Rightarrow> string go_result"

record admin_credential_request =
  aq_password :: string
  aq_create_if_missing :: bool
  aq_reset_mfa :: bool

definition new_admin_credential_service ::
  "'s user_repository option \<Rightarrow> (call_context \<Rightarrow> string \<Rightarrow> instant \<Rightarrow> 's \<Rightarrow> go_error option \<times> 's) option
    \<Rightarrow> 's security_state_store option \<Rightarrow> duration \<Rightarrow> (string \<Rightarrow> string go_result) \<Rightarrow> 's admin_credential_service" where
  "new_admin_credential_service repo sessions security ttl hash =
    \<lparr>ad_repo = repo, ad_sessions = sessions, ad_security = security,
     ad_revocation_ttl = (if ttl \<le> 0 then 7 * 24 * hour else ttl), ad_bcrypt_hash = hash\<rparr>"

definition validate_admin_password :: "string \<Rightarrow> go_error option" where
  "validate_admin_password password =
    (if length password < 8 \<or> 72 < length password
     then Some (app_err CodeValidation ''password must be between 8 and 72 bytes'' 400)
     else if trim_space password = [] then Some (app_err CodeValidation ''password must not be blank'' 400)
     else None)"

definition admin_create :: "'s admin_credential_service \<Rightarrow> 's user_repository \<Rightarrow> manager_context \<Rightarrow> string \<Rightarrow> 's \<Rightarrow> bool go_result \<times> 's" where
  "admin_create s repo mx password w =
    (case ad_bcrypt_hash s password of Inl e \<Rightarrow> (Inl e, w) | Inr hash \<Rightarrow>
     (case repo_create repo (store_call mx 1)
         \<lparr>u_id = 0, u_legacy_id = None, u_username = ''admin'', u_nickname = ''admin'', u_password = hash,
          u_email = [], u_phone = [], u_avatar = [], u_remarks = [], u_status = USER_STATUS_ACTIVE,
          u_mfa_enabled = False, u_mfa_secret = [], u_created_at = mx_now mx, u_updated_at = mx_now mx,
          u_deleted_at = None\<rparr> w of
        (Inl e, w') \<Rightarrow> (Inl e, w')
      | (Inr _, w') \<Rightarrow> (Inr True, w')))"

text \<open>The result is whether the administrator was created.\<close>

definition admin_reset :: "'s admin_credential_service \<Rightarrow> manager_context \<Rightarrow> admin_credential_request \<Rightarrow> 's \<Rightarrow> bool go_result \<times> 's" where
  "admin_reset s mx req w =
    (case validate_admin_password (aq_password req) of Some e \<Rightarrow> (Inl e, w) | None \<Rightarrow>
     (case ad_repo s of None \<Rightarrow> (Inl (ErrMsg ''admin credential repository is required''), w) | Some repo \<Rightarrow>
     (case repo_get_by_username repo (store_call mx 0) ''admin'' w of
        Inl e \<Rightarrow>
          if \<not> err_is e ErrRecordNotFound then (Inl (the (user_repository_error (Some e) ''admin user not found'')), w)
          else if \<not> aq_create_if_missing req then
            (Inl (ErrApp CodeNotFound ''admin user not found; rerun with --create to initialize it'' 404 (Some e)), w)
          else admin_create s repo mx (aq_password req) w
      | Inr admin \<Rightarrow>
     (case ad_bcrypt_hash s (aq_password req) of Inl e \<Rightarrow> (Inl e, w) | Inr hash \<Rightarrow>
     (case ad_sessions s of None \<Rightarrow> (Inl (ErrMsg ''admin session revoker is required''), w) | Some revoke \<Rightarrow>
     (case revoke (store_call mx 1) (user_subject admin) (mx_now mx + ad_revocation_ttl s) w of
        (Some e, w1) \<Rightarrow> (Inl e, w1)
      | (None, w1) \<Rightarrow>
     (case (case ad_security s of None \<Rightarrow> (None, w1)
            | Some st \<Rightarrow> clear_login_failure st (store_call mx 2) (username_login_key ''admin'') w1) of
        (Some e, w2) \<Rightarrow> (Inl e, w2)
      | (None, w2) \<Rightarrow>
          (let reset = (if aq_reset_mfa req then (\<lambda>u. u\<lparr>u_mfa_enabled := False, u_mfa_secret := []\<rparr>) else id) in
           case repo_update repo (store_call mx 3) ((reset (admin\<lparr>u_password := hash\<rparr>))\<lparr>u_updated_at := mx_now mx\<rparr>) w2 of
             (Inl e, w3) \<Rightarrow> (Inl (the (user_repository_error (Some e) ''admin user not found'')), w3)
           | (Inr _, w3) \<Rightarrow> (Inr False, w3)))))))))"

section \<open>Principals\<close>

definition roles_for_user :: "user \<Rightarrow> string list" where
  "roles_for_user u = (if to_lower (trim_space (u_username u)) = ''admin'' then [RoleAdmin] else [])"

definition resolve_principal_user :: "'s user_repository option \<Rightarrow> manager_context \<Rightarrow> string \<Rightarrow> 's \<Rightarrow> user go_result" where
  "resolve_principal_user repo mx subject w =
    (case repo of None \<Rightarrow> Inl ErrUnauthorized | Some r \<Rightarrow>
     (let trimmed = trim_space subject;
          continue = (case (case parse_int64 trimmed of Some i \<Rightarrow> if 0 < i then Some i else None | None \<Rightarrow> None) of
             Some i \<Rightarrow> repo_get r (store_call mx 1) i w
           | None \<Rightarrow> if trimmed = [] then Inl ErrUnauthorized
               else repo_get_by_legacy_id r (store_call mx 1) trimmed w)
      in if trimmed \<noteq> [] then
           (case repo_get_by_legacy_id r (store_call mx 0) trimmed w of Inr u \<Rightarrow> Inr u | Inl _ \<Rightarrow> continue)
         else continue))"

definition resolve_principal :: "'s user_repository option \<Rightarrow> manager_context \<Rightarrow> string \<Rightarrow> 's \<Rightarrow> principal go_result" where
  "resolve_principal repo mx subject w =
    (case resolve_principal_user repo mx subject w of
       Inl e \<Rightarrow> Inl e
     | Inr u \<Rightarrow>
         if u_status u \<noteq> USER_STATUS_ACTIVE then Inl ErrUnauthorized
         else Inr \<lparr>pr_subject = subject, pr_roles = roles_for_user u, pr_expires_at = zero_time\<rparr>)"

end
