(* ===== verification/Auth_Facts.thy ===== *)
theory Auth_Facts
  imports Auth_System
begin

text \<open>
  What the program's calls do to the tables: every call is a sequence of writes of the
  repository (\<open>auth_step_writes\<close>), so a condition on the tables that every permitted write
  keeps is kept by every permitted call (locale \<open>table_invariant\<close>). The conditions the
  properties use are its interpretations.
\<close>

section \<open>Calls as writes\<close>

datatype pg_write =
    WCreateSession token_session
  | WRevokeSession string instant
  | WRevokeSubject string instant
  | WRevokeToken string instant
  | WStoreRefresh refresh_token_record
  | WRotate refresh_token_record refresh_token_record
  | WFail string instant int duration
  | WClear string
  | WSaveState string instant
  | WConsumeState string
  | WClaim string instant
  | WCleanup instant

fun pg_write_step :: "call_context \<Rightarrow> pg_write \<Rightarrow> auth_state_repository \<Rightarrow> auth_state_repository" where
  "pg_write_step cx (WCreateSession s) r = snd (pg_create_session cx s r)"
| "pg_write_step cx (WRevokeSession i e) r = snd (pg_revoke_session cx i e r)"
| "pg_write_step cx (WRevokeSubject i e) r = snd (pg_revoke_subject_sessions cx i e r)"
| "pg_write_step cx (WRevokeToken i e) r = snd (pg_revoke_token cx i e r)"
| "pg_write_step cx (WStoreRefresh t) r = snd (pg_store_refresh_token cx t r)"
| "pg_write_step cx (WRotate old new) r = snd (pg_rotate_refresh_token cx old new r)"
| "pg_write_step cx (WFail k e n d) r = snd (pg_increment_login_failure cx k e n d r)"
| "pg_write_step cx (WClear k) r = snd (pg_clear_login_failure cx k r)"
| "pg_write_step cx (WSaveState s e) r = snd (pg_save_oidc_state cx s e r)"
| "pg_write_step cx (WConsumeState s) r = snd (pg_consume_oidc_state cx s r)"
| "pg_write_step cx (WClaim k e) r = snd (pg_claim_once cx k e r)"
| "pg_write_step cx (WCleanup before) r = snd (pg_cleanup_expired cx before r)"

text \<open>The refresh tokens and OIDC states a call introduces, and the bound of its clean-up.\<close>

fun new_refresh_ids :: "auth_call \<Rightarrow> string list" where
  "new_refresh_ids (IssuePair ids subject) = [snd (snd ids)]"
| "new_refresh_ids (Refresh ids token) = [snd ids]"
| "new_refresh_ids _ = []"

fun write_of :: "instant \<Rightarrow> auth_call \<Rightarrow> pg_write \<Rightarrow> bool" where
  "write_of now call (WStoreRefresh t) \<longleftrightarrow> rf_id t \<in> set (new_refresh_ids call)"
| "write_of now call (WRotate old new) \<longleftrightarrow> rf_id new \<in> set (new_refresh_ids call)"
| "write_of now call (WSaveState s e) \<longleftrightarrow> call = SaveState s e"
| "write_of now call (WConsumeState s) \<longleftrightarrow> call = ConsumeState s"
| "write_of now call (WClaim k e) \<longleftrightarrow> call = ClaimOnce k e"
| "write_of now call (WClear k) \<longleftrightarrow> call = ClearLogin k"
| "write_of now call (WFail k e n d) \<longleftrightarrow> call = FailLogin k e n d"
| "write_of now call (WCleanup before) \<longleftrightarrow> call = Cleanup \<and> before = now"
| "write_of now call _ \<longleftrightarrow> True"

type_synonym timed_write = "call_context \<times> pg_write"

abbreviation run_writes :: "timed_write list \<Rightarrow> auth_state_repository \<Rightarrow> auth_state_repository" where
  "run_writes ws r \<equiv> fold (\<lambda>(cx, wr). pg_write_step cx wr) ws r"

definition written_by :: "instant \<Rightarrow> auth_call \<Rightarrow> auth_state_repository \<Rightarrow> auth_state_repository \<Rightarrow> bool" where
  "written_by now call r r' \<longleftrightarrow>
     (\<exists>ws. r' = run_writes ws r \<and> (\<forall>(cx, wr) \<in> set ws. cx_now cx = now \<and> write_of now call wr))"

lemma written_by_refl [simp, intro]: "written_by now call r r"
  by (auto simp: written_by_def intro: exI [of _ "[]"])

lemma written_by_one: "cx_now cx = now \<Longrightarrow> write_of now call wr \<Longrightarrow> written_by now call r (pg_write_step cx wr r)"
  by (auto simp: written_by_def intro!: exI [of _ "[(cx, wr)]"])

lemma written_by_trans: "written_by now call r r' \<Longrightarrow> written_by now call r' r'' \<Longrightarrow> written_by now call r r''"
  unfolding written_by_def
proof (elim exE conjE)
  fix ws ws'
  assume "r' = run_writes ws r" "r'' = run_writes ws' r'"
    "\<forall>(cx, wr) \<in> set ws. cx_now cx = now \<and> write_of now call wr"
    "\<forall>(cx, wr) \<in> set ws'. cx_now cx = now \<and> write_of now call wr"
  then show "\<exists>ws. r'' = run_writes ws r \<and> (\<forall>(cx, wr) \<in> set ws. cx_now cx = now \<and> write_of now call wr)"
    by (intro exI [of _ "ws @ ws'"]) auto
qed

lemma written_by_last:
  "written_by now call r r' \<Longrightarrow> r'' = pg_write_step cx wr r' \<Longrightarrow> cx_now cx = now \<Longrightarrow> write_of now call wr
    \<Longrightarrow> written_by now call r r''"
  by (simp add: written_by_trans written_by_one)

lemma tm_store_program [simp]: "tm_store (program_manager k a r) = Some program_store"
  by (simp add: program_manager_def new_signed_token_manager_def)

lemma program_methods [simp]:
  "create_session program_store = fo_create_session program_failover"
  "get_session program_store = fo_get_session program_failover"
  "revoke_session program_store = fo_revoke_session program_failover"
  "is_session_revoked program_store = fo_is_session_revoked program_failover"
  "revoke_token program_store = fo_revoke_token program_failover"
  "is_token_revoked program_store = fo_is_token_revoked program_failover"
  "store_refresh_token program_store = fo_store_refresh_token program_failover"
  "rotate_refresh_token program_store = fo_rotate_refresh_token program_failover"
  "revoke_subject_sessions program_store = fo_revoke_subject_sessions program_failover"
  by (simp_all add: program_store_def failover_as_store_def)

lemma on_store_program [simp]: "on_store (program_manager k a r) f = f program_store"
  by (auto simp: on_store_def)

lemma snd_map_prod_decided:
  assumes "map_prod id aw_pg p = q" shows "aw_pg (snd p) = snd q" and "fst p = fst q"
  using assms by (cases p; auto)+

lemma decided_effects:
  "aw_pg (snd (fo_rotate_refresh_token program_failover cx old new w)) = snd (pg_rotate_refresh_token cx old new (aw_pg w))"
  "aw_pg (snd (fo_increment_login_failure program_failover cx k e n d w)) =
     snd (pg_increment_login_failure cx k e n d (aw_pg w))"
  "aw_pg (snd (fo_save_oidc_state program_failover cx s e w)) = snd (pg_save_oidc_state cx s e (aw_pg w))"
  "aw_pg (snd (fo_claim_once program_failover cx k e w)) = snd (pg_claim_once cx k e (aw_pg w))"
  "aw_pg (snd (fo_consume_oidc_state program_failover cx s w)) = snd (pg_consume_oidc_state cx s (aw_pg w))"
  by (rule snd_map_prod_decided(1), rule fo_decided_projection)+

lemma issue_pair_writes:
  "issue_token_pair c (program_manager k a r) mx ids subject w = (out, w') \<Longrightarrow>
    written_by (mx_now mx) (IssuePair ids subject) (aw_pg w) (aw_pg w')"
proof -
  let ?m = "program_manager k a r"
  obtain sid aid rid where ids: "ids = (sid, aid, rid)" by (cases ids)
  define s where "s = \<lparr>ts_id = sid, ts_subject = subject, ts_expires_at = mx_now mx + tm_refresh_ttl ?m, ts_revoked_at = None\<rparr>"
  obtain e1 w1 where w1: "fo_create_session program_failover (store_call mx 0) s w = (e1, w1)" by fastforce
  have 1: "written_by (mx_now mx) (IssuePair ids subject) (aw_pg w) (aw_pg w1)"
    using fo_writes_projection(1) [of "store_call mx 0" s w] w1
    by (auto intro: written_by_one [of _ _ _ "WCreateSession s", simplified])
  assume out: "issue_token_pair c ?m mx ids subject w = (out, w')"
  show ?thesis
  proof (cases "w' = w1")
    case False
    then obtain refresh where
      rt: "issue_token c ?m (mx_now mx) rid ''refresh'' subject sid (tm_refresh_ttl ?m) = Inr refresh" and
      w': "w' = snd (fo_store_refresh_token program_failover (store_call mx 1) (refresh_record (snd refresh)) w1)"
      using out w1 by (auto simp: issue_token_pair_def ids Let_def s_def [symmetric] split: option.splits sum.splits prod.splits)
    have "sp_id (snd refresh) = rid" using rt by (auto simp: issue_token_def Let_def split: if_splits)
    then have "rf_id (refresh_record (snd refresh)) \<in> set (new_refresh_ids (IssuePair ids subject))"
      by (simp add: refresh_record_def ids)
    with written_by_one [of "store_call mx 1" "mx_now mx" "IssuePair ids subject" "WStoreRefresh (refresh_record (snd refresh))"]
    show ?thesis using 1 w' fo_writes_projection(5) by (auto intro: written_by_trans)
  qed (simp add: 1)
qed

lemma refresh_writes:
  "refresh_token c (program_manager k a r) mx ids token w = (out, w') \<Longrightarrow>
    written_by (mx_now mx) (Refresh ids token) (aw_pg w) (aw_pg w')"
proof (cases "w' = w")
  case False
  let ?m = "program_manager k a r"
  assume "refresh_token c ?m mx ids token w = (out, w')"
  with False obtain p refresh where
    rt: "issue_token c ?m (mx_now mx) (snd ids) ''refresh'' (sp_subject p) (sp_session_id p) (tm_refresh_ttl ?m) = Inr refresh" and
    w': "w' = snd (fo_rotate_refresh_token program_failover (store_call mx 2) (refresh_record p) (refresh_record (snd refresh)) w)"
    by (auto simp: refresh_token_def Let_def split: option.splits sum.splits prod.splits)
  have "sp_id (snd refresh) = snd ids" using rt by (auto simp: issue_token_def Let_def split: if_splits)
  then have "rf_id (refresh_record (snd refresh)) = snd ids" by (simp add: refresh_record_def)
  with written_by_one [of "store_call mx 2" "mx_now mx" "Refresh ids token" "WRotate (refresh_record p) (refresh_record (snd refresh))"]
  show ?thesis by (simp add: w' decided_effects)
qed simp

lemma revoke_writes:
  "written_by (mx_now mx) call (aw_pg w) (aw_pg (snd (manager_revoke_token c (program_manager k a r) mx token w)))"
  "written_by (mx_now mx) call (aw_pg w) (aw_pg (snd (manager_revoke_session c (program_manager k a r) mx token w)))"
  "written_by (mx_now mx) call (aw_pg w) (aw_pg (snd (manager_revoke_subject_sessions c (program_manager k a r) mx token w)))"
  by (auto simp: manager_revoke_token_def manager_revoke_session_def manager_revoke_subject_sessions_def
      fo_writes_projection split: sum.splits
      intro: written_by_one [of _ _ _ "WRevokeToken _ _", simplified] written_by_one [of _ _ _ "WRevokeSession _ _", simplified]
        written_by_one [of _ _ _ "WRevokeSubject _ _", simplified])

lemmas write_effects = fo_writes_projection fo_clear_projection decided_effects aw_pg_in_pg

theorem auth_step_writes:
  "written_by (mx_now mx) call (aw_pg w) (aw_pg (snd (auth_step c (program_manager k a r) (mx, call) w)))"
proof (cases call)
  case (IssuePair ids subject)
  then show ?thesis using issue_pair_writes [of c k a r mx ids subject w] by (metis auth_step.simps(1) id_apply prod.collapse snd_map_prod)
next
  case (Refresh ids token)
  then show ?thesis using refresh_writes [of c k a r mx ids token w] by (metis auth_step.simps(2) id_apply prod.collapse snd_map_prod)
next
  case (AdminRevoke subject e)
  with written_by_one [of "store_call mx 0" "mx_now mx" call "WRevokeSubject subject e"]
  show ?thesis by (simp add: write_effects)
next
  case Cleanup
  with written_by_one [of "store_call mx 0" "mx_now mx" call "WCleanup (mx_now mx)"]
  show ?thesis by (simp add: write_effects)
next
  case (SaveState s e)
  with written_by_one [of "store_call mx 0" "mx_now mx" call "WSaveState s e"]
  show ?thesis by (simp add: write_effects)
next
  case (ConsumeState s)
  with written_by_one [of "store_call mx 0" "mx_now mx" call "WConsumeState s"]
  show ?thesis by (simp add: write_effects)
next
  case (ClaimOnce s e)
  with written_by_one [of "store_call mx 0" "mx_now mx" call "WClaim s e"]
  show ?thesis by (simp add: write_effects)
next
  case (FailLogin s e n d)
  with written_by_one [of "store_call mx 0" "mx_now mx" call "WFail s e n d"]
  show ?thesis by (simp add: write_effects)
next
  case (ClearLogin s)
  with written_by_one [of "store_call mx 0" "mx_now mx" call "WClear s"]
  show ?thesis by (simp add: write_effects)
qed (simp_all add: revoke_writes)


section \<open>Conditions on the tables\<close>

lemmas pg_write_defs = pg_create_session_def pg_revoke_session_def pg_revoke_subject_sessions_def
  pg_revoke_token_def pg_store_refresh_token_def pg_rotate_refresh_token_def spend_refresh_token_def
  pg_increment_login_failure_def pg_clear_login_failure_def pg_save_oidc_state_def pg_consume_oidc_state_def
  pg_claim_once_def pg_cleanup_expired_def

text \<open>Every write leaves a database where there was one, and the tables keyed.\<close>

lemma with_db_Some: "snd (with_db n f (Some t)) = Some (snd (f t))"
  by (simp add: with_db_def split: prod.splits)

lemma gm_ok_upsert [simp, intro]: "gm_ok rows \<Longrightarrow> gm_ok (upsert_login_failure now k e rows)"
  by (auto simp: upsert_login_failure_def split: option.splits)

lemma tables_ok_tx: "tables_ok t \<Longrightarrow> (\<And>t'. f t = Inr t' \<Longrightarrow> tables_ok t') \<Longrightarrow> tables_ok (snd (tx f t))"
  by (rule tx_keeps)

lemma write_keeps_tables:
  assumes ok: "tables_ok t"
  shows "\<exists>t'. pg_write_step cx wr (Some t) = Some t' \<and> tables_ok t'"
proof (cases wr)
  case (WRevokeSession i e)
  then show ?thesis using ok
    by (auto simp: pg_revoke_session_def with_db_Some Let_def tables_ok_def split: option.splits intro!: tables_ok_tx [unfolded tables_ok_def, simplified])
next
  case (WFail k e n d)
  then show ?thesis using ok
    by (auto simp: pg_increment_login_failure_def with_db_Some Let_def tables_ok_def split: option.splits sum.splits)
qed (use ok in \<open>auto simp: pg_write_defs with_db_Some Let_def tables_ok_def split: option.splits if_splits
       intro!: tables_ok_tx [unfolded tables_ok_def, simplified]\<close>)


definition db_ok :: "(auth_tables \<Rightarrow> bool) \<Rightarrow> auth_world \<Rightarrow> bool" where
  "db_ok P w \<longleftrightarrow> (case aw_pg w of None \<Rightarrow> False | Some t \<Rightarrow> tables_ok t \<and> P t)"

lemma db_ok_imp: "db_ok P w \<Longrightarrow> (\<And>t. tables_ok t \<Longrightarrow> P t \<Longrightarrow> Q t) \<Longrightarrow> db_ok Q w"
  by (auto simp: db_ok_def split: option.splits)

locale table_invariant =
  fixes P :: "auth_tables \<Rightarrow> bool"
    and allowed :: "instant \<Rightarrow> pg_write \<Rightarrow> bool"
  assumes write_keeps:
    "tables_ok t \<Longrightarrow> P t \<Longrightarrow> allowed (cx_now cx) wr \<Longrightarrow> pg_write_step cx wr (Some t) = Some t' \<Longrightarrow> P t'"
begin

lemma writes_keep:
  "\<forall>(cx, wr) \<in> set ws. allowed (cx_now cx) wr \<Longrightarrow> tables_ok t \<Longrightarrow> P t
    \<Longrightarrow> \<exists>t'. run_writes ws (Some t) = Some t' \<and> tables_ok t' \<and> P t'"
proof (induction ws arbitrary: t)
  case (Cons a ws)
  obtain cx wr where a: "a = (cx, wr)" by fastforce
  obtain t1 where t1: "pg_write_step cx wr (Some t) = Some t1" "tables_ok t1"
    using write_keeps_tables Cons.prems(2) by blast
  have "allowed (cx_now cx) wr" using Cons.prems(1) a by simp
  then have "P t1" using write_keeps Cons.prems(2,3) t1(1) by blast
  with Cons.IH [of t1] Cons.prems(1) t1 a show ?case by simp
qed simp

text \<open>A call whose writes are all allowed keeps the condition.\<close>

lemma step_keeps:
  assumes "db_ok P w" and "\<And>wr. write_of (mx_now mx) call wr \<Longrightarrow> allowed (mx_now mx) wr"
  shows "db_ok P (snd (auth_step c (program_manager k a r) (mx, call) w))"
proof -
  obtain t where t: "aw_pg w = Some t" "tables_ok t" "P t"
    using assms(1) by (auto simp: db_ok_def split: option.splits)
  obtain ws where ws: "aw_pg (snd (auth_step c (program_manager k a r) (mx, call) w)) = run_writes ws (aw_pg w)"
    and "\<forall>(cx, wr) \<in> set ws. cx_now cx = mx_now mx \<and> write_of (mx_now mx) call wr"
    using auth_step_writes unfolding written_by_def by blast
  with assms(2) have "\<forall>(cx, wr) \<in> set ws. allowed (cx_now cx) wr" by auto
  with writes_keep [of ws t] t ws show ?thesis by (auto simp: db_ok_def)
qed

end

text \<open>A refresh token that can no longer be rotated.\<close>

definition refresh_spent :: "string \<Rightarrow> auth_tables \<Rightarrow> bool" where
  "refresh_spent i t \<longleftrightarrow> (case gm_get (at_refresh t) i of None \<Rightarrow> True | Some r \<Rightarrow> rf_revoked_at r \<noteq> None)"

fun no_store_of :: "string \<Rightarrow> pg_write \<Rightarrow> bool" where
  "no_store_of i (WStoreRefresh t) \<longleftrightarrow> rf_id t \<noteq> i"
| "no_store_of i (WRotate old new) \<longleftrightarrow> rf_id new \<noteq> i"
| "no_store_of i _ \<longleftrightarrow> True"

text \<open>A session known to be revoked until \<open>E\<close>.\<close>

definition session_revoked_until :: "string \<Rightarrow> instant \<Rightarrow> auth_tables \<Rightarrow> bool" where
  "session_revoked_until i E t \<longleftrightarrow>
     (\<exists>r. gm_get (at_session t) i = Some r \<and> ts_revoked_at r \<noteq> None \<and> E \<le> ts_expires_at r)"

fun cleans_before :: "instant \<Rightarrow> instant \<Rightarrow> pg_write \<Rightarrow> bool" where
  "cleans_before E now (WCleanup before) \<longleftrightarrow> before < E"
| "cleans_before E now _ \<longleftrightarrow> True"

text \<open>An OIDC state that is gone, and a one-time key that is taken until \<open>E\<close>.\<close>

definition state_gone :: "string \<Rightarrow> auth_tables \<Rightarrow> bool" where
  "state_gone s t \<longleftrightarrow> gm_get (at_oidc t) s = None"

fun no_save_of :: "string \<Rightarrow> pg_write \<Rightarrow> bool" where
  "no_save_of s (WSaveState s' e) \<longleftrightarrow> s' \<noteq> s"
| "no_save_of s (WClaim k e) \<longleftrightarrow> ''once:'' @ k \<noteq> s"
| "no_save_of s _ \<longleftrightarrow> True"

definition key_claimed_until :: "string \<Rightarrow> instant \<Rightarrow> auth_tables \<Rightarrow> bool" where
  "key_claimed_until k E t \<longleftrightarrow> (\<exists>r. gm_get (at_oidc t) (''once:'' @ k) = Some r \<and> E \<le> os_expires_at r)"

fun keeps_claim :: "string \<Rightarrow> instant \<Rightarrow> pg_write \<Rightarrow> bool" where
  "keeps_claim k E (WCleanup before) \<longleftrightarrow> before < E"
| "keeps_claim k E (WConsumeState s) \<longleftrightarrow> s \<noteq> ''once:'' @ k"
| "keeps_claim k E _ \<longleftrightarrow> True"

lemma snd_tx: "snd (tx f t) = (case f t of Inl e \<Rightarrow> t | Inr t' \<Rightarrow> t')"
  by (simp add: tx_def split: sum.splits)

interpretation refresh_inv: table_invariant "refresh_spent i" "\<lambda>now. no_store_of i" for i
proof
  fix t cx wr t'
  assume "tables_ok t" "refresh_spent i t" "no_store_of i wr" "pg_write_step cx wr (Some t) = Some t'"
  then show "refresh_spent i t'"
    by (cases wr; auto simp: refresh_spent_def pg_write_defs with_db_Some Let_def snd_tx tables_ok_def go_map refresh_row_of_def
        split: option.splits sum.splits if_splits)
qed

interpretation session_inv: table_invariant "session_revoked_until i E" "cleans_before E" for i E
proof
  fix t cx wr t'
  assume "tables_ok t" "session_revoked_until i E t" "cleans_before E (cx_now cx) wr" "pg_write_step cx wr (Some t) = Some t'"
  then show "session_revoked_until i E t'"
    by (cases wr; auto simp: session_revoked_until_def pg_write_defs with_db_Some Let_def snd_tx tables_ok_def go_map
        split: option.splits sum.splits if_splits)
qed

interpretation state_inv: table_invariant "state_gone s" "\<lambda>now. no_save_of s" for s
proof
  fix t cx wr t'
  assume "tables_ok t" "state_gone s t" "no_save_of s wr" "pg_write_step cx wr (Some t) = Some t'"
  then show "state_gone s t'"
    by (cases wr; auto simp: state_gone_def pg_write_defs with_db_Some Let_def snd_tx tables_ok_def go_map
        split: option.splits sum.splits if_splits)
qed

interpretation claim_inv: table_invariant "key_claimed_until k E" "\<lambda>now. keeps_claim k E" for k E
proof
  fix t cx wr t'
  assume "tables_ok t" "key_claimed_until k E t" "keeps_claim k E wr" "pg_write_step cx wr (Some t) = Some t'"
  then show "key_claimed_until k E t'"
    by (cases wr; auto simp: key_claimed_until_def pg_write_defs with_db_Some Let_def snd_tx tables_ok_def go_map
        split: option.splits sum.splits if_splits)
qed

interpretation any_inv: table_invariant "\<lambda>t. True" "\<lambda>now wr. True"
  by unfold_locales simp

section \<open>What is taken once\<close>

text \<open>The identifier inside a token.\<close>

definition token_payload :: "token_codec \<Rightarrow> string \<Rightarrow> signed_token_payload option" where
  "token_payload c token = (case split_on CHR ''.'' token of
     [body, signature] \<Rightarrow> (case tc_decode c body of Inr p \<Rightarrow> Some p | Inl _ \<Rightarrow> None)
   | _ \<Rightarrow> None)"

lemma verify_payload: "verify_token c m mx token kind w = Inr p \<Longrightarrow> token_payload c token = Some p"
  by (auto simp: verify_token_def token_payload_def split: if_splits list.splits sum.splits option.splits)

type_synonym timed_call = "manager_context \<times> auth_call"

fun refreshes :: "token_codec \<Rightarrow> string \<Rightarrow> timed_call \<Rightarrow> auth_reply \<Rightarrow> bool" where
  "refreshes c i (mx, Refresh ids token) (PairAnswer (Inr pair)) \<longleftrightarrow> map_option sp_id (token_payload c token) = Some i"
| "refreshes c i _ _ \<longleftrightarrow> False"

fun consumes_state :: "string \<Rightarrow> timed_call \<Rightarrow> auth_reply \<Rightarrow> bool" where
  "consumes_state s (mx, ConsumeState s') (FlagAnswer (Inr b)) \<longleftrightarrow> b \<and> s' = s"
| "consumes_state s _ _ \<longleftrightarrow> False"

fun claims_key :: "string \<Rightarrow> instant \<Rightarrow> timed_call \<Rightarrow> auth_reply \<Rightarrow> bool" where
  "claims_key k E (mx, ClaimOnce k' e) (FlagAnswer (Inr b)) \<longleftrightarrow> b \<and> k' = k \<and> E \<le> e"
| "claims_key k E _ _ \<longleftrightarrow> False"

fun permits_refresh :: "string \<Rightarrow> timed_call \<Rightarrow> bool" where
  "permits_refresh i (mx, call) \<longleftrightarrow> i \<notin> set (new_refresh_ids call)"

fun permits_state :: "string \<Rightarrow> timed_call \<Rightarrow> bool" where
  "permits_state s (mx, SaveState s' e) \<longleftrightarrow> s' \<noteq> s"
| "permits_state s (mx, ClaimOnce k e) \<longleftrightarrow> ''once:'' @ k \<noteq> s"
| "permits_state s _ \<longleftrightarrow> True"

fun permits_claim :: "string \<Rightarrow> instant \<Rightarrow> timed_call \<Rightarrow> bool" where
  "permits_claim k E (mx, Cleanup) \<longleftrightarrow> mx_now mx < E"
| "permits_claim k E (mx, ConsumeState s) \<longleftrightarrow> s \<noteq> ''once:'' @ k"
| "permits_claim k E _ \<longleftrightarrow> True"

lemma write_of_no_store: "i \<notin> set (new_refresh_ids call) \<Longrightarrow> write_of now call wr \<Longrightarrow> no_store_of i wr"
  by (cases wr) auto

lemma write_of_no_save: "permits_state s (mx, call) \<Longrightarrow> write_of now call wr \<Longrightarrow> no_save_of s wr"
  by (cases wr) auto

lemma write_of_keeps_claim: "permits_claim k E (mx, call) \<Longrightarrow> write_of (mx_now mx) call wr \<Longrightarrow> keeps_claim k E wr"
  by (cases wr) auto

text \<open>Rotation needs a usable row and revokes it.\<close>

lemma rotate_success:
  assumes "fst (pg_rotate_refresh_token cx old new (Some t)) = None" and "tables_ok t"
  shows "\<not> refresh_spent (rf_id old) t"
    and "\<exists>t'. snd (pg_rotate_refresh_token cx old new (Some t)) = Some t' \<and> refresh_spent (rf_id old) t'"
proof -
  let ?P = "\<lambda>r. refresh_usable (cx_now cx) old r"
  obtain t2 where t2: "pg_rotate_refresh_token cx old new (Some t) = (None, Some t2)"
    using assms(1) by (cases "pg_rotate_refresh_token cx old new (Some t)")
      (auto simp: pg_rotate_refresh_token_def with_db_def split: prod.splits)
  then have "rows_where (\<lambda>k r. k = rf_id old \<and> ?P r) (at_refresh t) = 1"
    by (auto simp: pg_rotate_refresh_token_def with_db_def tx_result spend_refresh_token_def Let_def split: prod.splits if_splits)
  then have "(case gm_get (at_refresh t) (rf_id old) of None \<Rightarrow> 0 | Some r \<Rightarrow> if ?P r then 1 else 0) = (1::nat)"
    by (subst (asm) rows_where_key) (use assms(2) in \<open>simp_all add: tables_ok_def\<close>)
  then obtain r where r: "gm_get (at_refresh t) (rf_id old) = Some r" "?P r"
    by (cases "gm_get (at_refresh t) (rf_id old)") (auto split: if_splits)
  then show "\<not> refresh_spent (rf_id old) t" by (simp add: refresh_spent_def refresh_usable_def)
  show "\<exists>t'. snd (pg_rotate_refresh_token cx old new (Some t)) = Some t' \<and> refresh_spent (rf_id old) t'"
    using t2 r by (auto simp: pg_rotate_refresh_token_def with_db_def tx_result spend_refresh_token_def Let_def
        refresh_spent_def split: prod.splits if_splits)
qed

lemma refresh_success:
  assumes "refresh_token c (program_manager k a r) mx ids token w = (Inr pair, w')" and "db_ok (\<lambda>_. True) w"
    and "map_option sp_id (token_payload c token) = Some i"
  shows "\<not> db_ok (refresh_spent i) w \<and> db_ok (refresh_spent i) w'"
proof -
  let ?cx = "store_call mx 2"
  obtain p new where p: "verify_token c (program_manager k a r) mx token ''refresh'' w = Inr p" and
    w': "fo_rotate_refresh_token program_failover ?cx (refresh_record p) new w = (None, w')"
    using assms(1) by (auto simp: refresh_token_def Let_def split: option.splits sum.splits prod.splits)
  then have i: "rf_id (refresh_record p) = i"
    using verify_payload assms(3) by (fastforce simp: refresh_record_def)
  obtain t where t: "aw_pg w = Some t" "tables_ok t"
    using assms(2) by (auto simp: db_ok_def split: option.splits)
  have pg: "pg_rotate_refresh_token ?cx (refresh_record p) new (Some t) = (None, aw_pg w')"
    using fo_decided_projection(2) [of ?cx "refresh_record p" new w] by (simp add: w' t)
  then have "\<not> refresh_spent i t" and "\<exists>t'. aw_pg w' = Some t' \<and> refresh_spent i t'"
    using rotate_success [of ?cx "refresh_record p" new t] t i by auto
  moreover obtain t'' where "pg_write_step ?cx (WRotate (refresh_record p) new) (Some t) = Some t''" "tables_ok t''"
    using write_keeps_tables [OF t(2)] by blast
  ultimately show ?thesis using pg t by (auto simp: db_ok_def)
qed

lemma refreshes_reply:
  assumes "auth_step c m (mx, call) w = (out, w')" and "refreshes c i (mx, call) out"
  obtains ids token pair where "call = Refresh ids token" "out = PairAnswer (Inr pair)"
    "refresh_token c m mx ids token w = (Inr pair, w')" "map_option sp_id (token_payload c token) = Some i"
  using assms by (cases "(c, i, (mx, call), out)" rule: refreshes.cases) (auto simp: map_prod_def split: prod.splits)

lemma db_ok_step:
  assumes "auth_step c (program_manager k a r) (mx, call) w = (out, w')" "db_ok (\<lambda>_. True) w"
  shows "db_ok (\<lambda>_. True) w'"
  using any_inv.step_keeps [of w mx call c k a r] assms by simp

interpretation refresh_once: one_time "auth_step c (program_manager k a r)" "refreshes c i" "db_ok (refresh_spent i)"
    "permits_refresh i" "db_ok (\<lambda>_. True)" for c k a r i
proof
  fix s out s' and x :: timed_call
  obtain mx call where x: "x = (mx, call)" by fastforce
  assume ok: "db_ok (\<lambda>_. True) s" and step: "auth_step c (program_manager k a r) x s = (out, s')"
  show "db_ok (\<lambda>_. True) s'" using db_ok_step ok step x by blast
  show "\<not> db_ok (refresh_spent i) s" "db_ok (refresh_spent i) s'" if "refreshes c i x out"
    using refreshes_reply [OF step [unfolded x] that [unfolded x]] refresh_success ok by metis+
  show "db_ok (refresh_spent i) s'" if "permits_refresh i x" "db_ok (refresh_spent i) s"
    using refresh_inv.step_keeps [of i s mx call c k a r] that write_of_no_store step x by fastforce
qed

lemma consume_state_reply:
  assumes "auth_step c m (mx, call) w = (out, w')" and "consumes_state s (mx, call) out"
  shows "fo_consume_oidc_state program_failover (store_call mx 0) s w = (Inr True, w')"
  using assms by (cases "(s, (mx, call), out)" rule: consumes_state.cases) (auto simp: map_prod_def split: prod.splits)

lemma consume_state_success:
  assumes "fo_consume_oidc_state program_failover cx s w = (Inr True, w')" and "db_ok (\<lambda>_. True) w"
  shows "\<not> db_ok (state_gone s) w \<and> db_ok (state_gone s) w'"
proof -
  obtain t where t: "aw_pg w = Some t" "tables_ok t"
    using assms(2) by (auto simp: db_ok_def split: option.splits)
  have pg: "pg_consume_oidc_state cx s (Some t) = (Inr True, aw_pg w')"
    using fo_decided_projection(6) [of cx s w] by (simp add: assms(1) t)
  have ok: "gm_ok (at_oidc t)" using t(2) by (simp add: tables_ok_def)
  from pg have "rows_where (\<lambda>k r. k = s \<and> cx_now cx < os_expires_at r) (at_oidc t) = 1"
    and w': "aw_pg w' = Some (t\<lparr>at_oidc := delete_where (\<lambda>k r. k = s \<and> cx_now cx < os_expires_at r) (at_oidc t)\<rparr>)"
    by (auto simp: pg_consume_oidc_state_def with_db_def Let_def split: prod.splits option.splits)
  then have "(case gm_get (at_oidc t) s of None \<Rightarrow> 0 | Some r \<Rightarrow> if cx_now cx < os_expires_at r then 1 else 0) = (1::nat)"
    by (subst (asm) rows_where_key) (use ok in simp_all)
  then obtain r where "gm_get (at_oidc t) s = Some r" "cx_now cx < os_expires_at r"
    by (cases "gm_get (at_oidc t) s") (auto split: if_splits)
  with t w' ok show ?thesis by (auto simp: db_ok_def state_gone_def tables_ok_def go_map)
qed

interpretation state_once: one_time "auth_step c (program_manager k a r)" "consumes_state s" "db_ok (state_gone s)"
    "permits_state s" "db_ok (\<lambda>_. True)" for c k a r s
proof
  fix w out w' and x :: timed_call
  obtain mx call where x: "x = (mx, call)" by fastforce
  assume ok: "db_ok (\<lambda>_. True) w" and step: "auth_step c (program_manager k a r) x w = (out, w')"
  show "db_ok (\<lambda>_. True) w'" using db_ok_step ok step x by blast
  show "\<not> db_ok (state_gone s) w" "db_ok (state_gone s) w'" if "consumes_state s x out"
    using consume_state_success [OF consume_state_reply [OF step [unfolded x] that [unfolded x]] ok] by auto
  show "db_ok (state_gone s) w'" if "permits_state s x" "db_ok (state_gone s) w"
    using state_inv.step_keeps [of s w mx call c k a r] that write_of_no_save [of s mx call] step x by fastforce
qed

lemma claim_reply:
  assumes "auth_step c m (mx, call) w = (out, w')" and "claims_key k E (mx, call) out"
  obtains e where "E \<le> e" "fo_claim_once program_failover (store_call mx 0) k e w = (Inr True, w')"
  using assms by (cases "(k, E, (mx, call), out)" rule: claims_key.cases) (auto simp: map_prod_def split: prod.splits)

lemma claim_success:
  assumes "fo_claim_once program_failover cx k e w = (Inr True, w')" and "E \<le> e" and "db_ok (\<lambda>_. True) w"
  shows "\<not> db_ok (key_claimed_until k E) w \<and> db_ok (key_claimed_until k E) w'"
proof -
  obtain t where t: "aw_pg w = Some t" "tables_ok t"
    using assms(3) by (auto simp: db_ok_def split: option.splits)
  have pg: "pg_claim_once cx k e (Some t) = (Inr True, aw_pg w')"
    using fo_decided_projection(5) [of cx k e w] by (simp add: assms(1) t)
  then have "\<not> key_claimed_until k E t"
    by (auto simp: pg_claim_once_def with_db_def key_claimed_until_def split: prod.splits option.splits)
  moreover have "aw_pg w' = Some (t\<lparr>at_oidc := insert_ignore (''once:'' @ k)
      \<lparr>os_state = ''once:'' @ k, os_expires_at = e, os_created_at = cx_now cx\<rparr> (at_oidc t)\<rparr>)"
    and "gm_get (at_oidc t) (''once:'' @ k) = None"
    using pg by (auto simp: pg_claim_once_def with_db_def simp del: append.simps split: prod.splits option.splits)
  ultimately show ?thesis using t assms(2)
    by (simp add: db_ok_def key_claimed_until_def tables_ok_def del: append.simps)
qed

interpretation claim_once_per_key: one_time "auth_step c (program_manager k a r)" "claims_key key E"
    "db_ok (key_claimed_until key E)" "permits_claim key E" "db_ok (\<lambda>_. True)" for c k a r key E
proof
  fix w out w' and x :: timed_call
  obtain mx call where x: "x = (mx, call)" by fastforce
  assume ok: "db_ok (\<lambda>_. True) w" and step: "auth_step c (program_manager k a r) x w = (out, w')"
  show "db_ok (\<lambda>_. True) w'" using db_ok_step ok step x by blast
  show "\<not> db_ok (key_claimed_until key E) w" "db_ok (key_claimed_until key E) w'" if "claims_key key E x out"
    using claim_reply [OF step [unfolded x] that [unfolded x]] claim_success ok by metis+
  show "db_ok (key_claimed_until key E) w'" if "permits_claim key E x" "db_ok (key_claimed_until key E) w"
    using claim_inv.step_keeps [of key E w mx call c k a r] that write_of_keeps_claim [of key E mx call] step x by fastforce
qed

section \<open>Revoked sessions\<close>

text \<open>
  The error of a query that fails is the driver's or the context's, never
  \<^verbatim>\<open>gorm.ErrRecordNotFound\<close>, which says that the query succeeded and found nothing.
\<close>

definition failures_are_failures :: "manager_context \<Rightarrow> bool" where
  "failures_are_failures mx \<longleftrightarrow> (\<forall>n j e. mx_pg mx n j = Some e \<longrightarrow> \<not> err_is e ErrRecordNotFound)"

lemma revoked_not_cleared:
  assumes "db_ok (session_revoked_until i E) w" and f: "\<And>n e. cx_pg cx n = Some e \<Longrightarrow> \<not> err_is e ErrRecordNotFound"
  shows "fo_is_session_revoked program_failover cx i w \<noteq> Inr False"
proof -
  obtain t r where "aw_pg w = Some t" "gm_get (at_session t) i = Some r" "ts_revoked_at r \<noteq> None"
    using assms by (auto simp: db_ok_def session_revoked_until_def split: option.splits)
  then have "pg_is_session_revoked cx i (aw_pg w) \<noteq> Inr False"
    using f by (auto simp: pg_is_session_revoked_def read_db_def first_row_def stmt_def split: option.splits if_splits)
  then show ?thesis
    by (auto simp: fo_is_session_revoked_def read_bool_program split: sum.splits bool.splits)
qed

lemma revoked_refused:
  assumes "db_ok (session_revoked_until i E) w" and "map_option sp_session_id (token_payload c token) = Some i"
    and f: "failures_are_failures mx"
  shows "verify_token c (program_manager k a r) mx token kind w = Inl ErrUnauthorized"
proof (cases "verify_token c (program_manager k a r) mx token kind w")
  case (Inl e)
  then show ?thesis by (auto simp: verify_token_def split: if_splits list.splits sum.splits)
next
  case (Inr p)
  then have "fo_is_session_revoked program_failover (store_call mx 1) (sp_session_id p) w = Inr False"
    by (auto simp: verify_token_def split: if_splits list.splits sum.splits)
  moreover have "sp_session_id p = i" using verify_payload [OF Inr] assms(2) by simp
  moreover have "\<not> err_is e ErrRecordNotFound" if "cx_pg (store_call mx 1) n = Some e" for n e
    using f that by (auto simp: failures_are_failures_def store_call_def)
  ultimately show ?thesis using revoked_not_cleared [OF assms(1), of "store_call mx 1"] by metis
qed

lemma revoke_session_success:
  assumes "fo_revoke_session program_failover cx i e w = (None, w')" and "db_ok (\<lambda>_. True) w"
  shows "db_ok (session_revoked_until i e) w'"
proof -
  obtain t where t: "aw_pg w = Some t" "tables_ok t"
    using assms(2) by (auto simp: db_ok_def split: option.splits)
  have ok: "fst (pg_revoke_session cx i e (Some t)) = None"
    using fo_writes_success(1) [of cx i e w] assms(1) t by simp
  have w': "aw_pg w' = snd (pg_revoke_session cx i e (Some t))"
    using fo_writes_projection(2) [of cx i e w] assms(1) t by simp
  have rw: "rows_where (\<lambda>k _. k = i) (at_session t) = (case gm_get (at_session t) i of None \<Rightarrow> 0 | Some r \<Rightarrow> 1)"
    using rows_where_key [of "at_session t" i "\<lambda>_. True"] t(2) by (simp add: tables_ok_def)
  obtain t' where t': "pg_write_step cx (WRevokeSession i e) (Some t) = Some t'" "tables_ok t'"
    using write_keeps_tables [OF t(2)] by blast
  then have "session_revoked_until i e t'"
    using ok rw by (cases "gm_get (at_session t) i")
      (auto simp: pg_revoke_session_def with_db_def Let_def tx_def session_revoked_until_def
        split: option.splits prod.splits sum.splits)
  with t' w' show ?thesis by (simp add: db_ok_def)
qed

lemma session_stays_revoked:
  "db_ok (session_revoked_until i E) w \<Longrightarrow> list_all (\<lambda>x. mx_now (fst x) < E) calls
    \<Longrightarrow> db_ok (session_revoked_until i E) (snd (run_trace (auth_step c (program_manager k a r)) calls w))"
proof (induction calls arbitrary: w)
  case (Cons x calls)
  obtain mx call where x: "x = (mx, call)" by fastforce
  obtain out w1 where w1: "auth_step c (program_manager k a r) (mx, call) w = (out, w1)" by fastforce
  have "cleans_before E (mx_now mx) wr" if "write_of (mx_now mx) call wr" for wr
    using that Cons.prems(2) x by (cases wr) auto
  then have "db_ok (session_revoked_until i E) w1"
    using session_inv.step_keeps [of i E w mx call c k a r] Cons.prems(1) w1 by simp
  with Cons x w1 show ?case by (cases "run_trace (auth_step c (program_manager k a r)) calls w1") fastforce
qed simp

end
