(* ===== verification/Auth_Theorems.thy ===== *)
theory Auth_Theorems
  imports Auth_Facts
begin

text \<open>
  Properties of the session state and of signed tokens, over any sequence of calls and any
  failures of Redis and PostgreSQL, with a small concrete instance on which each is applied.
\<close>

section \<open>Codecs\<close>





section \<open>A sample codec and manager\<close>

definition nibbles :: "string \<Rightarrow> string" where
  "nibbles s = concat (map (\<lambda>ch. [char_of (97 + byte_val ch div 16), char_of (97 + byte_val ch mod 16)]) s)"

fun of_nibbles :: "string \<Rightarrow> string" where
  "of_nibbles (a # b # s) = char_of ((byte_val a - 97) * 16 + (byte_val b - 97)) # of_nibbles s"
| "of_nibbles _ = []"

fun binary :: "nat \<Rightarrow> string" where
  "binary n = (if n = 0 then [] else (if even n then CHR ''a'' else CHR ''b'') # binary (n div 2))"

fun of_binary :: "string \<Rightarrow> nat" where
  "of_binary [] = 0"
| "of_binary (ch # s) = (if ch = CHR ''b'' then 1 else 0) + 2 * of_binary s"

declare binary.simps [simp del]

definition numeral_text :: "int \<Rightarrow> string" where
  "numeral_text n = (if n < 0 then ''c'' else []) @ binary (nat \<bar>n\<bar>)"

definition of_numeral_text :: "string \<Rightarrow> int" where
  "of_numeral_text s = (if s \<noteq> [] \<and> hd s = CHR ''c'' then - int (of_binary (tl s)) else int (of_binary s))"

definition sample_codec :: token_codec where
  "sample_codec = \<lparr>
     tc_sign = (\<lambda>key text. nibbles key @ nibbles text),
     tc_encode = (\<lambda>p. join ''-'' [nibbles (sp_kind p), nibbles (sp_subject p), nibbles (sp_id p), nibbles (sp_session_id p),
        numeral_text (sp_expires_at p)]),
     tc_decode = (\<lambda>s. case split_on CHR ''-'' s of
        [k, u, i, sid, e] \<Rightarrow> Inr \<lparr>sp_kind = of_nibbles k, sp_subject = of_nibbles u, sp_id = of_nibbles i,
           sp_session_id = of_nibbles sid,
           sp_expires_at = of_numeral_text e\<rparr>
      | _ \<Rightarrow> Inl (ErrMsg ''invalid payload''))\<rparr>"

lemma of_binary_binary [simp]: "of_binary (binary n) = n"
  by (induction n rule: binary.induct) (subst binary.simps, auto elim!: oddE)

lemma byte_val_less: "byte_val ch < 256"
  using mod_less_divisor [of 256 "byte_val ch"] by (simp del: mod_less_divisor)

lemma nibble_range:
  "(97 + byte_val ch div 16) mod 256 = 97 + byte_val ch div 16"
  "(97 + byte_val ch mod 16) mod 256 = 97 + byte_val ch mod 16"
  "byte_val ch div 16 < 16"
proof -
  show q: "byte_val ch div 16 < 16" using byte_val_less [of ch] by (simp add: less_mult_imp_div_less)
  show "(97 + byte_val ch div 16) mod 256 = 97 + byte_val ch div 16" by (rule mod_less) (use q in linarith)
  show "(97 + byte_val ch mod 16) mod 256 = 97 + byte_val ch mod 16"
    by (rule mod_less) (use mod_less_divisor [of 16 "byte_val ch"] in linarith)
qed

lemma of_nibbles_nibbles [simp]: "of_nibbles (nibbles s) = s"
  by (induction s) (simp_all add: nibbles_def nibble_range)


lemma binary_letters: "ch \<in> set (binary n) \<Longrightarrow> ch \<in> {CHR ''a'', CHR ''b''}"
  by (induction n rule: binary.induct) (subst (asm) (2) binary.simps, auto split: if_splits)

lemma of_numeral_text [simp]: "of_numeral_text (numeral_text n) = n"
proof (cases "n < 0 \<or> binary (nat n) = []")
  case True
  then show ?thesis
  proof
    assume "binary (nat n) = []"
    then have "nat n = 0" by (metis of_binary.simps(1) of_binary_binary)
    with \<open>binary (nat n) = []\<close> show ?thesis by (simp add: of_numeral_text_def numeral_text_def)
  qed (simp add: of_numeral_text_def numeral_text_def)
next
  case False
  then have "hd (binary (nat n)) \<in> {CHR ''a'', CHR ''b''}" by (intro binary_letters [of _ "nat n"]) simp
  with False show ?thesis by (auto simp: of_numeral_text_def numeral_text_def)
qed


text \<open>A program with empty stores, lifetimes of 10 and 20 seconds, and no failures.\<close>

definition empty_world :: auth_world where
  "empty_world = \<lparr>aw_redis = Some [], aw_pg = Some \<lparr>at_session = [], at_revoked = [], at_refresh = [], at_failure = [], at_oidc = []\<rparr>\<rparr>"

definition sample_manager :: "auth_world signed_token_manager" where
  "sample_manager = program_manager ''key'' (10 * second) (20 * second)"

definition at_second :: "int \<Rightarrow> manager_context" where
  "at_second n = \<lparr>mx_now = n * second, mx_pg = (\<lambda>_ _. None), mx_redis = (\<lambda>_ _. None)\<rparr>"

definition sample_token :: "string \<Rightarrow> string \<Rightarrow> int \<Rightarrow> string" where
  "sample_token kind i expires =
    (let body = tc_encode sample_codec \<lparr>sp_kind = kind, sp_subject = ''u'', sp_id = i, sp_session_id = ''s'', sp_expires_at = expires\<rparr>
     in body @ ''.'' @ tc_sign sample_codec ''key'' body)"

definition login_call :: timed_call where
  "login_call = (at_second 0, IssuePair (''s'', ''a1'', ''r1'') ''u'')"

definition login_world :: auth_world where
  "login_world = snd (auth_step sample_codec sample_manager login_call empty_world)"

lemma failures_at_second [simp]: "failures_are_failures (at_second n)"
  by (simp add: failures_are_failures_def at_second_def)

section \<open>Rotation\<close>

text \<open>
  C5: A refresh token is worth one refresh. Whatever calls the program makes, in whatever
  order, with whatever failures of Redis and PostgreSQL, at most one call of RefreshToken succeeds
  with the token of a given identifier (provided newTokenID draws no identifier twice).
\<close>

theorem refresh_token_used_once:
  assumes "db_ok (\<lambda>_. True) w" and "\<forall>(mx, call) \<in> set calls. i \<notin> set (new_refresh_ids call)"
  shows "length (filter (\<lambda>(x, out). refreshes c i x out)
    (fst (run_trace (auth_step c (program_manager secret accessTTL refreshTTL)) calls w))) \<le> 1"
proof -
  have "list_all (permits_refresh i) calls" using assms(2) by (auto simp: list_all_iff)
  then show ?thesis by (rule refresh_once.at_most_once [OF assms(1)])
qed

definition replay_calls :: "timed_call list" where
  "replay_calls =
    [(at_second 1, Refresh (''a2'', ''r2'') (sample_token ''refresh'' ''r1'' 20)),
     (at_second 2, Refresh (''a3'', ''r3'') (sample_token ''refresh'' ''r1'' 20))]"

lemma replay_calls_fresh: "list_all (\<lambda>(mx, call). ''r1'' \<notin> set (new_refresh_ids call)) replay_calls"
  by (simp add: replay_calls_def)

lemma login_world_ok: "db_ok (\<lambda>_. True) login_world"
  by code_simp

theorem refresh_token_used_once_witness:
  "length (filter (\<lambda>(x, out). refreshes sample_codec ''r1'' x out)
    (fst (run_trace (auth_step sample_codec (program_manager ''key'' (10 * second) (20 * second))) replay_calls login_world))) \<le> 1"
  by (rule refresh_token_used_once [OF login_world_ok replay_calls_fresh [unfolded list_all_iff]])

section \<open>Log-out\<close>

text \<open>
  C6: Log-out ends a session. Once RevokeSession has answered without an error, every token of the
  session, access or refresh, is refused as unauthorized at any time before the expiry the session
  was revoked with, after any calls the program makes meanwhile, also while Redis or PostgreSQL fail.
\<close>

theorem logged_out_session_refused:
  assumes out: "manager_revoke_session c (program_manager secret accessTTL refreshTTL) mx0 token w = (None, w1)"
    and w: "db_ok (\<lambda>_. True) w"
    and p: "token_payload c token = Some p" and q: "token_payload c other = Some q" "sp_session_id q = sp_session_id p"
    and meanwhile: "list_all (\<lambda>x. mx_now (fst x) <
        revocation_expiry (program_manager secret accessTTL refreshTTL) mx0 (sp_session_id p) w program_store) calls"
    and f: "failures_are_failures mx"
    and w2: "w2 = snd (run_trace (auth_step c (program_manager secret accessTTL refreshTTL)) calls w1)"
  shows "authenticate c (Some (program_manager secret accessTTL refreshTTL)) resolver mx other w2 = Inl ErrUnauthorized \<and>
    refresh_token c (program_manager secret accessTTL refreshTTL) mx ids other w2 = (Inl ErrUnauthorized, w2)"
proof -
  let ?m = "program_manager secret accessTTL refreshTTL"
  let ?E = "revocation_expiry ?m mx0 (sp_session_id p) w program_store"
  obtain p' where "verify_token c ?m mx0 token [] w = Inr p'"
    and r: "fo_revoke_session program_failover (store_call mx0 3) (sp_session_id p')
      (revocation_expiry ?m mx0 (sp_session_id p') w program_store) w = (None, w1)"
    using out by (auto simp: manager_revoke_session_def split: sum.splits)
  then have "p' = p" using verify_payload p by fastforce
  then have "db_ok (session_revoked_until (sp_session_id p) ?E) w1"
    using revoke_session_success [OF r w] by simp
  then have w2ok: "db_ok (session_revoked_until (sp_session_id p) ?E) w2"
    using session_stays_revoked meanwhile w2 by blast
  have "verify_token c ?m mx other kind w2 = Inl ErrUnauthorized" for kind
    using revoked_refused [OF w2ok, of c other mx] q f by simp
  then show ?thesis by (simp add: authenticate_def refresh_token_def split: option.splits)
qed

definition logout_world :: auth_world where
  "logout_world = snd (manager_revoke_session sample_codec sample_manager (at_second 1) (sample_token ''access'' ''a1'' 10) login_world)"

definition access_payload :: signed_token_payload where
  "access_payload = \<lparr>sp_kind = ''access'', sp_subject = ''u'', sp_id = ''a1'', sp_session_id = ''s'', sp_expires_at = 10\<rparr>"

definition refresh_payload :: signed_token_payload where
  "refresh_payload = \<lparr>sp_kind = ''refresh'', sp_subject = ''u'', sp_id = ''r1'', sp_session_id = ''s'', sp_expires_at = 20\<rparr>"

lemma logout_facts:
  "fst (manager_revoke_session sample_codec sample_manager (at_second 1) (sample_token ''access'' ''a1'' 10) login_world) = None"
  "token_payload sample_codec (sample_token ''access'' ''a1'' 10) = Some access_payload"
  "token_payload sample_codec (sample_token ''refresh'' ''r1'' 20) = Some refresh_payload"
  "list_all (\<lambda>x. mx_now (fst x) < revocation_expiry sample_manager (at_second 1) (sp_session_id access_payload) login_world program_store)
     replay_calls"
  "sp_session_id refresh_payload = sp_session_id access_payload"
  by code_simp+

theorem logged_out_session_refused_witness:
  "refresh_token sample_codec sample_manager (at_second 3) (''a9'', ''r9'') (sample_token ''refresh'' ''r1'' 20)
      (snd (run_trace (auth_step sample_codec sample_manager) replay_calls logout_world))
    = (Inl ErrUnauthorized, snd (run_trace (auth_step sample_codec sample_manager) replay_calls logout_world))"
proof -
  have "manager_revoke_session sample_codec sample_manager (at_second 1) (sample_token ''access'' ''a1'' 10) login_world
      = (None, logout_world)"
    using logout_facts(1) by (simp add: logout_world_def prod_eq_iff)
  from logged_out_session_refused [OF this [unfolded sample_manager_def] login_world_ok logout_facts(2,3,5)
      logout_facts(4) [unfolded sample_manager_def] failures_at_second refl]
  show ?thesis by (simp add: sample_manager_def)
qed




section \<open>Refinement\<close>

text \<open>
  C9: The failover store refines PostgreSQL. Seen through the PostgreSQL part of the state, every write
  of the failover store is the write of the repository alone, and for the operations that must
  happen at most once (consuming and rotating refresh tokens, counting failures, states and one-time
  keys) the answer is the repository's too; what Redis holds and how it fails makes no difference.
\<close>

theorem failover_refines_postgres:
  "map_prod id aw_pg (fo_rotate_refresh_token program_failover cx old new w) = pg_rotate_refresh_token cx old new (aw_pg w) \<and>
   map_prod id aw_pg (fo_consume_refresh_token program_failover cx old w) = pg_consume_refresh_token cx old (aw_pg w) \<and>
   map_prod id aw_pg (fo_increment_login_failure program_failover cx k e n d w) = pg_increment_login_failure cx k e n d (aw_pg w) \<and>
   map_prod id aw_pg (fo_save_oidc_state program_failover cx k e w) = pg_save_oidc_state cx k e (aw_pg w) \<and>
   map_prod id aw_pg (fo_consume_oidc_state program_failover cx k w) = pg_consume_oidc_state cx k (aw_pg w) \<and>
   map_prod id aw_pg (fo_claim_once program_failover cx k e w) = pg_claim_once cx k e (aw_pg w) \<and>
   aw_pg (snd (fo_create_session program_failover cx s w)) = snd (pg_create_session cx s (aw_pg w)) \<and>
   aw_pg (snd (fo_revoke_session program_failover cx k e w)) = snd (pg_revoke_session cx k e (aw_pg w)) \<and>
   aw_pg (snd (fo_revoke_subject_sessions program_failover cx k e w)) = snd (pg_revoke_subject_sessions cx k e (aw_pg w)) \<and>
   aw_pg (snd (fo_revoke_token program_failover cx k e w)) = snd (pg_revoke_token cx k e (aw_pg w)) \<and>
   aw_pg (snd (fo_store_refresh_token program_failover cx new w)) = snd (pg_store_refresh_token cx new (aw_pg w)) \<and>
   aw_pg (snd (fo_clear_login_failure program_failover cx k w)) = snd (pg_clear_login_failure cx k (aw_pg w))"
  by (intro conjI fo_decided_projection fo_writes_projection fo_clear_projection)

section \<open>Round trip\<close>





end
