(* ===== verification/Tickets.thy ===== *)
theory Tickets
  imports Auth_Failover One_Time
begin

text \<open>
  Two more stores of short-lived values: WebSocket tickets
  (\<^verbatim>\<open>shared/middleware/wsticket.go\<close>), kept in memory under a mutex, and captcha answers
  (\<^verbatim>\<open>iam/infrastructure/captchastore/store.go\<close>), kept in Redis and in PostgreSQL. The
  clock is an argument, as is the random value of a new ticket.
\<close>

section \<open>WebSocket tickets\<close>

record 'p ws_ticket_entry =
  wt_principal :: 'p
  wt_expires_at :: instant

record 'p ws_ticket_store =
  ws_ttl :: duration
  ws_entries :: "(string, 'p ws_ticket_entry) gmap"

definition new_ws_ticket_store :: "duration \<Rightarrow> 'p ws_ticket_store" where
  "new_ws_ticket_store ttl = \<lparr>ws_ttl = (if ttl \<le> 0 then 30 * second else ttl), ws_entries = []\<rparr>"

definition ws_issue :: "instant \<Rightarrow> string \<Rightarrow> 'p \<Rightarrow> 'p ws_ticket_store \<Rightarrow> (string \<times> int) \<times> 'p ws_ticket_store" where
  "ws_issue now ticket p s =
    ((ticket, ws_ttl s div second),
     s\<lparr>ws_entries := gm_put ticket \<lparr>wt_principal = p, wt_expires_at = now + ws_ttl s\<rparr> (ws_entries s)\<rparr>)"

definition ws_consume :: "instant \<Rightarrow> string \<Rightarrow> 'p ws_ticket_store \<Rightarrow> 'p option \<times> 'p ws_ticket_store" where
  "ws_consume now ticket s =
    (if ticket = [] then (None, s) else
     case gm_get (ws_entries s) ticket of
       None \<Rightarrow> (None, s)
     | Some e \<Rightarrow>
         (let s1 = s\<lparr>ws_entries := gm_del ticket (ws_entries s)\<rparr> in
          if \<not> now < wt_expires_at e then (None, s1) else (Some (wt_principal e), s1)))"

definition ws_gc :: "instant \<Rightarrow> 'p ws_ticket_store \<Rightarrow> 'p ws_ticket_store" where
  "ws_gc now s = s\<lparr>ws_entries := filter (\<lambda>(k, v). now < wt_expires_at v) (ws_entries s)\<rparr>"

datatype 'p ws_call = WsIssue string 'p | WsConsume string | WsGc

fun ws_step :: "instant \<times> 'p ws_call \<Rightarrow> 'p ws_ticket_store \<Rightarrow> 'p option \<times> 'p ws_ticket_store" where
  "ws_step (now, WsIssue ticket p) s = (None, snd (ws_issue now ticket p s))"
| "ws_step (now, WsConsume ticket) s = ws_consume now ticket s"
| "ws_step (now, WsGc) s = (None, ws_gc now s)"

fun redeems :: "string \<Rightarrow> instant \<times> 'p ws_call \<Rightarrow> 'p option \<Rightarrow> bool" where
  "redeems t (now, WsConsume ticket) (Some p) \<longleftrightarrow> ticket = t"
| "redeems t _ _ \<longleftrightarrow> False"

fun not_reissued :: "string \<Rightarrow> instant \<times> 'p ws_call \<Rightarrow> bool" where
  "not_reissued t (now, WsIssue ticket p) \<longleftrightarrow> ticket \<noteq> t"
| "not_reissued t _ \<longleftrightarrow> True"

definition ws_gone :: "string \<Rightarrow> 'p ws_ticket_store \<Rightarrow> bool" where
  "ws_gone t s \<longleftrightarrow> gm_get (ws_entries s) t = None"

lemma gm_get_filter_None: "gm_get m k = None \<Longrightarrow> gm_get (filter P m) k = None"
  by (force simp: map_of_eq_None_iff)

interpretation ws_once: one_time "ws_step :: _ \<Rightarrow> 'p ws_ticket_store \<Rightarrow> _" "redeems t" "ws_gone t" "not_reissued t" "\<lambda>s. True" for t
proof
  fix s s' :: "'p ws_ticket_store" and x :: "instant \<times> 'p ws_call" and out
  assume step: "ws_step x s = (out, s')"
  show "\<not> ws_gone t s" "ws_gone t s'" if "redeems t x out"
    using that step by (cases "(t, x, out)" rule: redeems.cases;
        auto simp: ws_consume_def ws_gone_def Let_def split: if_splits option.splits)+
  show "ws_gone t s'" if "not_reissued t x" "ws_gone t s"
    using that step by (cases "(x, s)" rule: ws_step.cases)
      (auto simp: ws_consume_def ws_gc_def ws_issue_def ws_gone_def Let_def gm_get_filter_None split: if_splits option.splits)
qed simp

section \<open>Captcha answers\<close>

record captcha_record =
  cp_id :: string
  cp_digits :: "nat list"
  cp_expires_at :: instant
  cp_created_at :: instant

text \<open>
  Both backends are optional. In Redis a challenge is its digits, in base64, with an expiry;
  base64 of digits decodes to them, so the digits themselves are kept.
\<close>

record captcha_store =
  cs_redis :: "(string, nat list \<times> instant) gmap option"
  cs_db :: "(string, captcha_record) gmap option"
  cs_ttl :: duration

definition new_captcha_store ::
  "(string, nat list \<times> instant) gmap option \<Rightarrow> (string, captcha_record) gmap option \<Rightarrow> duration \<Rightarrow> captcha_store" where
  "new_captcha_store redis db ttl = \<lparr>cs_redis = redis, cs_db = db, cs_ttl = (if ttl \<le> 0 then 5 * minute else ttl)\<rparr>"

definition captcha_key :: "string \<Rightarrow> string" where "captcha_key i = ''iam:captcha:'' @ i"

definition captcha_cleanup :: "call_context \<Rightarrow> instant \<Rightarrow> captcha_store \<Rightarrow> go_error option \<times> captcha_store" where
  "captcha_cleanup cx before s = (case cs_db s of
     None \<Rightarrow> (None, s)
   | Some t \<Rightarrow> (case cx_pg cx 0 of
       Some e \<Rightarrow> (Some e, s)
     | None \<Rightarrow> (None, s\<lparr>cs_db := Some (delete_where (\<lambda>_ r. cp_expires_at r \<le> before) t)\<rparr>)))"

definition captcha_set :: "call_context \<Rightarrow> string \<Rightarrow> nat list \<Rightarrow> captcha_store \<Rightarrow> captcha_store" where
  "captcha_set cx i digits s =
    (let now = cx_now cx;
         s1 = (case cs_redis s of
            Some r \<Rightarrow> if cx_redis cx 0 = None
              then s\<lparr>cs_redis := Some (gm_put (captcha_key i) (digits, now + cs_ttl s) r)\<rparr> else s
          | None \<Rightarrow> s)
     in case cs_db s1 of
          None \<Rightarrow> s1
        | Some t \<Rightarrow> if cx_pg cx 0 = None
            then s1\<lparr>cs_db := Some (gm_put i \<lparr>cp_id = i, cp_digits = digits, cp_expires_at = now + cs_ttl s,
                                            cp_created_at = now\<rparr> t)\<rparr> else s1)"

definition captcha_get_redis :: "call_context \<Rightarrow> string \<Rightarrow> bool \<Rightarrow> (string, nat list \<times> instant) gmap
    \<Rightarrow> nat list \<times> (string, nat list \<times> instant) gmap" where
  "captcha_get_redis cx i clear r =
    (if cx_redis cx 0 \<noteq> None then ([], r) else
     case gm_get r (captcha_key i) of
       None \<Rightarrow> ([], r)
     | Some (digits, expires) \<Rightarrow>
         if \<not> cx_now cx < expires then ([], r)
         else (digits, if clear \<and> cx_redis cx 1 = None then gm_del (captcha_key i) r else r))"

definition captcha_get_postgres :: "call_context \<Rightarrow> string \<Rightarrow> bool \<Rightarrow> (string, captcha_record) gmap
    \<Rightarrow> nat list \<times> (string, captcha_record) gmap" where
  "captcha_get_postgres cx i clear t =
    (case stmt (cx_pg cx 0) (first_row i (\<lambda>r. cx_now cx < cp_expires_at r) t) of
       Inl _ \<Rightarrow> ([], t)
     | Inr r \<Rightarrow> (cp_digits r, if clear \<and> cx_pg cx 1 = None then delete_where (\<lambda>k _. k = i) t else t))"

definition captcha_get :: "call_context \<Rightarrow> string \<Rightarrow> bool \<Rightarrow> captcha_store \<Rightarrow> nat list \<times> captcha_store" where
  "captcha_get cx i clear s =
    (case map_option (captcha_get_redis cx i clear) (cs_redis s) of
       Some (d # ds, r) \<Rightarrow> (d # ds, s\<lparr>cs_redis := Some r\<rparr>)
     | redis \<Rightarrow>
         (let s1 = (case redis of Some (_, r) \<Rightarrow> s\<lparr>cs_redis := Some r\<rparr> | None \<Rightarrow> s) in
          case cs_db s1 of
            None \<Rightarrow> ([], s1)
          | Some t \<Rightarrow> (case captcha_get_postgres cx i clear t of (digits, t') \<Rightarrow> (digits, s1\<lparr>cs_db := Some t'\<rparr>))))"

text \<open>
  Reading an answer from Redis with \<open>clear\<close> set leaves the PostgreSQL row, so that with both
  backends in service an answer is served twice before it is gone.
\<close>

lemma captcha_served_twice:
  assumes "cs_redis s = Some r" "cs_db s = Some t" "gm_ok t" and "digits \<noteq> []"
    and quiet: "\<And>n. cx_redis cx n = None" "\<And>n. cx_pg cx n = None" and "0 < cs_ttl s"
    and s1: "s1 = captcha_set cx i digits s"
    and g1: "captcha_get cx i True s1 = (a1, s2)" and g2: "captcha_get cx i True s2 = (a2, s3)"
    and g3: "captcha_get cx i True s3 = (a3, s4)"
  shows "a1 = digits \<and> a2 = digits \<and> a3 = []"
proof -
  obtain d ds where digits: "digits = d # ds" using assms(4) by (cases digits) auto
  let ?r = "gm_put (captcha_key i) (digits, cx_now cx + cs_ttl s) r"
  let ?t = "gm_put i \<lparr>cp_id = i, cp_digits = digits, cp_expires_at = cx_now cx + cs_ttl s, cp_created_at = cx_now cx\<rparr> t"
  have s1': "s1 = s\<lparr>cs_redis := Some ?r, cs_db := Some ?t\<rparr>"
    by (simp add: s1 captcha_set_def assms quiet Let_def)
  have "a1 = digits \<and> s2 = s1\<lparr>cs_redis := Some (gm_del (captcha_key i) ?r)\<rparr>"
    using g1 assms(7) by (auto simp: s1' captcha_get_def captcha_get_redis_def quiet digits)
  moreover from this have "a2 = digits \<and> s3 = s2\<lparr>cs_db := Some (delete_where (\<lambda>k _. k = i) ?t)\<rparr>"
    using g2 assms(7) by (auto simp: s1' captcha_get_def captcha_get_redis_def captcha_get_postgres_def quiet digits first_row_def)
  moreover from calculation have "a3 = []"
    using g3 assms(3) by (auto simp: s1' captcha_get_def captcha_get_redis_def captcha_get_postgres_def quiet first_row_def
        stmt_def go_map)
  ultimately show ?thesis by simp
qed

end
