(* ===== verification/Iam_Theorems.thy ===== *)
theory Iam_Theorems
  imports Iam_Oidc Auth_Theorems Tickets
begin

text \<open>
  Properties of log-in: what a log-in that succeeds has passed, and the lock-out after failed
  attempts.
\<close>

section \<open>What a log-in has passed\<close>


lemma failed_attempt_shape: "\<exists>e w'. failed_attempt s mx n u ip answer w = ((no_response, Some e), w')"
  by (auto simp: failed_attempt_def split: prod.splits option.splits)

lemma failed_attempt_never [simp]: "failed_attempt s mx n u ip answer w \<noteq> ((r, None), w')"
  using failed_attempt_shape [of s mx n u ip answer w] by auto





section \<open>A sample service\<close>

definition sample_user :: user where
  "sample_user = \<lparr>u_id = 7, u_legacy_id = None, u_username = ''alice'', u_nickname = ''Alice'', u_password = ''hash:pw'',
     u_email = [], u_phone = [], u_avatar = [], u_remarks = [], u_status = 1, u_mfa_enabled = True,
     u_mfa_secret = ''seed'', u_created_at = 0, u_updated_at = 0, u_deleted_at = None\<rparr>"

definition sample_repository :: "auth_world user_repository" where
  "sample_repository = \<lparr>
     repo_list = (\<lambda>cx w. Inr [sample_user]),
     repo_get = (\<lambda>cx i w. if i = 7 then Inr sample_user else Inl ErrRecordNotFound),
     repo_get_by_legacy_id = (\<lambda>cx l w. Inl ErrRecordNotFound),
     repo_get_by_username = (\<lambda>cx n w. if n = ''alice'' then Inr sample_user else Inl ErrRecordNotFound),
     repo_create = (\<lambda>cx u w. (Inr u, w)), repo_update = (\<lambda>cx u w. (Inr u, w)), repo_delete = (\<lambda>cx i w. (None, w)),
     repo_get_external_identity = (\<lambda>cx p u w. Inl ErrRecordNotFound),
     repo_create_external_identity = (\<lambda>cx i w. (None, w)),
     repo_create_with_external_identity = (\<lambda>cx u i w. (Inr u, w))\<rparr>"

definition sample_environment :: iam_environment where
  "sample_environment = \<lparr>
     ev_validate_login = (\<lambda>r. None), ev_validate_text = (\<lambda>t. None), ev_validate_user = (\<lambda>r. None),
     ev_bcrypt_compare = (\<lambda>h p. if h = ''hash:'' @ p then None else Some (ErrMsg ''mismatch'')),
     ev_bcrypt_hash = (\<lambda>p. Inr (''hash:'' @ p)),
     ev_totp_validate = (\<lambda>now code secret. code = ''123456''), ev_totp_generate = (\<lambda>n. Inr (''seed'', ''otpauth'')),
     ev_captcha_verify = (\<lambda>i d. False), ev_rfc3339 = (\<lambda>t. ''later'')\<rparr>"

definition sample_service :: "auth_world security_state_store \<Rightarrow> auth_world iam_service" where
  "sample_service st = \<lparr>sv_repo = sample_repository, sv_env = sample_environment,
     sv_issuer = Some (sample_codec, sample_manager), sv_security = Some st, sv_encryptor = Some noop_encryptor,
     sv_policy = \<lparr>ap_captcha_ttl = minute, ap_captcha_failure_trigger = 0, ap_max_failed_attempts = 3,
                  ap_lockout_duration = 10 * second\<rparr>\<rparr>"

definition sample_login :: login_request where
  "sample_login = \<lparr>lr_username = '' Alice'', lr_password = ''pw'', lr_captcha_id = [], lr_captcha_code = [], lr_otp_code = ''123456''\<rparr>"

definition sample_attempt :: "instant \<Rightarrow> auth_world \<Rightarrow> (login_response \<times> go_error option) \<times> auth_world" where
  "sample_attempt n = login_with_options (sample_service (failover_security program_failover)) (at_second n)
     (''s1'', ''a1'', ''r1'') sample_login ''10.0.0.1''"


lemma sample_username: "normalize_username (lr_username sample_login) = Inr ''alice''"
  "repo_get_by_username (sv_repo (sample_service st)) cx ''alice'' w = Inr sample_user" "u_mfa_enabled sample_user"
  by code_simp (simp_all add: sample_service_def sample_repository_def sample_user_def)


text \<open>A one-time code is good for one log-in: the second attempt with it is refused.\<close>

lemma sample_code_once:
  "snd (fst (sample_attempt 6 (snd (sample_attempt 5 empty_world)))) = Some (unauthorized_login ''invalid mfa code'' None)"
  by code_simp

section \<open>Lock-out\<close>

text \<open>
  Attempts that failed and were counted, each given by its instant and its address. The result is the state
  after them, if every count succeeded.
\<close>

fun count_failures :: "auth_world iam_service \<Rightarrow> string \<Rightarrow> (manager_context \<times> nat \<times> string) list \<Rightarrow> auth_world \<Rightarrow> auth_world option" where
  "count_failures s username [] w = Some w"
| "count_failures s username ((mx, n, ip) # rest) w =
     (case record_login_failure s mx n username ip w of
        (Some e, w') \<Rightarrow> None
      | (None, w') \<Rightarrow> count_failures s username rest w')"

text \<open>Instants that follow each other by less than \<open>d\<close>.\<close>

fun close_together :: "duration \<Rightarrow> instant \<Rightarrow> (manager_context \<times> nat \<times> string) list \<Rightarrow> bool" where
  "close_together d t [] \<longleftrightarrow> True"
| "close_together d t ((mx, n, ip) # rest) \<longleftrightarrow> t \<le> mx_now mx \<and> mx_now mx < t + d \<and> close_together d (mx_now mx) rest"

text \<open>The row of a key after \<open>k\<close> failures, the last at \<open>t\<close>.\<close>

definition failures_row :: "string \<Rightarrow> int \<Rightarrow> duration \<Rightarrow> int \<Rightarrow> instant \<Rightarrow> auth_tables \<Rightarrow> bool" where
  "failures_row key N d k t tab \<longleftrightarrow> (\<exists>r. gm_get (at_failure tab) key = Some r \<and> lf_count r = k \<and> lf_expires_at r = t + d \<and>
     (if N \<le> k then lf_locked_until r = t + d else lf_locked_until r \<le> t))"

lemma increment_other:
  assumes "pg_increment_login_failure cx key e N d (Some tab) = (Inr f, Some tab')" and "key' \<noteq> key"
  shows "gm_get (at_failure tab') key' = gm_get (at_failure tab) key'"
  using assms by (auto simp: pg_increment_login_failure_def with_db_def Let_def upsert_login_failure_def option.map_ident
      split: option.splits sum.splits prod.splits if_splits)

lemma increment_first:
  assumes "pg_increment_login_failure cx key (cx_now cx + d) N d (Some tab) = (Inr f, Some tab')"
    and "gm_get (at_failure tab) key = None" and "0 < N"
  shows "failures_row key N d 1 (cx_now cx) tab'"
  using assms by (auto simp: pg_increment_login_failure_def with_db_def Let_def upsert_login_failure_def
      failures_row_def first_row_def split: option.splits sum.splits prod.splits if_splits)

lemma increment_next:
  assumes inc: "pg_increment_login_failure cx key (cx_now cx + d) N d (Some tab) = (Inr f, Some tab')"
    and row: "failures_row key N d k t tab" and N: "0 < N" "k < N" and t: "t \<le> cx_now cx" "cx_now cx < t + d"
  shows "failures_row key N d (k + 1) (cx_now cx) tab'"
proof -
  obtain r where r: "gm_get (at_failure tab) key = Some r" "lf_count r = k" "lf_expires_at r = t + d" "lf_locked_until r \<le> t"
    using row N(2) by (auto simp: failures_row_def)
  then show ?thesis using inc N t
    by (auto simp: pg_increment_login_failure_def with_db_def Let_def upsert_login_failure_def
      failures_row_def first_row_def split: option.splits sum.splits prod.splits if_splits)
qed

lemma increment_Some: "pg_increment_login_failure cx key e N d (Some tab) = (x, r) \<Longrightarrow> \<exists>tab'. r = Some tab'"
  by (auto simp: pg_increment_login_failure_def with_db_def split: prod.splits)

text \<open>One counted attempt of a user name, from an address whose own key is another one.\<close>

lemma record_step:
  assumes s: "sv_security s = Some pg_security" "ap_max_failed_attempts (sv_policy s) = N" "ap_lockout_duration (sv_policy s) = d"
    and rec: "record_login_failure s mx n username ip w = (None, w')" and w: "aw_pg w = Some tab"
    and ip: "login_key username ip \<noteq> username_login_key username"
  obtains tab1 f tab' where "aw_pg w' = Some tab'"
    "gm_get (at_failure tab1) (username_login_key username) = gm_get (at_failure tab) (username_login_key username)"
    "pg_increment_login_failure (store_call mx (n + 1)) (username_login_key username) (mx_now mx + d) N d (Some tab1) = (Inr f, Some tab')"
proof -
  define cx where "cx = store_call mx n"
  define cx' where "cx' = store_call mx (n + 1)"
  let ?k = "login_key username ip" and ?u = "username_login_key username" and ?e = "mx_now mx + d"
  obtain f1 r1 where 1: "pg_increment_login_failure cx ?k ?e N d (Some tab) = (Inr f1, r1)"
    using rec s w by (auto simp: record_login_failure_def in_pg_def Let_def cx_def split: sum.splits prod.splits)
  obtain tab1 where tab1: "r1 = Some tab1"
    using increment_Some [OF 1] by blast
  obtain f r where 2: "pg_increment_login_failure cx' ?u ?e N d (Some tab1) = (Inr f, r)" "aw_pg w' = r"
    using rec s w 1 tab1 by (auto simp: record_login_failure_def in_pg_def Let_def cx_def cx'_def split: sum.splits prod.splits)
  obtain tab' where "r = Some tab'"
    using increment_Some [OF 2(1)] by blast
  with 2 1 tab1 increment_other [of cx ?k ?e N d tab f1 tab1 ?u] ip show thesis
    by (intro that [of tab' tab1 f]) (auto simp: cx'_def)
qed

lemma count_failures_row:
  assumes s: "sv_security s = Some pg_security" "ap_max_failed_attempts (sv_policy s) = N" "ap_lockout_duration (sv_policy s) = d"
    and N: "0 < N"
  shows "count_failures s username attempts w = Some w' \<Longrightarrow> aw_pg w = Some tab
    \<Longrightarrow> failures_row (username_login_key username) N d k t tab \<Longrightarrow> close_together d t attempts
    \<Longrightarrow> k + int (length attempts) \<le> N
    \<Longrightarrow> list_all (\<lambda>(mx, n, ip). login_key username ip \<noteq> username_login_key username) attempts
    \<Longrightarrow> \<exists>tab'. aw_pg w' = Some tab' \<and> failures_row (username_login_key username) N d (k + int (length attempts))
          (if attempts = [] then t else mx_now (fst (last attempts))) tab'"
proof (induction attempts arbitrary: w tab k t)
  case (Cons a attempts)
  obtain mx n ip where a: "a = (mx, n, ip)" by (cases a) auto
  obtain w1 where w1: "record_login_failure s mx n username ip w = (None, w1)" "count_failures s username attempts w1 = Some w'"
    using Cons.prems(1) a by (auto split: prod.splits option.splits)
  have "login_key username ip \<noteq> username_login_key username" using Cons.prems(6) a by simp
  from record_step [OF s w1(1) Cons.prems(2) this] obtain tab1 f tab' where
    step: "aw_pg w1 = Some tab'"
      "gm_get (at_failure tab1) (username_login_key username) = gm_get (at_failure tab) (username_login_key username)"
      "pg_increment_login_failure (store_call mx (n + 1)) (username_login_key username) (mx_now mx + d) N d (Some tab1)
        = (Inr f, Some tab')" by blast
  have "failures_row (username_login_key username) N d k t tab1"
    using Cons.prems(3) step(2) by (simp add: failures_row_def)
  with step(3) N Cons.prems(4,5) a have row: "failures_row (username_login_key username) N d (k + 1) (mx_now mx) tab'"
    using increment_next [of "store_call mx (n + 1)" "username_login_key username" d N tab1 f tab' k t] by simp
  from Cons.IH [OF w1(2) step(1) row] Cons.prems(4,5,6) a show ?case
    by (cases "attempts = []") (auto simp: algebra_simps)
qed simp

lemma locked_row_refuses:
  assumes s: "sv_security s = Some pg_security"
    and row: "aw_pg w = Some tab" "failures_row (username_login_key username) N d N t tab"
    and now: "t \<le> mx_now mx" "mx_now mx < t + d" and f: "failures_are_failures mx"
  shows "login_lock s mx username ip w \<noteq> Inr None"
proof -
  obtain r where r: "gm_get (at_failure tab) (username_login_key username) = Some r" "lf_expires_at r = t + d" "lf_locked_until r = t + d"
    using row(2) by (auto simp: failures_row_def)
  have "pg_get_login_failure (store_call mx 3) (username_login_key username) (Some tab)
      = (case mx_pg mx 3 0 of None \<Rightarrow> Inr (to_domain_login_failure r) | Some e \<Rightarrow> Inl e)"
    using r now f by (auto simp: pg_get_login_failure_def read_db_def first_row_def stmt_def store_call_def
        failures_are_failures_def split: option.splits)
  then show ?thesis using s row now r
    by (auto simp: login_lock_def login_failure_by_key_def to_domain_login_failure_def split: sum.splits option.splits)
qed

lemma locked_login_refused:
  assumes "\<And>username. normalize_username (lr_username req) = Inr username \<Longrightarrow> login_lock s mx username ip w \<noteq> Inr None"
  shows "\<exists>r e. login_with_options s mx ids req ip w = ((r, Some e), w)"
  using assms by (auto simp: login_with_options_def split: option.splits sum.splits if_splits prod.splits)

text \<open>
  C8: Brute force is locked out. With the state in PostgreSQL, let a user name without
  recorded failures see MaxFailedAttempts counted failures, from whatever addresses, each within the
  lock-out duration of the one before. From the last of them until the lock-out duration has passed,
  every log-in with that name is answered with an error and changes nothing, from any address and
  with any password, also while the database fails.
\<close>

theorem brute_force_locked:
  assumes "sv_security s = Some pg_security" and "ap_max_failed_attempts (sv_policy s) = int (length attempts) + 1"
    and "count_failures s username ((mx0, n, ip0) # attempts) w = Some w'"
    and "aw_pg w = Some tab" "gm_get (at_failure tab) (username_login_key username) = None"
    and "close_together (ap_lockout_duration (sv_policy s)) (mx_now mx0) attempts"
    and "list_all (\<lambda>(mx, n, ip). login_key username ip \<noteq> username_login_key username) ((mx0, n, ip0) # attempts)"
    and "t = mx_now (fst (last ((mx0, n, ip0) # attempts)))"
    and "t \<le> mx_now mx" "mx_now mx < t + ap_lockout_duration (sv_policy s)" and "failures_are_failures mx"
    and "normalize_username (lr_username req) = Inr username"
  shows "\<exists>r e. login_with_options s mx ids req ip w' = ((r, Some e), w')"
proof -
  let ?u = "username_login_key username" and ?N = "ap_max_failed_attempts (sv_policy s)" and ?d = "ap_lockout_duration (sv_policy s)"
  obtain w1 where w1: "record_login_failure s mx0 n username ip0 w = (None, w1)" "count_failures s username attempts w1 = Some w'"
    using assms(3) by (auto split: prod.splits option.splits)
  have "login_key username ip0 \<noteq> ?u" using assms(7) by simp
  from record_step [OF assms(1) refl refl w1(1) assms(4) this] obtain tab1 f tab' where
    step0: "aw_pg w1 = Some tab'" "gm_get (at_failure tab1) ?u = gm_get (at_failure tab) ?u"
      "pg_increment_login_failure (store_call mx0 (n + 1)) ?u (mx_now mx0 + ?d) ?N ?d (Some tab1) = (Inr f, Some tab')" by blast
  note step = step0(1) step0(2) [unfolded assms(5)] step0(3)
  have "failures_row ?u ?N ?d 1 (mx_now mx0) tab'"
    using increment_first [of "store_call mx0 (n + 1)" ?u ?d ?N tab1 f tab'] step assms(2) by simp
  from count_failures_row [OF assms(1) refl refl _ w1(2) step(1) this assms(6)] assms(2,7)
  obtain tab2 where tab2: "aw_pg w' = Some tab2" "failures_row ?u ?N ?d ?N t tab2"
    by (auto simp: assms(8) add.commute split: if_splits)
  have "login_lock s mx username ip w' \<noteq> Inr None"
    by (rule locked_row_refuses [OF assms(1) tab2 assms(9-11)])
  then show ?thesis using assms(12) by (intro locked_login_refused) auto
qed

definition sample_failures :: "(manager_context \<times> nat \<times> string) list" where
  "sample_failures = [(at_second 4, 5, ''10.0.0.2''), (at_second 8, 5, ''10.0.0.3'')]"

definition failed_world :: auth_world where
  "failed_world = the (count_failures (sample_service pg_security) ''alice''
     ((at_second 0, 5, ''10.0.0.1'') # sample_failures) empty_world)"

lemma failed_world_facts:
  "count_failures (sample_service pg_security) ''alice'' ((at_second 0, 5, ''10.0.0.1'') # sample_failures) empty_world
    = Some failed_world"
  "gm_get (at_failure (the (aw_pg empty_world))) (username_login_key ''alice'') = None"
  "close_together (ap_lockout_duration (sv_policy (sample_service pg_security))) (mx_now (at_second 0)) sample_failures"
  "list_all (\<lambda>(mx, n, ip). login_key ''alice'' ip \<noteq> username_login_key ''alice'') ((at_second 0, 5, ''10.0.0.1'') # sample_failures)"
  "mx_now (at_second 8) \<le> mx_now (at_second 17)"
  "mx_now (at_second 17) < mx_now (at_second 8) + ap_lockout_duration (sv_policy (sample_service pg_security))"
  "ap_max_failed_attempts (sv_policy (sample_service pg_security)) = int (length sample_failures) + 1"
  "mx_now (at_second 8) = mx_now (fst (last ((at_second 0, 5::nat, ''10.0.0.1'') # sample_failures)))"
  "aw_pg empty_world = Some (the (aw_pg empty_world))"
  by code_simp+

theorem brute_force_locked_witness:
  "\<exists>r e. login_with_options (sample_service pg_security) (at_second 17) (''s1'', ''a1'', ''r1'') sample_login ''10.0.0.9'' failed_world
    = ((r, Some e), failed_world)"
  by (rule brute_force_locked [OF _ failed_world_facts(7,1,9,2,3,4,8,5,6) failures_at_second sample_username(1)])
    (simp add: sample_service_def)

text \<open>
  The failover store asks Redis for the failures first. The count in Redis lives from the
  first failure on, that in PostgreSQL from the last: when the Redis counter has run out and started
  again, its answer, not locked, hides the lock that PostgreSQL holds.
\<close>

definition fading_world :: "auth_world security_state_store \<Rightarrow> auth_world" where
  "fading_world st = the (count_failures (sample_service st) ''alice''
     [(at_second 0, 5, ''10.0.0.1''), (at_second 9, 5, ''10.0.0.2''), (at_second 11, 5, ''10.0.0.3'')] empty_world)"

lemma failover_hides_lock:
  "login_lock (sample_service pg_security) (at_second 12) ''alice'' ''10.0.0.9'' (fading_world pg_security) = Inr (Some (21 * second))"
  "login_lock (sample_service (failover_security program_failover)) (at_second 12) ''alice'' ''10.0.0.9''
     (fading_world (failover_security program_failover)) = Inr None"
  by code_simp+

end
