(* ===== verification/Llm_Retry.thy ===== *)
theory Llm_Retry
  imports Go_Errors
begin

text \<open>
  \<^verbatim>\<open>platform/llm/retry.go\<close> and \<^verbatim>\<open>platform/llm/fallback.go\<close>: the
  decorators that retry a provider and fall back to the next one. A client is the sequence of
  its answers to successive calls, and \<open>wait n\<close> the error of the context if it ends
  during the \<open>n\<close>-th wait. \<^verbatim>\<open>Generate\<close> and \<^verbatim>\<open>Stream\<close>
  run the same loop, over responses and over channels; \<open>'r\<close> is either. A run records what it
  did: calls and waits in order.
\<close>

definition default_retry_backoff :: duration where "default_retry_backoff = 500 * millisecond"
definition max_retry_backoff :: duration where "max_retry_backoff = 10 * second"

section \<open>Which errors are worth a retry\<close>

fun as_provider :: "go_error \<Rightarrow> int option" where
  "as_provider (ErrProvider p s m e) = Some s"
| "as_provider _ = None"

definition is_retryable :: "go_error option \<Rightarrow> bool" where
  "is_retryable err = (case err of
     None \<Rightarrow> False
   | Some e \<Rightarrow>
       if err_is e ErrCanceled \<or> err_is e ErrDeadlineExceeded then False
       else (case first_some as_provider (err_chain e) of
          Some status \<Rightarrow> if status = 0 then True else if status = 429 then True else if 500 \<le> status then True else False
        | None \<Rightarrow> False))"

section \<open>Waiting\<close>

text \<open>The loop of \<^verbatim>\<open>backoffDelay\<close>; a doubling wraps around at 64 bits.\<close>

fun backoff_loop :: "nat \<Rightarrow> duration \<Rightarrow> duration" where
  "backoff_loop 0 delay = (if max_retry_backoff < delay then max_retry_backoff else delay)"
| "backoff_loop (Suc i) delay =
     (let d = wrap64 (delay * 2) in if max_retry_backoff \<le> d then max_retry_backoff else backoff_loop i d)"

definition backoff_delay :: "duration \<Rightarrow> nat \<Rightarrow> duration" where
  "backoff_delay base attempt = backoff_loop attempt base"

text \<open>\<open>interrupted\<close> is the error of a context that ends before the delay is over.\<close>

definition sleep_with_context :: "go_error option \<Rightarrow> go_error option \<Rightarrow> duration \<Rightarrow> go_error option" where
  "sleep_with_context at_once interrupted delay = (if delay \<le> 0 then at_once else interrupted)"

section \<open>The retrying client\<close>

record 'r retrying_client =
  rc_base :: "nat \<Rightarrow> 'r go_result"
  rc_provider :: string
  rc_max :: int
  rc_backoff :: duration

definition new_retrying_client :: "(nat \<Rightarrow> 'r go_result) \<Rightarrow> string \<Rightarrow> int \<Rightarrow> duration \<Rightarrow> 'r retrying_client" where
  "new_retrying_client base provider maxRetries backoff =
    \<lparr>rc_base = base, rc_provider = provider, rc_max = maxRetries,
     rc_backoff = (if backoff \<le> 0 then default_retry_backoff else backoff)\<rparr>"

datatype llm_event = Called | Waited duration

text \<open>
  The result is the value and the error, as in the source: with a negative maximum the loop does
  not run and both are empty. \<open>wait n\<close> gives the two states of the context that a sleep
  looks at.
\<close>

function retry_loop :: "'r retrying_client \<Rightarrow> (nat \<Rightarrow> go_error option \<times> go_error option) \<Rightarrow> nat \<Rightarrow> go_error option
    \<Rightarrow> llm_event list \<times> 'r option \<times> go_error option" where
  "retry_loop c wait attempt lastErr =
    (if \<not> int attempt \<le> rc_max c then ([], None, lastErr) else
     case rc_base c attempt of
       Inr response \<Rightarrow> ([Called], Some response, None)
     | Inl e \<Rightarrow>
         if \<not> is_retryable (Some e) \<or> int attempt = rc_max c then ([Called], None, Some e)
         else (let delay = backoff_delay (rc_backoff c) attempt in
           case sleep_with_context (fst (wait attempt)) (snd (wait attempt)) delay of
             Some we \<Rightarrow> ([Called, Waited delay], None, Some we)
           | None \<Rightarrow> (case retry_loop c wait (Suc attempt) (Some e) of
               (evs, r) \<Rightarrow> (Called # Waited delay # evs, r))))"
  by pat_completeness auto
termination
  by (relation "measure (\<lambda>(c, wait, attempt, lastErr). nat (rc_max c + 1) - attempt)") auto

declare retry_loop.simps [simp del]

definition retrying_generate :: "'r retrying_client \<Rightarrow> (nat \<Rightarrow> go_error option \<times> go_error option)
    \<Rightarrow> llm_event list \<times> 'r option \<times> go_error option" where
  "retrying_generate c wait = retry_loop c wait 0 None"

section \<open>The chain of clients\<close>

text \<open>A client of the chain, seen as the run of one call of it.\<close>

type_synonym 'r client_run = "llm_event list \<times> 'r option \<times> go_error option"

datatype 'r llm_client = Plain "'r client_run" | Chain "'r client_run list"

definition new_fallback_client :: "'r client_run option list \<Rightarrow> go_error + 'r llm_client" where
  "new_fallback_client clients =
    (case somes clients of
       [] \<Rightarrow> Inl (ErrMsg ''fallback client requires at least one underlying client'')
     | [c] \<Rightarrow> Inr (Plain c)
     | cs \<Rightarrow> Inr (Chain cs))"

fun fallback_loop :: "'r client_run list \<Rightarrow> go_error option \<Rightarrow> llm_event list \<times> 'r option \<times> go_error option" where
  "fallback_loop [] lastErr = ([], None, lastErr)"
| "fallback_loop ((evs, r, None) # cs) lastErr = (evs, r, None)"
| "fallback_loop ((evs, r, Some e) # cs) lastErr =
     (if \<not> is_retryable (Some e) \<or> cs = [] then (evs, None, Some e)
      else (case fallback_loop cs (Some e) of (evs', r') \<Rightarrow> (evs @ evs', r')))"

fun client_generate :: "'r llm_client \<Rightarrow> llm_event list \<times> 'r option \<times> go_error option" where
  "client_generate (Plain run) = run"
| "client_generate (Chain runs) = fallback_loop runs None"

text \<open>\<^verbatim>\<open>FallbackClient\<close>: the default provider, then the named ones; every name must be configured.\<close>

fun fallback_chain :: "(string, 'r client_run option) gmap \<Rightarrow> string list \<Rightarrow> go_error + 'r client_run option list" where
  "fallback_chain clients [] = Inr []"
| "fallback_chain clients (name # names) =
     (case gm_get clients name of
        Some (Some c) \<Rightarrow> (case fallback_chain clients names of Inl e \<Rightarrow> Inl e | Inr cs \<Rightarrow> Inr (Some c # cs))
      | _ \<Rightarrow> Inl (ErrMsg (''fallback llm provider '' @ [CHR 0x22] @ name @ [CHR 0x22] @ '' is not configured'')))"

definition default_client :: "string \<Rightarrow> (string, 'r client_run option) gmap \<Rightarrow> go_error + 'r client_run" where
  "default_client defaultProvider clients = (case gm_get clients defaultProvider of
     Some (Some c) \<Rightarrow> Inr c
   | _ \<Rightarrow> Inl (ErrMsg (''default llm provider '' @ [CHR 0x22] @ defaultProvider @ [CHR 0x22] @ '' is unavailable'')))"

definition registry_fallback_client ::
  "string \<Rightarrow> (string, 'r client_run option) gmap \<Rightarrow> string list \<Rightarrow> go_error + 'r llm_client" where
  "registry_fallback_client defaultProvider clients fallbacks =
    (case default_client defaultProvider clients of
       Inl e \<Rightarrow> Inl e
     | Inr primary \<Rightarrow>
         if fallbacks = [] then Inr (Plain primary)
         else (case fallback_chain clients fallbacks of
            Inl e \<Rightarrow> Inl e
          | Inr cs \<Rightarrow> new_fallback_client (Some primary # cs)))"

section \<open>Facts\<close>

lemma max_retry_backoff_range: "0 < max_retry_backoff" "max_retry_backoff * 2 \<le> int64_max"
  by (simp_all add: max_retry_backoff_def int64_max_def)

text \<open>A positive base whose double fits gives waits between one nanosecond and ten seconds.\<close>

lemma backoff_loop_range:
  "0 < d \<Longrightarrow> d * 2 \<le> int64_max \<Longrightarrow> 0 < backoff_loop i d \<and> backoff_loop i d \<le> max_retry_backoff"
proof (induction i arbitrary: d)
  case (Suc i)
  have "wrap64 (d * 2) = d * 2" using Suc.prems by (intro wrap64_id) (auto simp: int64_max_def)
  moreover have "d * 2 < max_retry_backoff \<Longrightarrow> d * 2 * 2 \<le> int64_max"
    using max_retry_backoff_range(2) by linarith
  ultimately show ?case using Suc.IH [of "d * 2"] Suc.prems max_retry_backoff_range(1) by (auto simp: Let_def)
qed (simp add: max_retry_backoff_range(1))

lemma backoff_loop_eq:
  "0 < d \<Longrightarrow> d * 2 \<le> int64_max \<Longrightarrow> backoff_loop i d = min max_retry_backoff (d * 2 ^ i)"
proof (induction i arbitrary: d)
  case (Suc i)
  have w: "wrap64 (d * 2) = d * 2" using Suc.prems by (intro wrap64_id) (auto simp: int64_max_def)
  show ?case
  proof (cases "max_retry_backoff \<le> d * 2")
    case True
    have "d * 2 * 1 \<le> d * 2 * 2 ^ i" using Suc.prems(1) by (intro mult_left_mono) auto
    with True have "max_retry_backoff \<le> d * 2 ^ Suc i" by (simp add: algebra_simps)
    with True w show ?thesis by (simp add: Let_def min_def)
  next
    case False
    then have "d * 2 * 2 \<le> int64_max" using max_retry_backoff_range(2) by linarith
    with Suc.IH [of "d * 2"] Suc.prems(1) False w show ?thesis by (simp add: Let_def algebra_simps)
  qed
qed auto

text \<open>At most \<open>max + 1\<close> calls, each but the last followed by a wait.\<close>

lemma retry_loop_calls:
  "length (filter (\<lambda>e. e = Called) (fst (retry_loop c wait attempt lastErr))) \<le> nat (rc_max c + 1) - attempt"
proof (induction c wait attempt lastErr rule: retry_loop.induct)
  case (1 c wait attempt lastErr)
  show ?case
  proof (cases "\<exists>e. int attempt \<le> rc_max c \<and> rc_base c attempt = Inl e \<and> is_retryable (Some e) \<and> int attempt \<noteq> rc_max c \<and>
      sleep_with_context (fst (wait attempt)) (snd (wait attempt)) (backoff_delay (rc_backoff c) attempt) = None")
    case True
    then obtain e where e: "int attempt \<le> rc_max c" "rc_base c attempt = Inl e" "is_retryable (Some e)"
      "int attempt \<noteq> rc_max c"
      "sleep_with_context (fst (wait attempt)) (snd (wait attempt)) (backoff_delay (rc_backoff c) attempt) = None" by blast
    have "length (filter (\<lambda>e. e = Called) (fst (retry_loop c wait (Suc attempt) (Some e)))) \<le> nat (rc_max c + 1) - Suc attempt"
      using 1 [of e] e by simp
    then show ?thesis using e by (subst retry_loop.simps) (auto split: prod.splits)
  next
    case False
    then show ?thesis by (subst retry_loop.simps) (auto simp: Let_def split: sum.splits option.splits prod.splits)
  qed
qed


lemma retry_step:
  assumes "int attempt \<le> rc_max c" "rc_base c attempt = Inl e" "is_retryable (Some e)" "int attempt \<noteq> rc_max c"
    "sleep_with_context (fst (wait attempt)) (snd (wait attempt)) (backoff_delay (rc_backoff c) attempt) = None"
  shows "retry_loop c wait attempt lastErr =
    (case retry_loop c wait (Suc attempt) (Some e) of
       (evs, r) \<Rightarrow> (Called # Waited (backoff_delay (rc_backoff c) attempt) # evs, r))"
  using assms by (subst retry_loop.simps) simp

text \<open>A loop either stops at this attempt or goes on; the waits of a stopping attempt are at most one.\<close>

lemma retry_loop_events:
  "(\<exists>e. int attempt < rc_max c \<and> rc_base c attempt = Inl e \<and>
      retry_loop c wait attempt lastErr = (case retry_loop c wait (Suc attempt) (Some e) of
        (evs, r) \<Rightarrow> (Called # Waited (backoff_delay (rc_backoff c) attempt) # evs, r))) \<or>
   fst (retry_loop c wait attempt lastErr) = [] \<or> fst (retry_loop c wait attempt lastErr) = [Called] \<or>
   (int attempt < rc_max c \<and> fst (retry_loop c wait attempt lastErr) = [Called, Waited (backoff_delay (rc_backoff c) attempt)])"
proof (cases "rc_base c attempt")
  case (Inr r)
  then show ?thesis by (subst (2 3 4) retry_loop.simps) auto
next
  case (Inl e)
  let ?sleep = "sleep_with_context (fst (wait attempt)) (snd (wait attempt)) (backoff_delay (rc_backoff c) attempt)"
  consider "\<not> int attempt \<le> rc_max c \<or> \<not> is_retryable (Some e) \<or> int attempt = rc_max c"
    | "int attempt < rc_max c" "is_retryable (Some e)" "?sleep = None"
    | we where "int attempt < rc_max c" "is_retryable (Some e)" "?sleep = Some we" by fastforce
  then show ?thesis
  proof cases
    case 1
    then show ?thesis using Inl by (subst (2 3 4) retry_loop.simps) auto
  next
    case 2
    then show ?thesis using Inl retry_step [of attempt c e wait lastErr] by auto
  next
    case 3
    then show ?thesis using Inl by (subst (2 3 4) retry_loop.simps) (auto simp: Let_def)
  qed
qed

lemma retry_loop_waits:
  assumes "0 < rc_backoff c" "rc_backoff c * 2 \<le> int64_max"
  shows "Waited d \<in> set (fst (retry_loop c wait attempt lastErr)) \<Longrightarrow> 0 < d \<and> d \<le> max_retry_backoff"
proof (induction "nat (rc_max c + 1) - attempt" arbitrary: attempt lastErr)
  case 0
  then have "\<not> int attempt \<le> rc_max c" by linarith
  with 0 show ?case by (subst (asm) retry_loop.simps) simp
next
  case (Suc m)
  have here: "0 < backoff_delay (rc_backoff c) attempt \<and> backoff_delay (rc_backoff c) attempt \<le> max_retry_backoff"
    using backoff_loop_range assms by (simp add: backoff_delay_def)
  show ?case
    using retry_loop_events [of attempt c wait lastErr]
  proof (elim disjE exE conjE)
    fix e
    assume "retry_loop c wait attempt lastErr = (case retry_loop c wait (Suc attempt) (Some e) of
        (evs, r) \<Rightarrow> (Called # Waited (backoff_delay (rc_backoff c) attempt) # evs, r))"
    moreover have "m = nat (rc_max c + 1) - Suc attempt" using Suc(2) by linarith
    ultimately show ?thesis using Suc.prems here Suc(1) [of "Suc attempt" "Some e"] by (auto split: prod.splits)
  qed (use Suc.prems here in auto)
qed

lemma retry_reaches:
  assumes "int k \<le> rc_max c" "rc_base c k = Inr r"
    and "\<And>n. n < k \<Longrightarrow> \<exists>e. rc_base c n = Inl e \<and> is_retryable (Some e)"
    and "\<And>n. n < k \<Longrightarrow> wait n = (None, None)"
  shows "n \<le> k \<Longrightarrow> snd (retry_loop c wait n lastErr) = (Some r, None)"
proof (induction "k - n" arbitrary: n lastErr)
  case 0
  with assms(1,2) show ?case by (subst retry_loop.simps) simp
next
  case (Suc m)
  then have "n < k" by simp
  then obtain e where e: "rc_base c n = Inl e" "is_retryable (Some e)" using assms(3) by blast
  have "retry_loop c wait n lastErr = (case retry_loop c wait (Suc n) (Some e) of
       (evs, r) \<Rightarrow> (Called # Waited (backoff_delay (rc_backoff c) n) # evs, r))"
    using \<open>n < k\<close> e assms(1,4) by (intro retry_step) (auto simp: sleep_with_context_def)
  moreover have "snd (retry_loop c wait (Suc n) (Some e)) = (Some r, None)"
    using Suc(1) [of "Suc n"] Suc(2) \<open>n < k\<close> by simp
  ultimately show ?case by (simp split: prod.splits)
qed

lemma retry_exhausts:
  assumes "0 \<le> rc_max c" and fails: "\<And>n. int n \<le> rc_max c \<Longrightarrow> \<exists>e. rc_base c n = Inl e \<and> is_retryable (Some e)"
    and wait: "\<And>n. int n < rc_max c \<Longrightarrow> wait n = (None, None)"
  shows "int n \<le> rc_max c \<Longrightarrow> \<exists>e. snd (retry_loop c wait n lastErr) = (None, Some e) \<and> is_retryable (Some e)"
proof (induction "nat (rc_max c) - n" arbitrary: n lastErr)
  case 0
  then have "int n = rc_max c" by linarith
  with fails [of n] show ?case by (subst retry_loop.simps) auto
next
  case (Suc m)
  then have n: "int n < rc_max c" by linarith
  then obtain e where e: "rc_base c n = Inl e" "is_retryable (Some e)" using fails [of n] by auto
  have "retry_loop c wait n lastErr = (case retry_loop c wait (Suc n) (Some e) of
       (evs, r) \<Rightarrow> (Called # Waited (backoff_delay (rc_backoff c) n) # evs, r))"
    using n e wait by (intro retry_step) (auto simp: sleep_with_context_def)
  moreover have "m = nat (rc_max c) - Suc n" "int (Suc n) \<le> rc_max c" using Suc(2) n by linarith+
  then have "\<exists>e'. snd (retry_loop c wait (Suc n) (Some e)) = (None, Some e') \<and> is_retryable (Some e')"
    using Suc(1) by blast
  ultimately show ?case by (auto split: prod.splits)
qed

lemma fallback_reaches:
  assumes "\<And>run. run \<in> set front \<Longrightarrow> \<exists>evs r e. run = (evs, r, Some e) \<and> is_retryable (Some e)"
    and "snd run = (Some r, None)"
  shows "snd (fallback_loop (front @ run # rest) lastErr) = (Some r, None)"
  using assms(1)
proof (induction front arbitrary: lastErr)
  case Nil
  then show ?case using assms(2) by (cases run) auto
next
  case (Cons a front)
  then obtain evs r' e where a: "a = (evs, r', Some e)" "is_retryable (Some e)" by (meson list.set_intros(1))
  have "snd (fallback_loop (front @ run # rest) (Some e)) = (Some r, None)"
    using Cons.IH Cons.prems by simp
  with a show ?case by (simp add: case_prod_unfold)
qed

lemma new_fallback_many: "2 \<le> length (somes cs) \<Longrightarrow> new_fallback_client cs = Inr (Chain (somes cs))"
  by (cases "somes cs" rule: remdups_adj.cases) (auto simp: new_fallback_client_def)

section \<open>Properties\<close>

text \<open>
  C23: Retrying is bounded. One Generate or Stream makes at most MaxRetries + 1 calls of the provider, and
  every wait between two calls is positive and at most ten seconds.
\<close>

theorem retries_bounded:
  assumes "0 < rc_backoff c" "rc_backoff c * 2 \<le> int64_max" and "retrying_generate c wait = (evs, result)"
  shows "length (filter (\<lambda>e. e = Called) evs) \<le> nat (rc_max c + 1) \<and>
    list_all (\<lambda>e. case e of Called \<Rightarrow> True | Waited d \<Rightarrow> 0 < d \<and> d \<le> 10 * second) evs"
proof
  have evs: "evs = fst (retry_loop c wait 0 None)" using assms(3) by (simp add: retrying_generate_def)
  show "length (filter (\<lambda>e. e = Called) evs) \<le> nat (rc_max c + 1)"
    using retry_loop_calls [of c wait 0 None] by (simp add: evs)
  show "list_all (\<lambda>e. case e of Called \<Rightarrow> True | Waited d \<Rightarrow> 0 < d \<and> d \<le> 10 * second) evs"
    using retry_loop_waits [OF assms(1,2), of _ wait 0 None]
    by (auto simp: list_all_iff evs max_retry_backoff_def split: llm_event.splits)
qed

definition flaky_client :: "string retrying_client" where
  "flaky_client = new_retrying_client (\<lambda>n. if n < 2 then Inl (ErrProvider ''p'' 503 ''busy'' None) else Inr ''answer'') ''p'' 3 0"

definition no_interruption :: "nat \<Rightarrow> go_error option \<times> go_error option" where
  "no_interruption n = (None, None)"

lemma flaky_run:
  "retrying_generate flaky_client no_interruption =
    ([Called, Waited (500 * millisecond), Called, Waited (1000 * millisecond), Called], Some ''answer'', None)"
  "0 < rc_backoff flaky_client" "rc_backoff flaky_client * 2 \<le> int64_max"
  by code_simp+

theorem retries_bounded_witness:
  "length (filter (\<lambda>e. e = Called) [Called, Waited (500 * millisecond), Called, Waited (1000 * millisecond), Called])
    \<le> nat (rc_max flaky_client + 1)"
  using retries_bounded [OF flaky_run(2,3,1)] by blast

text \<open>
  C22: An answer that is within reach is reached. In a chain of retrying clients, let the
  k-th attempt at one client succeed, within its maximum, while every attempt before it, and every
  attempt at the clients before it in the chain, fails with a retryable error and no wait is interrupted. Then
  Generate returns that answer without an error, whatever the clients behind it would do.
\<close>

theorem answer_reached:
  assumes "rest \<noteq> [] \<or> front \<noteq> []"
    and "\<forall>(c, wait) \<in> set front. 0 \<le> rc_max c \<and> (\<forall>n. int n \<le> rc_max c \<longrightarrow>
      (\<exists>e. rc_base c n = Inl e \<and> is_retryable (Some e)) \<and> wait n = (None, None))"
    and "int k \<le> rc_max c" "rc_base c k = Inr answer"
    and "\<forall>n < k. (\<exists>e. rc_base c n = Inl e \<and> is_retryable (Some e)) \<and> wait n = (None, None)"
  shows "\<exists>client. new_fallback_client (map (\<lambda>(c, wait). Some (retrying_generate c wait)) (front @ (c, wait) # rest)) = Inr client \<and>
    snd (client_generate client) = (Some answer, None)"
proof -
  let ?run = "\<lambda>(c, wait). retrying_generate c wait"
  have here: "snd (?run (c, wait)) = (Some answer, None)"
    using retry_reaches [of k c answer wait 0 None] assms(3-5) by (simp add: retrying_generate_def)
  have before: "\<exists>evs r e. run = (evs, r, Some e) \<and> is_retryable (Some e)" if run: "run \<in> set (map ?run front)" for run
  proof -
    obtain c' wait' where "(c', wait') \<in> set front" "run = retrying_generate c' wait'" using run by auto
    with assms(2) retry_exhausts [of c' wait' 0 None] show ?thesis
      by (cases run) (fastforce simp: retrying_generate_def)
  qed
  have "snd (fallback_loop (map ?run front @ ?run (c, wait) # map ?run rest) None) = (Some answer, None)"
    by (rule fallback_reaches) (use before here in auto)
  moreover have "somes (map (\<lambda>(c, wait). Some (retrying_generate c wait)) xs) = map ?run xs" for xs :: "('a retrying_client \<times> _) list"
    by (induction xs) auto
  then have "somes (map (\<lambda>(c, wait). Some (retrying_generate c wait)) (front @ (c, wait) # rest))
      = map ?run front @ ?run (c, wait) # map ?run rest" by simp
  then have "new_fallback_client (map (\<lambda>(c, wait). Some (retrying_generate c wait)) (front @ (c, wait) # rest))
      = Inr (Chain (map ?run front @ ?run (c, wait) # map ?run rest))"
    using assms(1) new_fallback_many [of "map (\<lambda>(c, wait). Some (retrying_generate c wait)) (front @ (c, wait) # rest)"]
    by (cases front; cases rest) auto
  ultimately show ?thesis by simp
qed

definition dead_client :: "string retrying_client" where
  "dead_client = new_retrying_client (\<lambda>n. Inl (ErrProvider ''q'' 0 ''unreachable'' None)) ''q'' 1 second"

lemma dead_client_fails: "\<forall>(c, wait) \<in> set [(dead_client, no_interruption)]. 0 \<le> rc_max c \<and> (\<forall>n. int n \<le> rc_max c \<longrightarrow>
    (\<exists>e. rc_base c n = Inl e \<and> is_retryable (Some e)) \<and> wait n = (None, None))"
  by (simp add: dead_client_def new_retrying_client_def no_interruption_def is_retryable_def err_is_def)

lemma flaky_facts: "int 2 \<le> rc_max flaky_client" "rc_base flaky_client 2 = Inr ''answer''"
  "\<forall>n < 2. (\<exists>e. rc_base flaky_client n = Inl e \<and> is_retryable (Some e)) \<and> no_interruption n = (None, None)"
  by (simp_all add: flaky_client_def new_retrying_client_def no_interruption_def is_retryable_def err_is_def)

theorem answer_reached_witness:
  "\<exists>client. new_fallback_client [Some (retrying_generate dead_client no_interruption),
      Some (retrying_generate flaky_client no_interruption)] = Inr client \<and>
    snd (client_generate client) = (Some ''answer'', None)"
  using answer_reached [OF _ dead_client_fails flaky_facts, of "[]"] by simp

end
