(* ===== verification/Coordination.thy ===== *)
theory Coordination
  imports Go_Errors
begin

text \<open>
  Coordination of several instances over Redis: \<^verbatim>\<open>platform/coordination/redis.go\<close> and the
  interfaces of \<^verbatim>\<open>shared/coordination\<close>. A semaphore is a sorted set of members with their
  expiry as score, changed by two Lua scripts that Redis runs as one step each; signals are keys
  with a time to live; events go to the subscribers of a channel. Instants of the scripts are
  milliseconds of the one clock all instances share; a coordinator without a client is \<open>None\<close>,
  otherwise its namespace.

  A call may fail: \<open>Some (n, e)\<close> says that the reply was the error \<open>e\<close> and that the first \<open>n\<close>
  commands of the call took effect nevertheless.
\<close>

section \<open>Sorted sets with expiry\<close>

record zset =
  zs_scores :: "(string, int) gmap"
  zs_expiry :: "int option"

type_synonym zsets = "(string, zset) gmap"

definition zs_read :: "int \<Rightarrow> string \<Rightarrow> zsets \<Rightarrow> zset option" where
  "zs_read now k db = (case gm_get db k of
     None \<Rightarrow> None
   | Some z \<Rightarrow> (case zs_expiry z of None \<Rightarrow> Some z | Some e \<Rightarrow> if e \<le> now then None else Some z))"

definition zremrangebyscore :: "int \<Rightarrow> string \<Rightarrow> zsets \<Rightarrow> zsets" where
  "zremrangebyscore now k db = (case zs_read now k db of
     None \<Rightarrow> gm_del k db
   | Some z \<Rightarrow> (let kept = filter (\<lambda>(m, sc). now < sc) (zs_scores z) in
       if kept = [] then gm_del k db else gm_put k (z\<lparr>zs_scores := kept\<rparr>) db))"

definition zcard :: "int \<Rightarrow> string \<Rightarrow> zsets \<Rightarrow> int" where
  "zcard now k db = (case zs_read now k db of None \<Rightarrow> 0 | Some z \<Rightarrow> int (length (zs_scores z)))"

definition zscore :: "int \<Rightarrow> string \<Rightarrow> string \<Rightarrow> zsets \<Rightarrow> int option" where
  "zscore now k m db = (case zs_read now k db of None \<Rightarrow> None | Some z \<Rightarrow> gm_get (zs_scores z) m)"

definition zadd :: "int \<Rightarrow> string \<Rightarrow> int \<Rightarrow> string \<Rightarrow> zsets \<Rightarrow> zsets" where
  "zadd now k sc m db = gm_put k (case zs_read now k db of
     None \<Rightarrow> \<lparr>zs_scores = [(m, sc)], zs_expiry = None\<rparr>
   | Some z \<Rightarrow> z\<lparr>zs_scores := gm_put m sc (zs_scores z)\<rparr>) db"

definition zadd_xx :: "int \<Rightarrow> string \<Rightarrow> int \<Rightarrow> string \<Rightarrow> zsets \<Rightarrow> zsets" where
  "zadd_xx now k sc m db = (if zscore now k m db = None then db else zadd now k sc m db)"

definition pexpire :: "int \<Rightarrow> string \<Rightarrow> int \<Rightarrow> zsets \<Rightarrow> zsets" where
  "pexpire now k ms db = (case zs_read now k db of
     None \<Rightarrow> db
   | Some z \<Rightarrow> if ms \<le> 0 then gm_del k db else gm_put k (z\<lparr>zs_expiry := Some (now + ms)\<rparr>) db)"

definition zrem :: "int \<Rightarrow> string \<Rightarrow> string \<Rightarrow> zsets \<Rightarrow> zsets" where
  "zrem now k m db = (case zs_read now k db of
     None \<Rightarrow> db
   | Some z \<Rightarrow> (let rest = gm_del m (zs_scores z) in
       if rest = [] then gm_del k db else gm_put k (z\<lparr>zs_scores := rest\<rparr>) db))"

section \<open>The two scripts\<close>

fun acquire_check :: "int \<Rightarrow> (string \<times> int) list \<Rightarrow> zsets \<Rightarrow> bool \<times> zsets" where
  "acquire_check now [] db = (True, db)"
| "acquire_check now ((k, limit) # kls) db =
     (if 0 < limit then
        (let db1 = zremrangebyscore now k db in
         if limit \<le> zcard now k db1 then (False, db1) else acquire_check now kls db1)
      else acquire_check now kls db)"

fun acquire_add :: "int \<Rightarrow> int \<Rightarrow> string \<Rightarrow> (string \<times> int) list \<Rightarrow> zsets \<Rightarrow> zsets" where
  "acquire_add now ttl m [] db = db"
| "acquire_add now ttl m ((k, limit) # kls) db =
     (if 0 < limit then acquire_add now ttl m kls (pexpire now k (ttl * 2) (zadd now k (now + ttl) m db))
      else acquire_add now ttl m kls db)"

definition acquire_script :: "int \<Rightarrow> int \<Rightarrow> string \<Rightarrow> (string \<times> int) list \<Rightarrow> zsets \<Rightarrow> int \<times> zsets" where
  "acquire_script now ttl m kls db = (case acquire_check now kls db of
     (False, db1) \<Rightarrow> (0, db1)
   | (True, db1) \<Rightarrow> (1, acquire_add now ttl m kls db1))"

fun refresh_check :: "int \<Rightarrow> string \<Rightarrow> string list \<Rightarrow> zsets \<Rightarrow> bool \<times> zsets" where
  "refresh_check now m [] db = (True, db)"
| "refresh_check now m (k # ks) db =
     (let db1 = zremrangebyscore now k db in
      if zscore now k m db1 = None then (False, db1) else refresh_check now m ks db1)"

fun refresh_add :: "int \<Rightarrow> int \<Rightarrow> string \<Rightarrow> string list \<Rightarrow> zsets \<Rightarrow> zsets" where
  "refresh_add now ttl m [] db = db"
| "refresh_add now ttl m (k # ks) db =
     refresh_add now ttl m ks (pexpire now k (ttl * 2) (zadd_xx now k (now + ttl) m db))"

definition refresh_script :: "int \<Rightarrow> int \<Rightarrow> string \<Rightarrow> string list \<Rightarrow> zsets \<Rightarrow> int \<times> zsets" where
  "refresh_script now ttl m ks db = (case refresh_check now m ks db of
     (False, db1) \<Rightarrow> (0, db1)
   | (True, db1) \<Rightarrow> (1, refresh_add now ttl m ks db1))"

section \<open>The coordinator\<close>

text \<open>\<open>rk_subs\<close> are the subscriptions with their channel, \<open>rk_inbox\<close> the messages delivered to them.\<close>

record redis_coord =
  rk_zsets :: zsets
  rk_signals :: "(string, instant) gmap"
  rk_subs :: "(nat \<times> string) list"
  rk_inbox :: "(nat \<times> string) list"

type_synonym call_fault = "(nat \<times> go_error) option"

record semaphore_limit =
  sl_key :: string
  sl_limit :: int

datatype lease =
    NoopLease
  | RedisLease (ls_keys: "string list") (ls_member: string) (ls_ttl: duration) (ls_released: bool)

definition unix_milli :: "instant \<Rightarrow> int" where "unix_milli t = t div millisecond"
definition in_milliseconds :: "duration \<Rightarrow> int" where "in_milliseconds d = d div millisecond"

definition sanitize_key_part :: "string \<Rightarrow> string" where
  "sanitize_key_part v = replace_byte (CHR ''/'') (CHR ''_'') (replace_byte (CHR '':'') (CHR ''_'')
     (replace_byte (CHR '' '') (CHR ''_'') (trim_space v)))"

definition coord_key :: "string \<Rightarrow> string list \<Rightarrow> string" where
  "coord_key ns parts = join '':'' ((''{'' @ ns @ '':coordination}'') # filter (\<lambda>p. p \<noteq> []) (map sanitize_key_part parts))"

definition new_redis_coordinator :: "bool \<Rightarrow> string \<Rightarrow> string option" where
  "new_redis_coordinator client ns =
    (if \<not> client then None
     else Some (let n = sanitize_key_part ns in if n = [] then ''kubeflare'' else n))"

definition signal_key :: "string \<Rightarrow> string \<Rightarrow> string \<Rightarrow> string" where
  "signal_key ns topic payload = coord_key ns [''signal'', topic, payload]"

fun limited_keys :: "string \<Rightarrow> semaphore_limit list \<Rightarrow> (string \<times> int) list" where
  "limited_keys ns [] = []"
| "limited_keys ns (l # ls) =
     (if sl_limit l \<le> 0 then limited_keys ns ls
      else (let key = sanitize_key_part (sl_key l) in
        if key = [] then limited_keys ns ls else (coord_key ns [''semaphore'', key], sl_limit l) # limited_keys ns ls))"

text \<open>A call of one command: what it answers and the state after it, unless it failed.\<close>

definition with_fault :: "call_fault \<Rightarrow> 'a \<times> 's \<Rightarrow> 's \<Rightarrow> 'a go_result \<times> 's" where
  "with_fault f r s = (case f of
     None \<Rightarrow> (Inr (fst r), snd r)
   | Some (n, e) \<Rightarrow> (Inl e, if n = 0 then s else snd r))"

definition coord_acquire ::
  "string option \<Rightarrow> instant \<Rightarrow> call_fault \<Rightarrow> string \<Rightarrow> duration \<Rightarrow> semaphore_limit list \<Rightarrow> redis_coord
    \<Rightarrow> lease option go_result \<times> redis_coord" where
  "coord_acquire c now f member ttl limits s = (case c of
     None \<Rightarrow> (Inr (Some NoopLease), s)
   | Some ns \<Rightarrow>
      (let m = trim_space member; kls = limited_keys ns limits in
       if m = [] then (Inl (ErrMsg ''semaphore member is required''), s)
       else if ttl \<le> 0 then (Inl (ErrMsg ''semaphore ttl must be positive''), s)
       else if kls = [] then (Inr (Some NoopLease), s)
       else (case acquire_script (unix_milli now) (in_milliseconds ttl) m kls (rk_zsets s) of
         (r, z) \<Rightarrow> (case with_fault f (r, s\<lparr>rk_zsets := z\<rparr>) s of
            (Inl e, s1) \<Rightarrow> (Inl e, s1)
          | (Inr n, s1) \<Rightarrow> (Inr (if n \<noteq> 1 then None else Some (RedisLease (map fst kls) m ttl False)), s1)))))"

definition lease_refresh :: "instant \<Rightarrow> call_fault \<Rightarrow> lease \<Rightarrow> redis_coord \<Rightarrow> bool go_result \<times> redis_coord" where
  "lease_refresh now f l s = (case l of
     NoopLease \<Rightarrow> (Inr True, s)
   | RedisLease keys m ttl released \<Rightarrow>
       if keys = [] then (Inr True, s)
       else (case refresh_script (unix_milli now) (in_milliseconds ttl) m keys (rk_zsets s) of
         (r, z) \<Rightarrow> (case with_fault f (r, s\<lparr>rk_zsets := z\<rparr>) s of
            (Inl e, s1) \<Rightarrow> (Inl e, s1)
          | (Inr n, s1) \<Rightarrow> (Inr (n = 1), s1))))"

text \<open>The pipeline of \<^verbatim>\<open>Release\<close>; a failure may leave its last commands undone.\<close>

definition lease_release :: "instant \<Rightarrow> call_fault \<Rightarrow> lease \<Rightarrow> redis_coord \<Rightarrow> go_error option \<times> lease \<times> redis_coord" where
  "lease_release now f l s = (case l of
     NoopLease \<Rightarrow> (None, NoopLease, s)
   | RedisLease keys m ttl released \<Rightarrow>
       if keys = [] \<or> released then (None, l, s)
       else (case f of
         None \<Rightarrow> (None, RedisLease keys m ttl True,
           s\<lparr>rk_zsets := fold (\<lambda>k. zrem (unix_milli now) k m) keys (rk_zsets s)\<rparr>)
       | Some (n, e) \<Rightarrow> (Some e, RedisLease keys m ttl True,
           s\<lparr>rk_zsets := fold (\<lambda>k. zrem (unix_milli now) k m) (take n keys) (rk_zsets s)\<rparr>)))"

section \<open>Signals and events\<close>

definition coord_publish :: "string option \<Rightarrow> call_fault \<Rightarrow> string \<Rightarrow> string \<Rightarrow> redis_coord \<Rightarrow> go_error option \<times> redis_coord" where
  "coord_publish c f topic payload s = (case c of
     None \<Rightarrow> (None, s)
   | Some ns \<Rightarrow>
      (let t = sanitize_key_part topic; channel = coord_key ns [''channel'', t];
           delivered = map (\<lambda>(i, _). (i, payload)) (filter (\<lambda>(_, ch). ch = channel) (rk_subs s)) in
       if t = [] then (Some (ErrMsg ''event topic is required''), s)
       else (case with_fault f ((), s\<lparr>rk_inbox := rk_inbox s @ delivered\<rparr>) s of
          (Inl e, s1) \<Rightarrow> (Some e, s1) | (Inr _, s1) \<Rightarrow> (None, s1))))"

definition coord_signal ::
  "string option \<Rightarrow> instant \<Rightarrow> call_fault \<Rightarrow> call_fault \<Rightarrow> string \<Rightarrow> string \<Rightarrow> duration \<Rightarrow> redis_coord
    \<Rightarrow> go_error option \<times> redis_coord" where
  "coord_signal c now f1 f2 topic payload ttl s = (case c of
     None \<Rightarrow> (None, s)
   | Some ns \<Rightarrow>
      (let t = sanitize_key_part topic; p = trim_space payload;
           life = (if ttl \<le> 0 then minute else ttl) in
       if t = [] \<or> p = [] then (Some (ErrMsg ''signal topic and payload are required''), s)
       else (case with_fault f1 ((), s\<lparr>rk_signals := gm_put (signal_key ns t p) (now + life) (rk_signals s)\<rparr>) s of
          (Inl e, s1) \<Rightarrow> (Some e, s1)
        | (Inr _, s1) \<Rightarrow> coord_publish c f2 t p s1)))"

definition coord_signaled ::
  "string option \<Rightarrow> instant \<Rightarrow> go_error option \<Rightarrow> string \<Rightarrow> string \<Rightarrow> redis_coord \<Rightarrow> bool go_result" where
  "coord_signaled c now f topic payload s = (case c of
     None \<Rightarrow> Inr False
   | Some ns \<Rightarrow>
      (let t = sanitize_key_part topic; p = trim_space payload in
       if t = [] \<or> p = [] then Inr False
       else (case f of Some e \<Rightarrow> Inl e | None \<Rightarrow>
         Inr (case gm_get (rk_signals s) (signal_key ns t p) of None \<Rightarrow> False | Some e \<Rightarrow> now < e))))"

text \<open>
  The answer is the number of the subscription (none for the subscription that does nothing);
  \<open>handled\<close> is whether a handler is given.
\<close>

definition coord_subscribe ::
  "string option \<Rightarrow> nat \<Rightarrow> go_error option \<Rightarrow> string \<Rightarrow> bool \<Rightarrow> redis_coord \<Rightarrow> nat option go_result \<times> redis_coord" where
  "coord_subscribe c i f topic handled s = (case c of
     None \<Rightarrow> (Inr None, s)
   | Some ns \<Rightarrow>
      if \<not> handled then (Inr None, s)
      else (let t = sanitize_key_part topic in
        if t = [] then (Inl (ErrMsg ''event topic is required''), s)
        else (case f of Some e \<Rightarrow> (Inl e, s)
          | None \<Rightarrow> (Inr (Some i), s\<lparr>rk_subs := rk_subs s @ [(i, coord_key ns [''channel'', t])]\<rparr>))))"

text \<open>The returned function; a second call of it finds nothing to remove.\<close>

definition coord_unsubscribe :: "nat option \<Rightarrow> redis_coord \<Rightarrow> redis_coord" where
  "coord_unsubscribe sub s = (case sub of
     None \<Rightarrow> s | Some i \<Rightarrow> s\<lparr>rk_subs := filter (\<lambda>(j, _). j \<noteq> i) (rk_subs s)\<rparr>)"

end
