(* ===== verification/Lease_Semaphore.thy ===== *)
theory Lease_Semaphore
  imports Coordination
begin

text \<open>
  The contract of the distributed semaphore (the interfaces \<^verbatim>\<open>Semaphore\<close> and
  \<^verbatim>\<open>Lease\<close> of \<^verbatim>\<open>shared/coordination\<close>) as the locale \<open>lease_semaphore\<close>, what
  every sequence of calls by any number of instances keeps, and its interpretation on the Redis
  implementation.
\<close>

section \<open>The contract\<close>

text \<open>
  A caller knows of a lease it was granted, and until when it may count on it: one life time
  after the last call that succeeded.
\<close>

record 'l holding =
  hg_lease :: 'l
  hg_until :: int

datatype 'q lease_op = LAcquire string 'q | LRefresh nat | LRelease nat

fun lease_step ::
  "(int \<Rightarrow> 'f \<Rightarrow> string \<Rightarrow> 'q \<Rightarrow> 's \<Rightarrow> 'l option go_result \<times> 's) \<Rightarrow> (int \<Rightarrow> 'f \<Rightarrow> 'l \<Rightarrow> 's \<Rightarrow> bool go_result \<times> 's)
    \<Rightarrow> (int \<Rightarrow> 'f \<Rightarrow> 'l \<Rightarrow> 's \<Rightarrow> go_error option \<times> 'l \<times> 's) \<Rightarrow> int \<Rightarrow> int \<times> 'f \<times> 'q lease_op
    \<Rightarrow> 's \<times> 'l holding list \<Rightarrow> 's \<times> 'l holding list" where
  "lease_step acq refr rel life (now, f, LAcquire m q) (s, hs) = (case acq now f m q s of
     (Inr (Some l), s1) \<Rightarrow> (s1, hs @ [\<lparr>hg_lease = l, hg_until = now + life\<rparr>])
   | (_, s1) \<Rightarrow> (s1, hs))"
| "lease_step acq refr rel life (now, f, LRefresh i) (s, hs) =
     (if i < length hs then (case refr now f (hg_lease (hs ! i)) s of
        (Inr True, s1) \<Rightarrow> (s1, hs[i := (hs ! i)\<lparr>hg_until := now + life\<rparr>])
      | (_, s1) \<Rightarrow> (s1, hs))
      else (s, hs))"
| "lease_step acq refr rel life (now, f, LRelease i) (s, hs) =
     (if i < length hs then (case rel now f (hg_lease (hs ! i)) s of
        (_, l, s1) \<Rightarrow> (s1, hs[i := \<lparr>hg_lease = l, hg_until = now\<rparr>]))
      else (s, hs))"

definition lease_run where
  "lease_run acq refr rel life ops st = fold (lease_step acq refr rel life) ops st"

fun members_of :: "(int \<times> 'f \<times> 'q lease_op) list \<Rightarrow> string list" where
  "members_of [] = []"
| "members_of ((now, f, LAcquire m q) # ops) = m # members_of ops"
| "members_of (_ # ops) = members_of ops"

text \<open>The callers that count on a lease in dimension \<open>k\<close> at time \<open>t\<close>.\<close>

definition holders_at :: "('l \<Rightarrow> 'k set) \<Rightarrow> 'l holding list \<Rightarrow> 'k \<Rightarrow> int \<Rightarrow> nat set" where
  "holders_at dims hs k t = {i. i < length hs \<and> t < hg_until (hs ! i) \<and> k \<in> dims (hg_lease (hs ! i))}"

locale lease_semaphore =
  fixes acq :: "int \<Rightarrow> 'f \<Rightarrow> string \<Rightarrow> 'q \<Rightarrow> 's \<Rightarrow> 'l option go_result \<times> 's"
    and refr :: "int \<Rightarrow> 'f \<Rightarrow> 'l \<Rightarrow> 's \<Rightarrow> bool go_result \<times> 's"
    and rel :: "int \<Rightarrow> 'f \<Rightarrow> 'l \<Rightarrow> 's \<Rightarrow> go_error option \<times> 'l \<times> 's"
    and life :: int
    and live :: "'s \<Rightarrow> 'k \<Rightarrow> int \<Rightarrow> string set"
    and dims :: "'l \<Rightarrow> 'k set"
    and owner :: "'l \<Rightarrow> string option"
    and sound :: "'l \<Rightarrow> bool"
    and allowed :: "string \<Rightarrow> 'q \<Rightarrow> bool"
    and lim :: "'k \<Rightarrow> int"
    and inv :: "int \<Rightarrow> 's \<Rightarrow> bool"
  assumes live_finite: "finite (live s k t)"
    and live_shrinks: "t \<le> u \<Longrightarrow> live s k u \<subseteq> live s k t"
    and inv_later: "inv now s \<Longrightarrow> now \<le> t \<Longrightarrow> inv t s"
    and acq_inv: "inv now s \<Longrightarrow> acq now f m q s = (r, s1) \<Longrightarrow> allowed m q \<Longrightarrow> inv now s1"
    and acq_live: "inv now s \<Longrightarrow> acq now f m q s = (r, s1) \<Longrightarrow> allowed m q \<Longrightarrow> now \<le> t \<Longrightarrow>
      live s1 k t - {m} = live s k t - {m}"
    and acq_bound: "inv now s \<Longrightarrow> acq now f m q s = (r, s1) \<Longrightarrow> allowed m q \<Longrightarrow>
      int (card (live s k now)) \<le> lim k \<Longrightarrow> int (card (live s1 k now)) \<le> lim k"
    and acq_granted: "inv now s \<Longrightarrow> acq now f m q s = (Inr (Some l), s1) \<Longrightarrow> allowed m q \<Longrightarrow>
      sound l \<and> owner l \<in> {None, Some m} \<and> (\<forall>k \<in> dims l. \<forall>t. now \<le> t \<and> t < now + life \<longrightarrow> owner l = Some m \<and> m \<in> live s1 k t)"
    and refr_inv: "inv now s \<Longrightarrow> sound l \<Longrightarrow> refr now f l s = (a, s1) \<Longrightarrow> inv now s1"
    and refr_live: "inv now s \<Longrightarrow> sound l \<Longrightarrow> refr now f l s = (a, s1) \<Longrightarrow> now \<le> t \<Longrightarrow>
      live s1 k t - set_option (owner l) = live s k t - set_option (owner l) \<and> live s1 k now \<subseteq> live s k now"
    and refr_extends: "inv now s \<Longrightarrow> sound l \<Longrightarrow> refr now f l s = (a, s1) \<Longrightarrow> now \<le> t \<Longrightarrow> live s k t \<subseteq> live s1 k t"
    and refr_granted: "inv now s \<Longrightarrow> sound l \<Longrightarrow> refr now f l s = (Inr True, s1) \<Longrightarrow> k \<in> dims l \<Longrightarrow> now \<le> t \<Longrightarrow> t < now + life \<Longrightarrow>
      set_option (owner l) \<inter> live s1 k t \<noteq> {}"
    and rel_inv: "inv now s \<Longrightarrow> rel now f l s = (e, l1, s1) \<Longrightarrow> inv now s1"
    and rel_live: "inv now s \<Longrightarrow> rel now f l s = (e, l1, s1) \<Longrightarrow> now \<le> t \<Longrightarrow>
      live s1 k t - set_option (owner l) = live s k t - set_option (owner l) \<and> live s1 k t \<subseteq> live s k t"
    and rel_lease: "rel now f l s = (e, l1, s1) \<Longrightarrow> dims l1 = dims l \<and> owner l1 = owner l \<and> sound l1 = sound l"
begin

text \<open>
  The invariant of a run: whoever counts on a lease is live in all its dimensions, no dimension
  has more live members than its limit, and every lease has a member of its own.
\<close>

definition owns :: "'l holding list \<Rightarrow> nat \<Rightarrow> string set" where
  "owns hs i = set_option (owner (hg_lease (hs ! i)))"

definition own_members :: "string set \<Rightarrow> 'l holding list \<Rightarrow> bool" where
  "own_members used hs \<longleftrightarrow> (\<forall>i < length hs. owns hs i \<subseteq> used \<and> sound (hg_lease (hs ! i))) \<and>
    (\<forall>i < length hs. \<forall>j < length hs. i \<noteq> j \<longrightarrow> owns hs i \<inter> owns hs j = {})"

definition all_live :: "int \<Rightarrow> 's \<Rightarrow> 'l holding list \<Rightarrow> bool" where
  "all_live now s hs \<longleftrightarrow> (\<forall>i < length hs. \<forall>k \<in> dims (hg_lease (hs ! i)). \<forall>t. now \<le> t \<and> t < hg_until (hs ! i) \<longrightarrow>
      owns hs i \<inter> live s k t \<noteq> {})"

definition within_limits :: "int \<Rightarrow> string set \<Rightarrow> 's \<Rightarrow> bool" where
  "within_limits now used s \<longleftrightarrow> inv now s \<and> (\<forall>k. live s k now \<subseteq> used) \<and>
    (\<forall>k. 0 \<le> lim k \<longrightarrow> int (card (live s k now)) \<le> lim k)"

definition counted :: "int \<Rightarrow> string set \<Rightarrow> 's \<times> 'l holding list \<Rightarrow> bool" where
  "counted now used st \<longleftrightarrow> within_limits now used (fst st) \<and> own_members used (snd st) \<and> all_live now (fst st) (snd st)"

lemma within_limits_shrinks:
  assumes "within_limits now used s" "inv t s1" "\<And>k. live s1 k t \<subseteq> live s k now"
  shows "within_limits t used s1"
  using assms card_mono [OF live_finite assms(3)] unfolding within_limits_def
  by (meson le_trans of_nat_mono order_trans)

lemma counted_later: "counted now used st \<Longrightarrow> now \<le> t \<Longrightarrow> counted t used st"
proof -
  assume st: "counted now used st" "now \<le> t"
  then have lims: "within_limits now used (fst st)" by (simp add: counted_def)
  then have "inv now (fst st)" by (simp add: within_limits_def)
  then have "inv t (fst st)" using st(2) by (rule inv_later)
  with lims have "within_limits t used (fst st)"
    by (rule within_limits_shrinks) (rule live_shrinks [OF st(2)])
  with st show ?thesis by (auto simp: counted_def all_live_def)
qed

lemma counted_bound:
  assumes "counted now used (s, hs)" "0 \<le> lim k" "now \<le> t"
  shows "int (card (holders_at dims hs k t)) \<le> lim k"
proof -
  let ?H = "holders_at dims hs k t"
  have c: "counted t used (s, hs)" using counted_later assms(1,3) by blast
  have own: "the (owner (hg_lease (hs ! i))) \<in> owns hs i \<inter> live s k t" if "i \<in> ?H" for i
    using c that by (fastforce simp: counted_def all_live_def holders_at_def owns_def)
  have inj: "inj_on (\<lambda>i. the (owner (hg_lease (hs ! i)))) ?H"
  proof (rule inj_onI, rule ccontr)
    fix i j assume ij: "i \<in> ?H" "j \<in> ?H" "i \<noteq> j"
      and eq: "the (owner (hg_lease (hs ! i))) = the (owner (hg_lease (hs ! j)))"
    then have "owns hs i \<inter> owns hs j = {}"
      using c by (auto simp: counted_def own_members_def holders_at_def)
    with own [OF ij(1)] own [OF ij(2)] eq show False by auto
  qed
  have "(\<lambda>i. the (owner (hg_lease (hs ! i)))) ` ?H \<subseteq> live s k t" using own by auto
  then have "card ?H \<le> card (live s k t)" using card_inj_on_le [OF inj _ live_finite] by blast
  then show ?thesis using c assms(2) by (fastforce simp: counted_def within_limits_def)
qed

lemma counted_acquire:
  assumes st: "counted now used (s, hs)" and q: "allowed m q" and m: "m \<notin> used"
  shows "counted now (insert m used) (lease_step acq refr rel life (now, f, LAcquire m q) (s, hs))"
proof -
  obtain r s1 where a: "acq now f m q s = (r, s1)" by fastforce
  have i: "inv now s" using st by (simp add: counted_def within_limits_def)
  have others: "m' \<in> live s1 k t \<longleftrightarrow> m' \<in> live s k t" if "m' \<noteq> m" "now \<le> t" for m' k t
    using acq_live [OF i a q that(2), of k] that(1) by blast
  have lims: "within_limits now (insert m used) s1"
    unfolding within_limits_def
  proof (intro conjI allI impI)
    show "inv now s1" by (rule acq_inv [OF i a q])
    show "live s1 k now \<subseteq> insert m used" for k
      using others [of _ now k] st by (fastforce simp: counted_def within_limits_def)
    show "int (card (live s1 k now)) \<le> lim k" if "0 \<le> lim k" for k
      using acq_bound [OF i a q] st that by (simp add: counted_def within_limits_def)
  qed
  have mem: "own_members (insert m used) hs" "i < length hs \<Longrightarrow> m \<notin> owns hs i" for i
    using st m by (auto simp: counted_def own_members_def)
  have old: "all_live now s1 hs"
    unfolding all_live_def
  proof (intro allI ballI impI, elim conjE)
    fix i k t assume h: "i < length hs" "k \<in> dims (hg_lease (hs ! i))" "now \<le> t" "t < hg_until (hs ! i)"
    then have "owns hs i \<inter> live s k t \<noteq> {}" using st by (auto simp: counted_def all_live_def)
    then obtain x where "x \<in> owns hs i" "x \<in> live s k t" by blast
    moreover have "x \<noteq> m" using mem(2) [OF h(1)] calculation(1) by metis
    ultimately show "owns hs i \<inter> live s1 k t \<noteq> {}" using others [of x t k] h(3) by auto
  qed
  show ?thesis
  proof (cases "\<exists>l. r = Inr (Some l)")
    case False
    with a lims mem old show ?thesis by (auto simp: counted_def split: sum.splits option.splits)
  next
    case True
    then obtain l where l: "r = Inr (Some l)" by blast
    let ?hs = "hs @ [\<lparr>hg_lease = l, hg_until = now + life\<rparr>]"
    have new: "sound l" "owner l \<in> {None, Some m}"
      "\<forall>k \<in> dims l. \<forall>t. now \<le> t \<and> t < now + life \<longrightarrow> owner l = Some m \<and> m \<in> live s1 k t"
      using acq_granted [OF i a [unfolded l] q] by auto
    have nth: "i < length hs \<Longrightarrow> owns ?hs i = owns hs i" "owns ?hs (length hs) = set_option (owner l)" for i
      by (simp_all add: owns_def nth_append)
    have "own_members (insert m used) ?hs"
      using mem new(1,2) by (auto simp: own_members_def nth nth_append less_Suc_eq)
    moreover have "all_live now s1 ?hs"
      using old new by (auto simp: all_live_def nth nth_append less_Suc_eq)
    ultimately show ?thesis using a l lims by (simp add: counted_def)
  qed
qed

text \<open>A call that touches one holding and leaves the other members as they are.\<close>

lemma counted_change:
  assumes st: "counted now used (s, hs)" and n: "n < length hs" and i: "inv now s1"
    and others: "\<And>k t. now \<le> t \<Longrightarrow> live s1 k t - owns hs n = live s k t - owns hs n"
    and shrinks: "\<And>k. live s1 k now \<subseteq> live s k now"
    and lease: "dims (hg_lease h) = dims (hg_lease (hs ! n))" "owner (hg_lease h) = owner (hg_lease (hs ! n))"
      "sound (hg_lease h) = sound (hg_lease (hs ! n))"
    and holds: "\<And>k t. k \<in> dims (hg_lease h) \<Longrightarrow> now \<le> t \<Longrightarrow> t < hg_until h \<Longrightarrow> owns hs n \<inter> live s1 k t \<noteq> {}"
  shows "counted now used (s1, hs[n := h])"
proof -
  have same: "owns (hs[n := h]) j = owns hs j" "dims (hg_lease (hs[n := h] ! j)) = dims (hg_lease (hs ! j))"
    "sound (hg_lease (hs[n := h] ! j)) = sound (hg_lease (hs ! j))" if "j < length hs" for j
    using that n lease by (cases "j = n"; simp add: owns_def)+
  have "all_live now s1 (hs[n := h])"
    unfolding all_live_def
  proof (intro allI ballI impI, elim conjE)
    fix j k t assume j: "j < length (hs[n := h])" "k \<in> dims (hg_lease (hs[n := h] ! j))"
      "now \<le> t" "t < hg_until (hs[n := h] ! j)"
    show "owns (hs[n := h]) j \<inter> live s1 k t \<noteq> {}"
    proof (cases "j = n")
      case True
      with j n holds [of k t] lease same show ?thesis by simp
    next
      case False
      then have "owns hs j \<inter> live s k t \<noteq> {}" using st j same by (simp add: counted_def all_live_def)
      moreover have "owns hs j \<inter> owns hs n = {}"
        using st j n False by (simp add: counted_def own_members_def)
      ultimately have "owns hs j \<inter> live s1 k t \<noteq> {}" using others [OF j(3), of k] by blast
      with j same show ?thesis by simp
    qed
  qed
  moreover have "own_members used (hs[n := h])"
    using st same by (simp add: counted_def own_members_def)
  moreover have "within_limits now used s1"
    using st within_limits_shrinks [OF _ i shrinks] by (simp add: counted_def)
  ultimately show ?thesis by (simp add: counted_def)
qed

lemma counted_refresh:
  assumes st: "counted now used (s, hs)"
  shows "counted now used (lease_step acq refr rel life (now, f, LRefresh n) (s, hs))"
proof (cases "n < length hs")
  case n: True
  obtain a s1 where r: "refr now f (hg_lease (hs ! n)) s = (a, s1)" by fastforce
  have i: "inv now s" "sound (hg_lease (hs ! n))"
    using st n by (auto simp: counted_def within_limits_def own_members_def)
  have eff: "live s1 k t - owns hs n = live s k t - owns hs n" "live s1 k now \<subseteq> live s k now" if "now \<le> t" for k t
    using refr_live [OF i r that] by (auto simp: owns_def)
  have keep: "counted now used (s1, hs[n := (hs ! n)])"
  proof (rule counted_change [OF st n refr_inv [OF i r] eff(1) eff(2) [OF order_refl]])
    fix k t assume "k \<in> dims (hg_lease (hs ! n))" "now \<le> t" "t < hg_until (hs ! n)"
    then have "owns hs n \<inter> live s k t \<noteq> {}" using st n by (simp add: counted_def all_live_def)
    then show "owns hs n \<inter> live s1 k t \<noteq> {}" using refr_extends [OF i r \<open>now \<le> t\<close>, of k] by blast
  qed auto
  have extend: "counted now used (s1, hs[n := (hs ! n)\<lparr>hg_until := now + life\<rparr>])" if "a = Inr True"
    using refr_granted [OF i r [unfolded that]]
    by (intro counted_change [OF st n refr_inv [OF i r] eff(1) eff(2) [OF order_refl]]) (auto simp: owns_def)
  show ?thesis using n r keep extend by (auto split: sum.splits bool.splits)
qed (use st in simp)

lemma counted_release:
  assumes st: "counted now used (s, hs)"
  shows "counted now used (lease_step acq refr rel life (now, f, LRelease n) (s, hs))"
proof (cases "n < length hs")
  case n: True
  obtain e l s1 where r: "rel now f (hg_lease (hs ! n)) s = (e, l, s1)" by (metis prod_cases3)
  have i: "inv now s" using st by (simp add: counted_def within_limits_def)
  have "counted now used (s1, hs[n := \<lparr>hg_lease = l, hg_until = now\<rparr>])"
    using rel_live [OF i r] rel_lease [OF r]
    by (intro counted_change [OF st n rel_inv [OF i r]]) (auto simp: owns_def)
  with n r show ?thesis by simp
qed (use st in simp)

text \<open>Any sequence of calls at times that do not decrease, each granting call with a member of its own.\<close>

lemma run_counted:
  assumes "counted now used st" "sorted (now # map fst ops)" "distinct (members_of ops)" "set (members_of ops) \<inter> used = {}"
    and "\<And>t f m q. (t, f, LAcquire m q) \<in> set ops \<Longrightarrow> allowed m q"
  shows "\<exists>used'. counted (last (now # map fst ops)) used' (lease_run acq refr rel life ops st)"
  using assms
proof (induction ops arbitrary: now used st)
  case (Cons c ops)
  obtain t f op where c: "c = (t, f, op)" by (cases c)
  obtain s hs where st: "st = (s, hs)" by (cases st)
  have t: "counted t used (s, hs)" using counted_later [OF Cons.prems(1)] Cons.prems(2) st c by simp
  have "\<exists>used1. counted t used1 (lease_step acq refr rel life (t, f, op) (s, hs)) \<and> set (members_of ops) \<inter> used1 = {}"
  proof (cases op)
    case (LAcquire m q)
    then have "allowed m q" "m \<notin> used" "m \<notin> set (members_of ops)" using Cons.prems(3,4,5) c by auto
    with counted_acquire [OF t, of m q f] LAcquire Cons.prems(4) c show ?thesis by auto
  next
    case (LRefresh n)
    with counted_refresh [OF t, of f n] Cons.prems(4) c show ?thesis by auto
  next
    case (LRelease n)
    with counted_release [OF t, of f n] Cons.prems(4) c show ?thesis by auto
  qed
  then obtain used1 where "counted t used1 (lease_step acq refr rel life (t, f, op) (s, hs))"
    "set (members_of ops) \<inter> used1 = {}" by blast
  moreover have "sorted (t # map fst ops)" "distinct (members_of ops)" "\<And>t f m q. (t, f, LAcquire m q) \<in> set ops \<Longrightarrow> allowed m q"
    using Cons.prems(2,3,5) c by (auto, cases op) auto
  ultimately have "\<exists>used'. counted (last (t # map fst ops)) used'
      (lease_run acq refr rel life ops (lease_step acq refr rel life (t, f, op) (s, hs)))"
    using Cons.IH by blast
  with c st show ?case by (cases ops) (auto simp: lease_run_def)
qed (auto simp: lease_run_def)

lemma leases_bounded:
  assumes "inv now s" "\<And>k. live s k now = {}" "sorted (now # map fst ops)" "distinct (members_of ops)"
    and "\<And>t f m q. (t, f, LAcquire m q) \<in> set ops \<Longrightarrow> allowed m q"
    and "lease_run acq refr rel life ops (s, []) = (s1, hs)" "last (now # map fst ops) \<le> t" "0 \<le> lim k"
  shows "int (card (holders_at dims hs k t)) \<le> lim k"
proof -
  have "counted now {} (s, [])"
    using assms(1,2) by (simp add: counted_def within_limits_def own_members_def all_live_def)
  then have "\<exists>used. counted (last (now # map fst ops)) used (lease_run acq refr rel life ops (s, []))"
    by (rule run_counted) (use assms(3-5) in auto)
  then obtain used where "counted (last (now # map fst ops)) used (s1, hs)" using assms(6) by auto
  from counted_bound [OF this assms(8,7)] show ?thesis .
qed

end

section \<open>Redis keeps the contract\<close>

definition zs_score :: "zsets \<Rightarrow> string \<Rightarrow> string \<Rightarrow> int option" where
  "zs_score db k m = (case gm_get db k of None \<Rightarrow> None | Some z \<Rightarrow> gm_get (zs_scores z) m)"

text \<open>The members of a semaphore whose score is not reached at time \<open>t\<close>.\<close>

definition zlive :: "zsets \<Rightarrow> string \<Rightarrow> int \<Rightarrow> string set" where
  "zlive db k t = {m. \<exists>sc. zs_score db k m = Some sc \<and> t < sc}"

definition zset_ok :: "int \<Rightarrow> int \<Rightarrow> zset \<Rightarrow> bool" where
  "zset_ok life now z \<longleftrightarrow> gm_ok (zs_scores z) \<and> zs_expiry z \<noteq> None \<and>
     (\<forall>m sc. gm_get (zs_scores z) m = Some sc \<longrightarrow> sc \<le> the (zs_expiry z) \<and> sc \<le> now + life)"

definition zs_inv :: "int \<Rightarrow> int \<Rightarrow> zsets \<Rightarrow> bool" where
  "zs_inv life now db \<longleftrightarrow> (\<forall>k z. gm_get db k = Some z \<longrightarrow> zset_ok life now z)"

lemma zs_inv_put: "zs_inv life now db \<Longrightarrow> zset_ok life now z \<Longrightarrow> zs_inv life now (gm_put k z db)"
  by (simp add: zs_inv_def)

lemma zs_inv_del: "zs_inv life now db \<Longrightarrow> zs_inv life now (gm_del k db)"
  by (simp add: zs_inv_def)

lemma zs_inv_empty [simp]: "zs_inv life now []"
  by (simp add: zs_inv_def)

lemma zs_inv_later: "zs_inv life now db \<Longrightarrow> now \<le> t \<Longrightarrow> zs_inv life t db"
  by (fastforce simp: zs_inv_def zset_ok_def)

lemma zs_inv_read:
  assumes "zs_inv life now db" "gm_get db k = Some z"
  shows "zs_read now k db = Some z \<or> (zs_read now k db = None \<and> (\<forall>m sc. gm_get (zs_scores z) m = Some sc \<longrightarrow> sc \<le> now))"
proof -
  from assms have "zset_ok life now z" by (simp add: zs_inv_def)
  then obtain e where "zs_expiry z = Some e" "\<forall>m sc. gm_get (zs_scores z) m = Some sc \<longrightarrow> sc \<le> e"
    by (cases "zs_expiry z") (auto simp: zset_ok_def)
  with assms(2) show ?thesis by (cases "e \<le> now") (auto simp: zs_read_def dest: order_trans)
qed

lemma zs_read_SomeD: "zs_read now k db = Some z \<Longrightarrow> gm_get db k = Some z"
  by (auto simp: zs_read_def split: option.splits if_splits)

lemma zlive_finite: "finite (zlive db k t)"
proof (cases "gm_get db k")
  case (Some z)
  then have "zlive db k t \<subseteq> fst ` set (zs_scores z)"
    by (auto simp: zlive_def zs_score_def dest!: map_of_SomeD intro: rev_image_eqI)
  then show ?thesis by (rule finite_subset) simp
qed (simp add: zlive_def zs_score_def)

lemma zlive_shrinks: "t \<le> u \<Longrightarrow> zlive db k u \<subseteq> zlive db k t"
  by (fastforce simp: zlive_def)

lemma gm_get_filter_snd:
  "gm_ok xs \<Longrightarrow> gm_get (filter (\<lambda>(m, sc). P sc) xs) m =
    (case gm_get xs m of None \<Rightarrow> None | Some sc \<Rightarrow> if P sc then Some sc else None)"
  by (induction xs) (auto simp: gm_ok_def split: option.splits dest: map_of_SomeD intro: rev_image_eqI)

lemma gm_ok_filter: "gm_ok xs \<Longrightarrow> gm_ok (filter P xs)"
  by (simp add: gm_ok_def distinct_map_filter)

text \<open>The elementary changes.\<close>

lemma zremrange_inv: "zs_inv life now db \<Longrightarrow> zs_inv life now (zremrangebyscore now k db)"
proof (cases "zs_read now k db")
  case (Some z)
  assume inv: "zs_inv life now db"
  then have "zset_ok life now z" using zs_read_SomeD [OF Some] by (simp add: zs_inv_def)
  then have "zset_ok life now (z\<lparr>zs_scores := filter (\<lambda>(m, sc). now < sc) (zs_scores z)\<rparr>)"
    by (auto simp: zset_ok_def gm_ok_filter gm_get_filter_snd split: option.splits)
  with inv Some show ?thesis
    by (simp add: zremrangebyscore_def Let_def zs_inv_put zs_inv_del)
qed (simp add: zremrangebyscore_def zs_inv_del)

lemma zremrange_score:
  assumes "zs_inv life now db"
  shows "zs_score (zremrangebyscore now k db) k' m = (if k' = k then
    (case zs_score db k m of None \<Rightarrow> None | Some sc \<Rightarrow> if now < sc then Some sc else None) else zs_score db k' m)"
proof (cases "gm_get db k")
  case None
  then show ?thesis by (simp add: zremrangebyscore_def zs_read_def zs_score_def)
next
  case (Some z)
  have ok: "gm_ok (zs_scores z)" using assms Some by (auto simp: zs_inv_def zset_ok_def)
  have empty: "filter (\<lambda>(m, sc). now < sc) (zs_scores z) = [] \<Longrightarrow>
    (case gm_get (zs_scores z) m of None \<Rightarrow> None | Some sc \<Rightarrow> if now < sc then Some sc else None) = None"
    using gm_get_filter_snd [OF ok, of "\<lambda>sc. now < sc" m] by simp
  from zs_inv_read [OF assms Some] show ?thesis
  proof
    assume "zs_read now k db = Some z"
    with Some ok empty show ?thesis
      by (auto simp: zremrangebyscore_def zs_score_def Let_def gm_get_filter_snd)
  next
    assume "zs_read now k db = None \<and> (\<forall>m sc. gm_get (zs_scores z) m = Some sc \<longrightarrow> sc \<le> now)"
    with Some show ?thesis
      by (fastforce simp: zremrangebyscore_def zs_score_def split: option.splits)
  qed
qed

lemma zremrange_live: "zs_inv life now db \<Longrightarrow> now \<le> t \<Longrightarrow> zlive (zremrangebyscore now k db) k' t = zlive db k' t"
  by (auto simp: zlive_def zremrange_score split: option.splits if_splits)

lemma zremrange_card:
  assumes "zs_inv life now db"
  shows "zcard now k (zremrangebyscore now k db) = int (card (zlive db k now))"
proof (cases "zs_read now k db")
  case None
  then have "zlive db k now = {}"
  proof (cases "gm_get db k")
    case (Some z)
    with zs_inv_read [OF assms Some] None show ?thesis by (fastforce simp: zlive_def zs_score_def)
  qed (simp add: zlive_def zs_score_def)
  with None show ?thesis by (simp add: zcard_def zremrangebyscore_def zs_read_def)
next
  case (Some z)
  then have z: "gm_get db k = Some z" "gm_ok (zs_scores z)"
    using assms zs_read_SomeD [OF Some] by (auto simp: zs_inv_def zset_ok_def)
  let ?kept = "filter (\<lambda>(m, sc). now < sc) (zs_scores z)"
  have "zlive db k now = fst ` set ?kept"
    using z by (force simp: zlive_def zs_score_def gm_mem_get [symmetric])
  moreover have "card (fst ` set ?kept) = length ?kept"
    using gm_ok_filter [OF z(2)] distinct_card [of "map fst ?kept"] by (simp add: gm_ok_def)
  moreover have "zs_read now k (gm_put k (z\<lparr>zs_scores := x\<rparr>) db) = Some (z\<lparr>zs_scores := x\<rparr>)" for x
    using Some z(1) by (auto simp: zs_read_def split: option.splits if_splits)
  ultimately show ?thesis
    using Some by (auto simp: zcard_def zremrangebyscore_def Let_def) (simp add: zs_read_def)
qed

definition touch :: "int \<Rightarrow> int \<Rightarrow> string \<Rightarrow> string \<Rightarrow> zsets \<Rightarrow> zsets" where
  "touch now ttl m k db = pexpire now k (ttl * 2) (zadd now k (now + ttl) m db)"

lemma touch_eq:
  assumes "zs_inv life now db" "0 < life"
  shows "touch now life m k db = gm_put k \<lparr>zs_scores = (case zs_read now k db of None \<Rightarrow> [(m, now + life)]
      | Some z \<Rightarrow> gm_put m (now + life) (zs_scores z)), zs_expiry = Some (now + life * 2)\<rparr> (zadd now k (now + life) m db)"
proof (cases "zs_read now k db")
  case None
  with assms(2) show ?thesis by (simp add: touch_def pexpire_def zadd_def zs_read_def)
next
  case (Some z)
  then have "zs_expiry z = None \<or> (\<exists>e. zs_expiry z = Some e \<and> now < e)"
    by (auto simp: zs_read_def split: option.splits if_splits)
  then have "zs_read now k (gm_put k (z\<lparr>zs_scores := x\<rparr>) db) = Some (z\<lparr>zs_scores := x\<rparr>)" for x
    by (auto simp: zs_read_def)
  with Some assms(2) show ?thesis
    by (cases z) (simp add: touch_def pexpire_def zadd_def)
qed

lemma touch_inv:
  assumes "zs_inv life now db" "0 < life"
  shows "zs_inv life now (touch now life m k db)"
proof -
  let ?xs = "case zs_read now k db of None \<Rightarrow> [(m, now + life)] | Some z \<Rightarrow> gm_put m (now + life) (zs_scores z)"
  have "gm_ok ?xs \<and> (\<forall>m sc. gm_get ?xs m = Some sc \<longrightarrow> sc \<le> now + life)"
  proof (cases "zs_read now k db")
    case (Some z)
    then have "zset_ok life now z" using assms(1) zs_read_SomeD [OF Some] by (simp add: zs_inv_def)
    with Some show ?thesis by (auto simp: zset_ok_def split: if_splits)
  qed (simp add: gm_ok_def)
  then have "zset_ok life now \<lparr>zs_scores = ?xs, zs_expiry = Some (now + life * 2)\<rparr>"
    using assms(2) by (fastforce simp: zset_ok_def)
  moreover have "gm_get (gm_put k z (zadd now k (now + life) m db)) = gm_get (gm_put k z db)" for z
    by (auto simp: zadd_def)
  ultimately show ?thesis
    using zs_inv_put [OF assms(1)] unfolding touch_eq [OF assms] zs_inv_def by metis
qed

lemma touch_live:
  assumes "zs_inv life now db" "0 < life" "now \<le> t"
  shows "zlive (touch now life m k db) k' t =
    (if k' = k then (zlive db k t - {m}) \<union> (if t < now + life then {m} else {}) else zlive db k' t)"
proof (cases "zs_read now k db")
  case None
  then have "zlive db k t = {}"
  proof (cases "gm_get db k")
    case (Some z)
    with zs_inv_read [OF assms(1) Some] None assms(3) show ?thesis
      by (fastforce simp: zlive_def zs_score_def)
  qed (simp add: zlive_def zs_score_def)
  with None show ?thesis
    unfolding touch_eq [OF assms(1,2)] by (auto simp: zlive_def zs_score_def zadd_def)
next
  case (Some z)
  with zs_read_SomeD [OF Some] show ?thesis
    unfolding touch_eq [OF assms(1,2)] by (auto simp: zlive_def zs_score_def zadd_def)
qed

lemma zrem_inv: "zs_inv life now db \<Longrightarrow> zs_inv life now (zrem now k m db)"
proof (cases "zs_read now k db")
  case (Some z)
  assume inv: "zs_inv life now db"
  then have "zset_ok life now z" using zs_read_SomeD [OF Some] by (simp add: zs_inv_def)
  then have "zset_ok life now (z\<lparr>zs_scores := gm_del m (zs_scores z)\<rparr>)"
    by (auto simp: zset_ok_def split: if_splits)
  with inv Some show ?thesis
    by (simp add: zrem_def Let_def zs_inv_put zs_inv_del)
qed (simp add: zrem_def)

lemma zrem_live:
  assumes "zs_inv life now db" "now \<le> t"
  shows "zlive (zrem now k m db) k' t = (if k' = k then zlive db k t - {m} else zlive db k' t)"
proof (cases "zs_read now k db")
  case None
  then have "zlive db k t = {}"
  proof (cases "gm_get db k")
    case (Some z)
    with zs_inv_read [OF assms(1) Some] None assms(2) show ?thesis
      by (fastforce simp: zlive_def zs_score_def)
  qed (simp add: zlive_def zs_score_def)
  with None show ?thesis by (simp add: zrem_def)
next
  case (Some z)
  have score: "zs_score (zrem now k m db) k' m' = (if k' = k \<and> m' = m then None else zs_score db k' m')" for m'
  proof (cases "gm_del m (zs_scores z) = []")
    case True
    then have "gm_get (zs_scores z) m' = None" if "m' \<noteq> m" using gm_get_del [of m "zs_scores z" m'] that by simp
    with True Some zs_read_SomeD [OF Some] show ?thesis by (auto simp: zrem_def zs_score_def Let_def)
  next
    case False
    with Some zs_read_SomeD [OF Some] show ?thesis by (auto simp: zrem_def zs_score_def Let_def)
  qed
  show ?thesis unfolding zlive_def score by auto
qed

text \<open>The scripts.\<close>

lemma acquire_check_effect:
  "zs_inv life now db \<Longrightarrow> acquire_check now kls db = (ok, db1) \<Longrightarrow>
    zs_inv life now db1 \<and> (\<forall>k t. now \<le> t \<longrightarrow> zlive db1 k t = zlive db k t) \<and>
    (ok \<longrightarrow> (\<forall>(k, l) \<in> set kls. 0 < l \<longrightarrow> int (card (zlive db k now)) < l))"
proof (induction now kls db rule: acquire_check.induct)
  case (2 now k limit kls db)
  note eff = zremrange_inv [OF 2(3), of k] zremrange_live [OF 2(3), of _ k] zremrange_card [OF 2(3), of k]
  show ?case
  proof (cases "0 < limit")
    case True
    show ?thesis
    proof (cases "limit \<le> zcard now k (zremrangebyscore now k db)")
      case full: True
      with True 2(4) eff show ?thesis by auto
    next
      case False
      with True 2(4) have "acquire_check now kls (zremrangebyscore now k db) = (ok, db1)" by (simp add: Let_def)
      with 2(1) [OF True refl] False eff(1) have IH: "zs_inv life now db1"
        "\<forall>k' t. now \<le> t \<longrightarrow> zlive db1 k' t = zlive (zremrangebyscore now k db) k' t"
        "ok \<longrightarrow> (\<forall>(k', l) \<in> set kls. 0 < l \<longrightarrow> int (card (zlive (zremrangebyscore now k db) k' now)) < l)" by auto
      with eff False show ?thesis by auto
    qed
  next
    case False
    with 2 show ?thesis by auto
  qed
qed auto

definition limited_of :: "(string \<times> int) list \<Rightarrow> string set" where
  "limited_of kls = {k. \<exists>l. (k, l) \<in> set kls \<and> 0 < l}"

lemma limited_of_simps [simp]:
  "limited_of [] = {}" "limited_of ((k, l) # kls) = (if 0 < l then insert k (limited_of kls) else limited_of kls)"
  by (auto simp: limited_of_def)

lemma acquire_add_effect:
  "zs_inv life now db \<Longrightarrow> 0 < life \<Longrightarrow> zs_inv life now (acquire_add now life m kls db) \<and>
    (\<forall>k t. now \<le> t \<longrightarrow> zlive (acquire_add now life m kls db) k t =
      (if k \<in> limited_of kls then (zlive db k t - {m}) \<union> (if t < now + life then {m} else {}) else zlive db k t))"
proof (induction now life m kls db rule: acquire_add.induct)
  case (2 now ttl m k limit kls db)
  show ?case
  proof (cases "0 < limit")
    case True
    note IH = 2(1) [OF True, folded touch_def, OF touch_inv [OF 2(3,4)] 2(4)]
    then show ?thesis using True touch_live [OF 2(3,4), of _ m k] by (auto simp: touch_def [symmetric])
  next
    case False
    with 2 show ?thesis by auto
  qed
qed auto

lemma refresh_check_effect:
  "zs_inv life now db \<Longrightarrow> refresh_check now m ks db = (ok, db1) \<Longrightarrow>
    zs_inv life now db1 \<and> (\<forall>k t. now \<le> t \<longrightarrow> zlive db1 k t = zlive db k t) \<and> (ok \<longrightarrow> (\<forall>k \<in> set ks. m \<in> zlive db k now))"
proof (induction now m ks db rule: refresh_check.induct)
  case (2 now m k ks db)
  let ?db = "zremrangebyscore now k db"
  note eff = zremrange_inv [OF 2(2), of k] zremrange_live [OF 2(2), of _ k]
  show ?case
  proof (cases "zscore now k m ?db = None")
    case True
    with 2(3) eff show ?thesis by auto
  next
    case False
    then have "m \<in> zlive ?db k now"
      using zremrange_score [OF 2(2), of k k m]
      by (fastforce simp: zscore_def zlive_def zs_score_def dest!: zs_read_SomeD split: option.splits if_splits)
    moreover have "refresh_check now m ks ?db = (ok, db1)" using False 2(3) by (simp add: Let_def del: not_None_eq)
    ultimately show ?thesis using 2(1) [OF refl False eff(1)] eff(2) by auto
  qed
qed auto

lemma refresh_add_effect:
  "zs_inv life now db \<Longrightarrow> 0 < life \<Longrightarrow> \<forall>k \<in> set ks. m \<in> zlive db k now \<Longrightarrow>
    zs_inv life now (refresh_add now life m ks db) \<and>
    (\<forall>k t. now \<le> t \<longrightarrow> zlive (refresh_add now life m ks db) k t =
      (if k \<in> set ks then (zlive db k t - {m}) \<union> (if t < now + life then {m} else {}) else zlive db k t))"
proof (induction now life m ks db rule: refresh_add.induct)
  case (2 now ttl m k ks db)
  then obtain z sc where z: "gm_get db k = Some z" "gm_get (zs_scores z) m = Some sc" "now < sc"
    by (auto simp: zlive_def zs_score_def split: option.splits)
  then have found: "zscore now k m db = Some sc" using zs_inv_read [OF 2(2) z(1)] by (fastforce simp: zscore_def)
  then have eq: "refresh_add now ttl m (k # ks) db = refresh_add now ttl m ks (touch now ttl m k db)"
    using found by (simp add: zadd_xx_def touch_def)
  have live: "\<forall>k' \<in> set ks. m \<in> zlive (touch now ttl m k db) k' now"
    using 2(3,4) touch_live [OF 2(2,3) order_refl, of m k] by auto
  have "zs_inv ttl now (refresh_add now ttl m ks (touch now ttl m k db)) \<and>
    (\<forall>k' t. now \<le> t \<longrightarrow> zlive (refresh_add now ttl m ks (touch now ttl m k db)) k' t =
      (if k' \<in> set ks then (zlive (touch now ttl m k db) k' t - {m}) \<union> (if t < now + ttl then {m} else {})
       else zlive (touch now ttl m k db) k' t))"
    using 2(1) touch_inv [OF 2(2,3), of m k] 2(3) live found by (simp add: zadd_xx_def touch_def)
  then show ?case unfolding eq using touch_live [OF 2(2,3), of _ m k] by auto
qed auto

lemma zrem_all_effect:
  "zs_inv life now db \<Longrightarrow> zs_inv life now (fold (\<lambda>k. zrem now k m) ks db) \<and>
    (\<forall>k t. now \<le> t \<longrightarrow> zlive (fold (\<lambda>k. zrem now k m) ks db) k t =
      (if k \<in> set ks then zlive db k t - {m} else zlive db k t))"
proof (induction ks arbitrary: db)
  case (Cons k ks)
  from Cons.IH [OF zrem_inv [OF Cons.prems, of k m]] zrem_live [OF Cons.prems, of _ k m] show ?case by auto
qed auto

section \<open>The calls\<close>

definition redis_live :: "redis_coord \<Rightarrow> string \<Rightarrow> int \<Rightarrow> string set" where
  "redis_live s k t = zlive (rk_zsets s) k t"

definition redis_inv :: "int \<Rightarrow> int \<Rightarrow> redis_coord \<Rightarrow> bool" where
  "redis_inv life now s \<longleftrightarrow> zs_inv life now (rk_zsets s)"

fun lease_dims :: "lease \<Rightarrow> string set" where
  "lease_dims NoopLease = {}"
| "lease_dims (RedisLease ks m ttl r) = set ks"

fun lease_owner :: "lease \<Rightarrow> string option" where
  "lease_owner NoopLease = None"
| "lease_owner (RedisLease ks m ttl r) = Some m"

fun lease_sound :: "duration \<Rightarrow> lease \<Rightarrow> bool" where
  "lease_sound ttl NoopLease = True"
| "lease_sound ttl (RedisLease ks m t r) = (t = ttl)"

definition request_allowed :: "string \<Rightarrow> (string \<Rightarrow> int) \<Rightarrow> string \<Rightarrow> semaphore_limit list \<Rightarrow> bool" where
  "request_allowed ns lim m limits \<longleftrightarrow> trim_space m = m \<and> (\<forall>(k, l) \<in> set (limited_keys ns limits). l = lim k)"

lemma unix_milli_mult [simp]: "unix_milli (now * millisecond) = now"
  by (simp add: unix_milli_def)

lemma limited_keys_pos: "(k, l) \<in> set (limited_keys ns limits) \<Longrightarrow> 0 < l"
  by (induction ns limits rule: limited_keys.induct) (auto simp: Let_def split: if_splits)

text \<open>What the acquiring script does to the live members; a call whose script did not run changes nothing.\<close>

lemma acquire_script_effect:
  assumes "zs_inv life now db" "0 < life" "acquire_script now life m kls db = (r, db1)"
  shows "zs_inv life now db1 \<and> (\<forall>k t. now \<le> t \<longrightarrow> zlive db1 k t - {m} = zlive db k t - {m}) \<and>
    (\<forall>k. zlive db1 k now = zlive db k now \<or> (\<exists>l. (k, l) \<in> set kls \<and> int (card (zlive db k now)) < l)) \<and>
    (r = 1 \<longrightarrow> (\<forall>(k, l) \<in> set kls. 0 < l \<longrightarrow> (\<forall>t. now \<le> t \<and> t < now + life \<longrightarrow> m \<in> zlive db1 k t)))"
proof (cases "acquire_check now kls db")
  case (Pair ok db2)
  note chk = acquire_check_effect [OF assms(1) Pair]
  show ?thesis
  proof (cases ok)
    case False
    with Pair assms(3) chk show ?thesis by (auto simp: acquire_script_def)
  next
    case True
    have add: "zs_inv life now (acquire_add now life m kls db2)"
      "now \<le> t \<Longrightarrow> zlive (acquire_add now life m kls db2) k t =
        (if k \<in> limited_of kls then (zlive db k t - {m}) \<union> (if t < now + life then {m} else {}) else zlive db k t)"
      for k t using acquire_add_effect [of life now db2 m kls] assms(2) chk by auto
    have db1: "r = 1" "db1 = acquire_add now life m kls db2" using True Pair assms(3) by (auto simp: acquire_script_def)
    show ?thesis
      unfolding db1
    proof (intro conjI allI impI)
      show "zlive (acquire_add now life m kls db2) k t - {m} = zlive db k t - {m}" if "now \<le> t" for k t
        using add(2) [OF that] by auto
      show "zlive (acquire_add now life m kls db2) k now = zlive db k now \<or>
          (\<exists>l. (k, l) \<in> set kls \<and> int (card (zlive db k now)) < l)" for k
        using add(2) [OF order_refl, of k] chk True by (cases "k \<in> limited_of kls") (auto simp: limited_of_def)
      show "\<forall>(k, l) \<in> set kls. 0 < l \<longrightarrow> (\<forall>t. now \<le> t \<and> t < now + life \<longrightarrow>
          m \<in> zlive (acquire_add now life m kls db2) k t)"
        using add(2) by (auto simp: limited_of_def)
    qed (rule add(1))
  qed
qed

lemma with_fault_state: "snd (with_fault f r s) \<in> {s, snd r}"
  by (auto simp: with_fault_def split: option.splits)

lemma with_fault_Inr: "with_fault f r s = (Inr x, s1) \<Longrightarrow> x = fst r \<and> s1 = snd r"
  by (auto simp: with_fault_def split: option.splits)

lemma coord_acquire_shape:
  assumes "coord_acquire (Some ns) now f m ttl q s = (r, s1)"
  shows "(s1 = s \<or> s1 = s\<lparr>rk_zsets := snd (acquire_script (unix_milli now) (in_milliseconds ttl) (trim_space m) (limited_keys ns q) (rk_zsets s))\<rparr>) \<and>
    (\<forall>l. r = Inr (Some l) \<longrightarrow> l = NoopLease \<or>
      (l = RedisLease (map fst (limited_keys ns q)) (trim_space m) ttl False \<and>
       acquire_script (unix_milli now) (in_milliseconds ttl) (trim_space m) (limited_keys ns q) (rk_zsets s) = (1, rk_zsets s1)))"
proof -
  obtain n z where a: "acquire_script (unix_milli now) (in_milliseconds ttl) (trim_space m) (limited_keys ns q) (rk_zsets s) = (n, z)"
    by fastforce
  obtain w s2 where w: "with_fault f (n, s\<lparr>rk_zsets := z\<rparr>) s = (w, s2)" by fastforce
  have "s2 = s \<or> s2 = s\<lparr>rk_zsets := z\<rparr>" using with_fault_state [of f "(n, s\<lparr>rk_zsets := z\<rparr>)" s] w by auto
  moreover have "w = Inr n' \<Longrightarrow> n' = n \<and> s2 = s\<lparr>rk_zsets := z\<rparr>" for n'
    using with_fault_Inr [of f "(n, s\<lparr>rk_zsets := z\<rparr>)" s n' s2] w by auto
  ultimately show ?thesis
    using assms a w by (cases w) (auto simp: coord_acquire_def Let_def split: if_splits)
qed

text \<open>The laws of the contract, for a life time of at least a millisecond.\<close>

lemma coord_acquire_laws:
  assumes inv: "redis_inv (in_milliseconds ttl) now s" and life: "0 < in_milliseconds ttl"
    and c: "coord_acquire (Some ns) (now * millisecond) f m ttl q s = (r, s1)" and q: "request_allowed ns lim m q"
  shows "redis_inv (in_milliseconds ttl) now s1"
    and "now \<le> t \<Longrightarrow> redis_live s1 k t - {m} = redis_live s k t - {m}"
    and "int (card (redis_live s k now)) \<le> lim k \<Longrightarrow> int (card (redis_live s1 k now)) \<le> lim k"
    and "r = Inr (Some l) \<Longrightarrow> lease_sound ttl l \<and> lease_owner l \<in> {None, Some m} \<and>
      (\<forall>k \<in> lease_dims l. \<forall>t. now \<le> t \<and> t < now + in_milliseconds ttl \<longrightarrow> lease_owner l = Some m \<and> m \<in> redis_live s1 k t)"
proof -
  have trim: "trim_space m = m" using q by (simp add: request_allowed_def)
  note shape = coord_acquire_shape [OF c, unfolded unix_milli_mult trim]
  obtain n z where a: "acquire_script now (in_milliseconds ttl) m (limited_keys ns q) (rk_zsets s) = (n, z)" by fastforce
  note eff = acquire_script_effect [OF inv [unfolded redis_inv_def] life a]
  have s1: "s1 = s \<or> s1 = s\<lparr>rk_zsets := z\<rparr>" using shape a by auto
  show "redis_inv (in_milliseconds ttl) now s1" using s1 eff inv by (auto simp: redis_inv_def)
  have "now \<le> t \<Longrightarrow> zlive z k t - {m} = zlive (rk_zsets s) k t - {m}" using eff by blast
  then show "now \<le> t \<Longrightarrow> redis_live s1 k t - {m} = redis_live s k t - {m}"
    using s1 by (elim disjE) (simp_all add: redis_live_def)
  show "int (card (redis_live s1 k now)) \<le> lim k" if lim: "int (card (redis_live s k now)) \<le> lim k"
  proof (cases "redis_live s1 k now = redis_live s k now")
    case False
    then have s1z: "s1 = s\<lparr>rk_zsets := z\<rparr>" using s1 by auto
    with False have "zlive z k now \<noteq> zlive (rk_zsets s) k now" by (simp add: redis_live_def)
    moreover have "\<forall>k. zlive z k now = zlive (rk_zsets s) k now \<or>
      (\<exists>l. (k, l) \<in> set (limited_keys ns q) \<and> int (card (zlive (rk_zsets s) k now)) < l)" using eff by (elim conjE)
    ultimately obtain l where l: "(k, l) \<in> set (limited_keys ns q)" "int (card (zlive (rk_zsets s) k now)) < l"
      by blast
    then have "l = lim k" using q by (auto simp: request_allowed_def)
    moreover have "card (zlive z k now) \<le> Suc (card (zlive (rk_zsets s) k now))"
    proof -
      have "\<forall>k t. now \<le> t \<longrightarrow> zlive z k t - {m} = zlive (rk_zsets s) k t - {m}" using eff by (elim conjE)
      then have "zlive z k now - {m} = zlive (rk_zsets s) k now - {m}" by simp
      then have "zlive z k now \<subseteq> insert m (zlive (rk_zsets s) k now)" by blast
      then have "card (zlive z k now) \<le> card (insert m (zlive (rk_zsets s) k now))"
        by (intro card_mono) (simp_all add: zlive_finite)
      also have "\<dots> \<le> Suc (card (zlive (rk_zsets s) k now))" by (simp add: card_insert_if zlive_finite)
      finally show ?thesis .
    qed
    ultimately show ?thesis using l(2) s1z by (simp add: redis_live_def)
  qed (use lim in simp)
  show "lease_sound ttl l \<and> lease_owner l \<in> {None, Some m} \<and>
      (\<forall>k \<in> lease_dims l. \<forall>t. now \<le> t \<and> t < now + in_milliseconds ttl \<longrightarrow> lease_owner l = Some m \<and> m \<in> redis_live s1 k t)"
    if r: "r = Inr (Some l)"
  proof (cases "l = NoopLease")
    case False
    with shape r have l: "l = RedisLease (map fst (limited_keys ns q)) m ttl False"
      "acquire_script now (in_milliseconds ttl) m (limited_keys ns q) (rk_zsets s) = (1, rk_zsets s1)" by auto
    with a have "n = 1" "z = rk_zsets s1" by auto
    with eff l(1) limited_keys_pos show ?thesis by (fastforce simp: redis_live_def)
  qed simp
qed

lemma lease_refresh_laws:
  assumes inv: "redis_inv (in_milliseconds ttl) now s" and life: "0 < in_milliseconds ttl" and snd: "lease_sound ttl l"
    and c: "lease_refresh (now * millisecond) f l s = (a, s1)"
  shows "redis_inv (in_milliseconds ttl) now s1"
    and "now \<le> t \<Longrightarrow> redis_live s1 k t - set_option (lease_owner l) = redis_live s k t - set_option (lease_owner l) \<and>
      redis_live s1 k now \<subseteq> redis_live s k now"
    and "now \<le> t \<Longrightarrow> redis_live s k t \<subseteq> redis_live s1 k t"
    and "a = Inr True \<Longrightarrow> k \<in> lease_dims l \<Longrightarrow> now \<le> t \<Longrightarrow> t < now + in_milliseconds ttl \<Longrightarrow>
      set_option (lease_owner l) \<inter> redis_live s1 k t \<noteq> {}"
proof -
  have "redis_inv (in_milliseconds ttl) now s1 \<and>
    (\<forall>k t. now \<le> t \<longrightarrow> redis_live s1 k t - set_option (lease_owner l) = redis_live s k t - set_option (lease_owner l) \<and>
      redis_live s1 k now \<subseteq> redis_live s k now \<and> redis_live s k t \<subseteq> redis_live s1 k t) \<and>
    (a = Inr True \<longrightarrow> (\<forall>k \<in> lease_dims l. \<forall>t. now \<le> t \<and> t < now + in_milliseconds ttl \<longrightarrow>
      set_option (lease_owner l) \<inter> redis_live s1 k t \<noteq> {}))"
  proof (cases "l = NoopLease \<or> lease_dims l = {}")
    case True
    with c inv show ?thesis by (cases l) (auto simp: lease_refresh_def)
  next
    case False
    then obtain ks m rel where l: "l = RedisLease ks m ttl rel" "ks \<noteq> []" using snd by (cases l) auto
    obtain ok db2 where chk: "refresh_check now m ks (rk_zsets s) = (ok, db2)" by fastforce
    note eff = refresh_check_effect [OF inv [unfolded redis_inv_def] chk]
    let ?db = "if ok then refresh_add now (in_milliseconds ttl) m ks db2 else db2"
    have script: "refresh_script now (in_milliseconds ttl) m ks (rk_zsets s) = ((if ok then 1 else 0), ?db)"
      using chk by (simp add: refresh_script_def)
    have add: "zs_inv (in_milliseconds ttl) now ?db" "now \<le> t \<Longrightarrow> zlive ?db k t =
        (if ok \<and> k \<in> set ks then (zlive (rk_zsets s) k t - {m}) \<union> (if t < now + in_milliseconds ttl then {m} else {})
         else zlive (rk_zsets s) k t)" for k t
      using refresh_add_effect [of "in_milliseconds ttl" now db2 ks m] life eff by (auto split: if_splits)
    have below: "m \<in> zlive (rk_zsets s) k t \<Longrightarrow> t < now + in_milliseconds ttl" for k t
      using inv by (fastforce simp: redis_inv_def zs_inv_def zset_ok_def zlive_def zs_score_def split: option.splits)
    obtain w s2 where w: "with_fault f ((if ok then 1 else 0::int), s\<lparr>rk_zsets := ?db\<rparr>) s = (w, s2)" by fastforce
    have s1: "s1 = s2" "a = Inr True \<Longrightarrow> w = Inr 1"
      using c l w script by (auto simp: lease_refresh_def split: sum.splits)
    have s2: "s2 = s \<or> s2 = s\<lparr>rk_zsets := ?db\<rparr>"
      using with_fault_state [of f "((if ok then 1 else 0::int), s\<lparr>rk_zsets := ?db\<rparr>)" s] w by auto
    have ran: "w = Inr 1 \<Longrightarrow> ok \<and> s2 = s\<lparr>rk_zsets := ?db\<rparr>"
      using with_fault_Inr [of f "((if ok then 1 else 0::int), s\<lparr>rk_zsets := ?db\<rparr>)" s 1 s2] w by (auto split: if_splits)
    show ?thesis
    proof (intro conjI)
      show "redis_inv (in_milliseconds ttl) now s1" using s1(1) s2 add(1) inv by (auto simp: redis_inv_def)
      show "\<forall>k t. now \<le> t \<longrightarrow> redis_live s1 k t - set_option (lease_owner l) = redis_live s k t - set_option (lease_owner l) \<and>
          redis_live s1 k now \<subseteq> redis_live s k now \<and> redis_live s k t \<subseteq> redis_live s1 k t"
        using s2 add(2) eff below l by (auto simp: s1(1) redis_live_def split: if_splits)
      show "a = Inr True \<longrightarrow> (\<forall>k \<in> lease_dims l. \<forall>t. now \<le> t \<and> t < now + in_milliseconds ttl \<longrightarrow>
          set_option (lease_owner l) \<inter> redis_live s1 k t \<noteq> {})"
        using s1 ran add(2) l by (auto simp: redis_live_def)
    qed
  qed
  then show "redis_inv (in_milliseconds ttl) now s1"
    "now \<le> t \<Longrightarrow> redis_live s1 k t - set_option (lease_owner l) = redis_live s k t - set_option (lease_owner l) \<and>
      redis_live s1 k now \<subseteq> redis_live s k now"
    "now \<le> t \<Longrightarrow> redis_live s k t \<subseteq> redis_live s1 k t"
    "a = Inr True \<Longrightarrow> k \<in> lease_dims l \<Longrightarrow> now \<le> t \<Longrightarrow> t < now + in_milliseconds ttl \<Longrightarrow>
      set_option (lease_owner l) \<inter> redis_live s1 k t \<noteq> {}"
    by blast+
qed

lemma lease_release_laws:
  assumes inv: "redis_inv life now s" and c: "lease_release (now * millisecond) f l s = (e, l1, s1)"
  shows "redis_inv life now s1"
    and "now \<le> t \<Longrightarrow> redis_live s1 k t - set_option (lease_owner l) = redis_live s k t - set_option (lease_owner l) \<and>
      redis_live s1 k t \<subseteq> redis_live s k t"
proof -
  note eff = zrem_all_effect [OF inv [unfolded redis_inv_def]]
  have "s1 = s \<or> (\<exists>ks m ttl rel ks'. l = RedisLease ks m ttl rel \<and> s1 = s\<lparr>rk_zsets := fold (\<lambda>k. zrem now k m) ks' (rk_zsets s)\<rparr>)"
    using c by (auto simp: lease_release_def split: lease.splits if_splits option.splits)
  then show "redis_inv life now s1"
    "now \<le> t \<Longrightarrow> redis_live s1 k t - set_option (lease_owner l) = redis_live s k t - set_option (lease_owner l) \<and>
      redis_live s1 k t \<subseteq> redis_live s k t"
    using inv eff by (auto simp: redis_inv_def redis_live_def split: if_splits)
qed

lemma lease_release_lease:
  "lease_release now f l s = (e, l1, s1) \<Longrightarrow>
    lease_dims l1 = lease_dims l \<and> lease_owner l1 = lease_owner l \<and> lease_sound ttl l1 = lease_sound ttl l"
  by (auto simp: lease_release_def split: lease.splits if_splits option.splits)

end
