(* ===== verification/Run_Slots.thy ===== *)
theory Run_Slots
  imports Lease_Semaphore Limiter
begin

text \<open>
  Admission of diagnosis runs (\<^verbatim>\<open>core/run_coordination.go\<close>): the slot a run holds, taken
  from the distributed semaphore or, where none is configured, from the limiter of the instance.
  \<^verbatim>\<open>s.semaphore\<close> is an interface value: \<open>None\<close> is the nil interface, \<open>Some None\<close> an
  interface that holds a nil coordinator.
\<close>

definition run_lease_ttl :: duration where "run_lease_ttl = 90 * second"

record run_slot =
  slot_lease :: "lease option"
  slot_local :: "rl_handle option"

record run_admission =
  ra_semaphore :: "string option option"
  ra_max_runs :: int
  ra_max_per_user :: int

record slot_world =
  sw_redis :: redis_coord
  sw_limiter :: run_limiter

definition err_coordination :: string where
  "err_coordination = (''Agent ''
    @ utf8 [0x5206, 0x5E03, 0x5F0F, 0x5E76, 0x53D1, 0x63A7, 0x5236, 0x4E0D, 0x53EF, 0x7528]
    @ '','' @ utf8 [0x8BF7, 0x7A0D, 0x540E, 0x518D, 0x8BD5])"

definition run_limits :: "run_admission \<Rightarrow> string \<Rightarrow> semaphore_limit list" where
  "run_limits a user =
    [\<lparr>sl_key = ''agent:run:global'', sl_limit = ra_max_runs a\<rparr>,
     \<lparr>sl_key = ''agent:run:user:'' @ user, sl_limit = ra_max_per_user a\<rparr>]"

text \<open>A slot, or none when the run is refused.\<close>

definition acquire_run_slot ::
  "run_admission \<Rightarrow> instant \<Rightarrow> call_fault \<Rightarrow> string \<Rightarrow> string \<Rightarrow> slot_world \<Rightarrow> run_slot option go_result \<times> slot_world" where
  "acquire_run_slot a now f user runID w = (case ra_semaphore a of
     Some c \<Rightarrow>
      (case coord_acquire c now f runID run_lease_ttl (run_limits a user) (sw_redis w) of
         (Inl e, s) \<Rightarrow> (Inl (ErrApp CodeInternal err_coordination 503 (Some e)), w\<lparr>sw_redis := s\<rparr>)
       | (Inr None, s) \<Rightarrow> (Inr None, w\<lparr>sw_redis := s\<rparr>)
       | (Inr (Some l), s) \<Rightarrow> (Inr (Some \<lparr>slot_lease = Some l, slot_local = None\<rparr>), w\<lparr>sw_redis := s\<rparr>))
   | None \<Rightarrow>
      (case rl_acquire user (sw_limiter w) of
         (None, l) \<Rightarrow> (Inr None, w\<lparr>sw_limiter := l\<rparr>)
       | (Some h, l) \<Rightarrow> (Inr (Some \<lparr>slot_lease = None, slot_local = Some h\<rparr>), w\<lparr>sw_limiter := l\<rparr>)))"

definition release_run_slot :: "instant \<Rightarrow> call_fault \<Rightarrow> run_slot \<Rightarrow> slot_world \<Rightarrow> go_error option \<times> run_slot \<times> slot_world" where
  "release_run_slot now f slot w = (case slot_local slot of
     Some h \<Rightarrow> (case rl_fire h (sw_limiter w) of (h1, l) \<Rightarrow> (None, slot\<lparr>slot_local := Some h1\<rparr>, w\<lparr>sw_limiter := l\<rparr>))
   | None \<Rightarrow> (case slot_lease slot of
       None \<Rightarrow> (None, slot, w)
     | Some l \<Rightarrow> (case lease_release now f l (sw_redis w) of
         (e, l1, s) \<Rightarrow> (e, slot\<lparr>slot_lease := Some l1\<rparr>, w\<lparr>sw_redis := s\<rparr>))))"

text \<open>The refresh of a heartbeat; a run without a lease goes on. \<open>Inr False\<close> and an error cancel the run.\<close>

definition refresh_run_slot :: "instant \<Rightarrow> call_fault \<Rightarrow> run_slot \<Rightarrow> slot_world \<Rightarrow> bool go_result \<times> slot_world" where
  "refresh_run_slot now f slot w = (case slot_lease slot of
     None \<Rightarrow> (Inr True, w)
   | Some l \<Rightarrow> (case lease_refresh now f l (sw_redis w) of (r, s) \<Rightarrow> (r, w\<lparr>sw_redis := s\<rparr>)))"

section \<open>The slots of a cluster of instances\<close>

definition slot_dims :: "run_slot \<Rightarrow> string set" where
  "slot_dims sl = (case slot_lease sl of None \<Rightarrow> {} | Some l \<Rightarrow> lease_dims l)"

definition slot_owner :: "run_slot \<Rightarrow> string option" where
  "slot_owner sl = Option.bind (slot_lease sl) lease_owner"

definition slot_sound :: "run_slot \<Rightarrow> bool" where
  "slot_sound sl = (slot_local sl = None \<and> (case slot_lease sl of None \<Rightarrow> True | Some l \<Rightarrow> lease_sound run_lease_ttl l))"

definition global_slots :: "string \<Rightarrow> string" where
  "global_slots ns = coord_key ns [''semaphore'', sanitize_key_part ''agent:run:global'']"

definition user_slots :: "string \<Rightarrow> string \<Rightarrow> string" where
  "user_slots ns user = coord_key ns [''semaphore'', sanitize_key_part (''agent:run:user:'' @ user)]"

definition slot_limit :: "string \<Rightarrow> run_admission \<Rightarrow> string \<Rightarrow> int" where
  "slot_limit ns a k = (if k = global_slots ns then ra_max_runs a else ra_max_per_user a)"

text \<open>Run IDs are made by the program; a request is one the program makes.\<close>

definition run_request_ok :: "string \<Rightarrow> string \<Rightarrow> bool" where
  "run_request_ok runID user \<longleftrightarrow> trim_space runID = runID"

text \<open>The calls at millisecond \<open>t\<close> of the clock, as instances with the same limits make them.\<close>

definition slot_acquire where
  "slot_acquire a t f runID user w = acquire_run_slot a (t * millisecond) f user runID w"

definition slot_refresh where
  "slot_refresh t f sl w = refresh_run_slot (t * millisecond) f sl w"

definition slot_release where
  "slot_release t f sl w = release_run_slot (t * millisecond) f sl w"

definition slots_live :: "slot_world \<Rightarrow> string \<Rightarrow> int \<Rightarrow> string set" where
  "slots_live w k t = redis_live (sw_redis w) k t"

definition slots_inv :: "int \<Rightarrow> slot_world \<Rightarrow> bool" where
  "slots_inv t w = redis_inv (in_milliseconds run_lease_ttl) t (sw_redis w)"

definition slot_run where
  "slot_run a ops st = lease_run (slot_acquire a) slot_refresh slot_release (in_milliseconds run_lease_ttl) ops st"

lemma run_lease_life [simp]: "in_milliseconds run_lease_ttl = 90000"
  by (simp add: in_milliseconds_def run_lease_ttl_def)

definition sanitize_bytes :: "string \<Rightarrow> string" where
  "sanitize_bytes v = replace_byte (CHR ''/'') (CHR ''_'') (replace_byte (CHR '':'') (CHR ''_'')
     (replace_byte (CHR '' '') (CHR ''_'') v))"

lemma sanitize_keeps:
  assumes "\<forall>u \<in> set ws_units. c \<notin> set u" "ws_head s = 0" "prefix (p @ [c]) s"
  shows "prefix (sanitize_bytes (p @ [c])) (sanitize_key_part s)"
  unfolding sanitize_key_part_def sanitize_bytes_def replace_byte_def
  by (intro map_mono_prefix trim_space_keeps assms)

lemma user_part:
  "prefix ''agent_run_user_'' (sanitize_key_part (sanitize_key_part (''agent:run:user:'' @ user)))"
proof -
  have a: "\<forall>u \<in> set ws_units. CHR '':'' \<notin> set u" "\<forall>u \<in> set ws_units. CHR ''_'' \<notin> set u"
    "\<forall>u \<in> set ws_units. hd u \<noteq> CHR ''a'' \<and> u \<noteq> []" by code_simp+
  have head: "ws_head (CHR ''a'' # s) = 0" for s
    using a(3) by (auto simp: ws_head_0 prefix_def) (metis hd_append2 list.sel(1))
  have p1: "prefix ''agent_run_user_'' (sanitize_key_part (''agent:run:user:'' @ user))"
    using sanitize_keeps [of "CHR '':''" "''agent:run:user:'' @ user" "''agent:run:user''"] a(1) head
    by (simp add: sanitize_bytes_def replace_byte_def)
  then obtain t where t: "sanitize_key_part (''agent:run:user:'' @ user) = ''agent_run_user_'' @ t"
    by (auto simp: prefix_def)
  show ?thesis
    unfolding t
    using sanitize_keeps [of "CHR ''_''" "''agent_run_user_'' @ t" "''agent_run_user''"] a(2) head
    by (simp add: sanitize_bytes_def replace_byte_def)
qed

lemma global_part: "sanitize_key_part (sanitize_key_part ''agent:run:global'') = ''agent_run_global''"
  by code_simp

lemma global_user_differ: "global_slots ns \<noteq> user_slots ns user"
proof
  have s: "sanitize_key_part ''semaphore'' = ''semaphore''" by code_simp
  have g: "global_slots ns = (''{'' @ ns @ '':coordination}:semaphore:'') @ ''agent_run_global''"
    by (simp add: global_slots_def coord_key_def s global_part)
  obtain t where t: "sanitize_key_part (sanitize_key_part (''agent:run:user:'' @ user)) = ''agent_run_user_'' @ t"
    using user_part by (auto simp: prefix_def)
  then have u: "user_slots ns user = (''{'' @ ns @ '':coordination}:semaphore:'') @ ''agent_run_user_'' @ t"
    unfolding user_slots_def coord_key_def list.map t s by simp
  assume "global_slots ns = user_slots ns user"
  then show False unfolding g u by simp
qed

definition redis_admission :: "string \<Rightarrow> int \<Rightarrow> int \<Rightarrow> run_admission" where
  "redis_admission ns g p = \<lparr>ra_semaphore = Some (Some ns), ra_max_runs = g, ra_max_per_user = p\<rparr>"

lemma run_limited_keys:
  "limited_keys ns (run_limits (redis_admission ns g p) user) =
    (if g \<le> 0 then [] else [(global_slots ns, g)]) @ (if p \<le> 0 then [] else [(user_slots ns user, p)])"
proof -
  have g: "sanitize_key_part ''agent:run:global'' \<noteq> []" by code_simp
  have s: "sanitize_key_part [] = []" by code_simp
  have u: "sanitize_key_part (''agent:run:user:'' @ user) \<noteq> []"
  proof
    assume "sanitize_key_part (''agent:run:user:'' @ user) = []"
    then show False using user_part [of user] s by simp
  qed
  show ?thesis
    using g u by (simp add: run_limits_def redis_admission_def global_slots_def user_slots_def Let_def del: append.simps(2))
qed

lemma run_request_allowed:
  "trim_space m = m \<Longrightarrow>
    request_allowed ns (slot_limit ns (redis_admission ns g p)) m (run_limits (redis_admission ns g p) user)"
  using global_user_differ [of ns user]
  unfolding request_allowed_def run_limited_keys by (auto simp: slot_limit_def redis_admission_def)

lemma acquire_run_slot_redis:
  assumes "slot_acquire (redis_admission ns g p) t f m user w = (r, w1)"
  obtains q where "coord_acquire (Some ns) (t * millisecond) f m run_lease_ttl (run_limits (redis_admission ns g p) user) (sw_redis w)
      = (q, sw_redis w1)"
    and "\<forall>sl. r = Inr (Some sl) \<longrightarrow> (\<exists>l. q = Inr (Some l) \<and> sl = \<lparr>slot_lease = Some l, slot_local = None\<rparr>)"
proof -
  obtain q s where c: "coord_acquire (Some ns) (t * millisecond) f m run_lease_ttl (run_limits (redis_admission ns g p) user)
      (sw_redis w) = (q, s)" by fastforce
  then have "sw_redis w1 = s \<and> (\<forall>sl. r = Inr (Some sl) \<longrightarrow> (\<exists>l. q = Inr (Some l) \<and> sl = \<lparr>slot_lease = Some l, slot_local = None\<rparr>))"
    using assms by (auto simp: slot_acquire_def acquire_run_slot_def redis_admission_def split: sum.splits option.splits)
  with c show ?thesis using that by blast
qed

interpretation run_slots: lease_semaphore "slot_acquire (redis_admission ns g p)" slot_refresh slot_release
  "in_milliseconds run_lease_ttl" slots_live slot_dims slot_owner slot_sound "\<lambda>m u. trim_space m = m"
  "slot_limit ns (redis_admission ns g p)" slots_inv
proof
  show "finite (slots_live s k t)" for s k t by (simp add: slots_live_def redis_live_def zlive_finite)
  show "t \<le> u \<Longrightarrow> slots_live s k u \<subseteq> slots_live s k t" for t u s k
    by (simp add: slots_live_def redis_live_def zlive_shrinks)
  show "slots_inv now s \<Longrightarrow> now \<le> t \<Longrightarrow> slots_inv t s" for now t s
    unfolding slots_inv_def redis_inv_def by (rule zs_inv_later)
next
  fix now s f m u r s1
  assume i: "slots_inv now s" and a: "slot_acquire (redis_admission ns g p) now f m u s = (r, s1)" and m: "trim_space m = m"
  obtain q where c: "coord_acquire (Some ns) (now * millisecond) f m run_lease_ttl (run_limits (redis_admission ns g p) u)
      (sw_redis s) = (q, sw_redis s1)"
    and granted: "\<And>sl. r = Inr (Some sl) \<Longrightarrow> \<exists>l. q = Inr (Some l) \<and> sl = \<lparr>slot_lease = Some l, slot_local = None\<rparr>"
    using acquire_run_slot_redis [OF a] by metis
  have life: "0 < in_milliseconds run_lease_ttl" by simp
  note laws = coord_acquire_laws [OF i [unfolded slots_inv_def] life c run_request_allowed [OF m]]
  show "slots_inv now s1" using laws(1) by (simp add: slots_inv_def)
  show "now \<le> t \<Longrightarrow> slots_live s1 k t - {m} = slots_live s k t - {m}" for t k
    using laws(2) by (simp add: slots_live_def)
  show "int (card (slots_live s k now)) \<le> slot_limit ns (redis_admission ns g p) k \<Longrightarrow>
      int (card (slots_live s1 k now)) \<le> slot_limit ns (redis_admission ns g p) k" for k
    using laws(3) by (simp add: slots_live_def)
  show "slot_sound sl \<and> slot_owner sl \<in> {None, Some m} \<and> (\<forall>k \<in> slot_dims sl. \<forall>t. now \<le> t \<and>
      t < now + in_milliseconds run_lease_ttl \<longrightarrow> slot_owner sl = Some m \<and> m \<in> slots_live s1 k t)"
    if "slot_acquire (redis_admission ns g p) now f m u s = (Inr (Some sl), s1)" for sl
  proof -
    from that a have "r = Inr (Some sl)" by simp
    with granted obtain l where "q = Inr (Some l)" "sl = \<lparr>slot_lease = Some l, slot_local = None\<rparr>" by blast
    with laws(4) [of l] show ?thesis
      by (auto simp: slot_sound_def slot_owner_def slot_dims_def slots_live_def)
  qed
next
  fix now s sl f a s1
  assume i: "slots_inv now s" and snd: "slot_sound sl" and c: "slot_refresh now f sl s = (a, s1)"
  have life: "0 < in_milliseconds run_lease_ttl" by simp
  have "slots_inv now s1 \<and>
    (\<forall>k t. now \<le> t \<longrightarrow> slots_live s1 k t - set_option (slot_owner sl) = slots_live s k t - set_option (slot_owner sl) \<and>
      slots_live s1 k now \<subseteq> slots_live s k now \<and> slots_live s k t \<subseteq> slots_live s1 k t) \<and>
    (a = Inr True \<longrightarrow> (\<forall>k \<in> slot_dims sl. \<forall>t. now \<le> t \<and> t < now + in_milliseconds run_lease_ttl \<longrightarrow>
      set_option (slot_owner sl) \<inter> slots_live s1 k t \<noteq> {}))"
  proof (cases "slot_lease sl")
    case None
    with c i show ?thesis by (simp add: slot_refresh_def refresh_run_slot_def slot_dims_def)
  next
    case (Some l)
    with snd have l: "lease_sound run_lease_ttl l" by (simp add: slot_sound_def)
    have r: "lease_refresh (now * millisecond) f l (sw_redis s) = (a, sw_redis s1)"
      using c Some by (auto simp: slot_refresh_def refresh_run_slot_def split: prod.splits)
    show ?thesis
      using lease_refresh_laws [OF i [unfolded slots_inv_def] life l r] Some
      by (auto simp: slots_inv_def slots_live_def slot_owner_def slot_dims_def)
  qed
  then show "slots_inv now s1"
    "\<And>t k. now \<le> t \<Longrightarrow> slots_live s1 k t - set_option (slot_owner sl) = slots_live s k t - set_option (slot_owner sl) \<and>
      slots_live s1 k now \<subseteq> slots_live s k now"
    "\<And>t k. now \<le> t \<Longrightarrow> slots_live s k t \<subseteq> slots_live s1 k t"
    "\<And>k t. slot_refresh now f sl s = (Inr True, s1) \<Longrightarrow> k \<in> slot_dims sl \<Longrightarrow> now \<le> t \<Longrightarrow>
      t < now + in_milliseconds run_lease_ttl \<Longrightarrow> set_option (slot_owner sl) \<inter> slots_live s1 k t \<noteq> {}"
    using c by auto
next
  fix now s sl f e sl1 s1
  assume i: "slots_inv now s" and c: "slot_release now f sl s = (e, sl1, s1)"
  have "slots_inv now s1 \<and>
    (\<forall>k t. now \<le> t \<longrightarrow> slots_live s1 k t - set_option (slot_owner sl) = slots_live s k t - set_option (slot_owner sl) \<and>
      slots_live s1 k t \<subseteq> slots_live s k t)"
  proof (cases "slot_local sl = None \<and> slot_lease sl \<noteq> None")
    case True
    then obtain l l1 where l: "slot_lease sl = Some l"
      "lease_release (now * millisecond) f l (sw_redis s) = (e, l1, sw_redis s1)"
      using c by (auto simp: slot_release_def release_run_slot_def split: prod.splits)
    from lease_release_laws [OF i [unfolded slots_inv_def] l(2)] l(1) show ?thesis
      by (auto simp: slots_inv_def slots_live_def slot_owner_def)
  next
    case False
    then have "sw_redis s1 = sw_redis s"
      using c by (auto simp: slot_release_def release_run_slot_def split: prod.splits option.splits)
    with i show ?thesis by (simp add: slots_inv_def slots_live_def)
  qed
  then show "slots_inv now s1" "\<And>t k. now \<le> t \<Longrightarrow>
      slots_live s1 k t - set_option (slot_owner sl) = slots_live s k t - set_option (slot_owner sl) \<and>
      slots_live s1 k t \<subseteq> slots_live s k t" by auto
next
  fix now f sl s e sl1 s1
  assume c: "slot_release now f sl s = (e, sl1, s1)"
  show "slot_dims sl1 = slot_dims sl \<and> slot_owner sl1 = slot_owner sl \<and> slot_sound sl1 = slot_sound sl"
  proof (cases "slot_local sl = None \<and> slot_lease sl \<noteq> None")
    case True
    then obtain l l1 where l: "slot_lease sl = Some l" "sl1 = sl\<lparr>slot_lease := Some l1\<rparr>"
      "lease_release (now * millisecond) f l (sw_redis s) = (e, l1, sw_redis s1)"
      using c by (auto simp: slot_release_def release_run_slot_def split: prod.splits)
    from lease_release_lease [OF l(3), of run_lease_ttl] l(1,2) show ?thesis
      by (simp add: slot_dims_def slot_owner_def slot_sound_def)
  next
    case False
    then show ?thesis using c
      by (auto simp: slot_release_def release_run_slot_def slot_dims_def slot_owner_def slot_sound_def
          split: prod.splits option.splits)
  qed
qed

section \<open>Properties\<close>

text \<open>A granted slot counts for all runs and for the runs of its user, where these are limited.\<close>

lemma granted_slot_dims:
  assumes "slot_acquire (redis_admission ns g p) t f m user w = (Inr (Some sl), w1)"
  shows "slot_dims sl = (if g \<le> 0 then {} else {global_slots ns}) \<union> (if p \<le> 0 then {} else {user_slots ns user})"
proof -
  obtain q l where c: "coord_acquire (Some ns) (t * millisecond) f m run_lease_ttl (run_limits (redis_admission ns g p) user)
      (sw_redis w) = (Inr (Some l), sw_redis w1)" "sl = \<lparr>slot_lease = Some l, slot_local = None\<rparr>"
    by (rule acquire_run_slot_redis [OF assms]) blast
  have "l = NoopLease \<longrightarrow> limited_keys ns (run_limits (redis_admission ns g p) user) = []"
    using c(1) by (auto simp: coord_acquire_def Let_def split: if_splits prod.splits sum.splits)
  moreover have "l = NoopLease \<or> lease_dims l = set (map fst (limited_keys ns (run_limits (redis_admission ns g p) user)))"
    using coord_acquire_shape [OF c(1)] by (auto simp del: set_map)
  ultimately show ?thesis using c(2) by (cases l) (auto simp: slot_dims_def run_limited_keys split: if_splits)
qed

text \<open>
  C24: The limits on concurrent runs hold across instances. Let any number of instances that share a
  Redis and the same limits acquire, refresh and release slots for distinct runs, at times that do not
  decrease, with any of their calls failing before or after its script ran. At no later time do more runs
  count on a live lease than the limit for all runs, or more runs of one user than the limit per
  user, where these limits are positive.
\<close>

theorem runs_bounded_across_instances:
  assumes "slot_run (redis_admission ns g p) ops (w, []) = (w1, hs)" and "rk_zsets (sw_redis w) = []"
    and "sorted (map fst ops)" "\<forall>c \<in> set ops. fst c \<le> t"
    and "distinct (members_of ops)" "\<forall>m \<in> set (members_of ops). trim_space m = m"
  shows "(0 < g \<longrightarrow> int (card (holders_at slot_dims hs (global_slots ns) t)) \<le> g) \<and>
    (0 < p \<longrightarrow> int (card (holders_at slot_dims hs (user_slots ns user) t)) \<le> p)"
proof -
  define now where "now = (if ops = [] then t else fst (hd ops))"
  have inv: "slots_inv now w" using assms(2) by (simp add: slots_inv_def redis_inv_def)
  have empty: "slots_live w k now = {}" for k
    using assms(2) by (simp add: slots_live_def redis_live_def zlive_def zs_score_def)
  have sorted: "sorted (now # map fst ops)" using assms(3) by (cases ops) (auto simp: now_def)
  have ok: "trim_space m = m" if "(t', f, LAcquire m q) \<in> set ops" for t' f m q
  proof -
    have "m \<in> set (members_of ops)" using that by (induction ops rule: members_of.induct) auto
    with assms(6) show ?thesis by blast
  qed
  have last: "last (now # map fst ops) \<le> t"
    using assms(4) by (cases ops rule: rev_cases) (auto simp: now_def)
  have bound: "int (card (holders_at slot_dims hs k t)) \<le> slot_limit ns (redis_admission ns g p) k"
    if "0 \<le> slot_limit ns (redis_admission ns g p) k" for k
    using ok by (rule run_slots.leases_bounded [OF inv empty sorted assms(5) _ assms(1) [unfolded slot_run_def] last that])
  show ?thesis
    using bound [of "global_slots ns"] bound [of "user_slots ns user"] global_user_differ [of ns user]
    by (auto simp: slot_limit_def redis_admission_def)
qed

definition empty_slots :: slot_world where
  "empty_slots = \<lparr>sw_redis = \<lparr>rk_zsets = [], rk_signals = [], rk_subs = [], rk_inbox = []\<rparr>, sw_limiter = new_run_limiter 0 0\<rparr>"

definition sample_slot_ops :: "(int \<times> call_fault \<times> string lease_op) list" where
  "sample_slot_ops =
    [(0, None, LAcquire ''r1'' ''ann''), (10, None, LAcquire ''r2'' ''ann''), (20, Some (1, ErrDeadlineExceeded), LAcquire ''r3'' ''bob''),
     (80000, None, LRefresh 0), (95000, None, LAcquire ''r4'' ''ann''), (95001, None, LAcquire ''r5'' ''bob''),
     (96000, None, LRelease 0), (97000, None, LAcquire ''r6'' ''ann'')]"

lemma sample_slot_run:
  "map hg_until (snd (slot_run (redis_admission ''kf'' 2 1) sample_slot_ops (empty_slots, []))) = [96000, 185001, 187000]"
  by code_simp

theorem runs_bounded_across_instances_witness:
  "int (card (holders_at slot_dims (snd (slot_run (redis_admission ''kf'' 2 1) sample_slot_ops (empty_slots, [])))
    (global_slots ''kf'') 100000)) \<le> 2"
proof -
  obtain w hs where r: "slot_run (redis_admission ''kf'' 2 1) sample_slot_ops (empty_slots, []) = (w, hs)" by fastforce
  have "rk_zsets (sw_redis empty_slots) = []" "sorted (map fst sample_slot_ops)" "\<forall>c \<in> set sample_slot_ops. fst c \<le> 100000"
    "distinct (members_of sample_slot_ops)" "\<forall>m \<in> set (members_of sample_slot_ops). trim_space m = m"
    by code_simp+
  from runs_bounded_across_instances [OF r this] show ?thesis using r by simp
qed

text \<open>
  Without Redis the program's semaphore is an interface that holds a nil coordinator
  (\<^verbatim>\<open>bootstrap.go\<close> passes the result of \<^verbatim>\<open>NewRedisCoordinator\<close> as it is), so that the
  test for a nil semaphore fails, the limiter of the instance is never asked, and no run is refused.
\<close>

definition program_admission :: "bool \<Rightarrow> string \<Rightarrow> int \<Rightarrow> int \<Rightarrow> run_admission" where
  "program_admission redis name g p =
    \<lparr>ra_semaphore = Some (new_redis_coordinator redis name), ra_max_runs = g, ra_max_per_user = p\<rparr>"

lemma no_redis_no_limit:
  "acquire_run_slot (program_admission False name g p) now f user runID w =
    (Inr (Some \<lparr>slot_lease = Some NoopLease, slot_local = None\<rparr>), w)"
  by (simp add: acquire_run_slot_def program_admission_def new_redis_coordinator_def coord_acquire_def)

text \<open>The limiter, in contrast, would refuse: a second run of a user with one slot.\<close>

lemma nil_semaphore_limits:
  "fst (acquire_run_slot \<lparr>ra_semaphore = None, ra_max_runs = 2, ra_max_per_user = 1\<rparr> 0 None ''ann'' ''r2''
    (snd (acquire_run_slot \<lparr>ra_semaphore = None, ra_max_runs = 2, ra_max_per_user = 1\<rparr> 0 None ''ann'' ''r1''
      (empty_slots\<lparr>sw_limiter := new_run_limiter 1 2\<rparr>)))) = Inr None"
  by code_simp

end
