(* ===== verification/Run_Store.thy ===== *)
theory Run_Store
  imports Sql_Tables Mcp_Manager Complex_Main
begin

text \<open>
  Diagnosis runs, their tool calls and their evidence in PostgreSQL
  (\<^verbatim>\<open>agent/infrastructure/postgres/agent_repository.go\<close>, \<^verbatim>\<open>agent/domain/run.go\<close>).
  One SQL statement is one step: an \<^verbatim>\<open>UpdateRun\<close>, which reads a row and then saves it, is two, so
  that the operations of several instances interleave between them. \<open>f n\<close> is the failure of
  the \<open>n\<close>-th statement of an operation. No operation deletes these rows. A JSON column keeps the text it is given.
\<close>

abbreviation "RUN_STATUS_PENDING \<equiv> ''pending''"
abbreviation "RUN_STATUS_RUNNING \<equiv> ''running''"
abbreviation "RUN_STATUS_COMPLETED \<equiv> ''completed''"
abbreviation "RUN_STATUS_FAILED \<equiv> ''failed''"
abbreviation "RUN_STATUS_CANCELLED \<equiv> ''cancelled''"

record agent_run =
  ar_id :: string
  ar_agent_type :: string
  ar_user_id :: string
  ar_cluster_id :: string
  ar_input :: string
  ar_scope :: agent_scope
  ar_status :: string
  ar_confidence :: rat
  ar_route_reason :: string
  ar_route_source :: string
  ar_summary :: string
  ar_error_message :: string
  ar_heartbeat_at :: "instant option"
  ar_lease_owner :: string
  ar_lease_expires :: "instant option"
  ar_created_at :: instant
  ar_completed_at :: "instant option"

record tool_call_row =
  tcr_id :: string
  tcr_run_id :: string
  tcr_agent_type :: string
  tcr_tool_id :: string
  tcr_input :: string
  tcr_output_summary :: string
  tcr_status :: string
  tcr_error_message :: string
  tcr_started_at :: instant
  tcr_completed_at :: "instant option"

record evidence_row = evidence +
  er_api_version :: string
  er_resource_kind :: string
  er_namespace :: string
  er_name :: string
  er_resource_version :: string
  er_raw_json :: string
  er_hash :: string
  er_redacted :: bool

record run_tables =
  rt_runs :: "(string, agent_run) gmap"
  rt_calls :: "(string, tool_call_row) gmap"
  rt_evidence :: "(string, evidence_row) gmap"

definition from_domain_call :: "tool_call_row \<Rightarrow> tool_call_row" where
  "from_domain_call c = c\<lparr>tcr_input := new_jsonb (if tcr_input c = [] then ''{}'' else tcr_input c)\<rparr>"

definition from_domain_evidence :: "evidence_row \<Rightarrow> evidence_row" where
  "from_domain_evidence e = e\<lparr>er_raw_json := new_jsonb (if er_raw_json e = [] then ''{}'' else er_raw_json e)\<rparr>"

section \<open>Runs\<close>

definition is_terminal_run_status :: "string \<Rightarrow> bool" where
  "is_terminal_run_status st \<longleftrightarrow> st = RUN_STATUS_COMPLETED \<or> st = RUN_STATUS_FAILED \<or> st = RUN_STATUS_CANCELLED"

definition create_run :: "(nat \<Rightarrow> go_error option) \<Rightarrow> agent_run \<Rightarrow> run_tables \<Rightarrow> agent_run go_result \<times> run_tables" where
  "create_run f r t = (case stmt (f 0) (insert_row (ar_id r) r (rt_runs t)) of
     Inl e \<Rightarrow> (Inl e, t)
   | Inr rows \<Rightarrow> (Inr r, t\<lparr>rt_runs := rows\<rparr>))"

text \<open>
  \<^verbatim>\<open>UpdateRun\<close>: what its first statement leads to, a finished call or the record it is going
  to save, and the second statement.
\<close>

datatype update_plan = UpdateDone "agent_run go_result" | UpdateSave agent_run

definition merge_run :: "agent_run \<Rightarrow> agent_run \<Rightarrow> agent_run" where
  "merge_run rec r = rec\<lparr>ar_status := ar_status r, ar_confidence := ar_confidence r, ar_route_reason := ar_route_reason r,
     ar_route_source := ar_route_source r, ar_summary := ar_summary r, ar_error_message := ar_error_message r,
     ar_heartbeat_at := ar_heartbeat_at r, ar_lease_owner := ar_lease_owner r, ar_lease_expires := ar_lease_expires r,
     ar_completed_at := ar_completed_at r, ar_scope := ar_scope r\<rparr>"

definition update_read :: "go_error option \<Rightarrow> agent_run \<Rightarrow> run_tables \<Rightarrow> update_plan" where
  "update_read f r t = (case stmt f (first_row (ar_id r) (\<lambda>_. True) (rt_runs t)) of
     Inl e \<Rightarrow> UpdateDone (Inl e)
   | Inr rec \<Rightarrow>
       if is_terminal_run_status (ar_status rec) \<and> ar_status rec \<noteq> ar_status r then UpdateDone (Inr rec)
       else UpdateSave (merge_run rec r))"

definition update_save :: "go_error option \<Rightarrow> agent_run \<Rightarrow> run_tables \<Rightarrow> agent_run go_result \<times> run_tables" where
  "update_save f rec t = (case f of
     Some e \<Rightarrow> (Inl e, t)
   | None \<Rightarrow> (Inr rec, t\<lparr>rt_runs := gm_put (ar_id rec) rec (rt_runs t)\<rparr>))"

definition update_run :: "(nat \<Rightarrow> go_error option) \<Rightarrow> agent_run \<Rightarrow> run_tables \<Rightarrow> agent_run go_result \<times> run_tables" where
  "update_run f r t = (case update_read (f 0) r t of
     UpdateDone res \<Rightarrow> (res, t)
   | UpdateSave rec \<Rightarrow> update_save (f 1) rec t)"

definition unfinished :: "agent_run \<Rightarrow> bool" where
  "unfinished r \<longleftrightarrow> ar_status r = RUN_STATUS_PENDING \<or> ar_status r = RUN_STATUS_RUNNING"

definition heartbeat_run ::
  "(nat \<Rightarrow> go_error option) \<Rightarrow> string \<Rightarrow> string \<Rightarrow> instant \<Rightarrow> instant \<Rightarrow> run_tables \<Rightarrow> go_error option \<times> run_tables" where
  "heartbeat_run f runID owner hb expires t = (case f 0 of
     Some e \<Rightarrow> (Some e, t)
   | None \<Rightarrow> (None, t\<lparr>rt_runs := update_where (\<lambda>k r. k = runID \<and> unfinished r)
       (\<lambda>r. r\<lparr>ar_heartbeat_at := Some hb, ar_lease_owner := owner, ar_lease_expires := Some expires\<rparr>) (rt_runs t)\<rparr>))"

definition get_run :: "go_error option \<Rightarrow> string \<Rightarrow> run_tables \<Rightarrow> agent_run go_result" where
  "get_run f runID t = stmt f (first_row runID (\<lambda>_. True) (rt_runs t))"

text \<open>\<^verbatim>\<open>COALESCE(lease_expires_at, heartbeat_at, created_at)\<close>.\<close>

definition last_sign :: "agent_run \<Rightarrow> instant" where
  "last_sign r = (case ar_lease_expires r of Some e \<Rightarrow> e
     | None \<Rightarrow> (case ar_heartbeat_at r of Some h \<Rightarrow> h | None \<Rightarrow> ar_created_at r))"

definition fail_stale_runs ::
  "(nat \<Rightarrow> go_error option) \<Rightarrow> instant \<Rightarrow> instant \<Rightarrow> string \<Rightarrow> run_tables \<Rightarrow> nat go_result \<times> run_tables" where
  "fail_stale_runs f now before msg t = (case f 0 of
     Some e \<Rightarrow> (Inl e, t)
   | None \<Rightarrow> (Inr (rows_where (\<lambda>k r. unfinished r \<and> last_sign r < before) (rt_runs t)),
       t\<lparr>rt_runs := update_where (\<lambda>k r. unfinished r \<and> last_sign r < before)
         (\<lambda>r. r\<lparr>ar_status := RUN_STATUS_FAILED, ar_error_message := msg, ar_completed_at := Some now\<rparr>) (rt_runs t)\<rparr>))"

section \<open>Tool calls and evidence\<close>

definition create_tool_call :: "(nat \<Rightarrow> go_error option) \<Rightarrow> tool_call_row \<Rightarrow> run_tables \<Rightarrow> tool_call_row go_result \<times> run_tables" where
  "create_tool_call f c t = (let rec = from_domain_call c in
     case stmt (f 0) (insert_row (tcr_id rec) rec (rt_calls t)) of
       Inl e \<Rightarrow> (Inl e, t)
     | Inr rows \<Rightarrow> (Inr rec, t\<lparr>rt_calls := rows\<rparr>))"

definition merge_call :: "tool_call_row \<Rightarrow> tool_call_row \<Rightarrow> tool_call_row" where
  "merge_call rec c = rec\<lparr>tcr_output_summary := tcr_output_summary c, tcr_status := tcr_status c,
     tcr_error_message := tcr_error_message c, tcr_completed_at := tcr_completed_at c,
     tcr_input := (if tcr_input c \<noteq> [] then new_jsonb (tcr_input c) else tcr_input rec)\<rparr>"

definition update_tool_call :: "(nat \<Rightarrow> go_error option) \<Rightarrow> tool_call_row \<Rightarrow> run_tables \<Rightarrow> tool_call_row go_result \<times> run_tables" where
  "update_tool_call f c t = (case stmt (f 0) (first_row (tcr_id c) (\<lambda>_. True) (rt_calls t)) of
     Inl e \<Rightarrow> (Inl e, t)
   | Inr old \<Rightarrow> (let rec = merge_call old c in case f 1 of
       Some e \<Rightarrow> (Inl e, t)
     | None \<Rightarrow> (Inr rec, t\<lparr>rt_calls := gm_put (tcr_id rec) rec (rt_calls t)\<rparr>)))"

text \<open>The loop that creates the evidence rows of a transaction; \<open>n\<close> numbers the statements.\<close>

fun insert_evidence ::
  "(nat \<Rightarrow> go_error option) \<Rightarrow> nat \<Rightarrow> evidence_row list \<Rightarrow> evidence_row list \<times> run_tables
    \<Rightarrow> go_error + evidence_row list \<times> run_tables" where
  "insert_evidence f n [] (saved, t) = Inr (saved, t)"
| "insert_evidence f n (e # es) (saved, t) =
     (let rec = from_domain_evidence e in
      after_stmt (stmt (f n) (insert_row (ev_id rec) rec (rt_evidence t)))
        (\<lambda>rows. insert_evidence f (Suc n) es (saved @ [rec], t\<lparr>rt_evidence := rows\<rparr>)))"

definition complete_tool_call_with_evidence ::
  "(nat \<Rightarrow> go_error option) \<Rightarrow> tool_call_row \<Rightarrow> evidence_row list \<Rightarrow> run_tables
    \<Rightarrow> (tool_call_row \<times> evidence_row list) go_result \<times> run_tables" where
  "complete_tool_call_with_evidence f c es t =
    (case after_stmt (stmt (f 0) (first_row (tcr_id c) (\<lambda>_. True) (rt_calls t))) (\<lambda>old.
       (let rec = merge_call old c in
        after_stmt (stmt (f 1) (Inr (t\<lparr>rt_calls := gm_put (tcr_id rec) rec (rt_calls t)\<rparr>))) (\<lambda>t1.
          after_stmt (insert_evidence f 2 es ([], t1)) (\<lambda>(saved, t2).
            stmt (f (2 + length es)) (Inr (rec, saved, t2)))))) of
       Inl e \<Rightarrow> (Inl e, t)
     | Inr (rec, saved, t2) \<Rightarrow> (Inr (rec, saved), t2))"

definition create_evidence :: "(nat \<Rightarrow> go_error option) \<Rightarrow> evidence_row \<Rightarrow> run_tables \<Rightarrow> evidence_row go_result \<times> run_tables" where
  "create_evidence f e t = (let rec = from_domain_evidence e in
     case stmt (f 0) (insert_row (ev_id rec) rec (rt_evidence t)) of
       Inl err \<Rightarrow> (Inl err, t)
     | Inr rows \<Rightarrow> (Inr rec, t\<lparr>rt_evidence := rows\<rparr>))"

definition list_tool_calls :: "go_error option \<Rightarrow> string \<Rightarrow> run_tables \<Rightarrow> tool_call_row list go_result" where
  "list_tool_calls f runID t = stmt f (Inr (sort_key tcr_started_at
     (filter (\<lambda>c. tcr_run_id c = runID) (map snd (rt_calls t)))))"

definition list_evidence :: "go_error option \<Rightarrow> string \<Rightarrow> run_tables \<Rightarrow> evidence_row list go_result" where
  "list_evidence f runID t = stmt f (Inr (sort_key ev_collected_at
     (filter (\<lambda>e. ev_run_id e = runID) (map snd (rt_evidence t)))))"

text \<open>
  \<^verbatim>\<open>completeToolCallWithEvidence\<close> of the service: where the transaction fails, the call and each
  item of evidence are written on their own; a write that fails leaves its argument.
\<close>

fun create_evidences :: "(nat \<Rightarrow> go_error option) \<Rightarrow> nat \<Rightarrow> evidence_row list \<Rightarrow> run_tables \<Rightarrow> evidence_row list \<times> run_tables" where
  "create_evidences f n [] t = ([], t)"
| "create_evidences f n (e # es) t =
     (case create_evidence (\<lambda>_. f n) e t of (r, t1) \<Rightarrow>
        (case create_evidences f (Suc n) es t1 of (rs, t2) \<Rightarrow>
           ((case r of Inl _ \<Rightarrow> e | Inr e1 \<Rightarrow> e1) # rs, t2)))"

definition save_call_with_evidence ::
  "(nat \<Rightarrow> go_error option) \<Rightarrow> (nat \<Rightarrow> go_error option) \<Rightarrow> tool_call_row \<Rightarrow> evidence_row list \<Rightarrow> run_tables
    \<Rightarrow> (tool_call_row \<times> evidence_row list) \<times> run_tables" where
  "save_call_with_evidence f f2 c es t = (case complete_tool_call_with_evidence f c es t of
     (Inr saved, t1) \<Rightarrow> (saved, t1)
   | (Inl _, t1) \<Rightarrow> (case update_tool_call f2 c t1 of (r, t2) \<Rightarrow>
       (case create_evidences f2 2 es t2 of (saved, t3) \<Rightarrow>
         ((case r of Inl _ \<Rightarrow> c | Inr c1 \<Rightarrow> c1, saved), t3))))"

text \<open>\<^verbatim>\<open>WithRawJSON\<close>: evidence whose raw JSON is too large keeps a digest; SHA-256 in hex is a parameter.\<close>

definition with_raw_json :: "(string \<Rightarrow> string) \<Rightarrow> instant \<Rightarrow> string \<Rightarrow> evidence_row \<Rightarrow> evidence_row" where
  "with_raw_json sha now raw0 e =
    (let raw = (if length raw0 > 65536 then
         ''{'' @ [CHR 0x22] @ ''original_sha'' @ [CHR 0x22] @ '':'' @ [CHR 0x22] @ sha raw0 @ [CHR 0x22] @ '','' @
         [CHR 0x22] @ ''original_size'' @ [CHR 0x22] @ '':'' @ itoa (int (length raw0)) @ '','' @
         [CHR 0x22] @ ''truncated'' @ [CHR 0x22] @ '':true}'' else raw0)
     in e\<lparr>er_raw_json := raw, er_hash := sha raw, ev_collected_at := now\<rparr>)"

end
