(* ===== verification/Guarded_Rows.thy ===== *)
theory Guarded_Rows
  imports Kf_Prelude
begin

text \<open>
  The pattern by which runs and chat messages are updated: an operation reads a row, decides
  on what it is going to save, and saves it in a second statement, while the statements of other
  operations, of this and of other instances, come in between. A state is the tables and the
  saves in flight. The guard of both repositories, that a row in a final status is not given another one, is looked at
  when the row is read.
\<close>

text \<open>
  \<open>read u s\<close> is what an update with argument \<open>u\<close> is going to save, if anything; \<open>other\<close> are
  the remaining statements, one each.
\<close>

inductive row_step ::
  "('u \<Rightarrow> 's \<Rightarrow> 'r option) \<Rightarrow> ('r \<Rightarrow> 's \<Rightarrow> 's) \<Rightarrow> ('s \<Rightarrow> 's \<Rightarrow> bool) \<Rightarrow> 's \<times> 'r list \<Rightarrow> 's \<times> 'r list \<Rightarrow> bool"
  for read :: "'u \<Rightarrow> 's \<Rightarrow> 'r option" and save :: "'r \<Rightarrow> 's \<Rightarrow> 's" and other :: "'s \<Rightarrow> 's \<Rightarrow> bool" where
  plan_save: "read u s = Some r \<Longrightarrow> row_step read save other (s, ps) (s, r # ps)"
| do_save: "r \<in> set ps \<Longrightarrow> row_step read save other (s, ps) (save r s, remove1 r ps)"
| drop_save: "r \<in> set ps \<Longrightarrow> row_step read save other (s, ps) (s, remove1 r ps)"
| other_step: "other s s' \<Longrightarrow> row_step read save other (s, ps) (s', ps)"

inductive_cases row_stepE: "row_step read save other (s, ps) (s', ps')"

inductive row_steps ::
  "('u \<Rightarrow> 's \<Rightarrow> 'r option) \<Rightarrow> ('r \<Rightarrow> 's \<Rightarrow> 's) \<Rightarrow> ('s \<Rightarrow> 's \<Rightarrow> bool) \<Rightarrow> 's \<times> 'r list \<Rightarrow> 's \<times> 'r list \<Rightarrow> bool"
  for read :: "'u \<Rightarrow> 's \<Rightarrow> 'r option" and save :: "'r \<Rightarrow> 's \<Rightarrow> 's" and other :: "'s \<Rightarrow> 's \<Rightarrow> bool" where
  no_step: "row_steps read save other c c"
| more_steps: "row_step read save other c d \<Longrightarrow> row_steps read save other d e \<Longrightarrow> row_steps read save other c e"

lemma row_steps_invariant:
  assumes "row_steps read save other c d" and "I c"
    and "\<And>c d. row_step read save other c d \<Longrightarrow> I c \<Longrightarrow> I d"
  shows "I d"
  using assms(1,2) by (induction rule: row_steps.induct) (auto intro: assms(3))

lemma row_steps_trans: "row_steps read save other c d \<Longrightarrow> row_steps read save other d e \<Longrightarrow> row_steps read save other c e"
  by (induction rule: row_steps.induct) (auto intro: row_steps.intros)

lemma row_steps_one: "row_step read save other c d \<Longrightarrow> row_steps read save other c d"
  by (auto intro: row_steps.intros)

section \<open>The guard on final states\<close>

locale guarded_rows =
  fixes row :: "'s \<Rightarrow> 'k \<Rightarrow> 'r option"
    and key :: "'r \<Rightarrow> 'k"
    and status :: "'r \<Rightarrow> string"
    and final :: "string \<Rightarrow> bool"
    and read :: "'u \<Rightarrow> 's \<Rightarrow> 'r option"
    and save :: "'r \<Rightarrow> 's \<Rightarrow> 's"
    and other :: "'s \<Rightarrow> 's \<Rightarrow> bool"
    and ok :: "'s \<Rightarrow> bool"
  assumes read_guard: "ok s \<Longrightarrow> read u s = Some r \<Longrightarrow> row s (key r) = Some old \<Longrightarrow> final (status old) \<Longrightarrow> status r = status old"
    and read_row: "ok s \<Longrightarrow> read u s = Some r \<Longrightarrow> row s (key r) \<noteq> None"
    and row_save: "row (save r s) k = (if k = key r then Some r else row s k)"
    and ok_save: "ok s \<Longrightarrow> ok (save r s)"
    and other_keeps: "ok s \<Longrightarrow> other s s' \<Longrightarrow> row s k = Some old \<Longrightarrow> final (status old) \<Longrightarrow> \<exists>new. row s' k = Some new \<and> status new = status old"
    and ok_other: "ok s \<Longrightarrow> other s s' \<Longrightarrow> ok s'"
begin

text \<open>A row is settled when it is in a final status that no save in flight is going to change.\<close>

definition settled :: "'k \<Rightarrow> string \<Rightarrow> 's \<times> 'r list \<Rightarrow> bool" where
  "settled k st c \<longleftrightarrow> ok (fst c) \<and> final st \<and> (\<exists>r. row (fst c) k = Some r \<and> status r = st)
     \<and> (\<forall>r \<in> set (snd c). key r = k \<longrightarrow> status r = st)"

lemma settled_step: "row_step read save other c d \<Longrightarrow> settled k st c \<Longrightarrow> settled k st d"
proof (induction rule: row_step.induct)
  case (plan_save u s r ps)
  then show ?case
    using read_guard [OF _ plan_save(1)] by (auto simp: settled_def)
next
  case (do_save r ps s)
  then show ?case
    by (auto simp: settled_def row_save intro: ok_save dest: notin_set_remove1)
next
  case (drop_save r ps s)
  then show ?case
    by (auto simp: settled_def dest: notin_set_remove1)
next
  case (other_step s s' ps)
  then have "ok s" and "final st" and pend: "\<forall>r \<in> set ps. key r = k \<longrightarrow> status r = st"
    by (simp_all add: settled_def)
  from other_step(2) obtain r where "row s k = Some r" and "status r = st"
    by (auto simp: settled_def)
  with \<open>ok s\<close> \<open>final st\<close> obtain new where "row s' k = Some new" and "status new = st"
    using other_keeps [OF _ other_step(1)] by metis
  with \<open>ok s\<close> \<open>final st\<close> pend show ?case
    by (simp add: settled_def ok_other [OF _ other_step(1)])
qed

lemma settled_stays: "row_steps read save other c d \<Longrightarrow> settled k st c \<Longrightarrow> settled k st d"
  by (rule row_steps_invariant) (auto intro: settled_step)

lemma final_status_stays:
  assumes "row_steps read save other (s, ps) (s', ps')" and "ok s"
    and "row s k = Some r" and "final (status r)" and "\<forall>p \<in> set ps. key p = k \<longrightarrow> status p = status r"
  shows "\<exists>r'. row s' k = Some r' \<and> status r' = status r"
  using settled_stays [OF assms(1), of k "status r"] assms(2-5) by (auto simp: settled_def)

text \<open>A save planned before the row became final overwrites it.\<close>

lemma planned_save_overwrites:
  assumes "read u s = Some p" and "row_steps read save other (s, [p]) (s', [p])"
  shows "\<exists>t. row_steps read save other (s, []) (t, []) \<and> row t (key p) = Some p"
proof -
  have "row_step read save other (s, []) (s, [p])"
    by (rule plan_save) (rule assms(1))
  moreover have "row_step read save other (s', [p]) (save p s', [])"
    using do_save [of p "[p]" read save other s'] by simp
  ultimately have "row_steps read save other (s, []) (save p s', [])"
    using assms(2) by (meson row_steps_one row_steps_trans)
  then show ?thesis by (auto simp: row_save)
qed

end

section \<open>Typed rows\<close>

text \<open>A property of single rows that every saved and every otherwise written row has.\<close>

locale typed_rows =
  fixes row :: "'s \<Rightarrow> 'k \<Rightarrow> 'r option"
    and key :: "'r \<Rightarrow> 'k"
    and typed :: "'k \<Rightarrow> 'r \<Rightarrow> bool"
    and read :: "'u \<Rightarrow> 's \<Rightarrow> 'r option"
    and save :: "'r \<Rightarrow> 's \<Rightarrow> 's"
    and other :: "'s \<Rightarrow> 's \<Rightarrow> bool"
  assumes read_typed: "(\<And>k r. row s k = Some r \<Longrightarrow> typed k r) \<Longrightarrow> read u s = Some r \<Longrightarrow> typed (key r) r"
    and save_row: "row (save r s) k = (if k = key r then Some r else row s k)"
    and other_typed: "(\<And>k r. row s k = Some r \<Longrightarrow> typed k r) \<Longrightarrow> other s s' \<Longrightarrow> row s' k = Some r \<Longrightarrow> typed k r"
begin

definition all_typed :: "'s \<times> 'r list \<Rightarrow> bool" where
  "all_typed c \<longleftrightarrow> (\<forall>k r. row (fst c) k = Some r \<longrightarrow> typed k r) \<and> (\<forall>r \<in> set (snd c). typed (key r) r)"

lemma all_typed_step: "row_step read save other c d \<Longrightarrow> all_typed c \<Longrightarrow> all_typed d"
proof (induction rule: row_step.induct)
  case (plan_save u s r ps)
  then show ?case using read_typed [of s u r] by (auto simp: all_typed_def)
next
  case (do_save r ps s)
  then show ?case by (auto simp: all_typed_def save_row dest: notin_set_remove1)
next
  case (drop_save r ps s)
  then show ?case by (auto simp: all_typed_def dest: notin_set_remove1)
next
  case (other_step s s' ps)
  then show ?case using other_typed [of s s'] by (auto simp: all_typed_def)
qed

lemma rows_typed:
  assumes "row_steps read save other (s, []) (s', ps')" and "\<And>k r. row s k = Some r \<Longrightarrow> typed k r" and "row s' k = Some r"
  shows "typed k r"
proof -
  have "all_typed (s, [])"
    using assms(2) by (simp add: all_typed_def)
  with assms(1) have "all_typed (s', ps')"
    by (rule row_steps_invariant) (rule all_typed_step)
  with assms(3) show ?thesis by (simp add: all_typed_def)
qed

end

end
