(* ===== verification/Agent_Routing.thy ===== *)
theory Agent_Routing
  imports Agent_Loop Complex_Main "HOL-Library.Product_Lexorder" "HOL-Library.Multiset"
begin

text \<open>
  Which agent answers a message (\<^verbatim>\<open>route/registry.go\<close>, \<^verbatim>\<open>core/routing.go\<close>,
  \<^verbatim>\<open>core/route_calibration.go\<close> and \<^verbatim>\<open>Service.route\<close> with what it calls in \<^verbatim>\<open>core/service.go\<close>): the
  user's choice, the classification by the model, or the keyword rules with the corrections
  learnt from earlier choices. Confidences are rationals instead of \<^verbatim>\<open>float64\<close>; \<open>fl\<close> is
  the conversion of a JSON number, \<open>None\<close> where it is out of range. A sort of the six agents is stable
  (\<^verbatim>\<open>sort.Slice\<close> sorts up to twelve elements by insertion). The text of the built-in prompt is an argument.
\<close>

abbreviation "AGENT_TYPE_AUTO \<equiv> ''auto''"
abbreviation "AGENT_TYPE_ASSISTANT \<equiv> ''assistant''"
abbreviation "AGENT_TYPE_NONE \<equiv> ''none''"
abbreviation "AGENT_TYPE_DIAGNOSTIC \<equiv> ''diagnostic''"
abbreviation "AGENT_TYPE_SECURITY \<equiv> ''security''"
abbreviation "AGENT_TYPE_CAPACITY \<equiv> ''capacity''"
abbreviation "AGENT_TYPE_CHANGE \<equiv> ''change_review''"
abbreviation "AGENT_TYPE_COST \<equiv> ''cost''"
abbreviation "AGENT_TYPE_REMEDIATE \<equiv> ''remediation''"
abbreviation "ROUTE_SOURCE_LLM \<equiv> ''llm''"
abbreviation "ROUTE_SOURCE_KEYWORD \<equiv> ''keyword''"
abbreviation "ROUTE_SOURCE_USER \<equiv> ''user''"

section \<open>The registry of agents\<close>

type_synonym agent_registry = "(string, agent_definition) gmap"

definition ag_register :: "agent_definition \<Rightarrow> agent_registry \<Rightarrow> agent_registry" where
  "ag_register a r = (let i = trim_space (ag_type a) in if i = [] then r else gm_put i (a\<lparr>ag_type := i\<rparr>) r)"

definition ag_get :: "agent_registry \<Rightarrow> string \<Rightarrow> agent_definition option" where
  "ag_get r i = gm_get r (trim_space i)"

definition set_system_prompt :: "string \<Rightarrow> string \<Rightarrow> string \<Rightarrow> agent_registry \<Rightarrow> agent_registry" where
  "set_system_prompt identity agentType prompt r =
    (let i = trim_space agentType; p = trim_space prompt in
     if i = [] \<or> p = [] then r
     else (case gm_get r i of None \<Rightarrow> r
       | Some a \<Rightarrow> gm_put i (a\<lparr>ag_system_prompt := with_identity identity p\<rparr>) r))"

definition ag_list :: "agent_registry \<Rightarrow> agent_definition list" where
  "ag_list r = sort_key (\<lambda>a. (\<not> ag_available a, ag_type a)) (map snd r)"

definition reserved_agent :: "string \<Rightarrow> string \<Rightarrow> string \<Rightarrow> string list \<Rightarrow> agent_definition" where
  "reserved_agent t name description capabilities =
    \<lparr>ag_type = t, ag_name = name, ag_description = description, ag_version = ''v1'', ag_available = False,
     ag_capabilities = capabilities, ag_default_tools = [], ag_system_prompt = []\<rparr>"

definition default_agents :: "string \<Rightarrow> string \<Rightarrow> agent_definition list" where
  "default_agents identity diagnosticPrompt =
    [\<lparr>ag_type = AGENT_TYPE_DIAGNOSTIC, ag_name = (utf8 [0x96C6, 0x7FA4, 0x8BCA, 0x65AD, 0x52A9, 0x624B]),
      ag_description = (utf8 [0x53EA, 0x8BFB, 0x6392, 0x67E5] @ '' Pod'' @ utf8 [0x3001] @ ''Node''
    @ utf8 [0x3001] @ ''Workload'' @ utf8 [0x3001] @ ''Event ''
    @ utf8 [0x548C, 0x65E5, 0x5FD7, 0x5F02, 0x5E38, 0x3002]), ag_version = ''v1'', ag_available = True,
      ag_capabilities = [''cluster_readonly_diagnosis'', ''pod_troubleshooting'', ''node_troubleshooting'', ''workload_troubleshooting''],
      ag_default_tools = [''cluster.event.list'', ''cluster.pod.list'', ''cluster.pod.get'', ''cluster.pod.log.tail'',
        ''cluster.node.list'', ''cluster.node.get'', ''cluster.deployment.get'', ''cluster.deployment.pods'',
        ''cluster.statefulset.get'', ''cluster.statefulset.pods'', ''cluster.daemonset.get'',
        ''cluster.daemonset.pods'', ''cluster.configmap.get'', ''cluster.service.get'', ''cluster.ingress.get'',
        ''cluster.pvc.get'', ''cluster.hpa.get'', ''cluster.rbac.get'', ''cluster.describe''],
      ag_system_prompt = with_identity identity diagnosticPrompt\<rparr>,
     reserved_agent AGENT_TYPE_SECURITY (utf8 [0x5B89, 0x5168, 0x5206, 0x6790, 0x52A9, 0x624B]) (utf8 [0x9884, 0x7559, 0xFF1A, 0x5206, 0x6790] @ '' RBAC'' @ utf8 [0x3001] @ ''Secret''
    @ utf8 [0x3001, 0x7279, 0x6743, 0x914D, 0x7F6E, 0x548C, 0x6743, 0x9650, 0x98CE, 0x9669,
      0x3002])
       [''rbac_risk_analysis'', ''privilege_risk_analysis''],
     reserved_agent AGENT_TYPE_CAPACITY (utf8 [0x5BB9, 0x91CF, 0x5206, 0x6790, 0x52A9, 0x624B]) (utf8 [0x9884, 0x7559, 0xFF1A, 0x5206, 0x6790, 0x8D44, 0x6E90, 0x5BB9, 0x91CF, 0x3001,
      0x914D, 0x989D, 0x548C, 0x8C03, 0x5EA6, 0x538B, 0x529B, 0x3002])
       [''capacity_analysis'', ''quota_analysis''],
     reserved_agent AGENT_TYPE_CHANGE (utf8 [0x53D8, 0x66F4, 0x5F71, 0x54CD, 0x52A9, 0x624B]) (utf8 [0x9884, 0x7559, 0xFF1A, 0x5206, 0x6790, 0x53D1, 0x5E03, 0x3001, 0x56DE, 0x6EDA,
      0x548C, 0x8D44, 0x6E90, 0x53D8, 0x66F4, 0x5F71, 0x54CD, 0x3002]) [''change_impact_analysis''],
     reserved_agent AGENT_TYPE_COST (utf8 [0x6210, 0x672C, 0x5206, 0x6790, 0x52A9, 0x624B]) (utf8 [0x9884, 0x7559, 0xFF1A, 0x5206, 0x6790, 0x8D44, 0x6E90, 0x6D6A, 0x8D39, 0x548C,
      0x6210, 0x672C, 0x4F18, 0x5316, 0x7A7A, 0x95F4, 0x3002]) [''cost_analysis''],
     reserved_agent AGENT_TYPE_REMEDIATE (utf8 [0x4FEE, 0x590D, 0x5EFA, 0x8BAE, 0x52A9, 0x624B]) (utf8 [0x9884, 0x7559, 0xFF1A, 0x751F, 0x6210, 0x4FEE, 0x590D, 0x5EFA, 0x8BAE, 0xFF0C,
      0x4E0D, 0x6267, 0x884C, 0x5199, 0x64CD, 0x4F5C, 0x3002]) [''remediation_advice'']]"

definition new_agent_registry :: "string \<Rightarrow> string \<Rightarrow> agent_registry" where
  "new_agent_registry identity diagnosticPrompt = foldl (\<lambda>r a. ag_register a r) [] (default_agents identity diagnosticPrompt)"

section \<open>Candidates and results\<close>

record agent_candidate =
  cd_type :: string
  cd_name :: string
  cd_reason :: string
  cd_available :: bool
  cd_confidence :: rat

record route_result =
  ro_agent_type :: string
  ro_confidence :: rat
  ro_reason :: string
  ro_source :: string
  ro_skill :: string
  ro_need_confirm :: bool
  ro_candidates :: "agent_candidate list"
  ro_alternatives :: "string list"

record route_request =
  rt_message :: string
  rt_selected :: string
  rt_cluster :: string
  rt_scope :: agent_scope

definition to_candidate :: "agent_definition \<Rightarrow> rat \<Rightarrow> string \<Rightarrow> agent_candidate" where
  "to_candidate a confidence reason = \<lparr>cd_type = ag_type a, cd_name = ag_name a, cd_reason = reason,
     cd_available = ag_available a, cd_confidence = confidence\<rparr>"

definition agent_definition_candidates :: "agent_definition list \<Rightarrow> agent_candidate list" where
  "agent_definition_candidates as = map (\<lambda>a. to_candidate a 0 (ag_description a)) as"

definition available_candidates :: "agent_candidate list \<Rightarrow> agent_candidate list" where
  "available_candidates cs = filter cd_available cs"

definition candidate_agent_types :: "agent_candidate list \<Rightarrow> string list" where
  "candidate_agent_types cs = map cd_type cs"

definition available_agents :: "agent_definition list \<Rightarrow> agent_definition list" where
  "available_agents as = filter ag_available as"

definition assistant_route_result :: "string \<Rightarrow> agent_candidate list \<Rightarrow> route_result" where
  "assistant_route_result reason0 cs =
    (let reason = (if trim_space reason0 = [] then (utf8 [0x7528, 0x6237, 0x95EE, 0x9898, 0x4E0D, 0x9700, 0x8981, 0x6267, 0x884C]
    @ '' Agent,''
    @ utf8 [0x4F7F, 0x7528, 0x666E, 0x901A, 0x5BF9, 0x8BDD, 0x52A9, 0x624B, 0x3002]) else trim_space reason0) in
     \<lparr>ro_agent_type = AGENT_TYPE_ASSISTANT, ro_confidence = 1, ro_reason = reason, ro_source = [], ro_skill = [],
      ro_need_confirm = False,
      ro_candidates = \<lparr>cd_type = AGENT_TYPE_ASSISTANT, cd_name = (utf8 [0x666E, 0x901A, 0x5BF9, 0x8BDD, 0x52A9, 0x624B]), cd_reason = reason, cd_available = True,
         cd_confidence = 1\<rparr> # cs,
      ro_alternatives = candidate_agent_types cs\<rparr>)"

section \<open>The keyword rules\<close>

definition rule_score :: "string \<Rightarrow> string \<Rightarrow> agent_definition \<Rightarrow> rat \<times> string" where
  "rule_score message scopeKind a =
    (if ag_type a = AGENT_TYPE_DIAGNOSTIC then
       (let (c, r) = (if contains_any message [''pod'', ''node'', ''workload'', ''deployment'', ''statefulset'', ''daemonset'',
            ''deploy'', ''sts'', ''event'', ''log'', (utf8 [0x91CD, 0x542F]), (utf8 [0x5F02, 0x5E38]), ''pending'', ''notready'', ''crashloopbackoff'', (utf8 [0x8C03, 0x5EA6]), (utf8 [0x65E5, 0x5FD7])]
          then (88/100, (utf8 [0x7528, 0x6237, 0x95EE, 0x9898, 0x5339, 0x914D, 0x96C6, 0x7FA4, 0x8FD0, 0x884C,
      0x65F6, 0x8BCA, 0x65AD, 0x3002])) else (55/100, ag_description a)) in
        if scopeKind \<in> {''pod'', ''node'', ''workload'', ''deployment'', ''statefulset'', ''daemonset''}
        then (c + 8/100, (utf8 [0x7528, 0x6237, 0x63D0, 0x4F9B, 0x7684, 0x8D44, 0x6E90, 0x8303, 0x56F4, 0x5339,
      0x914D, 0x96C6, 0x7FA4, 0x8BCA, 0x65AD, 0x3002])) else (c, r))
     else if ag_type a = AGENT_TYPE_SECURITY \<and>
       contains_any message [''rbac'', ''role'', ''clusterrole'', (utf8 [0x6743, 0x9650]), (utf8 [0x8D8A, 0x6743]), ''secret'', (utf8 [0x5B89, 0x5168])]
       then (80/100, (utf8 [0x7528, 0x6237, 0x95EE, 0x9898, 0x5339, 0x914D, 0x5B89, 0x5168, 0x98CE, 0x9669,
      0x5206, 0x6790, 0x3002]))
     else if ag_type a = AGENT_TYPE_CAPACITY \<and>
       contains_any message [(utf8 [0x5BB9, 0x91CF]), ''cpu'', (utf8 [0x5185, 0x5B58]), ''memory'', (utf8 [0x8D44, 0x6E90, 0x4E0D, 0x8DB3]), (utf8 [0x914D, 0x989D]), ''quota'', ''requests'', ''limits'']
       then (80/100, (utf8 [0x7528, 0x6237, 0x95EE, 0x9898, 0x5339, 0x914D, 0x5BB9, 0x91CF, 0x5206, 0x6790,
      0x3002]))
     else if ag_type a = AGENT_TYPE_CHANGE \<and>
       contains_any message [(utf8 [0x53D8, 0x66F4]), (utf8 [0x53D1, 0x5E03, 0x540E]), (utf8 [0x66F4, 0x65B0, 0x540E]), (utf8 [0x56DE, 0x6EDA]), ''rollback'', ''revision'']
       then (78/100, (utf8 [0x7528, 0x6237, 0x95EE, 0x9898, 0x5339, 0x914D, 0x53D8, 0x66F4, 0x5F71, 0x54CD,
      0x5206, 0x6790, 0x3002]))
     else if ag_type a = AGENT_TYPE_COST \<and> contains_any message [(utf8 [0x6210, 0x672C]), (utf8 [0x6D6A, 0x8D39]), (utf8 [0x5229, 0x7528, 0x7387]), ''cost'']
       then (76/100, (utf8 [0x7528, 0x6237, 0x95EE, 0x9898, 0x5339, 0x914D, 0x6210, 0x672C, 0x5206, 0x6790,
      0x3002]))
     else if ag_type a = AGENT_TYPE_REMEDIATE \<and> contains_any message [(utf8 [0x600E, 0x4E48, 0x4FEE]), (utf8 [0x5982, 0x4F55, 0x5904, 0x7406]), (utf8 [0x4FEE, 0x590D]), (utf8 [0x5EFA, 0x8BAE])]
       then (74/100, (utf8 [0x7528, 0x6237, 0x95EE, 0x9898, 0x5339, 0x914D, 0x4FEE, 0x590D, 0x5EFA, 0x8BAE,
      0x3002]))
     else (10/100, ag_description a))"

definition sort_candidates :: "agent_candidate list \<Rightarrow> agent_candidate list" where
  "sort_candidates cs = sort_key (\<lambda>c. (\<not> cd_available c, - cd_confidence c)) cs"

definition rank_candidates_base :: "agent_registry \<Rightarrow> route_request \<Rightarrow> agent_candidate list" where
  "rank_candidates_base reg req = sort_candidates (map (\<lambda>a.
     (case rule_score (to_lower (rt_message req)) (to_lower (sc_kind (rt_scope req))) a of (c, reason) \<Rightarrow>
        to_candidate a (clamp_confidence (if \<not> ag_available a then c - 25/100 else c)) reason)) (ag_list reg))"

section \<open>What earlier choices teach\<close>

record route_feedback =
  fb_id :: string
  fb_user_id :: string
  fb_message :: string
  fb_routed_type :: string
  fb_routed_confidence :: rat
  fb_selected_type :: string
  fb_matched :: bool
  fb_created_at :: instant

record calibration_stats =
  ca_selected :: int
  ca_matched :: int
  ca_shadow_chose :: int
  ca_false_positive :: int

definition stat_for :: "string \<Rightarrow> (calibration_stats \<Rightarrow> calibration_stats) \<Rightarrow> (string, calibration_stats) gmap
    \<Rightarrow> (string, calibration_stats) gmap" where
  "stat_for t f stats = (if t = [] then stats
     else gm_put t (f (case gm_get stats t of Some st \<Rightarrow> st
       | None \<Rightarrow> \<lparr>ca_selected = 0, ca_matched = 0, ca_shadow_chose = 0, ca_false_positive = 0\<rparr>)) stats)"

definition count_feedback :: "route_feedback \<Rightarrow> (string, calibration_stats) gmap \<Rightarrow> (string, calibration_stats) gmap" where
  "count_feedback fb stats =
    (let selected = fb_selected_type fb; shadow = fb_routed_type fb in
     stat_for shadow (\<lambda>st. st\<lparr>ca_shadow_chose := ca_shadow_chose st + 1,
         ca_false_positive := ca_false_positive st + (if shadow \<noteq> selected then 1 else 0)\<rparr>)
       (stat_for selected (\<lambda>st. st\<lparr>ca_selected := ca_selected st + 1,
         ca_matched := ca_matched st + (if shadow = selected then 1 else 0)\<rparr>) stats))"

definition clamp_delta :: "rat \<Rightarrow> rat \<Rightarrow> rat" where
  "clamp_delta v m = (if m < v then m else if v < - m then - m else v)"

abbreviation ROUTE_CALIBRATION_MAX_DELTA :: rat where "ROUTE_CALIBRATION_MAX_DELTA \<equiv> 15/100"
abbreviation ROUTE_CALIBRATION_MIN_SAMPLES :: int where "ROUTE_CALIBRATION_MIN_SAMPLES \<equiv> 20"
abbreviation ROUTE_CALIBRATION_GAIN :: rat where "ROUTE_CALIBRATION_GAIN \<equiv> 3/10"

definition calibration_delta :: "calibration_stats \<Rightarrow> rat" where
  "calibration_delta st =
    (let under = (if 0 < ca_selected st then of_int (ca_selected st - ca_matched st) / of_int (ca_selected st) else 0);
         wrong = (if 0 < ca_shadow_chose st then of_int (ca_false_positive st) / of_int (ca_shadow_chose st) else 0)
     in clamp_delta (ROUTE_CALIBRATION_GAIN * (under - wrong)) ROUTE_CALIBRATION_MAX_DELTA)"

text \<open>\<open>snapshot\<close> is the content of the feedback cache, \<open>learning\<close> the switch of the feature.\<close>

definition recompute_route_calibration :: "bool \<Rightarrow> route_feedback list \<Rightarrow> (string, rat) gmap" where
  "recompute_route_calibration learning snapshot =
    (if \<not> learning then []
     else filter (\<lambda>(t, d). d \<noteq> 0) (map (\<lambda>(t, st). (t, calibration_delta st))
       (filter (\<lambda>(t, st). ROUTE_CALIBRATION_MIN_SAMPLES \<le> ca_selected st + ca_shadow_chose st - ca_matched st)
         (fold count_feedback snapshot []))))"

definition route_calibration_for :: "(string, rat) gmap \<Rightarrow> string \<Rightarrow> rat" where
  "route_calibration_for cal t = (case gm_get cal t of None \<Rightarrow> 0 | Some d \<Rightarrow> d)"

definition apply_route_calibration :: "(string, rat) gmap \<Rightarrow> agent_candidate list \<Rightarrow> agent_candidate list" where
  "apply_route_calibration cal cs =
    (if \<forall>c \<in> set cs. route_calibration_for cal (cd_type c) = 0 then cs
     else sort_candidates (map (\<lambda>c. (let d = route_calibration_for cal (cd_type c) in
       if d = 0 then c else c\<lparr>cd_confidence := clamp_confidence (cd_confidence c + d)\<rparr>)) cs))"

definition rank_candidates :: "(string, rat) gmap \<Rightarrow> agent_registry \<Rightarrow> route_request \<Rightarrow> agent_candidate list" where
  "rank_candidates cal reg req = apply_route_calibration cal (rank_candidates_base reg req)"

section \<open>The classification by the model\<close>

record route_raw_result =
  rw_agent_type :: string
  rw_confidence :: rat
  rw_reason :: string
  rw_skill_id :: string

fun decode_number :: "(string \<Rightarrow> rat option) \<Rightarrow> json \<Rightarrow> rat option" where
  "decode_number fl (JNum n) = fl n"
| "decode_number fl JNull = Some 0"
| "decode_number fl _ = None"

definition set_route_field :: "(string \<Rightarrow> rat option) \<Rightarrow> string \<Rightarrow> json \<Rightarrow> route_raw_result \<Rightarrow> route_raw_result option" where
  "set_route_field fl k v r =
    (if k = ''agent_type'' then map_option (\<lambda>s. r\<lparr>rw_agent_type := s\<rparr>) (decode_string v)
     else if k = ''confidence'' then map_option (\<lambda>c. r\<lparr>rw_confidence := c\<rparr>) (decode_number fl v)
     else if k = ''reason'' then map_option (\<lambda>s. r\<lparr>rw_reason := s\<rparr>) (decode_string v)
     else if k = ''skill_id'' then map_option (\<lambda>s. r\<lparr>rw_skill_id := s\<rparr>) (decode_string v)
     else Some r)"

definition parse_route_result :: "(string \<Rightarrow> rat option) \<Rightarrow> string \<Rightarrow> route_raw_result option" where
  "parse_route_result fl content =
    (case decode_loose_json (decode_struct (set_route_field fl)
        \<lparr>rw_agent_type = [], rw_confidence = 0, rw_reason = [], rw_skill_id = []\<rparr>) content of
       None \<Rightarrow> None
     | Some r \<Rightarrow> if trim_space (rw_agent_type r) = [] then None else Some r)"

definition normalize_routed_skill :: "skill_registry \<Rightarrow> string \<Rightarrow> string \<Rightarrow> string" where
  "normalize_routed_skill skills agentType skillID =
    (let i = trim_space skillID in
     if i = [] then []
     else (case sr_get skills i of
       None \<Rightarrow> []
     | Some sk \<Rightarrow> if \<not> sk_enabled sk \<or> \<not> applies_to_agent sk agentType then [] else sk_id sk))"

definition agent_catalog :: "agent_definition list \<Rightarrow> string" where
  "agent_catalog as = join newline (map (\<lambda>a. ''- '' @ ag_type a @ ''('' @ ag_name a @ ''):'' @ ag_description a) as)"

definition skill_line :: "skill_definition \<Rightarrow> string" where
  "skill_line sk =
    (let d = trim_space (sk_description sk); description = (if d = [] then join (utf8 [0x3001]) (sk_triggers sk) else d) in
     newline @ ''- '' @ sk_id sk @ ''('' @ sk_name sk @ ''):'' @ description)"

definition route_skill_prompt_section :: "skill_registry \<Rightarrow> string" where
  "route_skill_prompt_section skills =
    (let text = concat (map skill_line (filter sk_enabled (sr_list skills))) in
     if text = [] then []
     else newline @ newline @ (utf8 [0x53EF, 0x9009, 0x6280, 0x80FD] @ ''(''
    @ utf8 [0x82E5, 0x7528, 0x6237, 0x95EE, 0x9898, 0x660E, 0x663E, 0x5339, 0x914D, 0x67D0,
      0x6280, 0x80FD] @ '','' @ utf8 [0x8BF7, 0x5728] @ '' JSON ''
    @ utf8 [0x4E2D, 0x989D, 0x5916, 0x8F93, 0x51FA] @ '' '') @ [CHR 0x22] @ ''skill_id'' @ [CHR 0x22]
       @ '':'' @ [CHR 0x22] @ (''<'' @ utf8 [0x6280, 0x80FD] @ ''ID>'') @ [CHR 0x22] @ ('';'' @ utf8 [0x4E0D, 0x5339, 0x914D, 0x5219, 0x7701, 0x7565, 0x8BE5, 0x5B57, 0x6BB5]
    @ ''):'') @ text)"

definition route_user_message :: "route_request \<Rightarrow> string" where
  "route_user_message req =
    (let sc = rt_scope req;
         parts = (if sc_namespace sc \<noteq> [] then [''namespace='' @ sc_namespace sc] else [])
           @ (if sc_kind sc \<noteq> [] then [''kind='' @ sc_kind sc] else [])
           @ (if sc_name sc \<noteq> [] then [''name='' @ sc_name sc] else [])
     in trim_space (rt_message req)
       @ (if parts = [] then [] else newline @ newline @ (utf8 [0x5206, 0x6790, 0x8303, 0x56F4] @ '':'') @ join '', '' parts))"

text \<open>
  \<open>ask\<close> is the model's answer to the system prompt (built from the catalogue, the examples
  of earlier choices and the section on skills) and to the user message.
\<close>

definition route_with_llm ::
  "(string \<Rightarrow> rat option) \<Rightarrow> agent_registry \<Rightarrow> skill_registry \<Rightarrow> (string \<Rightarrow> string \<Rightarrow> string \<Rightarrow> assistant_reply go_result) \<Rightarrow> route_request
    \<Rightarrow> route_result option" where
  "route_with_llm fl reg skills ask req =
    (let available = available_agents (ag_list reg) in
     if available = [] then None
     else if length available = 1 then None
     else (case ask (agent_catalog available) (route_skill_prompt_section skills) (route_user_message req) of
       Inl e \<Rightarrow> None
     | Inr reply \<Rightarrow> (case parse_route_result fl (ar_content reply) of
         None \<Rightarrow> None
       | Some parsed \<Rightarrow>
          (let agentType = trim_space (rw_agent_type parsed); confidence = clamp_confidence (rw_confidence parsed);
               reason = trim_space (rw_reason parsed) in
           if agentType = AGENT_TYPE_ASSISTANT \<or> agentType = AGENT_TYPE_NONE
           then Some ((assistant_route_result reason (agent_definition_candidates available))\<lparr>ro_source := ROUTE_SOURCE_LLM\<rparr>)
           else (case ag_get reg agentType of
             None \<Rightarrow> None
           | Some a \<Rightarrow>
             if \<not> ag_available a then None
             else (let why = (if reason = [] then (utf8 [0x6839, 0x636E, 0x7528, 0x6237, 0x95EE, 0x9898, 0x7531] @ '' AI ''
    @ utf8 [0x8DEF, 0x7531, 0x9009, 0x62E9, 0x3002]) else reason);
                       cs = to_candidate a confidence why
                         # map (\<lambda>other. to_candidate other 0 (ag_description other)) (filter (\<lambda>other. ag_type other \<noteq> ag_type a) available)
               in if confidence < 7/10
                  then Some ((assistant_route_result (utf8 [0x7528, 0x6237, 0x95EE, 0x9898, 0x4E0E, 0x53EF, 0x7528] @ '' Agent ''
    @ utf8 [0x7684, 0x5339, 0x914D, 0x7F6E, 0x4FE1, 0x5EA6, 0x4F4E] @ '',''
    @ utf8 [0x4F7F, 0x7528, 0x666E, 0x901A, 0x5BF9, 0x8BDD, 0x52A9, 0x624B, 0x3002]) cs)\<lparr>ro_source := ROUTE_SOURCE_LLM\<rparr>)
                  else Some \<lparr>ro_agent_type = ag_type a, ro_confidence = confidence, ro_reason = why, ro_source = ROUTE_SOURCE_LLM,
                     ro_skill = normalize_routed_skill skills (ag_type a) (rw_skill_id parsed),
                     ro_need_confirm = (confidence < 7/10 \<and> 1 < length available), ro_candidates = cs,
                     ro_alternatives = candidate_agent_types (tl cs)\<rparr>))))))"

section \<open>Routing\<close>

definition route_selected :: "agent_registry \<Rightarrow> route_request \<Rightarrow> route_result option" where
  "route_selected reg req =
    (let selected = trim_space (rt_selected req) in
     if selected \<noteq> [] \<and> selected \<noteq> AGENT_TYPE_AUTO then
       (if selected = AGENT_TYPE_ASSISTANT \<or> selected = AGENT_TYPE_NONE then
          Some ((assistant_route_result (utf8 [0x7528, 0x6237, 0x663E, 0x5F0F, 0x9009, 0x62E9, 0x666E, 0x901A, 0x5BF9, 0x8BDD,
      0x52A9, 0x624B, 0x3002])
            (agent_definition_candidates (available_agents (ag_list reg))))\<lparr>ro_source := ROUTE_SOURCE_USER\<rparr>)
        else (case ag_get reg selected of
          None \<Rightarrow> None
        | Some a \<Rightarrow> Some \<lparr>ro_agent_type = ag_type a, ro_confidence = 1, ro_reason = (utf8 [0x7528, 0x6237, 0x663E, 0x5F0F, 0x9009, 0x62E9, 0x8BE5] @ '' Agent''
    @ utf8 [0x3002]),
            ro_source = ROUTE_SOURCE_USER, ro_skill = [], ro_need_confirm = False,
            ro_candidates = [to_candidate a 1 (utf8 [0x7528, 0x6237, 0x663E, 0x5F0F, 0x9009, 0x62E9, 0x3002])], ro_alternatives = []\<rparr>))
     else None)"

definition route_by_keyword :: "(string, rat) gmap \<Rightarrow> agent_registry \<Rightarrow> route_request \<Rightarrow> route_result" where
  "route_by_keyword cal reg req =
    (let ranked = rank_candidates cal reg req;
         cs = (if ranked = [] then
             [(case ag_get reg AGENT_TYPE_DIAGNOSTIC of
                Some a \<Rightarrow> to_candidate a (6/10) (utf8 [0x5F53, 0x524D, 0x4EC5, 0x542F, 0x7528, 0x96C6, 0x7FA4, 0x8BCA, 0x65AD, 0x52A9,
      0x624B, 0x3002])
              | None \<Rightarrow> \<lparr>cd_type = [], cd_name = [], cd_reason = (utf8 [0x5F53, 0x524D, 0x4EC5, 0x542F, 0x7528, 0x96C6, 0x7FA4, 0x8BCA, 0x65AD, 0x52A9,
      0x624B, 0x3002]), cd_available = False, cd_confidence = 6/10\<rparr>)]
           else ranked);
         best = hd cs in
     if cd_confidence best < 7/10
     then (assistant_route_result (utf8 [0x7528, 0x6237, 0x95EE, 0x9898, 0x4E0D, 0x5339, 0x914D, 0x53EF, 0x6267, 0x884C]
    @ '' Agent,''
    @ utf8 [0x4F7F, 0x7528, 0x666E, 0x901A, 0x5BF9, 0x8BDD, 0x52A9, 0x624B, 0x3002]) cs)\<lparr>ro_source := ROUTE_SOURCE_KEYWORD\<rparr>
     else \<lparr>ro_agent_type = cd_type best, ro_confidence = cd_confidence best,
       ro_reason = (if cd_reason best = [] then (utf8 [0x6839, 0x636E, 0x7528, 0x6237, 0x6D88, 0x606F, 0x548C, 0x5206, 0x6790, 0x8303,
      0x56F4, 0x9009, 0x62E9, 0x3002]) else cd_reason best),
       ro_source = ROUTE_SOURCE_KEYWORD, ro_skill = [],
       ro_need_confirm = (cd_confidence best < 7/10 \<and> 1 < length (available_candidates cs)),
       ro_candidates = cs, ro_alternatives = candidate_agent_types (tl cs)\<rparr>)"

definition llm_routing_enabled :: "loop_config \<Rightarrow> bool \<Rightarrow> bool" where
  "llm_routing_enabled o' hasGenerator \<longleftrightarrow> hasGenerator \<and> (case lc_llm_routing o' of None \<Rightarrow> True | Some b \<Rightarrow> b)"

record route_env =
  rv_opts :: loop_config
  rv_generator :: bool
  rv_registry :: agent_registry
  rv_skills :: skill_registry
  rv_calibration :: "(string, rat) gmap"
  rv_number :: "string \<Rightarrow> rat option"
  rv_ask :: "string \<Rightarrow> string \<Rightarrow> string \<Rightarrow> assistant_reply go_result"

definition route :: "route_env \<Rightarrow> route_request \<Rightarrow> route_result" where
  "route env req = (case route_selected (rv_registry env) req of
     Some r \<Rightarrow> r
   | None \<Rightarrow>
      (case (if llm_routing_enabled (rv_opts env) (rv_generator env)
             then route_with_llm (rv_number env) (rv_registry env) (rv_skills env) (rv_ask env) req else None) of
         Some r \<Rightarrow> r
       | None \<Rightarrow> route_by_keyword (rv_calibration env) (rv_registry env) req))"

section \<open>Facts\<close>

definition reg_inv :: "agent_registry \<Rightarrow> bool" where
  "reg_inv r \<longleftrightarrow> gm_ok r \<and> (\<forall>k a. gm_get r k = Some a \<longrightarrow> ag_type a = k \<and> trim_space k = k \<and> k \<noteq> [])"

lemma reg_inv_Nil [simp]: "reg_inv []"
  by (simp add: reg_inv_def)

lemma reg_inv_register: "reg_inv r \<Longrightarrow> reg_inv (ag_register a r)"
  by (auto simp: reg_inv_def ag_register_def Let_def)

lemma reg_inv_set_prompt: "reg_inv r \<Longrightarrow> reg_inv (set_system_prompt identity t p r)"
  by (auto simp: reg_inv_def set_system_prompt_def Let_def split: option.splits)

lemma ag_get_inv: "reg_inv r \<Longrightarrow> ag_get r i = Some a \<Longrightarrow> ag_type a = trim_space i \<and> a \<in> snd ` set r"
  by (force simp: reg_inv_def ag_get_def dest: map_of_SomeD)

lemma ag_get_type: "reg_inv r \<Longrightarrow> a \<in> set (ag_list r) \<Longrightarrow> ag_get r (ag_type a) = Some a"
  by (auto simp: ag_list_def reg_inv_def gm_mem_get ag_get_def)

lemma clamp_confidence_near: "0 \<le> c \<Longrightarrow> c \<le> 1 \<Longrightarrow> \<bar>d\<bar> \<le> m \<Longrightarrow> \<bar>clamp_confidence (c + d) - c\<bar> \<le> m"
  by (auto simp: clamp_confidence_def abs_if split: if_splits)

lemma clamp_delta_range: "0 \<le> m \<Longrightarrow> \<bar>clamp_delta v m\<bar> \<le> m"
  by (auto simp: clamp_delta_def abs_if)

lemma sort_candidates_sorted: "sorted (map (\<lambda>c. (\<not> cd_available c, - cd_confidence c)) (sort_candidates cs))"
  by (simp add: sort_candidates_def)

lemma set_sort_candidates [simp]: "set (sort_candidates cs) = set cs"
  by (simp add: sort_candidates_def)

lemma sorted_hd_available:
  assumes "sorted (map (\<lambda>c. (\<not> cd_available c, - cd_confidence c)) cs)" and "c \<in> set cs" and "cd_available c"
  shows "cd_available (hd cs)"
  using assms by (cases cs) (auto simp: less_eq_prod_def)

lemma rank_base_sorted: "sorted (map (\<lambda>c. (\<not> cd_available c, - cd_confidence c)) (rank_candidates_base reg req))"
  by (simp add: rank_candidates_base_def sort_candidates_sorted)

lemma rank_sorted: "sorted (map (\<lambda>c. (\<not> cd_available c, - cd_confidence c)) (rank_candidates cal reg req))"
  by (simp add: rank_candidates_def apply_route_calibration_def rank_base_sorted sort_candidates_sorted)

text \<open>A ranked candidate stands for an agent of the registry.\<close>

lemma rank_base_cases:
  assumes "c \<in> set (rank_candidates_base reg req)"
  shows "\<exists>a \<in> set (ag_list reg). cd_type c = ag_type a \<and> cd_available c = ag_available a \<and> 0 \<le> cd_confidence c \<and> cd_confidence c \<le> 1"
  using assms clamp_range
  by (fastforce simp: rank_candidates_base_def to_candidate_def split: prod.splits)

lemma rank_base_complete:
  assumes "a \<in> set (ag_list reg)"
  shows "\<exists>c \<in> set (rank_candidates_base reg req). cd_type c = ag_type a \<and> cd_available c = ag_available a"
  using assms by (force simp: rank_candidates_base_def to_candidate_def split: prod.splits)

text \<open>What the learnt corrections do to the ranking.\<close>

definition recalibrate :: "(string, rat) gmap \<Rightarrow> agent_candidate \<Rightarrow> agent_candidate" where
  "recalibrate cal c = (let d = route_calibration_for cal (cd_type c) in
     if d = 0 then c else c\<lparr>cd_confidence := clamp_confidence (cd_confidence c + d)\<rparr>)"

lemma recalibrate_frame [simp]:
  "cd_type (recalibrate cal c) = cd_type c" "cd_available (recalibrate cal c) = cd_available c"
  by (simp_all add: recalibrate_def Let_def)

lemma apply_route_calibration_mset:
  "mset (apply_route_calibration cal cs) = image_mset (recalibrate cal) (mset cs)"
proof (cases "\<forall>c \<in> set cs. route_calibration_for cal (cd_type c) = 0")
  case True
  then have "map (recalibrate cal) cs = cs"
    by (auto simp: recalibrate_def intro: map_idI)
  with True show ?thesis
    by (simp add: apply_route_calibration_def flip: mset_map)
next
  case False
  then have "apply_route_calibration cal cs = sort_candidates (map (recalibrate cal) cs)"
    unfolding apply_route_calibration_def recalibrate_def [abs_def] by (rule if_not_P)
  then show ?thesis by (simp add: sort_candidates_def)
qed

lemma rank_candidates_set: "set (rank_candidates cal reg req) = recalibrate cal ` set (rank_candidates_base reg req)"
  by (metis apply_route_calibration_mset rank_candidates_def set_image_mset set_mset_mset)

lemma recalibrate_range:
  "0 \<le> cd_confidence c \<Longrightarrow> cd_confidence c \<le> 1 \<Longrightarrow> 0 \<le> cd_confidence (recalibrate cal c) \<and> cd_confidence (recalibrate cal c) \<le> 1"
  using clamp_range by (auto simp: recalibrate_def Let_def)

lemma rank_cases:
  assumes "c \<in> set (rank_candidates cal reg req)"
  shows "\<exists>a \<in> set (ag_list reg). cd_type c = ag_type a \<and> cd_available c = ag_available a \<and> 0 \<le> cd_confidence c \<and> cd_confidence c \<le> 1"
proof -
  from assms obtain b where "b \<in> set (rank_candidates_base reg req)" and "c = recalibrate cal b"
    by (auto simp: rank_candidates_set)
  with rank_base_cases [OF this(1)] recalibrate_range [of b cal] show ?thesis by auto
qed

lemma best_available:
  assumes "a \<in> set (ag_list reg)" and "ag_available a"
  shows "rank_candidates cal reg req \<noteq> []" and "cd_available (hd (rank_candidates cal reg req))"
proof -
  from rank_base_complete [OF assms(1)] assms(2)
  obtain b where "b \<in> set (rank_candidates_base reg req)" and "cd_available b" by blast
  then have mem: "recalibrate cal b \<in> set (rank_candidates cal reg req)" and av: "cd_available (recalibrate cal b)"
    by (auto simp: rank_candidates_set)
  from mem show "rank_candidates cal reg req \<noteq> []" by auto
  from sorted_hd_available [OF rank_sorted mem av] show "cd_available (hd (rank_candidates cal reg req))" .
qed

lemma calibration_small: "\<bar>route_calibration_for (recompute_route_calibration learning snapshot) t\<bar> \<le> ROUTE_CALIBRATION_MAX_DELTA"
proof (cases "gm_get (recompute_route_calibration learning snapshot) t")
  case (Some d)
  then have "(t, d) \<in> set (recompute_route_calibration learning snapshot)" by (rule map_of_SomeD)
  then obtain st where "d = calibration_delta st"
    by (auto simp: recompute_route_calibration_def split: if_splits)
  with Some show ?thesis
    using clamp_delta_range [of ROUTE_CALIBRATION_MAX_DELTA]
    by (simp add: route_calibration_for_def calibration_delta_def Let_def)
qed (simp add: route_calibration_for_def)

section \<open>Properties\<close>

text \<open>The registry of the service: the built-in agents, with the configured prompts.\<close>

definition service_registry :: "string \<Rightarrow> string \<Rightarrow> (string \<times> string) list \<Rightarrow> agent_registry" where
  "service_registry identity diagnosticPrompt prompts =
    foldl (\<lambda>r (t, p). set_system_prompt identity t p r) (new_agent_registry identity diagnosticPrompt) prompts"

lemma reg_inv_new: "reg_inv (new_agent_registry identity p)"
proof -
  have "reg_inv r \<Longrightarrow> reg_inv (foldl (\<lambda>r a. ag_register a r) r as)" for r as
    by (induction as arbitrary: r) (auto intro: reg_inv_register)
  then show ?thesis by (simp add: new_agent_registry_def)
qed

lemma reg_inv_service: "reg_inv (service_registry identity p prompts)"
proof -
  have "reg_inv r \<Longrightarrow> reg_inv (foldl (\<lambda>r (t, p). set_system_prompt identity t p r) r ps)" for r ps
    by (induction ps arbitrary: r) (auto intro: reg_inv_set_prompt)
  then show ?thesis by (simp add: service_registry_def reg_inv_new)
qed

lemma set_prompt_available:
  "map_option ag_available (gm_get (set_system_prompt identity t p r) k) = map_option ag_available (gm_get r k)"
  by (auto simp: set_system_prompt_def Let_def split: option.splits)

lemma service_registry_available:
  "map_option ag_available (gm_get (service_registry identity p prompts) k) =
   map_option ag_available (gm_get (new_agent_registry identity p) k)"
proof -
  have "map_option ag_available (gm_get (foldl (\<lambda>r (t, p). set_system_prompt identity t p r) r ps) k) =
      map_option ag_available (gm_get r k)" for r ps
    by (induction ps arbitrary: r) (auto simp: set_prompt_available)
  then show ?thesis by (simp add: service_registry_def)
qed

lemma register_trimmed: "trim_space (ag_type a) = ag_type a \<Longrightarrow> ag_type a \<noteq> [] \<Longrightarrow> ag_register a r = gm_put (ag_type a) a r"
  by (simp add: ag_register_def Let_def)

lemma default_types_trimmed:
  "list_all (\<lambda>t. trim_space t = t \<and> t \<noteq> []) [AGENT_TYPE_DIAGNOSTIC, AGENT_TYPE_SECURITY, AGENT_TYPE_CAPACITY,
     AGENT_TYPE_CHANGE, AGENT_TYPE_COST, AGENT_TYPE_REMEDIATE]"
  by code_simp

lemma new_registry_diagnostic: "map_option ag_available (gm_get (new_agent_registry identity p) AGENT_TYPE_DIAGNOSTIC) = Some True"
  using default_types_trimmed
  by (simp add: new_agent_registry_def default_agents_def reserved_agent_def register_trimmed)

lemma service_registry_diagnostic:
  "\<exists>a \<in> set (ag_list (service_registry identity p prompts)). ag_available a"
proof -
  have "map_option ag_available (gm_get (service_registry identity p prompts) AGENT_TYPE_DIAGNOSTIC) = Some True"
    by (simp only: service_registry_available new_registry_diagnostic)
  then obtain a where "gm_get (service_registry identity p prompts) AGENT_TYPE_DIAGNOSTIC = Some a" and "ag_available a"
    by (auto simp: map_option_eq_Some)
  from map_of_SomeD [OF this(1)] this(2) show ?thesis
    by (force simp: ag_list_def)
qed

text \<open>The result names the assistant, or an agent that may run.\<close>

definition route_ok :: "route_env \<Rightarrow> route_result \<Rightarrow> bool" where
  "route_ok env r \<longleftrightarrow> \<not> ro_need_confirm r \<and> 0 \<le> ro_confidence r \<and> ro_confidence r \<le> 1 \<and>
    (ro_agent_type r = AGENT_TYPE_ASSISTANT \<or>
     (\<exists>a. ag_get (rv_registry env) (ro_agent_type r) = Some a \<and> (ag_available a \<or> ro_source r = ROUTE_SOURCE_USER) \<and>
       7/10 \<le> ro_confidence r \<and>
       (ro_skill r = [] \<or> (\<exists>sk. sr_get (rv_skills env) (ro_skill r) = Some sk \<and> sk_enabled sk \<and> applies_to_agent sk (ro_agent_type r)))))"

lemma assistant_route_ok [simp]:
  "route_ok env (assistant_route_result reason cs)" "route_ok env ((assistant_route_result reason cs)\<lparr>ro_source := src\<rparr>)"
  by (simp_all add: route_ok_def assistant_route_result_def Let_def)

lemma route_selected_ok: "reg_inv (rv_registry env) \<Longrightarrow> route_selected (rv_registry env) req = Some r \<Longrightarrow> route_ok env r"
  by (auto simp: route_selected_def Let_def route_ok_def ag_get_def reg_inv_def assistant_route_result_def split: if_splits option.splits)

lemma routed_skill_ok:
  assumes "sr_inv skills"
  shows "normalize_routed_skill skills t i = [] \<or>
    (\<exists>sk. sr_get skills (normalize_routed_skill skills t i) = Some sk \<and> sk_enabled sk \<and> applies_to_agent sk t)"
proof (cases "sr_get skills (trim_space i)")
  case (Some sk)
  with assms have "sk_id sk = trim_space i"
    by (auto simp: sr_inv_def sr_get_def)
  with Some show ?thesis
    by (simp add: normalize_routed_skill_def Let_def)
qed (simp add: normalize_routed_skill_def Let_def)

lemma route_with_llm_ok:
  assumes "reg_inv (rv_registry env)" and "sr_inv (rv_skills env)"
    and "route_with_llm fl (rv_registry env) (rv_skills env) ask req = Some r"
  shows "route_ok env r"
proof -
  have "route_ok env \<lparr>ro_agent_type = ag_type a, ro_confidence = clamp_confidence c, ro_reason = why, ro_source = src,
      ro_skill = normalize_routed_skill (rv_skills env) (ag_type a) sk, ro_need_confirm = False, ro_candidates = cs, ro_alternatives = alts\<rparr>"
    if "ag_get (rv_registry env) t = Some a" "ag_available a" "\<not> clamp_confidence c < 7/10" for a t c why src sk cs alts
  proof -
    from that(1) assms(1) have "ag_get (rv_registry env) (ag_type a) = Some a"
      by (auto simp: reg_inv_def ag_get_def)
    with that(2,3) clamp_range [of c] routed_skill_ok [OF assms(2), of "ag_type a" sk] show ?thesis
      by (auto simp: route_ok_def)
  qed
  with assms(3) show ?thesis
    by (auto simp: route_with_llm_def Let_def split: if_splits sum.splits option.splits)
qed

lemma route_by_keyword_ok:
  assumes "reg_inv (rv_registry env)" and "a \<in> set (ag_list (rv_registry env))" and "ag_available a"
  shows "route_ok env (route_by_keyword cal (rv_registry env) req)"
proof -
  let ?ranked = "rank_candidates cal (rv_registry env) req"
  note best = best_available [OF assms(2,3), of cal req]
  from best(1) have "hd ?ranked \<in> set ?ranked" by simp
  from rank_cases [OF this] best(2) obtain b where b: "b \<in> set (ag_list (rv_registry env))"
    "cd_type (hd ?ranked) = ag_type b" "ag_available b" "0 \<le> cd_confidence (hd ?ranked)" "cd_confidence (hd ?ranked) \<le> 1"
    by auto
  from ag_get_type [OF assms(1) b(1)] b best(1) show ?thesis
    by (cases "cd_confidence (hd ?ranked) < 7/10") (auto simp: route_by_keyword_def Let_def, auto simp: route_ok_def)
qed

text \<open>
  C29: whatever the model answers and whatever was learnt, routing ends with the assistant or with a registered
  agent whose confidence is at least 0.7; the agent is available unless the user asked for it by name, a skill
  that comes along exists, is enabled and applies to it, and no result asks for a confirmation.
\<close>

theorem routing_sound:
  assumes "reg_inv (rv_registry env)" and "sr_inv (rv_skills env)"
    and "a \<in> set (ag_list (rv_registry env))" and "ag_available a"
  shows "route_ok env (route env req)"
proof (cases "route_selected (rv_registry env) req")
  case None
  show ?thesis
  proof (cases "if llm_routing_enabled (rv_opts env) (rv_generator env)
      then route_with_llm (rv_number env) (rv_registry env) (rv_skills env) (rv_ask env) req else None")
    case (Some r)
    with \<open>route_selected _ _ = None\<close> route_with_llm_ok [OF assms(1,2)] show ?thesis
      by (auto simp: route_def split: if_splits)
  qed (use \<open>route_selected _ _ = None\<close> route_by_keyword_ok [OF assms(1,3,4)] in \<open>simp add: route_def\<close>)
qed (use route_selected_ok [OF assms(1)] in \<open>simp add: route_def\<close>)

definition sample_route_env :: "loop_config \<Rightarrow> route_env" where
  "sample_route_env cfg = \<lparr>rv_opts = cfg, rv_generator = True, rv_registry = service_registry [] [] [], rv_skills = new_skill_registry,
     rv_calibration = [], rv_number = (\<lambda>_. None), rv_ask = (\<lambda>_ _ _. Inl ErrDeadlineExceeded)\<rparr>"

theorem routing_sound_witness:
  "\<forall>cfg req. route_ok (sample_route_env cfg) (route (sample_route_env cfg) req)"
proof (intro allI)
  fix cfg req
  obtain a where "a \<in> set (ag_list (rv_registry (sample_route_env cfg)))" and "ag_available a"
    using service_registry_diagnostic [of "[]" "[]" "[]"] by (auto simp: sample_route_env_def)
  then show "route_ok (sample_route_env cfg) (route (sample_route_env cfg) req)"
    by (intro routing_sound) (simp_all add: sample_route_env_def reg_inv_service)
qed

text \<open>
  What is learnt from the users' choices only shifts the keyword rules: every agent keeps its place in the list of
  candidates' agents, its confidence stays between 0 and 1 and moves by at most 0.15, and nothing moves while learning is off.
\<close>

theorem calibration_bounded:
  "\<exists>f. mset (rank_candidates (recompute_route_calibration learning snapshot) reg req) =
       image_mset f (mset (rank_candidates_base reg req)) \<and>
     (\<forall>c \<in> set (rank_candidates_base reg req).
        cd_type (f c) = cd_type c \<and> cd_available (f c) = cd_available c \<and>
        0 \<le> cd_confidence (f c) \<and> cd_confidence (f c) \<le> 1 \<and>
        \<bar>cd_confidence (f c) - cd_confidence c\<bar> \<le> 15/100)"
proof -
  let ?cal = "recompute_route_calibration learning snapshot"
  have "0 \<le> cd_confidence (recalibrate ?cal c) \<and> cd_confidence (recalibrate ?cal c) \<le> 1 \<and>
      \<bar>cd_confidence (recalibrate ?cal c) - cd_confidence c\<bar> \<le> 15/100"
    if "c \<in> set (rank_candidates_base reg req)" for c
  proof -
    from rank_base_cases [OF that] have "0 \<le> cd_confidence c" and "cd_confidence c \<le> 1" by auto
    then show ?thesis
      using recalibrate_range [of c ?cal] clamp_confidence_near [OF _ _ calibration_small [of learning snapshot "cd_type c"], of "cd_confidence c"]
      by (auto simp: recalibrate_def Let_def)
  qed
  then show ?thesis
    by (intro exI [of _ "recalibrate ?cal"]) (simp add: rank_candidates_def apply_route_calibration_mset)
qed

definition overruled :: "nat \<Rightarrow> route_feedback" where
  "overruled n = \<lparr>fb_id = [], fb_user_id = ''u'', fb_message = ''m'', fb_routed_type = AGENT_TYPE_DIAGNOSTIC,
     fb_routed_confidence = 88/100, fb_selected_type = AGENT_TYPE_SECURITY, fb_matched = False, fb_created_at = 0\<rparr>"

lemma overruled_stats:
  "fold count_feedback (map overruled [0..<20]) [] =
    [(AGENT_TYPE_SECURITY, \<lparr>ca_selected = 20, ca_matched = 0, ca_shadow_chose = 0, ca_false_positive = 0\<rparr>),
     (AGENT_TYPE_DIAGNOSTIC, \<lparr>ca_selected = 0, ca_matched = 0, ca_shadow_chose = 20, ca_false_positive = 20\<rparr>)]"
  by code_simp

theorem calibration_bounded_witness:
  "recompute_route_calibration True (map overruled [0..<20]) =
     [(AGENT_TYPE_SECURITY, 15/100), (AGENT_TYPE_DIAGNOSTIC, - 15/100)] \<and>
   (\<exists>f. mset (rank_candidates (recompute_route_calibration True (map overruled [0..<20])) (service_registry [] [] [])
         \<lparr>rt_message = ''rbac'', rt_selected = [], rt_cluster = [], rt_scope = \<lparr>sc_namespace = [], sc_kind = [], sc_name = [], sc_container = []\<rparr>\<rparr>) =
       image_mset f (mset (rank_candidates_base (service_registry [] [] [])
         \<lparr>rt_message = ''rbac'', rt_selected = [], rt_cluster = [], rt_scope = \<lparr>sc_namespace = [], sc_kind = [], sc_name = [], sc_container = []\<rparr>\<rparr>)) \<and>
     (\<forall>c \<in> set (rank_candidates_base (service_registry [] [] [])
         \<lparr>rt_message = ''rbac'', rt_selected = [], rt_cluster = [], rt_scope = \<lparr>sc_namespace = [], sc_kind = [], sc_name = [], sc_container = []\<rparr>\<rparr>).
        cd_type (f c) = cd_type c \<and> cd_available (f c) = cd_available c \<and>
        0 \<le> cd_confidence (f c) \<and> cd_confidence (f c) \<le> 1 \<and>
        \<bar>cd_confidence (f c) - cd_confidence c\<bar> \<le> 15/100))"
proof
  show "recompute_route_calibration True (map overruled [0..<20]) =
     [(AGENT_TYPE_SECURITY, 15/100), (AGENT_TYPE_DIAGNOSTIC, - 15/100)]"
    by (simp only: recompute_route_calibration_def overruled_stats)
      (simp add: calibration_delta_def clamp_delta_def)
qed (rule calibration_bounded)

text \<open>With the built-in agents only one is available, so the model is never asked.\<close>

lemma one_available_never_asks:
  assumes "length (available_agents (ag_list reg)) \<le> 1"
  shows "route_with_llm fl reg skills ask req = None"
proof (cases "available_agents (ag_list reg) = []")
  case False
  then have "0 < length (available_agents (ag_list reg))" by simp
  with assms have "length (available_agents (ag_list reg)) = 1" by linarith
  then show ?thesis by (simp add: route_with_llm_def Let_def)
qed (simp add: route_with_llm_def)

end
