(* ===== verification/Run_States.thy ===== *)
theory Run_States
  imports Run_Store Guarded_Rows Agent_Routing
begin

text \<open>
  What the service does to the row of a run (\<^verbatim>\<open>core/service.go\<close>): the row a run starts with
  and the ways it ends, and every order in which the statements of several instances can change the table.
  A save planned by one operation may be carried out after other statements (\<open>row_step\<close>).
\<close>

section \<open>The rows the service writes\<close>

abbreviation RUN_LEASE_TTL :: duration where "RUN_LEASE_TTL \<equiv> 90 * second"

record run_input =
  ri_message :: string
  ri_cluster :: string
  ri_scope :: agent_scope

text \<open>The record that \<^verbatim>\<open>run\<close> creates; \<open>instance\<close> is the ID of the instance.\<close>

definition started_run :: "string \<Rightarrow> instant \<Rightarrow> string \<Rightarrow> string \<Rightarrow> string \<Rightarrow> run_input \<Rightarrow> route_result \<Rightarrow> agent_run" where
  "started_run instanceID now runID user agentType req ro =
    \<lparr>ar_id = runID, ar_agent_type = agentType, ar_user_id = user, ar_cluster_id = ri_cluster req, ar_input = ri_message req,
     ar_scope = ri_scope req, ar_status = RUN_STATUS_RUNNING, ar_confidence = ro_confidence ro, ar_route_reason = ro_reason ro,
     ar_route_source = ro_source ro, ar_summary = [], ar_error_message = [], ar_heartbeat_at = Some now, ar_lease_owner = instanceID,
     ar_lease_expires = Some (now + RUN_LEASE_TTL), ar_created_at = now, ar_completed_at = None\<rparr>"

definition stopped_run :: "string \<Rightarrow> instant \<Rightarrow> agent_run \<Rightarrow> agent_run" where
  "stopped_run why now r = r\<lparr>ar_status := RUN_STATUS_CANCELLED, ar_completed_at := Some now,
     ar_error_message := (if trim_space (ar_error_message r) = [] then why else ar_error_message r)\<rparr>"

abbreviation "cancelled_run \<equiv> stopped_run ''run cancelled''"
abbreviation "interrupted_run \<equiv> stopped_run ''run interrupted''"

definition finished_run :: "instant \<Rightarrow> string \<Rightarrow> go_error option \<Rightarrow> agent_run \<Rightarrow> agent_run" where
  "finished_run now answer loopErr r = (case loopErr of
     Some e \<Rightarrow> r\<lparr>ar_completed_at := Some now, ar_status := RUN_STATUS_FAILED, ar_error_message := user_facing_error e\<rparr>
   | None \<Rightarrow> r\<lparr>ar_completed_at := Some now, ar_status := RUN_STATUS_COMPLETED, ar_summary := answer\<rparr>)"

text \<open>The message of \<^verbatim>\<open>RecoverStaleRuns\<close>.\<close>

definition err_run_stale :: string where "err_run_stale = (''Agent ''
    @ utf8 [0x8FD0, 0x884C, 0x56E0, 0x670D, 0x52A1, 0x4E2D, 0x65AD, 0x672A, 0x5B8C, 0x6210])"

abbreviation DEFAULT_STALE_AFTER :: duration where "DEFAULT_STALE_AFTER \<equiv> 10 * minute"

definition recover_stale_runs ::
  "(nat \<Rightarrow> go_error option) \<Rightarrow> instant \<Rightarrow> instant \<Rightarrow> duration \<Rightarrow> run_tables \<Rightarrow> nat go_result \<times> run_tables" where
  "recover_stale_runs f now sqlNow staleAfter t =
    (let after = (if staleAfter \<le> 0 then DEFAULT_STALE_AFTER else staleAfter) in
     fail_stale_runs f sqlNow (now - after) err_run_stale t)"

section \<open>The statements\<close>

text \<open>An update of a run the service holds a copy of: by a cancellation, by an interrupted run, at the end of the run.\<close>

datatype run_change = CancelRun instant | InterruptRun instant | FinishRun instant string "go_error option"

fun changed_run :: "run_change \<Rightarrow> agent_run \<Rightarrow> agent_run" where
  "changed_run (CancelRun now) r = cancelled_run now r"
| "changed_run (InterruptRun now) r = interrupted_run now r"
| "changed_run (FinishRun now answer loopErr) r = finished_run now answer loopErr r"

definition planned_update :: "run_change \<times> agent_run \<Rightarrow> run_tables \<Rightarrow> agent_run option" where
  "planned_update u t = (case update_read None (changed_run (fst u) (snd u)) t of
     UpdateSave rec \<Rightarrow> Some rec | UpdateDone _ \<Rightarrow> None)"

definition saved_update :: "agent_run \<Rightarrow> run_tables \<Rightarrow> run_tables" where
  "saved_update rec t = snd (update_save None rec t)"

text \<open>Every other statement of the service on the tables, with its faults.\<close>

inductive run_statement :: "run_tables \<Rightarrow> run_tables \<Rightarrow> bool" where
  st_create: "run_statement t (snd (create_run f (started_run i now runID user agentType req ro) t))"
| st_heartbeat: "run_statement t (snd (heartbeat_run f runID owner hb expires t))"
| st_recover: "run_statement t (snd (recover_stale_runs f now sqlNow staleAfter t))"
| st_call_created: "run_statement t (snd (create_tool_call f c t))"
| st_call_updated: "run_statement t (snd (update_tool_call f c t))"
| st_call_completed: "run_statement t (snd (complete_tool_call_with_evidence f c es t))"
| st_evidence: "run_statement t (snd (create_evidence f e t))"

inductive_cases run_statementE: "run_statement t t'"

text \<open>A history of the table: statements and saves of all instances, in any order.\<close>

abbreviation run_history :: "run_tables \<times> agent_run list \<Rightarrow> run_tables \<times> agent_run list \<Rightarrow> bool" where
  "run_history \<equiv> row_steps planned_update saved_update run_statement"

definition run_row :: "run_tables \<Rightarrow> string \<Rightarrow> agent_run option" where
  "run_row t = gm_get (rt_runs t)"

section \<open>Facts about single statements\<close>

lemma changed_run_frame [simp]: "ar_id (changed_run ch r) = ar_id r"
  by (cases ch) (auto simp: stopped_run_def finished_run_def split: option.splits)

lemma changed_run_final: "is_terminal_run_status (ar_status (changed_run ch r)) \<and> ar_completed_at (changed_run ch r) \<noteq> None"
  by (cases ch) (auto simp: stopped_run_def finished_run_def is_terminal_run_status_def split: option.splits)

lemma merge_run_simps [simp]:
  "ar_id (merge_run rec r) = ar_id rec" "ar_status (merge_run rec r) = ar_status r"
  "ar_completed_at (merge_run rec r) = ar_completed_at r" "ar_error_message (merge_run rec r) = ar_error_message r"
  by (simp_all add: merge_run_def)

lemma planned_update_Some:
  "planned_update (ch, r) t = Some p \<longleftrightarrow>
    (\<exists>rec. run_row t (ar_id r) = Some rec \<and> p = merge_run rec (changed_run ch r) \<and>
      \<not> (is_terminal_run_status (ar_status rec) \<and> ar_status rec \<noteq> ar_status (changed_run ch r)))"
  by (auto simp: planned_update_def update_read_def first_row_def run_row_def split: option.splits sum.splits if_splits)

lemma run_row_save [simp]: "run_row (saved_update r t) k = (if k = ar_id r then Some r else run_row t k)"
  by (simp add: run_row_def saved_update_def update_save_def)

lemma insert_evidence_keeps_runs: "insert_evidence f n es (saved, t) = Inr (saved', t') \<Longrightarrow> rt_runs t' = rt_runs t"
  by (induction f n es "(saved, t)" arbitrary: saved t rule: insert_evidence.induct) (auto simp: Let_def)

lemma complete_keeps_runs: "rt_runs (snd (complete_tool_call_with_evidence f c es t)) = rt_runs t"
proof (cases "complete_tool_call_with_evidence f c es t")
  case (Pair r t')
  then show ?thesis
    by (auto simp: complete_tool_call_with_evidence_def Let_def split: sum.splits prod.splits
        dest!: insert_evidence_keeps_runs)
qed

text \<open>What one of these statements does to the row of a run.\<close>

inductive row_effect :: "agent_run option \<Rightarrow> agent_run option \<Rightarrow> string \<Rightarrow> bool" where
  row_same: "row_effect old old k"
| row_started: "row_effect None (Some (started_run i now k user t req ro)) k"
| row_beat: "unfinished r \<Longrightarrow> row_effect (Some r)
    (Some (r\<lparr>ar_heartbeat_at := Some hb, ar_lease_owner := owner, ar_lease_expires := Some expires\<rparr>)) k"
| row_failed: "unfinished r \<Longrightarrow> row_effect (Some r)
    (Some (r\<lparr>ar_status := RUN_STATUS_FAILED, ar_error_message := err_run_stale, ar_completed_at := Some now\<rparr>)) k"

inductive_cases row_effectE: "row_effect old (Some new) k"

lemma create_run_row: "row_effect (run_row t k) (run_row (snd (create_run f (started_run i now runID u a req ro) t)) k) k"
proof (cases "f 0 = None \<and> gm_get (rt_runs t) runID = None \<and> k = runID")
  case True
  then have "run_row t k = None" and "run_row (snd (create_run f (started_run i now runID u a req ro) t)) k = Some (started_run i now k u a req ro)"
    by (auto simp: run_row_def create_run_def started_run_def insert_row_def)
  then show ?thesis by (simp add: row_started)
next
  case False
  then have "run_row (snd (create_run f (started_run i now runID u a req ro) t)) k = run_row t k"
    by (auto simp: run_row_def create_run_def started_run_def stmt_def insert_row_def split: option.splits)
  then show ?thesis by (simp add: row_same)
qed

lemma update_row_effect:
  assumes "\<And>r. P k r \<Longrightarrow> row_effect (Some r) (Some (g r)) k"
  shows "row_effect (gm_get rows k) (gm_get (update_where P g rows) k) k"
  using assms by (cases "gm_get rows k") (auto simp: gm_get_update_where intro: row_same)

lemma heartbeat_run_row: "row_effect (run_row t k) (run_row (snd (heartbeat_run f runID owner hb expires t)) k) k"
  by (cases "f 0") (auto simp: run_row_def heartbeat_run_def simp del: gm_get_update_where intro: update_row_effect row_beat row_same)

lemma recover_run_row: "row_effect (run_row t k) (run_row (snd (recover_stale_runs f now sqlNow staleAfter t)) k) k"
  by (cases "f 0") (auto simp: run_row_def recover_stale_runs_def fail_stale_runs_def Let_def
      simp del: gm_get_update_where intro: update_row_effect row_failed row_same)

lemma run_statement_row: "run_statement t t' \<Longrightarrow> row_effect (run_row t k) (run_row t' k) k"
proof (induction rule: run_statement.induct)
  case (st_call_created t f c)
  then show ?case
    by (simp add: row_same run_row_def create_tool_call_def Let_def split: sum.split)
next
  case (st_call_updated t f c)
  then show ?case
    by (simp add: row_same run_row_def update_tool_call_def Let_def split: sum.split option.split)
next
  case (st_call_completed t f c es)
  then show ?case by (simp add: row_same run_row_def complete_keeps_runs)
next
  case (st_evidence t f e)
  then show ?case
    by (simp add: row_same run_row_def create_evidence_def Let_def split: sum.split)
qed (rule create_run_row heartbeat_run_row recover_run_row)+

lemma unfinished_not_final: "unfinished r \<Longrightarrow> \<not> is_terminal_run_status (ar_status r)"
  by (auto simp: unfinished_def is_terminal_run_status_def)

section \<open>Final states\<close>

definition runs_keyed :: "run_tables \<Rightarrow> bool" where
  "runs_keyed t \<longleftrightarrow> (\<forall>k r. run_row t k = Some r \<longrightarrow> ar_id r = k)"

interpretation run_rows: guarded_rows run_row ar_id ar_status is_terminal_run_status planned_update saved_update run_statement runs_keyed
proof
  fix s u r old
  assume "runs_keyed s" and "planned_update u s = Some r" and "run_row s (ar_id r) = Some old" and "is_terminal_run_status (ar_status old)"
  then show "ar_status r = ar_status old"
    by (cases u) (auto simp: planned_update_Some runs_keyed_def)
next
  fix s u r
  assume "runs_keyed s" and "planned_update u s = Some r"
  then show "run_row s (ar_id r) \<noteq> None"
    by (cases u) (auto simp: planned_update_Some runs_keyed_def)
next
  fix s s'
  assume "runs_keyed s" and "run_statement s s'"
  show "runs_keyed s'"
    unfolding runs_keyed_def
  proof (intro allI impI)
    fix k r
    assume "run_row s' k = Some r"
    with run_statement_row [OF \<open>run_statement s s'\<close>, of k] \<open>runs_keyed s\<close> show "ar_id r = k"
      by (auto elim!: row_effectE simp: runs_keyed_def started_run_def)
  qed
next
  fix s s' k old
  assume "run_statement s s'" and "run_row s k = Some old" and "is_terminal_run_status (ar_status old)"
  with run_statement_row [OF this(1), of k] show "\<exists>new. run_row s' k = Some new \<and> ar_status new = ar_status old"
    by (auto elim!: row_effect.cases dest: unfinished_not_final)
qed (simp_all add: runs_keyed_def)

section \<open>Well-typed rows\<close>

definition run_status_ok :: "string \<Rightarrow> bool" where
  "run_status_ok st \<longleftrightarrow> st \<in> {RUN_STATUS_RUNNING, RUN_STATUS_COMPLETED, RUN_STATUS_FAILED, RUN_STATUS_CANCELLED}"

text \<open>
  Its key is its ID, its status one of four, it has an end exactly in a final status, and a cancelled
  run says why.
\<close>

definition run_typed :: "string \<Rightarrow> agent_run \<Rightarrow> bool" where
  "run_typed k r \<longleftrightarrow> ar_id r = k \<and> run_status_ok (ar_status r) \<and>
     (ar_completed_at r \<noteq> None \<longleftrightarrow> is_terminal_run_status (ar_status r)) \<and>
     (ar_status r = RUN_STATUS_CANCELLED \<longrightarrow> trim_space (ar_error_message r) \<noteq> [])"

lemma started_run_typed: "run_typed k (started_run i now k user t req ro)"
  by (simp add: run_typed_def started_run_def run_status_ok_def is_terminal_run_status_def)

lemma stop_reasons: "trim_space ''run cancelled'' \<noteq> []" "trim_space ''run interrupted'' \<noteq> []"
  by code_simp+

lemma changed_run_typed: "run_typed (ar_id rec) rec \<Longrightarrow> run_typed (ar_id rec) (merge_run rec (changed_run ch r))"
  by (cases ch) (auto simp: run_typed_def stopped_run_def finished_run_def run_status_ok_def is_terminal_run_status_def stop_reasons
      split: option.splits)

lemma row_effect_typed:
  assumes "row_effect old (Some new) k" and "\<And>r. old = Some r \<Longrightarrow> run_typed k r"
  shows "run_typed k new"
  using assms by (auto elim!: row_effectE simp: started_run_typed) (auto simp: run_typed_def unfinished_def run_status_ok_def is_terminal_run_status_def)

interpretation run_types: typed_rows run_row ar_id run_typed planned_update saved_update run_statement
proof
  fix s u r
  assume "\<And>k r. run_row s k = Some r \<Longrightarrow> run_typed k r" and "planned_update u s = Some r"
  then show "run_typed (ar_id r) r"
  proof (cases u)
    case (Pair ch b)
    with \<open>planned_update u s = Some r\<close> obtain rec where "run_row s (ar_id b) = Some rec" and r: "r = merge_run rec (changed_run ch b)"
      by (auto simp: planned_update_Some)
    with \<open>\<And>k r. run_row s k = Some r \<Longrightarrow> run_typed k r\<close> have "run_typed (ar_id rec) rec"
      by (metis run_typed_def)
    then show ?thesis by (simp add: r changed_run_typed)
  qed
next
  fix s s' k r
  assume "\<And>k r. run_row s k = Some r \<Longrightarrow> run_typed k r" and "run_statement s s'" and "run_row s' k = Some r"
  then show "run_typed k r"
    using run_statement_row [of s s' k] by (auto intro: row_effect_typed)
qed simp

section \<open>Properties\<close>

text \<open>
  C25: a run that has ended keeps its outcome: once its row has a final status and no save of another
  status is already on its way, no statement of any instance, in any order, changes the status again.
\<close>

theorem run_outcome_stays:
  assumes "run_history (t, ps) (t', ps')" and "runs_keyed t"
    and "run_row t k = Some r" and "is_terminal_run_status (ar_status r)"
    and "\<forall>p \<in> set ps. ar_id p = k \<longrightarrow> ar_status p = ar_status r"
  shows "\<exists>r'. run_row t' k = Some r' \<and> ar_status r' = ar_status r"
  using assms by (rule run_rows.final_status_stays)

definition no_tables :: run_tables where
  "no_tables = \<lparr>rt_runs = [], rt_calls = [], rt_evidence = []\<rparr>"

text \<open>
  C26: every row of a run is well typed, whatever the instances do and in whatever order: its key is its ID, it is running,
  completed, failed or cancelled, it has an end exactly when it is not running, and a cancelled run carries a reason.
\<close>

theorem run_rows_typed:
  assumes "run_history (no_tables, []) (t, ps)" and "run_row t k = Some r"
  shows "run_typed k r"
  by (rule run_types.rows_typed [OF assms(1) _ assms(2)]) (simp add: run_row_def no_tables_def)

definition sample_route :: route_result where
  "sample_route = \<lparr>ro_agent_type = AGENT_TYPE_DIAGNOSTIC, ro_confidence = 1, ro_reason = [], ro_source = ROUTE_SOURCE_USER, ro_skill = [],
     ro_need_confirm = False, ro_candidates = [], ro_alternatives = []\<rparr>"

definition sample_run :: agent_run where
  "sample_run = started_run ''i'' 0 ''r'' ''u'' AGENT_TYPE_DIAGNOSTIC
     \<lparr>ri_message = ''m'', ri_cluster = ''c'', ri_scope = \<lparr>sc_namespace = [], sc_kind = [], sc_name = [], sc_container = []\<rparr>\<rparr> sample_route"

definition one_run :: "agent_run \<Rightarrow> run_tables" where
  "one_run r = \<lparr>rt_runs = [(''r'', r)], rt_calls = [], rt_evidence = []\<rparr>"

lemma one_run_row [simp]: "run_row (one_run r) k = (if k = ''r'' then Some r else None)"
  by (simp add: run_row_def one_run_def)

lemma sample_run_simps [simp]: "ar_id sample_run = ''r''" "ar_status sample_run = RUN_STATUS_RUNNING" "ar_error_message sample_run = []"
  by (simp_all add: sample_run_def started_run_def)

lemma sample_run_created: "run_history (no_tables, []) (one_run sample_run, [])"
proof -
  have "run_statement no_tables (snd (create_run no_fault sample_run no_tables))"
    unfolding sample_run_def by (rule st_create)
  moreover have "snd (create_run no_fault sample_run no_tables) = one_run sample_run"
    by (simp add: create_run_def no_fault_def insert_row_def no_tables_def one_run_def gm_put_def)
  ultimately show ?thesis by (auto intro: row_steps_one other_step)
qed

lemma saved_one_run: "ar_id p = ''r'' \<Longrightarrow> saved_update p (one_run r) = one_run p"
  by (simp add: saved_update_def update_save_def one_run_def gm_put_def)

lemma plan_one_run:
  "row_step planned_update saved_update run_statement (one_run sample_run, ps)
     (one_run sample_run, merge_run sample_run (changed_run ch sample_run) # ps)"
proof (rule plan_save)
  show "planned_update (ch, sample_run) (one_run sample_run) = Some (merge_run sample_run (changed_run ch sample_run))"
    by (simp add: planned_update_Some is_terminal_run_status_def)
qed

lemma save_step: "row_step read save other (s, [p]) (save p s, [])"
  using do_save [of p "[p]" read save other s] by simp

text \<open>
  The guard of \<^verbatim>\<open>UpdateRun\<close> is no lock: a run that a user has cancelled is completed by an update that read its row before.
\<close>

lemma cancellation_overwritten:
  "\<exists>p t1 t2. run_history (no_tables, []) (t1, [p]) \<and> map_option ar_status (run_row t1 ''r'') = Some RUN_STATUS_CANCELLED \<and>
     run_history (t1, [p]) (t2, []) \<and> map_option ar_status (run_row t2 ''r'') = Some RUN_STATUS_COMPLETED"
proof -
  let ?p = "merge_run sample_run (changed_run (FinishRun 1 ''a'' None) sample_run)"
  let ?c = "merge_run sample_run (changed_run (CancelRun 1) sample_run)"
  have "row_step planned_update saved_update run_statement (one_run sample_run, []) (one_run sample_run, [?p])"
    by (rule plan_one_run)
  moreover have "row_step planned_update saved_update run_statement (one_run sample_run, [?p]) (one_run sample_run, [?c, ?p])"
    by (rule plan_one_run)
  moreover have "row_step planned_update saved_update run_statement (one_run sample_run, [?c, ?p]) (one_run ?c, [?p])"
    using do_save [of ?c "[?c, ?p]" planned_update saved_update run_statement "one_run sample_run"] by (simp add: saved_one_run)
  ultimately have "run_history (no_tables, []) (one_run ?c, [?p])"
    by (meson row_steps_one row_steps_trans sample_run_created)
  moreover have "row_step planned_update saved_update run_statement (one_run ?c, [?p]) (one_run ?p, [])"
    using save_step [of planned_update saved_update run_statement "one_run ?c" ?p] by (simp add: saved_one_run)
  moreover have "map_option ar_status (run_row (one_run ?c) ''r'') = Some RUN_STATUS_CANCELLED"
    and "map_option ar_status (run_row (one_run ?p) ''r'') = Some RUN_STATUS_COMPLETED"
    by (simp_all add: stopped_run_def finished_run_def)
  ultimately show ?thesis by (meson row_steps_one)
qed

theorem run_rows_typed_witness:
  "run_typed ''r'' (merge_run sample_run (changed_run (CancelRun 1) sample_run))"
proof (rule run_rows_typed)
  let ?c = "merge_run sample_run (changed_run (CancelRun 1) sample_run)"
  have "row_step planned_update saved_update run_statement (one_run sample_run, []) (one_run sample_run, [?c])"
    by (rule plan_one_run)
  moreover have "row_step planned_update saved_update run_statement (one_run sample_run, [?c]) (one_run ?c, [])"
    using save_step [of planned_update saved_update run_statement "one_run sample_run" ?c] by (simp add: saved_one_run)
  ultimately show "run_history (no_tables, []) (one_run ?c, [])"
    by (meson row_steps_one row_steps_trans sample_run_created)
qed simp

theorem run_outcome_stays_witness:
  "\<exists>r'. run_row (snd (heartbeat_run no_fault ''r'' ''i'' 2 3 (one_run (cancelled_run 1 sample_run)))) ''r'' = Some r' \<and>
     ar_status r' = RUN_STATUS_CANCELLED"
proof -
  have "run_history (one_run (cancelled_run 1 sample_run), [])
      (snd (heartbeat_run no_fault ''r'' ''i'' 2 3 (one_run (cancelled_run 1 sample_run))), [])"
    by (intro row_steps_one other_step st_heartbeat)
  moreover have "ar_status (cancelled_run 1 sample_run) = RUN_STATUS_CANCELLED" and "ar_id (cancelled_run 1 sample_run) = ''r''"
    by (simp_all add: stopped_run_def)
  ultimately show ?thesis
    using run_outcome_stays [of "one_run (cancelled_run 1 sample_run)" "[]" _ "[]" "''r''" "cancelled_run 1 sample_run"]
    by (simp add: runs_keyed_def is_terminal_run_status_def)
qed

end
