(* ===== verification/Chat_Store.thy ===== *)
theory Chat_Store
  imports Sql_Tables
begin

text \<open>
  Chat sessions and messages in PostgreSQL (\<^verbatim>\<open>ai/infrastructure/postgres/chat_repository.go\<close>,
  \<^verbatim>\<open>ai/domain/chat.go\<close>). Both tables have soft deletion: a row with a deletion time is not
  read. An update reads a row and then saves it, two statements between which the operations of
  other requests may come; \<^verbatim>\<open>AppendMessages\<close> is one transaction that holds the row
  of the session, so two of them on one session do not overlap. \<open>f n\<close> is the failure of
  the \<open>n\<close>-th statement. The columns and the fields of the domain types carry the same values, the metadata
  apart; a repository without a database (\<^verbatim>\<open>nil\<close> handle) is not modelled.
\<close>

abbreviation "SESSION_STATUS_ACTIVE \<equiv> ''active''"
abbreviation "MESSAGE_ROLE_USER \<equiv> ''user''"
abbreviation "MESSAGE_ROLE_ASSISTANT \<equiv> ''assistant''"
abbreviation "MESSAGE_ROLE_SYSTEM \<equiv> ''system''"
abbreviation "MESSAGE_CONTENT_TYPE_MARKDOWN \<equiv> ''markdown''"
abbreviation "MESSAGE_STATUS_PENDING \<equiv> ''pending''"
abbreviation "MESSAGE_STATUS_STREAMING \<equiv> ''streaming''"
abbreviation "MESSAGE_STATUS_COMPLETED \<equiv> ''completed''"
abbreviation "MESSAGE_STATUS_FAILED \<equiv> ''failed''"

section \<open>Rows\<close>

record chat_session =
  cs_id :: string
  cs_user_id :: string
  cs_title :: string
  cs_summary :: string
  cs_status :: string
  cs_created_at :: instant
  cs_updated_at :: instant
  cs_deleted_at :: "instant option"

record chat_message =
  cm_id :: string
  cm_session_id :: string
  cm_role :: string
  cm_content :: string
  cm_content_type :: string
  cm_status :: string
  cm_sequence :: int
  cm_provider :: string
  cm_model :: string
  cm_metadata :: string
  cm_prompt_tokens :: int
  cm_completion_tokens :: int
  cm_total_tokens :: int
  cm_error_message :: string
  cm_created_at :: instant
  cm_completed_at :: "instant option"
  cm_deleted_at :: "instant option"

record chat_tables =
  ct_sessions :: "(string, chat_session) gmap"
  ct_messages :: "(string, chat_message) gmap"

definition session_row :: "chat_session \<Rightarrow> chat_session" where
  "session_row s = s\<lparr>cs_deleted_at := None\<rparr>"

definition message_row :: "chat_message \<Rightarrow> chat_message" where
  "message_row m = m\<lparr>cm_metadata := new_jsonb (cm_metadata m), cm_deleted_at := None\<rparr>"

definition is_empty_json_object :: "string \<Rightarrow> bool" where
  "is_empty_json_object data =
    (if data = [] then True
     else (case Option.bind (json_parse data) decode_map of None \<Rightarrow> True | Some value \<Rightarrow> value = []))"

definition to_domain_message :: "chat_message \<Rightarrow> chat_message" where
  "to_domain_message r = r\<lparr>cm_metadata := (if \<not> is_empty_json_object (cm_metadata r) then cm_metadata r else [])\<rparr>"

text \<open>What a query of the user's session with this id, or of a message of one of them, sees.\<close>

definition session_visible :: "string \<Rightarrow> chat_session \<Rightarrow> bool" where
  "session_visible user r \<longleftrightarrow> cs_user_id r = user \<and> cs_deleted_at r = None"

definition message_visible :: "string \<Rightarrow> chat_tables \<Rightarrow> chat_message \<Rightarrow> bool" where
  "message_visible user t r \<longleftrightarrow> cm_deleted_at r = None \<and>
     (case gm_get (ct_sessions t) (cm_session_id r) of None \<Rightarrow> False | Some s \<Rightarrow> session_visible user s)"

section \<open>Sessions\<close>

definition list_sessions :: "go_error option \<Rightarrow> string \<Rightarrow> chat_tables \<Rightarrow> chat_session list go_result" where
  "list_sessions f user t = stmt f (Inr (sort_key (\<lambda>r. - cs_updated_at r)
     (filter (session_visible user) (map snd (ct_sessions t)))))"

definition get_session :: "go_error option \<Rightarrow> string \<Rightarrow> string \<Rightarrow> chat_tables \<Rightarrow> chat_session go_result" where
  "get_session f user sid t = stmt f (first_row sid (session_visible user) (ct_sessions t))"

definition create_session :: "(nat \<Rightarrow> go_error option) \<Rightarrow> chat_session \<Rightarrow> chat_tables \<Rightarrow> chat_session go_result \<times> chat_tables" where
  "create_session f s t = (let rec = session_row s in
     case stmt (f 0) (insert_row (cs_id rec) rec (ct_sessions t)) of
       Inl e \<Rightarrow> (Inl e, t)
     | Inr rows \<Rightarrow> (Inr rec, t\<lparr>ct_sessions := rows\<rparr>))"

definition merge_session :: "chat_session \<Rightarrow> chat_session \<Rightarrow> chat_session" where
  "merge_session rec s = rec\<lparr>cs_title := cs_title s, cs_summary := cs_summary s, cs_status := cs_status s,
     cs_updated_at := cs_updated_at s\<rparr>"

text \<open>The two statements of \<^verbatim>\<open>UpdateSession\<close>: the record to save, and its save.\<close>

definition session_read :: "go_error option \<Rightarrow> chat_session \<Rightarrow> chat_tables \<Rightarrow> chat_session go_result" where
  "session_read f s t = (case stmt f (first_row (cs_id s) (session_visible (cs_user_id s)) (ct_sessions t)) of
     Inl e \<Rightarrow> Inl e | Inr rec \<Rightarrow> Inr (merge_session rec s))"

definition session_save :: "go_error option \<Rightarrow> chat_session \<Rightarrow> chat_tables \<Rightarrow> chat_session go_result \<times> chat_tables" where
  "session_save f rec t = (case f of
     Some e \<Rightarrow> (Inl e, t)
   | None \<Rightarrow> (Inr rec, t\<lparr>ct_sessions := gm_put (cs_id rec) rec (ct_sessions t)\<rparr>))"

definition update_session :: "(nat \<Rightarrow> go_error option) \<Rightarrow> chat_session \<Rightarrow> chat_tables \<Rightarrow> chat_session go_result \<times> chat_tables" where
  "update_session f s t = (case session_read (f 0) s t of
     Inl e \<Rightarrow> (Inl e, t) | Inr rec \<Rightarrow> session_save (f 1) rec t)"

definition delete_session ::
  "(nat \<Rightarrow> go_error option) \<Rightarrow> instant \<Rightarrow> string \<Rightarrow> string \<Rightarrow> chat_tables \<Rightarrow> go_error option \<times> chat_tables" where
  "delete_session f now user sid t = (case f 0 of
     Some e \<Rightarrow> (Some e, t)
   | None \<Rightarrow>
      (if rows_where (\<lambda>k r. k = sid \<and> session_visible user r) (ct_sessions t) = 0 then Some ErrRecordNotFound else None,
       t\<lparr>ct_sessions := update_where (\<lambda>k r. k = sid \<and> session_visible user r) (\<lambda>r. r\<lparr>cs_deleted_at := Some now\<rparr>)
          (ct_sessions t)\<rparr>))"

section \<open>Messages\<close>

definition session_messages :: "string \<Rightarrow> chat_tables \<Rightarrow> chat_message list" where
  "session_messages sid t = filter (\<lambda>r. cm_session_id r = sid \<and> cm_deleted_at r = None) (map snd (ct_messages t))"

definition list_messages ::
  "(nat \<Rightarrow> go_error option) \<Rightarrow> string \<Rightarrow> string \<Rightarrow> chat_tables \<Rightarrow> chat_message list go_result" where
  "list_messages f user sid t =
    after_stmt (stmt (f 0) (first_row sid (session_visible user) (ct_sessions t))) (\<lambda>_.
      stmt (f 1) (Inr (map to_domain_message (sort_key cm_sequence (session_messages sid t)))))"

definition max_sequence :: "string \<Rightarrow> chat_tables \<Rightarrow> int" where
  "max_sequence sid t = fold (\<lambda>r m. max (cm_sequence r) m) (session_messages sid t) 0"

fun number_messages :: "string \<Rightarrow> int \<Rightarrow> chat_message list \<Rightarrow> chat_message list" where
  "number_messages sid n [] = []"
| "number_messages sid n (m # ms) =
     message_row (m\<lparr>cm_sequence := n + 1, cm_session_id := sid\<rparr>) # number_messages sid (n + 1) ms"

text \<open>One INSERT of several rows: all of them or none.\<close>

fun insert_messages :: "chat_message list \<Rightarrow> (string, chat_message) gmap \<Rightarrow> go_error + (string, chat_message) gmap" where
  "insert_messages [] rows = Inr rows"
| "insert_messages (m # ms) rows = after_stmt (insert_row (cm_id m) m rows) (insert_messages ms)"

definition append_messages ::
  "(nat \<Rightarrow> go_error option) \<Rightarrow> string \<Rightarrow> string \<Rightarrow> chat_message list \<Rightarrow> chat_session \<Rightarrow> chat_tables
    \<Rightarrow> (chat_session \<times> chat_message list) go_result \<times> chat_tables" where
  "append_messages f user sid ms s t =
    (case after_stmt (stmt (f 0) (first_row sid (session_visible user) (ct_sessions t))) (\<lambda>rec.
       after_stmt (stmt (f 1) (Inr (max_sequence sid t))) (\<lambda>top.
         (let rows = number_messages sid top ms; saved = merge_session rec s in
          after_stmt (if rows = [] then Inr (ct_messages t) else stmt (f 2) (insert_messages rows (ct_messages t))) (\<lambda>messages.
            after_stmt (stmt (f 3) (Inr (t\<lparr>ct_messages := messages, ct_sessions := gm_put (cs_id saved) saved (ct_sessions t)\<rparr>))) (\<lambda>t1.
              stmt (f 4) (Inr ((saved, map to_domain_message rows), t1))))))) of
       Inl e \<Rightarrow> (Inl e, t)
     | Inr (r, t1) \<Rightarrow> (Inr r, t1))"

definition get_message :: "go_error option \<Rightarrow> string \<Rightarrow> string \<Rightarrow> chat_tables \<Rightarrow> chat_message go_result" where
  "get_message f user mid t = (case stmt f (first_row mid (message_visible user t) (ct_messages t)) of
     Inl e \<Rightarrow> Inl e | Inr r \<Rightarrow> Inr (to_domain_message r))"

definition is_terminal_message_status :: "string \<Rightarrow> bool" where
  "is_terminal_message_status st \<longleftrightarrow> st = MESSAGE_STATUS_COMPLETED \<or> st = MESSAGE_STATUS_FAILED"

definition merge_message :: "chat_message \<Rightarrow> chat_message \<Rightarrow> chat_message" where
  "merge_message rec m = rec\<lparr>cm_status := cm_status m, cm_content := cm_content m, cm_provider := cm_provider m,
     cm_model := cm_model m, cm_metadata := new_jsonb (cm_metadata m), cm_prompt_tokens := cm_prompt_tokens m,
     cm_completion_tokens := cm_completion_tokens m, cm_total_tokens := cm_total_tokens m,
     cm_error_message := cm_error_message m, cm_completed_at := cm_completed_at m\<rparr>"

text \<open>\<^verbatim>\<open>UpdateMessage\<close>: a finished call, or the record its second statement saves.\<close>

datatype message_plan = MessageDone "chat_message go_result" | MessageSave chat_message

definition message_read :: "go_error option \<Rightarrow> string \<Rightarrow> chat_message \<Rightarrow> chat_tables \<Rightarrow> message_plan" where
  "message_read f user m t = (case stmt f (first_row (cm_id m) (message_visible user t) (ct_messages t)) of
     Inl e \<Rightarrow> MessageDone (Inl e)
   | Inr rec \<Rightarrow>
       if is_terminal_message_status (cm_status rec) \<and> cm_status rec \<noteq> cm_status m then MessageDone (Inr (to_domain_message rec))
       else MessageSave (merge_message rec m))"

definition message_save :: "go_error option \<Rightarrow> chat_message \<Rightarrow> chat_tables \<Rightarrow> chat_message go_result \<times> chat_tables" where
  "message_save f rec t = (case f of
     Some e \<Rightarrow> (Inl e, t)
   | None \<Rightarrow> (Inr (to_domain_message rec), t\<lparr>ct_messages := gm_put (cm_id rec) rec (ct_messages t)\<rparr>))"

definition update_message ::
  "(nat \<Rightarrow> go_error option) \<Rightarrow> string \<Rightarrow> chat_message \<Rightarrow> chat_tables \<Rightarrow> chat_message go_result \<times> chat_tables" where
  "update_message f user m t = (case message_read (f 0) user m t of
     MessageDone r \<Rightarrow> (r, t)
   | MessageSave rec \<Rightarrow> message_save (f 1) rec t)"

definition stale_message :: "instant \<Rightarrow> chat_message \<Rightarrow> bool" where
  "stale_message before r \<longleftrightarrow> cm_role r = MESSAGE_ROLE_ASSISTANT
     \<and> (cm_status r = MESSAGE_STATUS_PENDING \<or> cm_status r = MESSAGE_STATUS_STREAMING)
     \<and> cm_created_at r < before \<and> cm_deleted_at r = None"

definition fail_stale_messages ::
  "(nat \<Rightarrow> go_error option) \<Rightarrow> instant \<Rightarrow> instant \<Rightarrow> string \<Rightarrow> chat_tables \<Rightarrow> nat go_result \<times> chat_tables" where
  "fail_stale_messages f now before msg t = (case f 0 of
     Some e \<Rightarrow> (Inl e, t)
   | None \<Rightarrow> (Inr (rows_where (\<lambda>_. stale_message before) (ct_messages t)),
       t\<lparr>ct_messages := update_where (\<lambda>_. stale_message before)
         (\<lambda>r. r\<lparr>cm_status := MESSAGE_STATUS_FAILED, cm_error_message := msg, cm_completed_at := Some now\<rparr>) (ct_messages t)\<rparr>))"

end
