(* ===== verification/Chat_Context.thy ===== *)
theory Chat_Context
  imports Chat_Store Agent_Text
begin

text \<open>
  What a conversation sends to the model and how it is labelled (\<^verbatim>\<open>ai/application/service.go\<close>):
  the pairs of question and answer in a sliding window, titles and summaries. Lengths are in runes.
\<close>

definition DEFAULT_SESSION_TITLE :: string where "DEFAULT_SESSION_TITLE = (utf8 [0x65B0, 0x4F1A, 0x8BDD])"

abbreviation MAX_TITLE_LENGTH :: nat where "MAX_TITLE_LENGTH \<equiv> 18"
abbreviation MAX_SUMMARY_LENGTH :: nat where "MAX_SUMMARY_LENGTH \<equiv> 512"
abbreviation MAX_CONTEXT_MESSAGES :: nat where "MAX_CONTEXT_MESSAGES \<equiv> 20"
abbreviation MAX_CONTEXT_CHARS :: nat where "MAX_CONTEXT_CHARS \<equiv> 24000"
abbreviation MAX_RESPONSE_CHARS :: nat where "MAX_RESPONSE_CHARS \<equiv> 200000"
abbreviation MAX_TITLE_SOURCE_CHARS :: nat where "MAX_TITLE_SOURCE_CHARS \<equiv> 500"

definition rune_count :: "string \<Rightarrow> nat" where
  "rune_count s = length (runes s)"

definition first_runes :: "string \<Rightarrow> nat \<Rightarrow> string" where
  "first_runes s n = concat (take n (runes s))"

section \<open>Pairs of question and answer\<close>

definition skipped :: "chat_message \<Rightarrow> bool" where
  "skipped m \<longleftrightarrow> cm_deleted_at m \<noteq> None \<or> trim_space (cm_content m) = []"

text \<open>\<^verbatim>\<open>-1\<close> is \<open>None\<close>.\<close>

function next_completed_assistant_index :: "chat_message list \<Rightarrow> nat \<Rightarrow> nat option" where
  "next_completed_assistant_index ms index =
    (if length ms \<le> index then None
     else (let m = ms ! index in
       if skipped m then next_completed_assistant_index ms (Suc index)
       else if cm_role m = MESSAGE_ROLE_USER then None
       else if cm_role m = MESSAGE_ROLE_ASSISTANT then (if cm_status m = MESSAGE_STATUS_COMPLETED then Some index else None)
       else next_completed_assistant_index ms (Suc index)))"
  by pat_completeness auto
termination
  by (relation "measure (\<lambda>(ms, index). length ms - index)") auto

declare next_completed_assistant_index.simps [simp del]

lemma next_assistant_bounds:
  "next_completed_assistant_index ms i = Some j \<Longrightarrow> i \<le> j \<and> j < length ms \<and> \<not> skipped (ms ! j) \<and>
     cm_role (ms ! j) = MESSAGE_ROLE_ASSISTANT \<and> cm_status (ms ! j) = MESSAGE_STATUS_COMPLETED"
proof (induction ms i rule: next_completed_assistant_index.induct)
  case (1 ms index)
  show ?case
  proof (cases "length ms \<le> index")
    case False
    note eq = next_completed_assistant_index.simps [of ms index]
    consider "skipped (ms ! index)" | "\<not> skipped (ms ! index)" "cm_role (ms ! index) = MESSAGE_ROLE_USER"
      | "\<not> skipped (ms ! index)" "cm_role (ms ! index) = MESSAGE_ROLE_ASSISTANT"
      | "\<not> skipped (ms ! index)" "cm_role (ms ! index) \<noteq> MESSAGE_ROLE_USER" "cm_role (ms ! index) \<noteq> MESSAGE_ROLE_ASSISTANT"
      by blast
    then show ?thesis
    proof cases
      case a: 1
      from "1.prems" eq False a have "next_completed_assistant_index ms (Suc index) = Some j" by (simp add: Let_def)
      with "1.IH"(1) [OF False refl a] show ?thesis by simp
    next
      case 2
      with "1.prems" eq False show ?thesis by (simp add: Let_def)
    next
      case 3
      with "1.prems" eq False show ?thesis by (auto simp: Let_def split: if_splits)
    next
      case b: 4
      from "1.prems" eq False b have "next_completed_assistant_index ms (Suc index) = Some j" by (simp add: Let_def)
      with "1.IH"(2) [OF False refl b] show ?thesis by simp
    qed
  qed (use "1.prems" next_completed_assistant_index.simps [of ms index] in simp)
qed

definition message_context_of :: "chat_message \<Rightarrow> message_context" where
  "message_context_of m = \<lparr>mc_role = cm_role m, mc_content = cm_content m\<rparr>"

text \<open>The loop of \<^verbatim>\<open>toMessageContext\<close> from an index on.\<close>

function context_messages :: "chat_message list \<Rightarrow> nat \<Rightarrow> message_context list" where
  "context_messages ms index =
    (if length ms \<le> index then []
     else (let m = ms ! index in
       if skipped m then context_messages ms (Suc index)
       else if cm_role m = MESSAGE_ROLE_SYSTEM \<and> cm_status m = MESSAGE_STATUS_COMPLETED
         then message_context_of m # context_messages ms (Suc index)
       else if cm_role m \<noteq> MESSAGE_ROLE_USER \<or> cm_status m \<noteq> MESSAGE_STATUS_COMPLETED
         then context_messages ms (Suc index)
       else (case next_completed_assistant_index ms (Suc index) of
           None \<Rightarrow> context_messages ms (Suc index)
         | Some j \<Rightarrow> message_context_of m # message_context_of (ms ! j) # context_messages ms (Suc j))))"
  by pat_completeness auto
termination
  by (relation "measure (\<lambda>(ms, index). length ms - index)") (auto dest!: next_assistant_bounds intro!: diff_less_mono2)

declare context_messages.simps [simp del]

section \<open>The window\<close>

text \<open>From the newest message back; \<open>kept\<close> has the newest first.\<close>

fun keep_latest :: "message_context list \<Rightarrow> message_context list \<Rightarrow> nat \<Rightarrow> message_context list" where
  "keep_latest [] kept used = kept"
| "keep_latest (m # ms) kept used =
     (let chars = rune_count (mc_content m) in
      if MAX_CONTEXT_MESSAGES \<le> length kept \<or> MAX_CONTEXT_CHARS < used + chars then kept
      else keep_latest ms (kept @ [m]) (used + chars))"

definition is_system :: "message_context \<Rightarrow> bool" where
  "is_system m \<longleftrightarrow> mc_role m = MESSAGE_ROLE_SYSTEM"

definition context_chars :: "message_context list \<Rightarrow> nat" where
  "context_chars ms = sum_list (map (\<lambda>m. rune_count (mc_content m)) ms)"

definition apply_context_window :: "message_context list \<Rightarrow> message_context list" where
  "apply_context_window ms =
    (if ms = [] then ms
     else (let system = filter is_system ms; dialog = filter (\<lambda>m. \<not> is_system m) ms in
       system @ rev (keep_latest (rev dialog) [] (context_chars system))))"

definition to_message_context :: "chat_message list \<Rightarrow> message_context list" where
  "to_message_context ms = apply_context_window (context_messages ms 0)"

definition chat_history_context :: "chat_message list \<Rightarrow> message_context list" where
  "chat_history_context ms = to_message_context ms"

text \<open>\<^verbatim>\<open>buildHistory\<close>, with the system prompt of the service.\<close>

definition build_history :: "string \<Rightarrow> chat_message list \<Rightarrow> message_context list" where
  "build_history systemPrompt ms =
    (let history = to_message_context ms; prompt = trim_space systemPrompt in
     if prompt = [] then history
     else if \<exists>m \<in> set history. mc_role m = MESSAGE_ROLE_SYSTEM then history
     else \<lparr>mc_role = MESSAGE_ROLE_SYSTEM, mc_content = prompt\<rparr> # history)"

text \<open>\<^verbatim>\<open>chatHistoryForAgent\<close> of the agent service.\<close>

definition chat_history_for_agent :: "chat_message list \<Rightarrow> message_context list" where
  "chat_history_for_agent ms = filter (\<lambda>m. mc_role m \<noteq> MESSAGE_ROLE_SYSTEM) (chat_history_context ms)"

section \<open>Titles and summaries\<close>

definition one_line :: "string \<Rightarrow> string" where
  "one_line s = join '' '' (Go_Strings.fields s)"

definition title_for_message :: "string \<Rightarrow> string \<Rightarrow> string" where
  "title_for_message title content =
    (if trim_space title \<noteq> [] \<and> \<not> prefix DEFAULT_SESSION_TITLE title then title
     else (let c = one_line content in
       if c = [] then DEFAULT_SESSION_TITLE
       else if rune_count c \<le> MAX_TITLE_LENGTH then c
       else first_runes c MAX_TITLE_LENGTH @ ''...''))"

definition summary_for_content :: "string \<Rightarrow> string" where
  "summary_for_content content =
    (let c = one_line content in
     if c = [] then []
     else if rune_count c \<le> MAX_SUMMARY_LENGTH then c
     else first_runes c (MAX_SUMMARY_LENGTH - 3) @ ''...'')"

text \<open>\<^verbatim>\<open>titleForAgentMessage\<close> of the agent service.\<close>

definition title_for_agent_message :: "string \<Rightarrow> string \<Rightarrow> string" where
  "title_for_agent_message title content =
    (let t = trim_space title in
     if t \<noteq> [] \<and> t \<noteq> DEFAULT_SESSION_TITLE then t
     else (let c = one_line content in
       if c = [] then DEFAULT_SESSION_TITLE
       else if rune_count c \<le> MAX_TITLE_LENGTH then c
       else first_runes c MAX_TITLE_LENGTH @ ''...''))"

definition normalize_title :: "string \<Rightarrow> string \<Rightarrow> string" where
  "normalize_title title fallback = (let t = trim_space title in if t = [] then fallback else t)"

definition ai_truncate_runes :: "string \<Rightarrow> nat \<Rightarrow> string" where
  "ai_truncate_runes s n = (if rune_count s \<le> n then s else first_runes s n)"

definition is_auto_title :: "string \<Rightarrow> string \<Rightarrow> bool" where
  "is_auto_title title content \<longleftrightarrow>
    (let t = trim_space title in t = [] \<or> t = DEFAULT_SESSION_TITLE \<or> t = title_for_message [] content)"

text \<open>\<^verbatim>\<open>strings.Trim\<close> with a set of characters, each given by its encoding.\<close>

function cut_left :: "string list \<Rightarrow> string \<Rightarrow> string" where
  "cut_left us s = (case find (\<lambda>u. u \<noteq> [] \<and> prefix u s) us of None \<Rightarrow> s | Some u \<Rightarrow> cut_left us (drop (length u) s))"
  by pat_completeness auto
termination
  by (relation "measure (\<lambda>(us, s). length s)") (auto dest!: find_SomeD simp: prefix_def)

declare cut_left.simps [simp del]

definition cut_set :: "string list \<Rightarrow> string \<Rightarrow> string" where
  "cut_set us s = rev (cut_left (map rev us) (rev (cut_left us s)))"

definition title_quotes :: "string list" where
  "title_quotes = [[CHR 0x22], [CHR 0x27], utf8 [0x201C], utf8 [0x201D], utf8 [0x2018], utf8 [0x2019], [CHR 0x60]]"

definition sanitize_title :: "string \<Rightarrow> string" where
  "sanitize_title raw =
    (let t1 = trim_space raw; t2 = replace_byte (CHR 0x0A) (CHR '' '') t1; t3 = replace_byte (CHR 0x0D) (CHR '' '') t2;
         t4 = one_line t3; t5 = trim_space (cut_set title_quotes t4) in
     if t5 = [] then [] else ai_truncate_runes t5 MAX_TITLE_LENGTH)"

section \<open>Facts\<close>

lemma keep_latest_spec:
  assumes "length kept \<le> MAX_CONTEXT_MESSAGES" and "used = base + context_chars kept" and "kept \<noteq> [] \<longrightarrow> used \<le> MAX_CONTEXT_CHARS"
  shows "\<exists>n. keep_latest ms kept used = kept @ take n ms \<and> length (kept @ take n ms) \<le> MAX_CONTEXT_MESSAGES \<and>
     (kept @ take n ms \<noteq> [] \<longrightarrow> base + context_chars (kept @ take n ms) \<le> MAX_CONTEXT_CHARS) \<and>
     (n < length ms \<longrightarrow> length (kept @ take n ms) = MAX_CONTEXT_MESSAGES \<or> MAX_CONTEXT_CHARS < base + context_chars (kept @ take (Suc n) ms))"
  using assms
proof (induction ms kept used rule: keep_latest.induct)
  case (1 kept used)
  then show ?case by (intro exI [of _ 0]) simp
next
  case (2 m ms kept used)
  show ?case
  proof (cases "MAX_CONTEXT_MESSAGES \<le> length kept \<or> MAX_CONTEXT_CHARS < used + rune_count (mc_content m)")
    case True
    with 2 show ?thesis
      by (intro exI [of _ 0]) (auto simp: context_chars_def)
  next
    case False
    with 2 have "\<exists>n. keep_latest ms (kept @ [m]) (used + rune_count (mc_content m)) = (kept @ [m]) @ take n ms \<and>
        length ((kept @ [m]) @ take n ms) \<le> MAX_CONTEXT_MESSAGES \<and>
        ((kept @ [m]) @ take n ms \<noteq> [] \<longrightarrow> base + context_chars ((kept @ [m]) @ take n ms) \<le> MAX_CONTEXT_CHARS) \<and>
        (n < length ms \<longrightarrow> length ((kept @ [m]) @ take n ms) = MAX_CONTEXT_MESSAGES \<or>
          MAX_CONTEXT_CHARS < base + context_chars ((kept @ [m]) @ take (Suc n) ms))"
      by (intro 2) (auto simp: context_chars_def)
    then obtain n where "keep_latest ms (kept @ [m]) (used + rune_count (mc_content m)) = (kept @ [m]) @ take n ms \<and>
        length ((kept @ [m]) @ take n ms) \<le> MAX_CONTEXT_MESSAGES \<and>
        ((kept @ [m]) @ take n ms \<noteq> [] \<longrightarrow> base + context_chars ((kept @ [m]) @ take n ms) \<le> MAX_CONTEXT_CHARS) \<and>
        (n < length ms \<longrightarrow> length ((kept @ [m]) @ take n ms) = MAX_CONTEXT_MESSAGES \<or>
          MAX_CONTEXT_CHARS < base + context_chars ((kept @ [m]) @ take (Suc n) ms))" ..
    with False show ?thesis
      by (intro exI [of _ "Suc n"]) simp
  qed
qed

lemma context_chars_append [simp]: "context_chars (xs @ ys) = context_chars xs + context_chars ys"
  by (simp add: context_chars_def)

lemma context_chars_rev [simp]: "context_chars (rev xs) = context_chars xs"
  by (simp add: context_chars_def rev_map flip: rev_map)

text \<open>The messages of a conversation, systems aside, are questions with their answers.\<close>

lemma context_messages_pairs:
  "\<exists>n. map mc_role (filter (\<lambda>m. \<not> is_system m) (context_messages ms i)) = concat (replicate n [MESSAGE_ROLE_USER, MESSAGE_ROLE_ASSISTANT])"
proof (induction ms i rule: context_messages.induct)
  case (1 ms index)
  note eq = context_messages.simps [of ms index]
  show ?case
  proof (cases "length ms \<le> index")
    case True
    then have "context_messages ms index = []" by (simp add: eq)
    then show ?thesis by (intro exI [of _ 0]) simp
  next
    case False
    let ?m = "ms ! index"
    consider (skip) "context_messages ms index = context_messages ms (Suc index)"
        "\<exists>n. map mc_role (filter (\<lambda>m. \<not> is_system m) (context_messages ms (Suc index))) = concat (replicate n [MESSAGE_ROLE_USER, MESSAGE_ROLE_ASSISTANT])"
      | (system) "context_messages ms index = message_context_of ?m # context_messages ms (Suc index)" "cm_role ?m = MESSAGE_ROLE_SYSTEM"
        "\<exists>n. map mc_role (filter (\<lambda>m. \<not> is_system m) (context_messages ms (Suc index))) = concat (replicate n [MESSAGE_ROLE_USER, MESSAGE_ROLE_ASSISTANT])"
      | (pair) j where "next_completed_assistant_index ms (Suc index) = Some j"
        "context_messages ms index = message_context_of ?m # message_context_of (ms ! j) # context_messages ms (Suc j)"
        "cm_role ?m = MESSAGE_ROLE_USER"
        "\<exists>n. map mc_role (filter (\<lambda>m. \<not> is_system m) (context_messages ms (Suc j))) = concat (replicate n [MESSAGE_ROLE_USER, MESSAGE_ROLE_ASSISTANT])"
    proof (cases "skipped ?m")
      case True
      with False "1.IH"(1) [OF False refl True] show ?thesis by (intro that(1)) (simp_all add: eq Let_def)
    next
      case ns: False
      show ?thesis
      proof (cases "cm_role ?m = MESSAGE_ROLE_SYSTEM \<and> cm_status ?m = MESSAGE_STATUS_COMPLETED")
        case True
        with False ns "1.IH"(2) [OF False refl ns True] show ?thesis by (intro that(2)) (simp_all add: eq Let_def)
      next
        case nsys: False
        show ?thesis
        proof (cases "cm_role ?m \<noteq> MESSAGE_ROLE_USER \<or> cm_status ?m \<noteq> MESSAGE_STATUS_COMPLETED")
          case True
          with False ns nsys "1.IH"(3) [OF False refl ns nsys True] show ?thesis by (intro that(1)) (simp_all add: eq Let_def)
        next
          case user: False
          show ?thesis
          proof (cases "next_completed_assistant_index ms (Suc index)")
            case None
            with False ns nsys user "1.IH"(4) [OF False refl ns nsys user None] show ?thesis by (intro that(1)) (simp_all add: eq Let_def)
          next
            case (Some j)
            with False ns nsys user "1.IH"(5) [OF False refl ns nsys user Some] show ?thesis
              by (intro that(3) [OF Some]) (simp_all add: eq Let_def)
          qed
        qed
      qed
    qed
    then show ?thesis
    proof cases
      case skip
      then show ?thesis by simp
    next
      case system
      then show ?thesis by (simp add: is_system_def message_context_of_def)
    next
      case (pair j)
      from next_assistant_bounds [OF pair(1)] have "cm_role (ms ! j) = MESSAGE_ROLE_ASSISTANT" by simp
      moreover from pair(4) obtain n where
        "map mc_role (filter (\<lambda>m. \<not> is_system m) (context_messages ms (Suc j))) = concat (replicate n [MESSAGE_ROLE_USER, MESSAGE_ROLE_ASSISTANT])" ..
      ultimately show ?thesis
        using pair(2,3) by (intro exI [of _ "Suc n"]) (simp add: is_system_def message_context_of_def)
    qed
  qed
qed

lemma apply_window_spec:
  "\<exists>k \<le> length (filter (\<lambda>m. \<not> is_system m) ms).
     apply_context_window ms = filter is_system ms @ drop k (filter (\<lambda>m. \<not> is_system m) ms) \<and>
     length (filter (\<lambda>m. \<not> is_system m) ms) - k \<le> MAX_CONTEXT_MESSAGES \<and>
     (k = length (filter (\<lambda>m. \<not> is_system m) ms) \<or> context_chars (apply_context_window ms) \<le> MAX_CONTEXT_CHARS) \<and>
     (k = 0 \<or> length (filter (\<lambda>m. \<not> is_system m) ms) - k = MAX_CONTEXT_MESSAGES \<or>
      MAX_CONTEXT_CHARS < context_chars (filter is_system ms @ drop (k - 1) (filter (\<lambda>m. \<not> is_system m) ms)))"
proof -
  let ?d = "filter (\<lambda>m. \<not> is_system m) ms" and ?s = "filter is_system ms"
  from keep_latest_spec [of "[]" "context_chars ?s" "context_chars ?s" "rev ?d"]
  obtain n where n: "keep_latest (rev ?d) [] (context_chars ?s) = take n (rev ?d)" "length (take n (rev ?d)) \<le> MAX_CONTEXT_MESSAGES"
      "take n (rev ?d) \<noteq> [] \<longrightarrow> context_chars ?s + context_chars (take n (rev ?d)) \<le> MAX_CONTEXT_CHARS"
      "n < length ?d \<longrightarrow> length (take n (rev ?d)) = MAX_CONTEXT_MESSAGES \<or> MAX_CONTEXT_CHARS < context_chars ?s + context_chars (take (Suc n) (rev ?d))"
    by (auto simp: context_chars_def)
  let ?k = "length ?d - n"
  have tk: "rev (take m (rev ?d)) = drop (length ?d - m) ?d" for m by (simp add: take_rev)
  have "apply_context_window ms = ?s @ drop ?k ?d"
    using n(1) tk [of n] by (cases "ms = []") (simp_all add: apply_context_window_def Let_def)
  moreover have "length ?d - ?k \<le> MAX_CONTEXT_MESSAGES" using n(2) by simp
  moreover have "context_chars (take m (rev ?d)) = context_chars (drop (length ?d - m) ?d)" for m
    by (simp flip: tk)
  moreover have "?k = length ?d \<or> context_chars (?s @ drop ?k ?d) \<le> MAX_CONTEXT_CHARS"
    using n(3) calculation(3) [of n] by (cases "n = 0 \<or> ?d = []") auto
  moreover have "?k = 0 \<or> length ?d - ?k = MAX_CONTEXT_MESSAGES \<or> MAX_CONTEXT_CHARS < context_chars (?s @ drop (?k - 1) ?d)"
    using n(4) calculation(3) [of "Suc n"] by (cases "n < length ?d") (auto simp: Suc_diff_Suc)
  ultimately show ?thesis by (intro exI [of _ ?k]) simp
qed

section \<open>Properties\<close>

text \<open>
  What a conversation sends to the model is bounded: all its system messages, then the newest of its questions and answers, in order,
  at most 20 of them and at most 24000 characters together with the system messages; and no message is left out that would still fit.
\<close>

theorem context_window_bounded:
  "\<exists>k n dialog. map mc_role dialog = concat (replicate n [MESSAGE_ROLE_USER, MESSAGE_ROLE_ASSISTANT]) \<and>
     dialog = filter (\<lambda>m. \<not> is_system m) (context_messages ms 0) \<and>
     to_message_context ms = filter is_system (context_messages ms 0) @ drop k dialog \<and>
     length (drop k dialog) \<le> 20 \<and>
     (drop k dialog = [] \<or> context_chars (to_message_context ms) \<le> 24000) \<and>
     (k = 0 \<or> length (drop k dialog) = 20 \<or> 24000 < context_chars (filter is_system (context_messages ms 0) @ drop (k - 1) dialog))"
proof -
  let ?d = "filter (\<lambda>m. \<not> is_system m) (context_messages ms 0)"
  from context_messages_pairs [of ms 0] obtain n where
    "map mc_role ?d = concat (replicate n [MESSAGE_ROLE_USER, MESSAGE_ROLE_ASSISTANT])" ..
  moreover from apply_window_spec [of "context_messages ms 0"] obtain k where
    "apply_context_window (context_messages ms 0) = filter is_system (context_messages ms 0) @ drop k ?d"
    "length ?d - k \<le> MAX_CONTEXT_MESSAGES"
    "k = length ?d \<or> context_chars (apply_context_window (context_messages ms 0)) \<le> MAX_CONTEXT_CHARS"
    "k = 0 \<or> length ?d - k = MAX_CONTEXT_MESSAGES \<or> MAX_CONTEXT_CHARS < context_chars (filter is_system (context_messages ms 0) @ drop (k - 1) ?d)"
    by blast
  ultimately show ?thesis
    unfolding to_message_context_def by (intro exI [of _ k] exI [of _ n] exI [of _ ?d]) auto
qed

text \<open>
  The bound on the characters may separate a question from its answer: where the two together are too long and the answer is not, the
  window starts with the answer.
\<close>

lemma long_question_dropped:
  assumes "mc_role q = MESSAGE_ROLE_USER" and "mc_role a = MESSAGE_ROLE_ASSISTANT"
    and "rune_count (mc_content a) \<le> 24000" and "24000 < rune_count (mc_content q) + rune_count (mc_content a)"
  shows "apply_context_window [q, a] = [a]"
  using assms by (simp add: apply_context_window_def is_system_def context_chars_def)

end
