(* ===== verification/Chat_States.thy ===== *)
theory Chat_States
  imports Chat_Store Guarded_Rows "HOL-Library.Multiset"
begin

text \<open>
  Every order in which the statements of the chat repository can change the two tables: the saves of sessions and
  of messages may come after other statements (\<open>row_step\<close>). The messages of a session keep the
  numbers 1 to n whatever happens, and a message that is completed or failed stays so.
\<close>

section \<open>Histories of the tables\<close>

datatype chat_save = SaveSession chat_session | SaveMessage chat_message

datatype chat_update = UpdateSession chat_session | UpdateMessage string chat_message

fun planned_chat :: "chat_update \<Rightarrow> chat_tables \<Rightarrow> chat_save option" where
  "planned_chat (UpdateSession s) t = (case session_read None s t of Inr rec \<Rightarrow> Some (SaveSession rec) | Inl _ \<Rightarrow> None)"
| "planned_chat (UpdateMessage user m) t = (case message_read None user m t of MessageSave rec \<Rightarrow> Some (SaveMessage rec) | MessageDone _ \<Rightarrow> None)"

fun saved_chat :: "chat_save \<Rightarrow> chat_tables \<Rightarrow> chat_tables" where
  "saved_chat (SaveSession rec) t = snd (session_save None rec t)"
| "saved_chat (SaveMessage rec) t = snd (message_save None rec t)"

inductive chat_statement :: "chat_tables \<Rightarrow> chat_tables \<Rightarrow> bool" where
  ch_create: "chat_statement t (snd (create_session f s t))"
| ch_delete: "chat_statement t (snd (delete_session f now user sid t))"
| ch_append: "chat_statement t (snd (append_messages f user sid ms s t))"
| ch_stale: "chat_statement t (snd (fail_stale_messages f now before msg t))"

abbreviation chat_history :: "chat_tables \<times> chat_save list \<Rightarrow> chat_tables \<times> chat_save list \<Rightarrow> bool" where
  "chat_history \<equiv> row_steps planned_chat saved_chat chat_statement"

definition no_chat :: chat_tables where
  "no_chat = \<lparr>ct_sessions = [], ct_messages = []\<rparr>"

section \<open>Inserting rows\<close>

lemma gm_put_new: "gm_get t k = None \<Longrightarrow> gm_put k v t = t @ [(k, v)]"
  by (induction t) (auto simp: gm_put_def split: if_splits)

lemma gm_put_old: "gm_get t k = Some old \<Longrightarrow> f v = f old \<Longrightarrow> map (\<lambda>(k, r). f r) (gm_put k v t) = map (\<lambda>(k, r). f r) t"
  by (induction t) (auto simp: gm_put_def split: if_splits)

lemma insert_messages_rows:
  "insert_messages ms rows = Inr rows' \<Longrightarrow> rows' = rows @ map (\<lambda>m. (cm_id m, m)) ms \<and> (\<forall>m \<in> set ms. gm_get rows (cm_id m) = None)"
proof (induction ms arbitrary: rows)
  case (Cons m ms)
  then have new: "gm_get rows (cm_id m) = None" and rest: "insert_messages ms (gm_put (cm_id m) m rows) = Inr rows'"
    by auto
  from Cons.IH [OF rest] new show ?case
    by (auto simp: gm_put_new map_add_def split: option.splits)
qed simp

lemma insert_messages_ok: "insert_messages ms rows = Inr rows' \<Longrightarrow> gm_ok rows \<Longrightarrow> gm_ok rows'"
  by (induction ms arbitrary: rows) auto

lemma insert_messages_get:
  "insert_messages ms rows = Inr rows' \<Longrightarrow> gm_get rows' k = Some r \<Longrightarrow> gm_get rows k = Some r \<or> r \<in> set ms \<and> cm_id r = k"
  by (induction ms arbitrary: rows) (force split: if_splits)+

lemma insert_messages_keeps: "insert_messages ms rows = Inr rows' \<Longrightarrow> gm_get rows k = Some r \<Longrightarrow> gm_get rows' k = Some r"
proof (induction ms arbitrary: rows)
  case (Cons m ms)
  then have "gm_get rows (cm_id m) = None" and rest: "insert_messages ms (gm_put (cm_id m) m rows) = Inr rows'"
    by auto
  with Cons.prems(2) have "gm_get (gm_put (cm_id m) m rows) k = Some r" by auto
  from Cons.IH [OF rest this] show ?case .
qed simp

lemma number_messages_props:
  "m \<in> set (number_messages sid n ms) \<Longrightarrow> cm_session_id m = sid \<and> cm_deleted_at m = None"
  by (induction sid n ms rule: number_messages.induct) (auto simp: message_row_def)

lemma number_messages_sequence: "map cm_sequence (number_messages sid n ms) = [n + 1..n + int (length ms)]"
proof (induction sid n ms rule: number_messages.induct)
  case (2 sid n m ms)
  have "[n + 1..n + int (length (m # ms))] = (n + 1) # [n + 1 + 1..n + 1 + int (length ms)]"
    by (subst upto_rec1) (simp_all add: algebra_simps)
  with 2 show ?case by (simp add: message_row_def)
qed simp

lemma append_messages_cases:
  obtains "snd (append_messages f user sid ms s t) = t"
  | messages rec where "gm_get (ct_sessions t) sid = Some rec" and "session_visible user rec"
      and "insert_messages (number_messages sid (max_sequence sid t) ms) (ct_messages t) = Inr messages"
      and "snd (append_messages f user sid ms s t) =
        t\<lparr>ct_messages := messages, ct_sessions := gm_put (cs_id rec) (merge_session rec s) (ct_sessions t)\<rparr>"
proof (cases "append_messages f user sid ms s t")
  case (Pair r t')
  show ?thesis
  proof (cases r)
    case (Inl e)
    with Pair have "t' = t" by (auto simp: append_messages_def split: sum.splits)
    with Pair that(1) show ?thesis by simp
  next
    case (Inr v)
    with Pair have "\<exists>messages rec. gm_get (ct_sessions t) sid = Some rec \<and> session_visible user rec \<and>
        insert_messages (number_messages sid (max_sequence sid t) ms) (ct_messages t) = Inr messages \<and>
        t' = t\<lparr>ct_messages := messages, ct_sessions := gm_put (cs_id rec) (merge_session rec s) (ct_sessions t)\<rparr>"
      by (auto simp: append_messages_def Let_def first_row_def merge_session_def split: sum.splits option.splits if_splits)
    with Pair that(2) show ?thesis by auto
  qed
qed

section \<open>Numbering\<close>

text \<open>What of a message no operation changes, and the numbers of a session's messages.\<close>

definition message_shape :: "chat_message \<Rightarrow> string \<times> int \<times> instant option" where
  "message_shape r = (cm_session_id r, cm_sequence r, cm_deleted_at r)"

definition shapes :: "chat_tables \<Rightarrow> (string \<times> int \<times> instant option) list" where
  "shapes t = map (\<lambda>(k, r). message_shape r) (ct_messages t)"

definition shape_numbers :: "string \<Rightarrow> (string \<times> int \<times> instant option) list \<Rightarrow> int list" where
  "shape_numbers sid ss = map (\<lambda>(s, q, d). q) (filter (\<lambda>(s, q, d). s = sid \<and> d = None) ss)"

lemma session_numbers: "map cm_sequence (session_messages sid t) = shape_numbers sid (shapes t)"
proof -
  have "map cm_sequence (filter (\<lambda>r. cm_session_id r = sid \<and> cm_deleted_at r = None) (map snd rows)) =
      shape_numbers sid (map (\<lambda>(k, r). message_shape r) rows)" for rows :: "(string, chat_message) gmap"
    by (induction rows) (simp_all add: shape_numbers_def message_shape_def case_prod_unfold)
  then show ?thesis by (simp add: session_messages_def shapes_def)
qed

definition numbered :: "int list \<Rightarrow> bool" where
  "numbered ns \<longleftrightarrow> distinct ns \<and> set ns = {1..int (length ns)}"

lemma numbered_extend: "numbered ns \<Longrightarrow> numbered (ns @ [int (length ns) + 1..int (length ns) + int n])"
proof -
  have "{1..a} \<union> {a + 1..a + int n} = {1..a + int n}" if "0 \<le> a" for a by (use that in auto)
  from this [of "int (length ns)"] show "numbered ns \<Longrightarrow> ?thesis"
    by (simp add: numbered_def)
qed

lemma numbered_sorted: "numbered ns \<Longrightarrow> sort ns = [1..int (length ns)]"
  by (rule sorted_distinct_set_unique) (simp_all add: numbered_def)

lemma fold_max_set: "fold max xs a = Max (insert a (set xs))" for a :: int
  by (simp only: Max.set_eq_fold [symmetric] list.set)

lemma max_sequence_numbered:
  assumes "numbered (shape_numbers sid (shapes t))"
  shows "max_sequence sid t = int (length (shape_numbers sid (shapes t)))"
proof -
  have "max_sequence sid t = fold max (map cm_sequence (session_messages sid t)) 0"
    by (simp add: max_sequence_def fold_map o_def)
  also have "\<dots> = Max (insert 0 (set (shape_numbers sid (shapes t))))"
    by (simp only: session_numbers fold_max_set)
  also have "\<dots> = Max {0..int (length (shape_numbers sid (shapes t)))}"
  proof -
    have "insert 0 {1..int (length (shape_numbers sid (shapes t)))} = {0..int (length (shape_numbers sid (shapes t)))}"
      by auto
    with assms show ?thesis by (simp add: numbered_def)
  qed
  also have "\<dots> = int (length (shape_numbers sid (shapes t)))"
    by (intro Max_eqI) auto
  finally show ?thesis .
qed

definition chat_ok :: "chat_tables \<Rightarrow> bool" where
  "chat_ok t \<longleftrightarrow> gm_ok (ct_messages t) \<and> (\<forall>k r. gm_get (ct_messages t) k = Some r \<longrightarrow> cm_id r = k) \<and>
     (\<forall>k s. gm_get (ct_sessions t) k = Some s \<longrightarrow> cs_id s = k) \<and>
     (\<forall>sid. numbered (shape_numbers sid (shapes t)))"

fun save_ok :: "chat_tables \<Rightarrow> chat_save \<Rightarrow> bool" where
  "save_ok t (SaveSession s) = True"
| "save_ok t (SaveMessage p) = (\<exists>r. gm_get (ct_messages t) (cm_id p) = Some r \<and> message_shape p = message_shape r)"

definition chat_inv :: "chat_tables \<times> chat_save list \<Rightarrow> bool" where
  "chat_inv c \<longleftrightarrow> chat_ok (fst c) \<and> (\<forall>p \<in> set (snd c). save_ok (fst c) p)"

definition shapes_kept :: "chat_tables \<Rightarrow> chat_tables \<Rightarrow> bool" where
  "shapes_kept t t' \<longleftrightarrow> (\<forall>k r. gm_get (ct_messages t) k = Some r \<longrightarrow> (\<exists>r'. gm_get (ct_messages t') k = Some r' \<and> message_shape r' = message_shape r))"

lemma save_ok_kept: "shapes_kept t t' \<Longrightarrow> save_ok t p \<Longrightarrow> save_ok t' p"
  by (cases p) (force simp: shapes_kept_def)+

lemma shapes_kept_same: "ct_messages t' = ct_messages t \<Longrightarrow> shapes_kept t t'"
  by (simp add: shapes_kept_def)

lemma shapes_same: "ct_messages t' = ct_messages t \<Longrightarrow> shapes t' = shapes t"
  by (simp add: shapes_def)

text \<open>The two saves, and the other statements.\<close>

lemma session_save_ok:
  assumes "chat_ok t"
  shows "chat_ok (saved_chat (SaveSession s) t) \<and> shapes_kept t (saved_chat (SaveSession s) t)"
  using assms by (simp add: chat_ok_def session_save_def shapes_kept_def shapes_def)

lemma message_save_ok:
  assumes "chat_ok t" and "save_ok t (SaveMessage p)"
  shows "chat_ok (saved_chat (SaveMessage p) t) \<and> shapes_kept t (saved_chat (SaveMessage p) t)"
proof -
  from assms(2) obtain r where r: "gm_get (ct_messages t) (cm_id p) = Some r" "message_shape p = message_shape r" by auto
  then have "shapes (saved_chat (SaveMessage p) t) = shapes t"
    by (simp add: shapes_def message_save_def gm_put_old)
  with assms r show ?thesis by (simp add: chat_ok_def message_save_def shapes_kept_def)
qed

lemma append_ok:
  assumes "chat_ok t"
  shows "chat_ok (snd (append_messages f user sid ms s t)) \<and> shapes_kept t (snd (append_messages f user sid ms s t))"
proof (cases rule: append_messages_cases [of f user sid ms s t])
  case 1
  with assms show ?thesis by (simp add: shapes_kept_same)
next
  case (2 messages rec)
  let ?rows = "number_messages sid (max_sequence sid t) ms"
  let ?t = "snd (append_messages f user sid ms s t)"
  from assms have num: "numbered (shape_numbers i (shapes t))" for i by (simp add: chat_ok_def)
  have rows: "messages = ct_messages t @ map (\<lambda>m. (cm_id m, m)) ?rows"
    using insert_messages_rows [OF 2(3)] by simp
  have new: "shape_numbers i (map message_shape ?rows) =
      (if i = sid then [int (length (shape_numbers sid (shapes t))) + 1..int (length (shape_numbers sid (shapes t))) + int (length ms)] else [])" for i
  proof -
    have "filter (\<lambda>(s, q, d). s = i \<and> d = None) (map message_shape ?rows) = (if i = sid then map message_shape ?rows else [])"
      using number_messages_props by (auto simp: message_shape_def filter_empty_conv intro!: filter_True)
    moreover have "map (\<lambda>(s, q, d). q) (map message_shape ?rows) = map cm_sequence ?rows"
      by (simp add: message_shape_def)
    ultimately show ?thesis
      by (simp add: shape_numbers_def number_messages_sequence max_sequence_numbered [OF num])
  qed
  have "shapes ?t = shapes t @ map message_shape ?rows"
    using 2(4) rows by (simp add: shapes_def)
  then have "shape_numbers i (shapes ?t) = shape_numbers i (shapes t) @ shape_numbers i (map message_shape ?rows)" for i
    by (simp add: shape_numbers_def)
  then have "numbered (shape_numbers i (shapes ?t))" for i
    using num [of i] numbered_extend [OF num [of sid], of "length ms"] by (simp add: new)
  moreover have "cm_id r = k" if "gm_get messages k = Some r" for k r
    using insert_messages_get [OF 2(3) that] assms by (auto simp: chat_ok_def)
  ultimately show ?thesis
    using assms 2 insert_messages_ok [OF 2(3)] insert_messages_keeps [OF 2(3)]
    by (auto simp: chat_ok_def shapes_kept_def merge_session_def)
qed

lemma stale_ok:
  assumes "chat_ok t"
  shows "chat_ok (snd (fail_stale_messages f now before msg t)) \<and> shapes_kept t (snd (fail_stale_messages f now before msg t))"
proof (cases "f 0")
  case None
  let ?g = "\<lambda>r. r\<lparr>cm_status := MESSAGE_STATUS_FAILED, cm_error_message := msg, cm_completed_at := Some now\<rparr>"
  let ?t = "snd (fail_stale_messages f now before msg t)"
  have "map (\<lambda>(k, r). message_shape r) (update_where P ?g rows) = map (\<lambda>(k, r). message_shape r) rows" for P rows
    by (simp add: update_where_def message_shape_def case_prod_unfold)
  with None have "shapes ?t = shapes t"
    by (simp add: fail_stale_messages_def shapes_def)
  moreover from None have "\<exists>r'. gm_get (ct_messages ?t) k = Some r' \<and> message_shape r' = message_shape r \<and> cm_id r' = cm_id r"
    if "gm_get (ct_messages t) k = Some r" for k r
    using that by (simp add: fail_stale_messages_def message_shape_def)
  moreover from None have "\<exists>r. gm_get (ct_messages t) k = Some r \<and> cm_id r' = cm_id r"
    if "gm_get (ct_messages ?t) k = Some r'" for k r'
    using that by (auto simp: fail_stale_messages_def)
  moreover from None have "ct_sessions ?t = ct_sessions t" and "gm_ok (ct_messages t) \<Longrightarrow> gm_ok (ct_messages ?t)"
    by (simp_all add: fail_stale_messages_def)
  ultimately show ?thesis
    using assms by (fastforce simp: chat_ok_def shapes_kept_def)
qed (use assms in \<open>simp add: fail_stale_messages_def shapes_kept_same\<close>)

lemma session_statement_ok:
  assumes "chat_ok t"
  shows "chat_ok (snd (create_session f s t)) \<and> shapes_kept t (snd (create_session f s t))"
    and "chat_ok (snd (delete_session f now user sid t)) \<and> shapes_kept t (snd (delete_session f now user sid t))"
proof -
  show "chat_ok (snd (create_session f s t)) \<and> shapes_kept t (snd (create_session f s t))"
    using assms by (auto simp: create_session_def Let_def chat_ok_def shapes_def shapes_kept_same session_row_def split: sum.splits)
  show "chat_ok (snd (delete_session f now user sid t)) \<and> shapes_kept t (snd (delete_session f now user sid t))"
    using assms by (auto simp: delete_session_def chat_ok_def shapes_def shapes_kept_same split: option.splits)
qed

lemma chat_statement_ok: "chat_statement t t' \<Longrightarrow> chat_ok t \<Longrightarrow> chat_ok t' \<and> shapes_kept t t'"
  by (induction rule: chat_statement.induct) (rule session_statement_ok append_ok stale_ok; assumption)+

lemma planned_chat_ok:
  assumes "planned_chat u t = Some p" and "chat_ok t"
  shows "save_ok t p"
proof (cases u)
  case (UpdateSession s)
  with assms show ?thesis by (auto split: sum.splits)
next
  case (UpdateMessage user m)
  with assms show ?thesis
    by (auto simp: message_read_def first_row_def merge_message_def message_shape_def chat_ok_def
        split: message_plan.splits sum.splits option.splits if_splits)
qed

lemma saved_chat_ok: "chat_ok t \<Longrightarrow> save_ok t p \<Longrightarrow> chat_ok (saved_chat p t) \<and> shapes_kept t (saved_chat p t)"
  by (cases p) (simp_all only: session_save_ok message_save_ok)

lemma chat_inv_step: "row_step planned_chat saved_chat chat_statement c d \<Longrightarrow> chat_inv c \<Longrightarrow> chat_inv d"
proof (induction rule: row_step.induct)
  case (plan_save u s r ps)
  then show ?case using planned_chat_ok [of u s r] by (simp add: chat_inv_def)
next
  case (do_save r ps s)
  then have "chat_ok (saved_chat r s)" and "shapes_kept s (saved_chat r s)"
    using saved_chat_ok [of s r] by (auto simp: chat_inv_def)
  with do_save show ?case
    by (auto simp: chat_inv_def dest: notin_set_remove1 intro: save_ok_kept)
next
  case (drop_save r ps s)
  then show ?case by (auto simp: chat_inv_def dest: notin_set_remove1)
next
  case (other_step s s' ps)
  then have "chat_ok s'" and "shapes_kept s s'"
    using chat_statement_ok [of s s'] by (auto simp: chat_inv_def)
  with other_step show ?case by (auto simp: chat_inv_def intro: save_ok_kept)
qed

lemma chat_inv_init: "chat_inv (no_chat, [])"
  by (simp add: chat_inv_def chat_ok_def no_chat_def shapes_def shape_numbers_def numbered_def)

lemma chat_history_ok: "chat_history (no_chat, []) (t, ps) \<Longrightarrow> chat_ok t"
  using row_steps_invariant [of planned_chat saved_chat chat_statement "(no_chat, [])" "(t, ps)" chat_inv] chat_inv_step chat_inv_init
  by (auto simp: chat_inv_def)

section \<open>Final states of messages\<close>

fun save_key :: "chat_save \<Rightarrow> string + string" where
  "save_key (SaveSession s) = Inl (cs_id s)"
| "save_key (SaveMessage m) = Inr (cm_id m)"

fun save_status :: "chat_save \<Rightarrow> string" where
  "save_status (SaveSession s) = []"
| "save_status (SaveMessage m) = cm_status m"

fun chat_row :: "chat_tables \<Rightarrow> string + string \<Rightarrow> chat_save option" where
  "chat_row t (Inl k) = map_option SaveSession (gm_get (ct_sessions t) k)"
| "chat_row t (Inr k) = map_option SaveMessage (gm_get (ct_messages t) k)"

definition chat_keyed :: "chat_tables \<Rightarrow> bool" where
  "chat_keyed t \<longleftrightarrow> (\<forall>k r. gm_get (ct_messages t) k = Some r \<longrightarrow> cm_id r = k) \<and>
     (\<forall>k s. gm_get (ct_sessions t) k = Some s \<longrightarrow> cs_id s = k)"

lemma statement_keeps_final:
  assumes "chat_statement t t'" and "gm_get (ct_messages t) k = Some old" and "is_terminal_message_status (cm_status old)"
  shows "gm_get (ct_messages t') k = Some old"
  using assms(1)
proof cases
  case (ch_append f user sid ms s)
  show ?thesis
  proof (cases rule: append_messages_cases [of f user sid ms s t])
    case (2 messages rec)
    with ch_append insert_messages_keeps [OF 2(3) assms(2)] show ?thesis by simp
  qed (use ch_append assms in simp)
next
  case (ch_stale f now before msg)
  from assms(3) have "\<not> stale_message before old"
    by (auto simp: stale_message_def is_terminal_message_status_def)
  with ch_stale assms(2) show ?thesis
    by (auto simp: fail_stale_messages_def split: option.splits)
qed (use assms(2) in \<open>auto simp: create_session_def delete_session_def Let_def split: sum.splits option.splits\<close>)

lemma statement_keyed:
  assumes "chat_statement t t'" and "chat_keyed t"
  shows "chat_keyed t'"
  using assms(1)
proof cases
  case (ch_append f user sid ms s)
  show ?thesis
  proof (cases rule: append_messages_cases [of f user sid ms s t])
    case (2 messages rec)
    with ch_append assms(2) insert_messages_get [OF 2(3)] show ?thesis
      by (auto simp: chat_keyed_def merge_session_def)
  qed (use ch_append assms in simp)
qed (use assms(2) in \<open>auto simp: chat_keyed_def create_session_def delete_session_def fail_stale_messages_def session_row_def Let_def
      split: sum.splits option.splits\<close>)

interpretation chat_rows: guarded_rows chat_row save_key save_status is_terminal_message_status planned_chat saved_chat chat_statement chat_keyed
proof
  fix s u r old
  assume "chat_keyed s" and "planned_chat u s = Some r" and "chat_row s (save_key r) = Some old" and "is_terminal_message_status (save_status old)"
  then show "save_status r = save_status old"
    by (cases u) (auto simp: message_read_def first_row_def merge_message_def chat_keyed_def
        split: message_plan.splits sum.splits option.splits if_splits)
next
  fix s u r
  assume "chat_keyed s" and "planned_chat u s = Some r"
  then show "chat_row s (save_key r) \<noteq> None"
    by (cases u) (auto simp: message_read_def session_read_def first_row_def merge_message_def merge_session_def chat_keyed_def
        split: message_plan.splits sum.splits option.splits if_splits)
next
  fix r s k
  show "chat_row (saved_chat r s) k = (if k = save_key r then Some r else chat_row s k)"
    by (cases r; cases k) (auto simp: session_save_def message_save_def)
next
  fix s r
  assume "chat_keyed s"
  then show "chat_keyed (saved_chat r s)"
    by (cases r) (auto simp: chat_keyed_def session_save_def message_save_def)
next
  fix s s' k old
  assume st: "chat_statement s s'" and "chat_row s k = Some old" and "is_terminal_message_status (save_status old)"
  then obtain i m where "k = Inr i" and "old = SaveMessage m" and "gm_get (ct_messages s) i = Some m" and "is_terminal_message_status (cm_status m)"
    by (cases k) (auto simp: is_terminal_message_status_def)
  with statement_keeps_final [OF st] show "\<exists>new. chat_row s' k = Some new \<and> save_status new = save_status old"
    by auto
next
  fix s s'
  assume "chat_keyed s" and "chat_statement s s'"
  then show "chat_keyed s'" by (blast intro: statement_keyed)
qed

section \<open>Properties\<close>

text \<open>
  C27: the messages of a conversation have a total order without gaps: whatever requests are carried out, by whichever
  instance and in whichever interleaving, the messages of a session are listed with the numbers 1, 2, ..., n.
\<close>

theorem conversation_numbered:
  assumes "chat_history (no_chat, []) (t, ps)" and "list_messages f user sid t = Inr ms"
  shows "map cm_sequence ms = [1..int (length ms)]"
proof -
  let ?rows = "session_messages sid t"
  from assms(2) have ms: "ms = map to_domain_message (sort_key cm_sequence ?rows)"
    by (auto simp: list_messages_def)
  have "map cm_sequence ms = map cm_sequence (sort_key cm_sequence ?rows)"
    by (simp add: ms to_domain_message_def)
  also have "\<dots> = sort (map cm_sequence ?rows)"
    by (intro properties_for_sort [symmetric]) simp_all
  also have "\<dots> = [1..int (length (map cm_sequence ?rows))]"
    using chat_history_ok [OF assms(1)] by (intro numbered_sorted) (simp only: chat_ok_def session_numbers)
  finally show ?thesis by (simp add: ms)
qed

text \<open>
  An answer that is complete, or has failed, stays so: once the row of a message has one of these statuses and no save of another one
  is on its way, no request of any instance changes the status.
\<close>

theorem message_outcome_stays:
  assumes "chat_history (t, ps) (t', ps')" and "chat_keyed t"
    and "gm_get (ct_messages t) k = Some r" and "is_terminal_message_status (cm_status r)"
    and "\<forall>p \<in> set ps. save_key p = Inr k \<longrightarrow> save_status p = cm_status r"
  shows "\<exists>r'. gm_get (ct_messages t') k = Some r' \<and> cm_status r' = cm_status r"
proof -
  from assms(3) have "chat_row t (Inr k) = Some (SaveMessage r)" by simp
  from chat_rows.final_status_stays [OF assms(1,2) this] assms(4,5) show ?thesis by auto
qed

definition sample_session :: chat_session where
  "sample_session = \<lparr>cs_id = ''s'', cs_user_id = ''u'', cs_title = ''t'', cs_summary = [], cs_status = SESSION_STATUS_ACTIVE,
     cs_created_at = 0, cs_updated_at = 0, cs_deleted_at = None\<rparr>"

definition sample_message :: "string \<Rightarrow> string \<Rightarrow> string \<Rightarrow> chat_message" where
  "sample_message i role st = \<lparr>cm_id = i, cm_session_id = ''s'', cm_role = role, cm_content = ''x'', cm_content_type = MESSAGE_CONTENT_TYPE_MARKDOWN,
     cm_status = st, cm_sequence = 0, cm_provider = [], cm_model = [], cm_metadata = [], cm_prompt_tokens = 0, cm_completion_tokens = 0,
     cm_total_tokens = 0, cm_error_message = [], cm_created_at = 0, cm_completed_at = None, cm_deleted_at = None\<rparr>"

definition sample_chat :: chat_tables where
  "sample_chat = snd (append_messages no_fault ''u'' ''s'' [sample_message ''a'' MESSAGE_ROLE_USER MESSAGE_STATUS_COMPLETED,
     sample_message ''b'' MESSAGE_ROLE_ASSISTANT MESSAGE_STATUS_PENDING] sample_session (snd (create_session no_fault sample_session no_chat)))"

lemma sample_chat_history: "chat_history (no_chat, []) (sample_chat, [])"
  unfolding sample_chat_def by (meson other_step row_steps_one row_steps_trans ch_create ch_append)

lemma sample_list: "(case list_messages no_fault ''u'' ''s'' sample_chat of Inr ms \<Rightarrow> map cm_id ms = [''a'', ''b''] | Inl _ \<Rightarrow> False)"
  by code_simp

theorem conversation_numbered_witness:
  "\<exists>ms. list_messages no_fault ''u'' ''s'' sample_chat = Inr ms \<and> map cm_id ms = [''a'', ''b''] \<and> map cm_sequence ms = [1, 2]"
proof -
  from sample_list obtain ms where ms: "list_messages no_fault ''u'' ''s'' sample_chat = Inr ms" and ids: "map cm_id ms = [''a'', ''b'']"
    by (auto split: sum.splits)
  from ids have "length ms = 2" by (metis length_map length_Cons list.size(3) numeral_2_eq_2)
  moreover have "[1..2] = [1, 2 :: int]" by code_simp
  ultimately show ?thesis using conversation_numbered [OF sample_chat_history ms] ms ids by simp
qed

theorem message_outcome_stays_witness:
  "\<exists>r'. gm_get (ct_messages (snd (fail_stale_messages no_fault 9 9 ''stale'' sample_chat))) ''a'' = Some r' \<and> cm_status r' = MESSAGE_STATUS_COMPLETED"
proof -
  have "chat_history (sample_chat, []) (snd (fail_stale_messages no_fault 9 9 ''stale'' sample_chat), [])"
    by (intro row_steps_one other_step ch_stale)
  moreover have "chat_keyed sample_chat"
    using chat_history_ok [OF sample_chat_history] by (auto simp: chat_ok_def chat_keyed_def)
  moreover have "map_option cm_status (gm_get (ct_messages sample_chat) ''a'') = Some MESSAGE_STATUS_COMPLETED"
    by code_simp
  moreover from this obtain m where "gm_get (ct_messages sample_chat) ''a'' = Some m" and "cm_status m = MESSAGE_STATUS_COMPLETED"
    by (auto simp: map_option_eq_Some)
  ultimately show ?thesis
    using message_outcome_stays [of sample_chat "[]" _ "[]" "''a''" m]
    by (simp add: is_terminal_message_status_def)
qed

end
