(* ===== verification/Chat_Service.thy ===== *)
theory Chat_Service
  imports Chat_Context Chat_States Loop_Config Llm_Retry
begin

text \<open>
  The chat service (\<^verbatim>\<open>ai/application/service.go\<close>): sessions, messages, and the stream of an
  answer from its first row to its last event. The environment of an operation gives the failure of its \<open>n\<close>-th
  statement, what the other requests do to the tables just before it (\<open>cx_between\<close>), the clock, fresh
  IDs, and whether the \<open>n\<close>-th event can still be sent. The provider's stream is the list of its events. The
  context that is left over for persistence is never cancelled, so only \<open>cx_fault\<close> makes a statement fail.
\<close>

abbreviation "AI_CONNECTION_STATUS_CONNECTED \<equiv> ''connected''"

definition ErrAssistantUnavailable :: go_error where
  "ErrAssistantUnavailable = ErrMsg ''AI provider is not configured''"

definition ErrAssistantStreamInterrupted :: go_error where
  "ErrAssistantStreamInterrupted = ErrMsg ''AI provider stream interrupted before completion''"

definition ErrStreamingDisabled :: go_error where
  "ErrStreamingDisabled = ErrMsg ''llm provider streaming is disabled''"

record chat_reply = assistant_reply +
  cr_provider :: string
  cr_model :: string
  cr_prompt_tokens :: int
  cr_completion_tokens :: int

record assistant_stream_event =
  ae_delta :: string
  ae_done :: bool
  ae_err :: "go_error option"
  ae_reply :: chat_reply

datatype chat_event =
    MessageCreated chat_session chat_message chat_message
  | MessageDelta string string
  | MessageCompleted chat_session chat_message
  | MessageFailed chat_message string string

record chat_env =
  cx_fault :: "nat \<Rightarrow> go_error option"
  cx_between :: "nat \<Rightarrow> chat_tables \<Rightarrow> chat_tables"
  cx_now :: "nat \<Rightarrow> instant"
  cx_fresh :: "nat \<Rightarrow> string"
  cx_send :: "nat \<Rightarrow> bool"

text \<open>The service: whether it has a repository, the connection status, the system prompt.\<close>

record chat_service =
  cv_repo :: bool
  cv_status :: string
  cv_status_message :: string
  cv_prompt :: string

definition new_chat_service :: "string \<Rightarrow> string \<Rightarrow> bool \<Rightarrow> string \<Rightarrow> string \<Rightarrow> string \<Rightarrow> chat_service" where
  "new_chat_service identity fallbackPrompt repo status message systemPrompt =
    (let p = trim_space systemPrompt; q = (if p = [] then fallbackPrompt else p); r = trim_space q in
     \<lparr>cv_repo = repo, cv_status = status, cv_status_message = message,
      cv_prompt = (if r = [] then identity else if contains r identity then r else identity @ newline @ newline @ r)\<rparr>)"

section \<open>Checks and errors\<close>

definition err_no_chat_repository :: go_error where
  "err_no_chat_repository = ErrApp CodeInternal ''chat repository is unavailable'' 500 None"

definition ai_normalize_user_id :: "string \<Rightarrow> string go_result" where
  "ai_normalize_user_id user = (let u = trim_space user in
     if u = [] then Inl (ErrApp CodeUnauthorized ''user is required'' 401 None) else Inr u)"

definition normalize_id :: "string \<Rightarrow> string \<Rightarrow> string go_result" where
  "normalize_id i message = (let j = trim_space i in
     if j = [] then Inl (ErrApp CodeBadRequest message 400 None) else Inr j)"

definition map_chat_error :: "go_error \<Rightarrow> string \<Rightarrow> go_error" where
  "map_chat_error e notFound = (case map_repository (Some e) \<lparr>not_found_code = CodeNotFound, not_found_message = notFound,
      conflict_code = 0, conflict_message = []\<rparr> of Some e' \<Rightarrow> e' | None \<Rightarrow> e)"

definition ensure_assistant_connected :: "chat_service \<Rightarrow> go_error option" where
  "ensure_assistant_connected sv =
    (if cv_status sv = AI_CONNECTION_STATUS_CONNECTED then None
     else (let m = trim_space (cv_status_message sv) in
       Some (ErrApp CodeInternal (if m = [] then ''AI provider is not connected'' else m) 503 None)))"

definition map_assistant_error :: "go_error \<Rightarrow> go_error" where
  "map_assistant_error e =
    (if err_is e ErrCanceled then ErrApp CodeBadRequest ''generation canceled'' 400 (Some e)
     else if err_is e ErrDeadlineExceeded then ErrApp CodeTimeout ''AI provider request timed out'' 504 (Some e)
     else if err_is e ErrAssistantUnavailable then ErrApp CodeInternal (error_text ErrAssistantUnavailable) 503 (Some e)
     else if err_is e ErrAssistantStreamInterrupted then ErrApp CodeInternal (error_text ErrAssistantStreamInterrupted) 502 (Some e)
     else if err_is e ErrStreamingDisabled then ErrApp CodeInternal (error_text ErrStreamingDisabled) 502 (Some e)
     else (case first_some as_provider (err_chain e) of
       Some code \<Rightarrow>
         if code = 401 \<or> code = 403 then ErrApp CodeInternal ''AI provider authentication failed'' 502 (Some e)
         else if code = 429 then ErrApp CodeInternal ''AI provider rate limited'' 429 (Some e)
         else if code = 504 then ErrApp CodeInternal ''AI provider request timed out'' 504 (Some e)
         else if 500 \<le> code then ErrApp CodeInternal ''AI provider is unavailable'' 502 (Some e)
         else ErrApp CodeInternal ''AI provider request failed'' 502 (Some e)
     | None \<Rightarrow> e))"

definition user_facing_assistant_error :: "go_error \<Rightarrow> string" where
  "user_facing_assistant_error e = (case error_from (Some e) of
     Some a \<Rightarrow> if trim_space (app_message a) = [] then ''AI generation failed'' else app_message a
   | None \<Rightarrow> [])"

text \<open>What every operation checks first: the repository, the request, the user.\<close>

definition chat_checks :: "chat_service \<Rightarrow> go_error option \<Rightarrow> string \<Rightarrow> string go_result" where
  "chat_checks sv invalid user =
    (if \<not> cv_repo sv then Inl err_no_chat_repository
     else (case invalid of Some e \<Rightarrow> Inl e | None \<Rightarrow> ai_normalize_user_id user))"

section \<open>Statements in their environment\<close>

definition env_get_session :: "chat_env \<Rightarrow> nat \<Rightarrow> string \<Rightarrow> string \<Rightarrow> chat_tables \<Rightarrow> chat_session go_result \<times> chat_tables" where
  "env_get_session env n user sid t = (let t0 = cx_between env n t in (get_session (cx_fault env n) user sid t0, t0))"

definition env_list_messages :: "chat_env \<Rightarrow> nat \<Rightarrow> string \<Rightarrow> string \<Rightarrow> chat_tables \<Rightarrow> chat_message list go_result \<times> chat_tables" where
  "env_list_messages env n user sid t =
    (let t0 = cx_between env n t; t1 = cx_between env (Suc n) t0 in
     case stmt (cx_fault env n) (first_row sid (session_visible user) (ct_sessions t0)) of
       Inl e \<Rightarrow> (Inl e, t0)
     | Inr _ \<Rightarrow> (stmt (cx_fault env (Suc n)) (Inr (map to_domain_message (sort_key cm_sequence (session_messages sid t1)))), t1))"

definition env_append_messages ::
  "chat_env \<Rightarrow> nat \<Rightarrow> string \<Rightarrow> string \<Rightarrow> chat_message list \<Rightarrow> chat_session \<Rightarrow> chat_tables
    \<Rightarrow> (chat_session \<times> chat_message list) go_result \<times> chat_tables" where
  "env_append_messages env n user sid ms s t = append_messages (\<lambda>i. cx_fault env (n + i)) user sid ms s (cx_between env n t)"

definition env_update_session :: "chat_env \<Rightarrow> nat \<Rightarrow> chat_session \<Rightarrow> chat_tables \<Rightarrow> chat_session go_result \<times> chat_tables" where
  "env_update_session env n s t =
    (let t0 = cx_between env n t in
     case session_read (cx_fault env n) s t0 of
       Inl e \<Rightarrow> (Inl e, t0)
     | Inr rec \<Rightarrow> session_save (cx_fault env (Suc n)) rec (cx_between env (Suc n) t0))"

definition env_get_message :: "chat_env \<Rightarrow> nat \<Rightarrow> string \<Rightarrow> string \<Rightarrow> chat_tables \<Rightarrow> chat_message go_result \<times> chat_tables" where
  "env_get_message env n user mid t = (let t0 = cx_between env n t in (get_message (cx_fault env n) user mid t0, t0))"

definition env_update_message :: "chat_env \<Rightarrow> nat \<Rightarrow> string \<Rightarrow> chat_message \<Rightarrow> chat_tables \<Rightarrow> chat_message go_result \<times> chat_tables" where
  "env_update_message env n user m t =
    (let t0 = cx_between env n t in
     case message_read (cx_fault env n) user m t0 of
       MessageDone r \<Rightarrow> (r, t0)
     | MessageSave rec \<Rightarrow> message_save (cx_fault env (Suc n)) rec (cx_between env (Suc n) t0))"

section \<open>Sessions\<close>

definition service_list_sessions :: "chat_service \<Rightarrow> chat_env \<Rightarrow> string \<Rightarrow> chat_tables \<Rightarrow> chat_session list go_result" where
  "service_list_sessions sv env user t = (case chat_checks sv None user of
     Inl e \<Rightarrow> Inl e | Inr u \<Rightarrow> list_sessions (cx_fault env 0) u (cx_between env 0 t))"

definition service_list_messages ::
  "chat_service \<Rightarrow> chat_env \<Rightarrow> (chat_message list \<Rightarrow> chat_message list go_result) option \<Rightarrow> nat \<Rightarrow> string \<Rightarrow> string \<Rightarrow> chat_tables
    \<Rightarrow> chat_message list go_result \<times> chat_tables" where
  "service_list_messages sv env enricher n user sid t = (case chat_checks sv None user of
     Inl e \<Rightarrow> (Inl e, t)
   | Inr u \<Rightarrow> (case normalize_id sid ''session id is required'' of
       Inl e \<Rightarrow> (Inl e, t)
     | Inr i \<Rightarrow> (case env_list_messages env n u i t of
         (Inl e, t1) \<Rightarrow> (Inl (map_chat_error e ''chat session not found''), t1)
       | (Inr ms, t1) \<Rightarrow> (Inr (case enricher of
            None \<Rightarrow> ms
          | Some enrich \<Rightarrow> if ms = [] then ms else (case enrich ms of Inl e \<Rightarrow> ms | Inr ms' \<Rightarrow> ms')), t1))))"

definition service_get_session ::
  "chat_service \<Rightarrow> chat_env \<Rightarrow> (chat_message list \<Rightarrow> chat_message list go_result) option \<Rightarrow> string \<Rightarrow> string \<Rightarrow> chat_tables
    \<Rightarrow> (chat_session \<times> chat_message list) go_result \<times> chat_tables" where
  "service_get_session sv env enricher user sid t = (case chat_checks sv None user of
     Inl e \<Rightarrow> (Inl e, t)
   | Inr u \<Rightarrow> (case normalize_id sid ''session id is required'' of
       Inl e \<Rightarrow> (Inl e, t)
     | Inr i \<Rightarrow> (case env_get_session env 0 u i t of
         (Inl e, t1) \<Rightarrow> (Inl (map_chat_error e ''chat session not found''), t1)
       | (Inr s, t1) \<Rightarrow> (case service_list_messages sv env enricher 1 user sid t1 of
           (Inl e, t2) \<Rightarrow> (Inl e, t2)
         | (Inr ms, t2) \<Rightarrow> (Inr (s, ms), t2)))))"

definition service_create_session ::
  "chat_service \<Rightarrow> chat_env \<Rightarrow> (string \<Rightarrow> go_error option) \<Rightarrow> string \<Rightarrow> string \<Rightarrow> chat_tables \<Rightarrow> chat_session go_result \<times> chat_tables" where
  "service_create_session sv env invalid user title t = (case chat_checks sv (invalid (trim_space title)) user of
     Inl e \<Rightarrow> (Inl e, t)
   | Inr u \<Rightarrow> create_session (cx_fault env) \<lparr>cs_id = cx_fresh env 0, cs_user_id = u,
       cs_title = normalize_title (trim_space title) DEFAULT_SESSION_TITLE, cs_summary = [], cs_status = SESSION_STATUS_ACTIVE,
       cs_created_at = cx_now env 0, cs_updated_at = cx_now env 0, cs_deleted_at = None\<rparr> (cx_between env 0 t))"

definition service_update_session ::
  "chat_service \<Rightarrow> chat_env \<Rightarrow> (string \<Rightarrow> string \<Rightarrow> go_error option) \<Rightarrow> string \<Rightarrow> string \<Rightarrow> string \<Rightarrow> string \<Rightarrow> chat_tables
    \<Rightarrow> chat_session go_result \<times> chat_tables" where
  "service_update_session sv env invalid user sid title0 summary0 t =
    (let title = trim_space title0; summary = trim_space summary0 in
     case chat_checks sv (invalid title summary) user of
       Inl e \<Rightarrow> (Inl e, t)
     | Inr u \<Rightarrow> (case normalize_id sid ''session id is required'' of
         Inl e \<Rightarrow> (Inl e, t)
       | Inr i \<Rightarrow> (case env_get_session env 0 u i t of
           (Inl e, t1) \<Rightarrow> (Inl (map_chat_error e ''chat session not found''), t1)
         | (Inr s, t1) \<Rightarrow> (case env_update_session env 1
               (s\<lparr>cs_title := normalize_title title (cs_title s), cs_summary := summary, cs_updated_at := cx_now env 0\<rparr>) t1 of
             (Inl e, t2) \<Rightarrow> (Inl (map_chat_error e ''chat session not found''), t2)
           | (Inr s2, t2) \<Rightarrow> (Inr s2, t2)))))"

definition service_delete_session :: "chat_service \<Rightarrow> chat_env \<Rightarrow> string \<Rightarrow> string \<Rightarrow> chat_tables \<Rightarrow> go_error option \<times> chat_tables" where
  "service_delete_session sv env user sid t = (case chat_checks sv None user of
     Inl e \<Rightarrow> (Some e, t)
   | Inr u \<Rightarrow> (case normalize_id sid ''session id is required'' of
       Inl e \<Rightarrow> (Some e, t)
     | Inr i \<Rightarrow> (case delete_session (cx_fault env) (cx_now env 0) u i (cx_between env 0 t) of
         (Some e, t1) \<Rightarrow> (Some (map_chat_error e ''chat session not found''), t1)
       | (None, t1) \<Rightarrow> (None, t1))))"

section \<open>New messages\<close>

definition new_message :: "string \<Rightarrow> string \<Rightarrow> string \<Rightarrow> string \<Rightarrow> string \<Rightarrow> instant \<Rightarrow> chat_message" where
  "new_message i sid role content st now =
    \<lparr>cm_id = i, cm_session_id = sid, cm_role = role, cm_content = content, cm_content_type = MESSAGE_CONTENT_TYPE_MARKDOWN, cm_status = st,
     cm_sequence = 0, cm_provider = [], cm_model = [], cm_metadata = [], cm_prompt_tokens = 0, cm_completion_tokens = 0, cm_total_tokens = 0,
     cm_error_message = [], cm_created_at = now, cm_completed_at = (if st = MESSAGE_STATUS_COMPLETED then Some now else None), cm_deleted_at = None\<rparr>"

definition with_reply :: "chat_reply \<Rightarrow> chat_message \<Rightarrow> chat_message" where
  "with_reply r m = m\<lparr>cm_content := ar_content r, cm_provider := trim_space (cr_provider r), cm_model := trim_space (cr_model r),
     cm_prompt_tokens := cr_prompt_tokens r, cm_completion_tokens := cr_completion_tokens r, cm_total_tokens := ar_total_tokens r\<rparr>"

text \<open>\<^verbatim>\<open>maybeGenerateTitle\<close>: whether a title is generated in the background, and from what.\<close>

definition maybe_generate_title :: "chat_session \<Rightarrow> string \<Rightarrow> string option" where
  "maybe_generate_title s content = (let source = trim_space content in
     if source = [] then None else if \<not> is_auto_title (cs_title s) source then None else Some source)"

definition generate_title ::
  "chat_env \<Rightarrow> nat \<Rightarrow> string \<Rightarrow> chat_session \<Rightarrow> string \<Rightarrow> (string \<Rightarrow> chat_reply go_result) \<Rightarrow> chat_tables \<Rightarrow> chat_tables" where
  "generate_title env n user s content ask t = (case ask (ai_truncate_runes content MAX_TITLE_SOURCE_CHARS) of
     Inl e \<Rightarrow> t
   | Inr reply \<Rightarrow> (let title = sanitize_title (ar_content reply) in
       if title = [] \<or> title = trim_space (cs_title s) then t
       else (case env_get_session env n user (cs_id s) t of
         (Inl e, t1) \<Rightarrow> t1
       | (Inr latest, t1) \<Rightarrow>
           if \<not> is_auto_title (cs_title latest) content then t1
           else snd (env_update_session env (Suc n) (latest\<lparr>cs_title := title, cs_updated_at := cx_now env n\<rparr>) t1))))"

text \<open>
  The steps before the generation, common to \<^verbatim>\<open>CreateMessage\<close> and \<^verbatim>\<open>StreamMessage\<close>: the checks,
  the session and its messages (statements 0 to 2).
\<close>

definition open_conversation ::
  "chat_service \<Rightarrow> chat_env \<Rightarrow> (string \<Rightarrow> go_error option) \<Rightarrow> string \<Rightarrow> string \<Rightarrow> string \<Rightarrow> chat_tables
    \<Rightarrow> (string \<times> string \<times> chat_session \<times> chat_message list) go_result \<times> chat_tables" where
  "open_conversation sv env invalid user sid content t = (case chat_checks sv (invalid content) user of
     Inl e \<Rightarrow> (Inl e, t)
   | Inr u \<Rightarrow> (case normalize_id sid ''session id is required'' of
       Inl e \<Rightarrow> (Inl e, t)
     | Inr i \<Rightarrow> (case ensure_assistant_connected sv of
         Some e \<Rightarrow> (Inl e, t)
       | None \<Rightarrow> (case env_get_session env 0 u i t of
           (Inl e, t1) \<Rightarrow> (Inl (map_chat_error e ''chat session not found''), t1)
         | (Inr s, t1) \<Rightarrow> (case env_list_messages env 1 u i t1 of
             (Inl e, t2) \<Rightarrow> (Inl (map_chat_error e ''chat session not found''), t2)
           | (Inr ms, t2) \<Rightarrow> (Inr (u, i, s, ms), t2))))))"

definition create_message ::
  "chat_service \<Rightarrow> chat_env \<Rightarrow> (string \<Rightarrow> go_error option) \<Rightarrow> (message_context list \<Rightarrow> string \<Rightarrow> chat_reply go_result) \<Rightarrow> string \<Rightarrow> string \<Rightarrow> string
    \<Rightarrow> chat_tables \<Rightarrow> (chat_session \<times> chat_message list \<times> string option) go_result \<times> chat_tables" where
  "create_message sv env invalid generate user sid content0 t =
    (let content = trim_space content0 in
     case open_conversation sv env invalid user sid content t of
       (Inl e, t1) \<Rightarrow> (Inl e, t1)
     | (Inr (u, i, s, existing), t1) \<Rightarrow> (case generate (build_history (cv_prompt sv) existing) content of
         Inl e \<Rightarrow> (Inl (map_assistant_error e), t1)
       | Inr reply \<Rightarrow>
          (let now = cx_now env 0;
               um = new_message (cx_fresh env 0) i MESSAGE_ROLE_USER content MESSAGE_STATUS_COMPLETED now;
               am = with_reply reply (new_message (cx_fresh env 1) i MESSAGE_ROLE_ASSISTANT [] MESSAGE_STATUS_COMPLETED now);
               s1 = s\<lparr>cs_title := title_for_message (cs_title s) content, cs_summary := summary_for_content (cm_content am), cs_updated_at := now\<rparr> in
           case env_append_messages env 3 u i [um, am] s1 t1 of
             (Inl e, t2) \<Rightarrow> (Inl (map_chat_error e ''chat session not found''), t2)
           | (Inr (s2, ms), t2) \<Rightarrow>
               (Inr (s2, existing @ ms, if existing = [] then maybe_generate_title s2 content else None), t2))))"

section \<open>The stream of an answer\<close>

record chat_turn =
  tu_user :: string
  tu_session :: chat_session
  tu_question :: chat_message
  tu_answer :: chat_message
  tu_history :: "message_context list"
  tu_content :: string
  tu_first :: bool

text \<open>What \<^verbatim>\<open>StreamMessage\<close> hands to the goroutine of the stream.\<close>

definition stream_message ::
  "chat_service \<Rightarrow> chat_env \<Rightarrow> (string \<Rightarrow> go_error option) \<Rightarrow> string \<Rightarrow> string \<Rightarrow> string \<Rightarrow> chat_tables \<Rightarrow> chat_turn go_result \<times> chat_tables" where
  "stream_message sv env invalid user sid content0 t =
    (let content = trim_space content0 in
     case open_conversation sv env invalid user sid content t of
       (Inl e, t1) \<Rightarrow> (Inl e, t1)
     | (Inr (u, i, s, existing), t1) \<Rightarrow>
         (let now = cx_now env 0;
              um = new_message (cx_fresh env 0) i MESSAGE_ROLE_USER content MESSAGE_STATUS_COMPLETED now;
              am = new_message (cx_fresh env 1) i MESSAGE_ROLE_ASSISTANT [] MESSAGE_STATUS_PENDING now;
              s1 = s\<lparr>cs_title := title_for_message (cs_title s) content, cs_updated_at := now\<rparr> in
          case env_append_messages env 3 u i [um, am] s1 t1 of
            (Inl e, t2) \<Rightarrow> (Inl (map_chat_error e ''chat session not found''), t2)
          | (Inr (s2, ms), t2) \<Rightarrow> (Inr \<lparr>tu_user = u, tu_session = s2,
              tu_question = (if 2 \<le> length ms then ms ! 0 else um), tu_answer = (if 2 \<le> length ms then ms ! 1 else am),
              tu_history = build_history (cv_prompt sv) existing, tu_content = content, tu_first = (existing = [])\<rparr>, t2)))"

definition failed_message :: "string \<Rightarrow> instant \<Rightarrow> chat_message \<Rightarrow> chat_message" where
  "failed_message msg now m = m\<lparr>cm_status := MESSAGE_STATUS_FAILED, cm_error_message := msg, cm_completed_at := Some now\<rparr>"

definition mark_stream_message_failed ::
  "chat_env \<Rightarrow> nat \<Rightarrow> string \<Rightarrow> chat_message \<Rightarrow> string \<Rightarrow> chat_tables \<Rightarrow> chat_message go_result \<times> chat_tables" where
  "mark_stream_message_failed env n user m msg t = env_update_message env n user (failed_message msg (cx_now env n) m) t"

definition send_event :: "chat_env \<Rightarrow> chat_event \<Rightarrow> chat_event list \<Rightarrow> chat_event list" where
  "send_event env e evs = (if cx_send env (length evs) then evs @ [e] else evs)"

definition fail_stream_message ::
  "chat_env \<Rightarrow> nat \<Rightarrow> string \<Rightarrow> chat_message \<Rightarrow> go_error \<Rightarrow> chat_event list \<Rightarrow> chat_tables \<Rightarrow> chat_event list \<times> chat_tables" where
  "fail_stream_message env n user m e evs t =
    (let msg = user_facing_assistant_error e in
     case mark_stream_message_failed env n user m msg t of
       (r, t1) \<Rightarrow> (let m1 = (case r of Inr updated \<Rightarrow> updated | Inl _ \<Rightarrow> failed_message msg (cx_now env n) m) in
         (send_event env (MessageFailed m1 (cm_id m1) (cm_error_message m1)) evs, t1)))"

definition complete_stream_message ::
  "chat_env \<Rightarrow> nat \<Rightarrow> chat_turn \<Rightarrow> chat_message \<Rightarrow> chat_reply \<Rightarrow> chat_event list \<Rightarrow> chat_tables \<Rightarrow> chat_event list \<times> string option \<times> chat_tables" where
  "complete_stream_message env n tu m reply evs t =
    (let now = cx_now env n;
         m1 = (with_reply reply m)\<lparr>cm_status := MESSAGE_STATUS_COMPLETED, cm_completed_at := Some now, cm_error_message := []\<rparr> in
     case env_update_message env n (tu_user tu) m1 t of
       (Inl e, t1) \<Rightarrow> (case fail_stream_message env (n + 4) (tu_user tu) m1 (map_chat_error e ''chat message not found'') evs t1 of
           (evs1, t2) \<Rightarrow> (evs1, None, t2))
     | (Inr m2, t1) \<Rightarrow>
        (case env_update_session env (n + 2) ((tu_session tu)\<lparr>cs_summary := summary_for_content (cm_content m2), cs_updated_at := now\<rparr>) t1 of
           (Inl e, t2) \<Rightarrow> (case fail_stream_message env (n + 4) (tu_user tu) m2 (map_chat_error e ''chat session not found'') evs t2 of
               (evs1, t3) \<Rightarrow> (evs1, None, t3))
         | (Inr s2, t2) \<Rightarrow> (send_event env (MessageCompleted s2 m2) evs,
             if tu_first tu then maybe_generate_title s2 (tu_content tu) else None, t2)))"

datatype stream_end = StreamError go_error | StreamRefused | StreamDone chat_reply | StreamEnded

definition empty_chat_reply :: chat_reply where
  "empty_chat_reply = \<lparr>ar_content = [], ar_total_tokens = 0, cr_provider = [], cr_model = [], cr_prompt_tokens = 0, cr_completion_tokens = 0\<rparr>"

text \<open>The loop over the provider's events: how it ends, the text so far and the events sent. The length limit counts bytes.\<close>

fun consume_stream ::
  "chat_env \<Rightarrow> string \<Rightarrow> assistant_stream_event list \<Rightarrow> string \<Rightarrow> chat_event list \<Rightarrow> stream_end \<times> string \<times> chat_event list" where
  "consume_stream env mid [] content evs = (StreamEnded, content, evs)"
| "consume_stream env mid (e # es) content evs =
     (case ae_err e of
        Some err \<Rightarrow> (StreamError err, content, evs)
      | None \<Rightarrow>
         if ae_delta e = [] then
           (if ae_done e then (StreamDone (ae_reply e), content, evs) else consume_stream env mid es content evs)
         else (let content1 = content @ ae_delta e in
           if MAX_RESPONSE_CHARS < length content1 then (StreamDone (empty_chat_reply\<lparr>ar_content := content1\<rparr>), content1, evs)
           else if \<not> cx_send env (length evs) then (StreamRefused, content1, evs)
           else (let evs1 = evs @ [MessageDelta mid (ae_delta e)] in
             if ae_done e then (StreamDone (ae_reply e), content1, evs1) else consume_stream env mid es content1 evs1)))"

text \<open>
  \<^verbatim>\<open>runMessageStream\<close>: the events sent, the title to generate and the tables. \<open>stream\<close> is the
  provider's answer, \<open>ctxErr\<close> the state of the client's context when the stream has ended.
\<close>

definition run_message_stream ::
  "chat_env \<Rightarrow> chat_turn \<Rightarrow> assistant_stream_event list go_result \<Rightarrow> go_error option \<Rightarrow> chat_tables
    \<Rightarrow> chat_event list \<times> string option \<times> chat_tables" where
  "run_message_stream env tu stream ctxErr t =
    (case env_update_message env 0 (tu_user tu) ((tu_answer tu)\<lparr>cm_status := MESSAGE_STATUS_STREAMING\<rparr>) t of
       (Inl e, t1) \<Rightarrow> (case fail_stream_message env 2 (tu_user tu) ((tu_answer tu)\<lparr>cm_status := MESSAGE_STATUS_STREAMING\<rparr>)
           (map_chat_error e ''chat message not found'') [] t1 of (evs, t2) \<Rightarrow> (evs, None, t2))
     | (Inr m, t1) \<Rightarrow>
        if \<not> cx_send env 0 then ([], None, t1)
        else (let evs = [MessageCreated (tu_session tu) (tu_question tu) m] in
          case stream of
            Inl e \<Rightarrow> (case fail_stream_message env 2 (tu_user tu) m (map_assistant_error e) evs t1 of (evs1, t2) \<Rightarrow> (evs1, None, t2))
          | Inr es \<Rightarrow> (case consume_stream env (cm_id m) es [] evs of
              (StreamError e, content, evs1) \<Rightarrow>
                (case fail_stream_message env 2 (tu_user tu) m (map_assistant_error e) evs1 t1 of (evs2, t2) \<Rightarrow> (evs2, None, t2))
            | (StreamRefused, content, evs1) \<Rightarrow>
                (evs1, None, snd (mark_stream_message_failed env 2 (tu_user tu) m ''generation canceled'' t1))
            | (StreamEnded, content, evs1) \<Rightarrow>
                (case fail_stream_message env 2 (tu_user tu) m
                    (map_assistant_error (case ctxErr of Some e \<Rightarrow> e | None \<Rightarrow> ErrAssistantStreamInterrupted)) evs1 t1 of
                  (evs2, t2) \<Rightarrow> (evs2, None, t2))
            | (StreamDone reply, content, evs1) \<Rightarrow>
                complete_stream_message env 2 tu m (if ar_content reply = [] then reply\<lparr>ar_content := content\<rparr> else reply) evs1 t1)))"

section \<open>Cancelling and recovery\<close>

datatype cancel_effect = CancelActiveStream string | SignalCancel string

definition message_cancel_topic :: "string \<Rightarrow> string" where
  "message_cancel_topic mid = ''ai.message.cancel.'' @ trim_space mid"

text \<open>
  \<^verbatim>\<open>CancelMessage\<close>: the stream of this instance is interrupted and a signal sent to the others before
  the row is looked at; \<open>hasBus\<close> is whether there is an event bus, \<open>active\<close> whether the stream runs here.
\<close>

definition cancel_message ::
  "chat_service \<Rightarrow> chat_env \<Rightarrow> bool \<Rightarrow> (string \<Rightarrow> bool) \<Rightarrow> string \<Rightarrow> string \<Rightarrow> chat_tables
    \<Rightarrow> chat_message go_result \<times> cancel_effect list \<times> chat_tables" where
  "cancel_message sv env hasBus active user mid t = (case chat_checks sv None user of
     Inl e \<Rightarrow> (Inl e, [], t)
   | Inr u \<Rightarrow> (case normalize_id mid ''message id is required'' of
       Inl e \<Rightarrow> (Inl e, [], t)
     | Inr i \<Rightarrow> (case env_get_message env 0 u i t of
         (Inl e, t1) \<Rightarrow> (Inl (map_chat_error e ''chat message not found''), [], t1)
       | (Inr m, t1) \<Rightarrow>
          (let effects = (if active i then [CancelActiveStream i] else []) @ (if hasBus then [SignalCancel (message_cancel_topic i)] else []) in
           if cm_status m = MESSAGE_STATUS_COMPLETED \<or> cm_status m = MESSAGE_STATUS_FAILED then (Inr m, effects, t1)
           else (case env_update_message env 1 u (failed_message ''generation canceled'' (cx_now env 0) m) t1 of
               (Inl e, t2) \<Rightarrow> (Inl (map_chat_error e ''chat message not found''), effects, t2)
             | (Inr m2, t2) \<Rightarrow> (Inr m2, effects, t2))))))"

text \<open>\<^verbatim>\<open>messageCancelRequested\<close>; \<open>signaled\<close> is the answer of the event bus.\<close>

definition message_cancel_requested ::
  "chat_service \<Rightarrow> chat_env \<Rightarrow> bool go_result option \<Rightarrow> string \<Rightarrow> string \<Rightarrow> chat_tables \<Rightarrow> bool" where
  "message_cancel_requested sv env signaled user mid t =
    (let i = trim_space mid in
     if i = [] then False
     else if signaled = Some (Inr True) then True
     else if \<not> cv_repo sv then False
     else (case fst (env_get_message env 0 user i t) of
       Inl e \<Rightarrow> False
     | Inr m \<Rightarrow> cm_status m = MESSAGE_STATUS_FAILED \<and> trim_space (cm_error_message m) = ''generation canceled''))"

definition err_message_stale :: string where "err_message_stale = (''AI ''
    @ utf8 [0x751F, 0x6210, 0x56E0, 0x670D, 0x52A1, 0x4E2D, 0x65AD, 0x672A, 0x5B8C, 0x6210])"

definition recover_stale_messages :: "chat_service \<Rightarrow> chat_env \<Rightarrow> duration \<Rightarrow> chat_tables \<Rightarrow> nat go_result \<times> chat_tables" where
  "recover_stale_messages sv env staleAfter t =
    (if \<not> cv_repo sv then (Inl err_no_chat_repository, t)
     else fail_stale_messages (cx_fault env) (cx_now env 1)
       (cx_now env 0 - (if staleAfter \<le> 0 then 10 * minute else staleAfter)) err_message_stale (cx_between env 0 t))"

end
