(* ===== verification/Run_Service.thy ===== *)
theory Run_Service
  imports Run_States Run_Slots Chat_Stream
begin

text \<open>
  The service of the agent module (\<^verbatim>\<open>core/service.go\<close>, \<^verbatim>\<open>core/run_coordination.go\<close>):
  the admission of a run, its body from the first row to the last event, its cancellation and the reads of its
  evidence. The diagnosis itself is \<open>run_loop\<close>, the chat is that of \<open>Chat_Service\<close>. As
  there, statements are numbered, and before each of them the other requests may change the tables. The goroutines beside a run
  (the periodic heartbeat, the watch for a cancellation) act through these changes, through the events that can no longer be sent,
  and by ending the loop. \<^verbatim>\<open>refreshRuntimeConfig\<close>, which each operation calls first, has happened: the service
  is the one after it.
\<close>

section \<open>State, environment, requests\<close>

record world =
  wd_runs :: run_tables
  wd_chat :: chat_tables
  wd_slots :: slot_world

text \<open>
  \<open>rx_chat\<close> numbers the failures, times, fresh IDs and events of all statements, those on the tables of runs included; \<open>rx_runs n\<close>
  is what others do to these before statement \<open>n\<close>. \<open>rx_event n\<close> is whether the \<open>n\<close>-th event of
  the run itself is taken, \<open>rx_loop\<close> the answers the loop gets, \<open>rx_metadata\<close> the JSON text of a snapshot (empty when it cannot be
  written).
\<close>

record run_env =
  rx_chat :: chat_env
  rx_runs :: "nat \<Rightarrow> run_tables \<Rightarrow> run_tables"
  rx_coord :: "nat \<Rightarrow> call_fault"
  rx_event :: "nat \<Rightarrow> bool"
  rx_route :: route_env
  rx_loop :: loop_env
  rx_metadata :: "agent_run \<Rightarrow> tool_call_row list \<Rightarrow> evidence_row list \<Rightarrow> string"

record run_service =
  rs_repo :: bool
  rs_chat_repo :: bool
  rs_assistant :: "chat_service option"
  rs_generator :: "(string \<times> string) option"
  rs_instance :: string
  rs_admission :: run_admission
  rs_event_bus :: bool
  rs_learning :: bool

record run_agent_request =
  rar_message :: string
  rar_selected :: string
  rar_session :: string
  rar_cluster :: string
  rar_scope :: agent_scope
  rar_skill :: string

record run_chat_context =
  rcc_session :: chat_session
  rcc_question :: chat_message
  rcc_answer :: chat_message
  rcc_history :: "message_context list"

definition on_runs :: "run_env \<Rightarrow> nat \<Rightarrow> (go_error option \<Rightarrow> run_tables \<Rightarrow> 'a \<times> run_tables) \<Rightarrow> world \<Rightarrow> 'a \<times> world" where
  "on_runs env n op w = (case op (cx_fault (rx_chat env) n) (rx_runs env n (wd_runs w)) of (r, t) \<Rightarrow> (r, w\<lparr>wd_runs := t\<rparr>))"

definition on_chat :: "(chat_tables \<Rightarrow> 'a \<times> chat_tables) \<Rightarrow> world \<Rightarrow> 'a \<times> world" where
  "on_chat op w = (case op (wd_chat w) of (r, t) \<Rightarrow> (r, w\<lparr>wd_chat := t\<rparr>))"

abbreviation rx_now :: "run_env \<Rightarrow> nat \<Rightarrow> instant" where "rx_now env \<equiv> cx_now (rx_chat env)"
abbreviation rx_fresh :: "run_env \<Rightarrow> nat \<Rightarrow> string" where "rx_fresh env \<equiv> cx_fresh (rx_chat env)"

definition bad_request :: "string \<Rightarrow> go_error" where
  "bad_request message = ErrApp CodeBadRequest message 400 None"

definition not_found :: "go_error \<Rightarrow> string \<Rightarrow> go_error" where
  "not_found e message = ErrApp CodeNotFound message 404 (Some e)"

definition repository_unavailable :: go_error where
  "repository_unavailable = ErrApp CodeInternal ''agent repository is unavailable'' 500 None"

definition agent_normalize_user_id :: "string \<Rightarrow> string go_result" where
  "agent_normalize_user_id user = (let u = trim_space user in
     if u = [] then Inl (ErrApp CodeUnauthorized ''unauthorized'' 401 None) else Inr u)"

definition normalize_scope :: "agent_scope \<Rightarrow> agent_scope" where
  "normalize_scope s = s\<lparr>sc_namespace := trim_space (sc_namespace s), sc_kind := trim_space (sc_kind s),
     sc_name := trim_space (sc_name s), sc_container := trim_space (sc_container s)\<rparr>"

fun first_filled :: "string list \<Rightarrow> string" where
  "first_filled [] = []"
| "first_filled (v # vs) = (if trim_space v \<noteq> [] then v else first_filled vs)"

section \<open>Rows of the run\<close>

definition service_create_run :: "run_service \<Rightarrow> run_env \<Rightarrow> nat \<Rightarrow> agent_run \<Rightarrow> world \<Rightarrow> agent_run \<times> world" where
  "service_create_run sv env n r w = (if \<not> rs_repo sv then (r, w)
     else (case on_runs env n (\<lambda>f. create_run (\<lambda>_. f) r) w of
       (Inl e, w1) \<Rightarrow> (r, w1) | (Inr r1, w1) \<Rightarrow> (r1, w1)))"

definition env_update_run :: "run_env \<Rightarrow> nat \<Rightarrow> agent_run \<Rightarrow> world \<Rightarrow> agent_run go_result \<times> world" where
  "env_update_run env n r w = (case on_runs env n (\<lambda>f t. (update_read f r t, t)) w of
     (UpdateDone res, w1) \<Rightarrow> (res, w1)
   | (UpdateSave rec, w1) \<Rightarrow> on_runs env (Suc n) (\<lambda>f. update_save f rec) w1)"

definition service_update_run :: "run_service \<Rightarrow> run_env \<Rightarrow> nat \<Rightarrow> agent_run \<Rightarrow> world \<Rightarrow> agent_run \<times> world" where
  "service_update_run sv env n r w = (if \<not> rs_repo sv then (r, w)
     else (case env_update_run env n r w of (Inl e, w1) \<Rightarrow> (r, w1) | (Inr r1, w1) \<Rightarrow> (r1, w1)))"

text \<open>One heartbeat: whether the run may go on. The first is part of the run, the others come with \<open>rx_runs\<close>.\<close>

definition run_heartbeat :: "run_service \<Rightarrow> run_env \<Rightarrow> nat \<Rightarrow> string \<Rightarrow> run_slot \<Rightarrow> world \<Rightarrow> bool \<times> world" where
  "run_heartbeat sv env n runID slot w = (if trim_space runID = [] then (True, w)
     else (case refresh_run_slot (rx_now env n) (rx_coord env n) slot (wd_slots w) of
       (Inl e, s) \<Rightarrow> (False, w\<lparr>wd_slots := s\<rparr>)
     | (Inr alive, s) \<Rightarrow>
         if \<not> alive then (False, w\<lparr>wd_slots := s\<rparr>)
         else (True, if \<not> rs_repo sv then w\<lparr>wd_slots := s\<rparr>
           else snd (on_runs env n (\<lambda>f. heartbeat_run (\<lambda>_. f) runID (rs_instance sv) (rx_now env n) (rx_now env n + RUN_LEASE_TTL))
             (w\<lparr>wd_slots := s\<rparr>)))))"

section \<open>The chat beside a run\<close>

definition agent_chat_message :: "string \<Rightarrow> string \<Rightarrow> string \<Rightarrow> string \<Rightarrow> string \<Rightarrow> string \<Rightarrow> instant \<Rightarrow> chat_message" where
  "agent_chat_message agentType i sid role content st now =
    (new_message i sid role content st now)\<lparr>cm_provider := ''agent'', cm_model := agentType\<rparr>"

text \<open>\<^verbatim>\<open>prepareRunChatContext\<close>: statements \<open>n\<close> to \<open>n + 2\<close>, and the transaction from \<open>n + 3\<close> on.\<close>

definition prepare_run_chat_context ::
  "run_service \<Rightarrow> run_env \<Rightarrow> nat \<Rightarrow> string \<Rightarrow> run_agent_request \<Rightarrow> agent_definition \<Rightarrow> world
    \<Rightarrow> run_chat_context option go_result \<times> world" where
  "prepare_run_chat_context sv env n user req agent w =
    (let sid = trim_space (rar_session req) in
     if sid = [] then (Inr None, w)
     else if \<not> rs_chat_repo sv then (Inl err_no_chat_repository, w)
     else (case on_chat (env_get_session (rx_chat env) n user sid) w of
       (Inl e, w1) \<Rightarrow> (Inl (map_chat_error e ''chat session not found''), w1)
     | (Inr s, w1) \<Rightarrow>
        (case on_chat (env_list_messages (rx_chat env) (Suc n) user sid) w1 of (existing, w2) \<Rightarrow>
          (let now = rx_now env n;
               um = agent_chat_message (ag_type agent) (rx_fresh env n) sid MESSAGE_ROLE_USER (rar_message req) MESSAGE_STATUS_COMPLETED now;
               am = agent_chat_message (ag_type agent) (rx_fresh env (Suc n)) sid MESSAGE_ROLE_ASSISTANT [] MESSAGE_STATUS_PENDING now;
               s1 = s\<lparr>cs_title := title_for_agent_message (cs_title s) (rar_message req), cs_updated_at := now\<rparr> in
           case on_chat (env_append_messages (rx_chat env) (n + 3) user sid [um, am] s1) w2 of
             (Inl e, w3) \<Rightarrow> (Inl (map_chat_error e ''chat session not found''), w3)
           | (Inr (s2, ms), w3) \<Rightarrow> (Inr (Some
               \<lparr>rcc_session = s2, rcc_question = (if 2 \<le> length ms then ms ! 0 else um), rcc_answer = (if 2 \<le> length ms then ms ! 1 else am),
                rcc_history = (case existing of Inl e \<Rightarrow> [] | Inr old \<Rightarrow> chat_history_for_agent old)\<rparr>), w3)))))"

definition mark_run_chat_streaming ::
  "run_service \<Rightarrow> run_env \<Rightarrow> nat \<Rightarrow> string \<Rightarrow> run_chat_context option \<Rightarrow> world \<Rightarrow> run_chat_context option \<times> world" where
  "mark_run_chat_streaming sv env n user ctx w = (case ctx of
     None \<Rightarrow> (None, w)
   | Some c \<Rightarrow> if \<not> rs_chat_repo sv then (Some c, w)
     else (let m = (rcc_answer c)\<lparr>cm_status := MESSAGE_STATUS_STREAMING\<rparr> in
       case on_chat (env_update_message (rx_chat env) n user m) w of
         (Inl e, w1) \<Rightarrow> (Some (c\<lparr>rcc_answer := m\<rparr>), w1)
       | (Inr m1, w1) \<Rightarrow> (Some (c\<lparr>rcc_answer := m1\<rparr>), w1)))"

definition compact_tool_calls :: "tool_call_row list \<Rightarrow> tool_call_row list" where
  "compact_tool_calls cs = map (\<lambda>c. c\<lparr>tcr_input := []\<rparr>) cs"

definition compact_evidences :: "evidence_row list \<Rightarrow> evidence_row list" where
  "compact_evidences es = map (\<lambda>e. e\<lparr>er_raw_json := []\<rparr>) es"

definition agent_chat_message_metadata :: "run_service \<Rightarrow> run_env \<Rightarrow> nat \<Rightarrow> agent_run \<Rightarrow> world \<Rightarrow> string \<times> world" where
  "agent_chat_message_metadata sv env n r w =
    (if \<not> rs_repo sv \<or> trim_space (ar_id r) = [] then (rx_metadata env r [] [], w)
     else (case on_runs env n (\<lambda>f t. (list_tool_calls f (ar_id r) t, t)) w of (calls, w1) \<Rightarrow>
       (case on_runs env (Suc n) (\<lambda>f t. (list_evidence f (ar_id r) t, t)) w1 of (evs, w2) \<Rightarrow>
         (rx_metadata env r (case calls of Inl e \<Rightarrow> [] | Inr cs \<Rightarrow> compact_tool_calls cs)
            (case evs of Inl e \<Rightarrow> [] | Inr es \<Rightarrow> compact_evidences es), w2))))"

text \<open>The answer of the chat at the end of a run: statements \<open>n\<close> to \<open>n + 5\<close>.\<close>

definition final_chat_message :: "instant \<Rightarrow> string \<Rightarrow> string \<Rightarrow> agent_run \<Rightarrow> chat_message \<Rightarrow> chat_message" where
  "final_chat_message now answer metadata r m =
    m\<lparr>cm_content := trim_space answer, cm_provider := ''agent'', cm_model := ar_agent_type r, cm_metadata := metadata,
      cm_completed_at := Some (case ar_completed_at r of Some t \<Rightarrow> t | None \<Rightarrow> now),
      cm_status := (if ar_status r = RUN_STATUS_COMPLETED then MESSAGE_STATUS_COMPLETED else MESSAGE_STATUS_FAILED),
      cm_error_message := (if ar_status r = RUN_STATUS_COMPLETED then [] else first_filled [ar_error_message r, ''agent run interrupted''])\<rparr>"

definition finalize_run_chat_context ::
  "run_service \<Rightarrow> run_env \<Rightarrow> nat \<Rightarrow> string \<Rightarrow> run_chat_context option \<Rightarrow> string \<Rightarrow> agent_run \<Rightarrow> world
    \<Rightarrow> run_chat_context option \<times> world" where
  "finalize_run_chat_context sv env n user ctx answer r w = (case ctx of
     None \<Rightarrow> (None, w)
   | Some c \<Rightarrow> if \<not> rs_chat_repo sv then (Some c, w)
     else (case agent_chat_message_metadata sv env n r w of (metadata, w1) \<Rightarrow>
       (let m = final_chat_message (rx_now env n) answer metadata r (rcc_answer c) in
        case on_chat (env_update_message (rx_chat env) (n + 2) user m) w1 of (res, w2) \<Rightarrow>
          (let m1 = (case res of Inl e \<Rightarrow> m | Inr updated \<Rightarrow> updated);
               s = (rcc_session c)\<lparr>cs_summary := summary_for_content (cm_content m1),
                 cs_updated_at := (case ar_completed_at r of Some t \<Rightarrow> t | None \<Rightarrow> rx_now env n)\<rparr> in
           case on_chat (env_update_session (rx_chat env) (n + 4) s) w2 of (res2, w3) \<Rightarrow>
             (Some (c\<lparr>rcc_answer := m1, rcc_session := (case res2 of Inl e \<Rightarrow> s | Inr s2 \<Rightarrow> s2)\<rparr>), w3)))))"

section \<open>The run\<close>

text \<open>The events of a run; an event carries the chat of the run where there is one.\<close>

datatype run_stream_event =
    RouteCompleted route_result
  | RunCreated agent_run "run_chat_context option"
  | PlanCreated agent_run
  | LoopEvent run_event
  | RunCompleted agent_run "run_chat_context option"
  | RunFailedEvent agent_run string "run_chat_context option"

datatype run_effect = RecordCase agent_run | RecordMetrics agent_run run_stats

definition send_run_event :: "run_env \<Rightarrow> nat \<Rightarrow> run_stream_event \<Rightarrow> run_stream_event list" where
  "send_run_event env n e = (if rx_event env n then [e] else [])"

text \<open>The deferred end of a run that stopped before its time (statements 6 to 13).\<close>

definition interrupt_run ::
  "run_service \<Rightarrow> run_env \<Rightarrow> string \<Rightarrow> run_chat_context option \<Rightarrow> agent_run \<Rightarrow> world \<Rightarrow> agent_run \<times> world" where
  "interrupt_run sv env user ctx r w =
    (if ar_status r \<noteq> RUN_STATUS_RUNNING then (r, w)
     else (let r1 = interrupted_run (rx_now env 6) r in
       case service_update_run sv env 6 r1 w of (_, w1) \<Rightarrow>
         (r1, snd (finalize_run_chat_context sv env 8 user ctx (ar_summary r1) r1 w1))))"

text \<open>Its regular end (the same statements) and its last event.\<close>

definition finish_run ::
  "run_service \<Rightarrow> run_env \<Rightarrow> string \<Rightarrow> run_chat_context option \<Rightarrow> agent_run \<Rightarrow> string \<Rightarrow> go_error option \<Rightarrow> run_stats \<Rightarrow> world
    \<Rightarrow> run_stream_event list \<times> run_effect list \<times> agent_run \<times> world" where
  "finish_run sv env user ctx r answer loopErr stats w =
    (case service_update_run sv env 6 (finished_run (rx_now env 6) answer loopErr r) w of (r1, w1) \<Rightarrow>
      (case finalize_run_chat_context sv env 8 user ctx answer r1 w1 of (ctx1, w2) \<Rightarrow>
        (send_run_event env 3 (if ar_status r1 = RUN_STATUS_FAILED then RunFailedEvent r1 (ar_error_message r1) ctx1 else RunCompleted r1 ctx1),
         (if ar_status r1 = RUN_STATUS_COMPLETED then [RecordCase r1] else []) @ [RecordMetrics r1 stats], r1, w2)))"

definition run_loop_env :: "run_env \<Rightarrow> agent_run \<Rightarrow> agent_definition \<Rightarrow> run_agent_request \<Rightarrow> run_chat_context option \<Rightarrow> loop_env" where
  "run_loop_env env r agent req ctx = (rx_loop env)\<lparr>le_run_id := ar_id r, le_agent := agent,
     le_request := \<lparr>rr_message = rar_message req, rr_cluster_id = rar_cluster req, rr_scope = rar_scope req, rr_routed_skill = rar_skill req\<rparr>,
     le_chat := (case ctx of None \<Rightarrow> [] | Some c \<Rightarrow> rcc_history c),
     le_message_id := (case ctx of None \<Rightarrow> [] | Some c \<Rightarrow> cm_id (rcc_answer c))\<rparr>"

text \<open>
  \<^verbatim>\<open>run\<close>: the events the client gets, what is recorded in the background, the run as it was last
  seen, and the tables. \<open>None\<close> is a loop that does not end.
\<close>

definition run_body ::
  "run_service \<Rightarrow> run_env \<Rightarrow> string \<Rightarrow> string \<Rightarrow> agent_definition \<Rightarrow> run_agent_request \<Rightarrow> route_result \<Rightarrow> run_chat_context option \<Rightarrow> run_slot \<Rightarrow> world
    \<Rightarrow> (run_stream_event list \<times> run_effect list \<times> agent_run \<times> world) option" where
  "run_body sv env runID user agent req ro ctx slot w =
    (let r0 = started_run (rs_instance sv) (rx_now env 0) runID user (ag_type agent)
           \<lparr>ri_message = rar_message req, ri_cluster = rar_cluster req, ri_scope = rar_scope req\<rparr> ro in
     case service_create_run sv env 0 r0 w of (r, w1) \<Rightarrow>
     (case mark_run_chat_streaming sv env 2 user ctx (snd (run_heartbeat sv env 1 (ar_id r) slot w1)) of (ctx1, w2) \<Rightarrow>
      (let ev0 = send_run_event env 0 (RouteCompleted ro);
           ev1 = ev0 @ send_run_event env 1 (RunCreated r ctx1);
           ev2 = ev1 @ send_run_event env 2 (PlanCreated r) in
       if \<not> rx_event env 1 then (case interrupt_run sv env user ctx1 r w2 of (r1, w3) \<Rightarrow> Some (ev0, [], r1, w3))
       else if \<not> rx_event env 2 then (case interrupt_run sv env user ctx1 r w2 of (r1, w3) \<Rightarrow> Some (ev1, [], r1, w3))
       else (case run_loop (run_loop_env env r agent req ctx1) of
          None \<Rightarrow> None
        | Some (outcome, st) \<Rightarrow>
           (let evs = ev2 @ map LoopEvent (ls_events st) in
            case outcome of
              ClientGone \<Rightarrow> (case interrupt_run sv env user ctx1 r w2 of (r1, w3) \<Rightarrow> Some (evs, [], r1, w3))
            | Answered answer \<Rightarrow> (case finish_run sv env user ctx1 r answer None (ls_stats st) w2 of
                (fin, effects, r1, w3) \<Rightarrow> Some (evs @ fin, effects, r1, w3))
            | RunFailed e \<Rightarrow> (case finish_run sv env user ctx1 r [] (Some e) (ls_stats st) w2 of
                (fin, effects, r1, w3) \<Rightarrow> Some (evs @ fin, effects, r1, w3)))))))"

section \<open>Admission\<close>

definition ensure_agent_llm :: "run_service \<Rightarrow> go_error option" where
  "ensure_agent_llm sv = (case rs_generator sv of
     None \<Rightarrow> Some (ErrApp CodeInternal ''AI provider is not connected'' 503 None)
   | Some (st, message) \<Rightarrow> if st = AI_CONNECTION_STATUS_CONNECTED then None
     else Some (ErrApp CodeInternal (if trim_space message = [] then ''AI provider is not connected'' else trim_space message) 503 None))"

definition normalize_run_request :: "run_agent_request \<Rightarrow> run_agent_request" where
  "normalize_run_request req = req\<lparr>rar_message := trim_space (rar_message req), rar_selected := trim_space (rar_selected req),
     rar_session := trim_space (rar_session req), rar_cluster := trim_space (rar_cluster req), rar_scope := normalize_scope (rar_scope req)\<rparr>"

definition err_too_many_runs :: go_error where
  "err_too_many_runs = ErrApp CodeTooManyRequests
    (utf8 [0x5E76, 0x53D1, 0x8FD0, 0x884C, 0x7684] @ '' Agent '' @ utf8 [0x4EFB, 0x52A1, 0x8FC7, 0x591A] @ '','' @
     utf8 [0x8BF7, 0x7A0D, 0x540E, 0x518D, 0x8BD5]) 429 None"

text \<open>Where a message goes: to the assistant, or to a run with its slot and its chat.\<close>

datatype stream_start =
    AssistantStream chat_turn route_result
  | RunStarted string string agent_definition run_agent_request route_result "run_chat_context option" run_slot

text \<open>
  \<^verbatim>\<open>streamAssistantMessage\<close>: the chat's own stream, whose events follow the one of the route.
\<close>

definition stream_assistant_message ::
  "run_service \<Rightarrow> run_env \<Rightarrow> (string \<Rightarrow> go_error option) \<Rightarrow> string \<Rightarrow> run_agent_request \<Rightarrow> route_result \<Rightarrow> world \<Rightarrow> stream_start go_result \<times> world" where
  "stream_assistant_message sv env invalid user req ro w = (case rs_assistant sv of
     None \<Rightarrow> (Inl (ErrApp CodeInternal ''AI assistant is unavailable'' 503 None), w)
   | Some cv \<Rightarrow> (case on_chat (stream_message cv (rx_chat env) invalid user (rar_session req) (rar_message req)) w of
       (Inl e, w1) \<Rightarrow> (Inl e, w1)
     | (Inr turn, w1) \<Rightarrow> (Inr (AssistantStream turn ro), w1)))"

text \<open>
  The admission of a run of an agent: its slot, then its chat (statements 0 on), which gives the slot back when it fails.
\<close>

definition admit_run ::
  "run_service \<Rightarrow> run_env \<Rightarrow> string \<Rightarrow> agent_definition \<Rightarrow> run_agent_request \<Rightarrow> route_result \<Rightarrow> world \<Rightarrow> stream_start go_result \<times> world" where
  "admit_run sv env user agent req ro w =
    (let runID = rx_fresh env 100 in
     case acquire_run_slot (rs_admission sv) (rx_now env 0) (rx_coord env 0) user runID (wd_slots w) of
       (Inl e, s) \<Rightarrow> (Inl e, w\<lparr>wd_slots := s\<rparr>)
     | (Inr None, s) \<Rightarrow> (Inl err_too_many_runs, w\<lparr>wd_slots := s\<rparr>)
     | (Inr (Some slot), s) \<Rightarrow>
        (case prepare_run_chat_context sv env 0 user req agent (w\<lparr>wd_slots := s\<rparr>) of
           (Inl e, w1) \<Rightarrow> (Inl e, w1\<lparr>wd_slots := snd (snd (release_run_slot (rx_now env 8) (rx_coord env 8) slot (wd_slots w1)))\<rparr>)
         | (Inr ctx, w1) \<Rightarrow> (Inr (RunStarted runID user agent req ro ctx slot), w1)))"

text \<open>\<^verbatim>\<open>StreamRun\<close>; the second component is whether the choice of the user is recorded for the routing, whatever becomes of the run.\<close>

definition stream_run ::
  "run_service \<Rightarrow> run_env \<Rightarrow> (run_agent_request \<Rightarrow> go_error option) \<Rightarrow> (string \<Rightarrow> go_error option) \<Rightarrow> string \<Rightarrow> string \<Rightarrow> run_agent_request
    \<Rightarrow> world \<Rightarrow> stream_start go_result \<times> bool \<times> world" where
  "stream_run sv env invalid invalidContent user0 agentType0 req0 w =
    (let req = normalize_run_request req0 in
     case invalid req of
       Some e \<Rightarrow> (Inl e, False, w)
     | None \<Rightarrow> (case agent_normalize_user_id user0 of
         Inl e \<Rightarrow> (Inl e, False, w)
       | Inr user \<Rightarrow>
          (let agentType = trim_space agentType0;
               ro = route (rx_route env) \<lparr>rt_message = rar_message req, rt_selected = first_filled [rar_selected req, agentType],
                 rt_cluster = rar_cluster req, rt_scope = rar_scope req\<rparr>;
               ty = (if agentType = [] \<or> agentType = AGENT_TYPE_AUTO then ro_agent_type ro else agentType) in
           if ty = AGENT_TYPE_ASSISTANT \<or> ty = AGENT_TYPE_NONE
           then (case stream_assistant_message sv env invalidContent user req ro w of (res, w1) \<Rightarrow> (res, False, w1))
           else (case ag_get (rv_registry (rx_route env)) ty of
             None \<Rightarrow> (Inl (bad_request ''agent is unavailable''), False, w)
           | Some agent \<Rightarrow>
               if \<not> ag_available agent then (Inl (bad_request ''agent is unavailable''), False, w)
               else if trim_space (rar_cluster req) = [] then (Inl (bad_request ''cluster id is required''), False, w)
               else (case ensure_agent_llm sv of
                 Some e \<Rightarrow> (Inl e, False, w)
               | None \<Rightarrow> (case admit_run sv env user agent (req\<lparr>rar_skill := trim_space (ro_skill ro)\<rparr>)
                   (ro\<lparr>ro_agent_type := ag_type agent\<rparr>) w of
                     (res, w1) \<Rightarrow> (res, rs_learning sv \<and> ro_source ro = ROUTE_SOURCE_USER, w1)))))))"

section \<open>Cancellation and evidence\<close>

datatype run_signal = CancelActiveRun string | SignalRunCancel string

definition run_cancel_topic :: "string \<Rightarrow> string" where
  "run_cancel_topic runID = ''agent.run.cancel.'' @ trim_space runID"

definition request_run_cancel :: "run_service \<Rightarrow> string \<Rightarrow> run_signal list" where
  "request_run_cancel sv runID =
    (if \<not> rs_event_bus sv \<or> trim_space runID = [] then [] else [SignalRunCancel (run_cancel_topic runID)])"

text \<open>\<^verbatim>\<open>runCancelRequested\<close>; \<open>signaled\<close> is the answer of the event bus.\<close>

definition run_cancel_requested :: "run_service \<Rightarrow> run_env \<Rightarrow> nat \<Rightarrow> bool go_result \<Rightarrow> string \<Rightarrow> world \<Rightarrow> bool \<times> world" where
  "run_cancel_requested sv env n signaled runID0 w =
    (let runID = trim_space runID0 in
     if runID = [] then (False, w)
     else if rs_event_bus sv \<and> signaled = Inr True then (True, w)
     else if \<not> rs_repo sv then (False, w)
     else (case on_runs env n (\<lambda>f t. (get_run f runID t, t)) w of
       (Inl e, w1) \<Rightarrow> (False, w1)
     | (Inr r, w1) \<Rightarrow> (ar_status r = RUN_STATUS_CANCELLED, w1)))"

text \<open>\<^verbatim>\<open>cancelRun\<close> (statements 1 and 2); \<open>active\<close> is the map of the runs of this instance.\<close>

definition cancel_run ::
  "run_service \<Rightarrow> run_env \<Rightarrow> (string \<Rightarrow> bool) \<Rightarrow> agent_run \<Rightarrow> world \<Rightarrow> agent_run go_result \<times> run_signal list \<times> world" where
  "cancel_run sv env active r w =
    (let signals = (if active (ar_id r) then [CancelActiveRun (ar_id r)] else []) @ request_run_cancel sv (ar_id r) in
     if ar_status r \<noteq> RUN_STATUS_RUNNING \<and> ar_status r \<noteq> RUN_STATUS_PENDING then (Inr r, signals, w)
     else (case env_update_run env 1 (cancelled_run (rx_now env 1) r) w of (res, w1) \<Rightarrow> (res, signals, w1)))"

text \<open>The read of a run, statement 0, and who may see it.\<close>

definition find_run :: "run_env \<Rightarrow> string \<Rightarrow> world \<Rightarrow> agent_run go_result \<times> world" where
  "find_run env runID w = (case on_runs env 0 (\<lambda>f t. (get_run f runID t, t)) w of
     (Inl e, w1) \<Rightarrow> (Inl (not_found e ''agent run not found''), w1) | (Inr r, w1) \<Rightarrow> (Inr r, w1))"

definition own_run :: "run_env \<Rightarrow> string \<Rightarrow> string \<Rightarrow> world \<Rightarrow> agent_run go_result \<times> world" where
  "own_run env user runID w = (case find_run env runID w of
     (Inl e, w1) \<Rightarrow> (Inl e, w1)
   | (Inr r, w1) \<Rightarrow> if ar_user_id r \<noteq> user then (Inl (ErrApp CodeForbidden ''agent run is not accessible'' 403 None), w1) else (Inr r, w1))"

definition service_cancel_run ::
  "run_service \<Rightarrow> run_env \<Rightarrow> (string \<Rightarrow> bool) \<Rightarrow> string \<Rightarrow> string \<Rightarrow> world \<Rightarrow> agent_run go_result \<times> run_signal list \<times> world" where
  "service_cancel_run sv env active user0 runID0 w =
    (if \<not> rs_repo sv then (Inl repository_unavailable, [], w)
     else (case agent_normalize_user_id user0 of
       Inl e \<Rightarrow> (Inl e, [], w)
     | Inr user \<Rightarrow> (let runID = trim_space runID0 in
        if runID = [] then (Inl (bad_request ''run id is required''), [], w)
        else (case own_run env user runID w of
          (Inl e, w1) \<Rightarrow> (Inl e, [], w1)
        | (Inr r, w1) \<Rightarrow> cancel_run sv env active r w1))))"

definition cancel_run_for_admin ::
  "run_service \<Rightarrow> run_env \<Rightarrow> (string \<Rightarrow> bool) \<Rightarrow> string \<Rightarrow> string \<Rightarrow> world \<Rightarrow> agent_run go_result \<times> run_signal list \<times> world" where
  "cancel_run_for_admin sv env active user0 runID0 w =
    (if \<not> rs_repo sv then (Inl repository_unavailable, [], w)
     else (case agent_normalize_user_id user0 of
       Inl e \<Rightarrow> (Inl e, [], w)
     | Inr user \<Rightarrow> (let runID = trim_space runID0 in
        if runID = [] then (Inl (bad_request ''run id is required''), [], w)
        else (case find_run env runID w of
          (Inl e, w1) \<Rightarrow> (Inl e, [], w1)
        | (Inr r, w1) \<Rightarrow> cancel_run sv env active r w1))))"

definition service_list_evidence ::
  "run_service \<Rightarrow> run_env \<Rightarrow> string \<Rightarrow> string \<Rightarrow> world \<Rightarrow> evidence_row list go_result \<times> world" where
  "service_list_evidence sv env user0 runID0 w =
    (if \<not> rs_repo sv then (Inr [], w)
     else (case agent_normalize_user_id user0 of
       Inl e \<Rightarrow> (Inl e, w)
     | Inr user \<Rightarrow> (let runID = trim_space runID0 in
        if runID = [] then (Inl (bad_request ''run id is required''), w)
        else (case own_run env user runID w of
          (Inl e, w1) \<Rightarrow> (Inl e, w1)
        | (Inr r, w1) \<Rightarrow> on_runs env 1 (\<lambda>f t. (list_evidence f runID t, t)) w1))))"

end
