(* ===== verification/Run_Life.thy ===== *)
theory Run_Life
  imports Run_Service Loop_Theorems
begin

text \<open>
  The life of a run from its admission to its last event: its row and its answer in the chat end, whatever the model, the tools,
  the client and the other requests do, and the admission keeps its checks.
\<close>

section \<open>An environment in which the row of the run can be written\<close>












section \<open>The answer of the chat\<close>


definition chat_open :: "run_env \<Rightarrow> string \<Rightarrow> run_chat_context option \<Rightarrow> world \<Rightarrow> bool" where
  "chat_open env user ctx w \<longleftrightarrow> (case ctx of None \<Rightarrow> True
     | Some c \<Rightarrow> fair_env (rx_chat env) user (cm_id (rcc_answer c)) \<and> (\<exists>r. answer_row user (cm_id (rcc_answer c)) (wd_chat w) r))"



section \<open>The two ends of a run\<close>

lemma chat_open_runs [simp]: "chat_open env user ctx (w\<lparr>wd_runs := t\<rparr>) = chat_open env user ctx w"
  by (simp add: chat_open_def split: option.splits)

lemma chat_open_slots [simp]: "chat_open env user ctx (w\<lparr>wd_slots := t\<rparr>) = chat_open env user ctx w"
  by (simp add: chat_open_def split: option.splits)




section \<open>Up to the loop\<close>



section \<open>Properties\<close>


section \<open>Admission and access\<close>

text \<open>
  What has passed when a run starts; and a run that is refused after it got its slot has given the slot back.
\<close>

definition admitted ::
  "run_service \<Rightarrow> run_env \<Rightarrow> (run_agent_request \<Rightarrow> go_error option) \<Rightarrow> string \<Rightarrow> run_agent_request \<Rightarrow> world \<Rightarrow> stream_start \<Rightarrow> world \<Rightarrow> bool" where
  "admitted sv env invalid user0 req0 w start w' = (case start of
     AssistantStream turn ro \<Rightarrow> rs_assistant sv \<noteq> None \<and> wd_slots w' = wd_slots w \<and> wd_runs w' = wd_runs w
   | RunStarted runID user agent req ro ctx slot \<Rightarrow>
       invalid (normalize_run_request req0) = None \<and> user = trim_space user0 \<and> user \<noteq> [] \<and>
       ag_available agent \<and> ro_agent_type ro = ag_type agent \<and> trim_space (rar_cluster req) \<noteq> [] \<and> ensure_agent_llm sv = None \<and>
       acquire_run_slot (rs_admission sv) (rx_now env 0) (rx_coord env 0) user runID (wd_slots w) = (Inr (Some slot), wd_slots w') \<and>
       (ctx = None \<longleftrightarrow> rar_session req = []) \<and> wd_runs w' = wd_runs w)"

definition slot_returned :: "run_env \<Rightarrow> world \<Rightarrow> world \<Rightarrow> bool" where
  "slot_returned env w w' \<longleftrightarrow> wd_slots w' = wd_slots w \<or>
     (\<exists>a user k r s. acquire_run_slot a (rx_now env 0) (rx_coord env 0) user k (wd_slots w) = (r, s) \<and>
       (case r of Inr (Some slot) \<Rightarrow> wd_slots w' = snd (snd (release_run_slot (rx_now env 8) (rx_coord env 8) slot s)) | _ \<Rightarrow> wd_slots w' = s))"

lemma on_chat_frame [simp]: "wd_slots (snd (on_chat op w)) = wd_slots w" "wd_runs (snd (on_chat op w)) = wd_runs w"
  by (simp_all add: on_chat_def case_prod_unfold)

lemma prepare_chat_frame:
  assumes "prepare_run_chat_context sv env n user req agent w = (res, w')"
  shows "wd_slots w' = wd_slots w \<and> wd_runs w' = wd_runs w \<and> (\<forall>ctx. res = Inr ctx \<longrightarrow> (ctx = None \<longleftrightarrow> trim_space (rar_session req) = []))"
proof -
  have "wd_slots w' = wd_slots w \<and> wd_runs w' = wd_runs w"
    using assms on_chat_frame
    by (auto simp: prepare_run_chat_context_def Let_def case_prod_unfold on_chat_def split: sum.splits if_splits)
  moreover have "\<forall>ctx. res = Inr ctx \<longrightarrow> (ctx = None \<longleftrightarrow> trim_space (rar_session req) = [])"
    using assms by (auto simp: prepare_run_chat_context_def Let_def case_prod_unfold split: sum.splits if_splits)
  ultimately show ?thesis by blast
qed

lemma admit_run_admits:
  assumes "admit_run sv env user agent req ro w = (res, w')"
  shows "case res of Inl e \<Rightarrow> slot_returned env w w'
     | Inr start \<Rightarrow> (\<exists>runID ctx slot. start = RunStarted runID user agent req ro ctx slot \<and>
         acquire_run_slot (rs_admission sv) (rx_now env 0) (rx_coord env 0) user runID (wd_slots w) = (Inr (Some slot), wd_slots w') \<and>
         (ctx = None \<longleftrightarrow> trim_space (rar_session req) = []) \<and> wd_runs w' = wd_runs w)"
proof -
  obtain r s where acq: "acquire_run_slot (rs_admission sv) (rx_now env 0) (rx_coord env 0) user (rx_fresh env 100) (wd_slots w) = (r, s)"
    by (cases "acquire_run_slot (rs_admission sv) (rx_now env 0) (rx_coord env 0) user (rx_fresh env 100) (wd_slots w)") auto
  show ?thesis
  proof (cases "\<exists>slot. r = Inr (Some slot)")
    case False
    with assms acq have "res = Inl (case r of Inl e \<Rightarrow> e | Inr _ \<Rightarrow> err_too_many_runs)" "w' = w\<lparr>wd_slots := s\<rparr>"
      by (auto simp: admit_run_def split: sum.splits option.splits)
    moreover have "slot_returned env w (w\<lparr>wd_slots := s\<rparr>)"
      unfolding slot_returned_def using acq False
      by (intro disjI2 exI [of _ "rs_admission sv"] exI [of _ user] exI [of _ "rx_fresh env 100"] exI [of _ r] exI [of _ s])
        (auto split: sum.splits option.splits)
    ultimately show ?thesis by simp
  next
    case True
    then obtain slot where r: "r = Inr (Some slot)" by blast
    obtain pre w1 where prep: "prepare_run_chat_context sv env 0 user req agent (w\<lparr>wd_slots := s\<rparr>) = (pre, w1)"
      by (cases "prepare_run_chat_context sv env 0 user req agent (w\<lparr>wd_slots := s\<rparr>)") auto
    note frame = prepare_chat_frame [OF prep]
    show ?thesis
    proof (cases pre)
      case (Inr ctx)
      with assms acq r prep frame show ?thesis by (auto simp: admit_run_def)
    next
      case (Inl e)
      with assms acq r prep have res: "res = Inl e"
        and w': "w' = w1\<lparr>wd_slots := snd (snd (release_run_slot (rx_now env 8) (rx_coord env 8) slot (wd_slots w1)))\<rparr>"
        by (simp_all add: admit_run_def)
      have "slot_returned env w w'"
        unfolding slot_returned_def using acq r frame w'
        by (intro disjI2 exI [of _ "rs_admission sv"] exI [of _ user] exI [of _ "rx_fresh env 100"] exI [of _ r] exI [of _ s]) simp
      with res show ?thesis by simp
    qed
  qed
qed

lemma assistant_stream_frame:
  "stream_assistant_message sv env ic user req ro w = (res, w') \<Longrightarrow> wd_slots w' = wd_slots w \<and> wd_runs w' = wd_runs w \<and>
     (\<forall>start. res = Inr start \<longrightarrow> rs_assistant sv \<noteq> None \<and> (\<exists>turn. start = AssistantStream turn ro))"
  by (auto simp: stream_assistant_message_def on_chat_def case_prod_unfold split: option.splits sum.splits)

text \<open>
  Only an available agent with a cluster, a connected model and a slot of its own starts a run, for the user who asked; a
  request that is refused holds no slot.
\<close>

theorem run_admission:
  "case stream_run sv env invalid ic user0 agentType0 req0 w of (res, feedback, w') \<Rightarrow>
     (case res of Inl e \<Rightarrow> slot_returned env w w' | Inr start \<Rightarrow> admitted sv env invalid user0 req0 w start w')"
proof -
  let ?req = "normalize_run_request req0"
  have same: "slot_returned env w w" by (simp add: slot_returned_def)
  show ?thesis
  proof (cases "invalid ?req")
    case (Some e)
    with same show ?thesis by (simp add: stream_run_def Let_def)
  next
    case valid: None
    show ?thesis
    proof (cases "trim_space user0 = []")
      case True
      with same valid show ?thesis by (simp add: stream_run_def Let_def agent_normalize_user_id_def)
    next
      case user: False
      let ?user = "trim_space user0"
      let ?ro = "route (rx_route env) \<lparr>rt_message = rar_message ?req, rt_selected = first_filled [rar_selected ?req, trim_space agentType0],
                 rt_cluster = rar_cluster ?req, rt_scope = rar_scope ?req\<rparr>"
      let ?ty = "if trim_space agentType0 = [] \<or> trim_space agentType0 = AGENT_TYPE_AUTO then ro_agent_type ?ro else trim_space agentType0"
      note unf = stream_run_def Let_def valid agent_normalize_user_id_def
      show ?thesis
      proof (cases "?ty = AGENT_TYPE_ASSISTANT \<or> ?ty = AGENT_TYPE_NONE")
        case True
        obtain res w' where a: "stream_assistant_message sv env ic ?user ?req ?ro w = (res, w')"
          by (cases "stream_assistant_message sv env ic ?user ?req ?ro w") auto
        from True user have "stream_run sv env invalid ic user0 agentType0 req0 w = (res, False, w')"
          by (simp only: unf option.case sum.case if_False if_True a prod.case)
        with assistant_stream_frame [OF a] show ?thesis
          by (auto simp: slot_returned_def admitted_def split: sum.splits)
      next
        case ag: False
        show ?thesis
        proof (cases "ag_get (rv_registry (rx_route env)) ?ty")
          case None
          from None ag user have "stream_run sv env invalid ic user0 agentType0 req0 w = (Inl (bad_request ''agent is unavailable''), False, w)"
            by (simp only: unf option.case sum.case if_False)
          with same show ?thesis by simp
        next
          case (Some agent)
          let ?go = "ag_available agent \<and> trim_space (rar_cluster ?req) \<noteq> [] \<and> ensure_agent_llm sv = None"
          show ?thesis
          proof (cases ?go)
            case False
            then have "\<exists>e. stream_run sv env invalid ic user0 agentType0 req0 w = (Inl e, False, w)"
              using Some ag user by (auto simp only: unf option.case sum.case if_False if_True not_not split: option.splits if_splits)
            with same show ?thesis by auto
          next
            case True
            let ?req1 = "?req\<lparr>rar_skill := trim_space (ro_skill ?ro)\<rparr>" and ?ro1 = "?ro\<lparr>ro_agent_type := ag_type agent\<rparr>"
            obtain res w' where a: "admit_run sv env ?user agent ?req1 ?ro1 w = (res, w')"
              by (cases "admit_run sv env ?user agent ?req1 ?ro1 w") auto
            then have "stream_run sv env invalid ic user0 agentType0 req0 w = (res, rs_learning sv \<and> ro_source ?ro = ROUTE_SOURCE_USER, w')"
              using Some ag user True by (simp only: unf option.case sum.case if_False if_True not_not prod.case simp_thms)
            with admit_run_admits [OF a] True valid user show ?thesis
              by (auto simp: admitted_def normalize_run_request_def split: sum.splits)
          qed
        qed
      qed
    qed
  qed
qed

text \<open>A user cannot cancel, or even see, the run of another.\<close>

lemma foreign_run_refused:
  assumes "rs_repo sv" and "cx_fault (rx_chat env) 0 = None" and "run_row (rx_runs env 0 (wd_runs w)) (trim_space runID) = Some r"
    and "ar_user_id r \<noteq> trim_space user" and "trim_space user \<noteq> []" and "trim_space runID \<noteq> []"
  shows "service_cancel_run sv env active user runID w =
      (Inl (ErrApp CodeForbidden ''agent run is not accessible'' 403 None), [], w\<lparr>wd_runs := rx_runs env 0 (wd_runs w)\<rparr>)"
    and "service_list_evidence sv env user runID w =
      (Inl (ErrApp CodeForbidden ''agent run is not accessible'' 403 None), w\<lparr>wd_runs := rx_runs env 0 (wd_runs w)\<rparr>)"
  using assms
  by (auto simp: service_cancel_run_def service_list_evidence_def own_run_def find_run_def on_runs_def get_run_def first_row_def run_row_def
      agent_normalize_user_id_def Let_def)







end
