(* ===== verification/Go_Http.thy ===== *)
theory Go_Http
  imports Go_Errors
begin

text \<open>
  What the proxy uses of \<^verbatim>\<open>net/http\<close> and \<^verbatim>\<open>net/url\<close>: headers under their canonical names,
  parsed query strings, and the test by which \<^verbatim>\<open>httputil.ReverseProxy\<close> recognises a request that
  switches protocols. The headers of a request that the server has read have canonical names.
\<close>

type_synonym http_header = "(string, string list) gmap"
type_synonym url_values = "(string, string list) gmap"

section \<open>Canonical names\<close>

text \<open>The characters of a token (RFC 7230).\<close>

definition token_char :: "char \<Rightarrow> bool" where
  "token_char c \<longleftrightarrow> (CHR ''0'' \<le> c \<and> c \<le> CHR ''9'') \<or> (CHR ''A'' \<le> c \<and> c \<le> CHR ''Z'') \<or> (CHR ''a'' \<le> c \<and> c \<le> CHR ''z'')
     \<or> c \<in> set ''!#$%&*+-.^_|~'' \<or> c = CHR 0x27 \<or> c = CHR 0x60"

definition upper_char :: "char \<Rightarrow> char" where
  "upper_char c = (if 97 \<le> byte_val c \<and> byte_val c \<le> 122 then char_of (byte_val c - 32) else c)"

fun canonical_chars :: "bool \<Rightarrow> string \<Rightarrow> string" where
  "canonical_chars up [] = []"
| "canonical_chars up (c # s) = (if up then upper_char c else lower_char c) # canonical_chars (c = CHR ''-'') s"

definition canonical_key :: "string \<Rightarrow> string" where
  "canonical_key k = (if k = [] \<or> \<not> list_all token_char k then k else canonical_chars True k)"

section \<open>Headers and queries\<close>

definition header_get :: "http_header \<Rightarrow> string \<Rightarrow> string" where
  "header_get h k = (case gm_get h (canonical_key k) of Some (v # _) \<Rightarrow> v | _ \<Rightarrow> [])"

definition header_values :: "http_header \<Rightarrow> string \<Rightarrow> string list" where
  "header_values h k = (case gm_get h (canonical_key k) of Some vs \<Rightarrow> vs | None \<Rightarrow> [])"

definition header_set :: "string \<Rightarrow> string \<Rightarrow> http_header \<Rightarrow> http_header" where
  "header_set k v h = gm_put (canonical_key k) [v] h"

definition header_add :: "string \<Rightarrow> string \<Rightarrow> http_header \<Rightarrow> http_header" where
  "header_add k v h = gm_put (canonical_key k) (header_values h k @ [v]) h"

definition header_del :: "string \<Rightarrow> http_header \<Rightarrow> http_header" where
  "header_del k h = gm_del (canonical_key k) h"

definition query_get :: "url_values \<Rightarrow> string \<Rightarrow> string" where
  "query_get q k = (case gm_get q k of Some (v # _) \<Rightarrow> v | _ \<Rightarrow> [])"

definition equal_fold :: "string \<Rightarrow> string \<Rightarrow> bool" where
  "equal_fold a b \<longleftrightarrow> to_lower a = to_lower b"

section \<open>Switching protocols\<close>

text \<open>\<^verbatim>\<open>httpguts.HeaderValuesContainsToken\<close>: a token in any of the values, which are lists separated by commas.\<close>

definition values_contain_token :: "string list \<Rightarrow> string \<Rightarrow> bool" where
  "values_contain_token vs token \<longleftrightarrow> (\<exists>v \<in> set vs. \<exists>part \<in> set (split_on CHR '','' v). equal_fold (trim_space part) token)"

text \<open>The protocol to which \<^verbatim>\<open>ReverseProxy\<close> switches, empty for an ordinary request.\<close>

definition upgrade_type :: "http_header \<Rightarrow> string" where
  "upgrade_type h = (if values_contain_token (header_values h ''Connection'') ''Upgrade'' then header_get h ''Upgrade'' else [])"

section \<open>Paths\<close>

text \<open>\<^verbatim>\<open>strings.TrimRight\<close> and \<^verbatim>\<open>strings.TrimLeft\<close> of slashes.\<close>

definition trim_left_slashes :: "string \<Rightarrow> string" where
  "trim_left_slashes s = dropWhile (\<lambda>c. c = CHR ''/'') s"

definition trim_right_slashes :: "string \<Rightarrow> string" where
  "trim_right_slashes s = rev (dropWhile (\<lambda>c. c = CHR ''/'') (rev s))"

section \<open>Facts\<close>

lemma header_set_get [simp]: "gm_get (header_set k v h) k' = (if k' = canonical_key k then Some [v] else gm_get h k')"
  by (simp add: header_set_def)

lemma header_add_get [simp]:
  "gm_get (header_add k v h) k' = (if k' = canonical_key k then Some (header_values h k @ [v]) else gm_get h k')"
  by (simp add: header_add_def)

lemma header_del_get [simp]: "gm_get (header_del k h) k' = (if k' = canonical_key k then None else gm_get h k')"
  by (simp add: header_del_def)

end
