(* ===== verification/Kube_Proxy.thy ===== *)
theory Kube_Proxy
  imports Go_Http Go_Json Auth_Tokens Run_Slots
begin

text \<open>
  The proxy of the Kubernetes API (\<^verbatim>\<open>cluster/infrastructure/kubernetes/proxy.go\<close> and
  \<^verbatim>\<open>audit.go\<close>): the checks a request passes, what is sent to the API server, and how its answer is
  given back. A request is its decoded path, its parsed query and its headers. Reading a kubeconfig
  (\<^verbatim>\<open>clientcmd\<close>), building a transport (\<^verbatim>\<open>rest.TransportFor\<close>), SHA-256, dialling and
  the bytes of a connection are parameters; \<open>config.Host\<close> is given as \<^verbatim>\<open>url.Parse\<close> splits it.
\<close>

section \<open>Requests\<close>

abbreviation "CLUSTER_ID_HEADER \<equiv> ''X-Cluster-ID''"
abbreviation "CSRF_HEADER \<equiv> ''X-Kubeflare-CSRF''"
abbreviation MAX_WRAPPED_RESPONSE_BYTES :: nat where "MAX_WRAPPED_RESPONSE_BYTES \<equiv> 32 * 1024 * 1024"

record kapi_request =
  kq_path :: string
  kq_query :: url_values
  kq_headers :: http_header

definition rewrite_kubernetes_path :: "string \<Rightarrow> string option" where
  "rewrite_kubernetes_path path =
    (if path = ''/kapi'' then Some ''/api''
     else if path = ''/kapis'' then Some ''/apis''
     else if prefix ''/kapi/'' path then Some (''/api/'' @ trim_prefix ''/kapi/'' path)
     else if prefix ''/kapis/'' path then Some (''/apis/'' @ trim_prefix ''/kapis/'' path)
     else None)"

definition join_url_path :: "string \<Rightarrow> string \<Rightarrow> string" where
  "join_url_path base0 path = (let base = trim_right_slashes base0 in
     if base = [] then path
     else if path = [] \<or> path = ''/'' then base
     else base @ ''/'' @ trim_left_slashes path)"

definition is_upgrade_request :: "kapi_request \<Rightarrow> bool" where
  "is_upgrade_request r =
    (if \<not> contains (to_lower (header_get (kq_headers r) ''Connection'')) ''upgrade'' then False
     else trim_space (header_get (kq_headers r) ''Upgrade'') \<noteq> [])"

definition is_follow_log_request :: "kapi_request \<Rightarrow> bool" where
  "is_follow_log_request r =
    (if \<not> equal_fold (query_get (kq_query r) ''follow'') ''true'' then False
     else (let path = trim_right_slashes (kq_path r) in suffix ''/log'' path \<and> contains path ''/pods/''))"

definition should_pass_through_request :: "kapi_request \<Rightarrow> bool" where
  "should_pass_through_request r =
    (if equal_fold (query_get (kq_query r) ''watch'') ''true'' then True
     else if is_follow_log_request r then True
     else if contains (to_lower (header_get (kq_headers r) ''Connection'')) ''upgrade'' then True
     else trim_space (header_get (kq_headers r) ''Upgrade'') \<noteq> [])"

definition node_list_keyword :: "kapi_request \<Rightarrow> string \<Rightarrow> string" where
  "node_list_keyword r upstream =
    (if trim_right_slashes upstream \<noteq> ''/api/v1/nodes'' then []
     else to_lower (trim_space (query_get (kq_query r) ''keyword'')))"

text \<open>
  \<^verbatim>\<open>parseExecTarget\<close>: the last segment after \<^verbatim>\<open>namespaces\<close> and after \<^verbatim>\<open>pods\<close>,
  and whether the path ends in one of the operations that need a session.
\<close>

fun segment_after :: "string \<Rightarrow> string list \<Rightarrow> string \<Rightarrow> string" where
  "segment_after name (s # t # rest) acc = segment_after name (t # rest) (if s = name then t else acc)"
| "segment_after name _ acc = acc"

definition parse_exec_target :: "string \<Rightarrow> url_values \<Rightarrow> string \<times> string \<times> string \<times> bool" where
  "parse_exec_target upstream q = (let segments = split_on CHR ''/'' (trim_prefix ''/'' upstream) in
     (segment_after ''namespaces'' segments [], segment_after ''pods'' segments [], query_get q ''container'',
      last segments \<in> {''exec'', ''attach'', ''portforward''}))"

section \<open>The handler\<close>

record proxy_handler =
  ph_timeout :: duration
  ph_allowed_origins :: "string list"
  ph_allow_any :: bool
  ph_blocked :: "string list"
  ph_distributed :: "string option option"
  ph_max_sessions :: int

record security_options =
  so_allowed_origins :: "string list"
  so_blocked_namespaces :: "string list"
  so_max_sessions :: int
  so_semaphore :: "string option option"

fun add_origins :: "string list \<Rightarrow> proxy_handler \<Rightarrow> proxy_handler" where
  "add_origins [] h = h"
| "add_origins (raw # rest) h = (let origin = trim_space raw in
     if origin = [] then add_origins rest h
     else if origin = ''*'' then add_origins rest (h\<lparr>ph_allow_any := True\<rparr>)
     else add_origins rest (h\<lparr>ph_allowed_origins := ph_allowed_origins h @ [to_lower (trim_right_slashes origin)]\<rparr>))"

definition new_proxy_handler_with_security :: "duration \<Rightarrow> security_options \<Rightarrow> proxy_handler" where
  "new_proxy_handler_with_security timeout so =
    (add_origins (so_allowed_origins so)
      \<lparr>ph_timeout = timeout, ph_allowed_origins = [], ph_allow_any = False, ph_blocked = [], ph_distributed = so_semaphore so,
       ph_max_sessions = so_max_sessions so\<rparr>)
      \<lparr>ph_blocked := filter (\<lambda>ns. ns \<noteq> []) (map (\<lambda>ns. to_lower (trim_space ns)) (so_blocked_namespaces so))\<rparr>"

definition is_origin_allowed :: "proxy_handler \<Rightarrow> kapi_request \<Rightarrow> bool" where
  "is_origin_allowed h r = (let origin = trim_space (header_get (kq_headers r) ''Origin'') in
     if origin = [] then True
     else if ph_allow_any h then True
     else if ph_allowed_origins h = [] then False
     else to_lower (trim_right_slashes origin) \<in> set (ph_allowed_origins h))"

definition is_namespace_blocked :: "proxy_handler \<Rightarrow> string \<Rightarrow> bool" where
  "is_namespace_blocked h ns = (if ns = [] then False else to_lower ns \<in> set (ph_blocked h))"

section \<open>What is sent upstream\<close>

record rest_config =
  rf_target :: "(string \<times> string \<times> string) option"
  rf_bearer_token :: string
  rf_bearer_token_file :: string
  rf_username :: string
  rf_password :: string
  rf_user_agent :: string
  rf_impersonate_user :: string
  rf_impersonate_groups :: "string list"
  rf_impersonate_extra :: "(string \<times> string list) list"
  rf_timeout :: duration

definition is_hop_by_hop_header :: "string \<Rightarrow> bool" where
  "is_hop_by_hop_header name \<longleftrightarrow> canonical_key name \<in> {''Keep-Alive'', ''Proxy-Connection'', ''Proxy-Authenticate'',
     ''Proxy-Authorization'', ''Te'', ''Trailer'', ''Transfer-Encoding''}"

definition dropped_for_upgrade :: "string \<Rightarrow> bool" where
  "dropped_for_upgrade k \<longleftrightarrow> (let canon = canonical_key k in
     canon \<in> {''Host'', ''Cookie'', ''Authorization'', canonical_key CLUSTER_ID_HEADER, canonical_key CSRF_HEADER} \<or> is_hop_by_hop_header canon)"

definition copy_header :: "string \<Rightarrow> http_header \<Rightarrow> http_header \<Rightarrow> http_header" where
  "copy_header k src dst = (let v = header_get src k in if v \<noteq> [] then header_set k v dst else dst)"

definition copy_upgrade_request_headers :: "http_header \<Rightarrow> http_header" where
  "copy_upgrade_request_headers src =
    copy_header ''Upgrade'' src (copy_header ''Connection'' src
      (fold (\<lambda>(k, vs) dst. if dropped_for_upgrade k then dst else gm_put (canonical_key k) vs dst) src []))"

definition basic_auth :: "(string \<Rightarrow> string) \<Rightarrow> string \<Rightarrow> string \<Rightarrow> string" where
  "basic_auth base64 user password = ''Basic '' @ base64 (user @ '':'' @ password)"

fun add_values :: "string \<Rightarrow> string list \<Rightarrow> http_header \<Rightarrow> http_header" where
  "add_values k [] h = h"
| "add_values k (v # vs) h = add_values k vs (header_add k v h)"

text \<open>\<open>read\<close> reads a token file, \<open>base64\<close> is the encoding of basic authentication.\<close>

definition kubeconfig_credentials ::
  "(string \<Rightarrow> string go_result) \<Rightarrow> (string \<Rightarrow> string) \<Rightarrow> rest_config \<Rightarrow> http_header \<Rightarrow> http_header go_result" where
  "kubeconfig_credentials read base64 c h =
    (if trim_space (rf_bearer_token c) \<noteq> [] then Inr (header_set ''Authorization'' (''Bearer '' @ trim_space (rf_bearer_token c)) h)
     else if trim_space (rf_bearer_token_file c) \<noteq> [] then
       (case read (rf_bearer_token_file c) of
          Inl e \<Rightarrow> Inl (ErrWrap (''read bearer token file: '') e)
        | Inr d \<Rightarrow> let t = trim_space d in Inr (if t \<noteq> [] then header_set ''Authorization'' (''Bearer '' @ t) h else h))
     else if rf_username c \<noteq> [] then Inr (header_set ''Authorization'' (basic_auth base64 (rf_username c) (rf_password c)) h)
     else Inr h)"

definition apply_kubeconfig_auth ::
  "(string \<Rightarrow> string go_result) \<Rightarrow> (string \<Rightarrow> string) \<Rightarrow> rest_config \<Rightarrow> http_header \<Rightarrow> http_header go_result" where
  "apply_kubeconfig_auth read base64 c h = (case kubeconfig_credentials read base64 c h of
     Inl e \<Rightarrow> Inl e
   | Inr h1 \<Rightarrow>
      (let ua = trim_space (rf_user_agent c);
           h2 = (if ua \<noteq> [] then header_set ''User-Agent'' ua h1 else h1);
           h3 = (if rf_impersonate_user c \<noteq> [] then header_set ''Impersonate-User'' (rf_impersonate_user c) h2 else h2);
           h4 = add_values ''Impersonate-Group'' (rf_impersonate_groups c) h3 in
       Inr (fold (\<lambda>(k, vs) h. add_values (''Impersonate-Extra-'' @ k) vs h) (rf_impersonate_extra c) h4)))"

definition remove_kubeflare_headers :: "http_header \<Rightarrow> http_header" where
  "remove_kubeflare_headers h = header_del CSRF_HEADER (header_del CLUSTER_ID_HEADER (header_del ''Cookie'' (header_del ''Authorization'' h)))"

definition upstream_query :: "url_values \<Rightarrow> url_values" where
  "upstream_query q = gm_del ''access_token'' (gm_del ''clusterId'' q)"

section \<open>Sessions\<close>

record session_world =
  se_sem :: keyed_semaphore
  se_redis :: redis_coord

datatype session_slot = SessionLease lease | SessionLocal ks_handle

abbreviation SESSION_LEASE_TTL :: duration where "SESSION_LEASE_TTL \<equiv> 90 * second"

definition session_limits :: "proxy_handler \<Rightarrow> string \<Rightarrow> semaphore_limit list" where
  "session_limits h subject = [\<lparr>sl_key = ''kapi:upgrade:user:'' @ subject, sl_limit = ph_max_sessions h\<rparr>]"

text \<open>\<^verbatim>\<open>sessionLimiter.Acquire\<close>; \<open>member\<close> is a fresh ID. The lease is refreshed while the session is open.\<close>

definition session_acquire ::
  "proxy_handler \<Rightarrow> instant \<Rightarrow> call_fault \<Rightarrow> string \<Rightarrow> string \<Rightarrow> session_world \<Rightarrow> session_slot option go_result \<times> session_world" where
  "session_acquire h now f member subject w = (case ph_distributed h of
     Some c \<Rightarrow> (case coord_acquire c now f member SESSION_LEASE_TTL (session_limits h subject) (se_redis w) of
         (Inl e, s) \<Rightarrow> (Inl e, w\<lparr>se_redis := s\<rparr>)
       | (Inr l, s) \<Rightarrow> (Inr (map_option SessionLease l), w\<lparr>se_redis := s\<rparr>))
   | None \<Rightarrow> (case ks_acquire subject (se_sem w) of (l, s) \<Rightarrow> (Inr (map_option SessionLocal l), w\<lparr>se_sem := s\<rparr>)))"

definition session_release :: "instant \<Rightarrow> call_fault \<Rightarrow> session_slot \<Rightarrow> session_world \<Rightarrow> session_world" where
  "session_release now f slot w = (case slot of
     SessionLease l \<Rightarrow> w\<lparr>se_redis := snd (snd (lease_release now f l (se_redis w)))\<rparr>
   | SessionLocal k \<Rightarrow> w\<lparr>se_sem := snd (ks_fire k (se_sem w))\<rparr>)"

text \<open>One tick of the goroutine that keeps a lease; it stops when the lease is lost, and the session goes on.\<close>

definition refresh_session :: "instant \<Rightarrow> call_fault \<Rightarrow> session_slot \<Rightarrow> session_world \<Rightarrow> bool \<times> session_world" where
  "refresh_session now f slot w = (case slot of
     SessionLocal k \<Rightarrow> (False, w)
   | SessionLease l \<Rightarrow> (case lease_refresh now f l (se_redis w) of (r, s) \<Rightarrow> (r = Inr True, w\<lparr>se_redis := s\<rparr>)))"

section \<open>Upgrades\<close>

text \<open>The requests that switch protocols, and what the world answers on the way.\<close>

record upgrade_request =
  uq_scheme :: string
  uq_host :: string
  uq_path :: string
  uq_query :: url_values
  uq_headers :: http_header

record upstream_reply =
  ur_status :: int
  ur_text :: string
  ur_headers :: http_header
  ur_body :: string

record upgrade_env =
  ue_now :: instant
  ue_fault :: "nat \<Rightarrow> call_fault"
  ue_member :: string
  ue_hijackable :: bool
  ue_build :: "go_error option"
  ue_read :: "string \<Rightarrow> string go_result"
  ue_base64 :: "string \<Rightarrow> string"
  ue_dial :: "go_error option"
  ue_write :: "go_error option"
  ue_reply :: "upstream_reply go_result"
  ue_hijack :: "go_error option"
  ue_answer :: "go_error option"

text \<open>An error page, a refusal passed on, a connection closed without a word, or a session with its deadline and its slot.\<close>

datatype upgrade_outcome =
    UpgradeError int string "go_error option"
  | UpgradeRefused int http_header string
  | UpgradeDropped
  | UpgradeOpen upgrade_request "string list" "instant option" session_slot

definition rfc6455_casing :: "string \<Rightarrow> string" where
  "rfc6455_casing k = (case map_of [(''sec-websocket-accept'', ''Sec-WebSocket-Accept''), (''sec-websocket-protocol'', ''Sec-WebSocket-Protocol''),
     (''sec-websocket-extensions'', ''Sec-WebSocket-Extensions''), (''sec-websocket-version'', ''Sec-WebSocket-Version''),
     (''upgrade'', ''Upgrade''), (''connection'', ''Connection'')] (to_lower k) of Some n \<Rightarrow> n | None \<Rightarrow> k)"

text \<open>\<^verbatim>\<open>writeUpgrade101ToWriter\<close>: the lines without their ends.\<close>

definition upgrade_reply_lines :: "upstream_reply \<Rightarrow> string list" where
  "upgrade_reply_lines r =
    (''HTTP/1.1 '' @ (if ur_text r = [] then ''101 Switching Protocols'' else ur_text r)) #
    concat (map (\<lambda>(k, vs). if is_hop_by_hop_header k \<and> \<not> equal_fold k ''Connection'' \<and> \<not> equal_fold k ''Upgrade'' then []
      else map (\<lambda>v. rfc6455_casing k @ '': '' @ v) vs) (ur_headers r)) @ [[]]"

definition refused_headers :: "http_header \<Rightarrow> http_header" where
  "refused_headers hs = filter (\<lambda>(k, vs). \<not> is_hop_by_hop_header k) hs"

text \<open>The zero time stands for a principal without an expiry; a session may outlive its token by five seconds.\<close>

definition upgrade_deadline :: "principal \<Rightarrow> instant option" where
  "upgrade_deadline p = (if pr_expires_at p = 0 then None else Some (pr_expires_at p + 5 * second))"

definition upgrade_request_for :: "string \<times> string \<times> string \<Rightarrow> string \<Rightarrow> url_values \<Rightarrow> http_header \<Rightarrow> upgrade_request" where
  "upgrade_request_for target upstream q h = (case target of (scheme, host, base) \<Rightarrow>
     \<lparr>uq_scheme = scheme, uq_host = host, uq_path = join_url_path base upstream, uq_query = upstream_query q, uq_headers = h\<rparr>)"

text \<open>The address \<^verbatim>\<open>dialUpstream\<close> connects to; \<open>None\<close> for another scheme.\<close>

definition dial_address :: "string \<Rightarrow> string \<Rightarrow> string option" where
  "dial_address scheme host0 =
    (let host = (if contains host0 '':'' then host0 else if scheme = ''https'' then host0 @ '':443'' else if scheme = ''http'' then host0 @ '':80'' else host0) in
     if scheme = ''https'' \<or> scheme = ''http'' then Some host else None)"

text \<open>The steps of \<^verbatim>\<open>serveUpgrade\<close> after its slot is taken, with an open session at the end of the last.\<close>

definition open_upgrade ::
  "upgrade_env \<Rightarrow> principal \<Rightarrow> rest_config \<Rightarrow> kapi_request \<Rightarrow> string \<Rightarrow> session_slot \<Rightarrow> upgrade_outcome" where
  "open_upgrade env p c r upstream slot = (case rf_target c of
     None \<Rightarrow> UpgradeError 502 ''invalid kubernetes host'' (Some (ErrMsg ''invalid kubernetes host''))
   | Some target \<Rightarrow>
      if fst target = [] \<or> fst (snd target) = [] then UpgradeError 502 ''invalid kubernetes host'' (Some (ErrMsg ''invalid kubernetes host''))
      else if \<not> ue_hijackable env then UpgradeError 500 ''hijacking not supported'' None
      else (case ue_build env of
        Some e \<Rightarrow> UpgradeError 500 ''failed to build upstream request'' (Some e)
      | None \<Rightarrow> (case apply_kubeconfig_auth (ue_read env) (ue_base64 env) c (copy_upgrade_request_headers (kq_headers r)) of
          Inl e \<Rightarrow> UpgradeError 500 ''failed to apply kubeconfig auth'' (Some e)
        | Inr h \<Rightarrow>
           if dial_address (fst target) (fst (snd target)) = None then
             UpgradeError 502 ''failed to dial kubernetes'' (Some (ErrMsg (''unsupported scheme '' @ [CHR 0x22] @ fst target @ [CHR 0x22])))
           else (case ue_dial env of
             Some e \<Rightarrow> UpgradeError 502 ''failed to dial kubernetes'' (Some e)
           | None \<Rightarrow> (case ue_write env of
               Some e \<Rightarrow> UpgradeError 502 ''failed to send request to kubernetes'' (Some e)
             | None \<Rightarrow> (case ue_reply env of
                 Inl e \<Rightarrow> UpgradeError 502 ''failed to read kubernetes response'' (Some e)
               | Inr reply \<Rightarrow>
                  if ur_status reply \<noteq> 101 then UpgradeRefused (ur_status reply) (refused_headers (ur_headers reply)) (ur_body reply)
                  else if ue_hijack env \<noteq> None then UpgradeDropped
                  else if (case upgrade_deadline p of None \<Rightarrow> False | Some d \<Rightarrow> d \<le> ue_now env) then UpgradeDropped
                  else if ue_answer env \<noteq> None then UpgradeDropped
                  else UpgradeOpen (upgrade_request_for target upstream (kq_query r) h) (upgrade_reply_lines reply) (upgrade_deadline p) slot))))))"

definition serve_upgrade ::
  "proxy_handler \<Rightarrow> upgrade_env \<Rightarrow> principal \<Rightarrow> rest_config \<Rightarrow> kapi_request \<Rightarrow> string \<Rightarrow> session_world \<Rightarrow> upgrade_outcome \<times> session_world" where
  "serve_upgrade h env p c r upstream w =
    (case session_acquire h (ue_now env) (ue_fault env 0) (ue_member env) (pr_subject p) w of
       (Inl e, w1) \<Rightarrow> (UpgradeError 503 ''terminal session limiter is unavailable'' (Some e), w1)
     | (Inr None, w1) \<Rightarrow> (UpgradeError 429 ''too many concurrent terminal sessions'' None, w1)
     | (Inr (Some slot), w1) \<Rightarrow> (case open_upgrade env p c r upstream slot of
         UpgradeOpen req ls deadline sl \<Rightarrow> (UpgradeOpen req ls deadline sl, w1)
       | out \<Rightarrow> (out, session_release (ue_now env) (ue_fault env 1) slot w1)))"

section \<open>Ordinary requests\<close>

record 't forward_plan =
  fp_scheme :: string
  fp_host :: string
  fp_path :: string
  fp_query :: url_values
  fp_headers :: http_header
  fp_transport :: 't
  fp_pass_through :: bool
  fp_keyword :: string

record 't proxy_state =
  px_cache :: "(string, 't) gmap"
  px_sessions :: session_world

text \<open>What lies outside: the kubeconfig of a cluster, its parsing, its hash, and its transport.\<close>

record 't proxy_env =
  pe_provider :: "string \<Rightarrow> string go_result"
  pe_load :: "string \<Rightarrow> rest_config go_result"
  pe_hash :: "string \<Rightarrow> string"
  pe_transport :: "rest_config \<Rightarrow> 't go_result"
  pe_upgrade :: upgrade_env

datatype 't proxy_result =
    ProxyFailed go_error
  | NotFoundPage
  | Upgraded upgrade_outcome
  | Forwarded "'t forward_plan"

definition proxy_target_cached ::
  "'t proxy_env \<Rightarrow> string \<Rightarrow> rest_config \<Rightarrow> (string, 't) gmap \<Rightarrow> ((string \<times> string \<times> string) \<times> 't) go_result \<times> (string, 't) gmap" where
  "proxy_target_cached env kubeconfig c cache =
    (case rf_target c of
       None \<Rightarrow> (Inl (ErrMsg ''invalid kubernetes host''), cache)
     | Some target \<Rightarrow>
        if fst target = [] \<or> fst (snd target) = [] then (Inl (ErrMsg ''invalid kubernetes host''), cache)
        else (let key = pe_hash env kubeconfig in case gm_get cache key of
          Some t \<Rightarrow> (Inr (target, t), cache)
        | None \<Rightarrow> (case pe_transport env c of
            Inl e \<Rightarrow> (Inl e, cache)
          | Inr t \<Rightarrow> (Inr (target, t), gm_put key t cache))))"

definition invalidate_transports :: "'t proxy_state \<Rightarrow> 't proxy_state" where
  "invalidate_transports px = px\<lparr>px_cache := []\<rparr>"

text \<open>\<^verbatim>\<open>Director\<close>.\<close>

definition direct_request :: "kapi_request \<Rightarrow> string \<Rightarrow> string \<times> string \<times> string \<Rightarrow> 't \<Rightarrow> bool \<Rightarrow> string \<Rightarrow> 't forward_plan" where
  "direct_request r upstream target t pass keyword =
    (let q = upstream_query (kq_query r); h = remove_kubeflare_headers (kq_headers r) in
     \<lparr>fp_scheme = fst target, fp_host = fst (snd target), fp_path = join_url_path (snd (snd target)) upstream,
      fp_query = (if keyword \<noteq> [] \<and> \<not> pass then gm_del ''keyword'' q else q),
      fp_headers = (if pass then h else header_del ''Accept-Encoding'' h),
      fp_transport = t, fp_pass_through = pass, fp_keyword = keyword\<rparr>)"

definition cluster_id_of :: "kapi_request \<Rightarrow> string" where
  "cluster_id_of r = (let i = trim_space (header_get (kq_headers r) CLUSTER_ID_HEADER) in
     if i = [] then trim_space (query_get (kq_query r) ''clusterId'') else i)"

definition err_origin :: "string \<Rightarrow> go_error" where
  "err_origin origin = ErrApp CodeForbidden ''origin not allowed'' 403
     (Some (ErrMsg (''origin '' @ [CHR 0x22] @ origin @ [CHR 0x22] @ '' not in allowlist'')))"

definition err_namespace :: "string \<Rightarrow> go_error" where
  "err_namespace ns0 = (let ns = (if trim_space ns0 = [] then ''(unresolved)'' else ns0) in
     ErrApp CodeForbidden (''namespace '' @ [CHR 0x22] @ ns @ [CHR 0x22] @ '' is protected against exec/attach/portforward'') 403
       (Some (ErrMsg (''namespace '' @ [CHR 0x22] @ ns @ [CHR 0x22] @ '' is blocked or unresolved''))))"

text \<open>
  \<^verbatim>\<open>ServeHTTP\<close> of a handler with a provider. A name in an error message is quoted as it is, without the escapes of
  \<^verbatim>\<open>%q\<close>.
\<close>

definition serve_http :: "proxy_handler \<Rightarrow> 't proxy_env \<Rightarrow> principal \<Rightarrow> kapi_request \<Rightarrow> 't proxy_state \<Rightarrow> 't proxy_result \<times> 't proxy_state" where
  "serve_http h env p r px =
    (case rewrite_kubernetes_path (kq_path r) of
       None \<Rightarrow> (NotFoundPage, px)
     | Some upstream \<Rightarrow>
        if cluster_id_of r = [] then
          (ProxyFailed (ErrApp CodeBadRequest ''X-Cluster-ID header is required'' 400 (Some (ErrMsg ''missing cluster id''))), px)
        else (case pe_provider env (cluster_id_of r) of
          Inl e \<Rightarrow> (ProxyFailed e, px)
        | Inr kubeconfig \<Rightarrow> (case pe_load env kubeconfig of
            Inl e \<Rightarrow> (ProxyFailed (ErrApp CodeBadRequest ''invalid cluster yaml'' 400 (Some e)), px)
          | Inr c \<Rightarrow>
             (let pass = should_pass_through_request r; keyword = node_list_keyword r upstream in
              if is_upgrade_request r then
                (if \<not> is_origin_allowed h r then (ProxyFailed (err_origin (header_get (kq_headers r) ''Origin'')), px)
                 else (case parse_exec_target upstream (kq_query r) of (ns, pod, container, isExec) \<Rightarrow>
                   if isExec \<and> (trim_space ns = [] \<or> is_namespace_blocked h ns) then (ProxyFailed (err_namespace ns), px)
                   else (case serve_upgrade h (pe_upgrade env) p c r upstream (px_sessions px) of
                     (out, w) \<Rightarrow> (Upgraded out, px\<lparr>px_sessions := w\<rparr>))))
              else
                (case proxy_target_cached env kubeconfig (if 0 < ph_timeout h \<and> \<not> pass then c\<lparr>rf_timeout := ph_timeout h\<rparr> else c) (px_cache px) of
                   (Inl e, cache) \<Rightarrow> (ProxyFailed (ErrApp CodeInternal ''failed to create kubernetes proxy'' 500 (Some e)), px\<lparr>px_cache := cache\<rparr>)
                 | (Inr (target, t), cache) \<Rightarrow> (Forwarded (direct_request r upstream target t pass keyword), px\<lparr>px_cache := cache\<rparr>))))))"

section \<open>Answers\<close>

definition error_code_for_status :: "int \<Rightarrow> int" where
  "error_code_for_status st =
    (if st = 400 then CodeBadRequest else if st = 401 then CodeUnauthorized else if st = 403 then CodeForbidden
     else if st = 404 then CodeNotFound else if st = 409 then CodeConflict else if st = 504 then CodeTimeout else CodeInternal)"

definition should_pass_through_response :: "http_header \<Rightarrow> bool" where
  "should_pass_through_response hs = (let ct = to_lower (header_get hs ''Content-Type'') in
     if contains ct ''text/event-stream'' \<or> contains ct ''application/octet-stream'' \<or> contains ct ''application/x-tar''
       \<or> contains ct ''application/gzip'' \<or> contains ct ''application/zip'' then True
     else contains (to_lower (header_get hs ''Connection'')) ''upgrade'')"

datatype response_data = TextData string | JsonData json

record proxy_envelope =
  pv_code :: int
  pv_message :: string
  pv_data :: "response_data option"
  pv_request_id :: string

text \<open>
  The first value of a stream (\<^verbatim>\<open>json.Decoder\<close>): what follows an object or an array is not
  looked at, and after another value comes white space.
\<close>

definition decode_first :: "string \<Rightarrow> json option" where
  "decode_first s = (case parse_value (2 * length s + 2) s of
     None \<Rightarrow> None
   | Some (JObj ms, _) \<Rightarrow> Some (JObj ms)
   | Some (JArr vs, _) \<Rightarrow> Some (JArr vs)
   | Some (v, []) \<Rightarrow> Some v
   | Some (v, c # _) \<Rightarrow> if json_ws c then Some v else None)"

text \<open>\<open>media\<close> is \<^verbatim>\<open>mime.ParseMediaType\<close>, \<open>None\<close> when it fails.\<close>

definition decode_response_data :: "(string \<Rightarrow> string option) \<Rightarrow> string \<Rightarrow> string \<Rightarrow> response_data \<times> bool" where
  "decode_response_data media body contentType =
    (if trim_space body = [] then (TextData [], False)
     else (let mediaType = (case media contentType of Some m \<Rightarrow> m | None \<Rightarrow> contentType) in
       case (if contains (to_lower mediaType) ''json'' then decode_first body else None) of
         Some v \<Rightarrow> (JsonData v, True)
       | None \<Rightarrow> (TextData body, False)))"

definition as_object :: "json option \<Rightarrow> (string, json) gmap" where
  "as_object j = (case j of Some (JObj ms) \<Rightarrow> (case decode_map (JObj ms) of Some m \<Rightarrow> m | None \<Rightarrow> []) | _ \<Rightarrow> [])"

fun node_role_values :: "(string \<times> json) list \<Rightarrow> string list" where
  "node_role_values [] = []"
| "node_role_values ((k, raw) # rest) =
     (if prefix ''node-role.kubernetes.io/'' k
      then (let role = trim_prefix ''node-role.kubernetes.io/'' k in if role \<noteq> [] then role # node_role_values rest else node_role_values rest)
      else (case raw of
        JStr v \<Rightarrow> if k = ''kubernetes.io/role'' \<and> v \<noteq> [] then v # node_role_values rest else node_role_values rest
      | _ \<Rightarrow> node_role_values rest))"

fun address_values :: "json list \<Rightarrow> string list" where
  "address_values [] = []"
| "address_values (item # rest) =
     (case gm_get (as_object (Some item)) ''address'' of Some (JStr v) \<Rightarrow> v # address_values rest | _ \<Rightarrow> address_values rest)"

definition node_search_values :: "(string, json) gmap \<Rightarrow> string list" where
  "node_search_values node =
    (let metadata = as_object (gm_get node ''metadata''); status = as_object (gm_get node ''status'') in
     (case gm_get metadata ''name'' of Some (JStr v) \<Rightarrow> [v] | _ \<Rightarrow> []) @
     node_role_values (as_object (gm_get metadata ''labels'')) @
     (case gm_get status ''addresses'' of Some (JArr items) \<Rightarrow> address_values items | _ \<Rightarrow> []))"

definition node_matches_keyword :: "(string, json) gmap \<Rightarrow> string \<Rightarrow> bool" where
  "node_matches_keyword node keyword \<longleftrightarrow> (\<exists>v \<in> set (node_search_values node). contains (to_lower v) keyword)"

definition kept_node :: "string \<Rightarrow> json \<Rightarrow> bool" where
  "kept_node keyword item \<longleftrightarrow> (case item of JObj ms \<Rightarrow> node_matches_keyword (as_object (Some (JObj ms))) keyword | _ \<Rightarrow> True)"

definition filter_node_list_data :: "response_data \<Rightarrow> string \<Rightarrow> response_data" where
  "filter_node_list_data d keyword =
    (if keyword = [] then d
     else (case d of
       JsonData (JObj ms) \<Rightarrow> (let m = as_object (Some (JObj ms)) in case gm_get m ''items'' of
         Some (JArr items) \<Rightarrow> JsonData (JObj (gm_put ''items'' (JArr (filter (kept_node keyword) items)) m))
       | _ \<Rightarrow> d)
     | _ \<Rightarrow> d))"

record upstream_status =
  us_message :: string
  us_reason :: string

definition set_status_field :: "string \<Rightarrow> json \<Rightarrow> upstream_status \<Rightarrow> upstream_status option" where
  "set_status_field k v st =
    (if k = ''message'' then map_option (\<lambda>s. case v of JNull \<Rightarrow> st | _ \<Rightarrow> st\<lparr>us_message := s\<rparr>) (decode_string v)
     else if k = ''reason'' then map_option (\<lambda>s. case v of JNull \<Rightarrow> st | _ \<Rightarrow> st\<lparr>us_reason := s\<rparr>) (decode_string v)
     else Some st)"

text \<open>Encoding a value and decoding it again visits the members of an object in the order of their names.\<close>

definition upstream_error_message :: "string \<Rightarrow> response_data \<Rightarrow> string \<Rightarrow> string" where
  "upstream_error_message body d fallback =
    (let status = (case d of
         JsonData (JObj ms) \<Rightarrow> decode_fields set_status_field (sort_key fst (as_object (Some (JObj ms)))) \<lparr>us_message = [], us_reason = []\<rparr>
       | JsonData v \<Rightarrow> decode_struct set_status_field \<lparr>us_message = [], us_reason = []\<rparr> v
       | TextData _ \<Rightarrow> None);
         message = trim_space body in
     case status of
       Some st \<Rightarrow> if trim_space (us_message st) \<noteq> [] then us_message st
         else if trim_space (us_reason st) \<noteq> [] then us_reason st
         else if message \<noteq> [] then message else fallback
     | None \<Rightarrow> if message \<noteq> [] then message else fallback)"

definition replaced_headers :: "nat \<Rightarrow> http_header \<Rightarrow> http_header" where
  "replaced_headers len hs = header_del ''Transfer-Encoding'' (header_del ''Content-Range'' (header_del ''Content-Encoding''
     (header_set ''Content-Length'' (itoa (int len)) (header_set ''Content-Type'' ''application/json'' hs))))"

text \<open>
  \<^verbatim>\<open>wrapKubernetesResponse\<close>: the status and the envelope of the answer. \<open>readErr\<close> is a failure to read the body, of which at most
  the limit and one byte are read; \<open>statusText\<close> is \<^verbatim>\<open>http.StatusText\<close>.
\<close>

definition wrap_kubernetes_response ::
  "(string \<Rightarrow> string option) \<Rightarrow> (int \<Rightarrow> string) \<Rightarrow> go_error option \<Rightarrow> upstream_reply \<Rightarrow> string \<Rightarrow> string \<Rightarrow> (int \<times> proxy_envelope) go_result" where
  "wrap_kubernetes_response media statusText readErr resp requestID keyword = (case readErr of
     Some e \<Rightarrow> Inl e
   | None \<Rightarrow>
      (let body = take (MAX_WRAPPED_RESPONSE_BYTES + 1) (ur_body resp) in
       if MAX_WRAPPED_RESPONSE_BYTES < length body then
         Inr (502, \<lparr>pv_code = error_code_for_status 502,
           pv_message = ''kubernetes response too large to process; refine the query (e.g. add a label selector or limit)'',
           pv_data = None, pv_request_id = requestID\<rparr>)
       else (case decode_response_data media body (header_get (ur_headers resp) ''Content-Type'') of (d, isJSON) \<Rightarrow>
         if 200 \<le> ur_status resp \<and> ur_status resp < 300 then
           Inr (if ur_status resp = 204 then 200 else ur_status resp,
             \<lparr>pv_code = CodeSuccess, pv_message = [], pv_data = Some (filter_node_list_data d keyword), pv_request_id = requestID\<rparr>)
         else Inr (ur_status resp, \<lparr>pv_code = error_code_for_status (ur_status resp),
             pv_message = upstream_error_message body (if isJSON then d else TextData []) (statusText (ur_status resp)),
             pv_data = None, pv_request_id = requestID\<rparr>))))"

text \<open>\<^verbatim>\<open>ModifyResponse\<close>: \<open>None\<close> leaves the answer as it is.\<close>

definition modify_response ::
  "'t forward_plan \<Rightarrow> (string \<Rightarrow> string option) \<Rightarrow> (int \<Rightarrow> string) \<Rightarrow> go_error option \<Rightarrow> upstream_reply \<Rightarrow> string
    \<Rightarrow> (int \<times> proxy_envelope) go_result option" where
  "modify_response f media statusText readErr resp requestID =
    (if fp_pass_through f \<or> should_pass_through_response (ur_headers resp) then None
     else Some (wrap_kubernetes_response media statusText readErr resp requestID (fp_keyword f)))"

end
