(* ===== verification/Kube_Security.thy ===== *)
theory Kube_Security
  imports Kube_Proxy
begin

text \<open>
  What the proxy keeps to itself and whom it lets through: the credentials of a client stay inside, a session has passed the
  checks, a transport belongs to the kubeconfig it is used for; and requests the checks do not recognise.
\<close>

section \<open>Headers\<close>




lemma canonical_names [simp]:
  "canonical_key ''Cookie'' = ''Cookie''" "canonical_key ''Authorization'' = ''Authorization''"
  "canonical_key CLUSTER_ID_HEADER = ''X-Cluster-Id''" "canonical_key CSRF_HEADER = ''X-Kubeflare-Csrf''"
  "canonical_key ''Connection'' = ''Connection''" "canonical_key ''Upgrade'' = ''Upgrade''"
  "canonical_key ''User-Agent'' = ''User-Agent''" "canonical_key ''Impersonate-User'' = ''Impersonate-User''"
  "canonical_key ''Impersonate-Group'' = ''Impersonate-Group''" "canonical_key ''Accept-Encoding'' = ''Accept-Encoding''"
  "canonical_key ''Origin'' = ''Origin''"
  by code_simp+













section \<open>Properties\<close>







section \<open>The cache of transports\<close>

text \<open>What reaches the cache: requests, and the invalidations of cluster updates.\<close>

datatype proxy_step = ServeRequest principal kapi_request | InvalidateTransports string

definition do_proxy_step :: "proxy_handler \<Rightarrow> (proxy_step \<Rightarrow> 't proxy_env) \<Rightarrow> proxy_step \<Rightarrow> 't proxy_state \<Rightarrow> 't proxy_result option \<times> 't proxy_state" where
  "do_proxy_step h env s px = (case s of
     ServeRequest p r \<Rightarrow> (case serve_http h (env s) p r px of (out, px1) \<Rightarrow> (Some out, px1))
   | InvalidateTransports i \<Rightarrow> (None, invalidate_transports px))"

fun proxy_states :: "proxy_handler \<Rightarrow> (proxy_step \<Rightarrow> 't proxy_env) \<Rightarrow> proxy_step list \<Rightarrow> 't proxy_state \<Rightarrow> 't proxy_state" where
  "proxy_states h env [] px = px"
| "proxy_states h env (s # ss) px = proxy_states h env ss (snd (do_proxy_step h env s px))"

text \<open>
  The documented behaviour the cache relies on: one parser, one hash that tells kubeconfigs apart, and transports that do not depend on the
  timeout of a client.
\<close>

definition same_world :: "('t proxy_env) \<Rightarrow> 't proxy_env \<Rightarrow> bool" where
  "same_world e e' \<longleftrightarrow> pe_load e' = pe_load e \<and> pe_hash e' = pe_hash e \<and> pe_transport e' = pe_transport e"

definition transports_by_content :: "'t proxy_env \<Rightarrow> bool" where
  "transports_by_content e \<longleftrightarrow> inj (pe_hash e) \<and> (\<forall>c t. pe_transport e (c\<lparr>rf_timeout := t\<rparr>) = pe_transport e c)"

definition cache_sound :: "'t proxy_env \<Rightarrow> (string, 't) gmap \<Rightarrow> bool" where
  "cache_sound e cache \<longleftrightarrow> (\<forall>k t. gm_get cache k = Some t \<longrightarrow>
     (\<exists>kubeconfig c. pe_hash e kubeconfig = k \<and> pe_load e kubeconfig = Inr c \<and> pe_transport e c = Inr t))"

lemma cached_target:
  assumes "proxy_target_cached e kubeconfig c' cache = (res, cache')" and "cache_sound e cache" and "transports_by_content e"
    and "pe_load e kubeconfig = Inr c" and "c' = c \<or> c' = c\<lparr>rf_timeout := t\<rparr>"
  shows "cache_sound e cache' \<and> (\<forall>target tr. res = Inr (target, tr) \<longrightarrow> pe_transport e c = Inr tr \<and> rf_target c = Some target)"
proof -
  have same: "pe_transport e c' = pe_transport e c" "rf_target c' = rf_target c"
    using assms(3,5) by (auto simp: transports_by_content_def)
  have hit: "pe_transport e c = Inr tr" if "gm_get cache (pe_hash e kubeconfig) = Some tr" for tr
  proof -
    from assms(2) that obtain k2 c2 where "pe_hash e k2 = pe_hash e kubeconfig" "pe_load e k2 = Inr c2" "pe_transport e c2 = Inr tr"
      unfolding cache_sound_def by blast
    moreover from this(1) assms(3) have "k2 = kubeconfig" by (auto simp: transports_by_content_def inj_def)
    ultimately show ?thesis using assms(4) by simp
  qed
  show ?thesis
  proof (cases "gm_get cache (pe_hash e kubeconfig)")
    case (Some tr)
    with assms(1,2) hit same show ?thesis
      by (auto simp: proxy_target_cached_def Let_def split: option.splits if_splits)
  next
    case None
    have "cache_sound e (gm_put (pe_hash e kubeconfig) tr cache)" if "pe_transport e c = Inr tr" for tr
      using assms(2,4) that by (auto simp: cache_sound_def)
    with assms(1,2) None same show ?thesis
      by (auto simp: proxy_target_cached_def Let_def split: option.splits if_splits sum.splits)
  qed
qed

lemma serve_keeps_cache:
  assumes "serve_http h e p r px = (out, px')" and "cache_sound e (px_cache px)" and "transports_by_content e"
  shows "cache_sound e (px_cache px') \<and> (\<forall>f. out = Forwarded f \<longrightarrow> (\<exists>kubeconfig c.
     pe_provider e (cluster_id_of r) = Inr kubeconfig \<and> pe_load e kubeconfig = Inr c \<and> pe_transport e c = Inr (fp_transport f)))"
proof (cases "\<exists>upstream kubeconfig c. rewrite_kubernetes_path (kq_path r) = Some upstream \<and> cluster_id_of r \<noteq> [] \<and>
    pe_provider e (cluster_id_of r) = Inr kubeconfig \<and> pe_load e kubeconfig = Inr c \<and> \<not> is_upgrade_request r")
  case False
  with assms(1) have "px_cache px' = px_cache px \<and> (\<forall>f. out \<noteq> Forwarded f)"
    by (auto simp: serve_http_def Let_def case_prod_unfold split: option.splits sum.splits if_splits)
  with assms(2) show ?thesis by simp
next
  case True
  then obtain upstream kubeconfig c where *: "rewrite_kubernetes_path (kq_path r) = Some upstream" "cluster_id_of r \<noteq> []"
    "pe_provider e (cluster_id_of r) = Inr kubeconfig" "pe_load e kubeconfig = Inr c" "\<not> is_upgrade_request r" by blast
  let ?c = "if 0 < ph_timeout h \<and> \<not> should_pass_through_request r then c\<lparr>rf_timeout := ph_timeout h\<rparr> else c"
  obtain res cache where tc: "proxy_target_cached e kubeconfig ?c (px_cache px) = (res, cache)"
    by (cases "proxy_target_cached e kubeconfig ?c (px_cache px)") auto
  have "cache_sound e cache \<and> (\<forall>target tr. res = Inr (target, tr) \<longrightarrow> pe_transport e c = Inr tr \<and> rf_target c = Some target)"
    by (rule cached_target [OF tc assms(2,3) *(4), where t = "ph_timeout h"]) auto
  with assms(1) * tc show ?thesis
    by (cases res) (auto simp: serve_http_def Let_def case_prod_unfold direct_request_def)
qed

lemma same_world_cache: "same_world e e' \<Longrightarrow> cache_sound e' cache = cache_sound e cache" "same_world e e' \<Longrightarrow> transports_by_content e' = transports_by_content e"
  by (simp_all add: cache_sound_def transports_by_content_def same_world_def)

lemma proxy_states_sound:
  assumes "\<forall>s. same_world e (env s)" and "transports_by_content e" and "cache_sound e (px_cache px)"
  shows "cache_sound e (px_cache (proxy_states h env ss px))"
  using assms(3)
proof (induction ss arbitrary: px)
  case (Cons s ss)
  have "cache_sound e (px_cache (snd (do_proxy_step h env s px)))"
  proof (cases s)
    case (ServeRequest p r)
    have "same_world e (env s)" using assms(1) by blast
    note same = same_world_cache [OF this]
    from serve_keeps_cache [where h = h and e = "env s" and p = p and r = r and px = px, OF prod.collapse [symmetric]] Cons.prems assms(2) same
    show ?thesis by (simp add: ServeRequest do_proxy_step_def case_prod_unfold)
  next
    case (InvalidateTransports i)
    then show ?thesis by (simp add: do_proxy_step_def invalidate_transports_def cache_sound_def)
  qed
  with Cons.IH show ?case by simp
qed simp

text \<open>
  C32: connections are not mixed up: after any requests and invalidations, from an empty cache on, a forwarded request uses a transport built from the very
  kubeconfig that its cluster has at that moment, never that of another cluster or of credentials that have been replaced.
\<close>

theorem transports_not_mixed:
  assumes "\<forall>s. same_world e (env s)" and "transports_by_content e" and "px_cache px = []"
    and "serve_http h (env (ServeRequest p r)) p r (proxy_states h env ss px) = (Forwarded f, px')"
  shows "\<exists>kubeconfig c. pe_provider (env (ServeRequest p r)) (cluster_id_of r) = Inr kubeconfig \<and> pe_load e kubeconfig = Inr c \<and>
     pe_transport e c = Inr (fp_transport f)"
proof -
  let ?e = "env (ServeRequest p r)"
  have w: "same_world e ?e" using assms(1) by blast
  have "cache_sound e (px_cache (proxy_states h env ss px))"
    by (rule proxy_states_sound [OF assms(1,2)]) (simp add: assms(3) cache_sound_def)
  with serve_keeps_cache [OF assms(4)] same_world_cache [OF w] assms(2) w show ?thesis
    by (auto simp: same_world_def)
qed

section \<open>A small instance\<close>

definition sample_rest_config :: rest_config where
  "sample_rest_config = \<lparr>rf_target = Some (''https'', ''k8s'', []), rf_bearer_token = [], rf_bearer_token_file = [], rf_username = [], rf_password = [],
     rf_user_agent = [], rf_impersonate_user = [], rf_impersonate_groups = [], rf_impersonate_extra = [], rf_timeout = 0\<rparr>"

definition sample_upgrade_env :: upgrade_env where
  "sample_upgrade_env = \<lparr>ue_now = 0, ue_fault = (\<lambda>n. None), ue_member = ''m'', ue_hijackable = True, ue_build = None, ue_read = (\<lambda>p. Inl ErrEOF),
     ue_base64 = (\<lambda>s. s), ue_dial = None, ue_write = None, ue_reply = Inl ErrEOF, ue_hijack = None, ue_answer = None\<rparr>"

text \<open>The kubeconfig of this instance is the token, and a transport is known by its token.\<close>

definition sample_proxy_env :: "string proxy_env" where
  "sample_proxy_env = \<lparr>pe_provider = (\<lambda>i. Inr (''token-'' @ i)), pe_load = (\<lambda>k. Inr (sample_rest_config\<lparr>rf_bearer_token := k\<rparr>)), pe_hash = (\<lambda>k. k),
     pe_transport = (\<lambda>c. Inr (rf_bearer_token c)), pe_upgrade = sample_upgrade_env\<rparr>"

definition sample_handler :: proxy_handler where
  "sample_handler = new_proxy_handler_with_security 1
     \<lparr>so_allowed_origins = [''https://console''], so_blocked_namespaces = [''kube-system''], so_max_sessions = 1, so_semaphore = None\<rparr>"

definition sample_principal :: principal where
  "sample_principal = \<lparr>pr_subject = ''u'', pr_roles = [''admin''], pr_expires_at = 0\<rparr>"

definition sample_kapi :: "string \<Rightarrow> http_header \<Rightarrow> kapi_request" where
  "sample_kapi path hs = \<lparr>kq_path = path, kq_query = [], kq_headers = (''X-Cluster-Id'', [''7'']) # hs\<rparr>"

definition sample_state :: "string proxy_state" where
  "sample_state = \<lparr>px_cache = [], px_sessions = \<lparr>se_sem = new_keyed_semaphore 1,
     se_redis = \<lparr>rk_zsets = [], rk_signals = [], rk_subs = [], rk_inbox = []\<rparr>\<rparr>\<rparr>"

abbreviation sample_serve :: "kapi_request \<Rightarrow> string proxy_result \<times> string proxy_state" where
  "sample_serve r \<equiv> serve_http sample_handler sample_proxy_env sample_principal r sample_state"

definition forwarded_with :: "'t proxy_result \<times> 't proxy_state \<Rightarrow> 't option" where
  "forwarded_with out = (case fst out of Forwarded f \<Rightarrow> Some (fp_transport f) | _ \<Rightarrow> None)"

lemma sample_forwarded: "forwarded_with (sample_serve (sample_kapi ''/kapi/v1/pods'' [])) = Some ''token-7''"
  by code_simp

theorem transports_not_mixed_witness:
  "forwarded_with (serve_http sample_handler sample_proxy_env sample_principal (sample_kapi ''/kapi/v1/pods'' [])
     (proxy_states sample_handler (\<lambda>_. sample_proxy_env) [InvalidateTransports ''7''] sample_state)) = Some ''token-7''"
proof -
  let ?px = "proxy_states sample_handler (\<lambda>_. sample_proxy_env) [InvalidateTransports ''7''] sample_state"
  let ?r = "sample_kapi ''/kapi/v1/pods'' []"
  have same: "?px = sample_state" by (simp add: do_proxy_step_def invalidate_transports_def sample_state_def)
  obtain f px' where f: "serve_http sample_handler sample_proxy_env sample_principal ?r ?px = (Forwarded f, px')"
    using sample_forwarded unfolding same
    by (cases "sample_serve ?r") (auto simp: forwarded_with_def split: proxy_result.splits)
  have "transports_by_content sample_proxy_env" by (simp add: transports_by_content_def sample_proxy_env_def)
  from transports_not_mixed [of sample_proxy_env "\<lambda>_. sample_proxy_env", OF _ this _ f]
  have "fp_transport f = ''token-'' @ cluster_id_of ?r"
    by (auto simp: same_world_def sample_state_def sample_proxy_env_def)
  moreover have "cluster_id_of ?r = ''7''" by code_simp
  ultimately show ?thesis using f by (simp add: forwarded_with_def)
qed

section \<open>Requests the checks do not recognise\<close>

definition exec_headers :: "string list \<Rightarrow> http_header" where
  "exec_headers connection = [(''Connection'', connection), (''Upgrade'', [''websocket''])]"

abbreviation refused_exec :: "'t proxy_result \<times> 't proxy_state \<Rightarrow> bool" where
  "refused_exec out \<equiv> (case fst out of ProxyFailed (ErrApp c m st e) \<Rightarrow> st = 403 | _ \<Rightarrow> False)"

text \<open>A session into a protected namespace is refused.\<close>

lemma protected_namespace_refused:
  "refused_exec (sample_serve (sample_kapi ''/kapi/v1/namespaces/kube-system/pods/p/exec'' (exec_headers [''Upgrade''])))"
  by code_simp

text \<open>
  The same request with a second \<^verbatim>\<open>Connection\<close> header is no upgrade for the checks, which look at the first value only, but
  it is one for \<^verbatim>\<open>ReverseProxy\<close>, which looks at all of them: it is forwarded and switched without the check of its origin and of
  its namespace, without a slot and without a deadline.
\<close>

lemma second_connection_header_forwarded:
  "forwarded_with (sample_serve (sample_kapi ''/kapi/v1/namespaces/kube-system/pods/p/exec'' (exec_headers [''keep-alive'', ''Upgrade''])))
     = Some ''token-7''"
  "upgrade_type (exec_headers [''keep-alive'', ''Upgrade'']) = ''websocket''"
  by code_simp+

text \<open>A slash at the end, or a pod named \<^verbatim>\<open>namespaces\<close>, hides the operation or the namespace.\<close>

lemma trailing_slash_unseen:
  "parse_exec_target ''/api/v1/namespaces/kube-system/pods/p/exec/'' [] = (''kube-system'', ''p'', [], False)"
  "\<not> refused_exec (sample_serve (sample_kapi ''/kapi/v1/namespaces/kube-system/pods/p/exec/'' (exec_headers [''Upgrade''])))"
  by code_simp+

lemma pod_named_namespaces_unseen:
  "parse_exec_target ''/api/v1/namespaces/kube-system/pods/namespaces/exec'' [] = (''exec'', ''namespaces'', [], True)"
  "\<not> refused_exec (sample_serve (sample_kapi ''/kapi/v1/namespaces/kube-system/pods/namespaces/exec'' (exec_headers [''Upgrade''])))"
  by code_simp+

text \<open>A client may ask for another identity: its impersonation headers are forwarded with the kubeconfig's credentials.\<close>

lemma impersonation_forwarded:
  "gm_get (fp_headers (direct_request (sample_kapi ''/kapi/v1/pods'' [(''Impersonate-User'', [''root''])]) ''/api/v1/pods'' target t pass [])) ''Impersonate-User''
     = Some [''root'']"
  "gm_get (copy_upgrade_request_headers [(''Impersonate-User'', [''root''])]) ''Impersonate-User'' = Some [''root'']"
  by (cases pass; simp add: direct_request_def Let_def remove_kubeflare_headers_def sample_kapi_def) code_simp

end
