(* ===== verification/Ring_Cache.thy ===== *)
theory Ring_Cache
  imports Go_Strings "HOL-Library.Signed_Division"
begin

text \<open>
  The bounded in-memory caches of the agent (\<^verbatim>\<open>agent/application/internal/vector\<close> and \<^verbatim>\<open>cache\<close>): the ring
  buffer of entries with their vectors, kept from the newest to the oldest, and the set of strings that forgets the oldest.
  Both are compared with a list: every history of operations on the ring leaves the list that the same history leaves on lists,
  cut at the capacity. The scores of a search are elements of a linear order, the similarity of two vectors is a parameter.
  A cache is not nil.
\<close>

section \<open>The ring buffer\<close>

record ('a, 'v) vec_entry =
  ve_item :: 'a
  ve_vector :: "'v list"
  ve_key :: string

text \<open>\<open>bc_zero\<close> is the zero value of an entry, which fills the free slots.\<close>

record ('a, 'v) bounded_cache =
  bc_buf :: "('a, 'v) vec_entry list"
  bc_head :: nat
  bc_size :: nat
  bc_capacity :: nat
  bc_key_of :: "('a \<Rightarrow> string) option"
  bc_id_of :: "('a \<Rightarrow> string) option"
  bc_zero :: "('a, 'v) vec_entry"

definition at_least_one :: "int \<Rightarrow> nat" where
  "at_least_one c = (if c \<le> 0 then 1 else nat c)"

definition new_bounded_cache ::
  "('a, 'v) vec_entry \<Rightarrow> int \<Rightarrow> ('a \<Rightarrow> string) option \<Rightarrow> ('a \<Rightarrow> string) option \<Rightarrow> ('a, 'v) bounded_cache" where
  "new_bounded_cache z capacity kf idf =
    \<lparr>bc_buf = replicate (at_least_one capacity) z, bc_head = 0, bc_size = 0, bc_capacity = at_least_one capacity,
     bc_key_of = kf, bc_id_of = idf, bc_zero = z\<rparr>"

text \<open>Go's remainder has the sign of the dividend.\<close>

definition index_at :: "('a, 'v) bounded_cache \<Rightarrow> nat \<Rightarrow> nat" where
  "index_at c pos =
    (let idx = (int (bc_head c) - int pos) smod int (bc_capacity c) in nat (if idx < 0 then idx + int (bc_capacity c) else idx))"

definition entry_at :: "('a, 'v) bounded_cache \<Rightarrow> nat \<Rightarrow> ('a, 'v) vec_entry" where
  "entry_at c pos = bc_buf c ! index_at c pos"

definition prepend_locked :: "('a, 'v) vec_entry \<Rightarrow> ('a, 'v) bounded_cache \<Rightarrow> ('a, 'v) bounded_cache" where
  "prepend_locked e c =
    (let h = (if bc_size c = 0 then 0 else (bc_head c + 1) mod bc_capacity c) in
     c\<lparr>bc_head := h, bc_buf := (bc_buf c)[h := e], bc_size := (if bc_size c < bc_capacity c then bc_size c + 1 else bc_size c)\<rparr>)"

definition remove_at_pos_locked :: "nat \<Rightarrow> ('a, 'v) bounded_cache \<Rightarrow> ('a, 'v) bounded_cache" where
  "remove_at_pos_locked pos c =
    (let c' = fold (\<lambda>cur c. c\<lparr>bc_buf := (bc_buf c)[index_at c cur := bc_buf c ! index_at c (cur + 1)]\<rparr>) [pos..<bc_size c - 1] c in
     c'\<lparr>bc_buf := (bc_buf c')[index_at c' (bc_size c' - 1) := bc_zero c'], bc_size := bc_size c' - 1\<rparr>)"

definition remove_by_key_locked :: "string \<Rightarrow> ('a, 'v) bounded_cache \<Rightarrow> ('a, 'v) bounded_cache" where
  "remove_by_key_locked key c =
    (if key = [] \<or> bc_size c = 0 then c
     else case find (\<lambda>pos. ve_key (entry_at c pos) = key) [0..<bc_size c] of
       None \<Rightarrow> c | Some pos \<Rightarrow> remove_at_pos_locked pos c)"

definition cache_add :: "'a \<Rightarrow> 'v list \<Rightarrow> ('a, 'v) bounded_cache \<Rightarrow> ('a, 'v) bounded_cache" where
  "cache_add item v c =
    (case bc_key_of c of
       None \<Rightarrow> prepend_locked \<lparr>ve_item = item, ve_vector = v, ve_key = []\<rparr> c
     | Some kf \<Rightarrow>
         (let key = kf item; c' = (if key \<noteq> [] then remove_by_key_locked key c else c) in
          prepend_locked \<lparr>ve_item = item, ve_vector = v, ve_key = key\<rparr> c'))"

definition update_vector :: "string \<Rightarrow> 'v list \<Rightarrow> ('a, 'v) bounded_cache \<Rightarrow> ('a, 'v) bounded_cache" where
  "update_vector k v c =
    (case bc_id_of c of
       None \<Rightarrow> c
     | Some idf \<Rightarrow>
         if k = [] \<or> v = [] then c
         else case find (\<lambda>pos. idf (ve_item (entry_at c pos)) = k) [0..<bc_size c] of
           None \<Rightarrow> c
         | Some pos \<Rightarrow> c\<lparr>bc_buf := (bc_buf c)[index_at c pos := (entry_at c pos)\<lparr>ve_vector := v\<rparr>]\<rparr>)"

definition remove_matching_step ::
  "('a \<Rightarrow> bool) \<Rightarrow> nat \<Rightarrow> int \<times> ('a, 'v) bounded_cache \<Rightarrow> int \<times> ('a, 'v) bounded_cache" where
  "remove_matching_step pred pos = (\<lambda>(removed, c).
    if pred (ve_item (entry_at c pos)) then (removed + 1, remove_at_pos_locked pos c) else (removed, c))"

text \<open>The predicate is not nil.\<close>

definition remove_matching :: "('a \<Rightarrow> bool) \<Rightarrow> ('a, 'v) bounded_cache \<Rightarrow> int \<times> ('a, 'v) bounded_cache" where
  "remove_matching pred c = fold (remove_matching_step pred) (rev [0..<bc_size c]) (0, c)"

definition snapshot :: "('a, 'v) bounded_cache \<Rightarrow> ('a, 'v) vec_entry list" where
  "snapshot c = map (entry_at c) [0..<bc_size c]"

definition append_oldest_locked :: "('a, 'v) vec_entry \<Rightarrow> ('a, 'v) bounded_cache \<Rightarrow> ('a, 'v) bounded_cache" where
  "append_oldest_locked e c =
    (if bc_size c = 0 then c\<lparr>bc_head := 0, bc_buf := (bc_buf c)[0 := e], bc_size := 1\<rparr>
     else c\<lparr>bc_buf := (bc_buf c)[index_at c (bc_size c) := e], bc_size := bc_size c + 1\<rparr>)"

fun replace_loop :: "('a, 'v) vec_entry list \<Rightarrow> string set \<Rightarrow> ('a, 'v) bounded_cache \<Rightarrow> ('a, 'v) bounded_cache" where
  "replace_loop [] seen c = c"
| "replace_loop (e # es) seen c =
    (if bc_capacity c \<le> bc_size c then c
     else case bc_key_of c of
       None \<Rightarrow> replace_loop es seen (append_oldest_locked e c)
     | Some kf \<Rightarrow>
         (let k = kf (ve_item e); e' = e\<lparr>ve_key := k\<rparr> in
          if k = [] then replace_loop es seen (append_oldest_locked e' c)
          else if k \<in> seen then replace_loop es seen c
          else replace_loop es (insert k seen) (append_oldest_locked e' c)))"

definition cache_replace :: "('a, 'v) vec_entry list \<Rightarrow> ('a, 'v) bounded_cache \<Rightarrow> ('a, 'v) bounded_cache" where
  "cache_replace es c =
    replace_loop es {} (c\<lparr>bc_buf := replicate (bc_capacity c) (bc_zero c), bc_head := 0, bc_size := 0\<rparr>)"

section \<open>The slots of the ring\<close>

definition ring_ok :: "('a, 'v) bounded_cache \<Rightarrow> bool" where
  "ring_ok c \<longleftrightarrow> 0 < bc_capacity c \<and> length (bc_buf c) = bc_capacity c \<and> bc_head c < bc_capacity c \<and> bc_size c \<le> bc_capacity c"

lemma smod_small: "\<bar>x\<bar> < k \<Longrightarrow> x smod k = (x :: int)"
  by (simp add: signed_modulo_int_def abs_mult_sgn sgn_if)

lemma index_at_eq:
  assumes "bc_head c < bc_capacity c" and "p \<le> bc_capacity c"
  shows "index_at c p = (if p \<le> bc_head c then bc_head c - p else bc_head c + bc_capacity c - p)"
proof (cases "p - bc_head c = bc_capacity c")
  case True
  then have "p = bc_capacity c" and "bc_head c = 0" using assms by auto
  then show ?thesis using assms by (simp add: index_at_def signed_modulo_int_def)
next
  case False
  then have "(int (bc_head c) - int p) smod int (bc_capacity c) = int (bc_head c) - int p"
    using assms by (intro smod_small) auto
  with assms show ?thesis by (auto simp: index_at_def nat_diff_distrib nat_add_distrib)
qed

lemma index_at_less: "ring_ok c \<Longrightarrow> p \<le> bc_capacity c \<Longrightarrow> index_at c p < bc_capacity c"
  by (auto simp: index_at_eq ring_ok_def)

lemma index_at_inj:
  "ring_ok c \<Longrightarrow> p < bc_capacity c \<Longrightarrow> q < bc_capacity c \<Longrightarrow> index_at c p = index_at c q \<longleftrightarrow> p = q"
  by (auto simp: index_at_eq ring_ok_def split: if_splits)

lemma index_at_cong: "bc_head c' = bc_head c \<Longrightarrow> bc_capacity c' = bc_capacity c \<Longrightarrow> index_at c' p = index_at c p"
  by (simp add: index_at_def Let_def)

lemma length_snapshot [simp]: "length (snapshot c) = bc_size c"
  by (simp add: snapshot_def)

lemma nth_snapshot: "i < bc_size c \<Longrightarrow> snapshot c ! i = entry_at c i"
  by (simp add: snapshot_def)

lemma entry_at_put:
  assumes "ring_ok c" and "p < bc_capacity c" and "q < bc_capacity c"
  shows "entry_at (c\<lparr>bc_buf := (bc_buf c)[index_at c p := e]\<rparr>) q = (if q = p then e else entry_at c q)"
proof -
  have "index_at (c\<lparr>bc_buf := (bc_buf c)[index_at c p := e]\<rparr>) q = index_at c q" by (rule index_at_cong) simp_all
  with assms index_at_less [OF assms(1), of p] index_at_inj [OF assms(1-3)] show ?thesis
    by (auto simp: entry_at_def ring_ok_def nth_list_update)
qed

text \<open>What the operations leave alone.\<close>

definition same_cache :: "('a, 'v) bounded_cache \<Rightarrow> ('a, 'v) bounded_cache \<Rightarrow> bool" where
  "same_cache c d \<longleftrightarrow> bc_capacity d = bc_capacity c \<and> bc_key_of d = bc_key_of c \<and> bc_id_of d = bc_id_of c \<and> bc_zero d = bc_zero c"

lemma same_cache_refl [simp]: "same_cache c c"
  by (simp add: same_cache_def)

lemma same_cache_trans: "same_cache c d \<Longrightarrow> same_cache d e \<Longrightarrow> same_cache c e"
  by (simp add: same_cache_def)

lemma same_cache_prepend: "same_cache c (prepend_locked e c)"
  by (simp add: same_cache_def prepend_locked_def Let_def)

section \<open>The operations on lists\<close>

lemma snapshot_prepend:
  assumes "ring_ok c"
  shows "snapshot (prepend_locked e c) = take (bc_capacity c) (e # snapshot c)" and "ring_ok (prepend_locked e c)"
proof -
  let ?c = "prepend_locked e c"
  show "ring_ok ?c" using assms by (auto simp: ring_ok_def prepend_locked_def Let_def)
  have size: "bc_size ?c = min (bc_capacity c) (Suc (bc_size c))"
    using assms by (simp add: prepend_locked_def Let_def ring_ok_def)
  show "snapshot ?c = take (bc_capacity c) (e # snapshot c)"
  proof (rule nth_equalityI)
    fix i assume "i < length (snapshot ?c)"
    then have i: "i < bc_capacity c" "i < Suc (bc_size c)" by (simp_all add: size)
    have head: "bc_head ?c < bc_capacity c" "bc_capacity ?c = bc_capacity c"
      using assms by (auto simp: prepend_locked_def Let_def ring_ok_def)
    show "snapshot ?c ! i = take (bc_capacity c) (e # snapshot c) ! i"
    proof (cases i)
      case 0
      then show ?thesis using assms i head
        by (simp add: nth_snapshot size entry_at_def index_at_eq)
          (simp add: prepend_locked_def Let_def ring_ok_def)
    next
      case (Suc j)
      then have j: "j < bc_size c" "Suc j < bc_capacity c" using i by simp_all
      have "index_at ?c (Suc j) = index_at c j"
        using assms j head by (auto simp: index_at_eq prepend_locked_def Let_def ring_ok_def mod_Suc)
      moreover have "index_at c j \<noteq> bc_head ?c"
        using assms j by (auto simp: index_at_eq prepend_locked_def Let_def ring_ok_def mod_Suc split: if_splits)
      ultimately have "entry_at ?c (Suc j) = entry_at c j"
        by (auto simp: entry_at_def prepend_locked_def Let_def)
      then show ?thesis using Suc i j by (simp add: nth_snapshot size)
    qed
  qed (simp add: size)
qed

lemma shift_down:
  assumes "ring_ok c" and "p + n < bc_capacity c"
    and "c' = fold (\<lambda>cur c. c\<lparr>bc_buf := (bc_buf c)[index_at c cur := bc_buf c ! index_at c (cur + 1)]\<rparr>) [p..<p + n] c"
  shows "ring_ok c' \<and> (\<exists>b. c' = c\<lparr>bc_buf := b\<rparr>)
    \<and> (\<forall>q < bc_capacity c. entry_at c' q = (if p \<le> q \<and> q < p + n then entry_at c (q + 1) else entry_at c q))"
  using assms
proof (induction n arbitrary: c')
  case 0
  then show ?case by (auto intro: exI [of _ "bc_buf c"])
next
  case (Suc n)
  define d where "d = fold (\<lambda>cur c. c\<lparr>bc_buf := (bc_buf c)[index_at c cur := bc_buf c ! index_at c (cur + 1)]\<rparr>) [p..<p + n] c"
  have d: "ring_ok d" "\<exists>b. d = c\<lparr>bc_buf := b\<rparr>"
    "\<forall>q < bc_capacity c. entry_at d q = (if p \<le> q \<and> q < p + n then entry_at c (q + 1) else entry_at c q)"
    using Suc.IH [OF Suc.prems(1) _ d_def] Suc.prems(2) by simp_all
  have cap: "bc_capacity d = bc_capacity c" using d(2) by auto
  have "c' = d\<lparr>bc_buf := (bc_buf d)[index_at d (p + n) := entry_at d (p + n + 1)]\<rparr>"
    using Suc.prems(3) by (simp add: d_def entry_at_def)
  moreover have "ring_ok (d\<lparr>bc_buf := (bc_buf d)[index_at d (p + n) := entry_at d (p + n + 1)]\<rparr>)"
    using d(1) by (simp add: ring_ok_def)
  moreover have "entry_at d (p + n + 1) = entry_at c (p + n + 1)" using d(3) Suc.prems(2) by simp
  moreover have "entry_at (d\<lparr>bc_buf := (bc_buf d)[index_at d (p + n) := e]\<rparr>) q = (if q = p + n then e else entry_at d q)"
    if "q < bc_capacity c" for q e
    using entry_at_put [OF d(1), of "p + n" q e] that Suc.prems(2) by (simp add: cap)
  ultimately show ?case using d(2,3) by auto
qed

lemma snapshot_remove_at:
  assumes "ring_ok c" and "pos < bc_size c"
  shows "snapshot (remove_at_pos_locked pos c) = take pos (snapshot c) @ drop (Suc pos) (snapshot c)"
    and "ring_ok (remove_at_pos_locked pos c)"
    and "same_cache c (remove_at_pos_locked pos c)"
proof -
  define n where "n = bc_size c - 1 - pos"
  define d where "d = fold (\<lambda>cur c. c\<lparr>bc_buf := (bc_buf c)[index_at c cur := bc_buf c ! index_at c (cur + 1)]\<rparr>) [pos..<pos + n] c"
  have n: "pos + n = bc_size c - 1" using assms(2) by (simp add: n_def)
  then have less: "pos + n < bc_capacity c" using assms by (auto simp: ring_ok_def)
  have d: "ring_ok d" "\<exists>b. d = c\<lparr>bc_buf := b\<rparr>"
    "\<forall>q < bc_capacity c. entry_at d q = (if pos \<le> q \<and> q < pos + n then entry_at c (q + 1) else entry_at c q)"
    using shift_down [OF assms(1) less d_def] by blast+
  have same: "bc_capacity d = bc_capacity c" "bc_size d = bc_size c" using d(2) by auto
  have eq: "remove_at_pos_locked pos c
      = d\<lparr>bc_buf := (bc_buf d)[index_at d (bc_size d - 1) := bc_zero d], bc_size := bc_size d - 1\<rparr>"
    by (simp add: remove_at_pos_locked_def d_def n Let_def)
  show "same_cache c (remove_at_pos_locked pos c)" using d(2) by (auto simp: eq same_cache_def)
  show "ring_ok (remove_at_pos_locked pos c)" using d(1) by (auto simp: eq ring_ok_def)
  have at: "entry_at (remove_at_pos_locked pos c) q = entry_at d q" if "q < bc_size c - 1" for q
  proof -
    have "entry_at (remove_at_pos_locked pos c) q
        = entry_at (d\<lparr>bc_buf := (bc_buf d)[index_at d (bc_size d - 1) := bc_zero d]\<rparr>) q"
      by (simp add: eq entry_at_def index_at_def Let_def)
    also have "\<dots> = entry_at d q"
      using entry_at_put [OF d(1), of "bc_size d - 1" q] that assms by (auto simp: same ring_ok_def)
    finally show ?thesis .
  qed
  show "snapshot (remove_at_pos_locked pos c) = take pos (snapshot c) @ drop (Suc pos) (snapshot c)"
  proof (rule nth_equalityI)
    show "length (snapshot (remove_at_pos_locked pos c)) = length (take pos (snapshot c) @ drop (Suc pos) (snapshot c))"
      using assms by (simp add: eq same)
    fix i assume "i < length (snapshot (remove_at_pos_locked pos c))"
    then have i: "i < bc_size c - 1" by (simp add: eq same)
    then have "snapshot (remove_at_pos_locked pos c) ! i = entry_at d i"
      using at by (simp add: nth_snapshot eq same)
    also have "\<dots> = (if pos \<le> i then entry_at c (i + 1) else entry_at c i)"
      using d(3) i n assms by (auto simp: ring_ok_def)
    also have "\<dots> = (take pos (snapshot c) @ drop (Suc pos) (snapshot c)) ! i"
      using i assms by (simp add: nth_append nth_snapshot)
    finally show "snapshot (remove_at_pos_locked pos c) ! i = (take pos (snapshot c) @ drop (Suc pos) (snapshot c)) ! i" .
  qed
qed

text \<open>The first position of the loop is the first element of the list.\<close>

lemma find_pos:
  "find (\<lambda>pos. P (entry_at c pos)) [0..<bc_size c] = None \<longleftrightarrow> (\<forall>e \<in> set (snapshot c). \<not> P e)"
  "find (\<lambda>pos. P (entry_at c pos)) [0..<bc_size c] = Some p \<longleftrightarrow>
     p < bc_size c \<and> P (entry_at c p) \<and> (\<forall>e \<in> set (take p (snapshot c)). \<not> P e)"
proof -
  show "find (\<lambda>pos. P (entry_at c pos)) [0..<bc_size c] = None \<longleftrightarrow> (\<forall>e \<in> set (snapshot c). \<not> P e)"
    by (auto simp: find_None_iff snapshot_def)
  have "set (take p (snapshot c)) = entry_at c ` {..<p}" if "p < bc_size c"
    using that by (auto simp: snapshot_def take_map)
  then show "find (\<lambda>pos. P (entry_at c pos)) [0..<bc_size c] = Some p \<longleftrightarrow>
     p < bc_size c \<and> P (entry_at c p) \<and> (\<forall>e \<in> set (take p (snapshot c)). \<not> P e)"
    by (auto simp: find_Some_iff)
qed

lemma snapshot_split: "p < bc_size c \<Longrightarrow> snapshot c = take p (snapshot c) @ entry_at c p # drop (Suc p) (snapshot c)"
  by (metis id_take_nth_drop length_snapshot nth_snapshot)

definition keys_distinct :: "('a, 'v) vec_entry list \<Rightarrow> bool" where
  "keys_distinct es \<longleftrightarrow> distinct (filter (\<lambda>k. k \<noteq> []) (map ve_key es))"

lemma keys_distinct_append: "keys_distinct (xs @ ys) \<longleftrightarrow> keys_distinct xs \<and> keys_distinct ys
    \<and> (\<forall>x \<in> set xs. \<forall>y \<in> set ys. ve_key x = ve_key y \<longrightarrow> ve_key x = [])"
  by (auto simp: keys_distinct_def disjoint_iff)

lemma keys_distinct_Cons: "keys_distinct (x # ys) \<longleftrightarrow>
    keys_distinct ys \<and> (ve_key x = [] \<or> (\<forall>y \<in> set ys. ve_key y \<noteq> ve_key x))"
  by (auto simp: keys_distinct_def image_iff)

lemma keys_distinct_Nil [simp]: "keys_distinct []"
  by (simp add: keys_distinct_def)

lemma keys_distinct_filter: "keys_distinct es \<Longrightarrow> keys_distinct (filter P es)"
  by (induction es) (auto simp: keys_distinct_Cons)

lemma keys_distinct_take: "keys_distinct es \<Longrightarrow> keys_distinct (take n es)"
  using keys_distinct_append [of "take n es" "drop n es"] by simp

lemma snapshot_remove_by_key:
  assumes "ring_ok c" and "keys_distinct (snapshot c)" and "k \<noteq> []"
  shows "snapshot (remove_by_key_locked k c) = filter (\<lambda>e. ve_key e \<noteq> k) (snapshot c)"
    and "ring_ok (remove_by_key_locked k c)"
    and "same_cache c (remove_by_key_locked k c)"
proof -
  have "snapshot (remove_by_key_locked k c) = filter (\<lambda>e. ve_key e \<noteq> k) (snapshot c)
    \<and> ring_ok (remove_by_key_locked k c) \<and> same_cache c (remove_by_key_locked k c)"
  proof (cases "find (\<lambda>pos. ve_key (entry_at c pos) = k) [0..<bc_size c]")
    case None
    then have "filter (\<lambda>e. ve_key e \<noteq> k) (snapshot c) = snapshot c"
      using find_pos(1) [of "\<lambda>e. ve_key e = k" c] by (simp add: filter_id_conv)
    then show ?thesis using None assms(1) by (auto simp: remove_by_key_locked_def)
  next
    case (Some p)
    then have p: "p < bc_size c" "ve_key (entry_at c p) = k" using find_pos(2) [of "\<lambda>e. ve_key e = k" c p] by simp_all
    have "keys_distinct (take p (snapshot c) @ entry_at c p # drop (Suc p) (snapshot c))"
      using assms(2) snapshot_split [OF p(1)] by simp
    then have "\<forall>e \<in> set (take p (snapshot c)). ve_key e \<noteq> k" "\<forall>e \<in> set (drop (Suc p) (snapshot c)). ve_key e \<noteq> k"
      using p(2) assms(3) by (auto simp: keys_distinct_append keys_distinct_Cons)
    then have "filter (\<lambda>e. ve_key e \<noteq> k) (take p (snapshot c) @ entry_at c p # drop (Suc p) (snapshot c))
        = take p (snapshot c) @ drop (Suc p) (snapshot c)"
      using p(2) by (simp add: filter_id_conv)
    then show ?thesis
      using Some assms(3) p(1) snapshot_remove_at [OF assms(1) p(1)] snapshot_split [OF p(1)]
      by (simp add: remove_by_key_locked_def)
  qed
  then show "snapshot (remove_by_key_locked k c) = filter (\<lambda>e. ve_key e \<noteq> k) (snapshot c)"
    and "ring_ok (remove_by_key_locked k c)"
    and "same_cache c (remove_by_key_locked k c)" by blast+
qed

definition list_add :: "('a \<Rightarrow> string) option \<Rightarrow> nat \<Rightarrow> 'a \<Rightarrow> 'v list \<Rightarrow> ('a, 'v) vec_entry list \<Rightarrow> ('a, 'v) vec_entry list" where
  "list_add kf cap item v es =
    (let key = (case kf of None \<Rightarrow> [] | Some f \<Rightarrow> f item) in
     take cap (\<lparr>ve_item = item, ve_vector = v, ve_key = key\<rparr> # filter (\<lambda>e. key = [] \<or> ve_key e \<noteq> key) es))"

lemma snapshot_add:
  assumes "ring_ok c" and "keys_distinct (snapshot c)"
  shows "snapshot (cache_add item v c) = list_add (bc_key_of c) (bc_capacity c) item v (snapshot c)"
    and "ring_ok (cache_add item v c)" and "same_cache c (cache_add item v c)"
proof -
  have "snapshot (cache_add item v c) = list_add (bc_key_of c) (bc_capacity c) item v (snapshot c)
    \<and> ring_ok (cache_add item v c) \<and> same_cache c (cache_add item v c)"
  proof (cases "\<exists>kf. bc_key_of c = Some kf \<and> kf item \<noteq> []")
    case True
    then obtain kf where kf: "bc_key_of c = Some kf" "kf item \<noteq> []" by blast
    note removed = snapshot_remove_by_key [OF assms kf(2)]
    have "bc_capacity (remove_by_key_locked (kf item) c) = bc_capacity c" using removed(3) by (simp add: same_cache_def)
    with kf removed snapshot_prepend [OF removed(2)] same_cache_trans [OF removed(3) same_cache_prepend] show ?thesis
      by (simp add: cache_add_def list_add_def Let_def)
  next
    case False
    then show ?thesis
      using snapshot_prepend [OF assms(1)] same_cache_prepend
      by (cases "bc_key_of c") (auto simp: cache_add_def list_add_def)
  qed
  then show "snapshot (cache_add item v c) = list_add (bc_key_of c) (bc_capacity c) item v (snapshot c)"
    and "ring_ok (cache_add item v c)" and "same_cache c (cache_add item v c)" by blast+
qed

text \<open>The first element satisfying a condition is changed, the rest is left.\<close>

fun update_first :: "('a \<Rightarrow> bool) \<Rightarrow> ('a \<Rightarrow> 'a) \<Rightarrow> 'a list \<Rightarrow> 'a list" where
  "update_first P f [] = []"
| "update_first P f (x # xs) = (if P x then f x # xs else x # update_first P f xs)"

lemma update_first_none: "\<forall>x \<in> set xs. \<not> P x \<Longrightarrow> update_first P f xs = xs"
  by (induction xs) auto

lemma update_first_split: "\<forall>x \<in> set xs. \<not> P x \<Longrightarrow> P x \<Longrightarrow> update_first P f (xs @ x # ys) = xs @ f x # ys"
  by (induction xs) auto

lemma map_update_first: "(\<And>x. g (f x) = g x) \<Longrightarrow> map g (update_first P f xs) = map g xs"
  by (induction xs) auto

definition list_update_vector ::
  "('a \<Rightarrow> string) option \<Rightarrow> string \<Rightarrow> 'v list \<Rightarrow> ('a, 'v) vec_entry list \<Rightarrow> ('a, 'v) vec_entry list" where
  "list_update_vector idf k v es =
    (case idf of
       None \<Rightarrow> es
     | Some f \<Rightarrow> if k = [] \<or> v = [] then es else update_first (\<lambda>e. f (ve_item e) = k) (\<lambda>e. e\<lparr>ve_vector := v\<rparr>) es)"

lemma snapshot_update_vector:
  assumes "ring_ok c"
  shows "snapshot (update_vector k v c) = list_update_vector (bc_id_of c) k v (snapshot c)"
    and "ring_ok (update_vector k v c)" and "same_cache c (update_vector k v c)"
proof -
  show "ring_ok (update_vector k v c)" and "same_cache c (update_vector k v c)"
    using assms by (auto simp: update_vector_def ring_ok_def same_cache_def split: option.splits)
  show "snapshot (update_vector k v c) = list_update_vector (bc_id_of c) k v (snapshot c)"
  proof (cases "\<exists>f. bc_id_of c = Some f \<and> k \<noteq> [] \<and> v \<noteq> []")
    case False
    then show ?thesis by (auto simp: update_vector_def list_update_vector_def split: option.splits)
  next
    case True
    then obtain f where f: "bc_id_of c = Some f" "k \<noteq> []" "v \<noteq> []" by blast
    show ?thesis
    proof (cases "find (\<lambda>pos. f (ve_item (entry_at c pos)) = k) [0..<bc_size c]")
      case None
      with f show ?thesis
        using find_pos(1) [of "\<lambda>e. f (ve_item e) = k" c]
        by (simp add: update_vector_def list_update_vector_def update_first_none)
    next
      case (Some p)
      then have p: "p < bc_size c" "f (ve_item (entry_at c p)) = k" "\<forall>e \<in> set (take p (snapshot c)). f (ve_item e) \<noteq> k"
        using find_pos(2) [of "\<lambda>e. f (ve_item e) = k" c p] by simp_all
      have "snapshot (update_vector k v c) = (snapshot c)[p := (entry_at c p)\<lparr>ve_vector := v\<rparr>]"
        using f Some p(1) assms
        by (intro nth_equalityI)
          (auto simp: update_vector_def nth_snapshot nth_list_update entry_at_put ring_ok_def)
      also have "\<dots> = take p (snapshot c) @ (entry_at c p)\<lparr>ve_vector := v\<rparr> # drop (Suc p) (snapshot c)"
        using p(1) by (simp add: upd_conv_take_nth_drop)
      also have "\<dots> = update_first (\<lambda>e. f (ve_item e) = k) (\<lambda>e. e\<lparr>ve_vector := v\<rparr>)
          (take p (snapshot c) @ entry_at c p # drop (Suc p) (snapshot c))"
        by (rule update_first_split [where P = "\<lambda>e. f (ve_item e) = k", OF p(3,2), symmetric])
      also have "\<dots> = list_update_vector (bc_id_of c) k v (snapshot c)"
        using f by (simp add: list_update_vector_def flip: snapshot_split [OF p(1)])
      finally show ?thesis .
    qed
  qed
qed

lemma remove_matching_step_simps:
  "P (ve_item (entry_at c k)) \<Longrightarrow> remove_matching_step P k (r, c) = (r + 1, remove_at_pos_locked k c)"
  "\<not> P (ve_item (entry_at c k)) \<Longrightarrow> remove_matching_step P k (r, c) = (r, c)"
  by (simp_all add: remove_matching_step_def)

lemma remove_matching_loop:
  assumes "ring_ok c" and "k \<le> bc_size c" and "fold (remove_matching_step P) (rev [0..<k]) (r, c) = (r', d)"
  shows "snapshot d = filter (\<lambda>e. \<not> P (ve_item e)) (take k (snapshot c)) @ drop k (snapshot c) \<and> ring_ok d \<and> same_cache c d
    \<and> r' = r + int (length (filter (\<lambda>e. P (ve_item e)) (take k (snapshot c))))"
  using assms
proof (induction k arbitrary: r c)
  case (Suc k)
  have k: "k < bc_size c" using Suc.prems(2) by simp
  have take: "take (Suc k) (snapshot c) = take k (snapshot c) @ [entry_at c k]"
    using k by (simp add: take_Suc_conv_app_nth nth_snapshot)
  show ?case
  proof (cases "P (ve_item (entry_at c k))")
    case True
    note c1 = snapshot_remove_at [OF Suc.prems(1) k]
    have size: "bc_size (remove_at_pos_locked k c) = bc_size c - 1"
      using arg_cong [OF c1(1), of length] k by simp
    have "fold (remove_matching_step P) (rev [0..<k]) (r + 1, remove_at_pos_locked k c) = (r', d)"
      using Suc.prems(3) True by (simp add: remove_matching_step_simps)
    then have "snapshot d = filter (\<lambda>e. \<not> P (ve_item e)) (take k (snapshot (remove_at_pos_locked k c)))
        @ drop k (snapshot (remove_at_pos_locked k c)) \<and> ring_ok d \<and> same_cache (remove_at_pos_locked k c) d
      \<and> r' = r + 1 + int (length (filter (\<lambda>e. P (ve_item e)) (take k (snapshot (remove_at_pos_locked k c)))))"
      using size k by (intro Suc.IH c1(2)) simp_all
    then show ?thesis using True c1 k same_cache_trans by (auto simp: take)
  next
    case False
    have "fold (remove_matching_step P) (rev [0..<k]) (r, c) = (r', d)"
      using Suc.prems(3) False by (simp add: remove_matching_step_simps)
    then have "snapshot d = filter (\<lambda>e. \<not> P (ve_item e)) (take k (snapshot c)) @ drop k (snapshot c) \<and> ring_ok d \<and> same_cache c d
      \<and> r' = r + int (length (filter (\<lambda>e. P (ve_item e)) (take k (snapshot c))))"
      using k by (intro Suc.IH Suc.prems(1)) simp_all
    moreover have "drop k (snapshot c) = entry_at c k # drop (Suc k) (snapshot c)"
      using k by (simp add: nth_snapshot flip: Cons_nth_drop_Suc)
    ultimately show ?thesis using False by (simp add: take)
  qed
qed simp

lemma snapshot_remove_matching:
  assumes "ring_ok c"
  shows "snapshot (snd (remove_matching P c)) = filter (\<lambda>e. \<not> P (ve_item e)) (snapshot c)"
    and "ring_ok (snd (remove_matching P c))" and "same_cache c (snd (remove_matching P c))"
    and "fst (remove_matching P c) = int (length (filter (\<lambda>e. P (ve_item e)) (snapshot c)))"
proof -
  obtain r d where "remove_matching P c = (r, d)" by fastforce
  with remove_matching_loop [OF assms, of "bc_size c" P 0 r d]
  show "snapshot (snd (remove_matching P c)) = filter (\<lambda>e. \<not> P (ve_item e)) (snapshot c)"
    and "ring_ok (snd (remove_matching P c))" and "same_cache c (snd (remove_matching P c))"
    and "fst (remove_matching P c) = int (length (filter (\<lambda>e. P (ve_item e)) (snapshot c)))"
    by (simp_all add: remove_matching_def)
qed

lemma snapshot_append_oldest:
  assumes "ring_ok c" and "bc_size c < bc_capacity c"
  shows "snapshot (append_oldest_locked e c) = snapshot c @ [e]"
    and "ring_ok (append_oldest_locked e c)" and "same_cache c (append_oldest_locked e c)"
proof -
  show "ring_ok (append_oldest_locked e c)" and "same_cache c (append_oldest_locked e c)"
    using assms by (auto simp: ring_ok_def append_oldest_locked_def same_cache_def)
  show "snapshot (append_oldest_locked e c) = snapshot c @ [e]"
  proof (cases "bc_size c = 0")
    case True
    with assms show ?thesis
      by (simp add: append_oldest_locked_def snapshot_def entry_at_def index_at_def ring_ok_def signed_modulo_int_def)
  next
    case False
    let ?d = "c\<lparr>bc_buf := (bc_buf c)[index_at c (bc_size c) := e]\<rparr>"
    have "entry_at (append_oldest_locked e c) q = entry_at ?d q" for q
      using False by (simp add: append_oldest_locked_def entry_at_def index_at_def Let_def)
    moreover have "entry_at ?d q = (if q = bc_size c then e else entry_at c q)" if "q \<le> bc_size c" for q
      using entry_at_put [OF assms(1), of "bc_size c" q] assms(2) that by simp
    ultimately show ?thesis using False
      by (simp add: append_oldest_locked_def snapshot_def)
  qed
qed

fun list_dedup :: "('a \<Rightarrow> string) \<Rightarrow> string set \<Rightarrow> ('a, 'v) vec_entry list \<Rightarrow> ('a, 'v) vec_entry list" where
  "list_dedup kf seen [] = []"
| "list_dedup kf seen (e # es) =
    (let k = kf (ve_item e) in
     if k = [] then e\<lparr>ve_key := k\<rparr> # list_dedup kf seen es
     else if k \<in> seen then list_dedup kf seen es
     else e\<lparr>ve_key := k\<rparr> # list_dedup kf (insert k seen) es)"

definition list_replace :: "('a \<Rightarrow> string) option \<Rightarrow> nat \<Rightarrow> ('a, 'v) vec_entry list \<Rightarrow> ('a, 'v) vec_entry list" where
  "list_replace kf cap es = take cap (case kf of None \<Rightarrow> es | Some f \<Rightarrow> list_dedup f {} es)"

lemma take_append_full: "length xs = n \<Longrightarrow> take n (xs @ ys) = xs"
  by simp

lemma snapshot_replace_loop:
  assumes "ring_ok c"
  shows "snapshot (replace_loop es seen c)
      = take (bc_capacity c) (snapshot c @ (case bc_key_of c of None \<Rightarrow> es | Some f \<Rightarrow> list_dedup f seen es))
    \<and> ring_ok (replace_loop es seen c) \<and> same_cache c (replace_loop es seen c)"
  using assms
proof (induction es arbitrary: seen c)
  case Nil
  then show ?case by (auto simp: ring_ok_def split: option.splits)
next
  case (Cons e es)
  show ?case
  proof (cases "bc_size c < bc_capacity c")
    case False
    then have "bc_size c = bc_capacity c" using Cons.prems by (simp add: ring_ok_def)
    then show ?thesis using Cons.prems by simp
  next
    case True
    note app = snapshot_append_oldest [OF Cons.prems True]
    have rest: "snapshot (replace_loop es s (append_oldest_locked x c))
        = take (bc_capacity c) (snapshot c @ x # (case bc_key_of c of None \<Rightarrow> es | Some f \<Rightarrow> list_dedup f s es))
      \<and> ring_ok (replace_loop es s (append_oldest_locked x c)) \<and> same_cache c (replace_loop es s (append_oldest_locked x c))" for s x
      using Cons.IH [OF app(2), of s x] app(1) app(3) [of x] same_cache_trans [OF app(3)]
      by (auto simp: same_cache_def)
    show ?thesis
    proof (cases "bc_key_of c")
      case None
      then show ?thesis using True rest [of seen e] by simp
    next
      case (Some f)
      then show ?thesis using True rest Cons.IH [OF Cons.prems, of seen] by (simp add: Let_def)
    qed
  qed
qed

lemma snapshot_replace:
  assumes "ring_ok c"
  shows "snapshot (cache_replace es c) = list_replace (bc_key_of c) (bc_capacity c) es"
    and "ring_ok (cache_replace es c)" and "same_cache c (cache_replace es c)"
proof -
  let ?c = "c\<lparr>bc_buf := replicate (bc_capacity c) (bc_zero c), bc_head := 0, bc_size := 0\<rparr>"
  have "ring_ok ?c" using assms by (simp add: ring_ok_def)
  from snapshot_replace_loop [OF this, of es "{}"]
  show "snapshot (cache_replace es c) = list_replace (bc_key_of c) (bc_capacity c) es"
    and "ring_ok (cache_replace es c)" and "same_cache c (cache_replace es c)"
    by (simp_all add: cache_replace_def list_replace_def same_cache_def snapshot_def split: option.splits)
qed

section \<open>A history of operations\<close>

datatype ('a, 'v) cache_op =
    Add 'a "'v list"
  | Update_Vector string "'v list"
  | Remove_Matching "'a \<Rightarrow> bool"
  | Replace "('a, 'v) vec_entry list"

fun cache_run :: "('a, 'v) cache_op \<Rightarrow> ('a, 'v) bounded_cache \<Rightarrow> ('a, 'v) bounded_cache" where
  "cache_run (Add x v) c = cache_add x v c"
| "cache_run (Update_Vector k v) c = update_vector k v c"
| "cache_run (Remove_Matching P) c = snd (remove_matching P c)"
| "cache_run (Replace es) c = cache_replace es c"

fun list_run ::
  "('a \<Rightarrow> string) option \<Rightarrow> ('a \<Rightarrow> string) option \<Rightarrow> nat \<Rightarrow> ('a, 'v) cache_op \<Rightarrow> ('a, 'v) vec_entry list \<Rightarrow> ('a, 'v) vec_entry list" where
  "list_run kf idf cap (Add x v) es = list_add kf cap x v es"
| "list_run kf idf cap (Update_Vector k v) es = list_update_vector idf k v es"
| "list_run kf idf cap (Remove_Matching P) es = filter (\<lambda>e. \<not> P (ve_item e)) es"
| "list_run kf idf cap (Replace es') es = list_replace kf cap es'"

text \<open>Every entry carries the key of its item, and no two entries have the same key.\<close>

definition entries_ok :: "('a \<Rightarrow> string) option \<Rightarrow> ('a, 'v) vec_entry list \<Rightarrow> bool" where
  "entries_ok kf es \<longleftrightarrow> (case kf of None \<Rightarrow> True | Some f \<Rightarrow> (\<forall>e \<in> set es. ve_key e = f (ve_item e)) \<and> keys_distinct es)"

lemma list_dedup_key: "e \<in> set (list_dedup f seen es) \<Longrightarrow> ve_key e = f (ve_item e)"
  by (induction f seen es rule: list_dedup.induct) (auto simp: Let_def split: if_splits)

lemma list_dedup_new: "e \<in> set (list_dedup f seen es) \<Longrightarrow> ve_key e \<in> seen \<Longrightarrow> ve_key e = []"
  by (induction f seen es rule: list_dedup.induct) (auto simp: Let_def split: if_splits)

lemma list_dedup_distinct: "keys_distinct (list_dedup f seen es)"
proof (induction f seen es rule: list_dedup.induct)
  case (2 f seen e es)
  then show ?case
    by (auto simp: Let_def keys_distinct_Cons) (metis insertI1 list_dedup_new)
qed simp

lemma keys_distinct_update: "keys_distinct (update_first P (\<lambda>e. e\<lparr>ve_vector := v\<rparr>) es) = keys_distinct es"
  by (simp add: keys_distinct_def map_update_first)

lemma set_update_first: "x \<in> set (update_first P f xs) \<Longrightarrow> x \<in> set xs \<or> (\<exists>y \<in> set xs. x = f y)"
  by (induction xs) (auto split: if_splits)

lemma entries_ok_run: "entries_ok kf es \<Longrightarrow> entries_ok kf (list_run kf idf cap op es)"
proof (cases op)
  case (Add x v)
  moreover assume "entries_ok kf es"
  ultimately show ?thesis
    by (cases cap)
      (auto simp: entries_ok_def list_add_def Let_def keys_distinct_Cons dest: in_set_takeD
        intro: keys_distinct_take keys_distinct_filter split: option.splits)
next
  case (Update_Vector k v)
  moreover assume "entries_ok kf es"
  ultimately show ?thesis
    by (auto simp: entries_ok_def list_update_vector_def keys_distinct_update dest: set_update_first split: option.splits)
next
  case (Remove_Matching P)
  moreover assume "entries_ok kf es"
  ultimately show ?thesis by (auto simp: entries_ok_def keys_distinct_filter split: option.splits)
next
  case (Replace es')
  then show ?thesis
    by (auto simp: entries_ok_def list_replace_def keys_distinct_take list_dedup_distinct list_dedup_key
        dest!: in_set_takeD split: option.splits)
qed

definition cache_wf :: "('a, 'v) bounded_cache \<Rightarrow> bool" where
  "cache_wf c \<longleftrightarrow> ring_ok c \<and> entries_ok (bc_key_of c) (snapshot c)"

lemma list_add_no_keys: "list_add None cap x v es = take cap (\<lparr>ve_item = x, ve_vector = v, ve_key = []\<rparr> # es)"
  by (simp add: list_add_def)

lemma snapshot_run:
  assumes "cache_wf c"
  shows "snapshot (cache_run op c) = list_run (bc_key_of c) (bc_id_of c) (bc_capacity c) op (snapshot c)
    \<and> cache_wf (cache_run op c) \<and> same_cache c (cache_run op c)"
proof -
  from assms have r: "ring_ok c" and e: "entries_ok (bc_key_of c) (snapshot c)" by (simp_all add: cache_wf_def)
  have add: "snapshot (cache_add x v c) = list_add (bc_key_of c) (bc_capacity c) x v (snapshot c)
      \<and> ring_ok (cache_add x v c) \<and> same_cache c (cache_add x v c)" for x v
  proof (cases "bc_key_of c")
    case None
    then show ?thesis
      using snapshot_prepend [OF r] same_cache_prepend by (auto simp: cache_add_def list_add_no_keys)
  next
    case (Some f)
    with e have "keys_distinct (snapshot c)" by (simp add: entries_ok_def)
    with snapshot_add [OF r] show ?thesis by blast
  qed
  have "snapshot (cache_run op c) = list_run (bc_key_of c) (bc_id_of c) (bc_capacity c) op (snapshot c)
      \<and> ring_ok (cache_run op c) \<and> same_cache c (cache_run op c)"
    by (cases op) (simp_all add: add snapshot_update_vector [OF r] snapshot_remove_matching [OF r] snapshot_replace [OF r])
  with entries_ok_run [OF e] show ?thesis by (auto simp: cache_wf_def same_cache_def)
qed

lemma new_cache_wf:
  "cache_wf (new_bounded_cache z capacity kf idf)" "snapshot (new_bounded_cache z capacity kf idf) = []"
  by (auto simp: cache_wf_def ring_ok_def new_bounded_cache_def at_least_one_def snapshot_def entries_ok_def split: option.splits)

lemma fold_cache_run:
  assumes "cache_wf c"
  shows "snapshot (fold cache_run ops c) = fold (list_run (bc_key_of c) (bc_id_of c) (bc_capacity c)) ops (snapshot c)
    \<and> cache_wf (fold cache_run ops c) \<and> same_cache c (fold cache_run ops c)"
  using assms
proof (induction ops arbitrary: c)
  case (Cons op ops)
  note step = snapshot_run [OF Cons.prems, of op]
  from Cons.IH [of "cache_run op c"] step same_cache_trans [of c "cache_run op c"] show ?case
    by (auto simp: same_cache_def)
qed simp

text \<open>
  C39: Every history of additions, vector updates, removals and replacements of a new cache leaves, from the newest entry to the
  oldest, what the same history leaves on a list where an addition is put in front, takes the place of the entry with its key and
  cuts the list at the capacity; there are never more entries than the capacity, and with keys no two entries have the same one.
\<close>

theorem ring_is_list:
  "let c = fold cache_run ops (new_bounded_cache z capacity kf idf) in
   snapshot c = fold (list_run kf idf (at_least_one capacity)) ops []
   \<and> length (snapshot c) \<le> at_least_one capacity \<and> length (bc_buf c) = at_least_one capacity
   \<and> entries_ok kf (snapshot c)"
proof -
  let ?n = "new_bounded_cache z capacity kf idf"
  have n: "bc_key_of ?n = kf" "bc_id_of ?n = idf" "bc_capacity ?n = at_least_one capacity" by (simp_all add: new_bounded_cache_def)
  with fold_cache_run [OF new_cache_wf(1) [of z capacity kf idf], of ops] show ?thesis
    by (auto simp: Let_def new_cache_wf(2) cache_wf_def ring_ok_def same_cache_def)
qed

section \<open>The set of strings that forgets the oldest\<close>

record string_ring =
  sr_set :: "string set"
  sr_ring :: "string list"
  sr_head :: nat
  sr_capacity :: nat

definition new_bounded_string_set :: "int \<Rightarrow> string_ring" where
  "new_bounded_string_set capacity =
    \<lparr>sr_set = {}, sr_ring = replicate (at_least_one capacity) [], sr_head = 0, sr_capacity = at_least_one capacity\<rparr>"

definition string_set_add :: "string \<Rightarrow> string_ring \<Rightarrow> string_ring" where
  "string_set_add v s =
    (if v = [] \<or> v \<in> sr_set s then s
     else let old = sr_ring s ! sr_head s; st = (if old \<noteq> [] then sr_set s - {old} else sr_set s) in
       s\<lparr>sr_ring := (sr_ring s)[sr_head s := v], sr_set := insert v st, sr_head := (sr_head s + 1) mod sr_capacity s\<rparr>)"

definition string_set_contains :: "string \<Rightarrow> string_ring \<Rightarrow> bool" where
  "string_set_contains v s \<longleftrightarrow> v \<noteq> [] \<and> v \<in> sr_set s"

text \<open>A queue from the oldest to the newest value.\<close>

definition queue_add :: "nat \<Rightarrow> string \<Rightarrow> string list \<Rightarrow> string list" where
  "queue_add cap v q = (if v = [] \<or> v \<in> set q then q else (if length q = cap then tl q else q) @ [v])"

definition ring_queue :: "string_ring \<Rightarrow> string list \<Rightarrow> bool" where
  "ring_queue s q \<longleftrightarrow> sr_head s < sr_capacity s \<and> length (sr_ring s) = sr_capacity s \<and> length q \<le> sr_capacity s
     \<and> rotate (sr_head s) (sr_ring s) = replicate (sr_capacity s - length q) [] @ q \<and> sr_set s = set q \<and> distinct q \<and> [] \<notin> set q"

lemma rotate_next:
  assumes "h < length xs"
  shows "rotate ((h + 1) mod length xs) (xs[h := v]) = tl (rotate h xs) @ [v]"
proof -
  have eq: "rotate h xs = xs ! h # drop (Suc h) xs @ take h xs" if "h < length xs" for xs :: "'a list"
    using that by (simp add: rotate_drop_take flip: Cons_nth_drop_Suc)
  have "rotate ((h + 1) mod length xs) (xs[h := v]) = rotate (Suc h) (xs[h := v])"
    using rotate_conv_mod [of "Suc h" "xs[h := v]"] by simp
  also have "\<dots> = rotate1 (rotate h (xs[h := v]))" by simp
  also have "\<dots> = tl (rotate h xs) @ [v]" using assms eq [of "xs[h := v]"] eq [of xs] by simp
  finally show ?thesis .
qed

lemma ring_queue_add:
  assumes "ring_queue s q"
  shows "ring_queue (string_set_add v s) (queue_add (sr_capacity s) v q)" and "sr_capacity (string_set_add v s) = sr_capacity s"
proof -
  show "sr_capacity (string_set_add v s) = sr_capacity s" by (simp add: string_set_add_def Let_def)
  show "ring_queue (string_set_add v s) (queue_add (sr_capacity s) v q)"
  proof (cases "v = [] \<or> v \<in> set q")
    case True
    with assms show ?thesis by (auto simp: string_set_add_def queue_add_def ring_queue_def)
  next
    case False
    let ?n = "sr_capacity s"
    have s: "sr_head s < ?n" "length (sr_ring s) = ?n" "length q \<le> ?n" "sr_set s = set q" "distinct q" "[] \<notin> set q"
      "rotate (sr_head s) (sr_ring s) = replicate (?n - length q) [] @ q" using assms by (simp_all add: ring_queue_def)
    have old: "sr_ring s ! sr_head s = hd (replicate (?n - length q) [] @ q)"
      using s(1,2) hd_rotate_conv_nth [of "sr_ring s" "sr_head s"] by (cases "sr_ring s") (auto simp flip: s(7))
    have next_slot: "rotate ((sr_head s + 1) mod ?n) ((sr_ring s)[sr_head s := v]) = tl (replicate (?n - length q) [] @ q) @ [v]"
      using rotate_next [of "sr_head s" "sr_ring s" v] s(1,2,7) by simp
    show ?thesis
    proof (cases "length q = ?n")
      case True
      then obtain x xs where q: "q = x # xs" using s(1) by (cases q) auto
      then have x: "x \<noteq> []" using s(6) by auto
      have "sr_ring s ! sr_head s = x" using True q old by simp
      then have add: "string_set_add v s = s\<lparr>sr_ring := (sr_ring s)[sr_head s := v], sr_set := insert v (set q - {x}),
          sr_head := (sr_head s + 1) mod ?n\<rparr>"
        using False s(4) q x by (simp add: string_set_add_def Let_def)
      have qa: "queue_add ?n v q = xs @ [v]" using False True q by (simp add: queue_add_def)
      have "tl (replicate (?n - length q) [] @ q) @ [v] = xs @ [v]" using True q by simp
      with add qa show ?thesis
        using True q s(1,2,5,6) next_slot False by (simp add: ring_queue_def neq_commute [of "[]"])
    next
      case less: False
      then obtain m where m: "?n - length q = Suc m" using s(3) by (cases "?n - length q") auto
      then have "?n - Suc (length q) = m" by simp
      then show ?thesis using less s False old next_slot m
        by (auto simp: string_set_add_def queue_add_def ring_queue_def Let_def)
    qed
  qed
qed

lemma new_string_set_queue: "ring_queue (new_bounded_string_set capacity) []"
  by (simp add: ring_queue_def new_bounded_string_set_def at_least_one_def)

lemma fold_string_set:
  "ring_queue s q \<Longrightarrow> ring_queue (fold string_set_add vs s) (fold (queue_add (sr_capacity s)) vs q)"
proof (induction vs arbitrary: s q)
  case (Cons v vs)
  from Cons.IH [OF ring_queue_add(1) [OF Cons.prems, of v]] ring_queue_add(2) [OF Cons.prems] show ?case by simp
qed simp

lemma string_set_is_queue:
  "string_set_contains v (fold string_set_add vs (new_bounded_string_set capacity))
    \<longleftrightarrow> v \<in> set (fold (queue_add (at_least_one capacity)) vs [])"
  using fold_string_set [OF new_string_set_queue, of vs capacity]
  by (auto simp: string_set_contains_def ring_queue_def new_bounded_string_set_def)

section \<open>Texts and vectors\<close>

definition max_embedding_input_chars :: nat where
  "max_embedding_input_chars = 1200"

definition embedding_batch_size :: int where
  "embedding_batch_size = 64"

definition normalize_for_embedding :: "string \<Rightarrow> string" where
  "normalize_for_embedding text = truncate_runes (join '' '' (Go_Strings.fields text)) max_embedding_input_chars"

function batch_loop :: "nat \<Rightarrow> 'a list \<Rightarrow> 'a list list" where
  "batch_loop n xs = (if xs = [] \<or> n = 0 then [] else take n xs # batch_loop n (drop n xs))"
  by pat_completeness auto

termination batch_loop
  by (relation "measure (\<lambda>(n, xs). length xs)") auto

declare batch_loop.simps [simp del]

definition batch_texts :: "string list \<Rightarrow> int \<Rightarrow> string list list" where
  "batch_texts texts batch_size = batch_loop (nat (if batch_size \<le> 0 then embedding_batch_size else batch_size)) texts"

lemma batch_loop_concat: "0 < n \<Longrightarrow> concat (batch_loop n xs) = xs"
  by (induction n xs rule: batch_loop.induct) (subst batch_loop.simps, auto)

lemma batch_loop_bounded: "b \<in> set (batch_loop n xs) \<Longrightarrow> b \<noteq> [] \<and> length b \<le> n"
proof (induction n xs rule: batch_loop.induct)
  case (1 n xs)
  then show ?case by (subst (asm) (2) batch_loop.simps) (auto split: if_splits)
qed

lemma batch_texts_all: "concat (batch_texts texts batch_size) = texts"
  by (simp add: batch_texts_def batch_loop_concat embedding_batch_size_def)

definition dimension_mismatch :: "'v list \<Rightarrow> 'a list \<Rightarrow> ('a \<Rightarrow> 'v list) \<Rightarrow> bool" where
  "dimension_mismatch query items get_vec \<longleftrightarrow>
    query \<noteq> [] \<and> (\<exists>x \<in> set items. get_vec x \<noteq> []) \<and> \<not> (\<exists>x \<in> set items. get_vec x \<noteq> [] \<and> length (get_vec x) = length query)"

text \<open>A stable sort with the greatest first.\<close>

definition sort_down :: "('a \<Rightarrow> 'k :: linorder) \<Rightarrow> 'a list \<Rightarrow> 'a list" where
  "sort_down f xs = rev (sort_key f (rev xs))"

definition top_k_by_vector ::
  "('v list \<Rightarrow> 'v list \<Rightarrow> 's :: linorder) \<Rightarrow> 's \<Rightarrow> 'a list \<Rightarrow> 'v list \<Rightarrow> ('a \<Rightarrow> 'v list) \<Rightarrow> int \<Rightarrow> 'a list" where
  "top_k_by_vector similarity min_score items query get_vec limit =
    (if limit \<le> 0 \<or> items = [] \<or> query = [] then []
     else map fst (take (nat limit) (sort_down snd
       (filter (\<lambda>(x, s). min_score \<le> s) (map (\<lambda>x. (x, similarity query (get_vec x))) (filter (\<lambda>x. get_vec x \<noteq> []) items))))))"

lemma set_sort_down [simp]: "set (sort_down f xs) = set xs"
  by (simp add: sort_down_def)

lemma length_sort_down [simp]: "length (sort_down f xs) = length xs"
  by (simp add: sort_down_def)

lemma sort_down_greatest_first: "i < j \<Longrightarrow> j < length xs \<Longrightarrow> f (sort_down f xs ! j) \<le> f (sort_down f xs ! i)"
proof -
  assume ij: "i < j" "j < length xs"
  let ?ys = "sort_key f (rev xs)"
  have "sorted (map f ?ys)" by simp
  then have "map f ?ys ! (length xs - Suc j) \<le> map f ?ys ! (length xs - Suc i)"
    using ij by (intro sorted_nth_mono) auto
  with ij show ?thesis by (simp add: sort_down_def rev_nth)
qed

lemma filter_rev_sort: "filter (\<lambda>x. f x = k) (sort_down f xs) = filter (\<lambda>x. f x = k) xs"
  by (simp add: sort_down_def rev_filter sort_key_stable flip: rev_filter)

lemma top_k_members:
  "x \<in> set (top_k_by_vector sim m items query get_vec limit) \<Longrightarrow>
     x \<in> set items \<and> get_vec x \<noteq> [] \<and> m \<le> sim query (get_vec x)"
  by (auto simp: top_k_by_vector_def dest!: in_set_takeD split: if_splits)

lemma top_k_length: "0 \<le> limit \<Longrightarrow> int (length (top_k_by_vector sim m items query get_vec limit)) \<le> limit"
  by (auto simp: top_k_by_vector_def)

end
