(* ===== verification/Case_Library.thy ===== *)
theory Case_Library
  imports Run_Service Ring_Cache
begin

text \<open>
  The library of diagnosis cases (\<^verbatim>\<open>core/case_library.go\<close>, \<^verbatim>\<open>core/run_feedback.go\<close> and their
  repositories): a finished run is turned into a case, kept in a cache and a table, and shown to later diagnoses of similar
  questions; a run its user finds not useful loses its case. Both happen in goroutines, which are tasks here: a step runs the
  nxt statement or the nxt operation on a shared structure of one of them. A goroutine does not panic. The tags and
  the tool trace of a row are read back as they were written. Logs and metrics are left out.
\<close>

abbreviation "MIN_CASE_ANSWER_CHARS \<equiv> 200 :: nat"
abbreviation "MAX_CASE_EXTRACT_ANSWER_CHARS \<equiv> 4000 :: nat"
abbreviation "MAX_CASE_LINE_CHARS \<equiv> 120 :: nat"
abbreviation "MAX_DIAGNOSIS_CASE_TEXT_CHARS \<equiv> 256 :: nat"
abbreviation "MAX_DIAGNOSIS_CASE_TAGS \<equiv> 6 :: nat"
abbreviation "MAX_DIAGNOSIS_CASE_TRACE_STEPS \<equiv> 12 :: nat"
abbreviation "MAX_RUN_FEEDBACK_COMMENT_CHARS \<equiv> 1024 :: nat"
abbreviation "MAX_DIAGNOSIS_CASE_QUERY_LIMIT \<equiv> 5000 :: int"
abbreviation "MAX_NOT_USEFUL_RUN_IDS_LIMIT \<equiv> 5000 :: int"
abbreviation "SUPPRESSED_CASE_RUNS_CAPACITY \<equiv> 2048 :: int"
abbreviation "CASE_RETRIEVAL_NONE \<equiv> ''none''"
abbreviation "CASE_RETRIEVAL_SEMANTIC \<equiv> ''semantic''"
abbreviation "CASE_RETRIEVAL_KEYWORD \<equiv> ''keyword''"

section \<open>Cases\<close>

record diagnosis_case =
  dc_id :: string
  dc_run_id :: string
  dc_agent_type :: string
  dc_cluster_id :: string
  dc_question :: string
  dc_symptom :: string
  dc_root_cause :: string
  dc_tags :: "string list"
  dc_tool_trace :: "string list"
  dc_created_at :: instant

record extracted_case =
  xc_symptom :: string
  xc_root_cause :: string
  xc_tags :: "string list"

definition squeeze :: "string \<Rightarrow> string" where
  "squeeze s = join '' '' (Go_Strings.fields s)"

definition compact_text :: "string \<Rightarrow> nat \<Rightarrow> string" where
  "compact_text s n = truncate_runes (squeeze s) n"

definition case_dedup_key :: "diagnosis_case \<Rightarrow> string" where
  "case_dedup_key c = (let symptom = to_lower (squeeze (dc_symptom c)) in
     if symptom = [] then [] else dc_agent_type c @ ''|'' @ dc_cluster_id c @ ''|'' @ symptom)"

definition new_diagnosis_case_store :: "(diagnosis_case, 'v) vec_entry \<Rightarrow> int \<Rightarrow> (diagnosis_case, 'v) bounded_cache" where
  "new_diagnosis_case_store z capacity = new_bounded_cache z capacity (Some case_dedup_key) (Some dc_id)"

definition case_embed_text :: "diagnosis_case \<Rightarrow> string" where
  "case_embed_text c = normalize_for_embedding (join '' ''
     (filter (\<lambda>s. s \<noteq> []) [trim_space (dc_symptom c), trim_space (dc_root_cause c), trim_space (dc_question c)]))"

text \<open>The loop over the tags, with what it has taken, and that over the trace.\<close>

fun take_tags :: "string list \<Rightarrow> string list \<Rightarrow> string list" where
  "take_tags tags [] = tags"
| "take_tags tags (t # ts) =
    (let tag = to_lower (trim_space t); tags' = tags @ [tag] in
     if tag = [] \<or> tag \<in> set tags then take_tags tags ts
     else if MAX_DIAGNOSIS_CASE_TAGS \<le> length tags' then tags' else take_tags tags' ts)"

definition normalize_tool_trace :: "string list \<Rightarrow> string list" where
  "normalize_tool_trace trace = take MAX_DIAGNOSIS_CASE_TRACE_STEPS (filter (\<lambda>s. s \<noteq> []) (map trim_space trace))"

definition build_diagnosis_case :: "string \<Rightarrow> instant \<Rightarrow> agent_run \<Rightarrow> extracted_case \<Rightarrow> string list \<Rightarrow> diagnosis_case option" where
  "build_diagnosis_case newID now run x trace =
    (let symptom = compact_text (xc_symptom x) MAX_DIAGNOSIS_CASE_TEXT_CHARS in
     if symptom = [] then None
     else Some \<lparr>dc_id = newID, dc_run_id = ar_id run, dc_agent_type = ar_agent_type run, dc_cluster_id = ar_cluster_id run,
       dc_question = compact_text (ar_input run) MAX_DIAGNOSIS_CASE_TEXT_CHARS, dc_symptom = symptom,
       dc_root_cause = compact_text (xc_root_cause x) MAX_DIAGNOSIS_CASE_TEXT_CHARS,
       dc_tags = take_tags [] (xc_tags x), dc_tool_trace = normalize_tool_trace trace,
       dc_created_at = now\<rparr>)"

section \<open>Feedback and the tables\<close>

record run_feedback =
  rf_id :: string
  rf_run_id :: string
  rf_user_id :: string
  rf_agent_type :: string
  rf_cluster_id :: string
  rf_useful :: bool
  rf_comment :: string
  rf_created_at :: instant
  rf_updated_at :: instant

text \<open>The state of one instance, and the two tables, which the instances share.\<close>

record 'v case_library =
  cl_store :: "(diagnosis_case, 'v) bounded_cache"
  cl_suppressed :: string_ring
  cl_rows :: "(string, diagnosis_case) gmap"
  cl_feedback :: "(string, run_feedback) gmap"

definition create_diagnosis_case :: "go_error option \<Rightarrow> diagnosis_case \<Rightarrow> 'v case_library \<Rightarrow> diagnosis_case go_result \<times> 'v case_library" where
  "create_diagnosis_case f c s = (case stmt f (insert_row (dc_id c) c (cl_rows s)) of
     Inl e \<Rightarrow> (Inl e, s) | Inr rows \<Rightarrow> (Inr c, s\<lparr>cl_rows := rows\<rparr>))"

definition query_limit :: "int \<Rightarrow> int \<Rightarrow> nat" where
  "query_limit most limit = nat (if limit \<le> 0 \<or> most < limit then most else limit)"

definition list_recent_diagnosis_cases :: "go_error option \<Rightarrow> string \<Rightarrow> int \<Rightarrow> 'v case_library \<Rightarrow> diagnosis_case list go_result" where
  "list_recent_diagnosis_cases f agentType limit s =
    stmt f (Inr (take (query_limit MAX_DIAGNOSIS_CASE_QUERY_LIMIT limit)
      (sort_down dc_created_at (filter (\<lambda>c. agentType = [] \<or> dc_agent_type c = agentType) (map snd (cl_rows s))))))"

definition delete_diagnosis_case_by_run_id :: "go_error option \<Rightarrow> string \<Rightarrow> 'v case_library \<Rightarrow> nat go_result \<times> 'v case_library" where
  "delete_diagnosis_case_by_run_id f runID s = (case f of
     Some e \<Rightarrow> (Inl e, s)
   | None \<Rightarrow> (Inr (rows_where (\<lambda>k c. dc_run_id c = runID) (cl_rows s)),
       s\<lparr>cl_rows := delete_where (\<lambda>k c. dc_run_id c = runID) (cl_rows s)\<rparr>))"

text \<open>The key of the table and its unique index on the run.\<close>

definition create_run_feedback :: "go_error option \<Rightarrow> run_feedback \<Rightarrow> 'v case_library \<Rightarrow> run_feedback go_result \<times> 'v case_library" where
  "create_run_feedback f fb s = (case stmt f
       (if \<exists>r \<in> snd ` set (cl_feedback s). rf_run_id r = rf_run_id fb then Inl ErrDuplicatedKey
        else insert_row (rf_id fb) fb (cl_feedback s)) of
     Inl e \<Rightarrow> (Inl e, s) | Inr rows \<Rightarrow> (Inr fb, s\<lparr>cl_feedback := rows\<rparr>))"

definition list_not_useful_run_ids :: "go_error option \<Rightarrow> int \<Rightarrow> 'v case_library \<Rightarrow> string list go_result" where
  "list_not_useful_run_ids f limit s =
    stmt f (Inr (map rf_run_id (take (query_limit MAX_NOT_USEFUL_RUN_IDS_LIMIT limit)
      (sort_down rf_updated_at (filter (\<lambda>r. \<not> rf_useful r) (map snd (cl_feedback s)))))))"

section \<open>Vectors\<close>

text \<open>An embedding provider that is not available is \<open>None\<close>; \<open>ce_score\<close> is the similarity, \<open>ce_min_score\<close> the least that counts.\<close>

record ('v, 's) case_env =
  ce_opts :: loop_config
  ce_case_repo :: bool
  ce_feedback_repo :: bool
  ce_embed :: "(string list \<Rightarrow> 'v list list go_result) option"
  ce_score :: "'v list \<Rightarrow> 'v list \<Rightarrow> 's"
  ce_min_score :: 's

abbreviation library_on :: "('v, 's) case_env \<Rightarrow> bool" where
  "library_on env \<equiv> case_library_enabled (ce_case_repo env) (ce_opts env)"

definition semantic_retrieval_enabled :: "('v, 's) case_env \<Rightarrow> bool" where
  "semantic_retrieval_enabled env \<longleftrightarrow> ce_embed env \<noteq> None \<and> (case lc_semantic_retrieval (ce_opts env) of None \<Rightarrow> True | Some b \<Rightarrow> b)"

definition embed_single :: "('v, 's) case_env \<Rightarrow> string \<Rightarrow> 'v list" where
  "embed_single env text =
    (if \<not> semantic_retrieval_enabled env then []
     else let normalized = normalize_for_embedding text in
       if normalized = [] then []
       else case (the (ce_embed env)) [normalized] of
         Inr [v] \<Rightarrow> v
       | _ \<Rightarrow> [])"

text \<open>\<^verbatim>\<open>warmupCaseVectors\<close> and \<^verbatim>\<open>warmupFeedbackVectors\<close>, over the text of an item.\<close>

fun fill_vectors :: "('a, 'v) vec_entry list \<Rightarrow> 'v list list \<Rightarrow> ('a, 'v) vec_entry list" where
  "fill_vectors (e # es) (v # vs) = e\<lparr>ve_vector := v\<rparr> # fill_vectors es vs"
| "fill_vectors es vs = es"

fun warmup_batches ::
  "(string list \<Rightarrow> 'v list list go_result) \<Rightarrow> string list list \<Rightarrow> ('a, 'v) vec_entry list \<Rightarrow> ('a, 'v) vec_entry list" where
  "warmup_batches emb [] es = es"
| "warmup_batches emb (b # bs) es =
    (case emb b of
       Inr vs \<Rightarrow> (if length vs = length b then fill_vectors (take (length b) es) vs else take (length b) es)
     | Inl e \<Rightarrow> take (length b) es) @ warmup_batches emb bs (drop (length b) es)"

definition warmup_vectors :: "('v, 's) case_env \<Rightarrow> ('a \<Rightarrow> string) \<Rightarrow> ('a, 'v) vec_entry list \<Rightarrow> ('a, 'v) vec_entry list" where
  "warmup_vectors env text es =
    (if \<not> semantic_retrieval_enabled env \<or> es = [] then es
     else warmup_batches (the (ce_embed env)) (batch_texts (map (text \<circ> ve_item) es) embedding_batch_size) es)"

section \<open>Similar cases\<close>

type_synonym 'v case_entry = "(diagnosis_case, 'v) vec_entry"

definition candidate_cases :: "string \<Rightarrow> string \<Rightarrow> 'v case_library \<Rightarrow> 'v case_entry list" where
  "candidate_cases agentType cluster0 s = (let cluster = trim_space cluster0 in
     filter (\<lambda>e. dc_agent_type (ve_item e) = agentType \<and> (cluster = [] \<or> dc_cluster_id (ve_item e) = cluster)) (snapshot (cl_store s)))"

definition keyword_case_match :: "'v case_entry list \<Rightarrow> string \<Rightarrow> int \<Rightarrow> diagnosis_case list" where
  "keyword_case_match candidates message limit = (let lower = to_lower (trim_space message) in
     if lower = [] then []
     else map fst (take (nat limit) (sort_down snd (filter (\<lambda>(c, score). 0 < score)
       (map (\<lambda>e. (ve_item e, length (filter (\<lambda>t. t \<noteq> [] \<and> Go_Strings.contains lower t) (dc_tags (ve_item e))))) candidates)))))"

definition similar_cases ::
  "('v, 's :: linorder) case_env \<Rightarrow> string \<Rightarrow> string \<Rightarrow> string \<Rightarrow> int \<Rightarrow> 'v case_library \<Rightarrow> diagnosis_case list \<times> string" where
  "similar_cases env agentType cluster message limit s =
    (if limit \<le> 0 \<or> trim_space message = [] then ([], CASE_RETRIEVAL_NONE)
     else let candidates = candidate_cases agentType cluster s in
       if candidates = [] then ([], CASE_RETRIEVAL_NONE)
       else let v = embed_single env message;
                matched = top_k_by_vector (ce_score env) (ce_min_score env) candidates v ve_vector limit in
         if v \<noteq> [] \<and> matched \<noteq> [] then (map ve_item matched, CASE_RETRIEVAL_SEMANTIC)
         else let found = keyword_case_match candidates message limit in
           if found \<noteq> [] then (found, CASE_RETRIEVAL_KEYWORD) else ([], CASE_RETRIEVAL_NONE))"

definition few_shot_head :: string where
  "few_shot_head = utf8 [0x5386, 0x53F2, 0x76F8, 0x4F3C, 0x6848, 0x4F8B] @ ''('' @ utf8 [0x8FC7, 0x5F80, 0x8BCA, 0x65AD, 0x7684, 0x75C7, 0x72B6, 0x2192, 0x6839, 0x56E0, 0x4E0E, 0x6392, 0x67E5, 0x8DEF, 0x5F84] @ '','' @ utf8 [0x4EC5, 0x4F9B, 0x53C2, 0x8003] @ '';'' @ utf8 [0x7ED3, 0x8BBA, 0x5FC5, 0x987B, 0x4EE5, 0x672C, 0x6B21, 0x91C7, 0x96C6, 0x7684, 0x8BC1, 0x636E, 0x4E3A, 0x51C6] @ '','' @ utf8 [0x4E0D, 0x53EF, 0x76F4, 0x63A5, 0x7167, 0x642C] @ ''):''"

definition arrow :: string where
  "arrow = '' '' @ utf8 [0x2192] @ '' ''"

definition few_shot_line :: "diagnosis_case \<Rightarrow> string" where
  "few_shot_line c =
    newline @ ''- '' @ utf8 [0x75C7, 0x72B6] @ '': '' @ truncate_runes (dc_symptom c) MAX_CASE_LINE_CHARS
    @ (let cause = trim_space (dc_root_cause c) in
       if cause = [] then [] else '';'' @ utf8 [0x6839, 0x56E0] @ '': '' @ truncate_runes cause MAX_CASE_LINE_CHARS)
    @ (let trace = join arrow (dc_tool_trace c) in
       if trace = [] then [] else '';'' @ utf8 [0x6392, 0x67E5, 0x8DEF, 0x5F84] @ '': '' @ trace)"

text \<open>The mode, the number of cases and the text that is added to the prompt.\<close>

definition case_few_shot_prompt_section ::
  "('v, 's :: linorder) case_env \<Rightarrow> string \<Rightarrow> string \<Rightarrow> string \<Rightarrow> 'v case_library \<Rightarrow> string \<times> nat \<times> string" where
  "case_few_shot_prompt_section env agentType cluster message s =
    (case similar_cases env agentType cluster message (lc_case_few_shot_limit (ce_opts env)) s of (matched, mode) \<Rightarrow>
       if matched = [] then (CASE_RETRIEVAL_NONE, 0, [])
       else (mode, length matched, few_shot_head @ concat (map few_shot_line matched)))"

section \<open>The goroutines\<close>

datatype 'v case_task =
    CheckCase diagnosis_case "'v list"
  | AddCase diagnosis_case "'v list"
  | CreateRow diagnosis_case
  | RecheckCase string
  | SuppressRun string
  | UncacheRun string
  | DeleteRows string
  | LoadCases
  | LoadSuppressed "diagnosis_case list"
  | ReplaceCases "'v case_entry list"

definition purge_diagnosis_case :: "('v, 's) case_env \<Rightarrow> string \<Rightarrow> 'v case_task list" where
  "purge_diagnosis_case env runID0 = (let runID = trim_space runID0 in
     if \<not> library_on env \<or> runID = [] then [] else [SuppressRun runID])"

definition case_extract_content :: "string \<Rightarrow> string \<Rightarrow> string" where
  "case_extract_content question answer =
    utf8 [0x7528, 0x6237, 0x95EE, 0x9898] @ '':'' @ newline @ truncate_runes question MAX_DIAGNOSIS_CASE_TEXT_CHARS
    @ newline @ newline @ utf8 [0x8BCA, 0x65AD, 0x7ED3, 0x8BBA] @ '':'' @ newline @ truncate_runes answer MAX_CASE_EXTRACT_ANSWER_CHARS"

text \<open>
  \<^verbatim>\<open>recordDiagnosisCase\<close> up to the first look at the suppressed runs: whether a slot for the background was
  taken, and what \<open>generate_json\<close> made of the answer to the content.
\<close>

definition record_diagnosis_case ::
  "('v, 's) case_env \<Rightarrow> bool \<Rightarrow> (string \<Rightarrow> extracted_case go_result) \<Rightarrow> string \<Rightarrow> instant \<Rightarrow> agent_run \<Rightarrow> string list \<Rightarrow> 'v case_task list" where
  "record_diagnosis_case env acquired extract newID now run trace =
    (let question = trim_space (ar_input run); answer = trim_space (ar_summary run) in
     if \<not> library_on env \<or> question = [] \<or> length (runes answer) < MIN_CASE_ANSWER_CHARS \<or> \<not> acquired then []
     else case extract (case_extract_content question answer) of
       Inl e \<Rightarrow> []
     | Inr x \<Rightarrow> (case build_diagnosis_case newID now run x trace of
         None \<Rightarrow> []
       | Some c \<Rightarrow> [CheckCase c (embed_single env (case_embed_text c))]))"

definition record_step :: "('v, 's) case_env \<Rightarrow> go_error option \<Rightarrow> 'v case_task \<Rightarrow> 'v case_library \<Rightarrow> 'v case_library \<times> 'v case_task list" where
  "record_step env f t s = (case t of
     CheckCase c v \<Rightarrow> (s, if string_set_contains (dc_run_id c) (cl_suppressed s) then [] else [AddCase c v])
   | AddCase c v \<Rightarrow> (s\<lparr>cl_store := cache_add c v (cl_store s)\<rparr>, [CreateRow c])
   | CreateRow c \<Rightarrow> (snd (create_diagnosis_case f c s), [RecheckCase (dc_run_id c)])
   | RecheckCase r \<Rightarrow> (s, if string_set_contains r (cl_suppressed s) then purge_diagnosis_case env r else [])
   | _ \<Rightarrow> (s, []))"

definition purge_step :: "go_error option \<Rightarrow> 'v case_task \<Rightarrow> 'v case_library \<Rightarrow> 'v case_library \<times> 'v case_task list" where
  "purge_step f t s = (case t of
     SuppressRun r \<Rightarrow> (s\<lparr>cl_suppressed := string_set_add r (cl_suppressed s)\<rparr>, [UncacheRun r])
   | UncacheRun r \<Rightarrow> (s\<lparr>cl_store := snd (remove_matching (\<lambda>c. dc_run_id c = r) (cl_store s))\<rparr>, [DeleteRows r])
   | DeleteRows r \<Rightarrow> (snd (delete_diagnosis_case_by_run_id f r s), [])
   | _ \<Rightarrow> (s, []))"

text \<open>\<^verbatim>\<open>loadSuppressedCaseRuns\<close>: the runs to leave out, which are also remembered.\<close>

definition load_suppressed_case_runs :: "('v, 's) case_env \<Rightarrow> go_error option \<Rightarrow> 'v case_library \<Rightarrow> string list \<times> 'v case_library" where
  "load_suppressed_case_runs env f s =
    (if \<not> ce_feedback_repo env then ([], s)
     else case list_not_useful_run_ids f (lc_case_cache_size (ce_opts env)) s of
       Inl e \<Rightarrow> ([], s)
     | Inr ids0 \<Rightarrow> (let ids = filter (\<lambda>r. r \<noteq> []) (map trim_space ids0) in
         (ids, s\<lparr>cl_suppressed := fold string_set_add ids (cl_suppressed s)\<rparr>)))"

definition load_step :: "('v, 's) case_env \<Rightarrow> go_error option \<Rightarrow> 'v case_task \<Rightarrow> 'v case_library \<Rightarrow> 'v case_library \<times> 'v case_task list" where
  "load_step env f t s = (case t of
     LoadCases \<Rightarrow> (s, case list_recent_diagnosis_cases f [] (lc_case_cache_size (ce_opts env)) s of
       Inl e \<Rightarrow> [] | Inr items \<Rightarrow> [LoadSuppressed items])
   | LoadSuppressed items \<Rightarrow> (case load_suppressed_case_runs env f s of (ids, s') \<Rightarrow>
       (s', [ReplaceCases (warmup_vectors env case_embed_text
         (map (\<lambda>c. \<lparr>ve_item = c, ve_vector = [], ve_key = []\<rparr>) (filter (\<lambda>c. dc_run_id c \<notin> set ids) items)))]))
   | ReplaceCases es \<Rightarrow> (s\<lparr>cl_store := cache_replace es (cl_store s)\<rparr>, [])
   | _ \<Rightarrow> (s, []))"

fun case_task_step :: "('v, 's) case_env \<Rightarrow> go_error option \<Rightarrow> 'v case_task \<Rightarrow> 'v case_library \<Rightarrow> 'v case_library \<times> 'v case_task list" where
  "case_task_step env f (SuppressRun r) s = purge_step f (SuppressRun r) s"
| "case_task_step env f (UncacheRun r) s = purge_step f (UncacheRun r) s"
| "case_task_step env f (DeleteRows r) s = purge_step f (DeleteRows r) s"
| "case_task_step env f LoadCases s = load_step env f LoadCases s"
| "case_task_step env f (LoadSuppressed items) s = load_step env f (LoadSuppressed items) s"
| "case_task_step env f (ReplaceCases es) s = load_step env f (ReplaceCases es) s"
| "case_task_step env f t s = record_step env f t s"

text \<open>The whole warm-up with nothing beside it.\<close>

definition load_diagnosis_cases :: "('v, 's) case_env \<Rightarrow> (nat \<Rightarrow> go_error option) \<Rightarrow> 'v case_library \<Rightarrow> 'v case_library" where
  "load_diagnosis_cases env f s =
    (if \<not> ce_case_repo env then s
     else case list_recent_diagnosis_cases (f 0) [] (lc_case_cache_size (ce_opts env)) s of
       Inl e \<Rightarrow> s
     | Inr items \<Rightarrow> (case load_step env (f 1) (LoadSuppressed items) s of (s', nxt) \<Rightarrow>
         fold (\<lambda>t s. fst (load_step env None t s)) nxt s'))"

section \<open>Requests\<close>

record feedback_request =
  fr_useful :: "bool option"
  fr_comment :: string

text \<open>
  \<^verbatim>\<open>SubmitRunFeedback\<close>: \<open>repo\<close> is whether the service has a repository, \<open>invalid\<close> the answer of the validator, the
  failures those of the two statements.
\<close>

definition submit_run_feedback ::
  "('v, 's) case_env \<Rightarrow> bool \<Rightarrow> (feedback_request \<Rightarrow> go_error option) \<Rightarrow> (nat \<Rightarrow> go_error option) \<Rightarrow> run_tables \<Rightarrow> string \<Rightarrow> instant
    \<Rightarrow> string \<Rightarrow> string \<Rightarrow> feedback_request \<Rightarrow> 'v case_library \<Rightarrow> run_feedback go_result \<times> 'v case_library \<times> 'v case_task list" where
  "submit_run_feedback env repo invalid f runs newID now user runID0 req s =
    (if \<not> repo then (Inl repository_unavailable, s, [])
     else case agent_normalize_user_id user of
       Inl e \<Rightarrow> (Inl e, s, [])
     | Inr u \<Rightarrow> (case invalid req of
         Some e \<Rightarrow> (Inl e, s, [])
       | None \<Rightarrow> (let runID = trim_space runID0 in
           if runID = [] then (Inl (bad_request ''run id is required''), s, [])
           else if \<not> ce_feedback_repo env then (Inl (ErrApp CodeInternal ''run feedback is not available'' 503 None), s, [])
           else case get_run (f 0) runID runs of
             Inl e \<Rightarrow> (Inl (not_found e ''agent run not found''), s, [])
           | Inr run \<Rightarrow>
               if ar_user_id run \<noteq> u then (Inl (ErrApp CodeForbidden ''agent run is not accessible'' 403 None), s, [])
               else (let fb = \<lparr>rf_id = newID, rf_run_id = runID, rf_user_id = u, rf_agent_type = ar_agent_type run,
                     rf_cluster_id = ar_cluster_id run, rf_useful = (fr_useful req = Some True),
                     rf_comment = truncate_runes (trim_space (fr_comment req)) MAX_RUN_FEEDBACK_COMMENT_CHARS,
                     rf_created_at = now, rf_updated_at = now\<rparr> in
                 case create_run_feedback (f 1) fb s of
                   (Inl e, s') \<Rightarrow> (Inl (the (map_repository (Some e) \<lparr>not_found_code = CodeNotFound,
                       not_found_message = ''agent run feedback not found'', conflict_code = CodeConflict,
                       conflict_message = ''agent run feedback already exists''\<rparr>)), s', [])
                 | (Inr saved, s') \<Rightarrow> (Inr saved, s', if rf_useful saved then [] else purge_diagnosis_case env (rf_run_id saved))))))"

definition feature_unavailable :: "string \<Rightarrow> go_error" where
  "feature_unavailable message = ErrApp CodeInternal message 503 None"

text \<open>
  \<^verbatim>\<open>DeleteDiagnosisCaseByRunID\<close> of the management API: its checks, and the task that does what a purge does, though in
  the request.
\<close>

definition delete_case_request :: "('v, 's) case_env \<Rightarrow> string \<Rightarrow> string \<Rightarrow> 'v case_task list go_result" where
  "delete_case_request env user runID0 = (case agent_normalize_user_id user of
     Inl e \<Rightarrow> Inl e
   | Inr u \<Rightarrow>
       if \<not> ce_case_repo env then Inl (feature_unavailable ''diagnosis case management is not available'')
       else let runID = trim_space runID0 in
         if runID = [] then Inl (bad_request ''run id is required'') else Inr [SuppressRun runID])"

section \<open>The interface of the caches\<close>

text \<open>What the purges need of a cache: it holds nothing but what was put or filled in, and a removal leaves nothing of what it removes.\<close>

locale item_cache =
  fixes cached :: "'c \<Rightarrow> 'i set"
    and put :: "'i \<Rightarrow> 'v list \<Rightarrow> 'c \<Rightarrow> 'c"
    and drop_if :: "('i \<Rightarrow> bool) \<Rightarrow> 'c \<Rightarrow> 'c"
    and ok :: "'c \<Rightarrow> bool"
  assumes put_only: "ok c \<Longrightarrow> cached (put i v c) \<subseteq> insert i (cached c)"
    and drop_exact: "ok c \<Longrightarrow> cached (drop_if P c) = {i \<in> cached c. \<not> P i}"
    and ok_put: "ok c \<Longrightarrow> ok (put i v c)"
    and ok_drop: "ok c \<Longrightarrow> ok (drop_if P c)"
begin

lemma all_put: "ok c \<Longrightarrow> (\<And>j. j \<in> cached c \<Longrightarrow> Q j) \<Longrightarrow> Q i \<Longrightarrow> j \<in> cached (put i v c) \<Longrightarrow> Q j"
  using put_only [of c i v] by blast

lemma all_drop: "ok c \<Longrightarrow> (\<And>j. j \<in> cached c \<Longrightarrow> \<not> P j \<Longrightarrow> Q j) \<Longrightarrow> j \<in> cached (drop_if P c) \<Longrightarrow> Q j"
  using drop_exact [of c P] by blast

lemma gone_after_drop: "ok c \<Longrightarrow> j \<in> cached (drop_if P c) \<Longrightarrow> \<not> P j"
  using drop_exact [of c P] by blast

end

text \<open>A memory of values: it knows the last one it was told, and nothing it was not told.\<close>

locale mark_set =
  fixes marked :: "'k \<Rightarrow> 'm \<Rightarrow> bool"
    and mark :: "'k \<Rightarrow> 'm \<Rightarrow> 'm"
    and good :: "'m \<Rightarrow> bool"
    and nil :: 'k
  assumes mark_only: "good m \<Longrightarrow> marked k (mark j m) \<Longrightarrow> k = j \<or> marked k m"
    and mark_known: "good m \<Longrightarrow> j \<noteq> nil \<Longrightarrow> marked j (mark j m)"
    and good_mark: "good m \<Longrightarrow> good (mark j m)"
begin

lemma marks_only: "good m \<Longrightarrow> marked k (fold mark js m) \<Longrightarrow> k \<in> set js \<or> marked k m"
proof (induction js arbitrary: m)
  case (Cons j js)
  from Cons.IH [OF good_mark [OF Cons.prems(1)], of j] Cons.prems show ?case by (auto dest: mark_only)
qed simp

lemma good_marks: "good m \<Longrightarrow> good (fold mark js m)"
  by (induction js arbitrary: m) (auto intro: good_mark)

end

definition cached_items :: "('a, 'v) bounded_cache \<Rightarrow> 'a set" where
  "cached_items c = ve_item ` set (snapshot c)"

lemma list_add_items: "ve_item ` set (list_add kf cap x v es) \<subseteq> insert x (ve_item ` set es)"
  by (auto simp: list_add_def Let_def dest!: in_set_takeD split: option.splits)

interpretation case_cache: item_cache cached_items cache_add "\<lambda>P c. snd (remove_matching P c)" cache_wf
proof
  fix c :: "('a, 'b) bounded_cache" and i v and P :: "'a \<Rightarrow> bool"
  assume wf: "cache_wf c"
  show "cached_items (cache_add i v c) \<subseteq> insert i (cached_items c)"
    using snapshot_run [OF wf, of "Add i v"] list_add_items [of "bc_key_of c" "bc_capacity c" i v "snapshot c"]
    by (simp add: cached_items_def)
  show "cached_items (snd (remove_matching P c)) = {i \<in> cached_items c. \<not> P i}"
    using snapshot_run [OF wf, of "Remove_Matching P"] by (auto simp: cached_items_def)
  show "cache_wf (cache_add i v c)" using snapshot_run [OF wf, of "Add i v"] by simp
  show "cache_wf (snd (remove_matching P c))" using snapshot_run [OF wf, of "Remove_Matching P"] by simp
qed

definition string_ring_ok :: "string_ring \<Rightarrow> bool" where
  "string_ring_ok s \<longleftrightarrow> (\<exists>q. ring_queue s q)"

lemma ring_queue_contains: "ring_queue s q \<Longrightarrow> string_set_contains v s \<longleftrightarrow> v \<in> set q"
  by (auto simp: string_set_contains_def ring_queue_def)

interpretation suppressed: mark_set string_set_contains string_set_add string_ring_ok "[]"
proof
  fix m k j assume "string_ring_ok m"
  then obtain q where q: "ring_queue m q" by (auto simp: string_ring_ok_def)
  note q' = ring_queue_add(1) [OF q, of j]
  have q'': "set (queue_add (sr_capacity m) j q) \<subseteq> insert j (set q)"
    by (cases q) (auto simp: queue_add_def)
  show "string_set_contains k (string_set_add j m) \<Longrightarrow> k = j \<or> string_set_contains k m"
    using q'' by (auto simp: ring_queue_contains [OF q] ring_queue_contains [OF q'])
  show "j \<noteq> [] \<Longrightarrow> string_set_contains j (string_set_add j m)"
    by (auto simp: ring_queue_contains [OF q'] queue_add_def)
  show "string_ring_ok (string_set_add j m)" using q' by (auto simp: string_ring_ok_def)
qed

section \<open>Interleavings\<close>

text \<open>
  One step: a task goes on, a run ends, feedback is given, a case is deleted through the API, or, unless \<open>alone\<close>, another instance
  changes the tables; only then may a statement fail. The library stays switched on or off.
\<close>

inductive case_step ::
  "bool \<Rightarrow> bool \<Rightarrow> 'v case_library \<times> 'v case_task list \<Rightarrow> 'v case_library \<times> 'v case_task list \<Rightarrow> bool" for on alone where
  go_on: "t \<in> set ts \<Longrightarrow> library_on (env :: ('v, rat) case_env) = on \<Longrightarrow> (alone \<longrightarrow> f = None)
    \<Longrightarrow> case_task_step env f t s = (s', nxt) \<Longrightarrow> case_step on alone (s, ts) (s', nxt @ remove1 t ts)"
| run_ends: "library_on (env :: ('v, rat) case_env) = on \<Longrightarrow> trim_space (ar_id run) = ar_id run \<Longrightarrow> ar_id run \<noteq> []
    \<Longrightarrow> case_step on alone (s, ts) (s, record_diagnosis_case env acquired extract newID now run trace @ ts)"
| feedback_given: "library_on (env :: ('v, rat) case_env) = on
    \<Longrightarrow> submit_run_feedback env repo invalid f runs newID now user runID req s = (r, s', nxt)
    \<Longrightarrow> case_step on alone (s, ts) (s', nxt @ ts)"
| case_deleted: "delete_case_request (env :: ('v, rat) case_env) user runID = Inr nxt \<Longrightarrow> case_step on alone (s, ts) (s, nxt @ ts)"
| tables_changed: "\<not> alone \<Longrightarrow> case_step on alone (s, ts) (s\<lparr>cl_rows := rows, cl_feedback := fb\<rparr>, ts)"

inductive case_steps ::
  "bool \<Rightarrow> bool \<Rightarrow> 'v case_library \<times> 'v case_task list \<Rightarrow> 'v case_library \<times> 'v case_task list \<Rightarrow> bool" for on alone where
  no_step: "case_steps on alone x x"
| more_steps: "case_step on alone x y \<Longrightarrow> case_steps on alone y z \<Longrightarrow> case_steps on alone x z"

text \<open>A task is about a run, or is part of the warm-up.\<close>

fun concerns :: "string \<Rightarrow> 'v case_task \<Rightarrow> bool" where
  "concerns r (CheckCase c v) = (dc_run_id c = r)"
| "concerns r (AddCase c v) = (dc_run_id c = r)"
| "concerns r (CreateRow c) = (dc_run_id c = r)"
| "concerns r (RecheckCase q) = (q = r)"
| "concerns r (SuppressRun q) = (q = r)"
| "concerns r (UncacheRun q) = (q = r)"
| "concerns r (DeleteRows q) = (q = r)"
| "concerns r t = True"

fun task_ok :: "bool \<Rightarrow> 'v case_task \<Rightarrow> bool" where
  "task_ok on (CheckCase c v) = (on \<and> trim_space (dc_run_id c) = dc_run_id c \<and> dc_run_id c \<noteq> [])"
| "task_ok on (AddCase c v) = (on \<and> trim_space (dc_run_id c) = dc_run_id c \<and> dc_run_id c \<noteq> [])"
| "task_ok on (CreateRow c) = (on \<and> trim_space (dc_run_id c) = dc_run_id c \<and> dc_run_id c \<noteq> [])"
| "task_ok on (RecheckCase r) = (on \<and> trim_space r = r \<and> r \<noteq> [])"
| "task_ok on (SuppressRun r) = (r \<noteq> [])"
| "task_ok on (UncacheRun r) = True"
| "task_ok on (DeleteRows r) = True"
| "task_ok on t = False"

text \<open>The tasks that lead to the removal of what is cached, and of what is stored, of a suppressed run.\<close>

fun will_uncache :: "string \<Rightarrow> 'v case_task \<Rightarrow> bool" where
  "will_uncache r (CheckCase c v) = False"
| "will_uncache r (AddCase c v) = False"
| "will_uncache r (DeleteRows q) = False"
| "will_uncache r t = concerns r t"

fun will_delete :: "string \<Rightarrow> 'v case_task \<Rightarrow> bool" where
  "will_delete r (CheckCase c v) = False"
| "will_delete r (AddCase c v) = False"
| "will_delete r t = concerns r t"

definition cached_run :: "string \<Rightarrow> 'v case_library \<Rightarrow> bool" where
  "cached_run r s \<longleftrightarrow> (\<exists>c \<in> cached_items (cl_store s). dc_run_id c = r)"

definition stored_run :: "string \<Rightarrow> 'v case_library \<Rightarrow> bool" where
  "stored_run r s \<longleftrightarrow> (\<exists>c \<in> snd ` set (cl_rows s). dc_run_id c = r)"

abbreviation suppressed_run :: "string \<Rightarrow> 'v case_library \<Rightarrow> bool" where
  "suppressed_run r s \<equiv> string_set_contains r (cl_suppressed s)"

definition lib_ok :: "bool \<Rightarrow> 'v case_library \<Rightarrow> 'v case_task list \<Rightarrow> bool" where
  "lib_ok on s ts \<longleftrightarrow> cache_wf (cl_store s) \<and> string_ring_ok (cl_suppressed s) \<and> (\<forall>t \<in> set ts. task_ok on t)"

text \<open>What a suppressed run still has somewhere is going to be removed, runs \<open>K\<close> excepted.\<close>

definition covered ::
  "(string \<Rightarrow> 'v case_task \<Rightarrow> bool) \<Rightarrow> (string \<Rightarrow> 'v case_library \<Rightarrow> bool) \<Rightarrow> string set \<Rightarrow> 'v case_library \<Rightarrow> 'v case_task list \<Rightarrow> bool" where
  "covered W H K s ts \<longleftrightarrow> (\<forall>r. suppressed_run r s \<and> r \<notin> K \<and> H r s \<longrightarrow> (\<exists>t \<in> set ts. W r t))"

lemma covered_task:
  assumes "covered W H K s ts"
    and "\<And>r. W r t \<Longrightarrow> suppressed_run r s' \<Longrightarrow> H r s' \<Longrightarrow> \<exists>t' \<in> set nxt. W r t'"
    and "\<And>r. suppressed_run r s' \<Longrightarrow> H r s' \<Longrightarrow> \<not> (suppressed_run r s \<and> H r s) \<Longrightarrow> \<exists>t' \<in> set nxt. W r t'"
  shows "covered W H K s' (nxt @ remove1 t ts)"
  unfolding covered_def
proof (intro allI impI, elim conjE)
  fix r assume r: "suppressed_run r s'" "r \<notin> K" "H r s'"
  show "\<exists>t' \<in> set (nxt @ remove1 t ts). W r t'"
  proof (cases "suppressed_run r s \<and> H r s")
    case True
    with assms(1) r obtain t' where t': "t' \<in> set ts" "W r t'" by (auto simp: covered_def)
    show ?thesis
    proof (cases "t' = t")
      case True
      with t'(2) assms(2) r show ?thesis by auto
    next
      case False
      with t'(1) have "t' \<in> set (remove1 t ts)" by simp
      with t'(2) show ?thesis by auto
    qed
  next
    case False
    with assms(3) r show ?thesis by auto
  qed
qed

lemma covered_more: "covered W H K s ts \<Longrightarrow> (\<And>r. H r s' \<Longrightarrow> H r s) \<Longrightarrow> cl_suppressed s' = cl_suppressed s
    \<Longrightarrow> covered W H K s' (nxt @ ts)"
  by (fastforce simp: covered_def)

lemma purge_tasks: "t \<in> set (purge_diagnosis_case env r) \<Longrightarrow> task_ok on t"
  by (auto simp: purge_diagnosis_case_def Let_def split: if_splits)

lemma record_tasks:
  assumes "t \<in> set (record_diagnosis_case env acquired extract newID now run trace)"
    and "library_on env = on" and "trim_space (ar_id run) = ar_id run" and "ar_id run \<noteq> []"
  shows "task_ok on t"
  using assms by (auto simp: record_diagnosis_case_def build_diagnosis_case_def Let_def split: if_splits sum.splits option.splits)

lemma delete_row_runs:
  "stored_run r (snd (delete_diagnosis_case_by_run_id f q s)) \<Longrightarrow> stored_run r s \<and> (f = None \<longrightarrow> r \<noteq> q)"
  by (cases f) (force simp: stored_run_def delete_diagnosis_case_by_run_id_def delete_where_def)+

lemma rows_gm_put: "snd ` set (gm_put k v m) \<subseteq> insert v (snd ` set m)"
proof -
  have "set (gm_put k v m) \<subseteq> insert (k, v) (set m)"
    unfolding gm_put_def by (induction m) auto
  from image_mono [OF this, of snd] show ?thesis by simp
qed

lemma create_row_runs:
  assumes "stored_run r (snd (create_diagnosis_case f c s))"
  shows "stored_run r s \<or> r = dc_run_id c"
proof (cases "f = None \<and> gm_get (cl_rows s) (dc_id c) = None")
  case True
  then have i: "insert_row (dc_id c) c (cl_rows s) = Inr (gm_put (dc_id c) c (cl_rows s))" by simp
  from True have "cl_rows (snd (create_diagnosis_case f c s)) = gm_put (dc_id c) c (cl_rows s)"
    by (simp add: create_diagnosis_case_def i)
  with assms have "r \<in> dc_run_id ` snd ` set (gm_put (dc_id c) c (cl_rows s))" by (auto simp: stored_run_def)
  with rows_gm_put [of "dc_id c" c "cl_rows s"] have "r \<in> dc_run_id ` insert c (snd ` set (cl_rows s))"
    by (meson image_mono subsetD)
  then show ?thesis by (auto simp: stored_run_def)
next
  case False
  then have "snd (create_diagnosis_case f c s) = s"
    by (cases f) (auto simp: create_diagnosis_case_def insert_row_def stmt_def)
  with assms show ?thesis by simp
qed

lemmas task_simps = record_step_def purge_step_def

lemma cached_put: "cache_wf (cl_store s) \<Longrightarrow> cached_run r (s\<lparr>cl_store := cache_add c v (cl_store s)\<rparr>) \<Longrightarrow> cached_run r s \<or> dc_run_id c = r"
  using case_cache.put_only [of "cl_store s" c v] by (auto simp: cached_run_def)

lemma cached_drop:
  "cache_wf (cl_store s) \<Longrightarrow> cached_run r (s\<lparr>cl_store := snd (remove_matching (\<lambda>c. dc_run_id c = q) (cl_store s))\<rparr>) \<Longrightarrow> cached_run r s \<and> r \<noteq> q"
  by (auto simp: cached_run_def case_cache.drop_exact)

lemma create_row_rest [simp]:
  "cl_store (snd (create_diagnosis_case f c s)) = cl_store s" "cl_suppressed (snd (create_diagnosis_case f c s)) = cl_suppressed s"
  by (auto simp: create_diagnosis_case_def split: sum.splits)

lemma delete_rows_rest [simp]:
  "cl_store (snd (delete_diagnosis_case_by_run_id f r s)) = cl_store s"
  "cl_suppressed (snd (delete_diagnosis_case_by_run_id f r s)) = cl_suppressed s"
  by (auto simp: delete_diagnosis_case_by_run_id_def split: option.splits)

text \<open>A step of a task keeps the shared structures in order and leaves tasks in order.\<close>

lemma task_step_ok:
  assumes "lib_ok on s [t]" and "case_task_step env f t s = (s', nxt)" and "library_on env = on"
  shows "lib_ok on s' nxt"
  using assms
  by (cases t) (auto simp: lib_ok_def task_simps case_cache.ok_put case_cache.ok_drop suppressed.good_mark purge_tasks split: if_splits)

lemma task_step_uncache:
  assumes "lib_ok on s [t]" and "case_task_step env f t s = (s', nxt)" and "library_on env = on"
    and "suppressed_run r s'" and "cached_run r s'"
    and "will_uncache r t \<or> \<not> (suppressed_run r s \<and> cached_run r s)"
  shows "\<exists>t' \<in> set nxt. will_uncache r t'"
proof (cases t)
  case (AddCase c v)
  with assms cached_put [of s r c v] show ?thesis by (auto simp: lib_ok_def task_simps)
next
  case (CreateRow c)
  with assms show ?thesis by (auto simp: lib_ok_def task_simps cached_run_def)
next
  case (RecheckCase q)
  with assms show ?thesis by (auto simp: lib_ok_def task_simps purge_diagnosis_case_def)
next
  case (SuppressRun q)
  with assms suppressed.mark_only [of "cl_suppressed s" r q] show ?thesis by (auto simp: lib_ok_def task_simps cached_run_def)
next
  case (UncacheRun q)
  with assms cached_drop [of s r q] show ?thesis by (auto simp: lib_ok_def task_simps)
qed (use assms in \<open>auto simp: lib_ok_def task_simps cached_run_def\<close>)

lemma task_step_delete:
  assumes "lib_ok on s [t]" and "case_task_step env None t s = (s', nxt)" and "library_on env = on"
    and "suppressed_run r s'" and "stored_run r s'"
    and "will_delete r t \<or> \<not> (suppressed_run r s \<and> stored_run r s)"
  shows "\<exists>t' \<in> set nxt. will_delete r t'"
proof (cases t)
  case (CreateRow c)
  with assms create_row_runs [of r None c s] show ?thesis by (auto simp: lib_ok_def task_simps)
next
  case (RecheckCase q)
  with assms show ?thesis by (auto simp: lib_ok_def task_simps purge_diagnosis_case_def)
next
  case (SuppressRun q)
  with assms suppressed.mark_only [of "cl_suppressed s" r q] show ?thesis by (auto simp: lib_ok_def task_simps stored_run_def)
next
  case (DeleteRows q)
  with assms delete_row_runs [of r None q s] show ?thesis by (auto simp: lib_ok_def task_simps)
qed (use assms in \<open>auto simp: lib_ok_def task_simps stored_run_def\<close>)

lemma submit_effect:
  assumes "submit_run_feedback env repo invalid f runs newID now user runID req s = (r, s', nxt)"
  shows "cl_store s' = cl_store s" and "cl_suppressed s' = cl_suppressed s" and "cl_rows s' = cl_rows s"
    and "t \<in> set nxt \<Longrightarrow> task_ok on t"
proof -
  have "cl_store s' = cl_store s \<and> cl_suppressed s' = cl_suppressed s \<and> cl_rows s' = cl_rows s
    \<and> (nxt = [] \<or> (\<exists>q. nxt = purge_diagnosis_case env q))"
    using assms
    by (auto simp: submit_run_feedback_def create_run_feedback_def Let_def split: if_splits sum.splits option.splits)
  then show "cl_store s' = cl_store s" and "cl_suppressed s' = cl_suppressed s" and "cl_rows s' = cl_rows s"
    and "t \<in> set nxt \<Longrightarrow> task_ok on t" by (auto intro: purge_tasks)
qed

definition quiet_inv :: "bool \<Rightarrow> bool \<Rightarrow> string set \<Rightarrow> 'v case_library \<times> 'v case_task list \<Rightarrow> bool" where
  "quiet_inv on alone K = (\<lambda>(s, ts). lib_ok on s ts \<and> covered will_uncache cached_run {} s ts
     \<and> (alone \<longrightarrow> covered will_delete stored_run K s ts))"

lemma quiet_step: "case_step on alone x y \<Longrightarrow> quiet_inv on alone K x \<Longrightarrow> quiet_inv on alone K y"
proof (induction rule: case_step.induct)
  case (go_on t ts env f s s' nxt)
  then have ok: "lib_ok on s [t]" "lib_ok on s ts" by (auto simp: quiet_inv_def lib_ok_def)
  have "lib_ok on s' nxt" using task_step_ok [OF ok(1)] go_on by blast
  then have "lib_ok on s' (nxt @ remove1 t ts)"
    using ok(2) by (auto simp: lib_ok_def dest: notin_set_remove1)
  moreover have "covered will_uncache cached_run {} s' (nxt @ remove1 t ts)"
    using go_on by (intro covered_task [of _ _ _ s] task_step_uncache [OF ok(1)]) (auto simp: quiet_inv_def)
  moreover have "covered will_delete stored_run K s' (nxt @ remove1 t ts)" if alone
    using go_on that by (intro covered_task [of _ _ _ s] task_step_delete [OF ok(1)]) (auto simp: quiet_inv_def)
  ultimately show ?case by (simp add: quiet_inv_def)
next
  case (run_ends env run s ts acq ext newID now trace)
  then show ?case
    by (auto simp: quiet_inv_def lib_ok_def intro!: covered_more [of _ _ _ s] dest: record_tasks)
next
  case (feedback_given env repo invalid f runs newID now user runID req s r s' nxt ts)
  note e = submit_effect [OF feedback_given(2)]
  from feedback_given(3) show ?case
    by (auto simp: quiet_inv_def lib_ok_def e(1,2) intro!: covered_more [of _ _ _ s] dest: e(4))
      (auto simp: cached_run_def stored_run_def e)
next
  case (case_deleted env user runID nxt s ts)
  then show ?case
    by (auto simp: quiet_inv_def lib_ok_def delete_case_request_def Let_def intro!: covered_more [of _ _ _ s] split: sum.splits if_splits)
next
  case (tables_changed s ts rows fb)
  then show ?case
    by (auto simp: quiet_inv_def lib_ok_def covered_def cached_run_def)
qed

lemma quiet_steps: "case_steps on alone x y \<Longrightarrow> quiet_inv on alone K x \<Longrightarrow> quiet_inv on alone K y"
  by (induction rule: case_steps.induct) (auto intro: quiet_step)

section \<open>The warm-up\<close>

lemma fill_vectors_items: "length vs = length es \<Longrightarrow> map ve_item (fill_vectors es vs) = map ve_item es"
  by (induction es vs rule: fill_vectors.induct) auto

lemma warmup_batches_items: "sum_list (map length bs) = length es \<Longrightarrow> map ve_item (warmup_batches emb bs es) = map ve_item es"
proof (induction bs arbitrary: es)
  case (Cons b bs)
  then have "map ve_item (warmup_batches emb bs (drop (length b) es)) = map ve_item (drop (length b) es)" by (intro Cons.IH) simp
  moreover have "map ve_item (take (length b) es) @ map ve_item (drop (length b) es) = map ve_item es"
    by (simp flip: map_append)
  moreover have "length b \<le> length es" using Cons.prems by simp
  ultimately show ?case
    by (auto simp: fill_vectors_items split: sum.splits)
qed simp

lemma warmup_vectors_items: "map ve_item (warmup_vectors env text es) = map ve_item es"
proof -
  have "sum_list (map length (batch_texts ts n)) = length ts" for ts n
    using arg_cong [OF batch_texts_all [of ts n], of length] by (simp add: length_concat)
  then show ?thesis by (simp add: warmup_vectors_def warmup_batches_items)
qed

lemma list_dedup_items: "ve_item ` set (list_dedup f seen es) \<subseteq> ve_item ` set es"
proof -
  have "e \<in> set (list_dedup f seen es) \<Longrightarrow> ve_item e \<in> ve_item ` set es" for e
    by (induction f seen es rule: list_dedup.induct) (auto simp: Let_def split: if_splits)
  then show ?thesis by blast
qed

lemma list_replace_items: "ve_item ` set (list_replace kf cap es) \<subseteq> ve_item ` set es"
  using list_dedup_items [of "the kf" "{}" es]
  by (auto simp: list_replace_def dest!: in_set_takeD split: option.splits)

lemma replace_items:
  assumes "cache_wf c"
  shows "cached_items (cache_replace es c) \<subseteq> ve_item ` set es" and "cache_wf (cache_replace es c)"
  using snapshot_run [OF assms, of "Replace es"] list_replace_items [of "bc_key_of c" "bc_capacity c" es]
  by (auto simp: cached_items_def)

lemma load_suppressed_effect:
  assumes "string_ring_ok (cl_suppressed s)" and "load_suppressed_case_runs env f s = (ids, s1)"
  shows "cl_store s1 = cl_store s" and "string_ring_ok (cl_suppressed s1)"
    and "suppressed_run r s1 \<Longrightarrow> r \<in> set ids \<or> suppressed_run r s"
proof -
  have "(ids, s1) = ([], s) \<or> s1 = s\<lparr>cl_suppressed := fold string_set_add ids (cl_suppressed s)\<rparr>"
    using assms(2) by (auto simp: load_suppressed_case_runs_def Let_def split: if_splits sum.splits)
  then show "cl_store s1 = cl_store s" and "string_ring_ok (cl_suppressed s1)"
    and "suppressed_run r s1 \<Longrightarrow> r \<in> set ids \<or> suppressed_run r s"
    using assms(1) suppressed.good_marks [OF assms(1), of ids] suppressed.marks_only [OF assms(1), of r ids] by auto
qed

text \<open>A warm-up with nothing beside it leaves no run in the cache that it read as not useful.\<close>

lemma load_diagnosis_cases_quiet:
  assumes "cache_wf (cl_store s)" and "string_ring_ok (cl_suppressed s)"
    and "cached_items (cl_store s) = {}" and "\<And>r. \<not> suppressed_run r s"
  shows "cache_wf (cl_store (load_diagnosis_cases env f s)) \<and> string_ring_ok (cl_suppressed (load_diagnosis_cases env f s))
    \<and> (\<forall>r. suppressed_run r (load_diagnosis_cases env f s) \<longrightarrow> \<not> cached_run r (load_diagnosis_cases env f s))"
proof (cases "ce_case_repo env")
  case False
  with assms show ?thesis by (simp add: load_diagnosis_cases_def)
next
  case True
  show ?thesis
  proof (cases "list_recent_diagnosis_cases (f 0) [] (lc_case_cache_size (ce_opts env)) s")
    case (Inl e)
    with True assms show ?thesis by (simp add: load_diagnosis_cases_def load_step_def)
  next
    case (Inr items)
    obtain ids s1 where ids: "load_suppressed_case_runs env (f 1) s = (ids, s1)" by fastforce
    define es where "es = warmup_vectors env case_embed_text
      (map (\<lambda>c. \<lparr>ve_item = c, ve_vector = [], ve_key = []\<rparr>) (filter (\<lambda>c. dc_run_id c \<notin> set ids) items))"
    have eq: "load_diagnosis_cases env f s = s1\<lparr>cl_store := cache_replace es (cl_store s1)\<rparr>"
      using True Inr ids by (simp add: load_diagnosis_cases_def load_step_def es_def)
    have s1: "cl_store s1 = cl_store s" "string_ring_ok (cl_suppressed s1)" "\<And>r. suppressed_run r s1 \<Longrightarrow> r \<in> set ids"
      using load_suppressed_effect [OF assms(2) ids] assms(4) by blast+
    have "map ve_item es = filter (\<lambda>c. dc_run_id c \<notin> set ids) items"
      by (simp add: es_def warmup_vectors_items o_def)
    then have "ve_item ` set es = {c \<in> set items. dc_run_id c \<notin> set ids}"
      by (simp flip: set_map)
    with replace_items [OF assms(1), of es] s1 show ?thesis by (auto simp: eq cached_run_def)
  qed
qed

section \<open>What diagnoses are shown\<close>

lemma similar_cases_cached: "c \<in> set (fst (similar_cases env agentType cluster message limit s)) \<Longrightarrow> c \<in> cached_items (cl_store s)"
proof -
  assume c: "c \<in> set (fst (similar_cases env agentType cluster message limit s))"
  have k: "c \<in> set (keyword_case_match (candidate_cases agentType cluster s) message limit) \<Longrightarrow> c \<in> cached_items (cl_store s)"
    by (auto simp: keyword_case_match_def candidate_cases_def cached_items_def Let_def dest!: in_set_takeD split: if_splits)
  have t: "e \<in> set (top_k_by_vector (ce_score env) (ce_min_score env) (candidate_cases agentType cluster s) v ve_vector limit)
      \<Longrightarrow> ve_item e \<in> cached_items (cl_store s)" for e v
    by (drule top_k_members) (auto simp: candidate_cases_def cached_items_def Let_def)
  from c show ?thesis by (auto simp: similar_cases_def Let_def intro: k t split: if_splits)
qed

lemma new_library_ok:
  "cache_wf (new_diagnosis_case_store z capacity)" "cached_items (new_diagnosis_case_store z capacity) = {}"
  "string_ring_ok (new_bounded_string_set n)" "\<not> string_set_contains r (new_bounded_string_set n)"
  using new_string_set_queue [of n]
  by (auto simp: new_diagnosis_case_store_def new_cache_wf cached_items_def string_ring_ok_def ring_queue_contains)

definition new_case_library :: "(diagnosis_case, 'v) vec_entry \<Rightarrow> int \<Rightarrow> (string, diagnosis_case) gmap \<Rightarrow> (string, run_feedback) gmap \<Rightarrow> 'v case_library" where
  "new_case_library z capacity rows fb = \<lparr>cl_store = new_diagnosis_case_store z capacity,
     cl_suppressed = new_bounded_string_set SUPPRESSED_CASE_RUNS_CAPACITY, cl_rows = rows, cl_feedback = fb\<rparr>"

text \<open>
  C37: Whatever the interleaving of the recordings, purges, feedback and deletions of an instance after its warm-up, with any failure
  of a statement and any change by other instances: when no task on a run is in flight and the run is still remembered as
  suppressed, no diagnosis is shown a case of it.
\<close>

theorem not_useful_not_shown:
  assumes "case_steps on alone (load_diagnosis_cases env f (new_case_library z capacity rows fb), []) (s, ts)"
    and "suppressed_run r s" and "\<forall>t \<in> set ts. \<not> concerns r t"
    and "c \<in> set (fst (similar_cases env' agentType cluster message limit s))"
  shows "dc_run_id c \<noteq> r"
proof -
  let ?s = "load_diagnosis_cases env f (new_case_library z capacity rows fb)"
  have "quiet_inv on alone {r. suppressed_run r ?s} (?s, [])"
    using load_diagnosis_cases_quiet [of "new_case_library z capacity rows fb" env f]
    by (auto simp: quiet_inv_def lib_ok_def covered_def new_case_library_def new_library_ok)
  from quiet_steps [OF assms(1) this] have "covered will_uncache cached_run {} s ts" by (simp add: quiet_inv_def)
  moreover have "\<not> will_uncache r t" if "t \<in> set ts" for t using assms(3) that by (cases t) auto
  ultimately have "\<not> cached_run r s" using assms(2) by (auto simp: covered_def)
  with similar_cases_cached [OF assms(4)] show ?thesis by (auto simp: cached_run_def)
qed

text \<open>
  With no failing statement and no other instance, the table has no row of a run that was suppressed after the warm-up either.
\<close>

lemma not_useful_not_stored:
  assumes "case_steps on True (load_diagnosis_cases env f (new_case_library z capacity rows fb), []) (s, ts)"
    and "suppressed_run r s" and "\<not> suppressed_run r (load_diagnosis_cases env f (new_case_library z capacity rows fb))"
    and "\<forall>t \<in> set ts. \<not> concerns r t"
  shows "\<not> stored_run r s"
proof -
  let ?s = "load_diagnosis_cases env f (new_case_library z capacity rows fb)"
  have "quiet_inv on True {r. suppressed_run r ?s} (?s, [])"
    using load_diagnosis_cases_quiet [of "new_case_library z capacity rows fb" env f]
    by (auto simp: quiet_inv_def lib_ok_def covered_def new_case_library_def new_library_ok)
  from quiet_steps [OF assms(1) this] have "covered will_delete stored_run {r. suppressed_run r ?s} s ts" by (simp add: quiet_inv_def)
  moreover have "\<not> will_delete r t" if "t \<in> set ts" for t using assms(4) that by (cases t) auto
  ultimately show ?thesis using assms(2,3) by (auto simp: covered_def)
qed

section \<open>Examples\<close>

definition sample_case_config :: loop_config where
  "sample_case_config = \<lparr>lc_max_steps = 2, lc_max_token_budget = 0, lc_max_tool_errors = 1, lc_step_timeout = second,
     lc_tool_choice = [], lc_llm_routing = None, lc_stream_think = None, lc_planning = None, lc_reflection = None,
     lc_max_reflection_steps = 0, lc_max_reflections = 0, lc_reflection_jurors = 0, lc_hypothesis_ledger = None,
     lc_playbook = None, lc_observe_compression = False, lc_case_library = None, lc_case_few_shot_limit = 2,
     lc_case_cache_size = 4, lc_semantic_retrieval = None, lc_replanning = None, lc_replan_interval = 0, lc_max_replans = 0,
     lc_route_learning = None, lc_route_few_shot_limit = 0, lc_route_cache_size = 0, lc_max_runs_per_user = 0, lc_max_runs = 0\<rparr>"

definition sample_case_env :: "(rat, rat) case_env" where
  "sample_case_env = \<lparr>ce_opts = sample_case_config, ce_case_repo = True, ce_feedback_repo = True, ce_embed = None,
     ce_score = (\<lambda>x y. 0), ce_min_score = 1/2\<rparr>"

definition sample_case :: "string \<Rightarrow> string \<Rightarrow> diagnosis_case" where
  "sample_case i run = \<lparr>dc_id = i, dc_run_id = run, dc_agent_type = ''diagnostic'', dc_cluster_id = ''c'', dc_question = ''q'',
     dc_symptom = i, dc_root_cause = ''memory'', dc_tags = [''oom''], dc_tool_trace = [], dc_created_at = 0\<rparr>"

definition sample_library :: "rat case_library" where
  "sample_library = new_case_library \<lparr>ve_item = sample_case [] [], ve_vector = [], ve_key = []\<rparr> 4
     [(''1'', sample_case ''1'' ''r1''), (''2'', sample_case ''2'' ''r2'')] []"

definition sample_loaded :: "rat case_library" where
  "sample_loaded = load_diagnosis_cases sample_case_env no_fault sample_library"

abbreviation sample_step :: "rat case_task \<Rightarrow> rat case_library \<Rightarrow> rat case_library" where
  "sample_step t s \<equiv> fst (case_task_step sample_case_env None t s)"

definition sample_purged :: "rat case_library" where
  "sample_purged = sample_step (DeleteRows ''r2'') (sample_step (UncacheRun ''r2'') (sample_step (SuppressRun ''r2'') sample_loaded))"

lemma sample_purge: "case_steps True alone (sample_loaded, []) (sample_purged, [])"
proof -
  have on: "library_on sample_case_env = True"
    by (simp add: case_library_enabled_def sample_case_env_def sample_case_config_def)
  have trim: "trim_space ''r2'' = ''r2''" by code_simp
  have "delete_case_request sample_case_env ''u'' ''r2'' = Inr [SuppressRun ''r2'']" by code_simp
  from case_step.case_deleted [OF this, of True alone]
  have "case_step True alone (sample_loaded, []) (sample_loaded, [SuppressRun ''r2''])" by simp
  moreover have "case_step True alone (s, [SuppressRun ''r2'']) (sample_step (SuppressRun ''r2'') s, [UncacheRun ''r2''])" for s
    using case_step.go_on [OF _ on, of "SuppressRun ''r2''" "[SuppressRun ''r2'']" alone None s] by (simp add: purge_step_def)
  moreover have "case_step True alone (s, [UncacheRun ''r2'']) (sample_step (UncacheRun ''r2'') s, [DeleteRows ''r2''])" for s
    using case_step.go_on [OF _ on, of "UncacheRun ''r2''" "[UncacheRun ''r2'']" alone None s] by (simp add: purge_step_def)
  moreover have "case_step True alone (s, [DeleteRows ''r2'']) (sample_step (DeleteRows ''r2'') s, [])" for s
    using case_step.go_on [OF _ on, of "DeleteRows ''r2''" "[DeleteRows ''r2'']" alone None s] by (simp add: purge_step_def)
  ultimately show ?thesis unfolding sample_purged_def by (meson case_steps.intros)
qed

text \<open>What is shown depends on the cache only, which is small in the example.\<close>

lemma similar_cases_store:
  "cl_store s = cl_store s' \<Longrightarrow> similar_cases env agentType cluster message limit s = similar_cases env agentType cluster message limit s'"
  by (simp add: similar_cases_def candidate_cases_def)

definition sample_store :: "diagnosis_case list \<Rightarrow> rat case_library" where
  "sample_store cs = \<lparr>cl_store = cache_replace (map (\<lambda>c. \<lparr>ve_item = c, ve_vector = [], ve_key = []\<rparr>) cs)
       (new_diagnosis_case_store \<lparr>ve_item = sample_case [] [], ve_vector = [], ve_key = []\<rparr> 4),
     cl_suppressed = new_bounded_string_set 1, cl_rows = [], cl_feedback = []\<rparr>"

abbreviation "both_cases \<equiv> [sample_case ''1'' ''r1'', sample_case ''2'' ''r2'']"

lemma sample_recent: "list_recent_diagnosis_cases None [] 4 sample_library = Inr both_cases"
proof -
  have "take (query_limit MAX_DIAGNOSIS_CASE_QUERY_LIMIT 4) (sort_down dc_created_at both_cases) = both_cases" by code_simp
  then show ?thesis by (simp add: list_recent_diagnosis_cases_def sample_library_def new_case_library_def)
qed

lemma sample_no_feedback: "list_not_useful_run_ids None 4 sample_library = Inr []"
  by (simp add: list_not_useful_run_ids_def sample_library_def new_case_library_def sort_down_def)

lemma sample_load_step:
  "load_step sample_case_env None (LoadSuppressed cs) sample_library
     = (sample_library, [ReplaceCases (map (\<lambda>c. \<lparr>ve_item = c, ve_vector = [], ve_key = []\<rparr>) cs)])"
  using sample_no_feedback
  by (simp add: load_step_def load_suppressed_case_runs_def sample_case_env_def sample_case_config_def
      warmup_vectors_def semantic_retrieval_enabled_def)

lemma sample_loaded_eq:
  "sample_loaded = sample_library\<lparr>cl_store := cl_store (sample_store both_cases)\<rparr>"
proof -
  have env: "ce_case_repo sample_case_env" "lc_case_cache_size (ce_opts sample_case_env) = 4"
    by (simp_all add: sample_case_env_def sample_case_config_def)
  have "fst (load_step sample_case_env None (ReplaceCases es) s) = s\<lparr>cl_store := cache_replace es (cl_store s)\<rparr>" for es s
    by (simp add: load_step_def)
  then have "sample_loaded = sample_library\<lparr>cl_store := cache_replace
      (map (\<lambda>c. \<lparr>ve_item = c, ve_vector = [], ve_key = []\<rparr>) both_cases) (cl_store sample_library)\<rparr>"
    by (simp add: sample_loaded_def load_diagnosis_cases_def env no_fault_def sample_recent sample_load_step)
  then show ?thesis by (simp add: sample_store_def sample_library_def new_case_library_def)
qed

lemma sample_loaded_store: "cl_store sample_loaded = cl_store (sample_store both_cases)"
  by (simp add: sample_loaded_eq)

lemma sample_loaded_good: "string_ring_ok (cl_suppressed sample_loaded)"
  by (simp add: sample_loaded_eq sample_library_def new_case_library_def new_library_ok)

lemma sample_purged_store:
  "cl_store sample_purged = cl_store (sample_step (UncacheRun ''r2'') (sample_store both_cases))"
  using sample_loaded_store by (simp add: sample_purged_def purge_step_def)

theorem not_useful_not_shown_witness:
  "sample_case ''1'' ''r1'' \<in> set (fst (similar_cases sample_case_env ''diagnostic'' [] ''oom again'' 2 sample_purged))
   \<and> sample_case ''2'' ''r2'' \<in> set (fst (similar_cases sample_case_env ''diagnostic'' [] ''oom again'' 2 sample_loaded))
   \<and> dc_run_id (sample_case ''1'' ''r1'') \<noteq> ''r2''"
proof -
  have "sample_case ''1'' ''r1'' \<in> set (fst (similar_cases sample_case_env ''diagnostic'' [] ''oom again'' 2
      (sample_step (UncacheRun ''r2'') (sample_store both_cases))))" by code_simp
  then have shown: "sample_case ''1'' ''r1'' \<in> set (fst (similar_cases sample_case_env ''diagnostic'' [] ''oom again'' 2 sample_purged))"
    by (simp only: similar_cases_store [OF sample_purged_store])
  have "suppressed_run ''r2'' sample_purged"
    using suppressed.mark_known [OF sample_loaded_good] by (simp add: sample_purged_def purge_step_def)
  from not_useful_not_shown [OF sample_purge [unfolded sample_loaded_def sample_library_def] this _ shown]
  have "dc_run_id (sample_case ''1'' ''r1'') \<noteq> ''r2''" by simp
  moreover have "sample_case ''2'' ''r2'' \<in> set (fst (similar_cases sample_case_env ''diagnostic'' [] ''oom again'' 2 (sample_store both_cases)))"
    by code_simp
  ultimately show ?thesis using shown by (simp add: similar_cases_store [OF sample_loaded_store])
qed

text \<open>
  A purge that comes between the reads of the warm-up and its last operation: the run is suppressed and its row deleted, but
  the warm-up puts the case back into the cache, and nothing is left to remove it.
\<close>

definition raced :: "rat case_library" where
  "raced = (let s1 = sample_step (LoadSuppressed [sample_case ''2'' ''r2'']) sample_library;
                s2 = sample_step (DeleteRows ''r2'') (sample_step (UncacheRun ''r2'') (sample_step (SuppressRun ''r2'') s1)) in
     sample_step (ReplaceCases [\<lparr>ve_item = sample_case ''2'' ''r2'', ve_vector = [], ve_key = []\<rparr>]) s2)"

lemma raced_eq:
  "raced = sample_step (ReplaceCases [\<lparr>ve_item = sample_case ''2'' ''r2'', ve_vector = [], ve_key = []\<rparr>])
     (sample_step (DeleteRows ''r2'') (sample_step (UncacheRun ''r2'') (sample_step (SuppressRun ''r2'') sample_library)))"
proof -
  have "sample_step (LoadSuppressed [sample_case ''2'' ''r2'']) sample_library = sample_library" by (simp add: sample_load_step)
  then show ?thesis by (simp add: raced_def del: case_task_step.simps)
qed

lemma warmup_restores_purged_case:
  "snd (case_task_step sample_case_env None (LoadSuppressed [sample_case ''2'' ''r2'']) sample_library)
     = [ReplaceCases [\<lparr>ve_item = sample_case ''2'' ''r2'', ve_vector = [], ve_key = []\<rparr>]]"
  "suppressed_run ''r2'' raced"
  "fst (similar_cases sample_case_env ''diagnostic'' [] ''oom again'' 2 raced) = [sample_case ''2'' ''r2'']"
proof -
  show "snd (case_task_step sample_case_env None (LoadSuppressed [sample_case ''2'' ''r2'']) sample_library)
     = [ReplaceCases [\<lparr>ve_item = sample_case ''2'' ''r2'', ve_vector = [], ve_key = []\<rparr>]]"
    by (simp add: sample_load_step)
  have "string_ring_ok (cl_suppressed sample_library)" by (simp add: sample_library_def new_case_library_def new_library_ok)
  then show "suppressed_run ''r2'' raced"
    using suppressed.mark_known by (simp add: raced_eq purge_step_def load_step_def)
  have store: "cl_store raced = cl_store (sample_step (ReplaceCases [\<lparr>ve_item = sample_case ''2'' ''r2'', ve_vector = [], ve_key = []\<rparr>])
      (sample_step (UncacheRun ''r2'') (sample_store [])))"
    by (simp add: raced_eq purge_step_def load_step_def sample_store_def sample_library_def new_case_library_def
        cache_replace_def new_diagnosis_case_store_def new_bounded_cache_def)
  moreover have "fst (similar_cases sample_case_env ''diagnostic'' [] ''oom again'' 2
      (sample_step (ReplaceCases [\<lparr>ve_item = sample_case ''2'' ''r2'', ve_vector = [], ve_key = []\<rparr>])
        (sample_step (UncacheRun ''r2'') (sample_store [])))) = [sample_case ''2'' ''r2'']" by code_simp
  ultimately show "fst (similar_cases sample_case_env ''diagnostic'' [] ''oom again'' 2 raced) = [sample_case ''2'' ''r2'']"
    by (simp only: similar_cases_store [OF store])
qed

section \<open>The tasks come to an end\<close>

text \<open>How many steps a task and what it starts still need.\<close>

fun task_steps :: "'v case_task \<Rightarrow> nat" where
  "task_steps (CheckCase c v) = 7"
| "task_steps (AddCase c v) = 6"
| "task_steps (CreateRow c) = 5"
| "task_steps (RecheckCase r) = 4"
| "task_steps (SuppressRun r) = 3"
| "task_steps (UncacheRun r) = 2"
| "task_steps (DeleteRows r) = 1"
| "task_steps LoadCases = 3"
| "task_steps (LoadSuppressed items) = 2"
| "task_steps (ReplaceCases es) = 1"

lemma task_step_progress:
  "case_task_step env f t s = (s', nxt) \<Longrightarrow> sum_list (map task_steps nxt) < task_steps t"
  by (cases t) (auto simp: task_simps load_step_def purge_diagnosis_case_def Let_def split: if_splits sum.splits prod.splits)

section \<open>Feedback is given by the owner, once\<close>

lemma feedback_by_owner:
  assumes "submit_run_feedback env repo invalid f runs newID now user runID req s = (Inr fb, s', nxt)"
  shows "\<exists>run. get_run (f 0) (trim_space runID) runs = Inr run \<and> ar_user_id run = trim_space user \<and> trim_space user \<noteq> []
    \<and> rf_run_id fb = trim_space runID \<and> gm_get (cl_feedback s') newID = Some fb
    \<and> \<not> (\<exists>r \<in> snd ` set (cl_feedback s). rf_run_id r = rf_run_id fb)
    \<and> (library_on env \<and> \<not> rf_useful fb \<longrightarrow> nxt = [SuppressRun (trim_space runID)])"
  using assms
  by (auto simp: submit_run_feedback_def create_run_feedback_def agent_normalize_user_id_def purge_diagnosis_case_def Let_def
      split: if_splits sum.splits option.splits)

end
