(* ===== verification/Route_Learning.thy ===== *)
theory Route_Learning
  imports Case_Library
begin

text \<open>
  What the router learns from users that choose an agent themselves (\<^verbatim>\<open>core/route_feedback.go\<close>, the rows of feedback in
  \<^verbatim>\<open>postgres/agent_repository.go\<close> and \<^verbatim>\<open>DeleteRouteFeedback\<close>): samples in a cache and a table, shown to the
  model as examples, and the corrections \<open>recompute_route_calibration\<close> computes from them.
\<close>

abbreviation "MAX_ROUTE_EXAMPLE_MESSAGE_CHARS \<equiv> 80 :: nat"
abbreviation "MAX_ROUTE_FEEDBACK_MESSAGE_CHARS \<equiv> 512 :: nat"
abbreviation "MAX_ROUTE_FEEDBACK_QUERY_LIMIT \<equiv> 2000 :: int"
abbreviation "DEFAULT_ROUTE_CACHE_SIZE \<equiv> 256 :: int"

definition feedback_dedup_key :: "route_feedback \<Rightarrow> string" where
  "feedback_dedup_key fb = (let message = to_lower (squeeze (fb_message fb)) in
     if message = [] then [] else message @ ''|'' @ fb_selected_type fb)"

definition new_route_feedback_store :: "(route_feedback, 'v) vec_entry \<Rightarrow> int \<Rightarrow> (route_feedback, 'v) bounded_cache" where
  "new_route_feedback_store z capacity = new_bounded_cache z capacity (Some feedback_dedup_key) (Some fb_id)"

record 'v route_learning =
  le_store :: "(route_feedback, 'v) bounded_cache"
  le_rows :: "(string, route_feedback) gmap"
  le_calibration :: "(string, rat) gmap"

definition route_learning_enabled :: "bool \<Rightarrow> loop_config \<Rightarrow> bool" where
  "route_learning_enabled repo opts \<longleftrightarrow> repo \<and> (case lc_route_learning opts of None \<Rightarrow> True | Some b \<Rightarrow> b)"

definition route_cache_warmup_limit :: "loop_config \<Rightarrow> int" where
  "route_cache_warmup_limit opts = (if 0 < lc_route_cache_size opts then lc_route_cache_size opts else DEFAULT_ROUTE_CACHE_SIZE)"

definition refresh_calibration :: "bool \<Rightarrow> loop_config \<Rightarrow> 'v route_learning \<Rightarrow> 'v route_learning" where
  "refresh_calibration repo opts s = s\<lparr>le_calibration :=
     recompute_route_calibration (route_learning_enabled repo opts) (map ve_item (snapshot (le_store s)))\<rparr>"

section \<open>The table\<close>

text \<open>A value longer than its column, in characters, is an error of PostgreSQL; the other columns hold what they are given.\<close>

definition fits_varchar :: "nat \<Rightarrow> string \<Rightarrow> bool" where
  "fits_varchar n v \<longleftrightarrow> length (runes v) \<le> n"

definition create_route_feedback :: "go_error option \<Rightarrow> route_feedback \<Rightarrow> 'v route_learning \<Rightarrow> route_feedback go_result \<times> 'v route_learning" where
  "create_route_feedback f fb s = (case stmt f (if \<not> fits_varchar 512 (fb_message fb) then Inl (ErrMsg ''value too long for type character varying(512)'')
       else insert_row (fb_id fb) fb (le_rows s)) of
     Inl e \<Rightarrow> (Inl e, s) | Inr rows \<Rightarrow> (Inr fb, s\<lparr>le_rows := rows\<rparr>))"

definition list_recent_route_feedback :: "go_error option \<Rightarrow> int \<Rightarrow> 'v route_learning \<Rightarrow> route_feedback list go_result" where
  "list_recent_route_feedback f limit s =
    stmt f (Inr (take (query_limit MAX_ROUTE_FEEDBACK_QUERY_LIMIT limit) (sort_down fb_created_at (map snd (le_rows s)))))"

definition delete_route_feedback_row :: "go_error option \<Rightarrow> string \<Rightarrow> 'v route_learning \<Rightarrow> nat go_result \<times> 'v route_learning" where
  "delete_route_feedback_row f i s = (case f of
     Some e \<Rightarrow> (Inl e, s)
   | None \<Rightarrow> (Inr (rows_where (\<lambda>k fb. fb_id fb = i) (le_rows s)), s\<lparr>le_rows := delete_where (\<lambda>k fb. fb_id fb = i) (le_rows s)\<rparr>))"

section \<open>Warm-up, samples, deletion\<close>

definition load_route_feedback :: "('v, 's) case_env \<Rightarrow> bool \<Rightarrow> go_error option \<Rightarrow> 'v route_learning \<Rightarrow> 'v route_learning" where
  "load_route_feedback env repo f s =
    (if \<not> repo then s
     else case list_recent_route_feedback f (route_cache_warmup_limit (ce_opts env)) s of
       Inl e \<Rightarrow> s
     | Inr items \<Rightarrow> refresh_calibration repo (ce_opts env) (s\<lparr>le_store := cache_replace
         (warmup_vectors env (normalize_for_embedding \<circ> fb_message) (map (\<lambda>fb. \<lparr>ve_item = fb, ve_vector = [], ve_key = []\<rparr>) items))
         (le_store s)\<rparr>))"

text \<open>The sample of a choice: what the rules alone would have chosen goes with it.\<close>

definition route_sample :: "agent_registry \<Rightarrow> string \<Rightarrow> instant \<Rightarrow> string \<Rightarrow> route_request \<Rightarrow> string \<Rightarrow> route_feedback" where
  "route_sample reg newID now user req selected =
    (let cs = rank_candidates_base reg req; shadow_type = (if cs = [] then [] else cd_type (hd cs)) in
     \<lparr>fb_id = newID, fb_user_id = user, fb_message = truncate_runes (squeeze (rt_message req)) MAX_ROUTE_FEEDBACK_MESSAGE_CHARS,
       fb_routed_type = shadow_type, fb_routed_confidence = (if cs = [] then 0 else cd_confidence (hd cs)),
       fb_selected_type = selected, fb_matched = (shadow_type = selected), fb_created_at = now\<rparr>)"

text \<open>
  What happens at once, and the three operations of the goroutine: the vector (\<open>acquired\<close> is the slot of the background),
  the row, the corrections.
\<close>

definition record_route_feedback :: "route_feedback \<Rightarrow> 'v route_learning \<Rightarrow> 'v route_learning" where
  "record_route_feedback fb s = s\<lparr>le_store := cache_add fb [] (le_store s)\<rparr>"

definition fill_route_vector :: "('v, 's) case_env \<Rightarrow> bool \<Rightarrow> route_feedback \<Rightarrow> 'v route_learning \<Rightarrow> 'v route_learning" where
  "fill_route_vector env acquired fb s =
    (let v = (if acquired then embed_single env (fb_message fb) else []) in
     if v = [] then s else s\<lparr>le_store := update_vector (fb_id fb) v (le_store s)\<rparr>)"

definition persist_route_feedback ::
  "('v, 's) case_env \<Rightarrow> bool \<Rightarrow> bool \<Rightarrow> go_error option \<Rightarrow> route_feedback \<Rightarrow> 'v route_learning \<Rightarrow> 'v route_learning" where
  "persist_route_feedback env repo acquired f fb s =
    refresh_calibration repo (ce_opts env) (snd (create_route_feedback f fb (fill_route_vector env acquired fb s)))"

definition delete_route_feedback ::
  "loop_config \<Rightarrow> bool \<Rightarrow> go_error option \<Rightarrow> string \<Rightarrow> string \<Rightarrow> 'v route_learning \<Rightarrow> nat go_result \<times> 'v route_learning" where
  "delete_route_feedback opts repo f user feedbackID0 s = (case agent_normalize_user_id user of
     Inl e \<Rightarrow> (Inl e, s)
   | Inr u \<Rightarrow>
       if \<not> repo then (Inl (feature_unavailable ''route feedback management is not available''), s)
       else (let feedbackID = trim_space feedbackID0 in
         if feedbackID = [] then (Inl (bad_request ''route feedback id is required''), s)
         else (case delete_route_feedback_row f feedbackID s of
           (Inl e, s1) \<Rightarrow> (Inl e, s1)
         | (Inr n, s1) \<Rightarrow> (Inr n, refresh_calibration repo opts
             (s1\<lparr>le_store := snd (remove_matching (\<lambda>fb. fb_id fb = feedbackID) (le_store s1))\<rparr>)))))"

section \<open>Examples for the model\<close>

definition similar_route_feedback ::
  "('v, 's :: linorder) case_env \<Rightarrow> string \<Rightarrow> int \<Rightarrow> 'v route_learning \<Rightarrow> route_feedback list" where
  "similar_route_feedback env message limit s =
    (if limit \<le> 0 \<or> snapshot (le_store s) = [] then []
     else let v = (if trim_space message = [] then [] else embed_single env message);
              matched = top_k_by_vector (ce_score env) (ce_min_score env) (snapshot (le_store s)) v ve_vector limit in
       if v \<noteq> [] \<and> matched \<noteq> [] then map ve_item matched
       else map ve_item (take (nat limit) (snapshot (le_store s))))"

definition few_shot_example :: "route_feedback \<Rightarrow> string" where
  "few_shot_example fb = (let message = squeeze (fb_message fb); selected = trim_space (fb_selected_type fb) in
     if message = [] \<or> selected = [] then []
     else newline @ ''- '' @ truncate_runes message MAX_ROUTE_EXAMPLE_MESSAGE_CHARS @ arrow @ selected)"

definition route_few_shot_prompt_section :: "('v, 's :: linorder) case_env \<Rightarrow> string \<Rightarrow> 'v route_learning \<Rightarrow> string" where
  "route_few_shot_prompt_section env message s =
    (let body = concat (map few_shot_example (similar_route_feedback env message (lc_route_few_shot_limit (ce_opts env)) s)) in
     if body = [] then []
     else newline @ newline @ utf8 [0x5386, 0x53F2, 0x786E, 0x8BA4, 0x6837, 0x4F8B] @ ''('' @ utf8 [0x5747, 0x4E3A, 0x7528, 0x6237, 0x4EBA, 0x5DE5, 0x786E, 0x8BA4, 0x7684] @ '' '' @ utf8 [0x6D88, 0x606F, 0x2192] @ ''agent_type '' @ utf8 [0x5BF9, 0x5E94, 0x5173, 0x7CFB] @ '','' @ utf8 [0x4EC5, 0x4F9B, 0x53C2, 0x8003] @ ''):'' @ body)"

section \<open>Facts\<close>

text \<open>A deleted sample is in no cache and table, and the corrections are those of what is left.\<close>

lemma deleted_sample_forgotten:
  assumes "delete_route_feedback opts repo f user i s = (Inr n, s')" and "cache_wf (le_store s)"
  shows "fb \<in> cached_items (le_store s') \<Longrightarrow> fb \<in> cached_items (le_store s) \<and> fb_id fb \<noteq> trim_space i"
    and "fb \<in> snd ` set (le_rows s') \<Longrightarrow> fb_id fb \<noteq> trim_space i"
    and "le_calibration s' = recompute_route_calibration (route_learning_enabled repo opts) (map ve_item (snapshot (le_store s')))"
proof -
  from assms(1) have "f = None"
    and s': "s' = refresh_calibration repo opts (s\<lparr>le_rows := delete_where (\<lambda>k fb. fb_id fb = trim_space i) (le_rows s),
      le_store := snd (remove_matching (\<lambda>fb. fb_id fb = trim_space i) (le_store s))\<rparr>)"
    by (auto simp: delete_route_feedback_def delete_route_feedback_row_def agent_normalize_user_id_def Let_def split: if_splits option.splits)
  show "fb \<in> cached_items (le_store s') \<Longrightarrow> fb \<in> cached_items (le_store s) \<and> fb_id fb \<noteq> trim_space i"
    by (simp add: s' refresh_calibration_def case_cache.drop_exact [OF assms(2)])
  show "fb \<in> snd ` set (le_rows s') \<Longrightarrow> fb_id fb \<noteq> trim_space i"
    by (auto simp: s' refresh_calibration_def delete_where_def)
  show "le_calibration s' = recompute_route_calibration (route_learning_enabled repo opts) (map ve_item (snapshot (le_store s')))"
    by (simp add: s' refresh_calibration_def)
qed

text \<open>The examples are samples of the cache, at most as many as asked for.\<close>

lemma route_examples:
  "fb \<in> set (similar_route_feedback env message limit s) \<Longrightarrow> fb \<in> cached_items (le_store s)"
  "int (length (similar_route_feedback env message limit s)) \<le> max 0 limit"
  using top_k_length [of limit "ce_score env" "ce_min_score env" "snapshot (le_store s)" _ ve_vector]
  by (auto simp: similar_route_feedback_def cached_items_def Let_def dest: in_set_takeD dest!: top_k_members split: if_splits)

text \<open>The corrections stay within their bound whatever the samples are.\<close>

lemma route_corrections_bounded: "\<bar>route_calibration_for (le_calibration (refresh_calibration repo opts s)) t\<bar> \<le> ROUTE_CALIBRATION_MAX_DELTA"
proof -
  have "\<bar>clamp_delta v (15/100)\<bar> \<le> 15/100" for v by (auto simp: clamp_delta_def abs_if)
  then have "\<bar>d\<bar> \<le> 15/100" if "(t, d) \<in> set (recompute_route_calibration on xs)" for d on xs
    using that by (auto simp: recompute_route_calibration_def calibration_delta_def Let_def split: if_splits)
  then show ?thesis
    by (auto simp: refresh_calibration_def route_calibration_for_def split: option.splits dest!: map_of_SomeD)
qed

section \<open>Long messages\<close>

text \<open>The text of runes decodes to the same runes.\<close>

definition one_rune :: "string \<Rightarrow> bool" where
  "one_rune r \<longleftrightarrow> r \<noteq> [] \<and> (\<forall>t. enc_len (r @ t) = length r)"

lemma one_rune_head:
  assumes "enc_len s \<noteq> 0"
  shows "one_rune (take (enc_len s) s)"
proof -
  obtain a s1 where s: "s = a # s1" using assms by (cases s) auto
  show ?thesis
  proof (cases "byte_val a < 0x80")
    case True
    then show ?thesis by (simp add: s one_rune_def)
  next
    case False
    with assms s obtain b s2 where s1: "s1 = b # s2" by (cases s1) auto
    show ?thesis
    proof (cases "in_range 0xC2 0xDF a")
      case True
      with assms s s1 False show ?thesis by (auto simp: one_rune_def split: if_splits)
    next
      case not2: False
      with assms s s1 False obtain c s3 where s2: "s2 = c # s3" by (cases s2) auto
      show ?thesis
      proof (cases "in_range 0xE0 0xEF a")
        case True
        with assms s s1 s2 False not2 show ?thesis by (auto simp: one_rune_def numeral_3_eq_3 split: if_splits)
      next
        case not3: False
        with assms s s1 s2 False not2 obtain d s4 where s3: "s3 = d # s4" by (cases s3) auto
        with assms s s1 s2 False not2 not3 show ?thesis by (auto simp: one_rune_def eval_nat_numeral split: if_splits)
      qed
    qed
  qed
qed

lemma one_rune_error: "one_rune rune_error"
  by (simp add: one_rune_def rune_error_def in_range_def)

lemma runes_one_rune: "r \<in> set (runes s) \<Longrightarrow> one_rune r"
proof (induction s rule: runes.induct)
  case (1 s)
  then show ?case
    by (subst (asm) (3) runes.simps) (auto simp: one_rune_error one_rune_head split: if_splits)
qed

lemma runes_concat: "\<forall>r \<in> set rs. one_rune r \<Longrightarrow> runes (concat rs) = rs"
proof (induction rs)
  case (Cons r rs)
  then have "enc_len (r @ concat rs) = length r" "r \<noteq> []" by (auto simp: one_rune_def)
  then show ?case using Cons by (subst runes.simps) simp
qed simp

lemma length_truncate_runes:
  assumes "n < length (runes s)"
  shows "length (runes (truncate_runes s n)) = Suc n"
proof -
  have "one_rune ellipsis" by (simp add: one_rune_def ellipsis_def in_range_def)
  moreover have "one_rune r" if "r \<in> set (take n (runes s))" for r
    using that by (auto dest: in_set_takeD intro: runes_one_rune)
  ultimately have "\<forall>r \<in> set (take n (runes s) @ [ellipsis]). one_rune r" by auto
  from runes_concat [OF this] have "length (runes (concat (take n (runes s) @ [ellipsis]))) = Suc n"
    using assms by simp
  with assms show ?thesis by (simp add: truncate_runes_def)
qed

text \<open>
  The cut of a long message leaves 512 characters and the ellipsis, one more than the column holds: the sample of a long message
  is never stored.
\<close>

lemma long_message_not_stored:
  assumes "512 < length (runes (squeeze (rt_message req)))"
  shows "le_rows (persist_route_feedback env repo acquired f (route_sample reg newID now user req selected) s) = le_rows s"
proof -
  let ?fb = "route_sample reg newID now user req selected"
  have "\<not> fits_varchar 512 (fb_message ?fb)"
    using length_truncate_runes [OF assms] by (simp add: fits_varchar_def route_sample_def Let_def)
  then have "snd (create_route_feedback f ?fb s') = s'" for s' :: "'a route_learning"
    by (cases f) (simp_all add: create_route_feedback_def stmt_def)
  then show ?thesis by (simp add: persist_route_feedback_def refresh_calibration_def fill_route_vector_def Let_def)
qed

end
