(* ===== verification/Run_Insight.thy ===== *)
theory Run_Insight
  imports Route_Learning
begin

text \<open>
  What is measured of runs and shown to their managers (\<^verbatim>\<open>core/run_metrics.go\<close>, \<^verbatim>\<open>core/run_evaluation.go\<close>,
  \<^verbatim>\<open>core/management_query.go\<close>, \<^verbatim>\<open>postgres/run_metrics_repository.go\<close> and
  \<^verbatim>\<open>postgres/management_query_repository.go\<close>). \<^verbatim>\<open>ILIKE\<close> is PostgreSQL's operator, a parameter; the
  averages are rationals; a column of the metrics is never NULL. A day of a window in UTC is 24 hours.
\<close>

abbreviation "DEFAULT_EVALUATION_WINDOW_DAYS \<equiv> 30 :: int"
abbreviation "MAX_EVALUATION_WINDOW_DAYS \<equiv> 365 :: int"
abbreviation "DEFAULT_MANAGEMENT_QUERY_LIMIT \<equiv> 20 :: int"
abbreviation "MAX_MANAGEMENT_QUERY_LIMIT \<equiv> 200 :: int"

record run_metrics =
  rm_id :: string
  rm_run_id :: string
  rm_agent_type :: string
  rm_cluster_id :: string
  rm_step_count :: int
  rm_tool_call_count :: int
  rm_token_used :: int
  rm_extra_token_used :: int
  rm_token_estimated :: bool
  rm_reflection_count :: int
  rm_replan_count :: int
  rm_plan_generated :: bool
  rm_reflection_jurors :: int
  rm_playbook_matched :: bool
  rm_hypothesis_total :: int
  rm_hypothesis_resolved :: int
  rm_case_retrieval_mode :: string
  rm_case_hit_count :: int
  rm_duration_ms :: int
  rm_status :: string
  rm_created_at :: instant

record insight_tables =
  in_metrics :: "(string, run_metrics) gmap"
  in_feedback :: "(string, run_feedback) gmap"
  in_runs :: run_tables

section \<open>The metrics of a run\<close>

definition measured_run :: "string \<Rightarrow> instant \<Rightarrow> agent_run \<Rightarrow> run_stats \<Rightarrow> run_metrics" where
  "measured_run newID now run st =
    \<lparr>rm_id = newID, rm_run_id = ar_id run, rm_agent_type = ar_agent_type run, rm_cluster_id = ar_cluster_id run,
     rm_step_count = int (st_step_count st), rm_tool_call_count = int (st_tool_calls st), rm_token_used = st_token_used st,
     rm_extra_token_used = st_extra_tokens st, rm_token_estimated = st_token_estimated st, rm_reflection_count = st_reflections st,
     rm_replan_count = st_replans st, rm_plan_generated = st_plan_generated st, rm_reflection_jurors = int (st_jurors st),
     rm_playbook_matched = st_playbook_matched st, rm_hypothesis_total = int (st_hypothesis_total st),
     rm_hypothesis_resolved = int (st_hypothesis_resolved st),
     rm_case_retrieval_mode = (if st_case_mode st = [] then CASE_RETRIEVAL_NONE else st_case_mode st),
     rm_case_hit_count = int (st_case_hits st),
     rm_duration_ms = (case ar_completed_at run of None \<Rightarrow> 0
       | Some t \<Rightarrow> (let ms = (t - ar_created_at run) div millisecond in if ms < 0 then 0 else ms)),
     rm_status = ar_status run, rm_created_at = now\<rparr>"

definition create_run_metrics :: "go_error option \<Rightarrow> run_metrics \<Rightarrow> insight_tables \<Rightarrow> go_error option \<times> insight_tables" where
  "create_run_metrics f m t = (case stmt f (insert_row (rm_id m) m (in_metrics t)) of
     Inl e \<Rightarrow> (Some e, t) | Inr rows \<Rightarrow> (None, t\<lparr>in_metrics := rows\<rparr>))"

text \<open>\<open>repo\<close> is whether the repository keeps metrics.\<close>

definition record_run_metrics :: "bool \<Rightarrow> go_error option \<Rightarrow> string \<Rightarrow> instant \<Rightarrow> agent_run \<Rightarrow> run_stats \<Rightarrow> insight_tables \<Rightarrow> insight_tables" where
  "record_run_metrics repo f newID now run st t =
    (if \<not> repo then t else snd (create_run_metrics f (measured_run newID now run st) t))"

section \<open>The evaluation\<close>

record feature_bucket =
  bk_run_count :: int
  bk_feedback_count :: int
  bk_useful_count :: int
  bk_avg_steps :: rat
  bk_avg_tool_calls :: rat
  bk_avg_tokens :: rat
  bk_avg_duration :: rat

record evaluation =
  ev_window_days :: int
  ev_since :: instant
  ev_overall :: feature_bucket
  ev_planning :: "feature_bucket \<times> feature_bucket"
  ev_reflection :: "feature_bucket \<times> feature_bucket"
  ev_replan :: "feature_bucket \<times> feature_bucket"
  ev_semantic :: "feature_bucket \<times> feature_bucket"
  ev_case_hit :: "feature_bucket \<times> feature_bucket"

type_synonym joined_row = "run_metrics \<times> run_feedback option"

text \<open>The rows of the LEFT JOIN.\<close>

definition joined :: "run_feedback list \<Rightarrow> run_metrics \<Rightarrow> joined_row list" where
  "joined fbs m = (let own = filter (\<lambda>r. rf_run_id r = rm_run_id m) fbs in
     if own = [] then [(m, None)] else map (\<lambda>r. (m, Some r)) own)"

definition average :: "(joined_row \<Rightarrow> int) \<Rightarrow> joined_row list \<Rightarrow> rat" where
  "average g rows = (if rows = [] then 0 else of_int (sum_list (map g rows)) / of_nat (length rows))"

definition to_feature_bucket :: "joined_row list \<Rightarrow> feature_bucket" where
  "to_feature_bucket rows =
    \<lparr>bk_run_count = int (length rows), bk_feedback_count = int (length (filter (\<lambda>(m, r). r \<noteq> None) rows)),
     bk_useful_count = int (length (filter (\<lambda>(m, r). case r of None \<Rightarrow> False | Some r \<Rightarrow> rf_useful r) rows)),
     bk_avg_steps = average (rm_step_count \<circ> fst) rows, bk_avg_tool_calls = average (rm_tool_call_count \<circ> fst) rows,
     bk_avg_tokens = average (\<lambda>(m, r). rm_token_used m + rm_extra_token_used m) rows,
     bk_avg_duration = average (rm_duration_ms \<circ> fst) rows\<rparr>"

definition in_window :: "instant \<Rightarrow> string \<Rightarrow> string \<Rightarrow> run_metrics \<Rightarrow> bool" where
  "in_window since agentType cluster m \<longleftrightarrow> since \<le> rm_created_at m \<and> rm_status m = RUN_STATUS_COMPLETED
     \<and> (trim_space agentType = [] \<or> rm_agent_type m = trim_space agentType)
     \<and> (trim_space cluster = [] \<or> rm_cluster_id m = trim_space cluster)"

definition aggregate_run_metrics ::
  "go_error option \<Rightarrow> instant \<Rightarrow> string \<Rightarrow> string \<Rightarrow> insight_tables \<Rightarrow> evaluation go_result" where
  "aggregate_run_metrics f since agentType cluster t =
    (let rows = concat (map (joined (map snd (in_feedback t))) (filter (in_window since agentType cluster) (map snd (in_metrics t))));
         bucket = (\<lambda>P. to_feature_bucket (filter (P \<circ> fst) rows))
     in stmt f (Inr \<lparr>ev_window_days = 0, ev_since = since, ev_overall = bucket (\<lambda>m. True),
       ev_planning = (bucket rm_plan_generated, bucket (\<lambda>m. \<not> rm_plan_generated m)),
       ev_reflection = (bucket (\<lambda>m. 0 < rm_reflection_count m), bucket (\<lambda>m. rm_reflection_count m = 0)),
       ev_replan = (bucket (\<lambda>m. 0 < rm_replan_count m), bucket (\<lambda>m. rm_replan_count m = 0)),
       ev_semantic = (bucket (\<lambda>m. rm_case_retrieval_mode m = CASE_RETRIEVAL_SEMANTIC),
         bucket (\<lambda>m. rm_case_retrieval_mode m \<noteq> CASE_RETRIEVAL_SEMANTIC)),
       ev_case_hit = (bucket (\<lambda>m. 0 < rm_case_hit_count m), bucket (\<lambda>m. rm_case_hit_count m = 0))\<rparr>))"

definition normalize_evaluation_window :: "int \<Rightarrow> int" where
  "normalize_evaluation_window days =
    (if days \<le> 0 then DEFAULT_EVALUATION_WINDOW_DAYS else if MAX_EVALUATION_WINDOW_DAYS < days then MAX_EVALUATION_WINDOW_DAYS else days)"

definition evaluate_runs ::
  "bool \<Rightarrow> bool \<Rightarrow> go_error option \<Rightarrow> instant \<Rightarrow> string \<Rightarrow> int \<Rightarrow> string \<Rightarrow> string \<Rightarrow> insight_tables \<Rightarrow> evaluation go_result" where
  "evaluate_runs repo metricsRepo f now user days0 agentType cluster t =
    (if \<not> repo then Inl repository_unavailable
     else case agent_normalize_user_id user of
       Inl e \<Rightarrow> Inl e
     | Inr u \<Rightarrow>
         if \<not> metricsRepo then Inl (feature_unavailable ''run metrics evaluation is not available'')
         else (let days = normalize_evaluation_window days0; since = now - days * (24 * hour) in
           case aggregate_run_metrics f since (trim_space agentType) (trim_space cluster) t of
             Inl e \<Rightarrow> Inl e
           | Inr ev \<Rightarrow> Inr (ev\<lparr>ev_window_days := days, ev_since := since\<rparr>)))"

section \<open>Queries\<close>

definition since_from_days :: "instant \<Rightarrow> int \<Rightarrow> instant option" where
  "since_from_days now days = (if days \<le> 0 then None else Some (now - normalize_evaluation_window days * (24 * hour)))"

definition normalize_management_query_limit :: "int \<Rightarrow> int" where
  "normalize_management_query_limit n =
    (if n \<le> 0 then DEFAULT_MANAGEMENT_QUERY_LIMIT else if MAX_MANAGEMENT_QUERY_LIMIT < n then MAX_MANAGEMENT_QUERY_LIMIT else n)"

definition normalize_query_offset :: "int \<Rightarrow> int" where
  "normalize_query_offset n = (if n < 0 then 0 else n)"

text \<open>A count and a page, two statements: the newest first, from an offset on.\<close>

definition page_of :: "('r \<Rightarrow> instant) \<Rightarrow> int \<Rightarrow> int \<Rightarrow> 'r list \<Rightarrow> 'r list" where
  "page_of created limit off rows =
    take (nat (normalize_management_query_limit limit)) (drop (nat (normalize_query_offset off)) (sort_down created rows))"

definition counted_page :: "(nat \<Rightarrow> go_error option) \<Rightarrow> ('r \<Rightarrow> instant) \<Rightarrow> int \<Rightarrow> int \<Rightarrow> 'r list \<Rightarrow> ('r list \<times> nat) go_result" where
  "counted_page f created limit off rows =
    after_stmt (stmt (f 0) (Inr (length rows))) (\<lambda>total. stmt (f 1) (Inr (page_of created limit off rows, total)))"

record run_list_request =
  rq_keyword :: string
  rq_agent_type :: string
  rq_cluster_id :: string
  rq_status :: string
  rq_user_id :: string
  rq_days :: int
  rq_limit :: int
  rq_offset :: int

definition matches_any :: "(string \<Rightarrow> string \<Rightarrow> bool) \<Rightarrow> string \<Rightarrow> string list \<Rightarrow> bool" where
  "matches_any ilike keyword0 columns = (let keyword = trim_space keyword0 in
     keyword = [] \<or> (\<exists>c \<in> set columns. ilike c (''%'' @ keyword @ ''%'')))"

definition equals_filter :: "string \<Rightarrow> string \<Rightarrow> bool" where
  "equals_filter v0 column = (let v = trim_space v0 in v = [] \<or> column = v)"

definition apply_run_query_filter :: "(string \<Rightarrow> string \<Rightarrow> bool) \<Rightarrow> instant \<Rightarrow> run_list_request \<Rightarrow> agent_run \<Rightarrow> bool" where
  "apply_run_query_filter ilike now q r \<longleftrightarrow>
     equals_filter (rq_agent_type q) (ar_agent_type r) \<and> equals_filter (rq_cluster_id q) (ar_cluster_id r)
     \<and> equals_filter (rq_status q) (ar_status r) \<and> equals_filter (rq_user_id q) (ar_user_id r)
     \<and> (case since_from_days now (rq_days q) of None \<Rightarrow> True | Some t \<Rightarrow> t \<le> ar_created_at r)
     \<and> matches_any ilike (rq_keyword q) [ar_id r, ar_user_id r, ar_cluster_id r, ar_input r, ar_summary r, ar_error_message r]"

definition repo_list_runs ::
  "(nat \<Rightarrow> go_error option) \<Rightarrow> (string \<Rightarrow> string \<Rightarrow> bool) \<Rightarrow> instant \<Rightarrow> run_list_request \<Rightarrow> insight_tables \<Rightarrow> (agent_run list \<times> nat) go_result" where
  "repo_list_runs f ilike now q t =
    counted_page f ar_created_at (rq_limit q) (rq_offset q) (filter (apply_run_query_filter ilike now q) (map snd (rt_runs (in_runs t))))"

text \<open>The checks all the queries begin with.\<close>

definition managed :: "string \<Rightarrow> bool \<Rightarrow> string \<Rightarrow> 'a go_result \<Rightarrow> 'a go_result" where
  "managed user repo message r = (case agent_normalize_user_id user of
     Inl e \<Rightarrow> Inl e
   | Inr u \<Rightarrow> if \<not> repo then Inl (feature_unavailable message) else r)"

definition list_runs ::
  "bool \<Rightarrow> (nat \<Rightarrow> go_error option) \<Rightarrow> (string \<Rightarrow> string \<Rightarrow> bool) \<Rightarrow> instant \<Rightarrow> string \<Rightarrow> run_list_request \<Rightarrow> insight_tables
    \<Rightarrow> (agent_run list \<times> nat) go_result" where
  "list_runs repo f ilike now user q t = managed user repo ''agent run query is not available'' (repo_list_runs f ilike now q t)"

definition case_filter :: "(string \<Rightarrow> string \<Rightarrow> bool) \<Rightarrow> (string list \<Rightarrow> string) \<Rightarrow> run_list_request \<Rightarrow> diagnosis_case \<Rightarrow> bool" where
  "case_filter ilike tags_text q c \<longleftrightarrow>
     equals_filter (rq_agent_type q) (dc_agent_type c) \<and> equals_filter (rq_cluster_id q) (dc_cluster_id c)
     \<and> matches_any ilike (rq_keyword q) [dc_id c, dc_run_id c, dc_question c, dc_symptom c, dc_root_cause c, tags_text (dc_tags c)]"

text \<open>\<open>tags_text\<close> is the text of the column of tags.\<close>

definition repo_list_diagnosis_cases ::
  "(nat \<Rightarrow> go_error option) \<Rightarrow> (string \<Rightarrow> string \<Rightarrow> bool) \<Rightarrow> (string list \<Rightarrow> string) \<Rightarrow> run_list_request \<Rightarrow> (string, diagnosis_case) gmap
    \<Rightarrow> (diagnosis_case list \<times> nat) go_result" where
  "repo_list_diagnosis_cases f ilike tags_text q rows =
    counted_page f dc_created_at (rq_limit q) (rq_offset q) (filter (case_filter ilike tags_text q) (map snd rows))"

definition list_diagnosis_cases ::
  "bool \<Rightarrow> (nat \<Rightarrow> go_error option) \<Rightarrow> (string \<Rightarrow> string \<Rightarrow> bool) \<Rightarrow> (string list \<Rightarrow> string) \<Rightarrow> string \<Rightarrow> run_list_request
    \<Rightarrow> (string, diagnosis_case) gmap \<Rightarrow> (diagnosis_case list \<times> nat) go_result" where
  "list_diagnosis_cases repo f ilike tags_text user q rows =
    managed user repo ''diagnosis case query is not available'' (repo_list_diagnosis_cases f ilike tags_text q rows)"

record feedback_list_request =
  fq_keyword :: string
  fq_selected :: string
  fq_matched :: "bool option"
  fq_limit :: int
  fq_offset :: int

definition repo_list_route_feedback ::
  "(nat \<Rightarrow> go_error option) \<Rightarrow> (string \<Rightarrow> string \<Rightarrow> bool) \<Rightarrow> feedback_list_request \<Rightarrow> (string, route_feedback) gmap
    \<Rightarrow> (route_feedback list \<times> nat) go_result" where
  "repo_list_route_feedback f ilike q rows =
    counted_page f fb_created_at (fq_limit q) (fq_offset q)
      (filter (\<lambda>fb. equals_filter (fq_selected q) (fb_selected_type fb)
        \<and> (case fq_matched q of None \<Rightarrow> True | Some b \<Rightarrow> fb_matched fb = b)
        \<and> matches_any ilike (fq_keyword q) [fb_id fb, fb_user_id fb, fb_message fb, fb_routed_type fb, fb_selected_type fb])
       (map snd rows))"

definition list_route_feedback ::
  "bool \<Rightarrow> (nat \<Rightarrow> go_error option) \<Rightarrow> (string \<Rightarrow> string \<Rightarrow> bool) \<Rightarrow> string \<Rightarrow> feedback_list_request \<Rightarrow> (string, route_feedback) gmap
    \<Rightarrow> (route_feedback list \<times> nat) go_result" where
  "list_route_feedback repo f ilike user q rows =
    managed user repo ''route feedback query is not available'' (repo_list_route_feedback f ilike q rows)"

section \<open>Samples and details\<close>

record sample_request =
  sq_days :: int
  sq_feature :: string
  sq_enabled :: "bool option"
  sq_agent_type :: string
  sq_cluster_id :: string
  sq_limit :: int
  sq_offset :: int

definition has_feature :: "string \<Rightarrow> bool \<Rightarrow> run_metrics \<Rightarrow> bool" where
  "has_feature feature0 enabled m = (let feature = trim_space feature0 in
     if feature = ''planning'' then rm_plan_generated m = enabled
     else if feature = ''reflection'' then (if enabled then 0 < rm_reflection_count m else rm_reflection_count m = 0)
     else if feature = ''replan'' then (if enabled then 0 < rm_replan_count m else rm_replan_count m = 0)
     else if feature = ''semantic_retrieval'' then (rm_case_retrieval_mode m = CASE_RETRIEVAL_SEMANTIC) = enabled
     else if feature = ''case_hit'' then (if enabled then 0 < rm_case_hit_count m else rm_case_hit_count m = 0)
     else True)"

definition apply_run_metrics_sample_filter :: "instant \<Rightarrow> sample_request \<Rightarrow> run_metrics \<Rightarrow> bool" where
  "apply_run_metrics_sample_filter now q m \<longleftrightarrow>
     (case since_from_days now (sq_days q) of None \<Rightarrow> True | Some t \<Rightarrow> t \<le> rm_created_at m)
     \<and> equals_filter (sq_agent_type q) (rm_agent_type m) \<and> equals_filter (sq_cluster_id q) (rm_cluster_id m)
     \<and> (case sq_enabled q of None \<Rightarrow> True | Some b \<Rightarrow> has_feature (sq_feature q) b m)"

text \<open>Maps from the ID of a run to the row the query gave last.\<close>

definition by_run :: "('r \<Rightarrow> string) \<Rightarrow> 'r list \<Rightarrow> (string, 'r) gmap" where
  "by_run key rows = fold (\<lambda>r m. gm_put (key r) r m) rows []"

definition list_runs_by_ids :: "go_error option \<Rightarrow> string list \<Rightarrow> insight_tables \<Rightarrow> (string, agent_run) gmap go_result" where
  "list_runs_by_ids f ids t = (if ids = [] then Inr []
     else stmt f (Inr (by_run ar_id (filter (\<lambda>r. ar_id r \<in> set ids) (map snd (rt_runs (in_runs t)))))))"

definition list_run_feedback_by_run_ids :: "go_error option \<Rightarrow> string list \<Rightarrow> insight_tables \<Rightarrow> (string, run_feedback) gmap go_result" where
  "list_run_feedback_by_run_ids f ids t = (if ids = [] then Inr []
     else stmt f (Inr (by_run rf_run_id (filter (\<lambda>r. rf_run_id r \<in> set ids) (map snd (in_feedback t))))))"

definition get_run_metrics_by_run_ids :: "go_error option \<Rightarrow> string list \<Rightarrow> insight_tables \<Rightarrow> (string, run_metrics) gmap go_result" where
  "get_run_metrics_by_run_ids f ids t = (if ids = [] then Inr []
     else stmt f (Inr (by_run rm_run_id (filter (\<lambda>m. rm_run_id m \<in> set ids) (map snd (in_metrics t))))))"

type_synonym metrics_sample = "agent_run \<times> run_metrics \<times> run_feedback option"

definition repo_list_run_metrics_samples ::
  "(nat \<Rightarrow> go_error option) \<Rightarrow> instant \<Rightarrow> sample_request \<Rightarrow> insight_tables \<Rightarrow> (metrics_sample list \<times> nat) go_result" where
  "repo_list_run_metrics_samples f now q t =
    after_stmt (counted_page f rm_created_at (sq_limit q) (sq_offset q)
      (filter (\<lambda>m. rm_status m = RUN_STATUS_COMPLETED \<and> apply_run_metrics_sample_filter now q m) (map snd (in_metrics t))))
    (\<lambda>(ms, total). (let ids = filter (\<lambda>i. i \<noteq> []) (map rm_run_id ms) in
       after_stmt (list_runs_by_ids (f 2) ids t) (\<lambda>runs.
       after_stmt (list_run_feedback_by_run_ids (f 3) ids t) (\<lambda>fbs.
         Inr (somes (map (\<lambda>m. map_option (\<lambda>r. (r, m, gm_get fbs (rm_run_id m))) (gm_get runs (rm_run_id m))) ms), total)))))"

definition list_run_metrics_samples ::
  "bool \<Rightarrow> (nat \<Rightarrow> go_error option) \<Rightarrow> instant \<Rightarrow> string \<Rightarrow> sample_request \<Rightarrow> insight_tables \<Rightarrow> (metrics_sample list \<times> nat) go_result" where
  "list_run_metrics_samples repo f now user q t =
    managed user repo ''run metrics sample query is not available'' (repo_list_run_metrics_samples f now q t)"

record run_detail =
  rd_run :: agent_run
  rd_calls :: "tool_call_row list"
  rd_evidence :: "evidence_row list"
  rd_feedback :: "run_feedback option"
  rd_metrics :: "run_metrics option"

definition get_run_detail ::
  "bool \<Rightarrow> bool \<Rightarrow> bool \<Rightarrow> (nat \<Rightarrow> go_error option) \<Rightarrow> string \<Rightarrow> string \<Rightarrow> insight_tables \<Rightarrow> run_detail go_result" where
  "get_run_detail repo feedbackRepo queryRepo f user runID0 t = (case agent_normalize_user_id user of
     Inl e \<Rightarrow> Inl e
   | Inr u \<Rightarrow>
       if \<not> repo then Inl repository_unavailable
       else (let runID = trim_space runID0 in
         if runID = [] then Inl (bad_request ''run id is required'')
         else (case get_run (f 0) runID (in_runs t) of
           Inl e \<Rightarrow> Inl (not_found e ''agent run not found'')
         | Inr run \<Rightarrow>
             after_stmt (list_tool_calls (f 1) runID (in_runs t)) (\<lambda>calls.
             after_stmt (list_evidence (f 2) runID (in_runs t)) (\<lambda>evs.
             after_stmt (if feedbackRepo then list_run_feedback_by_run_ids (f 3) [runID] t else Inr []) (\<lambda>fbs.
             after_stmt (if queryRepo then get_run_metrics_by_run_ids (f 4) [runID] t else Inr []) (\<lambda>ms.
               Inr \<lparr>rd_run = run, rd_calls = calls, rd_evidence = evs, rd_feedback = gm_get fbs runID, rd_metrics = gm_get ms runID\<rparr>)))))))"

section \<open>Facts\<close>

lemma page_of_bounded: "length (page_of created limit off rows) \<le> 200"
  by (auto simp: page_of_def normalize_management_query_limit_def)

lemma page_of_members: "set (page_of created limit off rows) \<subseteq> set rows"
  by (auto simp: page_of_def dest!: in_set_takeD in_set_dropD)

text \<open>Pages of one length, one after the other, are the whole list.\<close>

lemma chunks_cover:
  assumes "0 < n" and "length xs \<le> k * n"
  shows "concat (map (\<lambda>i. take n (drop (i * n) xs)) [0..<k]) = xs"
proof -
  have "concat (map (\<lambda>i. take n (drop (i * n) xs)) [0..<k]) = take (k * n) xs"
  proof (induction k)
    case (Suc k)
    then show ?case using take_add [of "k * n" n xs] by (simp add: add.commute)
  qed simp
  with assms(2) show ?thesis by simp
qed

lemma pages_cover:
  assumes "0 < limit" and "limit \<le> 200" and "length rows \<le> k * nat limit"
  shows "concat (map (\<lambda>i. page_of created limit (int i * limit) rows) [0..<k]) = sort_down created rows"
proof -
  have "page_of created limit (int i * limit) rows = take (nat limit) (drop (i * nat limit) (sort_down created rows))" for i
    using assms(1,2) mult_less_0_iff [of "int i" limit]
    by (auto simp: page_of_def normalize_management_query_limit_def normalize_query_offset_def nat_mult_distrib)
  then show ?thesis using chunks_cover [of "nat limit" "sort_down created rows" k] assms by simp
qed








definition one_feedback_per_run :: "(string, run_feedback) gmap \<Rightarrow> bool" where
  "one_feedback_per_run t \<longleftrightarrow> distinct (map (rf_run_id \<circ> snd) t)"







text \<open>The unique index keeps it at one feedback per run.\<close>

lemma feedback_stays_unique:
  assumes "one_feedback_per_run (cl_feedback s)" and "gm_ok (cl_feedback s)"
  shows "one_feedback_per_run (cl_feedback (snd (create_run_feedback f fb s)))"
proof (cases "f = None \<and> \<not> (\<exists>r \<in> snd ` set (cl_feedback s). rf_run_id r = rf_run_id fb) \<and> gm_get (cl_feedback s) (rf_id fb) = None")
  case False
  then have "snd (create_run_feedback f fb s) = s"
    by (cases f) (auto simp: create_run_feedback_def insert_row_def stmt_def)
  with assms show ?thesis by simp
next
  case True
  then have i: "insert_row (rf_id fb) fb (cl_feedback s) = Inr (gm_put (rf_id fb) fb (cl_feedback s))" by simp
  have put: "gm_get m k = None \<Longrightarrow> gm_put k v m = m @ [(k, v)]" for m :: "(string, run_feedback) gmap" and k v
    unfolding gm_put_def by (induction m) (auto split: if_splits)
  from True have "cl_feedback (snd (create_run_feedback f fb s)) = cl_feedback s @ [(rf_id fb, fb)]"
    by (simp add: create_run_feedback_def i put)
  with True assms(1) show ?thesis by (force simp: one_feedback_per_run_def)
qed

end
