(* ===== verification/Secrets.thy ===== *)
theory Secrets
  imports Go_Errors Go_Json Dedup_Key
begin

text \<open>
  The encryption of secrets at rest (\<^verbatim>\<open>platform/secrets/encryptor.go\<close>): the encryptor that does nothing, and
  AES-GCM, whose result is kept as a prefix and the hex text of nonce and ciphertext. The cipher and the source of random bytes
  are parameters; that what was sealed opens again with the same nonce is the law \<open>aead_ok\<close> asks of the cipher. An encryptor is not
  nil.
\<close>

section \<open>Hexadecimal text\<close>

definition hex_encode :: "string \<Rightarrow> string" where
  "hex_encode s = concat (map (\<lambda>c. [hex_digit (byte_val c div 16), hex_digit (byte_val c mod 16)]) s)"

fun hex_decode :: "string \<Rightarrow> string go_result" where
  "hex_decode (a # b # s) = (case (hex_val a, hex_val b) of
     (Some x, Some y) \<Rightarrow> (case hex_decode s of Inr t \<Rightarrow> Inr (char_of (16 * x + y) # t) | Inl e \<Rightarrow> Inl e)
   | _ \<Rightarrow> Inl (ErrMsg ''encoding/hex: invalid byte''))"
| "hex_decode [a] = Inl (ErrMsg (if hex_val a = None then ''encoding/hex: invalid byte'' else ''encoding/hex: odd length hex string''))"
| "hex_decode [] = Inr []"

lemma hex_val_digit: "n < 16 \<Longrightarrow> hex_val (hex_digit n) = Some n"
  by (auto simp: hex_val_def hex_digit_def is_digit_def in_range_def)

lemma hex_decode_encode: "hex_decode (hex_encode s) = Inr s"
proof (induction s)
  case (Cons c s)
  have "byte_val c < 256" using mod_less_divisor [of 256 "byte_val c"] by (simp del: mod_less_divisor)
  then have "byte_val c div 16 < 16" by (simp add: less_mult_imp_div_less)
  with Cons show ?case by (simp add: hex_encode_def hex_val_digit)
qed (simp add: hex_encode_def)

lemma length_hex_encode: "length (hex_encode s) = 2 * length s"
  by (induction s) (simp_all add: hex_encode_def)

section \<open>The interface\<close>

text \<open>An encryptor gives back what it was given; \<open>n\<close> is the state of the source of random bytes.\<close>

locale secret_box =
  fixes encrypt :: "'n \<Rightarrow> string \<Rightarrow> string go_result"
    and decrypt :: "string \<Rightarrow> string go_result"
  assumes decrypt_encrypt: "encrypt n v = Inr c \<Longrightarrow> decrypt c = Inr v"
begin

lemma one_secret: "encrypt n v = Inr c \<Longrightarrow> encrypt m w = Inr c \<Longrightarrow> v = w"
  using decrypt_encrypt [of n v c] decrypt_encrypt [of m w c] by simp

lemma all_decrypted:
  "encrypt n v = Inr c \<Longrightarrow> P v \<Longrightarrow> decrypt c = Inr w \<Longrightarrow> P w"
  using decrypt_encrypt [of n v c] by simp

end

section \<open>The encryptors\<close>

definition noop_encrypt :: "'n \<Rightarrow> string \<Rightarrow> string go_result" where
  "noop_encrypt n v = Inr v"

definition noop_decrypt :: "string \<Rightarrow> string go_result" where
  "noop_decrypt v = Inr v"

interpretation noop: secret_box noop_encrypt noop_decrypt
  by unfold_locales (simp add: noop_encrypt_def noop_decrypt_def)

record aead =
  ad_nonce_size :: nat
  ad_seal :: "string \<Rightarrow> string \<Rightarrow> string"
  ad_open :: "string \<Rightarrow> string \<Rightarrow> string go_result"

text \<open>\<open>cipher\<close> is AES with GCM of a key.\<close>

definition new_aes_gcm_encryptor :: "(string \<Rightarrow> aead go_result) \<Rightarrow> string \<Rightarrow> aead go_result" where
  "new_aes_gcm_encryptor cipher hexKey = (case hex_decode hexKey of
     Inl e \<Rightarrow> Inl (ErrWrap ''decode encryption key: '' e)
   | Inr key \<Rightarrow>
       if length key \<noteq> 32 then Inl (ErrMsg (''invalid encryption key length: got '' @ itoa (int (length key)) @ '', want 32 bytes''))
       else (case cipher key of Inl e \<Rightarrow> Inl (ErrWrap ''create cipher: '' e) | Inr a \<Rightarrow> Inr a))"

definition cipher_prefix :: string where
  "cipher_prefix = ''enc:v1:''"

text \<open>\<open>nonce\<close> is what the source of random bytes gives.\<close>

definition aes_encrypt :: "aead \<Rightarrow> string go_result \<Rightarrow> string \<Rightarrow> string go_result" where
  "aes_encrypt a nonce v = (case nonce of
     Inl e \<Rightarrow> Inl (ErrWrap ''read nonce: '' e)
   | Inr n \<Rightarrow> Inr (cipher_prefix @ hex_encode (n @ ad_seal a n v)))"

definition aes_decrypt :: "aead \<Rightarrow> string \<Rightarrow> string go_result" where
  "aes_decrypt a v =
    (if v = [] then Inr []
     else if \<not> prefix cipher_prefix v then Inr v
     else case hex_decode (trim_prefix cipher_prefix v) of
       Inl e \<Rightarrow> Inl (ErrWrap ''decode ciphertext: '' e)
     | Inr c \<Rightarrow>
         if length c < ad_nonce_size a then Inl (ErrMsg ''ciphertext too short'')
         else (case ad_open a (take (ad_nonce_size a) c) (drop (ad_nonce_size a) c) of
           Inl e \<Rightarrow> Inl (ErrWrap ''decrypt ciphertext: '' e)
         | Inr p \<Rightarrow> Inr p))"

text \<open>What GCM promises, and the length of what the source of random bytes fills.\<close>

definition aead_ok :: "aead \<Rightarrow> bool" where
  "aead_ok a \<longleftrightarrow> (\<forall>n v. length n = ad_nonce_size a \<longrightarrow> ad_open a n (ad_seal a n v) = Inr v)"

definition fills_nonce :: "aead \<Rightarrow> ('n \<Rightarrow> string go_result) \<Rightarrow> bool" where
  "fills_nonce a rand \<longleftrightarrow> (\<forall>k n. rand k = Inr n \<longrightarrow> length n = ad_nonce_size a)"

lemma aes_secret_box:
  assumes "aead_ok a" and "fills_nonce a rand"
  shows "secret_box (\<lambda>k. aes_encrypt a (rand k)) (aes_decrypt a)"
proof
  fix k v c assume "aes_encrypt a (rand k) v = Inr c"
  then obtain n where n: "rand k = Inr n" and c: "c = cipher_prefix @ hex_encode (n @ ad_seal a n v)"
    by (auto simp: aes_encrypt_def split: sum.splits)
  from n assms(2) have len: "length n = ad_nonce_size a" by (simp add: fills_nonce_def)
  with assms(1) have "ad_open a n (ad_seal a n v) = Inr v" by (simp add: aead_ok_def)
  moreover have "c \<noteq> []" "prefix cipher_prefix c" "trim_prefix cipher_prefix c = hex_encode (n @ ad_seal a n v)"
    by (simp_all add: c cipher_prefix_def trim_prefix_def)
  ultimately show "aes_decrypt a c = Inr v" using len by (simp add: aes_decrypt_def hex_decode_encode)
qed

end
