(* ===== verification/Cluster_Service.thy ===== *)
theory Cluster_Service
  imports Secrets Guarded_Rows Iam_Service Kube_Security
begin

text \<open>
  The clusters a user registers (\<^verbatim>\<open>cluster/application/service.go\<close>, \<^verbatim>\<open>cluster/infrastructure/postgres\<close>):
  the check of a kubeconfig, its storage in encrypted form, the reads with and without it, and the kubeconfig handed to the
  proxy. Loading a kubeconfig, the connection to a cluster and the encryption are parameters. The kubeconfig is loaded from
  the trimmed text. The maps of a kubeconfig are association lists.
\<close>

abbreviation "STATUS_DISABLED \<equiv> 0 :: int"
abbreviation "STATUS_ENABLED \<equiv> 1 :: int"
abbreviation "RUNNING_STATE_UNKNOWN \<equiv> ''unknown''"
abbreviation "RUNNING_STATE_AVAILABLE \<equiv> ''available''"
abbreviation "RUNNING_STATE_UNHEALTHY \<equiv> ''unhealthy''"
abbreviation "RUNNING_STATE_DISABLED \<equiv> ''disabled''"

section \<open>Data\<close>

record cluster =
  ku_id :: int
  ku_name :: string
  ku_alias :: string
  ku_provider :: string
  ku_yaml :: string
  ku_remarks :: string
  ku_status :: int
  ku_test :: bool
  ku_created :: instant
  ku_updated :: instant
  ku_deleted :: "instant option"

record cluster_stats =
  sx_node_count :: int
  sx_running_state :: string
  sx_version :: string
  sx_message :: string

abbreviation no_stats :: "string \<Rightarrow> string \<Rightarrow> cluster_stats" where
  "no_stats st msg \<equiv> \<lparr>sx_node_count = 0, sx_running_state = st, sx_version = [], sx_message = msg\<rparr>"

type_synonym cluster_with_stats = "cluster \<times> cluster_stats"

record cluster_request =
  cq_name :: string
  cq_alias :: string
  cq_provider :: string
  cq_yaml :: string
  cq_remarks :: string
  cq_status :: "int option"
  cq_test :: "bool option"

text \<open>
  What \<^verbatim>\<open>clientcmd.Load\<close> gives: the clusters, with \<^verbatim>\<open>insecure-skip-tls-verify\<close>, the users, and the
  contexts, with the cluster and the user they name.
\<close>

record kube_config =
  kc_clusters :: "(string, bool option) gmap"
  kc_users :: "string list"
  kc_contexts :: "(string, string \<times> string) gmap"
  kc_current :: string

record 'n cluster_env =
  kv_invalid :: "cluster_request \<Rightarrow> go_error option"
  kv_load :: "string \<Rightarrow> kube_config go_result"
  kv_rest :: "string \<Rightarrow> go_error option"
  kv_inspect :: "(string \<Rightarrow> cluster_stats \<times> go_error option) option"
  kv_encrypt :: "'n \<Rightarrow> string \<Rightarrow> string go_result"
  kv_decrypt :: "string \<Rightarrow> string go_result"

section \<open>The table\<close>

record cluster_table =
  kt_rows :: "(int, cluster) gmap"
  kt_next :: int

definition active :: "cluster \<Rightarrow> bool" where
  "active r \<longleftrightarrow> ku_deleted r = None"

text \<open>The unique index on the names of the rows that are not deleted.\<close>

definition name_taken :: "cluster \<Rightarrow> cluster_table \<Rightarrow> bool" where
  "name_taken c t \<longleftrightarrow> (\<exists>(k, r) \<in> set (kt_rows t). k \<noteq> ku_id c \<and> active r \<and> ku_name r = ku_name c)"

definition cluster_list :: "go_error option \<Rightarrow> cluster_table \<Rightarrow> cluster list go_result" where
  "cluster_list f t = stmt f (Inr (rev (sort_key ku_id (filter active (map snd (kt_rows t))))))"

definition cluster_get :: "go_error option \<Rightarrow> int \<Rightarrow> cluster_table \<Rightarrow> cluster go_result" where
  "cluster_get f i t = stmt f (first_row i active (kt_rows t))"

definition cluster_create :: "go_error option \<Rightarrow> cluster \<Rightarrow> cluster_table \<Rightarrow> cluster go_result \<times> cluster_table" where
  "cluster_create f c0 t =
    (let c = c0\<lparr>ku_id := kt_next t, ku_deleted := None\<rparr> in
     case stmt f (if name_taken c t then Inl ErrDuplicatedKey else insert_row (ku_id c) c (kt_rows t)) of
       Inl e \<Rightarrow> (Inl e, t)
     | Inr rows \<Rightarrow> (Inr c, t\<lparr>kt_rows := rows, kt_next := kt_next t + 1\<rparr>))"

text \<open>An update is a read, whose record is changed, and a save.\<close>

definition merge_cluster :: "cluster \<Rightarrow> cluster \<Rightarrow> cluster" where
  "merge_cluster rec c = rec\<lparr>ku_name := ku_name c, ku_alias := ku_alias c, ku_provider := ku_provider c, ku_yaml := ku_yaml c,
     ku_remarks := ku_remarks c, ku_status := ku_status c, ku_test := ku_test c, ku_updated := ku_updated c\<rparr>"

definition cluster_update_read :: "go_error option \<Rightarrow> cluster \<Rightarrow> cluster_table \<Rightarrow> cluster go_result" where
  "cluster_update_read f c t = (case stmt f (first_row (ku_id c) active (kt_rows t)) of
     Inl e \<Rightarrow> Inl e | Inr rec \<Rightarrow> Inr (merge_cluster rec c))"

definition put_cluster :: "cluster \<Rightarrow> cluster_table \<Rightarrow> cluster_table" where
  "put_cluster r t = t\<lparr>kt_rows := gm_put (ku_id r) r (kt_rows t)\<rparr>"

definition cluster_update_save :: "go_error option \<Rightarrow> cluster \<Rightarrow> cluster_table \<Rightarrow> cluster go_result \<times> cluster_table" where
  "cluster_update_save f r t = (case f of
     Some e \<Rightarrow> (Inl e, t)
   | None \<Rightarrow> if name_taken r t then (Inl ErrDuplicatedKey, t) else (Inr r, put_cluster r t))"

definition cluster_delete :: "go_error option \<Rightarrow> instant \<Rightarrow> int \<Rightarrow> cluster_table \<Rightarrow> go_error option \<times> cluster_table" where
  "cluster_delete f now i t = (case f of
     Some e \<Rightarrow> (Some e, t)
   | None \<Rightarrow> (if rows_where (\<lambda>k r. k = i \<and> active r) (kt_rows t) = 0 then Some ErrRecordNotFound else None,
       t\<lparr>kt_rows := update_where (\<lambda>k r. k = i \<and> active r) (\<lambda>r. r\<lparr>ku_deleted := Some now\<rparr>) (kt_rows t)\<rparr>))"

section \<open>Checks\<close>

definition bad_cluster_yaml_error :: "string \<Rightarrow> go_error option \<Rightarrow> go_error" where
  "bad_cluster_yaml_error message e =
    ErrApp CodeBadRequest (case e of None \<Rightarrow> message | Some x \<Rightarrow> message @ '': '' @ error_text x) 400 e"

definition cluster_repository_error :: "go_error \<Rightarrow> string \<Rightarrow> go_error" where
  "cluster_repository_error e message = the (map_repository (Some e) \<lparr>not_found_code = CodeNotFound, not_found_message = message,
     conflict_code = CodeConflict, conflict_message = ''cluster name already exists''\<rparr>)"

definition parse_cluster_id :: "string \<Rightarrow> int go_result" where
  "parse_cluster_id value = (let v = trim_space value in
     case parse_int64 v of
       None \<Rightarrow> Inl (ErrApp CodeBadRequest ''invalid cluster id'' 400 (Some (parse_error v)))
     | Some i \<Rightarrow> if i \<le> 0 then Inl (ErrApp CodeBadRequest ''invalid cluster id'' 400 None) else Inr i)"

definition cluster_normalize_status :: "int option \<Rightarrow> int \<Rightarrow> int" where
  "cluster_normalize_status v fallback = (case v of None \<Rightarrow> fallback
     | Some s \<Rightarrow> if s = STATUS_DISABLED then STATUS_DISABLED else STATUS_ENABLED)"

definition normalize_provider :: "string \<Rightarrow> string" where
  "normalize_provider v = to_lower (trim_space v)"

definition should_test_connection :: "bool option \<Rightarrow> bool" where
  "should_test_connection v \<longleftrightarrow> v = Some True"

text \<open>\<open>None\<close> when the kubeconfig is accepted. A name in the message is quoted without the escapes of \<^verbatim>\<open>%q\<close>.\<close>

definition insecure_cluster :: "(string, bool option) gmap \<Rightarrow> go_error option" where
  "insecure_cluster cs = first_some (\<lambda>(name, c). if c = Some True
     then Some (bad_cluster_yaml_error (''cluster '' @ [CHR 0x22] @ name @ [CHR 0x22]
       @ '' has insecure-skip-tls-verify enabled; provide certificate-authority-data instead'') None) else None) cs"

definition validate_single_context_kubeconfig :: "'n cluster_env \<Rightarrow> string \<Rightarrow> go_error option" where
  "validate_single_context_kubeconfig env kubeconfig =
    (if trim_space kubeconfig = [] then Some (bad_cluster_yaml_error ''cluster yaml is empty'' None)
     else case kv_load env kubeconfig of
       Inl e \<Rightarrow> Some (bad_cluster_yaml_error ''invalid cluster yaml'' (Some e))
     | Inr c \<Rightarrow>
        if length (kc_clusters c) \<noteq> 1 then Some (bad_cluster_yaml_error ''cluster yaml must contain exactly one cluster'' None)
        else if length (kc_users c) \<noteq> 1 then Some (bad_cluster_yaml_error ''cluster yaml must contain exactly one user'' None)
        else if length (kc_contexts c) \<noteq> 1 then Some (bad_cluster_yaml_error ''cluster yaml must contain exactly one context'' None)
        else if trim_space (kc_current c) = [] then Some (bad_cluster_yaml_error ''cluster yaml current-context is required'' None)
        else (case gm_get (kc_contexts c) (kc_current c) of
          None \<Rightarrow> Some (bad_cluster_yaml_error ''cluster yaml current-context must match the only context'' None)
        | Some (cl, user) \<Rightarrow>
           if gm_get (kc_clusters c) cl = None then Some (bad_cluster_yaml_error ''cluster yaml context must reference the only cluster'' None)
           else if user \<notin> set (kc_users c) then Some (bad_cluster_yaml_error ''cluster yaml context must reference the only user'' None)
           else (case insecure_cluster (kc_clusters c) of
             Some e \<Rightarrow> Some e
           | None \<Rightarrow> (case kv_rest env kubeconfig of
               Some e \<Rightarrow> Some (bad_cluster_yaml_error ''invalid cluster yaml'' (Some e))
             | None \<Rightarrow> None))))"

definition filled_state :: "string \<Rightarrow> cluster_stats \<Rightarrow> cluster_stats" where
  "filled_state st x = (if trim_space (sx_running_state x) = [] then x\<lparr>sx_running_state := st\<rparr> else x)"

definition validate_cluster_yaml :: "'n cluster_env \<Rightarrow> string \<Rightarrow> bool \<Rightarrow> cluster_stats go_result" where
  "validate_cluster_yaml env kubeconfig test =
    (case validate_single_context_kubeconfig env kubeconfig of
       Some e \<Rightarrow> Inl e
     | None \<Rightarrow>
        if \<not> test then Inr (no_stats RUNNING_STATE_UNKNOWN [])
        else (case kv_inspect env of
          None \<Rightarrow> Inl (bad_cluster_yaml_error ''cluster connection inspector is unavailable'' None)
        | Some inspect \<Rightarrow> (case inspect kubeconfig of
            (x, Some e) \<Rightarrow> Inl (bad_cluster_yaml_error ''failed to connect cluster'' (Some e))
          | (x, None) \<Rightarrow> Inr (filled_state RUNNING_STATE_AVAILABLE x))))"

definition encrypt_yaml :: "'n cluster_env \<Rightarrow> 'n \<Rightarrow> string \<Rightarrow> string go_result" where
  "encrypt_yaml env n v = (case kv_encrypt env n (trim_space v) of
     Inl e \<Rightarrow> Inl (ErrApp CodeInternal ''failed to encrypt cluster yaml'' 500 (Some e))
   | Inr y \<Rightarrow> Inr y)"

section \<open>Answers\<close>

definition cluster_with_save_stats :: "cluster \<Rightarrow> string \<Rightarrow> cluster_stats \<Rightarrow> cluster_with_stats" where
  "cluster_with_save_stats c kubeconfig x =
    (let x1 = (if ku_status c \<noteq> STATUS_ENABLED \<and> (trim_space (sx_running_state x) = [] \<or> sx_running_state x = RUNNING_STATE_UNKNOWN)
               then x\<lparr>sx_running_state := RUNNING_STATE_DISABLED\<rparr> else x)
     in (c\<lparr>ku_yaml := kubeconfig\<rparr>, filled_state RUNNING_STATE_UNKNOWN x1))"

definition cluster_stats_of :: "'n cluster_env \<Rightarrow> int \<Rightarrow> string \<Rightarrow> cluster_stats" where
  "cluster_stats_of env status kubeconfig =
    (if status \<noteq> STATUS_ENABLED then no_stats RUNNING_STATE_DISABLED []
     else if trim_space kubeconfig = [] then no_stats RUNNING_STATE_UNKNOWN ''cluster yaml is empty''
     else case kv_inspect env of
       None \<Rightarrow> no_stats RUNNING_STATE_UNKNOWN []
     | Some inspect \<Rightarrow> (case inspect kubeconfig of
         (x, Some e) \<Rightarrow> x\<lparr>sx_running_state := RUNNING_STATE_UNHEALTHY, sx_message := error_text e\<rparr>
       | (x, None) \<Rightarrow> filled_state RUNNING_STATE_AVAILABLE x))"

definition with_stats :: "'n cluster_env \<Rightarrow> cluster \<Rightarrow> bool \<Rightarrow> cluster_with_stats" where
  "with_stats env c includeYaml = (case kv_decrypt env (ku_yaml c) of
     Inl e \<Rightarrow> (c\<lparr>ku_yaml := []\<rparr>, no_stats RUNNING_STATE_UNHEALTHY ''failed to decrypt cluster yaml'')
   | Inr yaml \<Rightarrow> (c\<lparr>ku_yaml := (if includeYaml then yaml else [])\<rparr>, cluster_stats_of env (ku_status c) yaml))"

text \<open>\<open>taken\<close> is how many clusters were handed to the workers before the request was cancelled, if it was.\<close>

definition list_with_stats :: "'n cluster_env \<Rightarrow> nat option \<Rightarrow> cluster list \<Rightarrow> cluster_with_stats list" where
  "list_with_stats env taken cs = (case taken of
     None \<Rightarrow> map (\<lambda>c. with_stats env c False) cs
   | Some n \<Rightarrow> map (\<lambda>c. with_stats env c False) (take n cs)
       @ map (\<lambda>c. (c, no_stats RUNNING_STATE_UNKNOWN ''request canceled'')) (drop n cs))"

section \<open>The service\<close>

definition cluster_service_list :: "'n cluster_env \<Rightarrow> go_error option \<Rightarrow> nat option \<Rightarrow> cluster_table \<Rightarrow> cluster_with_stats list go_result" where
  "cluster_service_list env f taken t = (case cluster_list f t of Inl e \<Rightarrow> Inl e | Inr cs \<Rightarrow> Inr (list_with_stats env taken cs))"

definition cluster_service_get :: "'n cluster_env \<Rightarrow> go_error option \<Rightarrow> string \<Rightarrow> cluster_table \<Rightarrow> cluster_with_stats go_result" where
  "cluster_service_get env f i t = (case parse_cluster_id i of
     Inl e \<Rightarrow> Inl e
   | Inr cid \<Rightarrow> (case cluster_get f cid t of
       Inl e \<Rightarrow> Inl (cluster_repository_error e ''cluster not found'')
     | Inr c \<Rightarrow> Inr (with_stats env c True)))"

text \<open>What both a creation and an update do with the request: its check, the statistics and the encrypted text.\<close>

definition accept_yaml :: "'n cluster_env \<Rightarrow> 'n \<Rightarrow> cluster_request \<Rightarrow> (cluster_stats \<times> string) go_result" where
  "accept_yaml env n q = (case validate_cluster_yaml env (trim_space (cq_yaml q)) (should_test_connection (cq_test q)) of
     Inl e \<Rightarrow> Inl e
   | Inr x \<Rightarrow> (case encrypt_yaml env n (cq_yaml q) of Inl e \<Rightarrow> Inl e | Inr y \<Rightarrow> Inr (x, y)))"

definition filled_cluster :: "cluster_request \<Rightarrow> string \<Rightarrow> int \<Rightarrow> instant \<Rightarrow> cluster \<Rightarrow> cluster" where
  "filled_cluster q yaml status now c = c\<lparr>ku_name := trim_space (cq_name q), ku_alias := trim_space (cq_alias q),
     ku_provider := normalize_provider (cq_provider q), ku_yaml := yaml, ku_remarks := trim_space (cq_remarks q),
     ku_status := status, ku_test := should_test_connection (cq_test q), ku_updated := now\<rparr>"

definition zero_cluster :: cluster where
  "zero_cluster = \<lparr>ku_id = 0, ku_name = [], ku_alias = [], ku_provider = [], ku_yaml = [], ku_remarks = [], ku_status = 0,
     ku_test = False, ku_created = 0, ku_updated = 0, ku_deleted = None\<rparr>"

definition cluster_service_create ::
  "'n cluster_env \<Rightarrow> 'n \<Rightarrow> go_error option \<Rightarrow> instant \<Rightarrow> cluster_request \<Rightarrow> cluster_table \<Rightarrow> cluster_with_stats go_result \<times> cluster_table" where
  "cluster_service_create env n f now q t =
    (case kv_invalid env q of
       Some e \<Rightarrow> (Inl e, t)
     | None \<Rightarrow> (case accept_yaml env n q of
         Inl e \<Rightarrow> (Inl e, t)
       | Inr (x, y) \<Rightarrow>
          (case cluster_create f (filled_cluster q y (cluster_normalize_status (cq_status q) STATUS_ENABLED) now (zero_cluster\<lparr>ku_created := now\<rparr>)) t of
             (Inl e, t1) \<Rightarrow> (Inl (cluster_repository_error e ''cluster not found''), t1)
           | (Inr c, t1) \<Rightarrow> (Inr (cluster_with_save_stats c (trim_space (cq_yaml q)) x), t1))))"

text \<open>
  \<^verbatim>\<open>Update\<close> up to its save, given the existing cluster it read: the cluster it asks the repository to update. The caches
  of the cluster are dropped under the trimmed ID of the request.
\<close>

definition cluster_update_plan :: "'n cluster_env \<Rightarrow> 'n \<Rightarrow> instant \<Rightarrow> cluster_request \<Rightarrow> cluster \<Rightarrow> (cluster_stats \<times> cluster) go_result" where
  "cluster_update_plan env n now q existing = (case accept_yaml env n q of
     Inl e \<Rightarrow> Inl e
   | Inr (x, y) \<Rightarrow> Inr (x, filled_cluster q y (cluster_normalize_status (cq_status q) (ku_status existing)) now existing))"

definition cluster_service_update ::
  "'n cluster_env \<Rightarrow> 'n \<Rightarrow> (nat \<Rightarrow> go_error option) \<Rightarrow> instant \<Rightarrow> string \<Rightarrow> cluster_request \<Rightarrow> cluster_table
    \<Rightarrow> (cluster_with_stats \<times> string) go_result \<times> cluster_table" where
  "cluster_service_update env n f now i q t =
    (case kv_invalid env q of
       Some e \<Rightarrow> (Inl e, t)
     | None \<Rightarrow> (case parse_cluster_id i of
         Inl e \<Rightarrow> (Inl e, t)
       | Inr cid \<Rightarrow> (case cluster_get (f 0) cid t of
           Inl e \<Rightarrow> (Inl (cluster_repository_error e ''cluster not found''), t)
         | Inr existing \<Rightarrow> (case cluster_update_plan env n now q existing of
             Inl e \<Rightarrow> (Inl e, t)
           | Inr (x, c) \<Rightarrow> (case cluster_update_read (f 1) c t of
               Inl e \<Rightarrow> (Inl (cluster_repository_error e ''cluster not found''), t)
             | Inr r \<Rightarrow> (case cluster_update_save (f 2) r t of
                 (Inl e, t1) \<Rightarrow> (Inl (cluster_repository_error e ''cluster not found''), t1)
               | (Inr u, t1) \<Rightarrow> (Inr (cluster_with_save_stats u (trim_space (cq_yaml q)) x, trim_space i), t1)))))))"

definition cluster_service_delete :: "go_error option \<Rightarrow> instant \<Rightarrow> string \<Rightarrow> cluster_table \<Rightarrow> string go_result \<times> cluster_table" where
  "cluster_service_delete f now i t = (case parse_cluster_id i of
     Inl e \<Rightarrow> (Inl e, t)
   | Inr cid \<Rightarrow> (case cluster_delete f now cid t of
       (Some e, t1) \<Rightarrow> (Inl (cluster_repository_error e ''cluster not found''), t1)
     | (None, t1) \<Rightarrow> (Inr (trim_space i), t1)))"

definition kubeconfig_for_proxy :: "'n cluster_env \<Rightarrow> go_error option \<Rightarrow> cluster_table \<Rightarrow> string \<Rightarrow> string go_result" where
  "kubeconfig_for_proxy env f t i = (case parse_cluster_id i of
     Inl e \<Rightarrow> Inl e
   | Inr cid \<Rightarrow> (case cluster_get f cid t of
       Inl e \<Rightarrow> Inl (cluster_repository_error e ''cluster not found'')
     | Inr c \<Rightarrow>
        if ku_status c \<noteq> STATUS_ENABLED then Inl (ErrApp CodeForbidden ''cluster is disabled'' 403
          (Some (ErrMsg (''cluster '' @ itoa cid @ '' is disabled''))))
        else (case kv_decrypt env (ku_yaml c) of
          Inl e \<Rightarrow> Inl (ErrApp CodeInternal ''failed to decrypt cluster yaml'' 500 (Some e))
        | Inr kubeconfig \<Rightarrow>
           if trim_space kubeconfig = [] then Inl (bad_cluster_yaml_error ''cluster yaml is empty'' None) else Inr kubeconfig)))"

section \<open>Caches of clusters\<close>

text \<open>
  What a successful update or deletion does with the ID it returns. An invalidator, and the publication of an event, changes the
  state \<open>'w\<close> of what it belongs to; the watcher gives the ID of a received event to the local invalidators.
\<close>

definition invalidate_local_cache :: "(string \<Rightarrow> 'w \<Rightarrow> 'w) list \<Rightarrow> string \<Rightarrow> 'w \<Rightarrow> 'w" where
  "invalidate_local_cache fns i w = fold (\<lambda>fn. fn i) fns w"

definition invalidate_cache :: "(string \<Rightarrow> 'w \<Rightarrow> 'w) list \<Rightarrow> (string \<Rightarrow> 'w \<Rightarrow> 'w) option \<Rightarrow> string \<Rightarrow> 'w \<Rightarrow> 'w" where
  "invalidate_cache fns bus i0 w0 = (let i = trim_space i0; w = invalidate_local_cache fns i w0 in
     case bus of None \<Rightarrow> w | Some publish \<Rightarrow> if i = [] then w else publish i w)"

section \<open>What is in the table\<close>

definition accepted_yaml :: "'n cluster_env \<Rightarrow> string \<Rightarrow> bool" where
  "accepted_yaml env y \<longleftrightarrow> (\<exists>n k. kv_encrypt env n k = Inr y \<and> validate_single_context_kubeconfig env k = None)"

definition cluster_typed :: "'n cluster_env \<Rightarrow> int \<Rightarrow> cluster \<Rightarrow> bool" where
  "cluster_typed env k r \<longleftrightarrow> ku_id r = k \<and> accepted_yaml env (ku_yaml r)"

definition cluster_row :: "cluster_table \<Rightarrow> int \<Rightarrow> cluster option" where
  "cluster_row t = gm_get (kt_rows t)"

text \<open>The save an update of \<open>existing\<close>, read some time ago, is going to make; and the statements that are whole operations.\<close>

definition planned_cluster :: "'n cluster_env \<Rightarrow> 'n \<times> instant \<times> cluster_request \<times> cluster \<Rightarrow> cluster_table \<Rightarrow> cluster option" where
  "planned_cluster env = (\<lambda>(n, now, q, existing) t. case cluster_update_plan env n now q existing of
     Inl e \<Rightarrow> None
   | Inr (x, c) \<Rightarrow> (case cluster_update_read None c t of Inl e \<Rightarrow> None | Inr r \<Rightarrow> Some r))"

definition cluster_statement :: "'n cluster_env \<Rightarrow> cluster_table \<Rightarrow> cluster_table \<Rightarrow> bool" where
  "cluster_statement env t t' \<longleftrightarrow> (\<exists>n f now q. t' = snd (cluster_service_create env n f now q t)) \<or> (\<exists>f now i. t' = snd (cluster_service_delete f now i t))"

lemma accept_yaml_accepted: "accept_yaml env n q = Inr (x, y) \<Longrightarrow> accepted_yaml env y"
  by (auto simp: accept_yaml_def accepted_yaml_def validate_cluster_yaml_def encrypt_yaml_def split: sum.splits option.splits)

lemma created_row:
  assumes "cluster_row (snd (cluster_service_create env n f now q t)) k = Some r"
  shows "cluster_row t k = Some r \<or> cluster_typed env k r"
proof (cases "\<exists>x y. accept_yaml env n q = Inr (x, y)")
  case True
  then obtain x y where q: "accept_yaml env n q = Inr (x, y)" by blast
  from accept_yaml_accepted [OF q] assms show ?thesis
    by (auto simp: cluster_service_create_def cluster_create_def cluster_row_def filled_cluster_def cluster_typed_def Let_def q
        split: option.splits sum.splits if_splits)
next
  case False
  with assms show ?thesis by (auto simp: cluster_service_create_def split: option.splits sum.splits)
qed

lemma deleted_row:
  assumes "cluster_row (snd (cluster_service_delete f now i t)) k = Some r"
  shows "\<exists>r0. cluster_row t k = Some r0 \<and> (r = r0 \<or> r = r0\<lparr>ku_deleted := Some now\<rparr>)"
  using assms
  by (auto simp: cluster_service_delete_def cluster_delete_def cluster_row_def split: option.splits sum.splits if_splits)

interpretation cluster_types: typed_rows cluster_row ku_id "cluster_typed env" "planned_cluster env" put_cluster "cluster_statement env" for env
proof
  fix s u r
  assume t: "\<And>k r. cluster_row s k = Some r \<Longrightarrow> cluster_typed env k r" and u: "planned_cluster env u s = Some r"
  obtain n now q existing where [simp]: "u = (n, now, q, existing)" by (cases u)
  from u obtain x c rec where c: "cluster_update_plan env n now q existing = Inr (x, c)"
    and rec: "cluster_row s (ku_id c) = Some rec" and r: "r = merge_cluster rec c"
    by (auto simp: planned_cluster_def cluster_update_read_def first_row_def cluster_row_def split: sum.splits option.splits if_splits)
  from c have "accepted_yaml env (ku_yaml c)"
    by (auto simp: cluster_update_plan_def filled_cluster_def dest: accept_yaml_accepted split: sum.splits)
  with t [OF rec] show "cluster_typed env (ku_id r) r" by (simp add: r cluster_typed_def merge_cluster_def)
next
  fix s s' k r
  assume t: "\<And>k r. cluster_row s k = Some r \<Longrightarrow> cluster_typed env k r" and "cluster_statement env s s'" and r: "cluster_row s' k = Some r"
  then consider n f now q where "s' = snd (cluster_service_create env n f now q s)" | f now i where "s' = snd (cluster_service_delete f now i s)"
    by (auto simp: cluster_statement_def)
  then show "cluster_typed env k r"
  proof cases
    case 1
    with created_row [of env n f now q s k r] r t show ?thesis by blast
  next
    case 2
    with deleted_row [of f now i s k r] r obtain r0 where "cluster_row s k = Some r0" "r = r0 \<or> (\<exists>now. r = r0\<lparr>ku_deleted := Some now\<rparr>)" by blast
    with t [of k r0] show ?thesis by (auto simp: cluster_typed_def)
  qed
qed (auto simp: cluster_row_def put_cluster_def)

text \<open>A list that was cancelled shows the stored text of the clusters it did not reach; one that was not shows none.\<close>

lemma list_shows_no_yaml: "x \<in> set (list_with_stats env None cs) \<Longrightarrow> ku_yaml (fst x) = []"
  by (auto simp: list_with_stats_def with_stats_def split: sum.splits)

lemma cancelled_list_shows_stored: "i < length cs - n \<Longrightarrow> n \<le> length cs \<Longrightarrow> ku_yaml (fst (list_with_stats env (Some n) cs ! (n + i))) = ku_yaml (cs ! (n + i))"
  by (simp add: list_with_stats_def nth_append)

text \<open>An update is one of the planned saves, when nothing comes between its statements.\<close>

lemma cluster_service_update_plan:
  assumes "cluster_service_update env n (\<lambda>_. None) now i q t = (Inr (out, key), t')"
  shows "\<exists>existing r. planned_cluster env (n, now, q, existing) t = Some r \<and> t' = put_cluster r t"
proof -
  from assms obtain cid existing x c r where "cluster_get None cid t = Inr existing" "cluster_update_plan env n now q existing = Inr (x, c)"
    "cluster_update_read None c t = Inr r" "t' = put_cluster r t"
    by (auto simp: cluster_service_update_def cluster_update_save_def split: option.splits sum.splits if_splits)
  then have "planned_cluster env (n, now, q, existing) t = Some r" by (simp add: planned_cluster_def)
  with \<open>t' = put_cluster r t\<close> show ?thesis by blast
qed

section \<open>What the proxy is given\<close>

definition verified_kubeconfig :: "'n cluster_env \<Rightarrow> string \<Rightarrow> bool" where
  "verified_kubeconfig env k \<longleftrightarrow> (\<exists>c name user. kv_load env k = Inr c \<and> kc_users c = [user] \<and> kc_clusters c = [(fst (hd (kc_clusters c)), name)]
     \<and> name \<noteq> Some True \<and> kc_contexts c = [(kc_current c, fst (hd (kc_clusters c)), user)] \<and> kv_rest env k = None)"

lemma validated_verified: "validate_single_context_kubeconfig env k = None \<Longrightarrow> verified_kubeconfig env k"
proof -
  assume v: "validate_single_context_kubeconfig env k = None"
  then obtain c where c: "kv_load env k = Inr c" by (auto simp: validate_single_context_kubeconfig_def split: if_splits sum.splits)
  with v have "length (kc_clusters c) = 1" "length (kc_users c) = 1" "length (kc_contexts c) = 1"
    by (auto simp: validate_single_context_kubeconfig_def split: if_splits)
  then obtain cl ins user cn ctx where l: "kc_clusters c = [(cl, ins)]" "kc_users c = [user]" "kc_contexts c = [(cn, ctx)]"
    by (metis (no_types, opaque_lifting) One_nat_def length_0_conv length_Suc_conv surj_pair)
  with v c show ?thesis
    by (cases ctx) (auto simp: validate_single_context_kubeconfig_def verified_kubeconfig_def insecure_cluster_def
        split: if_splits option.splits)
qed

lemma proxy_kubeconfig:
  assumes "secret_box (kv_encrypt env) (kv_decrypt env)" and "\<And>k r. cluster_row t k = Some r \<Longrightarrow> cluster_typed env k r"
    and "kubeconfig_for_proxy env f t i = Inr k"
  shows "\<exists>c. parse_cluster_id i = Inr (ku_id c) \<and> cluster_row t (ku_id c) = Some c \<and> active c \<and> ku_status c = STATUS_ENABLED
    \<and> verified_kubeconfig env k"
proof -
  from assms(3) obtain cid c where cid: "parse_cluster_id i = Inr cid" and c: "cluster_row t cid = Some c" "active c"
    "ku_status c = STATUS_ENABLED" "kv_decrypt env (ku_yaml c) = Inr k"
    by (auto simp: kubeconfig_for_proxy_def cluster_get_def first_row_def cluster_row_def split: sum.splits option.splits if_splits)
  from assms(2) [OF c(1)] obtain n k' where "ku_id c = cid" "kv_encrypt env n k' = Inr (ku_yaml c)" "validate_single_context_kubeconfig env k' = None"
    by (auto simp: cluster_typed_def accepted_yaml_def)
  with secret_box.all_decrypted [OF assms(1), of n k' "ku_yaml c" "verified_kubeconfig env" k] c cid validated_verified
  show ?thesis by auto
qed

text \<open>
  C33: Whatever the interleaving of creations, updates and deletions that led to the table of clusters, a request that the proxy
  forwards, or a session it opens, is for a cluster that is registered, not deleted and enabled, and with a kubeconfig that was
  accepted: one cluster, one user, one context that names both, and TLS verification not switched off.
\<close>

theorem proxied_clusters_verified:
  assumes "secret_box (kv_encrypt env) (kv_decrypt env)"
    and "row_steps (planned_cluster env) put_cluster (cluster_statement env) (\<lparr>kt_rows = [], kt_next = 1\<rparr>, []) (t, saves)"
    and "pe_provider penv = kubeconfig_for_proxy env f t"
    and "serve_http h penv p r px = (res, px')" and "(\<exists>pl. res = Forwarded pl) \<or> (\<exists>out. res = Upgraded out)"
  shows "\<exists>c k. parse_cluster_id (cluster_id_of r) = Inr (ku_id c) \<and> cluster_row t (ku_id c) = Some c \<and> active c
    \<and> ku_status c = STATUS_ENABLED \<and> kubeconfig_for_proxy env f t (cluster_id_of r) = Inr k \<and> verified_kubeconfig env k"
proof -
  have typed: "cluster_row t k = Some c \<Longrightarrow> cluster_typed env k c" for k c
    by (rule cluster_types.rows_typed [OF assms(2)]) (simp_all add: cluster_row_def)
  from assms(4,5) obtain k where "pe_provider penv (cluster_id_of r) = Inr k"
    by (auto simp: serve_http_def split: option.splits if_splits sum.splits)
  with assms(3) have k: "kubeconfig_for_proxy env f t (cluster_id_of r) = Inr k" by simp
  from proxy_kubeconfig [OF assms(1) typed this] k show ?thesis by blast
qed

section \<open>A small instance\<close>

definition sample_kube_config :: kube_config where
  "sample_kube_config = \<lparr>kc_clusters = [(''c'', None)], kc_users = [''u''], kc_contexts = [(''x'', (''c'', ''u''))], kc_current = ''x''\<rparr>"

definition sample_cluster_env :: "nat cluster_env" where
  "sample_cluster_env = \<lparr>kv_invalid = (\<lambda>q. None), kv_load = (\<lambda>k. Inr sample_kube_config), kv_rest = (\<lambda>k. None), kv_inspect = None,
     kv_encrypt = noop_encrypt, kv_decrypt = noop_decrypt\<rparr>"

definition sample_cluster_request :: cluster_request where
  "sample_cluster_request = \<lparr>cq_name = ''dev'', cq_alias = [], cq_provider = ''ACK'', cq_yaml = '' token '', cq_remarks = [], cq_status = None,
     cq_test = None\<rparr>"

definition sample_clusters :: cluster_table where
  "sample_clusters = snd (cluster_service_create sample_cluster_env 0 None 5 sample_cluster_request \<lparr>kt_rows = [], kt_next = 1\<rparr>)"

definition sample_cluster_proxy :: "string proxy_env" where
  "sample_cluster_proxy = sample_proxy_env\<lparr>pe_provider := kubeconfig_for_proxy sample_cluster_env None sample_clusters\<rparr>"

definition sample_cluster_pods :: kapi_request where
  "sample_cluster_pods = \<lparr>kq_path = ''/kapi/v1/pods'', kq_query = [], kq_headers = [(''X-Cluster-Id'', [''1''])]\<rparr>"

lemma sample_cluster_forwarded:
  "forwarded_with (serve_http sample_handler sample_cluster_proxy sample_principal sample_cluster_pods sample_state) = Some ''token''"
  by code_simp

theorem proxied_clusters_verified_witness:
  "\<exists>c k. cluster_row sample_clusters (ku_id c) = Some c \<and> ku_status c = STATUS_ENABLED
    \<and> kubeconfig_for_proxy sample_cluster_env None sample_clusters ''1'' = Inr k \<and> verified_kubeconfig sample_cluster_env k"
proof -
  let ?t = "\<lparr>kt_rows = [], kt_next = 1\<rparr> :: cluster_table"
  have box: "secret_box (kv_encrypt sample_cluster_env) (kv_decrypt sample_cluster_env)"
    using noop.secret_box_axioms by (simp add: sample_cluster_env_def)
  have "cluster_statement sample_cluster_env ?t sample_clusters"
    unfolding cluster_statement_def sample_clusters_def by blast
  then have steps: "row_steps (planned_cluster sample_cluster_env) put_cluster (cluster_statement sample_cluster_env) (?t, []) (sample_clusters, [])"
    by (rule row_steps_one [OF other_step])
  obtain f px where f: "serve_http sample_handler sample_cluster_proxy sample_principal sample_cluster_pods sample_state = (Forwarded f, px)"
    using sample_cluster_forwarded
    by (cases "serve_http sample_handler sample_cluster_proxy sample_principal sample_cluster_pods sample_state")
      (auto simp: forwarded_with_def split: proxy_result.splits)
  have provider: "pe_provider sample_cluster_proxy = kubeconfig_for_proxy sample_cluster_env None sample_clusters"
    by (simp add: sample_cluster_proxy_def)
  have "cluster_id_of sample_cluster_pods = ''1''" by code_simp
  with proxied_clusters_verified [OF box steps provider f] show ?thesis by auto
qed

end
