(* ===== verification/Kube_Clients.thy ===== *)
theory Kube_Clients
  imports Cluster_Service
begin

text \<open>
  The clients of the agent's tools (\<^verbatim>\<open>agent/infrastructure/kubeclient/factory.go\<close>): a cache of clients by the ID of
  the cluster, each kept for a time to live and dropped when the cluster service says so. Neither the factory nor its provider is
  nil. The two sections under the mutex, the look-up and the store, are steps of their own: the kubeconfig is read and the client is
  built between them.
\<close>

section \<open>The factory\<close>

record 'k client_entry =
  ce_client :: 'k
  ce_expires :: instant

type_synonym 'k client_cache = "(string, 'k client_entry) gmap"

text \<open>\<^verbatim>\<open>clientcmd.RESTConfigFromKubeConfig\<close> and \<^verbatim>\<open>kubernetes.NewForConfig\<close>.\<close>

record ('r, 'k) client_maker =
  cb_rest :: "string \<Rightarrow> 'r go_result"
  cb_new :: "'r \<Rightarrow> 'k go_result"

definition client_ttl :: "duration \<Rightarrow> duration" where
  "client_ttl ttl = (if ttl \<le> 0 then 60 * second else ttl)"

definition cached_client :: "instant \<Rightarrow> string \<Rightarrow> 'k client_cache \<Rightarrow> 'k option" where
  "cached_client now i c = (case gm_get c i of
     None \<Rightarrow> None
   | Some e \<Rightarrow> if now < ce_expires e then Some (ce_client e) else None)"

definition store_client :: "duration \<Rightarrow> instant \<Rightarrow> string \<Rightarrow> 'k \<Rightarrow> 'k client_cache \<Rightarrow> 'k client_cache" where
  "store_client ttl now i k c = gm_put i \<lparr>ce_client = k, ce_expires = now + ttl\<rparr> (filter (\<lambda>(j, e). now < ce_expires e) c)"

definition invalidate_client :: "string \<Rightarrow> 'k client_cache \<Rightarrow> 'k client_cache" where
  "invalidate_client i0 c = (let i = trim_space i0 in if i = [] then [] else gm_del i c)"

definition build_client :: "('r, 'k) client_maker \<Rightarrow> (string \<Rightarrow> string go_result) \<Rightarrow> string \<Rightarrow> 'k go_result" where
  "build_client b provider i = (case provider i of
     Inl e \<Rightarrow> Inl e
   | Inr k0 \<Rightarrow> (let k = trim_space k0 in
      if k = [] then Inl (ErrMsg ''cluster yaml is empty'')
      else case cb_rest b k of
        Inl _ \<Rightarrow> Inl (ErrMsg ''invalid cluster yaml'')
      | Inr r \<Rightarrow> (case cb_new b r of Inl _ \<Rightarrow> Inl (ErrMsg ''failed to create kubernetes client'') | Inr c \<Rightarrow> Inr c)))"

text \<open>\<open>now\<close> is the time of the look-up, \<open>stored_at\<close> that of the store.\<close>

definition clientset :: "('r, 'k) client_maker \<Rightarrow> duration \<Rightarrow> instant \<Rightarrow> instant \<Rightarrow> (string \<Rightarrow> string go_result) \<Rightarrow> string
    \<Rightarrow> 'k client_cache \<Rightarrow> 'k go_result \<times> 'k client_cache" where
  "clientset b ttl now stored_at provider i0 c =
    (let i = trim_space i0 in
     if i = [] then (Inl (ErrMsg ''cluster id is required''), c)
     else case cached_client now i c of
       Some k \<Rightarrow> (Inr k, c)
     | None \<Rightarrow> (case build_client b provider i of
         Inl e \<Rightarrow> (Inl e, c)
       | Inr k \<Rightarrow> (Inr k, store_client ttl stored_at i k c)))"

section \<open>Interleaved calls\<close>

text \<open>
  A call that missed builds a client, which waits to be stored; between the two other calls, and invalidations, take their steps. A step
  has its time and the answers the provider gives at that time.
\<close>

datatype client_op = BuildFor string | StoreBuilt nat | InvalidateFor string

record 'k factory_state =
  fa_cache :: "'k client_cache"
  fa_built :: "(string \<times> 'k) list"

type_synonym client_step = "instant \<times> (string \<Rightarrow> string go_result) \<times> client_op"

definition do_client_step :: "('r, 'k) client_maker \<Rightarrow> duration \<Rightarrow> client_step \<Rightarrow> 'k factory_state \<Rightarrow> 'k factory_state" where
  "do_client_step b ttl = (\<lambda>(now, provider, op) s. case op of
     BuildFor i \<Rightarrow> (case build_client b provider i of Inl e \<Rightarrow> s | Inr k \<Rightarrow> s\<lparr>fa_built := fa_built s @ [(i, k)]\<rparr>)
   | StoreBuilt n \<Rightarrow> if n < length (fa_built s)
       then s\<lparr>fa_cache := store_client ttl now (fst (fa_built s ! n)) (snd (fa_built s ! n)) (fa_cache s)\<rparr> else s
   | InvalidateFor i \<Rightarrow> s\<lparr>fa_cache := invalidate_client i (fa_cache s)\<rparr>)"

definition run_clients :: "('r, 'k) client_maker \<Rightarrow> duration \<Rightarrow> client_step list \<Rightarrow> 'k factory_state" where
  "run_clients b ttl steps = fold (do_client_step b ttl) steps \<lparr>fa_cache = [], fa_built = []\<rparr>"




lemma gm_ok_kept [simp]: "gm_ok m \<Longrightarrow> gm_ok (filter P m)"
  by (induction m) (auto simp: gm_ok_def)

lemma gm_ok_store [simp]: "gm_ok c \<Longrightarrow> gm_ok (store_client ttl now i k c)"
  by (simp add: store_client_def)

lemma gm_ok_invalidate [simp]: "gm_ok c \<Longrightarrow> gm_ok (invalidate_client i c)"
  by (simp add: invalidate_client_def Let_def)








lemma clientset_cases:
  "clientset b ttl now stored_at provider i c = (Inr k, c') \<Longrightarrow>
    cached_client now (trim_space i) c = Some k \<and> c' = c \<or>
    build_client b provider (trim_space i) = Inr k \<and> c' = store_client ttl stored_at (trim_space i) k c"
  by (auto simp: clientset_def Let_def split: option.splits sum.splits if_splits)

lemma invalidated_not_cached:
  "trim_space i = i \<Longrightarrow> cached_client now i (invalidate_client i c) = None"
  by (simp add: invalidate_client_def cached_client_def Let_def)




section \<open>A small instance\<close>







section \<open>Invalidations that miss\<close>

text \<open>A client built before an invalidation and stored after it stays: the old credentials are used for a whole time to live.\<close>

lemma old_client_after_invalidation:
  assumes "build_client b old i = Inr k" and "t2 \<le> now" and "now < t2 + ttl"
  shows "cached_client now i (fa_cache (run_clients b ttl [(t0, old, BuildFor i), (t1, new, InvalidateFor i), (t2, new, StoreBuilt 0)])) = Some k"
  using assms by (simp add: run_clients_def do_client_step_def cached_client_def store_client_def)

text \<open>The ID of an update is parsed for the table, but is the text of the request for the caches.\<close>

lemma padded_id_parsed: "parse_cluster_id ''007'' = Inr 7"
  by code_simp

lemma padded_id_not_invalidated:
  "invalidate_cache [invalidate_client] None ''007'' [(''7'', e)] = [(''7'', e)]"
proof -
  have "trim_space ''007'' = ''007''" by code_simp
  then show ?thesis by (simp add: invalidate_cache_def invalidate_local_cache_def invalidate_client_def gm_del_def)
qed

end
