(* ===== verification/Kube_Tools.thy ===== *)
theory Kube_Tools
  imports Go_Http Run_Store
begin

text \<open>
  The tools that read a cluster (\<^verbatim>\<open>agent/infrastructure/kubernetes/tool_executor.go\<close>): lists over pages, pods, their
  logs, nodes, workloads, and the evidence and the observation made of them. The API server is a parameter; an object is its fields the
  code reads and the JSON it marshals to, empty when that fails. Instants are in nanoseconds and an age is cut to seconds without the
  rounding of a float64.
\<close>

abbreviation max_list_items :: nat where "max_list_items \<equiv> 500"
abbreviation max_per_page :: nat where "max_per_page \<equiv> 200"
abbreviation default_list_limit :: nat where "default_list_limit \<equiv> 40"
abbreviation max_log_size :: nat where "max_log_size \<equiv> 65536"

section \<open>Pages\<close>

type_synonym 'a list_page = "nat \<Rightarrow> string \<Rightarrow> ('a list \<times> string) go_result"

text \<open>
  A page is asked for with a limit and a continue token. The items read so far are \<open>acc\<close>; the result says whether the
  list was cut. A server that gives empty pages with tokens for ever is never done with.
\<close>

partial_function (option) paginate_from :: "'a list_page \<Rightarrow> 'a list \<Rightarrow> string \<Rightarrow> ('a list \<times> bool) go_result option" where
  "paginate_from fetch acc cont =
    (let remaining = max_list_items - length acc in
     if remaining = 0 then Some (Inr (acc, True))
     else case fetch (min max_per_page remaining) cont of
       Inl e \<Rightarrow> Some (Inl e)
     | Inr (xs, more_token) \<Rightarrow>
        (let acc1 = acc @ xs in
         if trim_space more_token = [] then Some (Inr (acc1, False))
         else if max_list_items \<le> length acc1 then Some (Inr (acc1, True))
         else paginate_from fetch acc1 more_token))"

definition paginate :: "'a list_page \<Rightarrow> ('a list \<times> bool) go_result option" where
  "paginate fetch = paginate_from fetch [] []"

definition wrap_error :: "string \<Rightarrow> 'a go_result \<Rightarrow> 'a go_result" where
  "wrap_error m r = (case r of Inl e \<Rightarrow> Inl (ErrWrap m e) | Inr x \<Rightarrow> Inr x)"

text \<open>A list, with the message its errors are wrapped in.\<close>

definition list_all_pages :: "string \<Rightarrow> 'a list_page \<Rightarrow> ('a list \<times> bool) go_result option" where
  "list_all_pages m fetch = paginate (\<lambda>n c. wrap_error m (fetch n c))"

definition on_list :: "('a list \<times> bool) go_result option \<Rightarrow> ('a list \<Rightarrow> bool \<Rightarrow> 'b) \<Rightarrow> 'b go_result option" where
  "on_list r f = map_option (\<lambda>r. case r of Inl e \<Rightarrow> Inl e | Inr (xs, short) \<Rightarrow> Inr (f xs short)) r"

section \<open>Evidence and observations\<close>

datatype extra_value = ExText string | ExNumber int

fun extra_text :: "extra_value \<Rightarrow> string" where
  "extra_text (ExText s) = s"
| "extra_text (ExNumber n) = itoa n"

record evidence_summary =
  es_kind :: string
  es_namespace :: string
  es_name :: string
  es_status :: string
  es_message :: string
  es_reason :: string
  es_age :: int
  es_extra :: "(string, extra_value) gmap"

definition summary_of :: "string \<Rightarrow> string \<Rightarrow> string \<Rightarrow> string \<Rightarrow> string \<Rightarrow> (string, extra_value) gmap \<Rightarrow> evidence_summary" where
  "summary_of kind ns name st message extra = \<lparr>es_kind = kind, es_namespace = ns, es_name = name, es_status = st, es_message = message,
     es_reason = [], es_age = 0, es_extra = extra\<rparr>"

record kube_result =
  kr_summary :: string
  kr_observation :: string
  kr_evidence :: "evidence_row list"

text \<open>What is marshalled of a pod's logs.\<close>

record log_payload =
  lp_namespace :: string
  lp_name :: string
  lp_container :: string
  lp_line_count :: nat
  lp_tail :: string
  lp_available :: "string list"
  lp_previous :: "string option"
  lp_truncated :: bool

text \<open>The clock, SHA-256 in hex, and the JSON of the lists of summaries and of logs.\<close>

record kube_env =
  kn_now :: instant
  kn_sha :: "string \<Rightarrow> string"
  kn_summaries :: "evidence_summary list \<Rightarrow> string"
  kn_log :: "log_payload \<Rightarrow> string"

text \<open>Where a piece of evidence is from.\<close>

record evidence_source =
  eu_kind :: string
  eu_group :: string
  eu_version :: string
  eu_resource_kind :: string

abbreviation core_source :: "string \<Rightarrow> string \<Rightarrow> evidence_source" where
  "core_source k rk \<equiv> \<lparr>eu_kind = k, eu_group = [], eu_version = ''v1'', eu_resource_kind = rk\<rparr>"

definition new_evidence :: "kube_env \<Rightarrow> evidence_source \<Rightarrow> string \<Rightarrow> string \<Rightarrow> string \<Rightarrow> string \<Rightarrow> string \<Rightarrow> bool \<Rightarrow> evidence_row" where
  "new_evidence env src ns name version summary raw redacted =
    with_raw_json (kn_sha env) (kn_now env) raw
      \<lparr>ev_id = [], ev_run_id = [], ev_tool_call_id = [], ev_source_kind = eu_kind src, ev_api_group = eu_group src, ev_summary = trim_space summary,
       ev_collected_at = 0, er_api_version = eu_version src, er_resource_kind = eu_resource_kind src, er_namespace = trim_space ns,
       er_name = trim_space name, er_resource_version = version, er_raw_json = [], er_hash = [], er_redacted = redacted\<rparr>"

definition result_with_evidence :: "string \<Rightarrow> evidence_row \<Rightarrow> kube_result" where
  "result_with_evidence summary e = \<lparr>kr_summary = summary, kr_observation = [], kr_evidence = [e]\<rparr>"

definition result_with_observation :: "string \<Rightarrow> string \<Rightarrow> evidence_row \<Rightarrow> kube_result" where
  "result_with_observation summary observation e = \<lparr>kr_summary = summary, kr_observation = trim_space observation, kr_evidence = [e]\<rparr>"

definition truncate_text :: "string \<Rightarrow> nat \<Rightarrow> string" where
  "truncate_text s0 n = (let s = trim_space s0; rs = runes s in if length rs \<le> n then s else concat (take n rs) @ ellipsis)"

definition truncation_note :: "bool \<Rightarrow> string" where
  "truncation_note short = (if \<not> short then [] else
    (utf8 [0xFF08, 0x6CE8, 0x610F, 0xFF1A, 0x7ED3, 0x679C, 0x5DF2, 0x622A, 0x65AD] @ '',''
    @ utf8 [0x4EC5, 0x542B, 0x524D] @ '' '') @ itoa (int max_list_items) @ ('' '' @ utf8 [0x6761] @ '',''
    @ utf8 [0x96C6, 0x7FA4, 0x4E2D, 0x8FD8, 0x6709, 0x66F4, 0x591A, 0x672A, 0x8BFB, 0x53D6]
    @ '','' @ utf8 [0x7ED3, 0x8BBA, 0x53EF, 0x80FD, 0x4E0D, 0x5B8C, 0x6574, 0xFF09]))"

definition format_evidence_line :: "evidence_summary \<Rightarrow> string" where
  "format_evidence_line x = trim_space
    ((if es_namespace x \<noteq> [] then es_namespace x @ ''/'' else []) @ es_name x
     @ (if es_status x \<noteq> [] then '' ['' @ es_status x @ '']'' else [])
     @ (if es_reason x \<noteq> [] then '' reason='' @ es_reason x else [])
     @ concat (map (\<lambda>key. case gm_get (es_extra x) key of None \<Rightarrow> [] | Some v \<Rightarrow> '' '' @ key @ ''='' @ extra_text v)
         [''restart_count'', ''ready_containers'', ''total_containers'', ''node_name''])
     @ (if es_message x \<noteq> [] then '' '' @ truncate_text (es_message x) 160 else []))"

definition observation_from_items :: "string \<Rightarrow> evidence_summary list \<Rightarrow> nat \<Rightarrow> string" where
  "observation_from_items header items limit =
    (let n = (if limit = 0 \<or> length items < limit then length items else limit) in
     header @ concat (map (\<lambda>x. [CHR 0x0A] @ ''- '' @ format_evidence_line x) (take n items))
     @ (if n < length items then (utf8 [0xA, 0x2026] @ ''('' @ utf8 [0x5171] @ '' '') @ itoa (int (length items)) @ ('' '' @ utf8 [0x6761] @ '','' @ utf8 [0x5DF2, 0x7701, 0x7565, 0x5176, 0x4F59] @ '' '') @ itoa (int (length items - n)) @ ('' '' @ utf8 [0x6761] @ '')'') else []))"

definition listed_evidence :: "kube_env \<Rightarrow> evidence_source \<Rightarrow> string \<Rightarrow> string \<Rightarrow> string \<Rightarrow> evidence_summary list \<Rightarrow> evidence_row" where
  "listed_evidence env src ns name summary items = new_evidence env src ns name [] summary (kn_summaries env items) False"

definition list_result :: "kube_env \<Rightarrow> string \<Rightarrow> evidence_summary list \<Rightarrow> evidence_source \<Rightarrow> string \<Rightarrow> string \<Rightarrow> kube_result" where
  "list_result env summary items src ns name =
    result_with_observation summary (observation_from_items (summary @ (utf8 [0x660E, 0x7EC6, 0xFF1A])) items default_list_limit)
      (listed_evidence env src ns name summary items)"

definition list_result_truncated ::
  "kube_env \<Rightarrow> string \<Rightarrow> evidence_summary list \<Rightarrow> bool \<Rightarrow> evidence_source \<Rightarrow> string \<Rightarrow> string \<Rightarrow> kube_result" where
  "list_result_truncated env summary0 items short src ns name =
    (let summary = summary0 @ truncation_note short in
     result_with_observation summary (observation_from_items (summary @ (utf8 [0x660E, 0x7EC6, 0xFF1A])) items default_list_limit @ truncation_note short)
      (listed_evidence env src ns name summary items))"

section \<open>Objects of a cluster\<close>

record kube_object =
  ko_namespace :: string
  ko_name :: string
  ko_version :: string
  ko_json :: string

record kube_condition =
  cd_type :: string
  cd_status :: string
  cd_reason :: string
  cd_message :: string

text \<open>A terminated state has its reason, exit code and message; a waiting one its reason and message.\<close>

record container_status =
  cst_name :: string
  cst_ready :: bool
  cst_restarts :: int
  cst_waiting :: "(string \<times> string) option"
  cst_terminated :: "(string \<times> int \<times> string) option"
  cst_last_terminated :: "(string \<times> int \<times> string) option"

record pod = kube_object +
  po_phase :: string
  po_node :: string
  po_containers :: "string list"
  po_init_containers :: "string list"
  po_ephemeral :: "string list"
  po_statuses :: "container_status list"
  po_init_statuses :: "container_status list"
  po_conditions :: "kube_condition list"

record kube_node = kube_object +
  nd_conditions :: "kube_condition list"
  nd_kubelet :: string
  nd_os_image :: string
  nd_taints :: "(string \<times> string \<times> string) list"

text \<open>
  A Deployment, StatefulSet or DaemonSet: \<open>wl_desired\<close> is its number of replicas, or of nodes it is to run on. The selector
  is none when it is nil, and otherwise what \<^verbatim>\<open>LabelSelectorAsSelector\<close> makes of it, as text.
\<close>

record workload = kube_object +
  wl_desired :: int
  wl_ready :: int
  wl_updated :: int
  wl_available :: int
  wl_current :: int
  wl_selector :: "string go_result option"

text \<open>A time of an event that is zero is none; \<open>ke_series\<close> is the time it was last observed, of an event with a series.\<close>

record kube_event = kube_object +
  ke_type :: string
  ke_note :: string
  ke_reason :: string
  ke_regarding_kind :: string
  ke_regarding_name :: string
  ke_action :: string
  ke_reporting :: string
  ke_time :: "instant option"
  ke_series :: "instant option"
  ke_deprecated :: "instant option"
  ke_created :: "instant option"

text \<open>
  The API server. A list is of a namespace, all of them when it is empty, and for pods of a label selector. The stream of a log is the
  bytes it gives until its end or an error; it is asked for with the container, the previous instance or not, the number of lines and of
  bytes. \<open>ka_everything\<close> and \<open>ka_nothing\<close> are the texts of the selectors of all and of no labels.
\<close>

record kube_api =
  ka_events :: "string \<Rightarrow> kube_event list_page"
  ka_pods :: "string \<Rightarrow> string \<Rightarrow> pod list_page"
  ka_pod :: "string \<Rightarrow> string \<Rightarrow> pod go_result"
  ka_log :: "string \<Rightarrow> string \<Rightarrow> string \<Rightarrow> bool \<Rightarrow> nat \<Rightarrow> nat \<Rightarrow> (string \<times> go_error option) go_result"
  ka_nodes :: "kube_node list_page"
  ka_node :: "string \<Rightarrow> kube_node go_result"
  ka_deployments :: "string \<Rightarrow> workload list_page"
  ka_statefulsets :: "string \<Rightarrow> workload list_page"
  ka_daemonsets :: "string \<Rightarrow> workload list_page"
  ka_deployment :: "string \<Rightarrow> string \<Rightarrow> workload go_result"
  ka_statefulset :: "string \<Rightarrow> string \<Rightarrow> workload go_result"
  ka_daemonset :: "string \<Rightarrow> string \<Rightarrow> workload go_result"
  ka_everything :: string
  ka_nothing :: string

section \<open>The scope of a call\<close>

definition namespace_or_all :: "string \<Rightarrow> string" where
  "namespace_or_all ns = trim_space ns"

definition namespace_or_default :: "string \<Rightarrow> string" where
  "namespace_or_default ns = (if trim_space ns = [] then ''default'' else trim_space ns)"

definition namespaced_name :: "agent_scope \<Rightarrow> string \<Rightarrow> (string \<times> string) go_result" where
  "namespaced_name scope kind =
    (if trim_space (sc_name scope) = [] then Inl (ErrMsg (kind @ '' name is required''))
     else Inr (namespace_or_default (sc_namespace scope), trim_space (sc_name scope)))"

definition normalize_workload_kind :: "string \<Rightarrow> string" where
  "normalize_workload_kind kind0 =
    (let kind = to_lower (trim_space kind0) in
     if kind \<in> {[], ''workload'', ''deploy'', ''deployment'', ''deployments''} then ''deployment''
     else if kind \<in> {''sts'', ''statefulset'', ''statefulsets''} then ''statefulset''
     else if kind \<in> {''ds'', ''daemonset'', ''daemonsets''} then ''daemonset''
     else kind)"

definition with_workload_kind :: "agent_scope \<Rightarrow> string \<Rightarrow> agent_scope" where
  "with_workload_kind scope kind = scope\<lparr>sc_kind := normalize_workload_kind kind\<rparr>"

definition workload_kind_to_event_kind :: "string \<Rightarrow> string" where
  "workload_kind_to_event_kind kind =
    (if kind = ''deployment'' then ''Deployment'' else if kind = ''statefulset'' then ''StatefulSet''
     else if kind = ''daemonset'' then ''DaemonSet'' else kind)"

definition workload_pod_summary_kind :: "string \<Rightarrow> string" where
  "workload_pod_summary_kind kind =
    (let t = to_lower (trim_space kind) in
     if t \<in> {[], ''workload'', ''workloads''} then (utf8 [0x5DE5, 0x4F5C, 0x8D1F, 0x8F7D]) else workload_kind_to_event_kind (normalize_workload_kind t))"

section \<open>Events\<close>

definition event_matches_scope :: "kube_event \<Rightarrow> agent_scope \<Rightarrow> bool" where
  "event_matches_scope e scope =
    (let kind = trim_space (sc_kind scope); name = trim_space (sc_name scope) in
     if kind \<noteq> [] \<and> \<not> equal_fold (ke_regarding_kind e) kind then False
     else \<not> (name \<noteq> [] \<and> ke_regarding_name e \<noteq> name))"

definition kube_event_time :: "kube_event \<Rightarrow> instant option" where
  "kube_event_time e =
    (if ke_time e \<noteq> None then ke_time e else if ke_series e \<noteq> None then ke_series e
     else if ke_deprecated e \<noteq> None then ke_deprecated e else ke_created e)"

definition seconds_since :: "instant \<Rightarrow> instant option \<Rightarrow> int" where
  "seconds_since now t = (case t of None \<Rightarrow> 0 | Some i \<Rightarrow> if now < i then - ((i - now) div second) else (now - i) div second)"

definition event_summary :: "instant \<Rightarrow> kube_event \<Rightarrow> evidence_summary" where
  "event_summary now e = \<lparr>es_kind = ''Event'', es_namespace = ko_namespace e, es_name = ko_name e, es_status = ke_type e,
     es_message = trim_space (ke_note e), es_reason = ke_reason e, es_age = seconds_since now (kube_event_time e),
     es_extra = [(''regarding_kind'', ExText (ke_regarding_kind e)), (''regarding_name'', ExText (ke_regarding_name e)),
       (''action'', ExText (ke_action e)), (''reporting'', ExText (ke_reporting e))]\<rparr>"

definition collect_event_summaries ::
  "kube_env \<Rightarrow> kube_api \<Rightarrow> agent_scope \<Rightarrow> (evidence_summary list \<times> bool) go_result option" where
  "collect_event_summaries env api scope =
    on_list (list_all_pages ''failed to list events: '' (ka_events api (namespace_or_all (sc_namespace scope))))
      (\<lambda>es short. (sort_key es_age (map (event_summary (kn_now env)) (filter (\<lambda>e. event_matches_scope e scope) es)), short))"

definition event_source :: evidence_source where
  "event_source = \<lparr>eu_kind = ''event'', eu_group = ''events.k8s.io'', eu_version = ''v1'', eu_resource_kind = ''Event''\<rparr>"

definition list_events :: "kube_env \<Rightarrow> kube_api \<Rightarrow> agent_scope \<Rightarrow> kube_result go_result option" where
  "list_events env api scope = on_list (collect_event_summaries env api scope) (\<lambda>items short.
    (let head_text = (utf8 [0x8BFB, 0x53D6, 0x5230] @ '' '') @ itoa (int (length items));
         summary = (case items of [] \<Rightarrow> head_text @ ('' '' @ utf8 [0x6761, 0x4E8B, 0x4EF6, 0x3002])
           | x # _ \<Rightarrow> head_text @ ('' '' @ utf8 [0x6761, 0x4E8B, 0x4EF6, 0xFF0C, 0x6700, 0x65B0, 0x4E8B, 0x4EF6, 0xFF1A]) @ es_reason x @ '' '' @ es_message x @ (utf8 [0x3002])) @ truncation_note short;
         observation = (if items = [] then (utf8 [0x672A, 0x8BFB, 0x53D6, 0x5230, 0x5339, 0x914D, 0x7684, 0x4E8B, 0x4EF6, 0xFF08,
      0x53EF, 0x80FD, 0x8D44, 0x6E90, 0x6B63, 0x5E38, 0x6216, 0x8303, 0x56F4, 0x8FC7,
      0x6EE4, 0x8FC7, 0x4E25, 0xFF09, 0x3002])
           else observation_from_items (head_text @ ('' '' @ utf8 [0x6761, 0x4E8B, 0x4EF6, 0xFF1A])) items default_list_limit @ truncation_note short)
     in result_with_observation summary observation (listed_evidence env event_source (sc_namespace scope) ''event-list'' summary items)))"

section \<open>Pods\<close>

definition pod_status :: "pod \<Rightarrow> string" where
  "pod_status p =
    (let sts = po_init_statuses p @ po_statuses p in
     case first_some cst_waiting sts of
       Some (reason, message) \<Rightarrow> ''Waiting:'' @ reason
     | None \<Rightarrow> (case first_some (\<lambda>s. case cst_terminated s of Some (reason, code, message) \<Rightarrow> if code \<noteq> 0 then Some reason else None | None \<Rightarrow> None) sts of
         Some reason \<Rightarrow> ''Terminated:'' @ reason
       | None \<Rightarrow> po_phase p))"

text \<open>Counters are of 32 bits.\<close>

definition int32 :: "int \<Rightarrow> int" where
  "int32 n = (n + 2147483648) mod 4294967296 - 2147483648"

definition pod_restart_count :: "pod \<Rightarrow> int" where
  "pod_restart_count p = foldl (\<lambda>t s. int32 (t + cst_restarts s)) 0 (po_statuses p)"

definition ready_container_count :: "pod \<Rightarrow> nat" where
  "ready_container_count p = length (filter cst_ready (po_statuses p))"

abbreviation bool_text :: "bool \<Rightarrow> string" where
  "bool_text b \<equiv> if b then ''true'' else ''false''"

definition pod_restart_summary :: "pod \<Rightarrow> string" where
  "pod_restart_summary p = (if po_statuses p = [] then (utf8 [0x5BB9, 0x5668, 0x72B6, 0x6001, 0x6682, 0x4E0D, 0x53EF, 0x7528, 0x3002])
     else join ''; '' (map (\<lambda>s. cst_name s @ '' restart='' @ itoa (cst_restarts s) @ '' ready='' @ bool_text (cst_ready s)) (po_statuses p)))"

definition healthy_status :: "string \<Rightarrow> bool" where
  "healthy_status st \<longleftrightarrow> st = ''Running'' \<or> st = ''Succeeded''"

definition pod_summary :: "pod \<Rightarrow> evidence_summary" where
  "pod_summary p = summary_of ''Pod'' (ko_namespace p) (ko_name p) (pod_status p) (pod_restart_summary p)
     [(''node_name'', ExText (po_node p)), (''restart_count'', ExNumber (pod_restart_count p)),
      (''ready_containers'', ExNumber (int (ready_container_count p))), (''total_containers'', ExNumber (int (length (po_statuses p))))]"

definition workload_pod_summary :: "pod \<Rightarrow> evidence_summary" where
  "workload_pod_summary p = summary_of ''Pod'' (ko_namespace p) (ko_name p) (pod_status p) (pod_restart_summary p)
     [(''node_name'', ExText (po_node p)), (''restart_count'', ExNumber (pod_restart_count p))]"

definition build_pod_observation :: "evidence_summary list \<Rightarrow> string" where
  "build_pod_observation items =
    (let bad = filter (\<lambda>x. \<not> healthy_status (es_status x)) items in
     if bad = [] then (utf8 [0x8BFB, 0x53D6, 0x5230] @ '' '') @ itoa (int (length items)) @ ('' '' @ utf8 [0x4E2A] @ '' Pod'' @ utf8 [0xFF0C, 0x5168, 0x90E8, 0x5904, 0x4E8E]
    @ '' Running/Succeeded'' @ utf8 [0xFF0C, 0x672A, 0x89C1, 0x5F02, 0x5E38, 0x3002])
     else observation_from_items ((utf8 [0x8BFB, 0x53D6, 0x5230] @ '' '') @ itoa (int (length items)) @ ('' '' @ utf8 [0x4E2A] @ '' Pod'' @ utf8 [0xFF0C, 0x5176, 0x4E2D] @ '' '') @ itoa (int (length bad)) @ ('' '' @ utf8 [0x4E2A, 0x5F02, 0x5E38, 0xFF0C, 0x5F02, 0x5E38, 0x660E, 0x7EC6, 0xFF1A]))
       bad default_list_limit)"

definition pods_result :: "kube_env \<Rightarrow> string \<Rightarrow> string \<Rightarrow> string \<Rightarrow> string \<Rightarrow> evidence_summary list \<Rightarrow> nat \<Rightarrow> bool \<Rightarrow> kube_result" where
  "pods_result env header mid ns name items unhealthy short =
    (let summary = header @ itoa (int (length items)) @ mid @ itoa (int unhealthy) @ ('' '' @ utf8 [0x4E2A, 0x53EF, 0x80FD, 0x5F02, 0x5E38, 0x3002]) @ truncation_note short
     in result_with_observation summary (build_pod_observation items @ truncation_note short)
          (listed_evidence env (core_source ''pod'' ''Pod'') ns name summary items))"

definition unhealthy_pods :: "pod list \<Rightarrow> nat" where
  "unhealthy_pods ps = length (filter (\<lambda>p. \<not> healthy_status (pod_status p)) ps)"

definition list_pods :: "kube_env \<Rightarrow> kube_api \<Rightarrow> agent_scope \<Rightarrow> kube_result go_result option" where
  "list_pods env api scope =
    on_list (list_all_pages ''failed to list pods: '' (ka_pods api (namespace_or_all (sc_namespace scope)) []))
      (\<lambda>ps short. pods_result env (utf8 [0x8BFB, 0x53D6, 0x5230] @ '' '') ('' '' @ utf8 [0x4E2A] @ '' Pod'' @ utf8 [0xFF0C, 0x5176, 0x4E2D] @ '' '') (sc_namespace scope) ''pod-list'' (map pod_summary ps) (unhealthy_pods ps) short)"

definition object_evidence :: "kube_env \<Rightarrow> evidence_source \<Rightarrow> string \<Rightarrow> string \<Rightarrow> string \<Rightarrow> string \<Rightarrow> string \<Rightarrow> bool \<Rightarrow> evidence_row" where
  "object_evidence env src ns name version summary raw redacted = new_evidence env src ns name version summary raw redacted"

definition container_line :: "container_status \<Rightarrow> string" where
  "container_line s = (utf8 [0xA] @ ''- '' @ utf8 [0x5BB9, 0x5668] @ '' '') @ cst_name s @ '': ready='' @ bool_text (cst_ready s) @ '' restart='' @ itoa (cst_restarts s)
     @ (case cst_waiting s of
          Some (reason, message) \<Rightarrow> '' waiting='' @ reason @ '' '' @ truncate_text message 160
        | None \<Rightarrow> (case cst_terminated s of
            Some (reason, code, message) \<Rightarrow> '' terminated='' @ reason @ '' exit='' @ itoa code @ '' '' @ truncate_text message 160
          | None \<Rightarrow> []))
     @ (case cst_last_terminated s of
          Some (reason, code, message) \<Rightarrow> '' lastExit='' @ itoa code @ ''('' @ reason @ '')''
        | None \<Rightarrow> [])"

definition build_pod_detail_observation :: "pod \<Rightarrow> string \<Rightarrow> string" where
  "build_pod_detail_observation p summary = summary @ [CHR 0x0A] @ ''Phase='' @ po_phase p @ '', Node='' @ trim_space (po_node p)
     @ concat (map container_line (po_statuses p))
     @ concat (map (\<lambda>c. if cd_status c \<noteq> ''True'' \<and> trim_space (cd_reason c) \<noteq> []
         then (utf8 [0xA] @ ''- '' @ utf8 [0x6761, 0x4EF6] @ '' '') @ cd_type c @ ''='' @ cd_status c @ '' reason='' @ cd_reason c @ '' '' @ truncate_text (cd_message c) 160 else [])
         (po_conditions p))"

definition get_pod :: "kube_env \<Rightarrow> kube_api \<Rightarrow> agent_scope \<Rightarrow> kube_result go_result" where
  "get_pod env api scope = (case namespaced_name scope ''pod'' of
     Inl e \<Rightarrow> Inl e
   | Inr (ns, name) \<Rightarrow> (case wrap_error ''failed to get pod: '' (ka_pod api ns name) of
       Inl e \<Rightarrow> Inl e
     | Inr p \<Rightarrow>
        (let summary = ''Pod '' @ ko_namespace p @ ''/'' @ ko_name p @ ('' '' @ utf8 [0x5F53, 0x524D, 0x72B6, 0x6001, 0x4E3A] @ '' '') @ pod_status p @ (utf8 [0xFF0C, 0x91CD, 0x542F, 0x6B21, 0x6570] @ '' '')
               @ itoa (pod_restart_count p) @ (utf8 [0x3002])
         in Inr (result_with_observation summary (build_pod_detail_observation p summary)
              (object_evidence env (core_source ''pod'' ''Pod'') (ko_namespace p) (ko_name p) (ko_version p) summary (ko_json p) False)))))"

section \<open>Logs\<close>

definition count_lines :: "string \<Rightarrow> nat" where
  "count_lines text = (let t = trim_space text in if t = [] then 0 else count_list t (CHR 0x0A) + 1)"

definition container_names :: "pod \<Rightarrow> string list" where
  "container_names p = po_containers p @ map (\<lambda>c. c @ ''(init)'') (po_init_containers p) @ map (\<lambda>c. c @ ''(ephemeral)'') (po_ephemeral p)"

definition other_container_hint :: "pod \<Rightarrow> string" where
  "other_container_hint p = (if length (container_names p) \<le> 1 then []
     else (''('' @ utf8 [0x8BE5] @ '' Pod ''
    @ utf8 [0x8FD8, 0x6709, 0x5176, 0x4ED6, 0x5BB9, 0x5668] @ '',''
    @ utf8 [0x53EF, 0x6307, 0x5B9A] @ '' container '' @ utf8 [0x67E5, 0x770B, 0xFF1A]) @ join '', '' (container_names p) @ '')'')"

definition container_has_restarted :: "pod \<Rightarrow> string \<Rightarrow> bool" where
  "container_has_restarted p container =
    (case find (\<lambda>s. cst_name s = container) (po_statuses p @ po_init_statuses p) of
       None \<Rightarrow> False
     | Some s \<Rightarrow> 0 < cst_restarts s \<or> cst_last_terminated s \<noteq> None)"

text \<open>One byte more than the bound is read of the stream, to see whether it was cut.\<close>

definition read_container_log :: "kube_api \<Rightarrow> string \<Rightarrow> string \<Rightarrow> string \<Rightarrow> bool \<Rightarrow> (string \<times> bool) go_result" where
  "read_container_log api ns name container previous =
    (case ka_log api ns name container previous 120 max_log_size of
       Inl e \<Rightarrow> Inl (ErrWrap ''failed to read pod logs: '' e)
     | Inr (stream, fault) \<Rightarrow>
        if max_log_size < length stream then Inr (take max_log_size stream, True)
        else (case fault of
          Some e \<Rightarrow> Inl (ErrWrap ''failed to read pod log stream: '' e)
        | None \<Rightarrow> Inr (stream, False)))"

text \<open>The log of the previous instance, when the container has restarted and it can be read.\<close>

definition previous_log :: "kube_api \<Rightarrow> string \<Rightarrow> string \<Rightarrow> string \<Rightarrow> pod \<Rightarrow> string \<times> bool" where
  "previous_log api ns name container p =
    (if container_has_restarted p container then
       (case read_container_log api ns name container True of Inl _ \<Rightarrow> ([], False) | Inr x \<Rightarrow> x)
     else ([], False))"

definition log_observation :: "string \<Rightarrow> string \<Rightarrow> string \<Rightarrow> pod \<Rightarrow> string \<times> bool \<Rightarrow> string \<times> bool \<Rightarrow> string" where
  "log_observation ns name container p tail_log prev =
    ''Pod '' @ ns @ ''/'' @ name @ ('' '' @ utf8 [0x5BB9, 0x5668] @ '' '') @ container @ ('' '' @ utf8 [0x6700, 0x8FD1] @ '' '') @ itoa (int (count_lines (fst tail_log))) @ ('' '' @ utf8 [0x884C, 0x65E5, 0x5FD7, 0xFF1A])
    @ (if trim_space (fst tail_log) = [] then (utf8 [0xFF08, 0x65E0, 0x65E5, 0x5FD7, 0x8F93, 0x51FA, 0xFF09]) else [CHR 0x0A] @ truncate_text (fst tail_log) 1800)
    @ (if snd tail_log then (utf8 [0xA] @ ''[''
    @ utf8 [0x6CE8, 0x610F, 0xFF1A, 0x65E5, 0x5FD7, 0x56E0, 0x4F53, 0x91CF, 0x8D85, 0x9650,
      0x5DF2, 0x88AB, 0x622A, 0x65AD] @ '',''
    @ utf8 [0x4EC5, 0x542B, 0x6700, 0x8FD1, 0x90E8, 0x5206] @ '']'') else [])
    @ (if fst prev \<noteq> [] then (utf8 [0xA, 0xA] @ ''['' @ utf8 [0x4E0A, 0x4E00, 0x5B9E, 0x4F8B] @ ''(''
    @ utf8 [0x5D29, 0x6E83, 0x524D] @ '')'' @ utf8 [0x65E5, 0x5FD7] @ '']''
    @ utf8 [0xFF1A, 0xA]) @ truncate_text (fst prev) 1800
         @ (if snd prev then (utf8 [0xA] @ ''[''
    @ utf8 [0x6CE8, 0x610F, 0xFF1A, 0x4E0A, 0x4E00, 0x5B9E, 0x4F8B, 0x65E5, 0x5FD7, 0x56E0,
      0x4F53, 0x91CF, 0x8D85, 0x9650, 0x5DF2, 0x88AB, 0x622A, 0x65AD] @ '']'') else []) else [])
    @ (if other_container_hint p \<noteq> [] then [CHR 0x0A, CHR 0x0A] @ other_container_hint p else [])"

definition log_result :: "kube_env \<Rightarrow> string \<Rightarrow> string \<Rightarrow> string \<Rightarrow> pod \<Rightarrow> string \<times> bool \<Rightarrow> string \<times> bool \<Rightarrow> kube_result" where
  "log_result env ns name container p tail_log prev =
    (let n = count_lines (fst tail_log);
         summary = (utf8 [0x8BFB, 0x53D6] @ '' Pod '') @ ns @ ''/'' @ name @ ('' '' @ utf8 [0x5BB9, 0x5668] @ '' '') @ container @ ('' '' @ utf8 [0x6700, 0x8FD1] @ '' '') @ itoa (int n) @ ('' '' @ utf8 [0x884C, 0x65E5, 0x5FD7, 0x3002]);
         payload = \<lparr>lp_namespace = ns, lp_name = name, lp_container = container, lp_line_count = n, lp_tail = fst tail_log,
           lp_available = container_names p, lp_previous = (if fst prev \<noteq> [] then Some (fst prev) else None),
           lp_truncated = (snd tail_log \<or> snd prev)\<rparr>
     in result_with_observation summary (log_observation ns name container p tail_log prev)
          (new_evidence env (core_source ''log'' ''PodLog'') ns name [] summary (kn_log env payload) True))"

definition tail_pod_log :: "kube_env \<Rightarrow> kube_api \<Rightarrow> agent_scope \<Rightarrow> kube_result go_result" where
  "tail_pod_log env api scope = (case namespaced_name scope ''pod'' of
     Inl e \<Rightarrow> Inl e
   | Inr (ns, name) \<Rightarrow> (case wrap_error ''failed to get pod before reading logs: '' (ka_pod api ns name) of
       Inl e \<Rightarrow> Inl e
     | Inr p \<Rightarrow>
        if trim_space (sc_container scope) = [] \<and> po_containers p = [] then Inl (ErrMsg ''pod has no container'')
        else
          (let container = (if trim_space (sc_container scope) = [] then hd (po_containers p) else trim_space (sc_container scope)) in
           case read_container_log api ns name container False of
             Inl e \<Rightarrow> Inl e
           | Inr tail_log \<Rightarrow> Inr (log_result env ns name container p tail_log (previous_log api ns name container p)))))"

section \<open>Nodes\<close>

definition node_ready_status :: "kube_node \<Rightarrow> string" where
  "node_ready_status n = (case find (\<lambda>c. cd_type c = ''Ready'') (nd_conditions n) of
     None \<Rightarrow> ''Unknown''
   | Some c \<Rightarrow> if cd_status c = ''True'' then ''Ready'' else ''NotReady:'' @ cd_reason c)"

definition node_node_summary :: "kube_node \<Rightarrow> string" where
  "node_node_summary n = join ''; '' (map (\<lambda>c. cd_type c @ ''='' @ cd_status c @ ''('' @ cd_reason c @ '')'')
     (filter (\<lambda>c. cd_status c = ''True'' \<or> cd_type c = ''Ready'') (nd_conditions n)))"

definition node_summary :: "kube_node \<Rightarrow> evidence_summary" where
  "node_summary n = summary_of ''Node'' [] (ko_name n) (node_ready_status n) (node_node_summary n)
     [(''kubelet_version'', ExText (nd_kubelet n)), (''os_image'', ExText (nd_os_image n))]"

definition list_nodes :: "kube_env \<Rightarrow> kube_api \<Rightarrow> kube_result go_result option" where
  "list_nodes env api = on_list (list_all_pages ''failed to list nodes: '' (ka_nodes api)) (\<lambda>ns short.
    (let not_ready = length (filter (\<lambda>n. node_ready_status n \<noteq> ''Ready'') ns);
         summary = (utf8 [0x8BFB, 0x53D6, 0x5230] @ '' '') @ itoa (int (length ns)) @ ('' '' @ utf8 [0x4E2A] @ '' Node'' @ utf8 [0xFF0C, 0x5176, 0x4E2D] @ '' '') @ itoa (int not_ready) @ ('' '' @ utf8 [0x4E2A, 0x4E0D, 0x662F] @ '' Ready'' @ utf8 [0x3002]) @ truncation_note short
     in list_result env summary (map node_summary ns) (core_source ''node'' ''Node'') [] ''node-list''))"

definition build_node_observation :: "kube_node \<Rightarrow> string \<Rightarrow> string" where
  "build_node_observation n st = ''Node '' @ ko_name n @ ('' '' @ utf8 [0x72B6, 0x6001] @ '' '') @ st @ (utf8 [0xFF0C] @ ''kubelet='') @ nd_kubelet n
     @ concat (map (\<lambda>c. if cd_type c = ''Ready'' \<or> cd_status c = ''True''
         then [CHR 0x0A] @ ''- '' @ cd_type c @ ''='' @ cd_status c @ '' reason='' @ cd_reason c @ '' '' @ truncate_text (cd_message c) 120 else [])
         (nd_conditions n))
     @ (if nd_taints n = [] then [] else (utf8 [0xA] @ ''- '' @ utf8 [0x6C61, 0x70B9] @ '': '') @ join '', '' (map (\<lambda>(k, v, eff). k @ ''='' @ v @ '':'' @ eff) (nd_taints n)))"

definition get_node :: "kube_env \<Rightarrow> kube_api \<Rightarrow> agent_scope \<Rightarrow> kube_result go_result" where
  "get_node env api scope =
    (if trim_space (sc_name scope) = [] then Inl (ErrMsg ''node name is required'')
     else case wrap_error ''failed to get node: '' (ka_node api (trim_space (sc_name scope))) of
       Inl e \<Rightarrow> Inl e
     | Inr n \<Rightarrow>
        (let st = node_ready_status n;
             summary = ''Node '' @ ko_name n @ ('' '' @ utf8 [0x5F53, 0x524D, 0x72B6, 0x6001, 0x4E3A] @ '' '') @ st @ (utf8 [0x3002]) @ node_node_summary n
         in Inr (result_with_observation summary (build_node_observation n st)
              (object_evidence env (core_source ''node'' ''Node'') [] (ko_name n) (ko_version n) summary (ko_json n) False))))"

section \<open>Workloads\<close>

definition deployment_summary :: "workload \<Rightarrow> string" where
  "deployment_summary w = ''Deployment '' @ ko_namespace w @ ''/'' @ ko_name w @ '' replicas='' @ itoa (wl_desired w) @ '' ready='' @ itoa (wl_ready w)
     @ '' updated='' @ itoa (wl_updated w) @ '' available='' @ itoa (wl_available w) @ (utf8 [0x3002])"

definition stateful_set_summary :: "workload \<Rightarrow> string" where
  "stateful_set_summary w = ''StatefulSet '' @ ko_namespace w @ ''/'' @ ko_name w @ '' replicas='' @ itoa (wl_desired w) @ '' ready='' @ itoa (wl_ready w)
     @ '' updated='' @ itoa (wl_updated w) @ '' current='' @ itoa (wl_current w) @ (utf8 [0x3002])"

definition daemon_set_summary :: "workload \<Rightarrow> string" where
  "daemon_set_summary w = ''DaemonSet '' @ ko_namespace w @ ''/'' @ ko_name w @ '' desired='' @ itoa (wl_desired w) @ '' ready='' @ itoa (wl_ready w)
     @ '' available='' @ itoa (wl_available w) @ '' updated='' @ itoa (wl_updated w) @ (utf8 [0x3002])"

record workload_info =
  wf_object :: workload
  wf_summary :: string
  wf_event_kind :: string

definition fetch_workload :: "kube_api \<Rightarrow> string \<Rightarrow> string \<Rightarrow> string \<Rightarrow> workload_info go_result" where
  "fetch_workload api kind ns name =
    (let found = (\<lambda>text event_kind r. case wrap_error (''failed to get '' @ kind @ '': '') r of
           Inl e \<Rightarrow> Inl e
         | Inr w \<Rightarrow> Inr \<lparr>wf_object = w, wf_summary = text w, wf_event_kind = event_kind\<rparr>) in
     if kind = ''deployment'' then found deployment_summary ''Deployment'' (ka_deployment api ns name)
     else if kind = ''statefulset'' then found stateful_set_summary ''StatefulSet'' (ka_statefulset api ns name)
     else if kind = ''daemonset'' then found daemon_set_summary ''DaemonSet'' (ka_daemonset api ns name)
     else Inl (ErrMsg (''unsupported workload kind '' @ kind)))"

definition workload_list_summary :: "string \<Rightarrow> workload \<Rightarrow> evidence_summary" where
  "workload_list_summary kind w = summary_of kind (ko_namespace w) (ko_name w) (itoa (wl_ready w) @ ''/'' @ itoa (wl_desired w) @ '' ready'') [] []"

definition list_workload_summaries :: "kube_api \<Rightarrow> string \<Rightarrow> string \<Rightarrow> (evidence_summary list \<times> bool) go_result option" where
  "list_workload_summaries api ns kind0 =
    (let kind = normalize_workload_kind kind0;
         listed = (\<lambda>event_kind page. on_list (list_all_pages (''failed to list '' @ kind @ ''s: '') page)
           (\<lambda>ws short. (map (workload_list_summary event_kind) ws, short))) in
     if kind = ''deployment'' then listed ''Deployment'' (ka_deployments api ns)
     else if kind = ''statefulset'' then listed ''StatefulSet'' (ka_statefulsets api ns)
     else if kind = ''daemonset'' then listed ''DaemonSet'' (ka_daemonsets api ns)
     else Some (Inl (ErrMsg (''unsupported workload kind '' @ kind0))))"

fun collect_workloads :: "kube_api \<Rightarrow> string \<Rightarrow> string list \<Rightarrow> (evidence_summary list \<times> bool) go_result option" where
  "collect_workloads api ns [] = Some (Inr ([], False))"
| "collect_workloads api ns (k # ks) = (case list_workload_summaries api ns k of
     None \<Rightarrow> None
   | Some (Inl e) \<Rightarrow> Some (Inl e)
   | Some (Inr (xs, short)) \<Rightarrow> on_list (collect_workloads api ns ks) (\<lambda>ys more_cut. (xs @ ys, short \<or> more_cut)))"

definition workload_source :: "string \<Rightarrow> string \<Rightarrow> evidence_source" where
  "workload_source kind resource_kind = \<lparr>eu_kind = kind, eu_group = ''apps'', eu_version = ''v1'', eu_resource_kind = resource_kind\<rparr>"

definition list_workloads :: "kube_env \<Rightarrow> kube_api \<Rightarrow> agent_scope \<Rightarrow> kube_result go_result option" where
  "list_workloads env api scope =
    on_list (collect_workloads api (namespace_or_all (sc_namespace scope)) [''deployment'', ''statefulset'', ''daemonset'']) (\<lambda>items short.
      list_result env ((utf8 [0x8BFB, 0x53D6, 0x5230] @ '' '') @ itoa (int (length items)) @ ('' '' @ utf8 [0x4E2A, 0x5DE5, 0x4F5C, 0x8D1F, 0x8F7D, 0x3002]) @ truncation_note short) items
        (workload_source ''workload'' ''Workload'') (sc_namespace scope) ''workload-list'')"

definition list_workloads_by_kind :: "kube_env \<Rightarrow> kube_api \<Rightarrow> agent_scope \<Rightarrow> string \<Rightarrow> kube_result go_result option" where
  "list_workloads_by_kind env api scope kind0 =
    (let kind = normalize_workload_kind kind0; resource_kind = workload_kind_to_event_kind kind in
     on_list (list_workload_summaries api (namespace_or_all (sc_namespace scope)) kind) (\<lambda>items short.
       list_result env ((utf8 [0x8BFB, 0x53D6, 0x5230] @ '' '') @ itoa (int (length items)) @ ('' '' @ utf8 [0x4E2A] @ '' '') @ resource_kind @ (utf8 [0x3002]) @ truncation_note short) items
         (workload_source kind resource_kind) (sc_namespace scope) (kind @ ''-list'')))"

definition get_workload_by_kind :: "kube_env \<Rightarrow> kube_api \<Rightarrow> agent_scope \<Rightarrow> string \<Rightarrow> bool \<Rightarrow> kube_result go_result option" where
  "get_workload_by_kind env api scope kind list_all_on_empty =
    (let ns = namespace_or_default (sc_namespace scope); name = trim_space (sc_name scope) in
     if name = [] then
       (if \<not> list_all_on_empty then list_workloads_by_kind env api scope kind else list_workloads env api scope)
     else Some (case fetch_workload api kind ns name of
       Inl e \<Rightarrow> Inl e
     | Inr info \<Rightarrow> Inr (result_with_evidence (wf_summary info)
         (object_evidence env (workload_source (if list_all_on_empty then ''workload'' else kind) (wf_event_kind info)) ns name
            (ko_version (wf_object info)) (wf_summary info) (ko_json (wf_object info)) False))))"

definition get_workload :: "kube_env \<Rightarrow> kube_api \<Rightarrow> agent_scope \<Rightarrow> kube_result go_result option" where
  "get_workload env api scope = get_workload_by_kind env api scope (normalize_workload_kind (sc_kind scope)) True"

definition get_typed_workload :: "kube_env \<Rightarrow> kube_api \<Rightarrow> agent_scope \<Rightarrow> string \<Rightarrow> kube_result go_result option" where
  "get_typed_workload env api scope kind0 = (let kind = normalize_workload_kind kind0 in
     get_workload_by_kind env api (with_workload_kind scope kind) kind False)"

definition selector_text :: "kube_api \<Rightarrow> string go_result option \<Rightarrow> string go_result" where
  "selector_text api s = (case s of None \<Rightarrow> Inr (ka_nothing api) | Some r \<Rightarrow> r)"

definition workload_selector :: "kube_api \<Rightarrow> agent_scope \<Rightarrow> (string \<times> string) go_result" where
  "workload_selector api scope =
    (let kind = normalize_workload_kind (sc_kind scope); ns = namespace_or_default (sc_namespace scope); name = trim_space (sc_name scope) in
     if name = [] then Inr (ka_everything api, namespace_or_all (sc_namespace scope))
     else case fetch_workload api kind ns name of
       Inl e \<Rightarrow> Inl e
     | Inr info \<Rightarrow> (case selector_text api (wl_selector (wf_object info)) of Inl e \<Rightarrow> Inl e | Inr s \<Rightarrow> Inr (s, ns)))"

definition list_workload_pods :: "kube_env \<Rightarrow> kube_api \<Rightarrow> agent_scope \<Rightarrow> kube_result go_result option" where
  "list_workload_pods env api scope = (case workload_selector api scope of
     Inl e \<Rightarrow> Some (Inl e)
   | Inr (selector, ns) \<Rightarrow>
      on_list (list_all_pages ''failed to list workload pods: '' (ka_pods api ns selector))
        (\<lambda>ps short. pods_result env ((utf8 [0x8BFB, 0x53D6, 0x5230] @ '' '') @ workload_pod_summary_kind (sc_kind scope) @ ('' '' @ utf8 [0x5173, 0x8054] @ '' Pod '')) ('' '' @ utf8 [0x4E2A, 0xFF0C, 0x5176, 0x4E2D] @ '' '') ns ''workload-pod-list''
           (map workload_pod_summary ps) (unhealthy_pods ps) short))"

definition list_typed_workload_pods :: "kube_env \<Rightarrow> kube_api \<Rightarrow> agent_scope \<Rightarrow> string \<Rightarrow> kube_result go_result option" where
  "list_typed_workload_pods env api scope kind = list_workload_pods env api (with_workload_kind scope kind)"

end
