(* ===== verification/Kube_Resources.thy ===== *)
theory Kube_Resources
  imports Kube_Tools
begin

text \<open>
  The remaining tools over a cluster (\<^verbatim>\<open>agent/infrastructure/kubernetes/resources.go\<close>, \<^verbatim>\<open>describe.go\<close>):
  ConfigMaps, Services, Ingresses, volume claims, autoscalers and RBAC, the description of an object with its events, and the choice of
  the tool by its ID. The fields of an object that is not read are in its JSON; a map of strings is an association list, whose JSON
  does not depend on the order.
\<close>

section \<open>Objects\<close>

text \<open>A ConfigMap is marshalled after its values are masked, so its annotations are told apart.\<close>

record config_map =
  cm_namespace :: string
  cm_name :: string
  cm_version :: string
  cm_annotations :: "(string, string) gmap"
  cm_data :: "(string, string) gmap"
  cm_binary :: "(string, string) gmap"

record service_port =
  sq_port :: int
  sq_protocol :: string
  sq_target :: string
  sq_node_port :: int

record kube_service = kube_object +
  ks_type :: string
  ks_cluster_ip :: string
  ks_selector :: "(string, string) gmap"
  ks_ports :: "service_port list"

text \<open>The host of a rule and its paths, none without \<^verbatim>\<open>http\<close>; the backend of a path, if it is a service, with the port's name and number.\<close>

record kube_ingress = kube_object +
  ki_class :: "string option"
  ki_rules :: "(string \<times> (string \<times> (string \<times> string \<times> int) option) list option) list"
  ki_addresses :: "(string \<times> string) list"

record volume_claim = kube_object +
  vc_phase :: string
  vc_capacity :: "string option"
  vc_requested :: "string option"
  vc_class :: "string option"
  vc_volume :: string

text \<open>\<open>ha_metrics\<close> are the current metrics: for one of a resource, its name and its average utilisation, if any.\<close>

record autoscaler = kube_object +
  ha_target_kind :: string
  ha_target_name :: string
  ha_current :: int
  ha_desired :: int
  ha_min :: "int option"
  ha_max :: int
  ha_conditions :: "kube_condition list"
  ha_metrics :: "(string \<times> int option) option list"

record policy_rule =
  pu_groups :: "string list"
  pu_resources :: "string list"
  pu_verbs :: "string list"

record rbac_role = kube_object +
  rl_rules :: "policy_rule list"

text \<open>Subjects have a kind, a namespace and a name; a role reference a kind and a name.\<close>

record rbac_binding = kube_object +
  rb_role :: "string \<times> string"
  rb_subjects :: "(string \<times> string \<times> string) list"

record resource_api = kube_api +
  ka_config_maps :: "string \<Rightarrow> config_map list_page"
  ka_config_map :: "string \<Rightarrow> string \<Rightarrow> config_map go_result"
  ka_services :: "string \<Rightarrow> kube_service list_page"
  ka_service :: "string \<Rightarrow> string \<Rightarrow> kube_service go_result"
  ka_endpoints :: "string \<Rightarrow> string \<Rightarrow> (nat \<times> nat) list go_result"
  ka_ingresses :: "string \<Rightarrow> kube_ingress list_page"
  ka_ingress :: "string \<Rightarrow> string \<Rightarrow> kube_ingress go_result"
  ka_claims :: "string \<Rightarrow> volume_claim list_page"
  ka_claim :: "string \<Rightarrow> string \<Rightarrow> volume_claim go_result"
  ka_hpas :: "string \<Rightarrow> autoscaler list_page"
  ka_hpa :: "string \<Rightarrow> string \<Rightarrow> autoscaler go_result"
  ka_roles :: "string \<Rightarrow> rbac_role list_page"
  ka_role :: "string \<Rightarrow> string \<Rightarrow> rbac_role go_result"
  ka_cluster_roles :: "rbac_role list_page"
  ka_cluster_role :: "string \<Rightarrow> rbac_role go_result"
  ka_role_bindings :: "string \<Rightarrow> rbac_binding list_page"
  ka_role_binding :: "string \<Rightarrow> string \<Rightarrow> rbac_binding go_result"
  ka_cluster_role_bindings :: "rbac_binding list_page"
  ka_cluster_role_binding :: "string \<Rightarrow> rbac_binding go_result"

record resource_env = kube_env +
  kn_config_map :: "config_map \<Rightarrow> string"
  kn_scope_error :: "string \<Rightarrow> go_error"

text \<open>
  What every tool over a resource does: with no name it lists, otherwise it reads one object; \<open>ns\<close> is the namespace of the list.
\<close>

definition named_tool :: "agent_scope \<Rightarrow> 'r go_result option \<Rightarrow> (string \<Rightarrow> string \<Rightarrow> 'r go_result) \<Rightarrow> 'r go_result option" where
  "named_tool scope listed got = (if trim_space (sc_name scope) = [] then listed
     else Some (got (namespace_or_default (sc_namespace scope)) (trim_space (sc_name scope))))"

definition map_ok :: "('a \<Rightarrow> 'b) \<Rightarrow> 'a go_result \<Rightarrow> 'b go_result" where
  "map_ok f r = (case r of Inl e \<Rightarrow> Inl e | Inr x \<Rightarrow> Inr (f x))"

section \<open>ConfigMaps\<close>

definition sort_strings :: "string list \<Rightarrow> string list" where
  "sort_strings xs = sort_key (map byte_val) xs"

definition config_map_keys :: "config_map \<Rightarrow> string list" where
  "config_map_keys c = sort_strings (map fst (cm_data c) @ map (\<lambda>(k, v). k @ ''(binary)'') (cm_binary c))"

definition redact_config_map :: "config_map \<Rightarrow> config_map" where
  "redact_config_map c = c\<lparr>cm_data := map (\<lambda>(k, v). (k, ''<redacted>'')) (cm_data c), cm_binary := map (\<lambda>(k, v). (k, ''<redacted>'')) (cm_binary c)\<rparr>"

definition build_config_map_observation :: "string \<Rightarrow> string list \<Rightarrow> string" where
  "build_config_map_observation summary keys = (if keys = [] then summary
     else summary @ (utf8 [0x952E, 0x540D] @ '':'') @ join '', '' keys @ (utf8 [0x3002] @ ''(''
    @ utf8 [0x51FA, 0x4E8E, 0x5B89, 0x5168, 0x4E0D, 0x56DE, 0x5582, 0x53D6, 0x503C]
    @ '')''))"

definition list_config_maps :: "resource_env \<Rightarrow> resource_api \<Rightarrow> agent_scope \<Rightarrow> kube_result go_result option" where
  "list_config_maps env api scope =
    on_list (list_all_pages ''failed to list configmaps: '' (ka_config_maps api (namespace_or_all (sc_namespace scope)))) (\<lambda>cs short.
      list_result_truncated (kube_env.truncate env) ((utf8 [0x8BFB, 0x53D6, 0x5230] @ '' '') @ itoa (int (length cs)) @ ('' '' @ utf8 [0x4E2A] @ '' ConfigMap'' @ utf8 [0x3002]))
        (map (\<lambda>c. summary_of ''ConfigMap'' (cm_namespace c) (cm_name c) (itoa (int (length (cm_data c) + length (cm_binary c))) @ '' keys'') [] []) cs)
        short (core_source ''configmap'' ''ConfigMap'') (sc_namespace scope) ''configmap-list'')"

definition config_map_result :: "resource_env \<Rightarrow> config_map \<Rightarrow> kube_result" where
  "config_map_result env c =
    (let keys = config_map_keys c;
         summary = ''ConfigMap '' @ cm_namespace c @ ''/'' @ cm_name c @ ('' '' @ utf8 [0x542B] @ '' '') @ itoa (int (length keys)) @ ('' '' @ utf8 [0x4E2A, 0x952E, 0x3002])
     in result_with_observation summary (build_config_map_observation summary keys)
          (object_evidence (kube_env.truncate env) (core_source ''configmap'' ''ConfigMap'') (cm_namespace c) (cm_name c) (cm_version c) summary
             (kn_config_map env (redact_config_map c)) True))"

definition get_config_map :: "resource_env \<Rightarrow> resource_api \<Rightarrow> agent_scope \<Rightarrow> kube_result go_result option" where
  "get_config_map env api scope = named_tool scope (list_config_maps env api scope) (\<lambda>ns name.
     map_ok (config_map_result env) (wrap_error ''failed to get configmap: '' (ka_config_map api ns name)))"

section \<open>Services\<close>

definition service_port_text :: "service_port \<Rightarrow> string" where
  "service_port_text p = itoa (sq_port p) @ ''/'' @ sq_protocol p
     @ (if sq_target p \<noteq> [] \<and> sq_target p \<noteq> ''0'' then ''->'' @ sq_target p else [])
     @ (if sq_node_port p \<noteq> 0 then ''(node:'' @ itoa (sq_node_port p) @ '')'' else [])"

definition service_ports_text :: "kube_service \<Rightarrow> string" where
  "service_ports_text s = join '', '' (map service_port_text (ks_ports s))"

definition service_summary :: "kube_service \<Rightarrow> string" where
  "service_summary s = ''Service '' @ ko_namespace s @ ''/'' @ ko_name s @ '' type='' @ ks_type s @ '' clusterIP='' @ ks_cluster_ip s
     @ '' ports=['' @ service_ports_text s @ ('']'' @ utf8 [0x3002])"

definition endpoints_readiness :: "resource_api \<Rightarrow> kube_service \<Rightarrow> string" where
  "endpoints_readiness api s = (case ka_endpoints api (ko_namespace s) (ko_name s) of
     Inl _ \<Rightarrow> (''endpoints: ('' @ utf8 [0x65E0, 0x6CD5, 0x8BFB, 0x53D6] @ '',''
    @ utf8 [0x53EF, 0x80FD, 0x5C1A, 0x672A, 0x751F, 0x6210] @ '')'')
   | Inr subsets \<Rightarrow>
      (let ready = sum_list (map fst subsets); not_ready = sum_list (map snd subsets) in
       if ready = 0 \<and> not_ready = 0 then (''endpoints: 0 '' @ utf8 [0x4E2A, 0x540E, 0x7AEF, 0x5730, 0x5740] @ ''(''
    @ utf8 [0x65E0, 0x53EF, 0x7528] @ '' Pod,''
    @ utf8 [0x8BBF, 0x95EE, 0x5C06, 0x5931, 0x8D25] @ '')'')
       else (''endpoints: '' @ utf8 [0x5C31, 0x7EEA] @ '' '') @ itoa (int ready) @ ('' '' @ utf8 [0x4E2A] @ '','' @ utf8 [0x672A, 0x5C31, 0x7EEA] @ '' '') @ itoa (int not_ready) @ ('' '' @ utf8 [0x4E2A])))"

definition build_service_observation :: "resource_api \<Rightarrow> kube_service \<Rightarrow> string \<Rightarrow> string" where
  "build_service_observation api s summary = summary
     @ (if ks_selector s \<noteq> [] then [CHR 0x0A] @ ''selector: '' @ join '','' (sort_strings (map (\<lambda>(k, v). k @ ''='' @ v) (ks_selector s)))
        else (utf8 [0xA] @ ''selector: ('' @ utf8 [0x65E0] @ '',''
    @ utf8 [0x53EF, 0x80FD, 0x7531, 0x624B, 0x5DE5] @ '' Endpoints ''
    @ utf8 [0x63D0, 0x4F9B, 0x540E, 0x7AEF] @ '')''))
     @ [CHR 0x0A] @ endpoints_readiness api s"

definition list_services :: "resource_env \<Rightarrow> resource_api \<Rightarrow> agent_scope \<Rightarrow> kube_result go_result option" where
  "list_services env api scope =
    on_list (list_all_pages ''failed to list services: '' (ka_services api (namespace_or_all (sc_namespace scope)))) (\<lambda>ss short.
      list_result_truncated (kube_env.truncate env) ((utf8 [0x8BFB, 0x53D6, 0x5230] @ '' '') @ itoa (int (length ss)) @ ('' '' @ utf8 [0x4E2A] @ '' Service'' @ utf8 [0x3002]))
        (map (\<lambda>s. summary_of ''Service'' (ko_namespace s) (ko_name s) (ks_type s) (service_ports_text s) [(''cluster_ip'', ExText (ks_cluster_ip s))]) ss)
        short (core_source ''service'' ''Service'') (sc_namespace scope) ''service-list'')"

definition get_service :: "resource_env \<Rightarrow> resource_api \<Rightarrow> agent_scope \<Rightarrow> kube_result go_result option" where
  "get_service env api scope = named_tool scope (list_services env api scope) (\<lambda>ns name.
     map_ok (\<lambda>s. let summary = service_summary s in
         result_with_observation summary (build_service_observation api s summary)
           (object_evidence (kube_env.truncate env) (core_source ''service'' ''Service'') (ko_namespace s) (ko_name s) (ko_version s) summary (ko_json s) False))
       (wrap_error ''failed to get service: '' (ka_service api ns name)))"

section \<open>Ingresses\<close>

definition networking_source :: evidence_source where
  "networking_source = \<lparr>eu_kind = ''ingress'', eu_group = ''networking.k8s.io'', eu_version = ''v1'', eu_resource_kind = ''Ingress''\<rparr>"

definition ingress_hosts_text :: "kube_ingress \<Rightarrow> string" where
  "ingress_hosts_text i = join '', '' (filter (\<lambda>h. h \<noteq> []) (map fst (ki_rules i)))"

definition ingress_address :: "kube_ingress \<Rightarrow> string" where
  "ingress_address i = join '', '' (filter (\<lambda>a. a \<noteq> []) (map (\<lambda>(hostname, ip). if hostname \<noteq> [] then hostname else ip) (ki_addresses i)))"

definition ingress_summary :: "kube_ingress \<Rightarrow> string" where
  "ingress_summary i = ''Ingress '' @ ko_namespace i @ ''/'' @ ko_name i @ '' address=''
     @ (if ingress_address i = [] then (''('' @ utf8 [0x65E0, 0x8D1F, 0x8F7D, 0x5747, 0x8861, 0x5730, 0x5740] @ '')'') else ingress_address i) @ '' hosts=['' @ ingress_hosts_text i @ ('']'' @ utf8 [0x3002])"

definition ingress_port_name :: "string \<Rightarrow> int \<Rightarrow> string" where
  "ingress_port_name name number = (if name \<noteq> [] then name else itoa number)"

definition build_ingress_observation :: "kube_ingress \<Rightarrow> string \<Rightarrow> string" where
  "build_ingress_observation i summary = summary
     @ (case ki_class i of Some c \<Rightarrow> if c \<noteq> [] then [CHR 0x0A] @ ''class: '' @ c else [] | None \<Rightarrow> [])
     @ concat (map (\<lambda>(host, paths). case paths of None \<Rightarrow> [] | Some ps \<Rightarrow>
         concat (map (\<lambda>(path, backend). [CHR 0x0A] @ ''- '' @ host @ path @ '' -> ''
           @ (case backend of None \<Rightarrow> ''?'' | Some (svc, name, number) \<Rightarrow> svc @ '':'' @ ingress_port_name name number)) ps)) (ki_rules i))"

definition list_ingresses :: "resource_env \<Rightarrow> resource_api \<Rightarrow> agent_scope \<Rightarrow> kube_result go_result option" where
  "list_ingresses env api scope =
    on_list (list_all_pages ''failed to list ingresses: '' (ka_ingresses api (namespace_or_all (sc_namespace scope)))) (\<lambda>is short.
      list_result_truncated (kube_env.truncate env) ((utf8 [0x8BFB, 0x53D6, 0x5230] @ '' '') @ itoa (int (length is)) @ ('' '' @ utf8 [0x4E2A] @ '' Ingress'' @ utf8 [0x3002]))
        (map (\<lambda>i. summary_of ''Ingress'' (ko_namespace i) (ko_name i) (ingress_address i) (ingress_hosts_text i) []) is)
        short networking_source (sc_namespace scope) ''ingress-list'')"

definition get_ingress :: "resource_env \<Rightarrow> resource_api \<Rightarrow> agent_scope \<Rightarrow> kube_result go_result option" where
  "get_ingress env api scope = named_tool scope (list_ingresses env api scope) (\<lambda>ns name.
     map_ok (\<lambda>i. let summary = ingress_summary i in
         result_with_observation summary (build_ingress_observation i summary)
           (object_evidence (kube_env.truncate env) networking_source (ko_namespace i) (ko_name i) (ko_version i) summary (ko_json i) False))
       (wrap_error ''failed to get ingress: '' (ka_ingress api ns name)))"

section \<open>Volume claims\<close>

definition pvc_capacity_text :: "volume_claim \<Rightarrow> string" where
  "pvc_capacity_text v = (case vc_capacity v of Some q \<Rightarrow> q
     | None \<Rightarrow> (case vc_requested v of Some q \<Rightarrow> q @ ''(requested)'' | None \<Rightarrow> ''unknown''))"

definition pvc_storage_class :: "volume_claim \<Rightarrow> string" where
  "pvc_storage_class v = (case vc_class v of Some c \<Rightarrow> c | None \<Rightarrow> [])"

definition pvc_summary :: "volume_claim \<Rightarrow> string" where
  "pvc_summary v = ''PVC '' @ ko_namespace v @ ''/'' @ ko_name v @ '' phase='' @ vc_phase v @ '' capacity='' @ pvc_capacity_text v
     @ '' storageClass='' @ pvc_storage_class v @ '' volume='' @ vc_volume v @ (utf8 [0x3002])"

definition list_pvcs :: "resource_env \<Rightarrow> resource_api \<Rightarrow> agent_scope \<Rightarrow> kube_result go_result option" where
  "list_pvcs env api scope =
    on_list (list_all_pages ''failed to list pvcs: '' (ka_claims api (namespace_or_all (sc_namespace scope)))) (\<lambda>vs short.
      list_result_truncated (kube_env.truncate env) ((utf8 [0x8BFB, 0x53D6, 0x5230] @ '' '') @ itoa (int (length vs)) @ ('' '' @ utf8 [0x4E2A] @ '' PVC,'' @ utf8 [0x5176, 0x4E2D] @ '' '')
          @ itoa (int (length (filter (\<lambda>v. vc_phase v \<noteq> ''Bound'') vs))) @ ('' '' @ utf8 [0x4E2A, 0x672A] @ '' Bound'' @ utf8 [0x3002]))
        (map (\<lambda>v. summary_of ''PersistentVolumeClaim'' (ko_namespace v) (ko_name v) (vc_phase v) (pvc_capacity_text v)
           [(''storage_class'', ExText (pvc_storage_class v))]) vs)
        short (core_source ''pvc'' ''PersistentVolumeClaim'') (sc_namespace scope) ''pvc-list'')"

definition get_pvc :: "resource_env \<Rightarrow> resource_api \<Rightarrow> agent_scope \<Rightarrow> kube_result go_result option" where
  "get_pvc env api scope = named_tool scope (list_pvcs env api scope) (\<lambda>ns name.
     map_ok (\<lambda>v. let summary = pvc_summary v in
         result_with_observation summary summary
           (object_evidence (kube_env.truncate env) (core_source ''pvc'' ''PersistentVolumeClaim'') (ko_namespace v) (ko_name v) (ko_version v)
              summary (ko_json v) False))
       (wrap_error ''failed to get pvc: '' (ka_claim api ns name)))"

section \<open>Autoscalers\<close>

definition hpa_source :: evidence_source where
  "hpa_source = \<lparr>eu_kind = ''hpa'', eu_group = ''autoscaling'', eu_version = ''v2'', eu_resource_kind = ''HorizontalPodAutoscaler''\<rparr>"

definition hpa_min_replicas :: "autoscaler \<Rightarrow> int" where
  "hpa_min_replicas h = (case ha_min h of Some n \<Rightarrow> n | None \<Rightarrow> 1)"

definition hpa_summary :: "autoscaler \<Rightarrow> string" where
  "hpa_summary h = ''HPA '' @ ko_namespace h @ ''/'' @ ko_name h @ ('' '' @ utf8 [0x76EE, 0x6807] @ ''='') @ ha_target_kind h @ ''/'' @ ha_target_name h
     @ ('' '' @ utf8 [0x5F53, 0x524D, 0x526F, 0x672C] @ ''='') @ itoa (ha_current h) @ ('' '' @ utf8 [0x671F, 0x671B, 0x526F, 0x672C] @ ''='') @ itoa (ha_desired h) @ ('' '' @ utf8 [0x8303, 0x56F4] @ ''=['') @ itoa (hpa_min_replicas h) @ '','' @ itoa (ha_max h) @ ('']'' @ utf8 [0x3002])"

definition build_hpa_observation :: "autoscaler \<Rightarrow> string \<Rightarrow> string" where
  "build_hpa_observation h summary = summary
     @ concat (map (\<lambda>c. [CHR 0x0A] @ ''- '' @ cd_type c @ ''='' @ cd_status c @ '' reason='' @ cd_reason c @ '' '' @ truncate_text (cd_message c) 160)
         (ha_conditions h))
     @ concat (map (\<lambda>m. case m of Some (name, Some n) \<Rightarrow> (utf8 [0xA] @ ''- '' @ utf8 [0x6307, 0x6807] @ '' '') @ name @ ('' '' @ utf8 [0x5F53, 0x524D, 0x5229, 0x7528, 0x7387] @ ''='') @ itoa n @ ''%'' | _ \<Rightarrow> []) (ha_metrics h))"

definition list_hpas :: "resource_env \<Rightarrow> resource_api \<Rightarrow> agent_scope \<Rightarrow> kube_result go_result option" where
  "list_hpas env api scope =
    on_list (list_all_pages ''failed to list hpas: '' (ka_hpas api (namespace_or_all (sc_namespace scope)))) (\<lambda>hs short.
      list_result_truncated (kube_env.truncate env) ((utf8 [0x8BFB, 0x53D6, 0x5230] @ '' '') @ itoa (int (length hs)) @ ('' '' @ utf8 [0x4E2A] @ '' HPA'' @ utf8 [0x3002]))
        (map (\<lambda>h. summary_of ''HorizontalPodAutoscaler'' (ko_namespace h) (ko_name h)
           (itoa (ha_current h) @ ''/'' @ itoa (ha_desired h) @ '' replicas'') (''target='' @ ha_target_kind h @ ''/'' @ ha_target_name h)
           [(''min_replicas'', ExNumber (hpa_min_replicas h)), (''max_replicas'', ExNumber (ha_max h))]) hs)
        short hpa_source (sc_namespace scope) ''hpa-list'')"

definition get_hpa :: "resource_env \<Rightarrow> resource_api \<Rightarrow> agent_scope \<Rightarrow> kube_result go_result option" where
  "get_hpa env api scope = named_tool scope (list_hpas env api scope) (\<lambda>ns name.
     map_ok (\<lambda>h. let summary = hpa_summary h in
         result_with_observation summary (build_hpa_observation h summary)
           (object_evidence (kube_env.truncate env) hpa_source (ko_namespace h) (ko_name h) (ko_version h) summary (ko_json h) False))
       (wrap_error ''failed to get hpa: '' (ka_hpa api ns name)))"

section \<open>RBAC\<close>

definition rbac_source :: "string \<Rightarrow> evidence_source" where
  "rbac_source rk = \<lparr>eu_kind = ''rbac'', eu_group = ''rbac.authorization.k8s.io'', eu_version = ''v1'', eu_resource_kind = rk\<rparr>"

definition normalize_rbac_kind :: "string \<Rightarrow> string" where
  "normalize_rbac_kind kind0 = (let kind = to_lower (trim_space kind0) in
     if kind \<in> {''role'', ''roles''} then ''role''
     else if kind \<in> {''clusterrole'', ''clusterroles''} then ''clusterrole''
     else if kind \<in> {''rolebinding'', ''rolebindings''} then ''rolebinding''
     else if kind \<in> {''clusterrolebinding'', ''clusterrolebindings''} then ''clusterrolebinding''
     else kind)"

definition go_list_text :: "string list \<Rightarrow> string" where
  "go_list_text xs = ''['' @ join '' '' xs @ '']''"

definition policy_rule_text :: "policy_rule \<Rightarrow> string" where
  "policy_rule_text r = ''- apiGroups='' @ go_list_text (pu_groups r) @ '' resources='' @ go_list_text (pu_resources r) @ '' verbs='' @ go_list_text (pu_verbs r)"

definition policy_rules_text :: "policy_rule list \<Rightarrow> string" where
  "policy_rules_text rules = (if rules = [] then (''('' @ utf8 [0x65E0, 0x6743, 0x9650, 0x89C4, 0x5219] @ '')'')
     else join [CHR 0x0A] (map policy_rule_text (take default_list_limit rules)
       @ (if default_list_limit < length rules then [(utf8 [0x2026] @ ''('' @ utf8 [0x5171] @ '' '') @ itoa (int (length rules)) @ ('' '' @ utf8 [0x6761, 0x89C4, 0x5219] @ '',''
    @ utf8 [0x5DF2, 0x7701, 0x7565, 0x5176, 0x4F59] @ '')'')] else [])))"

definition role_ref_text :: "string \<times> string \<Rightarrow> string" where
  "role_ref_text r = fst r @ ''/'' @ snd r"

definition subjects_text :: "(string \<times> string \<times> string) list \<Rightarrow> string" where
  "subjects_text ss = (if ss = [] then (''('' @ utf8 [0x65E0, 0x4E3B, 0x4F53] @ '')'')
     else join '', '' (map (\<lambda>(kind, ns, name). if ns \<noteq> [] then kind @ '':'' @ ns @ ''/'' @ name else kind @ '':'' @ name) ss))"

text \<open>
  The four kinds, two of them of a namespace. \<open>ns\<close> is the namespace of the evidence of a list, and \<open>shown\<close> the name
  of an object with its namespace, if it has one.
\<close>

definition list_roles :: "resource_env \<Rightarrow> string \<Rightarrow> string \<Rightarrow> (rbac_role \<Rightarrow> string) \<Rightarrow> (rbac_role list \<times> bool) go_result option
    \<Rightarrow> kube_result go_result option" where
  "list_roles env kind ns namespace listed = on_list listed (\<lambda>rs short.
     list_result_truncated (kube_env.truncate env) ((utf8 [0x8BFB, 0x53D6, 0x5230] @ '' '') @ itoa (int (length rs)) @ ('' '' @ utf8 [0x4E2A] @ '' '') @ kind @ (utf8 [0x3002]))
       (map (\<lambda>r. summary_of kind (namespace r) (ko_name r) (itoa (int (length (rl_rules r))) @ '' rules'') [] []) rs)
       short (rbac_source kind) ns (to_lower kind @ ''-list''))"

definition role_result :: "resource_env \<Rightarrow> string \<Rightarrow> string \<Rightarrow> string \<Rightarrow> rbac_role \<Rightarrow> kube_result" where
  "role_result env kind ns shown r =
    (let summary = kind @ '' '' @ shown @ ('' '' @ utf8 [0x542B] @ '' '') @ itoa (int (length (rl_rules r))) @ ('' '' @ utf8 [0x6761, 0x6743, 0x9650, 0x89C4, 0x5219, 0x3002])
     in result_with_observation summary (summary @ [CHR 0x0A] @ policy_rules_text (rl_rules r))
          (object_evidence (kube_env.truncate env) (rbac_source kind) ns (ko_name r) (ko_version r) summary (ko_json r) False))"

definition get_role :: "resource_env \<Rightarrow> resource_api \<Rightarrow> agent_scope \<Rightarrow> kube_result go_result option" where
  "get_role env api scope = named_tool scope
     (list_roles env ''Role'' (sc_namespace scope) ko_namespace (list_all_pages ''failed to list roles: '' (ka_roles api (namespace_or_all (sc_namespace scope)))))
     (\<lambda>ns name. map_ok (\<lambda>r. role_result env ''Role'' (ko_namespace r) (ko_namespace r @ ''/'' @ ko_name r) r)
       (wrap_error ''failed to get role: '' (ka_role api ns name)))"

definition get_cluster_role :: "resource_env \<Rightarrow> resource_api \<Rightarrow> agent_scope \<Rightarrow> kube_result go_result option" where
  "get_cluster_role env api scope = named_tool scope
     (list_roles env ''ClusterRole'' [] (\<lambda>r. []) (list_all_pages ''failed to list clusterroles: '' (ka_cluster_roles api)))
     (\<lambda>ns name. map_ok (\<lambda>r. role_result env ''ClusterRole'' [] (ko_name r) r)
       (wrap_error ''failed to get clusterrole: '' (ka_cluster_role api name)))"

definition list_bindings :: "resource_env \<Rightarrow> string \<Rightarrow> string \<Rightarrow> (rbac_binding \<Rightarrow> string) \<Rightarrow> (rbac_binding list \<times> bool) go_result option
    \<Rightarrow> kube_result go_result option" where
  "list_bindings env kind ns namespace listed = on_list listed (\<lambda>bs short.
     list_result_truncated (kube_env.truncate env) ((utf8 [0x8BFB, 0x53D6, 0x5230] @ '' '') @ itoa (int (length bs)) @ ('' '' @ utf8 [0x4E2A] @ '' '') @ kind @ (utf8 [0x3002]))
       (map (\<lambda>b. summary_of kind (namespace b) (ko_name b) (role_ref_text (rb_role b)) (subjects_text (rb_subjects b)) []) bs)
       short (rbac_source kind) ns (to_lower kind @ ''-list''))"

definition binding_result :: "resource_env \<Rightarrow> string \<Rightarrow> string \<Rightarrow> string \<Rightarrow> rbac_binding \<Rightarrow> kube_result" where
  "binding_result env kind ns shown b =
    (let summary = kind @ '' '' @ shown @ '' -> '' @ role_ref_text (rb_role b) @ ('','' @ utf8 [0x4E3B, 0x4F53] @ '':'') @ subjects_text (rb_subjects b) @ (utf8 [0x3002])
     in result_with_observation summary summary
          (object_evidence (kube_env.truncate env) (rbac_source kind) ns (ko_name b) (ko_version b) summary (ko_json b) False))"

definition get_role_binding :: "resource_env \<Rightarrow> resource_api \<Rightarrow> agent_scope \<Rightarrow> kube_result go_result option" where
  "get_role_binding env api scope = named_tool scope
     (list_bindings env ''RoleBinding'' (sc_namespace scope) ko_namespace
        (list_all_pages ''failed to list rolebindings: '' (ka_role_bindings api (namespace_or_all (sc_namespace scope)))))
     (\<lambda>ns name. map_ok (\<lambda>b. binding_result env ''RoleBinding'' (ko_namespace b) (ko_namespace b @ ''/'' @ ko_name b) b)
       (wrap_error ''failed to get rolebinding: '' (ka_role_binding api ns name)))"

definition get_cluster_role_binding :: "resource_env \<Rightarrow> resource_api \<Rightarrow> agent_scope \<Rightarrow> kube_result go_result option" where
  "get_cluster_role_binding env api scope = named_tool scope
     (list_bindings env ''ClusterRoleBinding'' [] (\<lambda>b. []) (list_all_pages ''failed to list clusterrolebindings: '' (ka_cluster_role_bindings api)))
     (\<lambda>ns name. map_ok (\<lambda>b. binding_result env ''ClusterRoleBinding'' [] (ko_name b) b)
       (wrap_error ''failed to get clusterrolebinding: '' (ka_cluster_role_binding api name)))"

definition get_rbac :: "resource_env \<Rightarrow> resource_api \<Rightarrow> agent_scope \<Rightarrow> kube_result go_result option" where
  "get_rbac env api scope = (let kind = normalize_rbac_kind (sc_kind scope) in
     if kind = ''role'' then get_role env api scope
     else if kind = ''clusterrole'' then get_cluster_role env api scope
     else if kind = ''rolebinding'' then get_role_binding env api scope
     else if kind = ''clusterrolebinding'' then get_cluster_role_binding env api scope
     else Some (Inl (ErrMsg (''unsupported rbac kind '' @ quoted (sc_kind scope)))))"

section \<open>Descriptions\<close>

definition normalize_describe_kind :: "string \<Rightarrow> string" where
  "normalize_describe_kind kind0 = (let kind = to_lower (trim_space kind0) in
     if kind \<in> {''deploy'', ''deployment'', ''deployments''} then ''deployment''
     else if kind \<in> {''sts'', ''statefulset'', ''statefulsets''} then ''statefulset''
     else if kind \<in> {''ds'', ''daemonset'', ''daemonsets''} then ''daemonset''
     else if kind \<in> {''svc'', ''service'', ''services''} then ''service''
     else if kind \<in> {''ing'', ''ingress'', ''ingresses''} then ''ingress''
     else if kind \<in> {''pvc'', ''persistentvolumeclaim'', ''persistentvolumeclaims''} then ''pvc''
     else if kind \<in> {''hpa'', ''horizontalpodautoscaler'', ''horizontalpodautoscalers''} then ''hpa''
     else if kind \<in> {''cm'', ''configmap'', ''configmaps''} then ''configmap''
     else if kind \<in> {''po'', ''pod'', ''pods''} then ''pod''
     else if kind \<in> {''no'', ''node'', ''nodes''} then ''node''
     else kind)"

text \<open>The object itself, and the kind its events regard.\<close>

definition describe_base :: "resource_env \<Rightarrow> resource_api \<Rightarrow> string \<Rightarrow> agent_scope \<Rightarrow> kube_result go_result option \<times> string" where
  "describe_base env api kind scope =
    (let e = kube_env.truncate env; a = kube_api.truncate api in
     if kind = ''pod'' then (Some (get_pod e a scope), ''Pod'')
     else if kind = ''node'' then (Some (get_node e a scope), ''Node'')
     else if kind \<in> {''deployment'', ''statefulset'', ''daemonset''} then
       (get_workload e a (scope\<lparr>sc_kind := kind\<rparr>), workload_kind_to_event_kind kind)
     else if kind = ''service'' then (get_service env api scope, ''Service'')
     else if kind = ''ingress'' then (get_ingress env api scope, ''Ingress'')
     else if kind = ''pvc'' then (get_pvc env api scope, ''PersistentVolumeClaim'')
     else if kind = ''hpa'' then (get_hpa env api scope, ''HorizontalPodAutoscaler'')
     else if kind = ''configmap'' then (get_config_map env api scope, ''ConfigMap'')
     else (Some (Inl (ErrMsg ((''describe '' @ utf8 [0x6682, 0x4E0D, 0x652F, 0x6301, 0x8D44, 0x6E90, 0x7C7B, 0x578B]
    @ '' '') @ quoted (sc_kind scope)))), []))"

text \<open>Events that cannot be read do not make the description fail.\<close>

definition related_events :: "kube_env \<Rightarrow> kube_api \<Rightarrow> agent_scope \<Rightarrow> (string \<times> evidence_row list) option" where
  "related_events env api scope = map_option (\<lambda>r. case r of
     Inl _ \<Rightarrow> ((''('' @ utf8 [0x65E0, 0x6CD5, 0x8BFB, 0x53D6, 0x5173, 0x8054, 0x4E8B, 0x4EF6] @ '')''), [])
   | Inr (items, short) \<Rightarrow>
      if items = [] then ((''('' @ utf8 [0x65E0, 0x5173, 0x8054, 0x4E8B, 0x4EF6] @ '')''), [])
      else (observation_from_items ((utf8 [0x5171] @ '' '') @ itoa (int (length items)) @ ('' '' @ utf8 [0x6761] @ '':'')) items default_list_limit @ truncation_note short,
        [listed_evidence env event_source (sc_namespace scope) ''describe-events'' ((utf8 [0x5173, 0x8054, 0x4E8B, 0x4EF6] @ '' '') @ itoa (int (length items)) @ ('' '' @ utf8 [0x6761])) items]))
     (collect_event_summaries env api scope)"

definition event_scope :: "agent_scope \<Rightarrow> string \<Rightarrow> agent_scope" where
  "event_scope scope event_kind = \<lparr>sc_namespace = (if event_kind = ''Node'' then [] else sc_namespace scope), sc_kind = event_kind,
     sc_name = trim_space (sc_name scope), sc_container = []\<rparr>"

definition describe :: "resource_env \<Rightarrow> resource_api \<Rightarrow> agent_scope \<Rightarrow> kube_result go_result option" where
  "describe env api scope =
    (if trim_space (sc_name scope) = [] then Some (Inl (ErrMsg (''describe '' @ utf8 [0x9700, 0x8981, 0x6307, 0x5B9A] @ '' resource_name'')))
     else case describe_base env api (normalize_describe_kind (sc_kind scope)) scope of (r, event_kind) \<Rightarrow>
       (case r of
          None \<Rightarrow> None
        | Some (Inl e) \<Rightarrow> Some (Inl e)
        | Some (Inr base) \<Rightarrow> map_option (\<lambda>(text, ev).
            (let observation = (if trim_space (kr_observation base) = [] then kr_summary base else trim_space (kr_observation base)) in
             Inr \<lparr>kr_summary = kr_summary base, kr_observation = observation @ (utf8 [0xA, 0xA, 0x5173, 0x8054, 0x4E8B, 0x4EF6] @ '':'' @ utf8 [0xA]) @ text, kr_evidence = kr_evidence base @ ev\<rparr>))
            (related_events (kube_env.truncate env) (kube_api.truncate api) (event_scope scope event_kind))))"

section \<open>The choice of the tool\<close>

text \<open>\<open>client\<close> is what the factory gives for the cluster of the request.\<close>

definition kube_execute :: "resource_env \<Rightarrow> resource_api go_result \<Rightarrow> string \<Rightarrow> agent_scope \<Rightarrow> string \<Rightarrow> kube_result go_result option" where
  "kube_execute env client toolID scope0 arguments = (case client of
     Inl e \<Rightarrow> Some (Inl e)
   | Inr api \<Rightarrow> (case resolve_scope scope0 arguments of (scope, ok) \<Rightarrow>
      if \<not> ok then Some (Inl (ErrWrap ''invalid tool arguments: '' (kn_scope_error env arguments)))
      else
       (let e = kube_env.truncate env; a = kube_api.truncate api in
        if toolID = ''cluster.event.list'' then list_events e a scope
        else if toolID = ''cluster.pod.list'' then list_pods e a scope
        else if toolID = ''cluster.pod.get'' then Some (get_pod e a scope)
        else if toolID = ''cluster.pod.log.tail'' then Some (tail_pod_log e a scope)
        else if toolID = ''cluster.node.list'' then list_nodes e a
        else if toolID = ''cluster.node.get'' then Some (get_node e a scope)
        else if toolID = ''cluster.deployment.get'' then get_typed_workload e a scope ''deployment''
        else if toolID = ''cluster.deployment.pods'' then list_typed_workload_pods e a scope ''deployment''
        else if toolID = ''cluster.statefulset.get'' then get_typed_workload e a scope ''statefulset''
        else if toolID = ''cluster.statefulset.pods'' then list_typed_workload_pods e a scope ''statefulset''
        else if toolID = ''cluster.daemonset.get'' then get_typed_workload e a scope ''daemonset''
        else if toolID = ''cluster.daemonset.pods'' then list_typed_workload_pods e a scope ''daemonset''
        else if toolID = ''cluster.workload.get'' then get_workload e a scope
        else if toolID = ''cluster.workload.pods'' then list_workload_pods e a scope
        else if toolID = ''cluster.configmap.get'' then get_config_map env api scope
        else if toolID = ''cluster.service.get'' then get_service env api scope
        else if toolID = ''cluster.ingress.get'' then get_ingress env api scope
        else if toolID = ''cluster.pvc.get'' then get_pvc env api scope
        else if toolID = ''cluster.hpa.get'' then get_hpa env api scope
        else if toolID = ''cluster.rbac.get'' then get_rbac env api scope
        else if toolID = ''cluster.describe'' then describe env api scope
        else Some (Inl (ErrMsg (''unsupported tool '' @ toolID))))))"

end
