(* ===== verification/Kube_Reads.thy ===== *)
theory Kube_Reads
  imports Kube_Resources
begin

text \<open>
  What the tools that read a cluster show: lists are complete up to their bound and say so beyond it, the values of a ConfigMap reach
  neither the model nor the database, and the marks of a log that was cut.
\<close>

section \<open>Lists\<close>






text \<open>A server that gives an empty page and a token each time is asked for ever.\<close>

lemma paginate_empty_pages: "paginate (\<lambda>n c. Inr ([], ''x'')) = None"
proof -
  have blank: "trim_space ''x'' = ''x''" by code_simp
  have "\<not> (fetch = (\<lambda>n c. Inr ([], ''x'')) \<and> length acc < max_list_items)"
    if "paginate_from fetch acc c = Some r" for fetch and acc :: "'a list" and c r
    by (rule paginate_from.raw_induct [where P = "\<lambda>fetch acc c r. \<not> (fetch = (\<lambda>n c. Inr ([], ''x'')) \<and> length acc < max_list_items)",
        OF _ that]) (fastforce simp: Let_def blank split: if_splits)
  from this [of "\<lambda>n c. Inr ([], ''x'')" "[]" "[]"] show ?thesis
    by (cases "paginate (\<lambda>n c. Inr ([] :: 'a list, ''x''))") (auto simp: paginate_def)
qed









section \<open>The values of ConfigMaps\<close>

text \<open>The same server with the values of all ConfigMaps blanked.\<close>

definition blank_config_map :: "config_map \<Rightarrow> config_map" where
  "blank_config_map c = c\<lparr>cm_data := map (\<lambda>(k, v). (k, [])) (cm_data c), cm_binary := map (\<lambda>(k, v). (k, [])) (cm_binary c)\<rparr>"










lemma blank_config_map_fields [simp]:
  "cm_namespace (blank_config_map c) = cm_namespace c" "cm_name (blank_config_map c) = cm_name c"
  "cm_version (blank_config_map c) = cm_version c" "length (cm_data (blank_config_map c)) = length (cm_data c)"
  "length (cm_binary (blank_config_map c)) = length (cm_binary c)"
  by (simp_all add: blank_config_map_def)














text \<open>
  The annotations are kept, and with them the manifest that \<^verbatim>\<open>kubectl apply\<close> leaves in one of them, values included.
\<close>

lemma redacted_keeps_annotations: "gm_get (cm_annotations (redact_config_map c)) k = gm_get (cm_annotations c) k"
  by (simp add: redact_config_map_def)

section \<open>Logs\<close>

text \<open>The server is told to send no more than the bound, so a log that is longer than it is never seen and never marked.\<close>

definition obeys_limit :: "kube_api \<Rightarrow> bool" where
  "obeys_limit api \<longleftrightarrow> (\<forall>ns name c p n b s f. ka_log api ns name c p n b = Inr (s, f) \<longrightarrow> length s \<le> b)"

lemma log_never_marked:
  "obeys_limit api \<Longrightarrow> read_container_log api ns name c p = Inr (s, marked) \<Longrightarrow> \<not> marked"
  by (auto simp: read_container_log_def obeys_limit_def split: sum.splits prod.splits if_splits option.splits) (meson leD)

lemma previous_log_never_marked: "obeys_limit api \<Longrightarrow> \<not> snd (previous_log api ns name c p)"
  by (auto simp: previous_log_def split: sum.splits dest: log_never_marked)

end
