(* ===== verification/Runtime_Config.thy ===== *)
theory Runtime_Config
  imports Skills Run_Service
begin

text \<open>
  The configuration that is changed at run time (\<^verbatim>\<open>core/runtime_config.go\<close>, \<^verbatim>\<open>agent/domain/runtime_config.go\<close>,
  \<^verbatim>\<open>postgres/runtime_config_repository.go\<close>): overrides of tools and skills, patched, reset or rolled back, each change kept
  as a version with its difference and an audit. The repository is there, its schema is created and its JSON gives back what was
  stored; an empty map or list is not told apart from nil, and skills of equal ID keep their order when they are sorted.
\<close>

abbreviation refresh_interval :: duration where "refresh_interval \<equiv> 5 * second"

section \<open>Snapshots\<close>

record runtime_snapshot =
  sn_overrides :: "(string, tool_override) gmap"
  sn_skills :: "skill_definition list"

definition normalize_string_slice :: "string list \<Rightarrow> string list" where
  "normalize_string_slice vs = filter (\<lambda>v. v \<noteq> []) (map trim_space vs)"

definition clamp_int :: "int \<Rightarrow> int \<Rightarrow> int \<Rightarrow> int" where
  "clamp_int v lo hi = (if v < lo then lo else if hi < v then hi else v)"

definition normalize_tool_override :: "tool_override \<Rightarrow> tool_override" where
  "normalize_tool_override o1 = \<lparr>ov_enabled = ov_enabled o1,
     ov_description = (case ov_description o1 of Some d \<Rightarrow> if trim_space d \<noteq> [] then Some (trim_space d) else None | None \<Rightarrow> None),
     ov_timeout_ms = (case ov_timeout_ms o1 of Some n \<Rightarrow> if 0 < n then Some n else None | None \<Rightarrow> None),
     ov_observe_max_chars = (case ov_observe_max_chars o1 of Some n \<Rightarrow> if 0 < n then Some (clamp_int n 256 16000) else None | None \<Rightarrow> None),
     ov_read_only = ov_read_only o1\<rparr>"

definition no_override :: tool_override where
  "no_override = \<lparr>ov_enabled = None, ov_description = None, ov_timeout_ms = None, ov_observe_max_chars = None, ov_read_only = None\<rparr>"

definition tool_override_empty :: "tool_override \<Rightarrow> bool" where
  "tool_override_empty o1 \<longleftrightarrow> ov_enabled o1 = None \<and> ov_description o1 = None \<and> ov_timeout_ms o1 = None \<and> ov_observe_max_chars o1 = None
     \<and> ov_read_only o1 = None"

definition put_normalized :: "(string, tool_override) gmap \<Rightarrow> string \<times> tool_override \<Rightarrow> (string, tool_override) gmap" where
  "put_normalized out p =
    (let i = trim_space (fst p); o1 = normalize_tool_override (snd p) in
     if i = [] then out else if tool_override_empty o1 then out else gm_put i o1 out)"

definition normalize_overrides :: "(string, tool_override) gmap \<Rightarrow> (string, tool_override) gmap" where
  "normalize_overrides ovs = foldl put_normalized [] ovs"

definition normalize_skill :: "skill_definition \<Rightarrow> skill_definition" where
  "normalize_skill s = s\<lparr>sk_id := trim_space (sk_id s), sk_name := trim_space (sk_name s), sk_description := trim_space (sk_description s),
     sk_system_prompt := trim_space (sk_system_prompt s), sk_agent_types := normalize_string_slice (sk_agent_types s),
     sk_triggers := normalize_string_slice (sk_triggers s), sk_allowed_tools := normalize_string_slice (sk_allowed_tools s),
     sk_hints := normalize_string_slice (sk_hints s)\<rparr>"

definition normalize_skills :: "skill_definition list \<Rightarrow> skill_definition list" where
  "normalize_skills ss = sort_key sk_id (filter (\<lambda>s. sk_id s \<noteq> []) (map normalize_skill ss))"

definition normalize_runtime_snapshot :: "runtime_snapshot \<Rightarrow> runtime_snapshot" where
  "normalize_runtime_snapshot s = \<lparr>sn_overrides = normalize_overrides (sn_overrides s), sn_skills = normalize_skills (sn_skills s)\<rparr>"

fun validate_skills_from :: "nat \<Rightarrow> string list \<Rightarrow> skill_definition list \<Rightarrow> string option" where
  "validate_skills_from n seen [] = None"
| "validate_skills_from n seen (s # ss) =
    (let i = trim_space (sk_id s); place = ''skills['' @ nat_to_string n @ '']'' in
     if i = [] then Some (place @ ''.id must not be empty'')
     else if i \<in> set seen then Some (place @ ''.id '' @ quoted i @ '' is duplicated'')
     else if sk_triggers s = [] \<and> trim_space (sk_system_prompt s) = [] then Some (place @ '' ('' @ i @ '') must declare triggers or system_prompt'')
     else validate_skills_from (n + 1) (i # seen) ss)"

definition validate_reload_skills :: "skill_definition list \<Rightarrow> string option" where
  "validate_reload_skills ss = validate_skills_from 0 [] ss"

section \<open>Requests\<close>

record reload_skill =
  rsk_skill :: skill_definition
  rsk_enabled :: "bool option"

definition skill_to_domain :: "reload_skill \<Rightarrow> skill_definition" where
  "skill_to_domain r = (rsk_skill r)\<lparr>sk_id := trim_space (sk_id (rsk_skill r)), sk_name := trim_space (sk_name (rsk_skill r)),
     sk_description := trim_space (sk_description (rsk_skill r)), sk_enabled := (case rsk_enabled r of None \<Rightarrow> True | Some b \<Rightarrow> b)\<rparr>"

record reload_request =
  lq_reset :: bool
  lq_reason :: string
  lq_remove :: "string list"
  lq_overrides :: "(string, tool_override) gmap"
  lq_skills :: "reload_skill list option"

definition empty_runtime_mutation :: "reload_request \<Rightarrow> bool" where
  "empty_runtime_mutation q \<longleftrightarrow> lq_overrides q = [] \<and> lq_skills q = None \<and> lq_remove q = []"

definition patch_override :: "(string, tool_override) gmap \<Rightarrow> string \<times> tool_override \<Rightarrow> (string, tool_override) gmap" where
  "patch_override ovs p =
    (let i = trim_space (fst p); o1 = normalize_tool_override (snd p) in
     if i = [] then ovs else if tool_override_empty o1 then gm_del i ovs else gm_put i o1 ovs)"

definition merge_runtime_patch :: "runtime_snapshot \<Rightarrow> reload_request \<Rightarrow> runtime_snapshot" where
  "merge_runtime_patch before q =
    (let t = normalize_runtime_snapshot before;
         removed = foldl (\<lambda>ovs i. gm_del (trim_space i) ovs) (sn_overrides t) (lq_remove q);
         patched = foldl patch_override removed (lq_overrides q)
     in normalize_runtime_snapshot \<lparr>sn_overrides = patched,
          sn_skills = (case lq_skills q of None \<Rightarrow> sn_skills t | Some ss \<Rightarrow> map (\<lambda>s. normalize_skill (skill_to_domain s)) ss)\<rparr>)"

definition normalize_runtime_reason :: "string \<Rightarrow> string" where
  "normalize_runtime_reason reason = (let r = join '' '' (Go_Strings.fields reason) in
     if length (runes r) \<le> 512 then r else concat (take 512 (runes r)))"

definition normalize_runtime_config_limit :: "int \<Rightarrow> int" where
  "normalize_runtime_config_limit n = (if n \<le> 0 then 50 else if 200 < n then 200 else n)"

section \<open>Differences\<close>

record 'v runtime_change =
  xc_id :: string
  xc_type :: string
  xc_before :: "'v option"
  xc_after :: "'v option"

record runtime_diff =
  xd_tools :: "tool_override runtime_change list"
  xd_skills :: "skill_definition runtime_change list"

definition diff_empty :: "runtime_diff \<Rightarrow> bool" where
  "diff_empty d \<longleftrightarrow> xd_tools d = [] \<and> xd_skills d = []"

definition unique_sorted_keys :: "(string, 'v) gmap \<Rightarrow> (string, 'v) gmap \<Rightarrow> string list" where
  "unique_sorted_keys a b = sort (remdups (map fst a @ map fst b))"

text \<open>The change of one ID, if there is one; \<open>kept\<close> is what is done to the values that are kept.\<close>

definition change_of :: "('v \<Rightarrow> 'v) \<Rightarrow> ('v \<Rightarrow> 'v \<Rightarrow> bool) \<Rightarrow> (string, 'v) gmap \<Rightarrow> (string, 'v) gmap \<Rightarrow> string \<Rightarrow> 'v runtime_change list" where
  "change_of kept same a b i = (case (gm_get a i, gm_get b i) of
     (None, Some y) \<Rightarrow> [\<lparr>xc_id = i, xc_type = ''add'', xc_before = None, xc_after = Some (kept y)\<rparr>]
   | (Some x, None) \<Rightarrow> [\<lparr>xc_id = i, xc_type = ''remove'', xc_before = Some (kept x), xc_after = None\<rparr>]
   | (Some x, Some y) \<Rightarrow> if same x y then []
       else [\<lparr>xc_id = i, xc_type = ''update'', xc_before = Some (kept x), xc_after = Some (kept y)\<rparr>]
   | (None, None) \<Rightarrow> [])"

definition same_tool_override :: "tool_override \<Rightarrow> tool_override \<Rightarrow> bool" where
  "same_tool_override a b \<longleftrightarrow> ov_enabled a = ov_enabled b \<and> ov_description a = ov_description b \<and> ov_timeout_ms a = ov_timeout_ms b
     \<and> ov_observe_max_chars a = ov_observe_max_chars b \<and> ov_read_only a = ov_read_only b"

definition build_tool_override_changes ::
  "(string, tool_override) gmap \<Rightarrow> (string, tool_override) gmap \<Rightarrow> tool_override runtime_change list" where
  "build_tool_override_changes a b = concat (map (change_of normalize_tool_override same_tool_override a b) (unique_sorted_keys a b))"

definition skill_map :: "skill_definition list \<Rightarrow> (string, skill_definition) gmap" where
  "skill_map ss = foldl (\<lambda>m s0. let s = normalize_skill s0 in if sk_id s = [] then m else gm_put (sk_id s) s m) [] ss"

definition build_skill_changes :: "skill_definition list \<Rightarrow> skill_definition list \<Rightarrow> skill_definition runtime_change list" where
  "build_skill_changes a b = (let am = skill_map a; bm = skill_map b in
     concat (map (change_of normalize_skill (=) am bm) (unique_sorted_keys am bm)))"

definition build_runtime_config_diff :: "runtime_snapshot \<Rightarrow> runtime_snapshot \<Rightarrow> runtime_diff" where
  "build_runtime_config_diff before after =
    (let b = normalize_runtime_snapshot before; a = normalize_runtime_snapshot after in
     \<lparr>xd_tools = build_tool_override_changes (sn_overrides b) (sn_overrides a), xd_skills = build_skill_changes (sn_skills b) (sn_skills a)\<rparr>)"

section \<open>Versions and audits\<close>

record runtime_version =
  rv_id :: string
  rv_version :: int
  rv_operator :: string
  rv_reason :: string
  rv_snapshot :: runtime_snapshot
  rv_diff :: runtime_diff
  rv_created :: instant

record runtime_audit =
  ra_id :: string
  ra_version_id :: string
  ra_action :: string
  ra_operator :: string
  ra_reason :: string
  ra_diff :: runtime_diff
  ra_created :: instant

record runtime_tables =
  vt_versions :: "(string, runtime_version) gmap"
  vt_audits :: "(string, runtime_audit) gmap"

definition last_version :: "runtime_tables \<Rightarrow> runtime_version option" where
  "last_version t = (case rev (sort_key rv_version (map snd (vt_versions t))) of [] \<Rightarrow> None | v # _ \<Rightarrow> Some v)"

definition get_latest_version :: "go_error option \<Rightarrow> runtime_tables \<Rightarrow> runtime_version go_result" where
  "get_latest_version f t = stmt f (case last_version t of None \<Rightarrow> Inl ErrRecordNotFound | Some v \<Rightarrow> Inr v)"

definition get_version :: "go_error option \<Rightarrow> string \<Rightarrow> runtime_tables \<Rightarrow> runtime_version go_result" where
  "get_version f i t = stmt f (first_row (trim_space i) (\<lambda>r. True) (vt_versions t))"

text \<open>
  One transaction that holds the lock of the table: the lock, the latest version, the two rows and the commit may each fail. The service
  leaves the number to the repository.
\<close>

definition create_version :: "(nat \<Rightarrow> go_error option) \<Rightarrow> runtime_version \<Rightarrow> runtime_audit \<Rightarrow> runtime_tables
    \<Rightarrow> (runtime_version \<times> runtime_audit) go_result \<times> runtime_tables" where
  "create_version f v0 a0 t =
    (let v = (if rv_version v0 \<le> 0 then v0\<lparr>rv_version := (case last_version t of None \<Rightarrow> 0 | Some l \<Rightarrow> rv_version l) + 1\<rparr> else v0);
         a = a0\<lparr>ra_version_id := rv_id v\<rparr> in
     case after_stmt (stmt (f 0) (Inr ())) (\<lambda>_. after_stmt (stmt (f 1) (Inr ())) (\<lambda>_.
          after_stmt (stmt (f 2) (if rv_version v \<in> rv_version ` set (map snd (vt_versions t)) then Inl ErrDuplicatedKey
            else insert_row (rv_id v) v (vt_versions t))) (\<lambda>vs.
          after_stmt (stmt (f 3) (insert_row (ra_id a) a (vt_audits t))) (\<lambda>as.
          stmt (f 4) (Inr \<lparr>vt_versions = vs, vt_audits = as\<rparr>))))) of
       Inl e \<Rightarrow> (Inl e, t)
     | Inr t1 \<Rightarrow> (Inr (v, a), t1))"

definition list_versions :: "go_error option \<Rightarrow> int \<Rightarrow> runtime_tables \<Rightarrow> runtime_version list go_result" where
  "list_versions f n t = stmt f (Inr (take (nat (normalize_runtime_config_limit n)) (rev (sort_key rv_version (map snd (vt_versions t))))))"

definition list_audits :: "go_error option \<Rightarrow> string \<Rightarrow> int \<Rightarrow> runtime_tables \<Rightarrow> runtime_audit list go_result" where
  "list_audits f i n t = stmt f (Inr (take (nat (normalize_runtime_config_limit n)) (rev (sort_key ra_created
     (filter (\<lambda>a. trim_space i = [] \<or> ra_version_id a = trim_space i) (map snd (vt_audits t)))))))"

section \<open>An instance\<close>

record runtime_instance =
  ri_tools :: tool_registry
  ri_skills :: skill_registry
  ri_version :: int
  ri_last_check :: instant

text \<open>What a call is given: the checks of requests, the fresh IDs, the clock, and the failures of statements.\<close>

record runtime_env =
  ye_invalid :: "reload_request \<Rightarrow> go_error option"
  ye_invalid_rollback :: "string \<Rightarrow> go_error option"
  ye_version_id :: string
  ye_audit_id :: string
  ye_now :: instant
  ye_fault :: "nat \<Rightarrow> go_error option"

record reload_result =
  yr_reverted :: bool
  yr_changed :: bool
  yr_version_id :: string
  yr_version :: int
  yr_audit_id :: string
  yr_rolled_back_from :: string
  yr_tools_enabled :: nat
  yr_tools_disabled :: nat
  yr_skills_active :: nat

definition current_runtime_snapshot :: "runtime_instance \<Rightarrow> runtime_snapshot" where
  "current_runtime_snapshot s = \<lparr>sn_overrides = tr_overrides (ri_tools s), sn_skills = sr_list (ri_skills s)\<rparr>"

definition apply_runtime_snapshot :: "runtime_snapshot \<Rightarrow> runtime_instance \<Rightarrow> runtime_instance" where
  "apply_runtime_snapshot sn0 s = (let sn = normalize_runtime_snapshot sn0 in
     s\<lparr>ri_tools := set_overrides (sn_overrides sn) (ri_tools s), ri_skills := set_skills (sn_skills sn) (ri_skills s)\<rparr>)"

definition reload_result_of :: "runtime_instance \<Rightarrow> bool \<Rightarrow> reload_result" where
  "reload_result_of s reverted = \<lparr>yr_reverted = reverted, yr_changed = False, yr_version_id = [], yr_version = 0, yr_audit_id = [],
     yr_rolled_back_from = [], yr_tools_enabled = length (filter td_enabled (tr_list (ri_tools s))),
     yr_tools_disabled = length (filter (\<lambda>t. \<not> td_enabled t) (tr_list (ri_tools s))),
     yr_skills_active = length (filter sk_enabled (sr_list (ri_skills s)))\<rparr>"

text \<open>Under the mutex of the refresh; the time is read once before it and once in it.\<close>

definition refresh_runtime_config :: "go_error option \<Rightarrow> instant \<Rightarrow> bool \<Rightarrow> runtime_tables \<Rightarrow> runtime_instance \<Rightarrow> runtime_instance" where
  "refresh_runtime_config f now force t s =
    (if \<not> force \<and> now - ri_last_check s < refresh_interval then s
     else case get_latest_version f t of
       Inl _ \<Rightarrow> s\<lparr>ri_last_check := now\<rparr>
     | Inr v \<Rightarrow>
        if rv_version v \<le> ri_version s \<and> \<not> force then s\<lparr>ri_last_check := now\<rparr>
        else (let sn = normalize_runtime_snapshot (rv_snapshot v) in
          if validate_reload_skills (sn_skills sn) \<noteq> None then s\<lparr>ri_last_check := now\<rparr>
          else (apply_runtime_snapshot sn s)\<lparr>ri_version := rv_version v, ri_last_check := now\<rparr>))"

definition load_persisted :: "go_error option \<Rightarrow> instant \<Rightarrow> runtime_tables \<Rightarrow> runtime_instance \<Rightarrow> runtime_instance" where
  "load_persisted f now t s = (case get_latest_version f t of
     Inl _ \<Rightarrow> s
   | Inr v \<Rightarrow> (let sn = normalize_runtime_snapshot (rv_snapshot v) in
       if validate_reload_skills (sn_skills sn) \<noteq> None then s
       else (apply_runtime_snapshot sn s)\<lparr>ri_version := rv_version v, ri_last_check := now\<rparr>))"

definition persist_runtime_config :: "runtime_env \<Rightarrow> string \<Rightarrow> string \<Rightarrow> string \<Rightarrow> runtime_snapshot \<Rightarrow> runtime_diff \<Rightarrow> runtime_tables
    \<Rightarrow> (runtime_version \<times> runtime_audit) go_result \<times> runtime_tables" where
  "persist_runtime_config env operator action reason sn d t =
    create_version (ye_fault env)
      \<lparr>rv_id = ye_version_id env, rv_version = 0, rv_operator = operator, rv_reason = reason, rv_snapshot = normalize_runtime_snapshot sn,
       rv_diff = d, rv_created = ye_now env\<rparr>
      \<lparr>ra_id = ye_audit_id env, ra_version_id = ye_version_id env, ra_action = action, ra_operator = operator, ra_reason = reason, ra_diff = d,
       ra_created = ye_now env\<rparr> t"

text \<open>
  The result, with the ID that is published when a version was stored. The change is in force before it is stored, and taken back when
  that fails.
\<close>

definition apply_and_persist :: "runtime_env \<Rightarrow> string \<Rightarrow> string \<Rightarrow> string \<Rightarrow> runtime_snapshot \<Rightarrow> runtime_snapshot \<Rightarrow> bool
    \<Rightarrow> runtime_tables \<Rightarrow> runtime_instance \<Rightarrow> (reload_result \<times> string option) go_result \<times> runtime_tables \<times> runtime_instance" where
  "apply_and_persist env operator action reason before0 target0 reverted t s =
    (let target = normalize_runtime_snapshot target0 in
     case validate_reload_skills (sn_skills target) of
       Some msg \<Rightarrow> (Inl (ErrApp CodeBadRequest msg 400 None), t, s)
     | None \<Rightarrow>
        (let before = normalize_runtime_snapshot before0; d = build_runtime_config_diff before target in
         if action = ''reload'' \<and> diff_empty d then (Inr (reload_result_of s reverted, None), t, s)
         else
          (let s1 = apply_runtime_snapshot target s in
           case persist_runtime_config env operator action reason target d t of
             (Inl e, t1) \<Rightarrow> (Inl e, t1, apply_runtime_snapshot before s1)
           | (Inr (v, a), t1) \<Rightarrow>
              (let s2 = s1\<lparr>ri_version := rv_version v, ri_last_check := ye_now env\<rparr> in
               (Inr ((reload_result_of s2 reverted)\<lparr>yr_changed := \<not> diff_empty d, yr_version_id := rv_id v, yr_version := rv_version v,
                  yr_audit_id := ra_id a\<rparr>, Some (rv_id v)), t1, s2)))))"

section \<open>The operations\<close>

text \<open>\<open>startup\<close> is the configuration the process was started with. The statement of the refresh comes first.\<close>

definition reload_tools :: "runtime_env \<Rightarrow> go_error option \<Rightarrow> runtime_snapshot \<Rightarrow> string \<Rightarrow> reload_request \<Rightarrow> runtime_tables \<Rightarrow> runtime_instance
    \<Rightarrow> (reload_result \<times> string option) go_result \<times> runtime_tables \<times> runtime_instance" where
  "reload_tools env f startup user q t s0 = (case agent_normalize_user_id user of
     Inl e \<Rightarrow> (Inl e, t, s0)
   | Inr u \<Rightarrow> (case ye_invalid env q of
       Some e \<Rightarrow> (Inl e, t, s0)
     | None \<Rightarrow>
        (let s = refresh_runtime_config f (ye_now env) False t s0;
             before = current_runtime_snapshot s;
             back = (lq_reset q \<or> empty_runtime_mutation q) in
         apply_and_persist env u (if back then ''reset'' else ''reload'') (normalize_runtime_reason (lq_reason q)) before
           (if back then startup else merge_runtime_patch before q) back t s)))"

definition rollback_version :: "runtime_env \<Rightarrow> (nat \<Rightarrow> go_error option) \<Rightarrow> string \<Rightarrow> string \<Rightarrow> string \<Rightarrow> runtime_tables \<Rightarrow> runtime_instance
    \<Rightarrow> (reload_result \<times> string option) go_result \<times> runtime_tables \<times> runtime_instance" where
  "rollback_version env f user versionID0 reason0 t s0 = (case agent_normalize_user_id user of
     Inl e \<Rightarrow> (Inl e, t, s0)
   | Inr u \<Rightarrow> (case ye_invalid_rollback env reason0 of
       Some e \<Rightarrow> (Inl e, t, s0)
     | None \<Rightarrow>
        (let s = refresh_runtime_config (f 0) (ye_now env) False t s0 in
         if trim_space versionID0 = [] then (Inl (ErrApp CodeBadRequest ''runtime config version id is required'' 400 None), t, s)
         else case get_version (f 1) (trim_space versionID0) t of
           Inl e \<Rightarrow> (Inl (the (map_repository (Some e) \<lparr>not_found_code = CodeNotFound, not_found_message = ''runtime config version not found'',
               conflict_code = 0, conflict_message = []\<rparr>)), t, s)
         | Inr v \<Rightarrow>
            (let r = normalize_runtime_reason reason0;
                 reason = (if r = [] then ''rollback to version '' @ itoa (rv_version v) else r) in
             case apply_and_persist env u ''rollback'' reason (current_runtime_snapshot s) (normalize_runtime_snapshot (rv_snapshot v)) True t s of
               (Inl e, t1, s1) \<Rightarrow> (Inl e, t1, s1)
             | (Inr (r, i), t1, s1) \<Rightarrow> (Inr (r\<lparr>yr_rolled_back_from := rv_id v\<rparr>, i), t1, s1)))))"

definition list_runtime_config_versions :: "go_error option \<Rightarrow> string \<Rightarrow> int \<Rightarrow> runtime_tables \<Rightarrow> runtime_version list go_result" where
  "list_runtime_config_versions f user n t = (case agent_normalize_user_id user of
     Inl e \<Rightarrow> Inl e | Inr u \<Rightarrow> list_versions f (normalize_runtime_config_limit n) t)"

definition list_runtime_config_audits :: "go_error option \<Rightarrow> string \<Rightarrow> string \<Rightarrow> int \<Rightarrow> runtime_tables \<Rightarrow> runtime_audit list go_result" where
  "list_runtime_config_audits f user i n t = (case agent_normalize_user_id user of
     Inl e \<Rightarrow> Inl e | Inr u \<Rightarrow> list_audits f (trim_space i) (normalize_runtime_config_limit n) t)"

end
