(* ===== verification/Runtime_History.thy ===== *)
theory Runtime_History
  imports Runtime_Config
begin

text \<open>
  The history of the runtime configuration: normal forms, differences that lead from one snapshot to the next, the versions one instance
  writes, and what two instances may lose.
\<close>

section \<open>Normal forms\<close>

lemma normalize_tool_override_idem [simp]: "normalize_tool_override (normalize_tool_override o1) = normalize_tool_override o1"
  by (auto simp: normalize_tool_override_def clamp_int_def split: option.splits)

definition overrides_ok :: "(string, tool_override) gmap \<Rightarrow> bool" where
  "overrides_ok ovs \<longleftrightarrow> distinct (map fst ovs) \<and> (\<forall>(i, o1) \<in> set ovs. trim_space i = i \<and> i \<noteq> [] \<and> normalize_tool_override o1 = o1 \<and> \<not> tool_override_empty o1)"

lemma gm_put_at_end: "i \<notin> fst ` set m \<Longrightarrow> gm_put i v m = m @ [(i, v)]"
  by (induction m) (auto simp: gm_put_def)

lemma gm_put_mem: "p \<in> set (gm_put i v m) \<Longrightarrow> p = (i, v) \<or> p \<in> set m"
  by (induction m) (auto simp: gm_put_def split: if_splits)

lemma overrides_ok_put:
  "overrides_ok m \<Longrightarrow> trim_space i = i \<Longrightarrow> i \<noteq> [] \<Longrightarrow> normalize_tool_override o1 = o1 \<Longrightarrow> \<not> tool_override_empty o1 \<Longrightarrow> overrides_ok (gm_put i o1 m)"
  by (fastforce simp: overrides_ok_def distinct_update gm_put_def [symmetric] dest: gm_put_mem intro: distinct_update [folded gm_put_def])

lemma normalize_overrides_ok: "overrides_ok (normalize_overrides ovs)"
proof -
  have "overrides_ok m \<Longrightarrow> overrides_ok (foldl put_normalized m ovs)" for m
  proof (induction ovs arbitrary: m)
    case (Cons p ovs)
    then have "overrides_ok (put_normalized m p)" by (simp add: put_normalized_def Let_def overrides_ok_put)
    with Cons.IH show ?case by simp
  qed simp
  moreover have "overrides_ok []" by (simp add: overrides_ok_def)
  ultimately show ?thesis by (simp add: normalize_overrides_def)
qed

lemma foldl_put_ok:
  assumes "\<And>m p. p \<in> set ovs \<Longrightarrow> put m p = gm_put (fst p) (snd p) m"
    and "distinct (map fst (m @ ovs))"
  shows "foldl put m ovs = m @ ovs"
  using assms
proof (induction ovs arbitrary: m)
  case (Cons p ovs)
  from Cons.prems have "put m p = m @ [p]" by (auto simp: gm_put_at_end)
  moreover have "foldl put (m @ [p]) ovs = (m @ [p]) @ ovs" by (rule Cons.IH) (use Cons.prems in auto)
  ultimately show ?case by simp
qed simp

lemma normalize_overrides_id: "overrides_ok ovs \<Longrightarrow> normalize_overrides ovs = ovs"
  unfolding normalize_overrides_def
  using foldl_put_ok [of ovs put_normalized "[]"] by (fastforce simp: overrides_ok_def put_normalized_def Let_def)

lemma put_overrides_id: "overrides_ok ovs \<Longrightarrow> foldl put_override [] ovs = ovs"
  using foldl_put_ok [of ovs put_override "[]"] by (fastforce simp: overrides_ok_def put_override_def Let_def)

lemma normalize_string_slice_idem [simp]: "normalize_string_slice (normalize_string_slice vs) = normalize_string_slice vs"
  by (induction vs) (auto simp: normalize_string_slice_def)

lemma normalize_skill_idem [simp]: "normalize_skill (normalize_skill s) = normalize_skill s"
  by (simp add: normalize_skill_def)

lemma normalize_skill_fixed: "s \<in> set (normalize_skills ss) \<Longrightarrow> normalize_skill s = s \<and> sk_id s \<noteq> []"
  by (auto simp: normalize_skills_def)

lemma normalize_skills_id:
  "sorted (map sk_id ss) \<Longrightarrow> \<forall>s \<in> set ss. normalize_skill s = s \<and> sk_id s \<noteq> [] \<Longrightarrow> normalize_skills ss = ss"
  by (simp add: normalize_skills_def map_idI sort_key_id_if_sorted)

lemma normalize_skills_idem [simp]: "normalize_skills (normalize_skills ss) = normalize_skills ss"
  by (rule normalize_skills_id) (auto simp: normalize_skill_fixed, simp add: normalize_skills_def)

lemma normalize_runtime_snapshot_idem [simp]:
  "normalize_runtime_snapshot (normalize_runtime_snapshot s) = normalize_runtime_snapshot s"
  by (simp add: normalize_runtime_snapshot_def normalize_overrides_id normalize_overrides_ok)

lemma validate_skills_from_distinct:
  "validate_skills_from n seen ss = None \<Longrightarrow> distinct (map (\<lambda>s. trim_space (sk_id s)) ss)
    \<and> set seen \<inter> (\<lambda>s. trim_space (sk_id s)) ` set ss = {}"
  by (induction n seen ss rule: validate_skills_from.induct) (auto simp: Let_def split: if_splits)

definition snapshot_ok :: "runtime_snapshot \<Rightarrow> bool" where
  "snapshot_ok sn \<longleftrightarrow> normalize_runtime_snapshot sn = sn \<and> validate_reload_skills (sn_skills sn) = None"

lemma snapshot_okD:
  assumes "snapshot_ok sn"
  shows "overrides_ok (sn_overrides sn)" "sorted (map sk_id (sn_skills sn))" "distinct (map sk_id (sn_skills sn))"
    "\<forall>s \<in> set (sn_skills sn). normalize_skill s = s \<and> sk_id s \<noteq> [] \<and> trim_space (sk_id s) = sk_id s"
proof -
  from assms have n: "sn_overrides sn = normalize_overrides (sn_overrides sn)" "sn_skills sn = normalize_skills (sn_skills sn)"
    by (simp_all add: snapshot_ok_def normalize_runtime_snapshot_def) (metis runtime_snapshot.select_convs)+
  show "overrides_ok (sn_overrides sn)" by (subst n) (rule normalize_overrides_ok)
  show "sorted (map sk_id (sn_skills sn))" by (subst n) (simp add: normalize_skills_def)
  show f: "\<forall>s \<in> set (sn_skills sn). normalize_skill s = s \<and> sk_id s \<noteq> [] \<and> trim_space (sk_id s) = sk_id s"
  proof
    fix s assume "s \<in> set (sn_skills sn)"
    with n(2) normalize_skill_fixed [of s "sn_skills sn"] have "normalize_skill s = s \<and> sk_id s \<noteq> []" by simp
    moreover from this have "sk_id (normalize_skill s) = sk_id s" by simp
    then have "trim_space (sk_id s) = sk_id s" by (simp add: normalize_skill_def)
    ultimately show "normalize_skill s = s \<and> sk_id s \<noteq> [] \<and> trim_space (sk_id s) = sk_id s" by simp
  qed
  from assms have "distinct (map (\<lambda>s. trim_space (sk_id s)) (sn_skills sn))"
    using validate_skills_from_distinct [of 0 "[]" "sn_skills sn"] by (simp add: snapshot_ok_def validate_reload_skills_def)
  then show "distinct (map sk_id (sn_skills sn))" using f by (simp cong: map_cong)
qed

lemma set_skills_list:
  assumes "distinct (map sk_id ss)" and "\<forall>s \<in> set ss. sk_id s \<noteq> [] \<and> trim_space (sk_id s) = sk_id s"
  shows "sr_skills (set_skills ss r) = map (\<lambda>s. (sk_id s, s)) ss"
proof -
  have "distinct (map fst (sr_skills acc) @ map sk_id ss) \<Longrightarrow>
      sr_skills (foldl (\<lambda>acc s. sr_register s acc) acc ss) = sr_skills acc @ map (\<lambda>s. (sk_id s, s)) ss" for acc
    using assms
  proof (induction ss arbitrary: acc)
    case (Cons s ss)
    from Cons.prems have "sr_skills (sr_register s acc) = sr_skills acc @ [(sk_id s, s)]"
      by (auto simp: sr_register_def Let_def gm_put_at_end)
    moreover have "sr_skills (foldl (\<lambda>acc s. sr_register s acc) (sr_register s acc) ss)
        = sr_skills (sr_register s acc) @ map (\<lambda>s. (sk_id s, s)) ss"
      by (rule Cons.IH) (use Cons.prems calculation in auto)
    ultimately show ?case by simp
  qed simp
  from this [of new_skill_registry] assms show ?thesis by (simp add: set_skills_def new_skill_registry_def)
qed

text \<open>What is applied is what is read back.\<close>

lemma current_applied: "snapshot_ok sn \<Longrightarrow> current_runtime_snapshot (apply_runtime_snapshot sn s) = sn"
proof -
  assume ok: "snapshot_ok sn"
  note d = snapshot_okD [OF ok]
  have "sr_list (set_skills (sn_skills sn) r) = sn_skills sn" for r
    using set_skills_list [of "sn_skills sn" r] d by (simp add: sr_list_def o_def sort_key_id_if_sorted)
  moreover have "tr_overrides (set_overrides (sn_overrides sn) r) = sn_overrides sn" for r
    by (simp add: set_overrides_def rebuild_locked_def put_overrides_id d(1))
  ultimately show ?thesis
    using ok by (simp add: current_runtime_snapshot_def apply_runtime_snapshot_def Let_def snapshot_ok_def)
qed

section \<open>Differences\<close>

definition apply_changes :: "'v runtime_change list \<Rightarrow> (string, 'v) gmap \<Rightarrow> (string, 'v) gmap" where
  "apply_changes cs m = foldl (\<lambda>m c. case xc_after c of None \<Rightarrow> gm_del (xc_id c) m | Some v \<Rightarrow> gm_put (xc_id c) v m) m cs"





definition turns :: "runtime_diff \<Rightarrow> runtime_snapshot \<Rightarrow> runtime_snapshot \<Rightarrow> bool" where
  "turns d a b \<longleftrightarrow> (\<forall>k. gm_get (apply_changes (xd_tools d) (sn_overrides a)) k = gm_get (sn_overrides b) k)
     \<and> (\<forall>k. gm_get (apply_changes (xd_skills d) (skill_map (sn_skills a))) k = gm_get (skill_map (sn_skills b)) k)"





section \<open>The versions of an instance\<close>

definition stored_versions :: "runtime_tables \<Rightarrow> runtime_version set" where
  "stored_versions t = snd ` set (vt_versions t)"

text \<open>
  Versions have numbers of their own, from 1 on without gaps, and each is led to by its difference from the one before; an audit has the
  difference of its version.
\<close>

definition history_ok :: "runtime_tables \<Rightarrow> bool" where
  "history_ok t \<longleftrightarrow> gm_ok (vt_versions t)
     \<and> (\<forall>v \<in> stored_versions t. 1 \<le> rv_version v \<and> snapshot_ok (rv_snapshot v) \<and> gm_get (vt_versions t) (rv_id v) = Some v)
     \<and> (\<forall>v \<in> stored_versions t. \<forall>w \<in> stored_versions t. rv_version v = rv_version w \<longrightarrow> v = w)
     \<and> (\<forall>v \<in> stored_versions t. 1 < rv_version v \<longrightarrow>
          (\<exists>u \<in> stored_versions t. rv_version u = rv_version v - 1 \<and> turns (rv_diff v) (rv_snapshot u) (rv_snapshot v)))
     \<and> (\<forall>a \<in> snd ` set (vt_audits t). \<exists>v \<in> stored_versions t. rv_id v = ra_version_id a \<and> rv_diff v = ra_diff a)"

definition in_step :: "runtime_tables \<Rightarrow> runtime_instance \<Rightarrow> bool" where
  "in_step t s \<longleftrightarrow> (case last_version t of None \<Rightarrow> True | Some l \<Rightarrow> current_runtime_snapshot s = rv_snapshot l \<and> ri_version s = rv_version l)"


lemma last_version_Some:
  assumes "last_version t = Some l"
  shows "l \<in> stored_versions t \<and> (\<forall>v \<in> stored_versions t. rv_version v \<le> rv_version l)"
proof -
  let ?vs = "sort_key rv_version (map snd (vt_versions t))"
  from assms obtain vs where r: "rev ?vs = l # vs" by (auto simp: last_version_def split: list.splits)
  then have e: "?vs = rev vs @ [l]" by (metis rev_eq_Cons_iff)
  have "sorted (map rv_version ?vs)" by simp
  with e have "\<forall>v \<in> set ?vs. rv_version v \<le> rv_version l" by (auto simp: sorted_append)
  moreover from e have "l \<in> set ?vs" by simp
  ultimately show ?thesis by (simp add: stored_versions_def)
qed







lemma current_frame [simp]:
  "current_runtime_snapshot (s\<lparr>ri_version := n\<rparr>) = current_runtime_snapshot s"
  "current_runtime_snapshot (s\<lparr>ri_last_check := now\<rparr>) = current_runtime_snapshot s"
  by (simp_all add: current_runtime_snapshot_def)

lemma apply_version [simp]: "ri_version (apply_runtime_snapshot sn s) = ri_version s"
  by (simp add: apply_runtime_snapshot_def Let_def)

lemma in_step_frame [simp]: "in_step t (s\<lparr>ri_last_check := now\<rparr>) = in_step t s"
  by (simp add: in_step_def split: option.split)


lemma stored_latest_ok: "history_ok t \<Longrightarrow> last_version t = Some l \<Longrightarrow> snapshot_ok (rv_snapshot l)"
  using last_version_Some [of t l] by (auto simp: history_ok_def)


lemma forced_refresh_in_step: "history_ok t \<Longrightarrow> in_step t (refresh_runtime_config None now True t s)"
  using stored_latest_ok [of t]
  by (cases "last_version t")
    (auto simp: refresh_runtime_config_def get_latest_version_def in_step_def snapshot_ok_def Let_def current_applied [unfolded snapshot_ok_def])

lemma start_in_step: "history_ok t \<Longrightarrow> in_step t (load_persisted None now t s)"
  using stored_latest_ok [of t]
  by (cases "last_version t")
    (auto simp: load_persisted_def get_latest_version_def in_step_def snapshot_ok_def Let_def current_applied [unfolded snapshot_ok_def])


section \<open>Runs of operations\<close>











section \<open>A small instance\<close>

definition sample_runtime_env :: "string \<Rightarrow> runtime_env" where
  "sample_runtime_env i = \<lparr>ye_invalid = (\<lambda>q. None), ye_invalid_rollback = (\<lambda>r. None), ye_version_id = ''v'' @ i, ye_audit_id = ''a'' @ i, ye_now = 1,
     ye_fault = (\<lambda>n. None)\<rparr>"

definition sample_runtime_instance :: runtime_instance where
  "sample_runtime_instance = \<lparr>ri_tools = new_tool_registry [], ri_skills = new_skill_registry, ri_version = 0, ri_last_check = 0\<rparr>"

definition patch_of :: "string \<Rightarrow> tool_override \<Rightarrow> reload_request" where
  "patch_of i o1 = \<lparr>lq_reset = False, lq_reason = [], lq_remove = [], lq_overrides = [(i, o1)], lq_skills = None\<rparr>"

abbreviation "disabling \<equiv> no_override\<lparr>ov_enabled := Some False\<rparr>"
abbreviation "slower \<equiv> no_override\<lparr>ov_timeout_ms := Some 9000\<rparr>"


abbreviation "empty_snapshot \<equiv> \<lparr>sn_overrides = [], sn_skills = []\<rparr>"
abbreviation "no_versions \<equiv> \<lparr>vt_versions = [], vt_audits = []\<rparr>"



section \<open>What gets lost\<close>

text \<open>
  Two instances that change different tools within the interval of a refresh: the snapshot stored last was made from what its instance
  knew, and the change of the other is gone, although the table is locked for each of them.
\<close>

lemma second_instance_drops_change:
  "(let (r1, t1, a) = reload_tools (sample_runtime_env ''1'') None empty_snapshot ''u'' (patch_of ''x'' disabling) no_versions sample_runtime_instance;
        (r2, t2, b) = reload_tools (sample_runtime_env ''2'') None empty_snapshot ''u'' (patch_of ''y'' slower) t1 sample_runtime_instance
    in map_option (\<lambda>l. (rv_version l, map fst (sn_overrides (rv_snapshot l)), map xc_id (xd_tools (rv_diff l)))) (last_version t2))
   = Some (2, [''y''], [''y''])"
  by code_simp

text \<open>A patch of one field of an override replaces the whole of it: a disabled tool whose timeout is changed is enabled again.\<close>

lemma patch_replaces_override:
  "map (\<lambda>(i, o1). (i, ov_enabled o1)) (sn_overrides (merge_runtime_patch \<lparr>sn_overrides = [(''x'', disabling)], sn_skills = []\<rparr> (patch_of ''x'' slower)))
   = [(''x'', None)]"
  by code_simp

text \<open>
  A change that cannot be stored puts the old snapshot back, also over a newer one that was loaded meanwhile; as the number of the newer one
  stays, no refresh but a forced one repairs it.
\<close>

lemma failed_change_undoes_refresh:
  assumes "history_ok t" and "last_version t = Some l" and "snapshot_ok before"
    and "s2 = apply_runtime_snapshot before (refresh_runtime_config None now True t (apply_runtime_snapshot target s))"
  shows "current_runtime_snapshot s2 = before \<and> ri_version s2 = rv_version l
    \<and> current_runtime_snapshot (refresh_runtime_config f later_now False t s2) = before"
proof -
  have v: "ri_version s2 = rv_version l"
    using stored_latest_ok [OF assms(1,2)] assms(2,4)
    by (simp add: refresh_runtime_config_def get_latest_version_def Let_def snapshot_ok_def)
  have c: "current_runtime_snapshot s2 = before" using assms(3,4) by (simp add: current_applied)
  have "current_runtime_snapshot (refresh_runtime_config f later_now False t s2) = current_runtime_snapshot s2"
    using assms(2) v by (auto simp: refresh_runtime_config_def get_latest_version_def stmt_def split: option.splits)
  with c v show ?thesis by simp
qed

text \<open>Skills are stored in the order of their IDs, so after a change of a tool the first declared one of equal skills is another.\<close>

definition sample_skill :: "string \<Rightarrow> skill_definition" where
  "sample_skill i = \<lparr>sk_id = i, sk_name = [], sk_description = [], sk_enabled = True, sk_agent_types = [], sk_triggers = [''oom''],
     sk_system_prompt = [], sk_allowed_tools = [], sk_hints = []\<rparr>"

lemma change_reorders_skills:
  "(let s = sample_runtime_instance\<lparr>ri_skills := set_skills [sample_skill ''b'', sample_skill ''a''] new_skill_registry\<rparr>;
        (r, t1, s1) = reload_tools (sample_runtime_env ''1'') None empty_snapshot ''u'' (patch_of ''x'' slower) no_versions s
    in (map_option sk_id (match_for_agent (ri_skills s) [] ''oom''), map_option sk_id (match_for_agent (ri_skills s1) [] ''oom'')))
   = (Some ''b'', Some ''a'')"
  by code_simp

end
